(* ===== verification/Prelude.thy ===== *)
theory Prelude
  imports Main "HOL-Library.AList" "HOL-Library.Char_ord" "HOL-Library.List_Lexorder"
    "HOL-Library.Sublist"
begin

text \<open>
  Shared ground of the development: the rule collections, Python dictionaries (as
  association lists in insertion order), the string operations of the standard library
  that the agent uses (on ASCII text), and programs over an explicit state that may raise
  an error and keep the state reached so far, as Python code with side effects does.
\<close>

named_theorems dict_simps \<open>lookup and key facts of insertion-ordered dictionaries\<close>
named_theorems prog_defs \<open>definitions of the program combinators\<close>
named_theorems step_intros \<open>introduction rules for step relations of programs\<close>

section \<open>Dictionaries in insertion order\<close>

type_synonym 'v dict = "(string \<times> 'v) list"

abbreviation dict_get :: "'v dict \<Rightarrow> string \<Rightarrow> 'v option" where
  "dict_get d k \<equiv> map_of d k"

abbreviation dict_set :: "string \<Rightarrow> 'v \<Rightarrow> 'v dict \<Rightarrow> 'v dict" where
  "dict_set k v d \<equiv> AList.update k v d"

abbreviation dict_pop :: "string \<Rightarrow> 'v dict \<Rightarrow> 'v dict" where
  "dict_pop k d \<equiv> AList.delete k d"

abbreviation dict_keys :: "'v dict \<Rightarrow> string list" where
  "dict_keys d \<equiv> map fst d"

abbreviation dict_values :: "'v dict \<Rightarrow> 'v list" where
  "dict_values d \<equiv> map snd d"

definition dict_has :: "'v dict \<Rightarrow> string \<Rightarrow> bool" where
  "dict_has d k \<longleftrightarrow> dict_get d k \<noteq> None"

text \<open>\<open>d.update(e)\<close>, also the literal \<open>{**d, **e}\<close>.\<close>

primrec dict_update :: "'v dict \<Rightarrow> 'v dict \<Rightarrow> 'v dict" where
  "dict_update d [] = d"
| "dict_update d (kv # e) = dict_update (dict_set (fst kv) (snd kv) d) e"

lemma dict_get_set [dict_simps]:
  "dict_get (dict_set k v d) k' = (if k' = k then Some v else dict_get d k')"
  by (simp add: AList.update_conv)

lemma dict_get_pop [dict_simps]:
  "dict_get (dict_pop k d) k' = (if k' = k then None else dict_get d k')"
  by (simp add: AList.delete_conv)

lemma dict_set_distinct [simp, intro]:
  "distinct (dict_keys d) \<Longrightarrow> distinct (dict_keys (dict_set k v d))"
  by (rule AList.distinct_update)

lemma dict_set_keys: "set (dict_keys (dict_set k v d)) = insert k (set (dict_keys d))"
  by (simp add: AList.update_keys insert_absorb)

lemma dict_has_iff: "dict_has d k \<longleftrightarrow> k \<in> set (dict_keys d)"
  by (simp add: dict_has_def map_of_eq_None_iff)

lemma dict_set_in:
  "x \<in> set (dict_set k v d) \<Longrightarrow> x = (k, v) \<or> x \<in> set d"
  by (induction d) (auto split: if_splits)

lemma dict_get_in: "dict_get d k = Some v \<Longrightarrow> (k, v) \<in> set d"
  by (rule map_of_SomeD)

lemma dict_get_update:
  "dict_get (dict_update x d) k =
    (case dict_get (rev d) k of None \<Rightarrow> dict_get x k | Some v \<Rightarrow> Some v)"
  by (induction d arbitrary: x) (auto simp: dict_simps map_add_def split: option.splits)

lemma dict_get_rev_Some: "dict_get (rev d) k = Some v \<Longrightarrow> dict_has d k"
  by (auto simp: dict_has_iff dest!: map_of_SomeD intro: rev_image_eqI)

lemma dict_get_values:
  "distinct (dict_keys d) \<Longrightarrow> v \<in> set (dict_values d) \<longleftrightarrow> (\<exists>k. dict_get d k = Some v)"
  by (force dest: map_of_SomeD)

section \<open>Strings\<close>

definition char_code :: "char \<Rightarrow> int" where
  "char_code c = of_char c"

text \<open>\<open>str.isspace\<close> and the class \<open>\s\<close> of \<open>re\<close>, on ASCII.\<close>

definition is_space :: "char \<Rightarrow> bool" where
  "is_space c \<longleftrightarrow> (let n = char_code c in (9 \<le> n \<and> n \<le> 13) \<or> (28 \<le> n \<and> n \<le> 32))"

definition is_upper :: "char \<Rightarrow> bool" where
  "is_upper c \<longleftrightarrow> (let n = char_code c in 65 \<le> n \<and> n \<le> 90)"

definition is_lower :: "char \<Rightarrow> bool" where
  "is_lower c \<longleftrightarrow> (let n = char_code c in 97 \<le> n \<and> n \<le> 122)"

definition is_digit :: "char \<Rightarrow> bool" where
  "is_digit c \<longleftrightarrow> (let n = char_code c in 48 \<le> n \<and> n \<le> 57)"

definition is_alnum :: "char \<Rightarrow> bool" where
  "is_alnum c \<longleftrightarrow> is_upper c \<or> is_lower c \<or> is_digit c"

definition is_word :: "char \<Rightarrow> bool" where
  "is_word c \<longleftrightarrow> is_alnum c \<or> c = CHR ''_''"

definition to_lower :: "char \<Rightarrow> char" where
  "to_lower c = (if is_upper c then char_of (char_code c + 32) else c)"

definition str_lower :: "string \<Rightarrow> string" where
  "str_lower s = map to_lower s"

definition str_strip :: "string \<Rightarrow> string" where
  "str_strip s = rev (dropWhile is_space (rev (dropWhile is_space s)))"

text \<open>\<open>s.strip(chars)\<close>.\<close>

definition str_strip_chars :: "char list \<Rightarrow> string \<Rightarrow> string" where
  "str_strip_chars cs s =
     rev (dropWhile (\<lambda>c. c \<in> set cs) (rev (dropWhile (\<lambda>c. c \<in> set cs) s)))"

definition starts_with :: "string \<Rightarrow> string \<Rightarrow> bool" where
  "starts_with s p \<longleftrightarrow> take (length p) s = p"

definition ends_with :: "string \<Rightarrow> string \<Rightarrow> bool" where
  "ends_with s p \<longleftrightarrow> starts_with (rev s) (rev p)"

text \<open>The test \<open>needle in s\<close> on strings.\<close>

primrec str_contains :: "string \<Rightarrow> string \<Rightarrow> bool" where
  "str_contains needle [] \<longleftrightarrow> needle = []"
| "str_contains needle (c # s) \<longleftrightarrow> starts_with (c # s) needle \<or> str_contains needle s"

text \<open>\<open>s.split()\<close>: the maximal runs of characters that are not white space.\<close>

fun split_ws_acc :: "string \<Rightarrow> string \<Rightarrow> string list" where
  "split_ws_acc acc [] = (if acc = [] then [] else [rev acc])"
| "split_ws_acc acc (c # s) =
     (if is_space c
      then (if acc = [] then split_ws_acc [] s else rev acc # split_ws_acc [] s)
      else split_ws_acc (c # acc) s)"

definition str_split :: "string \<Rightarrow> string list" where
  "str_split s = split_ws_acc [] s"

primrec str_join :: "string \<Rightarrow> string list \<Rightarrow> string" where
  "str_join sep [] = []"
| "str_join sep (x # xs) = (if xs = [] then x else x @ sep @ str_join sep xs)"

text \<open>\<open>s.replace(old, new)\<close> for a non-empty \<open>old\<close>.\<close>

function str_replace :: "string \<Rightarrow> string \<Rightarrow> string \<Rightarrow> string" where
  "str_replace old new [] = []"
| "str_replace old new (c # s) =
     (if old \<noteq> [] \<and> starts_with (c # s) old
      then new @ str_replace old new (drop (length old) (c # s))
      else c # str_replace old new s)"
  by pat_completeness auto
termination
  by (relation "measure (\<lambda>(_, _, s). length s)") (auto simp: length_greater_0_conv)

definition digit_char :: "nat \<Rightarrow> char" where
  "digit_char n = ''0123456789'' ! (n mod 10)"

fun nat_str :: "nat \<Rightarrow> string" where
  "nat_str n = (if n < 10 then [digit_char n] else nat_str (n div 10) @ [digit_char n])"

declare nat_str.simps [simp del]

definition int_str :: "int \<Rightarrow> string" where
  "int_str i = (if i < 0 then CHR ''-'' # nat_str (nat (- i)) else nat_str (nat i))"

lemma nat_str_nonempty [simp]: "nat_str n \<noteq> []"
  by (subst nat_str.simps) simp

lemma starts_with_iff: "starts_with s p \<longleftrightarrow> prefix p s"
  by (auto simp: starts_with_def prefix_def) (metis append_take_drop_id)

lemma starts_with_append [simp]: "starts_with (p @ s) p"
  by (simp add: starts_with_def)

text \<open>Truth value of an optional string: \<open>None\<close> and the empty string are false.\<close>

definition opt_truthy :: "string option \<Rightarrow> bool" where
  "opt_truthy x \<longleftrightarrow> x \<noteq> None \<and> x \<noteq> Some []"

text \<open>\<open>x or y\<close> on optional strings and on strings.\<close>

definition opt_or :: "string option \<Rightarrow> string \<Rightarrow> string" where
  "opt_or x y = (case x of None \<Rightarrow> y | Some s \<Rightarrow> if s = [] then y else s)"

definition str_or :: "string \<Rightarrow> string \<Rightarrow> string" where
  "str_or x y = (if x = [] then y else x)"

section \<open>Programs with state and errors\<close>

text \<open>
  A program takes a state and ends in a state, with a value or with an error: what was
  done before a raise stays done.
\<close>

type_synonym ('s, 'e, 'a) prog = "'s \<Rightarrow> ('e + 'a) \<times> 's"

definition ret :: "'a \<Rightarrow> ('s, 'e, 'a) prog" where
  [prog_defs]: "ret x = (\<lambda>s. (Inr x, s))"

definition raise_err :: "'e \<Rightarrow> ('s, 'e, 'a) prog" where
  [prog_defs]: "raise_err e = (\<lambda>s. (Inl e, s))"

definition gets :: "('s \<Rightarrow> 'a) \<Rightarrow> ('s, 'e, 'a) prog" where
  [prog_defs]: "gets f = (\<lambda>s. (Inr (f s), s))"

definition modify :: "('s \<Rightarrow> 's) \<Rightarrow> ('s, 'e, unit) prog" where
  [prog_defs]: "modify f = (\<lambda>s. (Inr (), f s))"

definition bind :: "('s, 'e, 'a) prog \<Rightarrow> ('a \<Rightarrow> ('s, 'e, 'b) prog) \<Rightarrow> ('s, 'e, 'b) prog" where
  [prog_defs]: "bind m f = (\<lambda>s. case m s of (Inl e, s') \<Rightarrow> (Inl e, s') | (Inr x, s') \<Rightarrow> f x s')"

definition seqp :: "('s, 'e, unit) prog \<Rightarrow> ('s, 'e, 'b) prog \<Rightarrow> ('s, 'e, 'b) prog" where
  [prog_defs]: "seqp m n = bind m (\<lambda>_. n)"

primrec for_each :: "('x \<Rightarrow> ('s, 'e, unit) prog) \<Rightarrow> 'x list \<Rightarrow> ('s, 'e, unit) prog" where
  "for_each f [] = ret ()"
| "for_each f (x # xs) = seqp (f x) (for_each f xs)"

text \<open>A value or an error of pure code, run as a program.\<close>

definition lift_result :: "'e + 'a \<Rightarrow> ('s, 'e, 'a) prog" where
  [prog_defs]: "lift_result r = (\<lambda>s. (r, s))"

subsection \<open>Step relations\<close>

text \<open>
  \<open>moves R m\<close>: whatever the outcome, the state a program ends in is related to the one
  it started in. An invariant \<open>I\<close> is the relation "if \<open>I\<close> before, then \<open>I\<close> after".
\<close>

definition moves :: "('s \<Rightarrow> 's \<Rightarrow> bool) \<Rightarrow> ('s, 'e, 'a) prog \<Rightarrow> bool" where
  "moves R m \<longleftrightarrow> (\<forall>s. R s (snd (m s)))"

text \<open>
  The interface every such relation offers: it is a preorder, hence closed under the
  program combinators.
\<close>

locale step_relation =
  fixes R :: "'s \<Rightarrow> 's \<Rightarrow> bool"
  assumes refl: "R s s"
    and trans: "R s t \<Longrightarrow> R t u \<Longrightarrow> R s u"
begin

lemma moves_ret [step_intros]: "moves R (ret x)"
  by (simp add: moves_def ret_def refl)

lemma moves_raise [step_intros]: "moves R (raise_err e)"
  by (simp add: moves_def raise_err_def refl)

lemma moves_gets [step_intros]: "moves R (gets f)"
  by (simp add: moves_def gets_def refl)

lemma moves_lift [step_intros]: "moves R (lift_result r)"
  by (simp add: moves_def lift_result_def refl)

lemma moves_bind [step_intros]:
  assumes "moves R m" and "\<And>x. moves R (f x)"
  shows "moves R (bind m f)"
  unfolding moves_def
proof
  fix s
  obtain r t where m: "m s = (r, t)" by (cases "m s") auto
  with assms(1) have st: "R s t" by (auto simp: moves_def dest: spec [of _ s])
  show "R s (snd (bind m f s))"
  proof (cases r)
    case (Inl e)
    with m st show ?thesis by (simp add: bind_def)
  next
    case (Inr x)
    have "R t (snd (f x t))" using assms(2) by (simp add: moves_def)
    with st have "R s (snd (f x t))" by (rule trans)
    with m Inr show ?thesis by (simp add: bind_def)
  qed
qed

lemma moves_seq [step_intros]: "moves R m \<Longrightarrow> moves R n \<Longrightarrow> moves R (seqp m n)"
  unfolding seqp_def by (rule moves_bind)

lemma moves_for_each [step_intros]: "(\<And>x. moves R (f x)) \<Longrightarrow> moves R (for_each f xs)"
  by (induction xs) (auto intro: moves_ret moves_seq)

lemma moves_modify: "(\<And>s. R s (f s)) \<Longrightarrow> moves R (modify f)"
  by (simp add: moves_def modify_def)

end

lemma moves_if [step_intros]: "(b \<Longrightarrow> moves R m) \<Longrightarrow> (\<not> b \<Longrightarrow> moves R n) \<Longrightarrow> moves R (if b then m else n)"
  by simp

lemma moves_case_option [step_intros]:
  "(x = None \<Longrightarrow> moves R m) \<Longrightarrow> (\<And>y. x = Some y \<Longrightarrow> moves R (f y)) \<Longrightarrow>
    moves R (case x of None \<Rightarrow> m | Some y \<Rightarrow> f y)"
  by (cases x) auto

lemma moves_case_prod [step_intros]:
  "(\<And>a b. x = (a, b) \<Longrightarrow> moves R (f a b)) \<Longrightarrow> moves R (case x of (a, b) \<Rightarrow> f a b)"
  by (cases x) auto

lemma moves_case_sum [step_intros]:
  "(\<And>a. x = Inl a \<Longrightarrow> moves R (f a)) \<Longrightarrow> (\<And>b. x = Inr b \<Longrightarrow> moves R (g b)) \<Longrightarrow>
    moves R (case x of Inl a \<Rightarrow> f a | Inr b \<Rightarrow> g b)"
  by (cases x) auto

lemma moves_let [step_intros]: "moves R (f x) \<Longrightarrow> moves R (let y = x in f y)"
  by simp

lemma movesD: "moves R m \<Longrightarrow> R s (snd (m s))"
  by (simp add: moves_def)

lemma moves_mono: "moves R m \<Longrightarrow> (\<And>s t. R s t \<Longrightarrow> R' s t) \<Longrightarrow> moves R' m"
  by (simp add: moves_def)

text \<open>Invariants are step relations.\<close>

definition keeps :: "('s \<Rightarrow> bool) \<Rightarrow> 's \<Rightarrow> 's \<Rightarrow> bool" where
  "keeps I s t \<longleftrightarrow> (I s \<longrightarrow> I t)"

interpretation keeps: step_relation "keeps I" for I
  by unfold_locales (auto simp: keeps_def)

lemma bind_Inr:
  "bind m f s = (Inr y, t) \<longleftrightarrow> (\<exists>x u. m s = (Inr x, u) \<and> f x u = (Inr y, t))"
  by (auto simp: bind_def split: prod.splits sum.splits)

lemma seqp_Inr:
  "seqp m n s = (Inr y, t) \<longleftrightarrow> (\<exists>u. m s = (Inr (), u) \<and> n u = (Inr y, t))"
  by (auto simp: seqp_def bind_Inr)

subsection \<open>Runs that succeed\<close>

text \<open>\<open>runs m s P\<close>: started in \<open>s\<close>, the program ends without an error, in \<open>P\<close>.\<close>

definition runs :: "('s, 'e, 'a) prog \<Rightarrow> 's \<Rightarrow> ('a \<Rightarrow> 's \<Rightarrow> bool) \<Rightarrow> bool" where
  "runs m s P \<longleftrightarrow> (case m s of (Inl e, t) \<Rightarrow> False | (Inr x, t) \<Rightarrow> P x t)"

lemma runs_bind: "runs (bind m f) s P \<longleftrightarrow> runs m s (\<lambda>x t. runs (f x) t P)"
  by (auto simp: runs_def bind_def split: prod.splits sum.splits)

lemma runs_seqp: "runs (seqp m n) s P \<longleftrightarrow> runs m s (\<lambda>_ t. runs n t P)"
  by (simp add: seqp_def runs_bind)

lemma runs_basic:
  "runs (ret x) s P = P x s" "runs (gets f) s Q = Q (f s) s"
  "runs (modify g) s R = R () (g s)" "\<not> runs (raise_err e) s S"
  by (simp_all add: runs_def prog_defs)

lemmas runs_simps = runs_bind runs_seqp runs_basic

lemma runs_mono: "runs m s P \<Longrightarrow> (\<And>x t. P x t \<Longrightarrow> Q x t) \<Longrightarrow> runs m s Q"
  by (auto simp: runs_def split: prod.splits sum.splits)

lemma runs_iff: "runs m s P \<longleftrightarrow> (\<exists>x t. m s = (Inr x, t) \<and> P x t)"
  by (auto simp: runs_def split: prod.splits sum.splits)

end
