(* ===== verification/Json.thy ===== *)
theory Json
  imports Prelude
begin

text \<open>
  The values of type \<open>Any\<close> that the agent handles: decoded JSON and YAML documents of
  null, booleans, integers, text, lists and mappings with text keys, in insertion order
  (floating point numbers and dates are not modelled). Python's truth value,
  \<open>str\<close>, \<open>json.dumps\<close> with sorted keys, and the stable digest of
  \<open>persistence/idempotency.py\<close>.
\<close>

datatype json =
    JNull
  | JBool bool
  | JInt int
  | JStr string
  | JArr "json list"
  | JObj "(string \<times> json) list"

section \<open>Truth value, type tests, text\<close>

fun truthy :: "json \<Rightarrow> bool" where
  "truthy JNull = False"
| "truthy (JBool b) = b"
| "truthy (JInt i) = (i \<noteq> 0)"
| "truthy (JStr s) = (s \<noteq> [])"
| "truthy (JArr xs) = (xs \<noteq> [])"
| "truthy (JObj d) = (d \<noteq> [])"

text \<open>\<open>x or y\<close>.\<close>

definition json_or :: "json \<Rightarrow> json \<Rightarrow> json" where
  "json_or x y = (if truthy x then x else y)"

fun is_obj :: "json \<Rightarrow> bool" where
  "is_obj (JObj d) = True"
| "is_obj _ = False"

fun is_arr :: "json \<Rightarrow> bool" where
  "is_arr (JArr xs) = True"
| "is_arr _ = False"

text \<open>The members of a mapping; empty for every other value.\<close>

fun obj_items :: "json \<Rightarrow> json dict" where
  "obj_items (JObj d) = d"
| "obj_items _ = []"

fun arr_items :: "json \<Rightarrow> json list" where
  "arr_items (JArr xs) = xs"
| "arr_items _ = []"

text \<open>\<open>d.get(key)\<close> on a mapping: \<open>None\<close> when the key is absent.\<close>

definition get_or_null :: "json dict \<Rightarrow> string \<Rightarrow> json" where
  "get_or_null d k = (case dict_get d k of None \<Rightarrow> JNull | Some v \<Rightarrow> v)"

definition get_or :: "json dict \<Rightarrow> string \<Rightarrow> json \<Rightarrow> json" where
  "get_or d k x = (case dict_get d k of None \<Rightarrow> x | Some v \<Rightarrow> v)"

text \<open>\<open>repr\<close> of a string of ASCII characters.\<close>

definition hex_digit :: "int \<Rightarrow> char" where
  "hex_digit n = ''0123456789abcdef'' ! nat (n mod 16)"

definition repr_char :: "char \<Rightarrow> char \<Rightarrow> string" where
  "repr_char q c =
     (let n = char_code c in
      if c = q \<or> n = 92 then [char_of (92 :: int), c]
      else if n = 10 then [char_of (92 :: int), CHR ''n'']
      else if n = 13 then [char_of (92 :: int), CHR ''r'']
      else if n = 9 then [char_of (92 :: int), CHR ''t'']
      else if n < 32 \<or> n = 127
        then [char_of (92 :: int), CHR ''x'', hex_digit (n div 16), hex_digit n]
      else [c])"

definition quote_single :: char where
  "quote_single = char_of (39 :: int)"

definition quote_double :: char where
  "quote_double = char_of (34 :: int)"

definition repr_str :: "string \<Rightarrow> string" where
  "repr_str s =
     (let q = (if quote_single \<in> set s \<and> quote_double \<notin> set s
               then quote_double else quote_single)
      in q # concat (map (repr_char q) s) @ [q])"

fun py_repr :: "json \<Rightarrow> string" where
  "py_repr JNull = ''None''"
| "py_repr (JBool b) = (if b then ''True'' else ''False'')"
| "py_repr (JInt i) = int_str i"
| "py_repr (JStr s) = repr_str s"
| "py_repr (JArr xs) = ''['' @ str_join '', '' (map py_repr xs) @ '']''"
| "py_repr (JObj d) =
     ''{'' @ str_join '', '' (map (\<lambda>kv. repr_str (fst kv) @ '': '' @ py_repr (snd kv)) d) @ ''}''"

text \<open>\<open>str(x)\<close>.\<close>

fun py_str :: "json \<Rightarrow> string" where
  "py_str (JStr s) = s"
| "py_str v = py_repr v"

lemma py_str_JStr [simp]: "py_str (JStr s) = s"
  by simp

section \<open>json.dumps and the stable digest\<close>

definition esc_char :: "char \<Rightarrow> string" where
  "esc_char c =
     (let n = char_code c; bs = char_of (92 :: int) in
      if n = 34 \<or> n = 92 then [bs, c]
      else if n = 10 then [bs, CHR ''n'']
      else if n = 13 then [bs, CHR ''r'']
      else if n = 9 then [bs, CHR ''t'']
      else if n = 8 then [bs, CHR ''b'']
      else if n = 12 then [bs, CHR ''f'']
      else if n < 32 \<or> 126 < n
        then bs # ''u00'' @ [hex_digit (n div 16), hex_digit n]
      else [c])"

definition dumps_str :: "string \<Rightarrow> string" where
  "dumps_str s = quote_double # concat (map esc_char s) @ [quote_double]"

text \<open>\<open>json.dumps(v, separators=(",", ":"))\<close>; the keys are sorted beforehand.\<close>

fun dumps :: "json \<Rightarrow> string" where
  "dumps JNull = ''null''"
| "dumps (JBool b) = (if b then ''true'' else ''false'')"
| "dumps (JInt i) = int_str i"
| "dumps (JStr s) = dumps_str s"
| "dumps (JArr xs) = ''['' @ str_join '','' (map dumps xs) @ '']''"
| "dumps (JObj d) =
     ''{'' @ str_join '','' (map (\<lambda>kv. dumps_str (fst kv) @ '':'' @ dumps (snd kv)) d) @ ''}''"

fun sort_keys :: "json \<Rightarrow> json" where
  "sort_keys (JArr xs) = JArr (map sort_keys xs)"
| "sort_keys (JObj d) = JObj (sort_key fst (map (\<lambda>kv. (fst kv, sort_keys (snd kv))) d))"
| "sort_keys v = v"

definition json_dumps :: "json \<Rightarrow> string" where
  "json_dumps v = dumps (sort_keys v)"

text \<open>
  \<open>stable_hash\<close>: SHA-256 (\<open>hashlib\<close>, a parameter) over the canonical text.
\<close>

definition stable_hash :: "(string \<Rightarrow> string) \<Rightarrow> json \<Rightarrow> string" where
  "stable_hash sha256 payload = ''sha256:'' @ sha256 (json_dumps payload)"

section \<open>Equality of decoded values\<close>

text \<open>Two mappings are equal when they have the same keys with equal values.\<close>

fun json_wf :: "json \<Rightarrow> bool" where
  "json_wf (JArr xs) = list_all json_wf xs"
| "json_wf (JObj d) = (distinct (map fst d) \<and> list_all (\<lambda>kv. json_wf (snd kv)) d)"
| "json_wf _ = True"

inductive json_eq :: "json \<Rightarrow> json \<Rightarrow> bool" where
  eq_null: "json_eq JNull JNull"
| eq_bool: "json_eq (JBool b) (JBool b)"
| eq_int: "json_eq (JInt i) (JInt i)"
| eq_str: "json_eq (JStr s) (JStr s)"
| eq_arr: "list_all2 json_eq xs ys \<Longrightarrow> json_eq (JArr xs) (JArr ys)"
| eq_obj: "rel_fun (=) (rel_option json_eq) (dict_get d) (dict_get e) \<Longrightarrow>
    json_eq (JObj d) (JObj e)"
monos list.rel_mono_strong option.rel_mono_strong rel_fun_mono


lemma map_of_map_snd:
  "map_of (map (\<lambda>kv. (fst kv, f (snd kv))) d) k = map_option f (map_of d k)"
  by (induction d) auto

lemma sort_key_dict_unique:
  assumes "distinct (map fst d)" and "distinct (map fst e)" and "map_of d = map_of e"
  shows "sort_key fst d = sort_key fst e"
proof (rule map_sorted_distinct_set_unique [where f = fst])
  have sets: "set d = set e"
    using assms by (simp add: map_of_inject_set)
  then show "set (sort_key fst d) = set (sort_key fst e)" by simp
  have "inj_on fst (set d)" using assms(1) by (simp add: distinct_map)
  then show "inj_on fst (set (sort_key fst d) \<union> set (sort_key fst e))"
    using sets by simp
  show "distinct (map fst (sort_key fst d))" and "distinct (map fst (sort_key fst e))"
    using assms(1,2) by (simp_all add: distinct_map)
qed simp_all

lemma json_eq_sort_keys: "json_eq x y \<Longrightarrow> json_wf x \<Longrightarrow> json_wf y \<Longrightarrow> sort_keys x = sort_keys y"
proof (induction rule: json_eq.induct)
  case (eq_arr xs ys)
  have "map sort_keys xs = map sort_keys ys"
    using eq_arr by (induction rule: list_all2_induct) auto
  then show ?case by simp
next
  case (eq_obj d e)
  let ?g = "\<lambda>kv. (fst kv, sort_keys (snd kv))"
  have wf_snd: "map_of dd k = Some v \<Longrightarrow> json_wf v"
    if "json_wf (JObj dd)" for dd k v
    using that by (auto simp: list_all_iff dest: map_of_SomeD)
  have "map_of (map ?g d) k = map_of (map ?g e) k" for k
  proof -
    have "rel_option (\<lambda>x y. json_eq x y \<and>
        (json_wf x \<longrightarrow> json_wf y \<longrightarrow> sort_keys x = sort_keys y)) (map_of d k) (map_of e k)"
      using eq_obj.IH by (simp add: rel_fun_def)
    then show ?thesis
      using wf_snd [OF eq_obj.prems(1)] wf_snd [OF eq_obj.prems(2)]
      by (auto simp: map_of_map_snd option_rel_Some1 elim!: option.rel_cases)
  qed
  then have "map_of (map ?g d) = map_of (map ?g e)" by blast
  moreover have "distinct (map fst (map ?g d))" "distinct (map fst (map ?g e))"
    using eq_obj.prems by (simp_all add: o_def)
  ultimately show ?case by (simp add: sort_key_dict_unique)
qed simp_all

end
