(* ===== verification/Models.thy ===== *)
theory Models
  imports Json
begin

text \<open>
  The domain model of \<open>models/\<close>: the enumerations with their wire values, the records
  of jobs, phases, steps, observations, instructions, approvals, audit events, memory and
  reports, with the defaults of the classes, and the JSON form (\<open>model_dump\<close>) of those
  records that end up inside other payloads. Instants are microseconds since the epoch;
  their textual form belongs to the date library and is a parameter.
\<close>

section \<open>Enumerations (models/enums.py)\<close>

datatype job_state =
    J_CREATED
  | J_VALIDATING_BUNDLE
  | J_INVALID_BUNDLE
  | J_AWAITING_HUMAN_APPROVAL
  | J_DRY_RUN_READY
  | J_DRY_RUNNING
  | J_AWAITING_LLM_INSTRUCTION
  | J_EXECUTING
  | J_DECISION_REQUIRED
  | J_PAUSED
  | J_WAIT_SCHEDULED
  | J_VALIDATION_RUNNING
  | J_ROLLBACK_REQUESTED
  | J_ROLLING_BACK
  | J_COMPLETED
  | J_FAILED
  | J_CANCELLED

fun job_state_value :: "job_state \<Rightarrow> string" where
  "job_state_value J_CREATED = ''created''"
| "job_state_value J_VALIDATING_BUNDLE = ''validating_bundle''"
| "job_state_value J_INVALID_BUNDLE = ''invalid_bundle''"
| "job_state_value J_AWAITING_HUMAN_APPROVAL = ''awaiting_human_approval''"
| "job_state_value J_DRY_RUN_READY = ''dry_run_ready''"
| "job_state_value J_DRY_RUNNING = ''dry_running''"
| "job_state_value J_AWAITING_LLM_INSTRUCTION = ''awaiting_llm_instruction''"
| "job_state_value J_EXECUTING = ''executing''"
| "job_state_value J_DECISION_REQUIRED = ''decision_required''"
| "job_state_value J_PAUSED = ''paused''"
| "job_state_value J_WAIT_SCHEDULED = ''wait_scheduled''"
| "job_state_value J_VALIDATION_RUNNING = ''validation_running''"
| "job_state_value J_ROLLBACK_REQUESTED = ''rollback_requested''"
| "job_state_value J_ROLLING_BACK = ''rolling_back''"
| "job_state_value J_COMPLETED = ''completed''"
| "job_state_value J_FAILED = ''failed''"
| "job_state_value J_CANCELLED = ''cancelled''"

datatype step_state =
    S_PENDING
  | S_BLOCKED
  | S_READY
  | S_DRY_RUN_RUNNING
  | S_DRY_RUN_SUCCEEDED
  | S_DRY_RUN_FAILED
  | S_APPROVAL_REQUIRED
  | S_APPROVED
  | S_MUTATION_RUNNING
  | S_MUTATION_SUCCEEDED
  | S_MUTATION_FAILED
  | S_VALIDATION_RUNNING
  | S_VALIDATION_SUCCEEDED
  | S_VALIDATION_FAILED
  | S_WAITING
  | S_DECISION_REQUIRED
  | S_SKIPPED_BY_INSTRUCTION
  | S_CANCELLED

fun step_state_value :: "step_state \<Rightarrow> string" where
  "step_state_value S_PENDING = ''pending''"
| "step_state_value S_BLOCKED = ''blocked''"
| "step_state_value S_READY = ''ready''"
| "step_state_value S_DRY_RUN_RUNNING = ''dry_run_running''"
| "step_state_value S_DRY_RUN_SUCCEEDED = ''dry_run_succeeded''"
| "step_state_value S_DRY_RUN_FAILED = ''dry_run_failed''"
| "step_state_value S_APPROVAL_REQUIRED = ''approval_required''"
| "step_state_value S_APPROVED = ''approved''"
| "step_state_value S_MUTATION_RUNNING = ''mutation_running''"
| "step_state_value S_MUTATION_SUCCEEDED = ''mutation_succeeded''"
| "step_state_value S_MUTATION_FAILED = ''mutation_failed''"
| "step_state_value S_VALIDATION_RUNNING = ''validation_running''"
| "step_state_value S_VALIDATION_SUCCEEDED = ''validation_succeeded''"
| "step_state_value S_VALIDATION_FAILED = ''validation_failed''"
| "step_state_value S_WAITING = ''waiting''"
| "step_state_value S_DECISION_REQUIRED = ''decision_required''"
| "step_state_value S_SKIPPED_BY_INSTRUCTION = ''skipped_by_instruction''"
| "step_state_value S_CANCELLED = ''cancelled''"

datatype execution_mode =
    M_VALIDATE_ONLY
  | M_DRY_RUN_ONLY
  | M_EXECUTE_AFTER_APPROVAL
  | M_EXTERNAL_LLM_CONTROLLED

fun execution_mode_value :: "execution_mode \<Rightarrow> string" where
  "execution_mode_value M_VALIDATE_ONLY = ''validate_only''"
| "execution_mode_value M_DRY_RUN_ONLY = ''dry_run_only''"
| "execution_mode_value M_EXECUTE_AFTER_APPROVAL = ''execute_after_approval''"
| "execution_mode_value M_EXTERNAL_LLM_CONTROLLED = ''external_llm_controlled''"

datatype approval_status =
    A_NOT_REQUIRED
  | A_MISSING
  | A_ACTIVE
  | A_EXPIRED
  | A_REJECTED

fun approval_status_value :: "approval_status \<Rightarrow> string" where
  "approval_status_value A_NOT_REQUIRED = ''not_required''"
| "approval_status_value A_MISSING = ''missing''"
| "approval_status_value A_ACTIVE = ''active''"
| "approval_status_value A_EXPIRED = ''expired''"
| "approval_status_value A_REJECTED = ''rejected''"

datatype phase_status =
    P_PENDING
  | P_READY
  | P_RUNNING
  | P_COMPLETED
  | P_FAILED
  | P_SKIPPED
  | P_BLOCKED

fun phase_status_value :: "phase_status \<Rightarrow> string" where
  "phase_status_value P_PENDING = ''pending''"
| "phase_status_value P_READY = ''ready''"
| "phase_status_value P_RUNNING = ''running''"
| "phase_status_value P_COMPLETED = ''completed''"
| "phase_status_value P_FAILED = ''failed''"
| "phase_status_value P_SKIPPED = ''skipped''"
| "phase_status_value P_BLOCKED = ''blocked''"

datatype step_type =
    T_CONTEXT_CHECK
  | T_K8S_APPLY
  | T_K8S_DELETE
  | T_K8S_GET
  | T_K8S_VALIDATE
  | T_HELM_INSTALL
  | T_HELM_UPGRADE
  | T_HELM_VALIDATE
  | T_WAIT
  | T_MANUAL_INPUT
  | T_ROLLBACK
  | T_RELEASE_NOTES
  | T_UNKNOWN

fun step_type_value :: "step_type \<Rightarrow> string" where
  "step_type_value T_CONTEXT_CHECK = ''context_check''"
| "step_type_value T_K8S_APPLY = ''k8s_apply''"
| "step_type_value T_K8S_DELETE = ''k8s_delete''"
| "step_type_value T_K8S_GET = ''k8s_get''"
| "step_type_value T_K8S_VALIDATE = ''k8s_validate''"
| "step_type_value T_HELM_INSTALL = ''helm_install''"
| "step_type_value T_HELM_UPGRADE = ''helm_upgrade''"
| "step_type_value T_HELM_VALIDATE = ''helm_validate''"
| "step_type_value T_WAIT = ''wait''"
| "step_type_value T_MANUAL_INPUT = ''manual_input''"
| "step_type_value T_ROLLBACK = ''rollback''"
| "step_type_value T_RELEASE_NOTES = ''release_notes''"
| "step_type_value T_UNKNOWN = ''unknown''"

definition all_step_type :: "step_type list" where
  "all_step_type =
     [T_CONTEXT_CHECK,
      T_K8S_APPLY,
      T_K8S_DELETE,
      T_K8S_GET,
      T_K8S_VALIDATE,
      T_HELM_INSTALL,
      T_HELM_UPGRADE,
      T_HELM_VALIDATE,
      T_WAIT,
      T_MANUAL_INPUT,
      T_ROLLBACK,
      T_RELEASE_NOTES,
      T_UNKNOWN]"

datatype obs_severity =
    Sev_DEBUG
  | Sev_INFO
  | Sev_WARNING
  | Sev_ERROR
  | Sev_CRITICAL

fun obs_severity_value :: "obs_severity \<Rightarrow> string" where
  "obs_severity_value Sev_DEBUG = ''debug''"
| "obs_severity_value Sev_INFO = ''info''"
| "obs_severity_value Sev_WARNING = ''warning''"
| "obs_severity_value Sev_ERROR = ''error''"
| "obs_severity_value Sev_CRITICAL = ''critical''"

datatype obs_type =
    Obs_STATE_TRANSITION
  | Obs_POLICY_CHECK
  | Obs_DRY_RUN_RESULT
  | Obs_MUTATION_RESULT
  | Obs_VALIDATION_RESULT
  | Obs_MCP_CALL_RESULT
  | Obs_WAIT_RESULT
  | Obs_ERROR
  | Obs_DECISION_REQUEST
  | Obs_MEMORY_WRITE

fun obs_type_value :: "obs_type \<Rightarrow> string" where
  "obs_type_value Obs_STATE_TRANSITION = ''state_transition''"
| "obs_type_value Obs_POLICY_CHECK = ''policy_check''"
| "obs_type_value Obs_DRY_RUN_RESULT = ''dry_run_result''"
| "obs_type_value Obs_MUTATION_RESULT = ''mutation_result''"
| "obs_type_value Obs_VALIDATION_RESULT = ''validation_result''"
| "obs_type_value Obs_MCP_CALL_RESULT = ''mcp_call_result''"
| "obs_type_value Obs_WAIT_RESULT = ''wait_result''"
| "obs_type_value Obs_ERROR = ''error''"
| "obs_type_value Obs_DECISION_REQUEST = ''decision_request''"
| "obs_type_value Obs_MEMORY_WRITE = ''memory_write''"

datatype report_type =
    R_EXECUTION_SUMMARY
  | R_VALIDATION_REPORT
  | R_ROLLBACK_REPORT
  | R_CHANGE_REPORT
  | R_RELEASE_NOTES
  | R_AUDIT_EXPORT

fun report_type_value :: "report_type \<Rightarrow> string" where
  "report_type_value R_EXECUTION_SUMMARY = ''execution_summary''"
| "report_type_value R_VALIDATION_REPORT = ''validation_report''"
| "report_type_value R_ROLLBACK_REPORT = ''rollback_report''"
| "report_type_value R_CHANGE_REPORT = ''change_report''"
| "report_type_value R_RELEASE_NOTES = ''release_notes''"
| "report_type_value R_AUDIT_EXPORT = ''audit_export''"

section \<open>Errors, policy findings, actors, scopes, instruction types\<close>

datatype error_code =
    E_BUNDLE_MISSING_REQUIRED_FILE
  | E_PLAN_SCHEMA_INVALID
  | E_PLAN_GRAPH_CYCLE
  | E_NAMESPACE_MISMATCH
  | E_CLUSTER_SCOPE_BLOCKED
  | E_SECRET_VALUE_DETECTED
  | E_PRODUCTION_DATA_COPY_DETECTED
  | E_DRY_RUN_FAILED
  | E_APPROVAL_REQUIRED
  | E_APPROVAL_SCOPE_MISMATCH
  | E_RESOURCE_ALREADY_EXISTS
  | E_IMMUTABLE_FIELD_CONFLICT
  | E_HELM_RENDER_FAILED
  | E_POD_UNSCHEDULABLE
  | E_NODE_UNAVAILABLE
  | E_PVC_PENDING
  | E_INGRESS_CONFLICT
  | E_VALIDATION_FAILED
  | E_MCP_UNAVAILABLE
  | E_TIMEOUT_EXCEEDED
  | E_AUDIT_WRITE_FAILED
  | E_INVALID_STATE_TRANSITION
  | E_UNKNOWN_ERROR

fun error_code_value :: "error_code \<Rightarrow> string" where
  "error_code_value E_BUNDLE_MISSING_REQUIRED_FILE = ''BUNDLE_MISSING_REQUIRED_FILE''"
| "error_code_value E_PLAN_SCHEMA_INVALID = ''PLAN_SCHEMA_INVALID''"
| "error_code_value E_PLAN_GRAPH_CYCLE = ''PLAN_GRAPH_CYCLE''"
| "error_code_value E_NAMESPACE_MISMATCH = ''NAMESPACE_MISMATCH''"
| "error_code_value E_CLUSTER_SCOPE_BLOCKED = ''CLUSTER_SCOPE_BLOCKED''"
| "error_code_value E_SECRET_VALUE_DETECTED = ''SECRET_VALUE_DETECTED''"
| "error_code_value E_PRODUCTION_DATA_COPY_DETECTED = ''PRODUCTION_DATA_COPY_DETECTED''"
| "error_code_value E_DRY_RUN_FAILED = ''DRY_RUN_FAILED''"
| "error_code_value E_APPROVAL_REQUIRED = ''APPROVAL_REQUIRED''"
| "error_code_value E_APPROVAL_SCOPE_MISMATCH = ''APPROVAL_SCOPE_MISMATCH''"
| "error_code_value E_RESOURCE_ALREADY_EXISTS = ''RESOURCE_ALREADY_EXISTS''"
| "error_code_value E_IMMUTABLE_FIELD_CONFLICT = ''IMMUTABLE_FIELD_CONFLICT''"
| "error_code_value E_HELM_RENDER_FAILED = ''HELM_RENDER_FAILED''"
| "error_code_value E_POD_UNSCHEDULABLE = ''POD_UNSCHEDULABLE''"
| "error_code_value E_NODE_UNAVAILABLE = ''NODE_UNAVAILABLE''"
| "error_code_value E_PVC_PENDING = ''PVC_PENDING''"
| "error_code_value E_INGRESS_CONFLICT = ''INGRESS_CONFLICT''"
| "error_code_value E_VALIDATION_FAILED = ''VALIDATION_FAILED''"
| "error_code_value E_MCP_UNAVAILABLE = ''MCP_UNAVAILABLE''"
| "error_code_value E_TIMEOUT_EXCEEDED = ''TIMEOUT_EXCEEDED''"
| "error_code_value E_AUDIT_WRITE_FAILED = ''AUDIT_WRITE_FAILED''"
| "error_code_value E_INVALID_STATE_TRANSITION = ''INVALID_STATE_TRANSITION''"
| "error_code_value E_UNKNOWN_ERROR = ''UNKNOWN_ERROR''"

definition all_error_code :: "error_code list" where
  "all_error_code =
     [E_BUNDLE_MISSING_REQUIRED_FILE,
      E_PLAN_SCHEMA_INVALID,
      E_PLAN_GRAPH_CYCLE,
      E_NAMESPACE_MISMATCH,
      E_CLUSTER_SCOPE_BLOCKED,
      E_SECRET_VALUE_DETECTED,
      E_PRODUCTION_DATA_COPY_DETECTED,
      E_DRY_RUN_FAILED,
      E_APPROVAL_REQUIRED,
      E_APPROVAL_SCOPE_MISMATCH,
      E_RESOURCE_ALREADY_EXISTS,
      E_IMMUTABLE_FIELD_CONFLICT,
      E_HELM_RENDER_FAILED,
      E_POD_UNSCHEDULABLE,
      E_NODE_UNAVAILABLE,
      E_PVC_PENDING,
      E_INGRESS_CONFLICT,
      E_VALIDATION_FAILED,
      E_MCP_UNAVAILABLE,
      E_TIMEOUT_EXCEEDED,
      E_AUDIT_WRITE_FAILED,
      E_INVALID_STATE_TRANSITION,
      E_UNKNOWN_ERROR]"

datatype policy_severity =
    Pol_WARNING
  | Pol_BLOCK
  | Pol_CRITICAL

fun policy_severity_value :: "policy_severity \<Rightarrow> string" where
  "policy_severity_value Pol_WARNING = ''warning''"
| "policy_severity_value Pol_BLOCK = ''block''"
| "policy_severity_value Pol_CRITICAL = ''critical''"

datatype actor_type =
    Act_WORKER
  | Act_EXTERNAL_LLM
  | Act_HUMAN
  | Act_SYSTEM
  | Act_MCP_SERVER

fun actor_type_value :: "actor_type \<Rightarrow> string" where
  "actor_type_value Act_WORKER = ''worker''"
| "actor_type_value Act_EXTERNAL_LLM = ''external_llm''"
| "actor_type_value Act_HUMAN = ''human''"
| "actor_type_value Act_SYSTEM = ''system''"
| "actor_type_value Act_MCP_SERVER = ''mcp_server''"

datatype approval_scope =
    Scope_NON_MUTATING_VALIDATION
  | Scope_DRY_RUN
  | Scope_NAMESPACE_CREATION
  | Scope_MUTATION
  | Scope_ROLLBACK
  | Scope_DESTRUCTIVE_ROLLBACK
  | Scope_POLICY_EXCEPTION

fun approval_scope_value :: "approval_scope \<Rightarrow> string" where
  "approval_scope_value Scope_NON_MUTATING_VALIDATION = ''non_mutating_validation''"
| "approval_scope_value Scope_DRY_RUN = ''dry_run''"
| "approval_scope_value Scope_NAMESPACE_CREATION = ''namespace_creation''"
| "approval_scope_value Scope_MUTATION = ''mutation''"
| "approval_scope_value Scope_ROLLBACK = ''rollback''"
| "approval_scope_value Scope_DESTRUCTIVE_ROLLBACK = ''destructive_rollback''"
| "approval_scope_value Scope_POLICY_EXCEPTION = ''policy_exception''"

datatype instruction_type =
    I_CONTINUE
  | I_RETRY
  | I_WAIT
  | I_SKIP
  | I_PATCH_MANIFEST
  | I_REPLACE_MANIFEST
  | I_RUN_VALIDATION
  | I_REQUEST_HUMAN_APPROVAL
  | I_ROLLBACK
  | I_ABORT
  | I_REFRESH_OBSERVATION
  | I_INVOKE_MCP_TOOL

fun instruction_type_value :: "instruction_type \<Rightarrow> string" where
  "instruction_type_value I_CONTINUE = ''continue''"
| "instruction_type_value I_RETRY = ''retry''"
| "instruction_type_value I_WAIT = ''wait''"
| "instruction_type_value I_SKIP = ''skip''"
| "instruction_type_value I_PATCH_MANIFEST = ''patch_manifest''"
| "instruction_type_value I_REPLACE_MANIFEST = ''replace_manifest''"
| "instruction_type_value I_RUN_VALIDATION = ''run_validation''"
| "instruction_type_value I_REQUEST_HUMAN_APPROVAL = ''request_human_approval''"
| "instruction_type_value I_ROLLBACK = ''rollback''"
| "instruction_type_value I_ABORT = ''abort''"
| "instruction_type_value I_REFRESH_OBSERVATION = ''refresh_observation''"
| "instruction_type_value I_INVOKE_MCP_TOOL = ''invoke_mcp_tool''"

datatype memory_layer =
    L_IN_RUN
  | L_DURABLE_JOB
  | L_RESOURCE_STATE
  | L_EPISODIC_EXECUTION
  | L_SEMANTIC_FAILURE
  | L_POLICY
  | L_APPROVAL
  | L_AUDIT
  | L_OBSERVABILITY

fun memory_layer_value :: "memory_layer \<Rightarrow> string" where
  "memory_layer_value L_IN_RUN = ''in_run''"
| "memory_layer_value L_DURABLE_JOB = ''durable_job''"
| "memory_layer_value L_RESOURCE_STATE = ''resource_state''"
| "memory_layer_value L_EPISODIC_EXECUTION = ''episodic_execution''"
| "memory_layer_value L_SEMANTIC_FAILURE = ''semantic_failure''"
| "memory_layer_value L_POLICY = ''policy''"
| "memory_layer_value L_APPROVAL = ''approval''"
| "memory_layer_value L_AUDIT = ''audit''"
| "memory_layer_value L_OBSERVABILITY = ''observability''"

record policy_block =
  pb_code :: string
  pb_message :: string
  pb_severity :: policy_severity
  pb_guardrail :: "string option"

record resource_ref =
  rr_api_version :: "string option"
  rr_kind :: "string option"
  rr_namespace :: "string option"
  rr_name :: "string option"
  rr_file_path :: "string option"
  rr_helm_release_name :: "string option"

section \<open>Jobs, phases and steps (models/execution.py)\<close>

type_synonym instant = int

record progress =
  pr_total_phases :: nat
  pr_completed_phases :: nat
  pr_total_steps :: nat
  pr_completed_steps :: nat
  pr_failed_steps :: nat

record exec_job =
  job_id :: string
  job_bundle_id :: string
  job_target_namespace :: string
  job_st :: job_state
  job_name :: "string option"
  job_mop_id :: "string option"
  job_run_id :: "string option"
  job_correlation_id :: "string option"
  job_trace_id :: "string option"
  job_source_namespace :: "string option"
  job_mode :: execution_mode
  job_current_phase_id :: "string option"
  job_current_step_id :: "string option"
  job_dry_run_satisfied :: bool
  job_approval_status :: approval_status
  job_decision_required :: bool
  job_blocked :: bool
  job_progress :: progress
  job_created_at :: instant
  job_updated_at :: instant
  job_completed_at :: "instant option"
  job_links :: "string dict"

record exec_phase =
  ph_id :: string
  ph_job_id :: string
  ph_index :: nat
  ph_status :: phase_status
  ph_title :: "string option"
  ph_objective :: "string option"
  ph_depends_on :: "string list"
  ph_correlation_id :: "string option"
  ph_trace_id :: "string option"
  ph_started_at :: "instant option"
  ph_completed_at :: "instant option"

record exec_step =
  stp_id :: string
  stp_job_id :: string
  stp_phase_id :: string
  stp_index :: nat
  stp_title :: "string option"
  stp_type :: step_type
  stp_state :: step_state
  stp_depends_on :: "string list"
  stp_resource_refs :: "resource_ref list"
  stp_manifest_refs :: "string list"
  stp_values_refs :: "string list"
  stp_commands :: "json dict list"
  stp_metadata :: "json dict"
  stp_fingerprint :: "string option"
  stp_dry_run_status :: "step_state option"
  stp_mutation_status :: "step_state option"
  stp_validation_status :: "step_state option"
  stp_attempt :: nat
  stp_correlation_id :: "string option"
  stp_trace_id :: "string option"
  stp_started_at :: "instant option"
  stp_completed_at :: "instant option"

section \<open>Observations, audit events, approvals, instructions, memory, reports\<close>

record observation =
  obs_id :: string
  obs_job_id :: string
  obs_timestamp :: instant
  obs_severity :: obs_severity
  obs_type :: obs_type
  obs_summary :: string
  obs_phase_id :: "string option"
  obs_step_id :: "string option"
  obs_command_id :: "string option"
  obs_correlation_id :: "string option"
  obs_trace_id :: "string option"
  obs_mcp_server :: "string option"
  obs_mcp_tool :: "string option"
  obs_resource_refs :: "resource_ref list"
  obs_stdout_redacted :: "string option"
  obs_stderr_redacted :: "string option"
  obs_result :: json
  obs_redaction_applied :: bool
  obs_policy_blocks :: "policy_block list"
  obs_next_required_decision :: "json option"

record audit_event =
  aud_id :: string
  aud_timestamp :: instant
  aud_actor_type :: actor_type
  aud_action :: string
  aud_redacted :: bool
  aud_job_id :: "string option"
  aud_actor_id :: "string option"
  aud_correlation_id :: "string option"
  aud_trace_id :: "string option"
  aud_input_hash :: "string option"
  aud_output_hash :: "string option"
  aud_details :: "json dict"

record human_approval =
  apr_id :: string
  apr_job_id :: string
  apr_approver_id :: string
  apr_scope :: approval_scope
  apr_ticket :: string
  apr_statement :: string
  apr_correlation_id :: "string option"
  apr_trace_id :: "string option"
  apr_approver_role :: "string option"
  apr_expires_at :: "instant option"
  apr_resource_refs :: "resource_ref list"
  apr_phase_ids :: "string list"
  apr_step_ids :: "string list"
  apr_fingerprint :: "string option"
  apr_policy_exception_id :: "string option"

record retry_policy =
  rp_max_attempts :: int
  rp_backoff_seconds :: int

record instruction =
  ins_id :: string
  ins_job_id :: string
  ins_type :: instruction_type
  ins_controller_id :: string
  ins_issued_by :: string
  ins_issued_at :: "instant option"
  ins_correlation_id :: "string option"
  ins_trace_id :: "string option"
  ins_target_phase_id :: "string option"
  ins_target_step_id :: "string option"
  ins_target_resource :: "resource_ref option"
  ins_rationale :: "string option"
  ins_wait_seconds :: "int option"
  ins_retry_policy :: "retry_policy option"
  ins_manifest_patch :: "json dict option"
  ins_replacement_manifest :: "string option"
  ins_validation_selector :: "string option"
  ins_approval_token :: "string option"
  ins_dry_run_required :: bool
  ins_destructive_action :: bool
  ins_safety_acks :: "string list"
  ins_metadata :: "json dict"

record memory_record =
  mem_id :: string
  mem_layer :: memory_layer
  mem_job_id :: string
  mem_namespace :: "string option"
  mem_chart :: "string option"
  mem_kind :: "string option"
  mem_resource_name :: "string option"
  mem_error_code :: "string option"
  mem_mcp_source :: "string option"
  mem_tenant :: "string option"
  mem_environment :: "string option"
  mem_summary :: string
  mem_payload :: json
  mem_authority :: string
  mem_redaction_applied :: bool
  mem_tags :: "string list"
  mem_created_at :: instant

record memory_query =
  mq_job_id :: "string option"
  mq_namespace :: "string option"
  mq_chart :: "string option"
  mq_kind :: "string option"
  mq_error_code :: "string option"
  mq_mcp_source :: "string option"
  mq_tenant :: "string option"
  mq_environment :: "string option"

record report_artifact =
  rep_id :: string
  rep_type :: report_type
  rep_path :: string
  rep_job_id :: "string option"
  rep_correlation_id :: "string option"
  rep_trace_id :: "string option"
  rep_download_url :: "string option"
  rep_html_path :: "string option"
  rep_pdf_path :: "string option"
  rep_archive_path :: "string option"
  rep_created_at :: instant
  rep_redacted :: bool

definition MEMORY_AUTHORITY :: string where
  "MEMORY_AUTHORITY = ''context_only_not_decision_authority''"

section \<open>JSON form of the records\<close>

definition jopt :: "string option \<Rightarrow> json" where
  "jopt x = (case x of None \<Rightarrow> JNull | Some s \<Rightarrow> JStr s)"

definition jstrs :: "string list \<Rightarrow> json" where
  "jstrs xs = JArr (map JStr xs)"

definition resource_ref_json :: "resource_ref \<Rightarrow> json" where
  "resource_ref_json r = JObj
     [(''api_version'', jopt (rr_api_version r)),
      (''kind'', jopt (rr_kind r)),
      (''namespace'', jopt (rr_namespace r)),
      (''name'', jopt (rr_name r)),
      (''file_path'', jopt (rr_file_path r)),
      (''helm_release_name'', jopt (rr_helm_release_name r))]"

definition policy_block_json :: "policy_block \<Rightarrow> json" where
  "policy_block_json b = JObj
     [(''code'', JStr (pb_code b)),
      (''message'', JStr (pb_message b)),
      (''severity'', JStr (policy_severity_value (pb_severity b))),
      (''guardrail'', jopt (pb_guardrail b))]"

definition observation_json :: "(instant \<Rightarrow> string) \<Rightarrow> observation \<Rightarrow> json" where
  "observation_json dt ob = JObj
     [(''observation_id'', JStr (obs_id ob)),
      (''job_id'', JStr (obs_job_id ob)),
      (''timestamp'', JStr (dt (obs_timestamp ob))),
      (''severity'', JStr (obs_severity_value (obs_severity ob))),
      (''observation_type'', JStr (obs_type_value (obs_type ob))),
      (''summary'', JStr (obs_summary ob)),
      (''phase_id'', jopt (obs_phase_id ob)),
      (''step_id'', jopt (obs_step_id ob)),
      (''command_id'', jopt (obs_command_id ob)),
      (''correlation_id'', jopt (obs_correlation_id ob)),
      (''trace_id'', jopt (obs_trace_id ob)),
      (''mcp_server'', jopt (obs_mcp_server ob)),
      (''mcp_tool'', jopt (obs_mcp_tool ob)),
      (''resource_refs'', JArr (map resource_ref_json (obs_resource_refs ob))),
      (''stdout_redacted'', jopt (obs_stdout_redacted ob)),
      (''stderr_redacted'', jopt (obs_stderr_redacted ob)),
      (''result'', obs_result ob),
      (''redaction_applied'', JBool (obs_redaction_applied ob)),
      (''policy_blocks'', JArr (map policy_block_json (obs_policy_blocks ob))),
      (''next_required_decision'',
        (case obs_next_required_decision ob of None \<Rightarrow> JNull | Some j \<Rightarrow> j))]"

definition retry_policy_json :: "retry_policy \<Rightarrow> json" where
  "retry_policy_json r = JObj
     [(''max_attempts'', JInt (rp_max_attempts r)),
      (''backoff_seconds'', JInt (rp_backoff_seconds r))]"

definition instruction_json :: "(instant \<Rightarrow> string) \<Rightarrow> instruction \<Rightarrow> json dict" where
  "instruction_json dt i =
     [(''instruction_id'', JStr (ins_id i)),
      (''job_id'', JStr (ins_job_id i)),
      (''instruction_type'', JStr (instruction_type_value (ins_type i))),
      (''controller_id'', JStr (ins_controller_id i)),
      (''issued_by'', JStr (ins_issued_by i)),
      (''issued_at'', (case ins_issued_at i of None \<Rightarrow> JNull | Some t \<Rightarrow> JStr (dt t))),
      (''correlation_id'', jopt (ins_correlation_id i)),
      (''trace_id'', jopt (ins_trace_id i)),
      (''target_phase_id'', jopt (ins_target_phase_id i)),
      (''target_step_id'', jopt (ins_target_step_id i)),
      (''target_resource'',
        (case ins_target_resource i of None \<Rightarrow> JNull | Some r \<Rightarrow> resource_ref_json r)),
      (''rationale'', jopt (ins_rationale i)),
      (''wait_seconds'', (case ins_wait_seconds i of None \<Rightarrow> JNull | Some n \<Rightarrow> JInt n)),
      (''retry_policy'',
        (case ins_retry_policy i of None \<Rightarrow> JNull | Some r \<Rightarrow> retry_policy_json r)),
      (''manifest_patch'',
        (case ins_manifest_patch i of None \<Rightarrow> JNull | Some d \<Rightarrow> JObj d)),
      (''replacement_manifest'', jopt (ins_replacement_manifest i)),
      (''validation_selector'', jopt (ins_validation_selector i)),
      (''approval_token'', jopt (ins_approval_token i)),
      (''dry_run_required'', JBool (ins_dry_run_required i)),
      (''destructive_action'', JBool (ins_destructive_action i)),
      (''safety_acknowledgements'', jstrs (ins_safety_acks i)),
      (''metadata'', JObj (ins_metadata i))]"

section \<open>Wire values\<close>

text \<open>\<open>E(value)\<close> of an enumeration: the member with that value, an error if none.\<close>

definition enum_of_value :: "('e \<Rightarrow> string) \<Rightarrow> 'e list \<Rightarrow> string \<Rightarrow> 'e option" where
  "enum_of_value val es v = List.find (\<lambda>e. val e = v) es"

definition step_type_of :: "string \<Rightarrow> step_type option" where
  "step_type_of v = enum_of_value step_type_value all_step_type v"

definition error_code_of :: "string \<Rightarrow> error_code option" where
  "error_code_of v = enum_of_value error_code_value all_error_code v"

lemma step_type_of_value: "step_type_of (step_type_value t) = Some t"
  by (cases t) (simp_all add: step_type_of_def enum_of_value_def all_step_type_def)

lemma error_code_of_value: "error_code_of (error_code_value e) = Some e"
  by (cases e) (simp_all add: error_code_of_def enum_of_value_def all_error_code_def)

lemma step_type_of_Some: "step_type_of v = Some t \<Longrightarrow> step_type_value t = v"
  by (auto simp: step_type_of_def enum_of_value_def find_Some_iff)

section \<open>Environment\<close>

text \<open>
  What a run reads from outside: the clock (one instant per reading), the source of fresh
  identifiers (one per call), SHA-256, and the two textual forms of an instant (the one of
  \<open>model_dump\<close> and \<open>isoformat\<close>).
\<close>

record env =
  env_clock :: "nat \<Rightarrow> instant"
  env_uuid :: "nat \<Rightarrow> string"
  env_sha256 :: "string \<Rightarrow> string"
  env_dt_json :: "instant \<Rightarrow> string"
  env_isoformat :: "instant \<Rightarrow> string"

definition seconds :: "int \<Rightarrow> int" where
  "seconds n = n * 1000000"

text \<open>\<open>new_id(prefix)\<close> of common/ids.py.\<close>

definition new_id_of :: "env \<Rightarrow> nat \<Rightarrow> string \<Rightarrow> string" where
  "new_id_of e n pre = pre @ ''-'' @ env_uuid e n"

text \<open>The exceptions that the modelled code raises or lets through.\<close>

datatype py_error =
    InvalidTransition job_state job_state
  | KeyError string
  | ValueError string
  | TypeError string
  | AttributeError string
  | LockUnavailable string
  | IdempotencyConflict
  | ClientError string
  | GuardRejected string

text \<open>The readings taken so far: every state of the development extends this record.\<close>

record ctx =
  c_tick :: nat
  c_ids :: nat

definition utc_now :: "env \<Rightarrow> ('a ctx_scheme, py_error, instant) prog" where
  "utc_now e = (\<lambda>s. (Inr (env_clock e (c_tick s)), s\<lparr>c_tick := Suc (c_tick s)\<rparr>))"

definition new_id :: "env \<Rightarrow> string \<Rightarrow> ('a ctx_scheme, py_error, string) prog" where
  "new_id e pre = (\<lambda>s. (Inr (new_id_of e (c_ids s) pre), s\<lparr>c_ids := Suc (c_ids s)\<rparr>))"

end
