(* ===== verification/StateMachine.thy ===== *)
theory StateMachine
  imports Models
begin

text \<open>
  The job state machine of \<open>state/machine.py\<close>: the table of allowed transitions, the
  validation of a transition with optional guard hooks, and the observation and audit
  records that an accepted transition emits.
\<close>

definition TERMINAL_STATES :: "job_state list" where
  "TERMINAL_STATES = [J_COMPLETED, J_FAILED, J_CANCELLED]"

fun ALLOWED_TRANSITIONS :: "job_state \<Rightarrow> job_state list" where
  "ALLOWED_TRANSITIONS J_CREATED = [J_VALIDATING_BUNDLE, J_CANCELLED]"
| "ALLOWED_TRANSITIONS J_VALIDATING_BUNDLE =
     [J_INVALID_BUNDLE, J_AWAITING_HUMAN_APPROVAL, J_AWAITING_LLM_INSTRUCTION,
      J_DECISION_REQUIRED, J_DRY_RUN_READY, J_PAUSED, J_FAILED, J_CANCELLED]"
| "ALLOWED_TRANSITIONS J_INVALID_BUNDLE = [J_CANCELLED]"
| "ALLOWED_TRANSITIONS J_AWAITING_HUMAN_APPROVAL =
     [J_DRY_RUN_READY, J_EXECUTING, J_ROLLING_BACK, J_CANCELLED, J_FAILED]"
| "ALLOWED_TRANSITIONS J_DRY_RUN_READY =
     [J_DRY_RUNNING, J_DECISION_REQUIRED, J_PAUSED, J_CANCELLED]"
| "ALLOWED_TRANSITIONS J_DRY_RUNNING =
     [J_DRY_RUN_READY, J_AWAITING_LLM_INSTRUCTION, J_DECISION_REQUIRED, J_WAIT_SCHEDULED,
      J_AWAITING_HUMAN_APPROVAL, J_VALIDATION_RUNNING, J_COMPLETED, J_FAILED, J_CANCELLED]"
| "ALLOWED_TRANSITIONS J_AWAITING_LLM_INSTRUCTION =
     [J_DRY_RUN_READY, J_EXECUTING, J_ROLLING_BACK, J_FAILED, J_CANCELLED, J_PAUSED]"
| "ALLOWED_TRANSITIONS J_EXECUTING =
     [J_WAIT_SCHEDULED, J_DECISION_REQUIRED, J_PAUSED, J_VALIDATION_RUNNING, J_COMPLETED,
      J_FAILED, J_ROLLBACK_REQUESTED, J_CANCELLED, J_AWAITING_HUMAN_APPROVAL]"
| "ALLOWED_TRANSITIONS J_DECISION_REQUIRED =
     [J_AWAITING_LLM_INSTRUCTION, J_AWAITING_HUMAN_APPROVAL, J_DRY_RUN_READY, J_EXECUTING,
      J_ROLLING_BACK, J_FAILED, J_CANCELLED, J_PAUSED]"
| "ALLOWED_TRANSITIONS J_PAUSED = [J_DRY_RUN_READY, J_EXECUTING, J_CANCELLED]"
| "ALLOWED_TRANSITIONS J_WAIT_SCHEDULED =
     [J_EXECUTING, J_DECISION_REQUIRED, J_CANCELLED, J_PAUSED]"
| "ALLOWED_TRANSITIONS J_VALIDATION_RUNNING =
     [J_COMPLETED, J_DECISION_REQUIRED, J_FAILED, J_CANCELLED]"
| "ALLOWED_TRANSITIONS J_ROLLBACK_REQUESTED =
     [J_AWAITING_HUMAN_APPROVAL, J_ROLLING_BACK, J_DECISION_REQUIRED, J_CANCELLED]"
| "ALLOWED_TRANSITIONS J_ROLLING_BACK =
     [J_COMPLETED, J_FAILED, J_DECISION_REQUIRED, J_CANCELLED]"
| "ALLOWED_TRANSITIONS J_COMPLETED = [J_ROLLBACK_REQUESTED]"
| "ALLOWED_TRANSITIONS J_FAILED = []"
| "ALLOWED_TRANSITIONS J_CANCELLED = []"

record state_transition =
  tr_job_id :: string
  tr_from :: job_state
  tr_to :: job_state
  tr_actor_type :: actor_type
  tr_actor_id :: "string option"
  tr_reason :: "string option"
  tr_correlation_id :: "string option"
  tr_trace_id :: "string option"
  tr_occurred_at :: instant

record transition_result =
  res_transition :: state_transition
  res_observation :: observation
  res_audit :: audit_event

text \<open>A guard accepts a transition or raises.\<close>

type_synonym guard = "state_transition \<Rightarrow> py_error + unit"

definition allowed_targets :: "job_state \<Rightarrow> job_state list" where
  "allowed_targets s = ALLOWED_TRANSITIONS s"

definition assert_transition_allowed :: "job_state \<Rightarrow> job_state \<Rightarrow> py_error + unit" where
  "assert_transition_allowed from_state to_state =
     (if to_state \<notin> set (allowed_targets from_state)
      then Inl (InvalidTransition from_state to_state) else Inr ())"

definition run_guards :: "guard list \<Rightarrow> state_transition \<Rightarrow> ('s, py_error, unit) prog" where
  "run_guards guards t = for_each (\<lambda>g. lift_result (g t)) guards"

definition transition_observation ::
    "string \<Rightarrow> instant \<Rightarrow> state_transition \<Rightarrow> observation" where
  "transition_observation oid now t =
     \<lparr>obs_id = oid, obs_job_id = tr_job_id t, obs_timestamp = now, obs_severity = Sev_INFO,
      obs_type = Obs_STATE_TRANSITION,
      obs_summary = ''Job transitioned from '' @ job_state_value (tr_from t) @ '' to ''
        @ job_state_value (tr_to t) @ ''.'',
      obs_phase_id = None, obs_step_id = None, obs_command_id = None,
      obs_correlation_id = tr_correlation_id t, obs_trace_id = tr_trace_id t,
      obs_mcp_server = None, obs_mcp_tool = None, obs_resource_refs = [],
      obs_stdout_redacted = None, obs_stderr_redacted = None,
      obs_result = JObj [(''from_state'', JStr (job_state_value (tr_from t))),
        (''to_state'', JStr (job_state_value (tr_to t))), (''reason'', jopt (tr_reason t))],
      obs_redaction_applied = True, obs_policy_blocks = [],
      obs_next_required_decision = None\<rparr>"

definition transition_audit ::
    "string \<Rightarrow> instant \<Rightarrow> state_transition \<Rightarrow> json dict \<Rightarrow> audit_event" where
  "transition_audit aid now t details =
     \<lparr>aud_id = aid, aud_timestamp = now, aud_actor_type = tr_actor_type t,
      aud_action = ''job_state_transition'', aud_redacted = True,
      aud_job_id = Some (tr_job_id t), aud_actor_id = tr_actor_id t,
      aud_correlation_id = tr_correlation_id t, aud_trace_id = tr_trace_id t,
      aud_input_hash = None, aud_output_hash = None,
      aud_details = dict_update
        [(''from_state'', JStr (job_state_value (tr_from t))),
         (''to_state'', JStr (job_state_value (tr_to t))), (''reason'', jopt (tr_reason t))]
        details\<rparr>"

definition transition ::
    "env \<Rightarrow> guard list \<Rightarrow> string \<Rightarrow> job_state \<Rightarrow> job_state \<Rightarrow> actor_type \<Rightarrow> string option \<Rightarrow>
     string option \<Rightarrow> string option \<Rightarrow> string option \<Rightarrow> json dict \<Rightarrow>
     ('a ctx_scheme, py_error, transition_result) prog" where
  "transition e guards jid from_state to_state actor actor_id reason corr trace details =
     bind (lift_result (assert_transition_allowed from_state to_state)) (\<lambda>_.
     bind (utc_now e) (\<lambda>now.
     let t = \<lparr>tr_job_id = jid, tr_from = from_state, tr_to = to_state,
              tr_actor_type = actor, tr_actor_id = actor_id, tr_reason = reason,
              tr_correlation_id = corr, tr_trace_id = trace, tr_occurred_at = now\<rparr> in
     bind (run_guards guards t) (\<lambda>_.
     bind (new_id e ''obs'') (\<lambda>oid.
     bind (utc_now e) (\<lambda>obs_now.
     bind (new_id e ''audit'') (\<lambda>aid.
     bind (utc_now e) (\<lambda>aud_now.
     ret \<lparr>res_transition = t,
          res_observation = transition_observation oid obs_now t,
          res_audit = transition_audit aid aud_now t details\<rparr>)))))))"

text \<open>\<open>DEFAULT_STATE_MACHINE\<close> has no guards.\<close>

definition DEFAULT_STATE_MACHINE :: "guard list" where
  "DEFAULT_STATE_MACHINE = []"

section \<open>The step relation of jobs\<close>

inductive job_step :: "job_state \<Rightarrow> job_state \<Rightarrow> bool" where
  allowed: "b \<in> set (allowed_targets a) \<Longrightarrow> job_step a b"

inductive_cases job_step_fromE: "job_step a b"

inductive_simps job_step_simp: "job_step a b"

abbreviation job_reach :: "job_state \<Rightarrow> job_state \<Rightarrow> bool" where
  "job_reach \<equiv> job_step\<^sup>*\<^sup>*"

lemmas job_step_table = job_step_simp allowed_targets_def

text \<open>A closed set of states is never left.\<close>

lemma job_reach_closed:
  assumes "job_reach a b" and "a \<in> S" and "\<And>x y. x \<in> S \<Longrightarrow> job_step x y \<Longrightarrow> y \<in> S"
  shows "b \<in> S"
  using assms(1,2) by (induction rule: rtranclp_induct) (auto intro: assms(3))

text \<open>Reachable without entering any state of a set.\<close>

inductive reach_avoiding :: "job_state set \<Rightarrow> job_state \<Rightarrow> job_state \<Rightarrow> bool"
  for G :: "job_state set" where
  start: "reach_avoiding G a a"
| step: "reach_avoiding G a b \<Longrightarrow> job_step b c \<Longrightarrow> c \<notin> G \<Longrightarrow> reach_avoiding G a c"

lemma reach_avoiding_closed:
  assumes "reach_avoiding G a b" and "a \<in> S"
    and "\<And>x y. x \<in> S \<Longrightarrow> job_step x y \<Longrightarrow> y \<notin> G \<Longrightarrow> y \<in> S"
  shows "b \<in> S"
  using assms(1,2) by (induction rule: reach_avoiding.induct) (auto intro: assms(3))

lemma transition_Inl:
  "to_state \<notin> set (allowed_targets from_state) \<Longrightarrow>
    transition e gs jid from_state to_state act aid reason corr trace details s =
      (Inl (InvalidTransition from_state to_state), s)"
  by (simp add: transition_def assert_transition_allowed_def prog_defs)

text \<open>An accepted transition of the default machine, with the records it emits.\<close>

lemma transition_default:
  assumes "to_state \<in> set (allowed_targets from_state)"
  obtains r where
    "transition e DEFAULT_STATE_MACHINE jid from_state to_state act aid reason corr trace details s
      = (Inr r, s\<lparr>c_tick := c_tick s + 3, c_ids := c_ids s + 2\<rparr>)"
    and "obs_job_id (res_observation r) = jid"
    and "aud_job_id (res_audit r) = Some jid"
    and "aud_id (res_audit r) = new_id_of e (Suc (c_ids s)) ''audit''"
    and "obs_id (res_observation r) = new_id_of e (c_ids s) ''obs''"
    and "aud_action (res_audit r) = ''job_state_transition''"
    and "tr_from (res_transition r) = from_state" and "tr_to (res_transition r) = to_state"
    and "tr_reason (res_transition r) = reason"
  using assms
  by (simp add: transition_def assert_transition_allowed_def DEFAULT_STATE_MACHINE_def
      run_guards_def prog_defs utc_now_def new_id_def transition_observation_def
      transition_audit_def numeral_3_eq_3)

section \<open>Properties\<close>

text \<open>
  The default machine accepts a transition exactly when the table allows it. It then
  emits a transition, an observation and an audit event that name the job, both states
  and the reason; otherwise it raises the invalid-transition error with the two states
  and nothing has happened.
\<close>

theorem transition_follows_table:
  "(case transition e DEFAULT_STATE_MACHINE jid a b act aid reason corr trace details s of
      (Inr r, s') \<Rightarrow>
        b \<in> set (allowed_targets a) \<and>
        tr_from (res_transition r) = a \<and> tr_to (res_transition r) = b \<and>
        obs_job_id (res_observation r) = jid \<and>
        obs_type (res_observation r) = Obs_STATE_TRANSITION \<and>
        get_or_null (obj_items (obs_result (res_observation r))) ''to_state''
          = JStr (job_state_value b) \<and>
        aud_job_id (res_audit r) = Some jid \<and>
        aud_action (res_audit r) = ''job_state_transition'' \<and>
        (dict_has details ''to_state'' \<or>
          get_or_null (aud_details (res_audit r)) ''to_state'' = JStr (job_state_value b)) \<and>
        c_ids s' = c_ids s + 2
    | (Inl err, s') \<Rightarrow>
        b \<notin> set (allowed_targets a) \<and> err = InvalidTransition a b \<and> s' = s)"
proof (cases "b \<in> set (allowed_targets a)")
  case True
  show ?thesis
    using True
    by (auto simp: transition_def assert_transition_allowed_def DEFAULT_STATE_MACHINE_def
      run_guards_def prog_defs utc_now_def new_id_def transition_observation_def
      transition_audit_def get_or_null_def dict_get_update dest: dict_get_rev_Some
      split: option.splits)
next
  case False
  then show ?thesis by (simp add: transition_Inl)
qed

text \<open>
  Failed and cancelled jobs are final for every sequence of transitions, and a
  completed job can only ever come back through a rollback request: no execution, dry run
  or validation is reachable from it without passing through that state.
\<close>

theorem final_states_are_final:
  "(job_reach J_FAILED s \<longleftrightarrow> s = J_FAILED) \<and>
   (job_reach J_CANCELLED s \<longleftrightarrow> s = J_CANCELLED) \<and>
   (reach_avoiding {J_ROLLBACK_REQUESTED} J_COMPLETED s \<longleftrightarrow> s = J_COMPLETED)"
proof (intro conjI)
  have "job_reach J_FAILED s \<Longrightarrow> s \<in> {J_FAILED}"
    by (rule job_reach_closed) (auto simp: job_step_table)
  then show "job_reach J_FAILED s \<longleftrightarrow> s = J_FAILED" by auto
  have "job_reach J_CANCELLED s \<Longrightarrow> s \<in> {J_CANCELLED}"
    by (rule job_reach_closed) (auto simp: job_step_table)
  then show "job_reach J_CANCELLED s \<longleftrightarrow> s = J_CANCELLED" by auto
  have "reach_avoiding {J_ROLLBACK_REQUESTED} J_COMPLETED s \<Longrightarrow> s \<in> {J_COMPLETED}"
    by (rule reach_avoiding_closed) (auto simp: job_step_table)
  then show "reach_avoiding {J_ROLLBACK_REQUESTED} J_COMPLETED s \<longleftrightarrow> s = J_COMPLETED"
    by (auto intro: reach_avoiding.start)
qed

text \<open>
  A job that is created reaches execution or rollback only through a state in which
  somebody outside the worker decides: human approval, an external instruction, a
  decision request, a pause, a scheduled wait or a rollback request.
\<close>

theorem execution_is_gated:
  "reach_avoiding
      {J_AWAITING_HUMAN_APPROVAL, J_AWAITING_LLM_INSTRUCTION, J_DECISION_REQUIRED, J_PAUSED,
       J_WAIT_SCHEDULED, J_ROLLBACK_REQUESTED} J_CREATED s \<Longrightarrow>
    s \<noteq> J_EXECUTING \<and> s \<noteq> J_ROLLING_BACK"
proof -
  let ?S = "{J_CREATED, J_VALIDATING_BUNDLE, J_INVALID_BUNDLE, J_DRY_RUN_READY, J_DRY_RUNNING,
    J_VALIDATION_RUNNING, J_COMPLETED, J_FAILED, J_CANCELLED}"
  assume "reach_avoiding
      {J_AWAITING_HUMAN_APPROVAL, J_AWAITING_LLM_INSTRUCTION, J_DECISION_REQUIRED, J_PAUSED,
       J_WAIT_SCHEDULED, J_ROLLBACK_REQUESTED} J_CREATED s"
  then have "s \<in> ?S"
    by (rule reach_avoiding_closed) (auto simp: job_step_table)
  then show ?thesis by auto
qed

theorem execution_is_gated_witness:
  "reach_avoiding
      {J_AWAITING_HUMAN_APPROVAL, J_AWAITING_LLM_INSTRUCTION, J_DECISION_REQUIRED, J_PAUSED,
       J_WAIT_SCHEDULED, J_ROLLBACK_REQUESTED} J_CREATED J_DRY_RUNNING \<and>
    J_DRY_RUNNING \<noteq> J_EXECUTING \<and> J_DRY_RUNNING \<noteq> J_ROLLING_BACK"
proof -
  have r: "reach_avoiding
      {J_AWAITING_HUMAN_APPROVAL, J_AWAITING_LLM_INSTRUCTION, J_DECISION_REQUIRED, J_PAUSED,
       J_WAIT_SCHEDULED, J_ROLLBACK_REQUESTED} J_CREATED J_DRY_RUNNING"
    by (rule reach_avoiding.step [OF reach_avoiding.step [OF reach_avoiding.step
          [OF reach_avoiding.start, where c = J_VALIDATING_BUNDLE], where c = J_DRY_RUN_READY]])
      (simp_all add: job_step_table)
  from r execution_is_gated [OF r] show ?thesis by simp
qed

end
