(* ===== verification/PyRegex.thy ===== *)
theory PyRegex
  imports Prelude
begin

text \<open>
  The fragment of Python's \<open>re\<close> that the agent uses, as a backtracking matcher: character
  classes, sequence, ordered alternative, greedy repetition and the word boundary. A
  position is the character before it (if any) and the text after it; \<open>ends r p\<close> lists
  the positions where a match of \<open>r\<close> that starts at \<open>p\<close> can end, in the order in
  which Python tries them, so that its head is the match Python reports.
\<close>

datatype rx =
    Cls "char \<Rightarrow> bool"
  | Eps
  | Cat rx rx
  | Alt rx rx
  | Star rx
  | WordB

type_synonym pos = "char option \<times> string"

definition at_boundary :: "pos \<Rightarrow> bool" where
  "at_boundary p \<longleftrightarrow>
     ((case fst p of None \<Rightarrow> False | Some c \<Rightarrow> is_word c)
       \<noteq> (case snd p of [] \<Rightarrow> False | c # _ \<Rightarrow> is_word c))"

text \<open>
  Greedy repetition: as many rounds as possible first, a round that consumes nothing ends
  the repetition. The fuel is the length of the remaining text, one unit per round.
\<close>

primrec star_ends :: "(pos \<Rightarrow> pos list) \<Rightarrow> nat \<Rightarrow> pos \<Rightarrow> pos list" where
  "star_ends f 0 p = [p]"
| "star_ends f (Suc n) p =
     concat (map (\<lambda>q. if length (snd q) < length (snd p) then star_ends f n q else []) (f p))
     @ [p]"

primrec ends :: "rx \<Rightarrow> pos \<Rightarrow> pos list" where
  "ends (Cls ok) p =
     (case snd p of [] \<Rightarrow> [] | c # s \<Rightarrow> if ok c then [(Some c, s)] else [])"
| "ends Eps p = [p]"
| "ends (Cat a b) p = concat (map (ends b) (ends a p))"
| "ends (Alt a b) p = ends a p @ ends b p"
| "ends (Star r) p = star_ends (ends r) (length (snd p)) p"
| "ends WordB p = (if at_boundary p then [p] else [])"

text \<open>\<open>bool(pattern.search(text))\<close>.\<close>

fun search_at :: "rx \<Rightarrow> char option \<Rightarrow> string \<Rightarrow> bool" where
  "search_at r prev [] = (ends r (prev, []) \<noteq> [])"
| "search_at r prev (c # s) = (ends r (prev, c # s) \<noteq> [] \<or> search_at r (Some c) s)"

definition re_search :: "rx \<Rightarrow> string \<Rightarrow> bool" where
  "re_search r s = search_at r None s"

text \<open>\<open>bool(re.fullmatch(pattern, text))\<close>.\<close>

definition re_fullmatch :: "rx \<Rightarrow> string \<Rightarrow> bool" where
  "re_fullmatch r s = list_ex (\<lambda>p. snd p = []) (ends r (None, s))"

text \<open>
  \<open>pattern.sub(text)\<close> and \<open>pattern.findall(text)\<close>: leftmost matches that do not
  overlap. Every pattern the agent substitutes or collects consumes at least one
  character; an empty match is skipped here.
\<close>

function sub_at :: "rx \<Rightarrow> string \<Rightarrow> char option \<Rightarrow> string \<Rightarrow> string" where
  "sub_at r new prev [] = []"
| "sub_at r new prev (c # s) =
     (case ends r (prev, c # s) of
        [] \<Rightarrow> c # sub_at r new (Some c) s
      | q # _ \<Rightarrow>
          (if length (snd q) < length (c # s)
           then new @ sub_at r new (fst q) (snd q)
           else c # sub_at r new (Some c) s))"
  by pat_completeness auto
termination
  by (relation "measure (\<lambda>(_, _, _, s). length s)") auto

definition re_sub :: "rx \<Rightarrow> string \<Rightarrow> string \<Rightarrow> string" where
  "re_sub r new s = sub_at r new None s"

function findall_at :: "rx \<Rightarrow> char option \<Rightarrow> string \<Rightarrow> string list" where
  "findall_at r prev [] = []"
| "findall_at r prev (c # s) =
     (case ends r (prev, c # s) of
        [] \<Rightarrow> findall_at r (Some c) s
      | q # _ \<Rightarrow>
          (if length (snd q) < length (c # s)
           then take (length (c # s) - length (snd q)) (c # s) # findall_at r (fst q) (snd q)
           else findall_at r (Some c) s))"
  by pat_completeness auto
termination
  by (relation "measure (\<lambda>(_, _, s). length s)") auto

definition re_findall :: "rx \<Rightarrow> string \<Rightarrow> string list" where
  "re_findall r s = findall_at r None s"

section \<open>Building patterns\<close>

definition chr_ci :: "char \<Rightarrow> rx" where
  "chr_ci c = Cls (\<lambda>x. to_lower x = to_lower c)"

text \<open>A literal word, compared without regard to case.\<close>

primrec lit_ci :: "string \<Rightarrow> rx" where
  "lit_ci [] = Eps"
| "lit_ci (c # s) = (if s = [] then chr_ci c else Cat (chr_ci c) (lit_ci s))"

primrec alts :: "rx \<Rightarrow> rx list \<Rightarrow> rx" where
  "alts r [] = r"
| "alts r (x # xs) = Alt r (alts x xs)"

primrec cats :: "rx \<Rightarrow> rx list \<Rightarrow> rx" where
  "cats r [] = r"
| "cats r (x # xs) = Cat r (cats x xs)"

definition opt :: "rx \<Rightarrow> rx" where
  "opt r = Alt r Eps"

definition plus :: "rx \<Rightarrow> rx" where
  "plus r = Cat r (Star r)"

primrec at_least :: "nat \<Rightarrow> rx \<Rightarrow> rx" where
  "at_least 0 r = Star r"
| "at_least (Suc n) r = Cat r (at_least n r)"

definition one_of :: "char list \<Rightarrow> rx" where
  "one_of cs = Cls (\<lambda>c. c \<in> set cs)"

definition space :: rx where
  "space = Cls is_space"

section \<open>Properties of the matcher\<close>

text \<open>A match only ever moves forward: what remains is a suffix of what there was.\<close>

lemma star_ends_suffix:
  assumes step: "\<And>p q. q \<in> set (f p) \<Longrightarrow> suffix (snd q) (snd p)"
  shows "q \<in> set (star_ends f n p) \<Longrightarrow> suffix (snd q) (snd p)"
proof (induction n arbitrary: p)
  case (Suc n)
  then consider "q = p" | q' where "q' \<in> set (f p)" "q \<in> set (star_ends f n q')"
    by (auto split: if_splits)
  then show ?case
  proof cases
    case 2
    then have "suffix (snd q) (snd q')" "suffix (snd q') (snd p)"
      using Suc.IH step by blast+
    then show ?thesis by (rule suffix_order.order_trans)
  qed simp
qed simp

lemma ends_suffix: "q \<in> set (ends r p) \<Longrightarrow> suffix (snd q) (snd p)"
proof (induction r arbitrary: p q)
  case (Cls ok)
  then show ?case
    by (cases p) (auto intro: suffix_ConsI split: list.splits if_splits)
next
  case (Cat a b)
  then obtain q' where "q' \<in> set (ends a p)" "q \<in> set (ends b q')" by auto
  with Cat.IH have "suffix (snd q) (snd q')" "suffix (snd q') (snd p)" by blast+
  then show ?case by (rule suffix_order.order_trans)
next
  case (Star r)
  then show ?case using star_ends_suffix [of "ends r"] by auto
qed (auto split: if_splits)

text \<open>A text in which the search finds nothing is not changed by the substitution.\<close>

lemma sub_at_no_match: "\<not> search_at r prev s \<Longrightarrow> sub_at r new prev s = s"
  by (induction r prev s rule: search_at.induct) auto

lemma re_sub_no_match: "\<not> re_search r s \<Longrightarrow> re_sub r new s = s"
  by (simp add: re_search_def re_sub_def sub_at_no_match)

lemma str_replace_absent: "\<not> str_contains old s \<Longrightarrow> str_replace old new s = s"
  by (induction s) (auto simp: starts_with_def)

text \<open>The fuel of a repetition is enough: more of it finds nothing new.\<close>

lemma star_ends_fuel:
  "length (snd p) \<le> n \<Longrightarrow> star_ends f n p = star_ends f (length (snd p)) p"
proof (induction n arbitrary: p rule: less_induct)
  case (less n)
  show ?case
  proof (cases "length (snd p)")
    case 0
    then show ?thesis by (cases n) simp_all
  next
    case (Suc k)
    with less.prems obtain m where m: "n = Suc m" by (cases n) auto
    have "star_ends f m q = star_ends f k q" if "length (snd q) < length (snd p)" for q
    proof -
      have le: "length (snd q) \<le> k" "k \<le> m" using that Suc m less.prems by simp_all
      have "star_ends f m q = star_ends f (length (snd q)) q"
        using less.IH [of m q] m le by simp
      moreover have "star_ends f k q = star_ends f (length (snd q)) q"
        using less.IH [of k q] m le by simp
      ultimately show ?thesis by simp
    qed
    then have "map (\<lambda>q. if length (snd q) < length (snd p) then star_ends f m q else []) (f p)
        = map (\<lambda>q. if length (snd q) < length (snd p) then star_ends f k q else []) (f p)"
      by (intro map_cong) simp_all
    then show ?thesis by (simp only: m Suc star_ends.simps)
  qed
qed

end
