(* ===== verification/Idempotency.thy ===== *)
theory Idempotency
  imports Models
begin

text \<open>
  The idempotency store of \<open>persistence/idempotency.py\<close>: records by key in memory, every
  change written to the backing file, which a new store reads back. The file holds the
  records sorted by key; encoding a record and validating it again is the identity.
\<close>

datatype idem_status = Idem_IN_PROGRESS | Idem_COMPLETED | Idem_FAILED

record idem_record =
  idr_key :: string
  idr_scope :: string
  idr_request_hash :: string
  idr_state :: idem_status
  idr_result_hash :: "string option"
  idr_result_payload :: "json option"
  idr_correlation_id :: "string option"
  idr_trace_id :: "string option"
  idr_created_at :: instant
  idr_updated_at :: instant
  idr_expires_at :: "instant option"

record idem_store = ctx +
  is_records :: "idem_record dict"
  is_file :: "idem_record dict option"

definition flush :: "idem_store \<Rightarrow> idem_store" where
  "flush s = s\<lparr>is_file := Some (sort_key fst (is_records s))\<rparr>"

text \<open>A store opened on the file that \<open>s\<close> left behind.\<close>

definition load :: "idem_store \<Rightarrow> idem_store" where
  "load s = s\<lparr>is_records := (case is_file s of None \<Rightarrow> [] | Some d \<Rightarrow> d)\<rparr>"

definition new_record ::
    "env \<Rightarrow> string \<Rightarrow> string \<Rightarrow> string \<Rightarrow> string option \<Rightarrow> string option \<Rightarrow>
     ('a ctx_scheme, py_error, idem_record) prog" where
  "new_record e key scope hash corr trace =
     bind (utc_now e) (\<lambda>created.
     bind (utc_now e) (\<lambda>updated.
     ret \<lparr>idr_key = key, idr_scope = scope, idr_request_hash = hash,
          idr_state = Idem_IN_PROGRESS, idr_result_hash = None, idr_result_payload = None,
          idr_correlation_id = corr, idr_trace_id = trace, idr_created_at = created,
          idr_updated_at = updated, idr_expires_at = None\<rparr>))"

definition begin_key ::
    "env \<Rightarrow> string \<Rightarrow> string \<Rightarrow> json \<Rightarrow> string option \<Rightarrow> string option \<Rightarrow>
     (idem_store, py_error, idem_record \<times> bool) prog" where
  "begin_key e key scope payload corr trace =
     (let request_hash = stable_hash (env_sha256 e) payload in
      bind (gets (\<lambda>s. dict_get (is_records s) key)) (\<lambda>existing.
      case existing of
        Some r \<Rightarrow>
          (if idr_request_hash r \<noteq> request_hash \<or> idr_scope r \<noteq> scope
           then raise_err IdempotencyConflict
           else ret (r, False))
      | None \<Rightarrow>
          bind (new_record e key scope request_hash corr trace) (\<lambda>r.
          seqp (modify (\<lambda>s. flush (s\<lparr>is_records := dict_set key r (is_records s)\<rparr>)))
            (ret (r, True)))))"

definition require_record :: "string \<Rightarrow> (idem_store, py_error, idem_record) prog" where
  "require_record key =
     bind (gets (\<lambda>s. dict_get (is_records s) key)) (\<lambda>r.
     case r of None \<Rightarrow> raise_err (KeyError key) | Some x \<Rightarrow> ret x)"

definition complete_key :: "env \<Rightarrow> string \<Rightarrow> json \<Rightarrow> (idem_store, py_error, idem_record) prog" where
  "complete_key e key result =
     bind (require_record key) (\<lambda>r.
     bind (utc_now e) (\<lambda>now.
     let updated = r\<lparr>idr_state := Idem_COMPLETED,
                     idr_result_hash := Some (stable_hash (env_sha256 e) result),
                     idr_result_payload := Some result, idr_updated_at := now\<rparr> in
     seqp (modify (\<lambda>s. flush (s\<lparr>is_records := dict_set key updated (is_records s)\<rparr>)))
       (ret updated)))"

definition get_key :: "string \<Rightarrow> (idem_store, py_error, idem_record option) prog" where
  "get_key key = gets (\<lambda>s. dict_get (is_records s) key)"

section \<open>Runs\<close>

text \<open>
  A client's operations, a restart (a new store on the same file) among them; an operation
  that raises leaves the store as it was at that point.
\<close>

datatype idem_op =
    Begin string string json "string option" "string option"
  | Complete string json
  | Restart

fun idem_step :: "env \<Rightarrow> idem_store \<Rightarrow> idem_op \<Rightarrow> idem_store" where
  "idem_step e s (Begin key scope payload corr trace) =
     snd (begin_key e key scope payload corr trace s)"
| "idem_step e s (Complete key result) = snd (complete_key e key result s)"
| "idem_step e s Restart = load s"

definition idem_run :: "env \<Rightarrow> idem_store \<Rightarrow> idem_op list \<Rightarrow> idem_store" where
  "idem_run e s ops = foldl (idem_step e) s ops"

text \<open>The file agrees with the memory, and keys are distinct.\<close>

definition idem_inv :: "idem_store \<Rightarrow> bool" where
  "idem_inv s \<longleftrightarrow> distinct (dict_keys (is_records s)) \<and>
     (case is_file s of
        None \<Rightarrow> is_records s = []
      | Some d \<Rightarrow> distinct (dict_keys d) \<and> map_of d = map_of (is_records s))"

lemma map_of_sort_key:
  "distinct (map fst d) \<Longrightarrow> map_of (sort_key fst d) = map_of d"
  by (rule map_of_inject_set [THEN iffD2]) (simp_all add: distinct_map)

lemma idem_inv_flush:
  "distinct (dict_keys (is_records s)) \<Longrightarrow> idem_inv (flush s)"
  by (simp add: idem_inv_def flush_def map_of_sort_key distinct_map)

lemma idem_step_inv: "idem_inv s \<Longrightarrow> idem_inv (idem_step e s op)"
proof (cases op)
  case (Begin key scope payload corr trace)
  assume "idem_inv s"
  with Begin show ?thesis
    by (auto simp: begin_key_def prog_defs new_record_def utc_now_def Let_def
        intro!: idem_inv_flush split: option.splits) (auto simp: idem_inv_def)
next
  case (Complete key result)
  assume "idem_inv s"
  with Complete show ?thesis
    by (auto simp: complete_key_def require_record_def prog_defs utc_now_def Let_def
        intro!: idem_inv_flush split: option.splits) (auto simp: idem_inv_def)
next
  case Restart
  assume "idem_inv s"
  with Restart show ?thesis by (auto simp: idem_inv_def load_def split: option.splits)
qed

text \<open>What is recorded of a request for a key is never forgotten or changed.\<close>

definition same_request :: "string \<Rightarrow> string \<Rightarrow> string \<Rightarrow> idem_store \<Rightarrow> bool" where
  "same_request key scope hash s \<longleftrightarrow>
     (\<exists>r. dict_get (is_records s) key = Some r \<and> idr_scope r = scope \<and>
        idr_request_hash r = hash)"

lemma idem_step_same_request:
  assumes "idem_inv s" and "same_request key scope hash s"
  shows "same_request key scope hash (idem_step e s op)"
proof (cases op)
  case (Begin key' scope' payload corr trace)
  with assms show ?thesis
    by (auto simp: begin_key_def prog_defs new_record_def utc_now_def Let_def flush_def
        same_request_def dict_simps split: option.splits)
next
  case (Complete key' result)
  with assms show ?thesis
    by (auto simp: complete_key_def require_record_def prog_defs utc_now_def Let_def flush_def
        same_request_def dict_simps split: option.splits)
next
  case Restart
  with assms show ?thesis
    by (auto simp: same_request_def idem_inv_def load_def split: option.splits)
qed

lemma idem_run_same_request:
  "idem_inv s \<Longrightarrow> same_request key scope hash s \<Longrightarrow> same_request key scope hash (idem_run e s ops)"
  unfolding idem_run_def
  by (induction ops arbitrary: s) (auto intro: idem_step_inv idem_step_same_request)

lemma begin_establishes:
  assumes "begin_key e key scope payload corr trace s = (Inr (r, c), s')"
  shows "same_request key scope (stable_hash (env_sha256 e) payload) s'"
  using assms
  by (auto simp: begin_key_def prog_defs new_record_def utc_now_def Let_def flush_def
      same_request_def dict_simps split: option.splits if_splits)

lemma begin_inv:
  assumes "idem_inv s" and "begin_key e key scope payload corr trace s = (r, s')"
  shows "idem_inv s'"
  using idem_step_inv [OF assms(1), of e "Begin key scope payload corr trace"] assms(2) by simp

lemma stable_hash_eq:
  "json_eq x y \<Longrightarrow> json_wf x \<Longrightarrow> json_wf y \<Longrightarrow> stable_hash h x = stable_hash h y"
  by (simp add: stable_hash_def json_dumps_def json_eq_sort_keys)

section \<open>Properties\<close>

text \<open>
  C33. A key stands for one request for ever. Once \<open>begin\<close> has accepted a key, then
  after any operations, restarts among them, the same request (an equal payload, in
  whatever order its keys are written) is replayed without creating anything, and a
  request with another digest or another scope is refused; neither changes the store.
\<close>

theorem idempotent_replay:
  assumes inv: "idem_inv s"
    and began: "begin_key e key scope payload corr trace s = (Inr (r, c), s')"
    and later: "t = idem_run e s' ops"
  shows "(json_eq payload payload' \<and> json_wf payload \<and> json_wf payload' \<longrightarrow>
            (\<exists>r'. begin_key e key scope payload' corr' trace' t = (Inr (r', False), t))) \<and>
         (stable_hash (env_sha256 e) payload' \<noteq> stable_hash (env_sha256 e) payload \<or>
          scope' \<noteq> scope \<longrightarrow>
            begin_key e key scope' payload' corr' trace' t = (Inl IdempotencyConflict, t))"
proof -
  have "same_request key scope (stable_hash (env_sha256 e) payload) t"
    unfolding later
    by (rule idem_run_same_request [OF begin_inv [OF inv began] begin_establishes [OF began]])
  then obtain r' where "dict_get (is_records t) key = Some r'"
    and "idr_scope r' = scope" and "idr_request_hash r' = stable_hash (env_sha256 e) payload"
    by (auto simp: same_request_def)
  then show ?thesis
    by (auto simp: begin_key_def prog_defs Let_def dest: stable_hash_eq [of _ _ "env_sha256 e"])
qed

text \<open>The environment of the worked examples: a counting clock and numbered identifiers.\<close>

definition demo_env :: env where
  "demo_env = \<lparr>env_clock = (\<lambda>n. int n), env_uuid = nat_str, env_sha256 = (\<lambda>s. s),
     env_dt_json = int_str, env_isoformat = int_str\<rparr>"

definition empty_store :: idem_store where
  "empty_store = \<lparr>c_tick = 0, c_ids = 0, is_records = [], is_file = None\<rparr>"

theorem idempotent_replay_witness:
  "\<exists>r s'. begin_key demo_env ''k'' ''mutation'' (JObj [(''a'', JInt 1), (''b'', JInt 2)]) None None
      empty_store = (Inr (r, True), s') \<and>
    (\<exists>r'. begin_key demo_env ''k'' ''mutation'' (JObj [(''b'', JInt 2), (''a'', JInt 1)]) None None
      (idem_run demo_env s' [Complete ''k'' JNull, Restart])
        = (Inr (r', False), idem_run demo_env s' [Complete ''k'' JNull, Restart])) \<and>
    begin_key demo_env ''k'' ''rollback'' (JObj [(''a'', JInt 1), (''b'', JInt 2)]) None None
      (idem_run demo_env s' [Complete ''k'' JNull, Restart])
        = (Inl IdempotencyConflict, idem_run demo_env s' [Complete ''k'' JNull, Restart])"
proof -
  let ?p = "JObj [(''a'', JInt 1), (''b'', JInt 2)]"
  let ?q = "JObj [(''b'', JInt 2), (''a'', JInt 1)]"
  let ?ops = "[Complete ''k'' JNull, Restart]"
  obtain r s' where b: "begin_key demo_env ''k'' ''mutation'' ?p None None empty_store
      = (Inr (r, True), s')"
    by (simp add: begin_key_def prog_defs new_record_def utc_now_def Let_def empty_store_def)
  have inv: "idem_inv empty_store" by (simp add: idem_inv_def empty_store_def)
  have eq: "json_eq ?p ?q"
    by (rule json_eq.eq_obj) (auto simp: rel_fun_def intro: json_eq.intros)
  from idempotent_replay [OF inv b refl, where payload' = ?q and corr' = None and trace' = None
        and scope' = "''mutation''" and ops = ?ops]
    idempotent_replay [OF inv b refl, where payload' = ?p and corr' = None and trace' = None
        and scope' = "''rollback''" and ops = ?ops]
  have "\<exists>r'. begin_key demo_env ''k'' ''mutation'' ?q None None (idem_run demo_env s' ?ops)
      = (Inr (r', False), idem_run demo_env s' ?ops)"
    and "begin_key demo_env ''k'' ''rollback'' ?p None None (idem_run demo_env s' ?ops)
      = (Inl IdempotencyConflict, idem_run demo_env s' ?ops)"
    using eq by auto
  with b show ?thesis by blast
qed

end
