(* ===== verification/Policy.thy ===== *)
theory Policy
  imports Redaction Idempotency
begin

text \<open>
  The safety policy of \<open>policy/\<close>: the guards for namespace scope, secrets, production
  data, dry run, human approval, idempotency, limits and audit, and the engine that
  composes them into one decision. A guard returns the blocks it raises; an action is
  allowed when no guard raises any.
\<close>

definition mk_block :: "string \<Rightarrow> string \<Rightarrow> policy_severity \<Rightarrow> string \<Rightarrow> policy_block" where
  "mk_block code message severity guardrail =
     \<lparr>pb_code = code, pb_message = message, pb_severity = severity,
      pb_guardrail = Some guardrail\<rparr>"

section \<open>Namespace scope (policy/namespace_scope.py)\<close>

definition CLUSTER_SCOPED_KINDS :: "string list" where
  "CLUSTER_SCOPED_KINDS =
     [''Namespace'', ''ClusterRole'', ''ClusterRoleBinding'', ''CustomResourceDefinition'',
      ''StorageClass'', ''PersistentVolume'']"

definition scope_block :: "string \<Rightarrow> string \<Rightarrow> policy_block" where
  "scope_block code detail = mk_block code detail Pol_BLOCK ''namespace_scope''"

definition resource_scope_blocks :: "resource_ref \<Rightarrow> string \<Rightarrow> policy_block list" where
  "resource_scope_blocks r target =
     (case rr_kind r of
        None \<Rightarrow> []
      | Some k \<Rightarrow>
          if k \<in> set CLUSTER_SCOPED_KINDS
          then [scope_block ''CLUSTER_SCOPED_RESOURCE_BLOCKED'' (opt_or (rr_kind r) ''unknown'')]
          else [])
     @ (case rr_namespace r of
          None \<Rightarrow> []
        | Some ns \<Rightarrow>
            if ns = target then []
            else [scope_block ''RESOURCE_NAMESPACE_OUT_OF_SCOPE''
                    (opt_or (rr_kind r) ''resource'' @ ''/'' @ opt_or (rr_name r) ''unknown''
                     @ '' targets '' @ ns)])"

text \<open>\<open>kind in CLUSTER_SCOPED_KINDS\<close>: a list or a mapping cannot be looked up in a set.\<close>

fun kind_is_cluster_scoped :: "json \<Rightarrow> py_error + bool" where
  "kind_is_cluster_scoped (JStr k) = Inr (k \<in> set CLUSTER_SCOPED_KINDS)"
| "kind_is_cluster_scoped (JArr xs) = Inl (TypeError ''unhashable type: list'')"
| "kind_is_cluster_scoped (JObj d) = Inl (TypeError ''unhashable type: dict'')"
| "kind_is_cluster_scoped _ = Inr False"

definition manifest_namespace :: "json dict \<Rightarrow> json" where
  "manifest_namespace m = get_or_null (obj_items (get_or_null m ''metadata'')) ''namespace''"

definition manifest_scope_blocks ::
    "json dict \<Rightarrow> string \<Rightarrow> py_error + policy_block list" where
  "manifest_scope_blocks m target =
     (let kind = get_or_null m ''kind''; ns = manifest_namespace m in
      case kind_is_cluster_scoped kind of
        Inl e \<Rightarrow> Inl e
      | Inr c \<Rightarrow> Inr
          ((if c then [scope_block ''CLUSTER_SCOPED_RESOURCE_BLOCKED'' (py_str kind)] else [])
           @ (if ns = JNull \<or> ns = JStr target then []
              else [scope_block ''RESOURCE_NAMESPACE_OUT_OF_SCOPE'' (py_str ns)])))"

fun manifests_scope_blocks ::
    "json dict list \<Rightarrow> string \<Rightarrow> py_error + policy_block list" where
  "manifests_scope_blocks [] target = Inr []"
| "manifests_scope_blocks (m # ms) target =
     (case manifest_scope_blocks m target of
        Inl e \<Rightarrow> Inl e
      | Inr bs \<Rightarrow>
          (case manifests_scope_blocks ms target of
             Inl e \<Rightarrow> Inl e
           | Inr cs \<Rightarrow> Inr (bs @ cs)))"

definition namespace_scope_blocks ::
    "string \<Rightarrow> resource_ref list \<Rightarrow> json dict list \<Rightarrow> py_error + policy_block list" where
  "namespace_scope_blocks target refs manifests =
     (case manifests_scope_blocks manifests target of
        Inl e \<Rightarrow> Inl e
      | Inr bs \<Rightarrow> Inr (concat (map (\<lambda>r. resource_scope_blocks r target) refs) @ bs))"

section \<open>Secrets (policy/secret_guard.py)\<close>

definition secret_block :: "string \<Rightarrow> string \<Rightarrow> policy_block" where
  "secret_block code detail = mk_block code detail Pol_CRITICAL ''secret_guard''"

fun is_kubernetes_secret_with_values :: "json \<Rightarrow> bool" where
  "is_kubernetes_secret_with_values (JObj d) =
     (get_or_null d ''kind'' = JStr ''Secret'' \<and>
      truthy (json_or (get_or_null d ''data'') (get_or_null d ''stringData'')))"
| "is_kubernetes_secret_with_values _ = False"

primrec dedupe_from :: "(string \<times> string) list \<Rightarrow> policy_block list \<Rightarrow> policy_block list" where
  "dedupe_from seen [] = []"
| "dedupe_from seen (b # bs) =
     (let key = (pb_code b, pb_message b) in
      if key \<notin> set seen then b # dedupe_from (key # seen) bs else dedupe_from seen bs)"

definition dedupe :: "policy_block list \<Rightarrow> policy_block list" where
  "dedupe blocks = dedupe_from [] blocks"

primrec secret_blocks_from :: "nat \<Rightarrow> json list \<Rightarrow> policy_block list" where
  "secret_blocks_from index [] = []"
| "secret_blocks_from index (payload # rest) =
     (let label = ''payload['' @ nat_str index @ ''] '' in
      (if is_kubernetes_secret_with_values payload
       then [secret_block ''SECRET_VALUES_BLOCKED'' (label @ ''Kubernetes Secret'')] else [])
      @ map (\<lambda>f. secret_block ''SECRET_VALUES_BLOCKED'' (label @ sf_path f))
          (find_sensitive_content payload ''$''))
     @ secret_blocks_from (Suc index) rest"

definition secret_blocks :: "json list \<Rightarrow> policy_block list" where
  "secret_blocks payloads = dedupe (secret_blocks_from 0 payloads)"

section \<open>Production data (policy/production_data_guard.py)\<close>

definition DATA_COPY_PATTERN :: rx where
  "DATA_COPY_PATTERN =
     cats WordB
       [alts (cats (lit_ci ''kubectl'') [plus space, lit_ci ''cp''])
          [lit_ci ''rsync'', lit_ci ''scp'', lit_ci ''copy'', lit_ci ''cp''], WordB]"

definition PRODUCTION_PATTERN :: rx where
  "PRODUCTION_PATTERN = cats WordB [alts (lit_ci ''prod'') [lit_ci ''production''], WordB]"

definition PVC_PATTERN :: rx where
  "PVC_PATTERN =
     cats WordB
       [alts (lit_ci ''pvc'')
          [lit_ci ''persistentvolumeclaim'', lit_ci ''/data'', lit_ci ''volume''], WordB]"

definition production_block :: "string \<Rightarrow> string \<Rightarrow> policy_block" where
  "production_block code detail = mk_block code detail Pol_CRITICAL ''production_data_guard''"

definition mentions_pvc :: "string \<Rightarrow> json dict list \<Rightarrow> bool" where
  "mentions_pvc command manifests \<longleftrightarrow>
     re_search PVC_PATTERN command \<or>
     list_ex (\<lambda>m. get_or_null m ''kind'' = JStr ''PersistentVolumeClaim'') manifests"

definition production_data_blocks ::
    "string option \<Rightarrow> json dict list \<Rightarrow> policy_block list" where
  "production_data_blocks command manifests =
     (let cmd = opt_or command [] in
      (if re_search DATA_COPY_PATTERN cmd \<and> re_search PRODUCTION_PATTERN cmd
       then [production_block ''PRODUCTION_DATA_COPY_BLOCKED'' ''production data copy command'']
       else [])
      @ (if re_search DATA_COPY_PATTERN cmd \<and> mentions_pvc cmd manifests
         then [production_block ''PVC_DATA_COPY_BLOCKED'' ''PVC content copy command'']
         else []))"

section \<open>Dry run and audit (policy/dry_run_gate.py, policy/audit_gate.py)\<close>

definition dry_run_blocks :: "bool \<Rightarrow> bool \<Rightarrow> policy_block list" where
  "dry_run_blocks mutating satisfied =
     (if \<not> mutating \<or> satisfied then []
      else [mk_block ''DRY_RUN_REQUIRED''
              ''Mutating action requires successful dry-run/preflight.'' Pol_BLOCK
              ''dry_run_before_mutation''])"

definition audit_blocks :: "bool \<Rightarrow> bool \<Rightarrow> policy_block list" where
  "audit_blocks mutating audit_written =
     (if \<not> mutating \<or> audit_written then []
      else [mk_block ''AUDIT_REQUIRED_BEFORE_MUTATION''
              ''Mutation requires append-only audit write before execution.'' Pol_BLOCK
              ''audit_before_mutation''])"

section \<open>Human approval (policy/approval_gate.py)\<close>

definition MUTATION_SCOPES :: "approval_scope list" where
  "MUTATION_SCOPES =
     [Scope_MUTATION, Scope_NAMESPACE_CREATION, Scope_ROLLBACK, Scope_DESTRUCTIVE_ROLLBACK]"

definition resource_key ::
    "resource_ref \<Rightarrow> string \<Rightarrow> string option \<times> string \<times> string option" where
  "resource_key r target = (rr_kind r, opt_or (rr_namespace r) target, rr_name r)"

definition resources_covered ::
    "resource_ref list \<Rightarrow> resource_ref list \<Rightarrow> string \<Rightarrow> bool" where
  "resources_covered approved requested target =
     (if requested = [] then True
      else set (map (\<lambda>r. resource_key r target) requested)
        \<subseteq> set (map (\<lambda>r. resource_key r target) approved))"

definition expired :: "human_approval \<Rightarrow> instant \<Rightarrow> bool" where
  "expired a now = (case apr_expires_at a of None \<Rightarrow> False | Some t \<Rightarrow> t \<le> now)"

text \<open>\<open>ids and x not in ids\<close>.\<close>

definition id_excluded :: "string list \<Rightarrow> string option \<Rightarrow> bool" where
  "id_excluded ids x \<longleftrightarrow> ids \<noteq> [] \<and> (case x of None \<Rightarrow> True | Some i \<Rightarrow> i \<notin> set ids)"

definition approval_matches ::
    "human_approval \<Rightarrow> string \<Rightarrow> string \<Rightarrow> string option \<Rightarrow> string option \<Rightarrow>
     resource_ref list \<Rightarrow> string option \<Rightarrow> instant \<Rightarrow> bool" where
  "approval_matches a jid target phase step refs fingerprint now =
     (if apr_job_id a \<noteq> jid \<or> apr_scope a \<notin> set MUTATION_SCOPES then False
      else if expired a now then False
      else if id_excluded (apr_phase_ids a) phase then False
      else if id_excluded (apr_step_ids a) step then False
      else if opt_truthy (apr_fingerprint a) \<and> apr_fingerprint a \<noteq> fingerprint then False
      else if apr_resource_refs a \<noteq> [] then resources_covered (apr_resource_refs a) refs target
      else True)"

definition approval_block :: "string \<Rightarrow> string \<Rightarrow> policy_block" where
  "approval_block code message = mk_block code message Pol_BLOCK ''human_approval''"

definition approval_blocks ::
    "bool \<Rightarrow> human_approval list \<Rightarrow> string \<Rightarrow> string \<Rightarrow> string option \<Rightarrow> string option \<Rightarrow>
     resource_ref list \<Rightarrow> string option \<Rightarrow> instant \<Rightarrow> policy_block list" where
  "approval_blocks mutating approvals jid target phase step refs fingerprint now =
     (if \<not> mutating then []
      else if filter (\<lambda>a. approval_matches a jid target phase step refs fingerprint now) approvals
        \<noteq> [] then []
      else if list_ex (\<lambda>a. expired a now) approvals
        then [approval_block ''APPROVAL_EXPIRED'' ''Approval expired before mutation.'']
      else if approvals \<noteq> []
        then [approval_block ''APPROVAL_SCOPE_MISMATCH'' ''Approval does not match this mutation.'']
      else [approval_block ''APPROVAL_REQUIRED'' ''Mutating action requires human approval.''])"

section \<open>Idempotency and limits (policy/idempotency.py, policy/limits.py)\<close>

definition idempotency_block :: "string \<Rightarrow> string \<Rightarrow> policy_block" where
  "idempotency_block code message = mk_block code message Pol_BLOCK ''idempotency''"

definition idempotency_blocks ::
    "env \<Rightarrow> bool \<Rightarrow> idem_record option \<Rightarrow> json option \<Rightarrow> policy_block list" where
  "idempotency_blocks e mutating rec payload =
     (if \<not> mutating then []
      else case (rec, payload) of
        (Some r, Some p) \<Rightarrow>
          (if idr_request_hash r \<noteq> stable_hash (env_sha256 e) p
           then [idempotency_block ''IDEMPOTENCY_REQUEST_MISMATCH''
                   ''Idempotency key request hash mismatch.'']
           else [])
      | _ \<Rightarrow> [idempotency_block ''IDEMPOTENCY_REQUIRED''
                ''Mutating action requires an idempotency record.''])"

definition limit_blocks :: "int option \<Rightarrow> int \<Rightarrow> int \<Rightarrow> int \<Rightarrow> policy_block list" where
  "limit_blocks timeout retries max_timeout max_retries =
     (case timeout of
        None \<Rightarrow> []
      | Some t \<Rightarrow>
          if max_timeout < t
          then [mk_block ''TIMEOUT_LIMIT_EXCEEDED''
                  (''Requested timeout '' @ int_str t @ ''s exceeds '' @ int_str max_timeout
                   @ ''s.'') Pol_BLOCK ''timeout_limits'']
          else [])
     @ (if max_retries < retries
        then [mk_block ''RETRY_LIMIT_EXCEEDED''
                (''Requested retries '' @ int_str retries @ '' exceeds '' @ int_str max_retries
                 @ ''.'') Pol_BLOCK ''retry_limits'']
        else [])"

section \<open>The engine (policy/engine.py, policy/command_fingerprint.py)\<close>

definition command_fingerprint :: "env \<Rightarrow> string \<Rightarrow> json dict \<Rightarrow> string" where
  "command_fingerprint e command metadata =
     stable_hash (env_sha256 e) (JObj [(''command'', JStr command), (''metadata'', JObj metadata)])"

record policy_limits =
  pl_max_timeout :: int
  pl_max_retries :: int

definition default_limits :: policy_limits where
  "default_limits = \<lparr>pl_max_timeout = 1800, pl_max_retries = 3\<rparr>"

record policy_context =
  pc_job_id :: string
  pc_target :: string
  pc_mutating :: bool
  pc_phase_id :: "string option"
  pc_step_id :: "string option"
  pc_command :: "string option"
  pc_command_metadata :: "json dict"
  pc_resource_refs :: "resource_ref list"
  pc_manifests :: "json dict list"
  pc_values_files :: "json dict list"
  pc_instructions :: "json list"
  pc_logs :: "string list"
  pc_outputs :: "json list"
  pc_approvals :: "human_approval list"
  pc_dry_run_satisfied :: bool
  pc_idempotency :: "idem_record option"
  pc_request_payload :: "json option"
  pc_timeout :: "int option"
  pc_retries :: int
  pc_audit_written :: bool
  pc_now :: instant

record policy_decision =
  pd_allowed :: bool
  pd_blocks :: "policy_block list"
  pd_fingerprint :: "string option"

definition context_fingerprint :: "env \<Rightarrow> policy_context \<Rightarrow> string option" where
  "context_fingerprint e c =
     map_option (\<lambda>cmd. command_fingerprint e cmd (pc_command_metadata c)) (pc_command c)"

definition context_payloads :: "policy_context \<Rightarrow> json list" where
  "context_payloads c =
     map JObj (pc_manifests c) @ map JObj (pc_values_files c) @ pc_instructions c
     @ map JStr (pc_logs c) @ pc_outputs c"

definition evaluate_policy ::
    "env \<Rightarrow> policy_context \<Rightarrow> policy_limits option \<Rightarrow> py_error + policy_decision" where
  "evaluate_policy e c limits =
     (let lim = (case limits of None \<Rightarrow> default_limits | Some l \<Rightarrow> l);
          fingerprint = context_fingerprint e c in
      case namespace_scope_blocks (pc_target c) (pc_resource_refs c) (pc_manifests c) of
        Inl err \<Rightarrow> Inl err
      | Inr scope \<Rightarrow>
          (let blocks =
             scope
             @ secret_blocks (context_payloads c)
             @ production_data_blocks (pc_command c) (pc_manifests c)
             @ dry_run_blocks (pc_mutating c) (pc_dry_run_satisfied c)
             @ approval_blocks (pc_mutating c) (pc_approvals c) (pc_job_id c) (pc_target c)
                 (pc_phase_id c) (pc_step_id c) (pc_resource_refs c) fingerprint (pc_now c)
             @ idempotency_blocks e (pc_mutating c) (pc_idempotency c) (pc_request_payload c)
             @ limit_blocks (pc_timeout c) (pc_retries c) (pl_max_timeout lim)
                 (pl_max_retries lim)
             @ audit_blocks (pc_mutating c) (pc_audit_written c)
           in Inr \<lparr>pd_allowed = (blocks = []), pd_blocks = blocks,
                   pd_fingerprint = fingerprint\<rparr>))"

section \<open>What the guards stand for\<close>

definition in_scope_ref :: "string \<Rightarrow> resource_ref \<Rightarrow> bool" where
  "in_scope_ref target r \<longleftrightarrow>
     (\<forall>k \<in> set CLUSTER_SCOPED_KINDS. rr_kind r \<noteq> Some k) \<and>
     (rr_namespace r = None \<or> rr_namespace r = Some target)"

definition in_scope_manifest :: "string \<Rightarrow> json dict \<Rightarrow> bool" where
  "in_scope_manifest target m \<longleftrightarrow>
     (\<forall>k \<in> set CLUSTER_SCOPED_KINDS. get_or_null m ''kind'' \<noteq> JStr k) \<and>
     (manifest_namespace m = JNull \<or> manifest_namespace m = JStr target)"

definition clean_payload :: "json \<Rightarrow> bool" where
  "clean_payload p \<longleftrightarrow>
     \<not> is_kubernetes_secret_with_values p \<and> \<not> contains_sensitive_content p"

definition copies_data :: "string option \<Rightarrow> json dict list \<Rightarrow> bool" where
  "copies_data command manifests \<longleftrightarrow>
     (let t = opt_or command [] in
      re_search DATA_COPY_PATTERN t \<and>
      (re_search PRODUCTION_PATTERN t \<or> mentions_pvc t manifests))"

text \<open>
  An approval covers an action: it is for the job, of a mutating scope, not expired, and
  each restriction it carries (phases, steps, fingerprint, resources) admits the action.
\<close>

definition approval_covers :: "env \<Rightarrow> policy_context \<Rightarrow> human_approval \<Rightarrow> bool" where
  "approval_covers e c a \<longleftrightarrow>
     apr_job_id a = pc_job_id c \<and> apr_scope a \<in> set MUTATION_SCOPES \<and>
     (\<forall>t. apr_expires_at a = Some t \<longrightarrow> pc_now c < t) \<and>
     (apr_phase_ids a = [] \<or> (\<exists>i \<in> set (apr_phase_ids a). pc_phase_id c = Some i)) \<and>
     (apr_step_ids a = [] \<or> (\<exists>i \<in> set (apr_step_ids a). pc_step_id c = Some i)) \<and>
     (\<forall>f. apr_fingerprint a = Some f \<and> f \<noteq> [] \<longrightarrow> context_fingerprint e c = Some f) \<and>
     (apr_resource_refs a = [] \<or>
       (\<forall>r \<in> set (pc_resource_refs c). \<exists>q \<in> set (apr_resource_refs a).
          resource_key r (pc_target c) = resource_key q (pc_target c)))"

definition idempotency_holds :: "env \<Rightarrow> policy_context \<Rightarrow> bool" where
  "idempotency_holds e c \<longleftrightarrow>
     (\<exists>r p. pc_idempotency c = Some r \<and> pc_request_payload c = Some p \<and>
        idr_request_hash r = stable_hash (env_sha256 e) p)"

definition within_limits :: "policy_limits \<Rightarrow> policy_context \<Rightarrow> bool" where
  "within_limits l c \<longleftrightarrow>
     (\<forall>t. pc_timeout c = Some t \<longrightarrow> t \<le> pl_max_timeout l) \<and> pc_retries c \<le> pl_max_retries l"

definition policy_satisfied :: "env \<Rightarrow> policy_limits \<Rightarrow> policy_context \<Rightarrow> bool" where
  "policy_satisfied e l c \<longleftrightarrow>
     list_all (in_scope_ref (pc_target c)) (pc_resource_refs c) \<and>
     list_all (in_scope_manifest (pc_target c)) (pc_manifests c) \<and>
     list_all clean_payload (context_payloads c) \<and>
     \<not> copies_data (pc_command c) (pc_manifests c) \<and>
     within_limits l c \<and>
     (pc_mutating c \<longrightarrow>
        pc_dry_run_satisfied c \<and> (\<exists>a \<in> set (pc_approvals c). approval_covers e c a) \<and>
        idempotency_holds e c \<and> pc_audit_written c)"

section \<open>The gates in front of a mutation\<close>

text \<open>
  Four guards concern mutating actions only. What they share: the guard is silent exactly
  when the action does not mutate or the gate's condition holds.
\<close>

locale mutation_gate =
  fixes blocks :: "env \<Rightarrow> policy_context \<Rightarrow> policy_block list"
    and holds :: "env \<Rightarrow> policy_context \<Rightarrow> bool"
  assumes gate: "blocks e c = [] \<longleftrightarrow> (pc_mutating c \<longrightarrow> holds e c)"
begin

lemma read_only: "\<not> pc_mutating c \<Longrightarrow> blocks e c = []"
  by (simp add: gate)

lemma enforced: "pc_mutating c \<Longrightarrow> blocks e c = [] \<Longrightarrow> holds e c"
  by (simp add: gate)

end

lemma approval_matches_iff:
  "approval_matches a (pc_job_id c) (pc_target c) (pc_phase_id c) (pc_step_id c)
     (pc_resource_refs c) (context_fingerprint e c) (pc_now c) \<longleftrightarrow> approval_covers e c a"
  unfolding approval_matches_def approval_covers_def expired_def id_excluded_def
    opt_truthy_def resources_covered_def
  by (cases "apr_expires_at a"; cases "pc_phase_id c"; cases "pc_step_id c";
      cases "apr_fingerprint a") (auto simp: not_le)

interpretation dry_run_gate: mutation_gate
  "\<lambda>e c. dry_run_blocks (pc_mutating c) (pc_dry_run_satisfied c)"
  "\<lambda>e c. pc_dry_run_satisfied c"
  by unfold_locales (auto simp: dry_run_blocks_def)

interpretation audit_gate: mutation_gate
  "\<lambda>e c. audit_blocks (pc_mutating c) (pc_audit_written c)"
  "\<lambda>e c. pc_audit_written c"
  by unfold_locales (auto simp: audit_blocks_def)

interpretation approval_gate: mutation_gate
  "\<lambda>e c. approval_blocks (pc_mutating c) (pc_approvals c) (pc_job_id c) (pc_target c)
     (pc_phase_id c) (pc_step_id c) (pc_resource_refs c) (context_fingerprint e c) (pc_now c)"
  "\<lambda>e c. \<exists>a \<in> set (pc_approvals c). approval_covers e c a"
  by unfold_locales
    (auto simp: approval_blocks_def filter_empty_conv approval_matches_iff)

interpretation idempotency_gate: mutation_gate
  "\<lambda>e c. idempotency_blocks e (pc_mutating c) (pc_idempotency c) (pc_request_payload c)"
  idempotency_holds
  by unfold_locales
    (auto simp: idempotency_blocks_def idempotency_holds_def split: option.splits)

lemmas mutation_gates =
  dry_run_gate.gate audit_gate.gate approval_gate.gate idempotency_gate.gate

section \<open>When each guard is silent\<close>

lemma resource_scope_silent: "resource_scope_blocks r target = [] \<longleftrightarrow> in_scope_ref target r"
  by (auto simp: resource_scope_blocks_def in_scope_ref_def split: option.splits)

lemma kind_lookup:
  "kind_is_cluster_scoped k = Inr b \<Longrightarrow> b \<longleftrightarrow> (\<exists>x \<in> set CLUSTER_SCOPED_KINDS. k = JStr x)"
  by (cases k) auto

lemma kind_lookup_error:
  "(\<exists>err. kind_is_cluster_scoped k = Inl err) \<longleftrightarrow> is_arr k \<or> is_obj k"
  by (cases k) auto

lemma manifest_scope_silent:
  "manifest_scope_blocks m target = Inr bs \<Longrightarrow> bs = [] \<longleftrightarrow> in_scope_manifest target m"
  by (auto simp: manifest_scope_blocks_def in_scope_manifest_def Let_def
      dest: kind_lookup split: sum.splits if_splits)

lemma manifests_scope_silent:
  "manifests_scope_blocks ms target = Inr bs \<Longrightarrow>
    bs = [] \<longleftrightarrow> list_all (in_scope_manifest target) ms"
  by (induction ms arbitrary: bs) (auto dest: manifest_scope_silent split: sum.splits)

lemma manifests_scope_error:
  "manifests_scope_blocks ms target = Inl err \<Longrightarrow>
    \<exists>m \<in> set ms. is_arr (get_or_null m ''kind'') \<or> is_obj (get_or_null m ''kind'')"
proof (induction ms)
  case (Cons m ms)
  show ?case
  proof (cases "manifest_scope_blocks m target")
    case (Inl e)
    then have "\<exists>err. kind_is_cluster_scoped (get_or_null m ''kind'') = Inl err"
      by (auto simp: manifest_scope_blocks_def Let_def split: sum.splits)
    then show ?thesis by (auto simp: kind_lookup_error)
  next
    case (Inr bs)
    with Cons show ?thesis by (auto split: sum.splits)
  qed
qed simp

lemma namespace_scope_silent:
  "namespace_scope_blocks target refs ms = Inr bs \<Longrightarrow>
    bs = [] \<longleftrightarrow> list_all (in_scope_ref target) refs \<and> list_all (in_scope_manifest target) ms"
  by (auto simp: namespace_scope_blocks_def resource_scope_silent list_all_iff
      dest: manifests_scope_silent split: sum.splits)

lemma dedupe_from_keys:
  "(pb_code b, pb_message b) \<notin> set seen \<Longrightarrow> b \<in> set bs \<Longrightarrow> dedupe_from seen bs \<noteq> []"
  by (induction bs arbitrary: seen) (auto simp: Let_def)

lemma dedupe_silent: "dedupe bs = [] \<longleftrightarrow> bs = []"
  unfolding dedupe_def by (cases bs) (auto simp: Let_def)

lemma secret_blocks_silent: "secret_blocks ps = [] \<longleftrightarrow> list_all clean_payload ps"
proof -
  have "secret_blocks_from i ps = [] \<longleftrightarrow> list_all clean_payload ps" for i
    by (induction ps arbitrary: i)
      (auto simp: clean_payload_def contains_sensitive_content_def Let_def)
  then show ?thesis by (simp add: secret_blocks_def dedupe_silent)
qed

lemma production_data_silent:
  "production_data_blocks command ms = [] \<longleftrightarrow> \<not> copies_data command ms"
  by (auto simp: production_data_blocks_def copies_data_def Let_def)

lemma limit_blocks_silent:
  "limit_blocks (pc_timeout c) (pc_retries c) (pl_max_timeout l) (pl_max_retries l) = []
    \<longleftrightarrow> within_limits l c"
  by (auto simp: limit_blocks_def within_limits_def not_less split: option.splits if_splits)

lemmas guards_silent =
  namespace_scope_silent secret_blocks_silent production_data_silent limit_blocks_silent
  mutation_gates

lemma evaluate_policy_allowed:
  assumes "evaluate_policy e c limits = Inr d"
  shows "pd_allowed d \<longleftrightarrow>
    policy_satisfied e (case limits of None \<Rightarrow> default_limits | Some l \<Rightarrow> l) c"
proof -
  obtain scope where scope: "namespace_scope_blocks (pc_target c) (pc_resource_refs c)
      (pc_manifests c) = Inr scope"
    using assms by (auto simp: evaluate_policy_def Let_def split: sum.splits)
  with assms show ?thesis
    by (auto simp: evaluate_policy_def Let_def policy_satisfied_def guards_silent
        namespace_scope_silent [OF scope] split: option.splits)
qed

lemma evaluate_policy_error:
  "evaluate_policy e c limits = Inl err \<Longrightarrow>
    \<exists>m \<in> set (pc_manifests c). is_arr (get_or_null m ''kind'') \<or> is_obj (get_or_null m ''kind'')"
  by (auto simp: evaluate_policy_def namespace_scope_blocks_def Let_def
      dest: manifests_scope_error split: sum.splits)

section \<open>Properties\<close>

text \<open>
  C29. The engine decides exactly the policy: the action is allowed if and only if every
  resource and manifest stays in the target namespace and is not cluster scoped, every
  payload is free of secrets, no production or volume data is copied, the limits hold,
  and, for a mutating action, the dry run has succeeded, an unexpired approval for this job
  covers the action, the idempotency record matches and the audit event is written. It
  fails only on a manifest whose kind is a list or a mapping.
\<close>

theorem policy_decides_exactly:
  "case evaluate_policy e c limits of
     Inr d \<Rightarrow>
       pd_allowed d = policy_satisfied e (case limits of None \<Rightarrow> default_limits | Some l \<Rightarrow> l) c \<and>
       pd_allowed d = (pd_blocks d = []) \<and> pd_fingerprint d = context_fingerprint e c
   | Inl err \<Rightarrow>
       \<exists>m \<in> set (pc_manifests c). is_arr (get_or_null m ''kind'') \<or> is_obj (get_or_null m ''kind'')"
proof (cases "evaluate_policy e c limits")
  case (Inl err)
  then show ?thesis by (auto dest: evaluate_policy_error)
next
  case (Inr d)
  moreover from Inr have "pd_allowed d = (pd_blocks d = [])"
    and "pd_fingerprint d = context_fingerprint e c"
    by (auto simp: evaluate_policy_def Let_def split: sum.splits)
  ultimately show ?thesis by (simp add: evaluate_policy_allowed)
qed

text \<open>
  Approvals only ever help, and only those that can cover the action count: taking away
  every approval that is expired, belongs to another job or has a scope that does not
  mutate changes neither the outcome nor the error.
\<close>

theorem useless_approvals_do_not_count:
  "map_sum id pd_allowed (evaluate_policy e c limits) =
   map_sum id pd_allowed
     (evaluate_policy e
       (c\<lparr>pc_approvals := filter (\<lambda>a. \<not> expired a (pc_now c) \<and> apr_job_id a = pc_job_id c \<and>
            apr_scope a \<in> set MUTATION_SCOPES) (pc_approvals c)\<rparr>) limits)"
  (is "_ = map_sum id pd_allowed (evaluate_policy e ?c limits)")
proof -
  have covers: "approval_covers e ?c a = approval_covers e c a" for a
    by (simp add: approval_covers_def context_fingerprint_def)
  have "(\<exists>a \<in> set (pc_approvals ?c). approval_covers e ?c a)
      = (\<exists>a \<in> set (pc_approvals c). approval_covers e c a)"
    unfolding covers by (auto simp: approval_covers_def expired_def split: option.splits)
  then have sat: "policy_satisfied e l ?c = policy_satisfied e l c" for l
    by (simp add: policy_satisfied_def context_payloads_def within_limits_def
        idempotency_holds_def)
  show ?thesis
  proof (cases "evaluate_policy e c limits")
    case (Inl err)
    then have "evaluate_policy e ?c limits = Inl err"
      by (auto simp: evaluate_policy_def Let_def split: sum.splits)
    with Inl show ?thesis by simp
  next
    case (Inr d)
    then obtain d' where d': "evaluate_policy e ?c limits = Inr d'"
      by (auto simp: evaluate_policy_def Let_def split: sum.splits)
    from Inr d' have "pd_allowed d = pd_allowed d'"
      by (simp only: evaluate_policy_allowed sat)
    with Inr d' show ?thesis by simp
  qed
qed

text \<open>
  The pattern that recognises volume paths needs a word character before the slash, so a
  copy out of a pod's data directory is not recognised.
\<close>

lemma pod_data_copy_not_recognised:
  "production_data_blocks (Some ''kubectl cp web-0:/data .'') [] = []"
  by code_simp

end
