(* ===== verification/Locks.thy ===== *)
theory Locks
  imports Models
begin

text \<open>
  The leases of \<open>persistence/locks.py\<close>: the small Redis-like client with expiry, the
  exclusive lock of a target namespace and the heartbeat of a worker. Every reading of the
  clock is an argument of the operation (\<open>t\<close> in the purge, \<open>t'\<close> for the new expiry).
\<close>

section \<open>The client\<close>

type_synonym redis = "(string \<times> instant option) dict"

definition purge_if_expired :: "instant \<Rightarrow> string \<Rightarrow> redis \<Rightarrow> redis" where
  "purge_if_expired t name s =
     (case dict_get s name of
        None \<Rightarrow> s
      | Some (_, None) \<Rightarrow> s
      | Some (_, Some expires_at) \<Rightarrow> if expires_at \<le> t then dict_pop name s else s)"

definition redis_set ::
    "instant \<Rightarrow> instant \<Rightarrow> string \<Rightarrow> string \<Rightarrow> bool \<Rightarrow> bool \<Rightarrow> int option \<Rightarrow> redis \<Rightarrow> bool \<times> redis" where
  "redis_set t t' name v nx xx ex s =
     (let s = purge_if_expired t name s; exists = dict_has s name in
      if nx \<and> exists then (False, s)
      else if xx \<and> \<not> exists then (False, s)
      else
        (let expires_at = (case ex of None \<Rightarrow> None
                           | Some n \<Rightarrow> if n = 0 then None else Some (t' + seconds n)) in
         (True, dict_set name (v, expires_at) s)))"

definition redis_get :: "instant \<Rightarrow> string \<Rightarrow> redis \<Rightarrow> string option \<times> redis" where
  "redis_get t name s =
     (let s = purge_if_expired t name s in (map_option fst (dict_get s name), s))"

definition redis_delete :: "string \<Rightarrow> redis \<Rightarrow> nat \<times> redis" where
  "redis_delete name s = (if dict_has s name then 1 else 0, dict_pop name s)"

definition redis_expire :: "instant \<Rightarrow> instant \<Rightarrow> string \<Rightarrow> int \<Rightarrow> redis \<Rightarrow> bool \<times> redis" where
  "redis_expire t t' name secs s =
     (let s = purge_if_expired t name s in
      case dict_get s name of
        None \<Rightarrow> (False, s)
      | Some (v, _) \<Rightarrow> (True, dict_set name (v, Some (t' + seconds secs)) s))"

section \<open>The namespace lock and the heartbeat\<close>

record namespace_lock =
  nl_namespace :: string
  nl_owner :: string
  nl_token :: string
  nl_lease_seconds :: int

definition namespace_lock_key :: "string \<Rightarrow> string" where
  "namespace_lock_key ns = ''mop-exec:lock:namespace:'' @ ns"

definition worker_heartbeat_key :: "string \<Rightarrow> string" where
  "worker_heartbeat_key w = ''mop-exec:worker:'' @ w @ '':heartbeat''"

definition lock_value :: "string \<Rightarrow> string \<Rightarrow> string" where
  "lock_value owner token = owner @ '':'' @ token"

definition lock_key :: "namespace_lock \<Rightarrow> string" where
  "lock_key l = namespace_lock_key (nl_namespace l)"

definition held_value :: "namespace_lock \<Rightarrow> string" where
  "held_value l = lock_value (nl_owner l) (nl_token l)"

definition acquire ::
    "instant \<Rightarrow> instant \<Rightarrow> string \<Rightarrow> int \<Rightarrow> string \<Rightarrow> string \<Rightarrow> redis \<Rightarrow>
     (py_error + namespace_lock) \<times> redis" where
  "acquire t t' token lease ns owner s =
     (let l = \<lparr>nl_namespace = ns, nl_owner = owner, nl_token = token, nl_lease_seconds = lease\<rparr>;
          (ok, s') = redis_set t t' (lock_key l) (held_value l) True False (Some lease) s in
      if \<not> ok then (Inl (LockUnavailable (''namespace_lock_unavailable:'' @ ns)), s')
      else (Inr l, s'))"

definition renew ::
    "instant \<Rightarrow> instant \<Rightarrow> instant \<Rightarrow> namespace_lock \<Rightarrow> redis \<Rightarrow> bool \<times> redis" where
  "renew t0 t t' l s =
     (let (v, s') = redis_get t0 (lock_key l) s in
      if v \<noteq> Some (held_value l) then (False, s')
      else redis_expire t t' (lock_key l) (nl_lease_seconds l) s')"

definition release :: "instant \<Rightarrow> namespace_lock \<Rightarrow> redis \<Rightarrow> bool \<times> redis" where
  "release t l s =
     (let (v, s') = redis_get t (lock_key l) s in
      if v \<noteq> Some (held_value l) then (False, s')
      else (let (n, s'') = redis_delete (lock_key l) s' in (n = 1, s'')))"

definition heartbeat ::
    "instant \<Rightarrow> instant \<Rightarrow> int \<Rightarrow> string \<Rightarrow> string option \<Rightarrow> redis \<Rightarrow> redis" where
  "heartbeat t t' ttl worker_id jid s =
     snd (redis_set t t' (worker_heartbeat_key worker_id) (opt_or jid []) False False (Some ttl) s)"

definition get_active_job :: "instant \<Rightarrow> string \<Rightarrow> redis \<Rightarrow> string option \<times> redis" where
  "get_active_job t worker_id s =
     (let (v, s') = redis_get t (worker_heartbeat_key worker_id) s in
      (if opt_truthy v then v else None, s'))"

section \<open>The contract of the client\<close>

text \<open>What is stored under a name and alive at time \<open>t\<close>, with its expiry.\<close>

definition live :: "instant \<Rightarrow> redis \<Rightarrow> string \<Rightarrow> (string \<times> instant option) option" where
  "live t s name =
     (case dict_get s name of
        None \<Rightarrow> None
      | Some (v, x) \<Rightarrow> (case x of None \<Rightarrow> Some (v, None)
                          | Some e \<Rightarrow> if e \<le> t then None else Some (v, Some e)))"

text \<open>
  The lock service relies on a store of leases: what is alive is what the store says, a
  conditional set succeeds only where nothing is alive, and operations on one name do not
  touch another. Time does not run backwards between the readings of one operation.
\<close>

locale lease_store =
  fixes alive :: "instant \<Rightarrow> 's \<Rightarrow> string \<Rightarrow> (string \<times> instant option) option"
    and set_nx :: "instant \<Rightarrow> instant \<Rightarrow> string \<Rightarrow> string \<Rightarrow> int \<Rightarrow> 's \<Rightarrow> bool \<times> 's"
    and lookup :: "instant \<Rightarrow> string \<Rightarrow> 's \<Rightarrow> string option \<times> 's"
  assumes set_nx_busy:
      "alive t s k \<noteq> None \<Longrightarrow> fst (set_nx t t' k v n s) = False"
    and set_nx_busy_keeps:
      "alive t s k \<noteq> None \<Longrightarrow> t \<le> u \<Longrightarrow> alive u (snd (set_nx t t' k v n s)) j = alive u s j"
    and set_nx_free:
      "alive t s k = None \<Longrightarrow> fst (set_nx t t' k v n s)"
    and set_nx_stores:
      "alive t s k = None \<Longrightarrow> n \<noteq> 0 \<Longrightarrow> u < t' + seconds n \<Longrightarrow>
        alive u (snd (set_nx t t' k v n s)) k = Some (v, Some (t' + seconds n))"
    and set_nx_other:
      "j \<noteq> k \<Longrightarrow> alive u (snd (set_nx t t' k v n s)) j = alive u s j"
    and lookup_alive:
      "fst (lookup t k s) = map_option fst (alive t s k)"
    and lookup_keeps:
      "t \<le> u \<Longrightarrow> alive u (snd (lookup t k s)) j = alive u s j"
    and alive_ends:
      "alive t s k = Some (v, Some x) \<Longrightarrow> t \<le> u \<Longrightarrow> alive u s k = (if u < x then Some (v, Some x) else None)"
begin

lemma exclusive:
  assumes "alive t s k = Some (v, Some x)" and "t \<le> u" and "u < x"
  shows "\<not> fst (set_nx u u' k w n s)"
  using assms set_nx_busy [of u s k u' w n] alive_ends [OF assms(1,2)] by simp

lemma busy_attempt_keeps_holder:
  assumes "alive t s k = Some (v, Some x)" and "t \<le> u" and "u < x"
  shows "alive u (snd (set_nx u u' k w n s)) k = Some (v, Some x)"
  using assms set_nx_busy_keeps [of u s k u u' w n k] alive_ends [OF assms(1,2)] by simp

lemma free_after_expiry:
  assumes "alive t s k = Some (v, Some x)" and "t \<le> u" and "x \<le> u"
  shows "fst (set_nx u u' k w n s)"
  using assms set_nx_free [of u s k u' w n] alive_ends [OF assms(1,2)] by simp

end

lemma dict_get_purge:
  "dict_get (purge_if_expired t name s) k =
    (if k = name \<and> live t s name = None then None else dict_get s k)"
  by (auto simp: purge_if_expired_def live_def dict_simps split: option.splits prod.splits)

lemma live_purge: "t \<le> u \<Longrightarrow> live u (purge_if_expired t name s) k = live u s k"
  by (auto simp: live_def dict_get_purge split: option.splits prod.splits if_splits)

lemma live_purge_other: "k \<noteq> name \<Longrightarrow> live u (purge_if_expired t name s) k = live u s k"
  by (simp add: live_def dict_get_purge)

lemma purged_has: "dict_has (purge_if_expired t name s) name \<longleftrightarrow> live t s name \<noteq> None"
  by (auto simp: dict_has_def dict_get_purge live_def split: option.splits prod.splits)

lemma live_set:
  "live u (dict_set name (v, x) s) k =
    (if k = name then (case x of None \<Rightarrow> Some (v, None) | Some e \<Rightarrow> if e \<le> u then None else Some (v, Some e))
     else live u s k)"
  by (simp add: live_def dict_simps)

lemma live_pop: "live u (dict_pop name s) k = (if k = name then None else live u s k)"
  by (simp add: live_def dict_simps)

interpretation redis: lease_store live
  "\<lambda>t t' k v n s. redis_set t t' k v True False (Some n) s" redis_get
proof unfold_locales
  fix t t' u :: instant and k v j :: string and n :: int and s :: redis
  show "live t s k \<noteq> None \<Longrightarrow> fst (redis_set t t' k v True False (Some n) s) = False"
    by (simp add: redis_set_def Let_def purged_has)
  show "live t s k \<noteq> None \<Longrightarrow> t \<le> u \<Longrightarrow>
      live u (snd (redis_set t t' k v True False (Some n) s)) j = live u s j"
    by (simp add: redis_set_def Let_def purged_has live_purge)
  show "live t s k = None \<Longrightarrow> fst (redis_set t t' k v True False (Some n) s)"
    by (simp add: redis_set_def Let_def purged_has)
  show "live t s k = None \<Longrightarrow> n \<noteq> 0 \<Longrightarrow> u < t' + seconds n \<Longrightarrow>
      live u (snd (redis_set t t' k v True False (Some n) s)) k = Some (v, Some (t' + seconds n))"
    by (simp add: redis_set_def Let_def purged_has live_set)
  show "j \<noteq> k \<Longrightarrow> live u (snd (redis_set t t' k v True False (Some n) s)) j = live u s j"
    by (simp add: redis_set_def Let_def live_set live_purge_other)
  show "fst (redis_get t k s) = map_option fst (live t s k)"
    by (auto simp: redis_get_def Let_def dict_get_purge live_def split: option.splits)
  show "t \<le> u \<Longrightarrow> live u (snd (redis_get t k s)) j = live u s j"
    by (simp add: redis_get_def Let_def live_purge)
next
  fix t u x :: instant and k v :: string and s :: redis
  show "live t s k = Some (v, Some x) \<Longrightarrow> t \<le> u \<Longrightarrow>
      live u s k = (if u < x then Some (v, Some x) else None)"
    by (auto simp: live_def split: option.splits prod.splits if_splits)
qed

section \<open>Runs of the lock service\<close>

text \<open>
  Operations of any clients on any namespaces, each with its own readings of the clock.
\<close>

datatype lock_op =
    Acquire instant instant string int string string
  | Renew instant instant instant namespace_lock
  | Release instant namespace_lock
  | Heartbeat instant instant int string "string option"

fun lock_step :: "redis \<Rightarrow> lock_op \<Rightarrow> redis" where
  "lock_step s (Acquire t t' token lease ns owner) = snd (acquire t t' token lease ns owner s)"
| "lock_step s (Renew t0 t t' l) = snd (renew t0 t t' l s)"
| "lock_step s (Release t l) = snd (release t l s)"
| "lock_step s (Heartbeat t t' ttl w j) = heartbeat t t' ttl w j s"

definition lock_run :: "redis \<Rightarrow> lock_op list \<Rightarrow> redis" where
  "lock_run s ops = foldl lock_step s ops"

text \<open>
  An operation that is not the holder's own release or renewal of lock \<open>l\<close>, with all
  its readings of the clock before \<open>hi\<close>.
\<close>

fun foreign :: "namespace_lock \<Rightarrow> instant \<Rightarrow> lock_op \<Rightarrow> bool" where
  "foreign l hi (Acquire t t' token lease ns owner) = (t < hi)"
| "foreign l hi (Renew t0 t t' l') =
     (t0 < hi \<and> held_value l' \<noteq> held_value l)"
| "foreign l hi (Release t l') = (t < hi \<and> held_value l' \<noteq> held_value l)"
| "foreign l hi (Heartbeat t t' ttl w j) = True"

lemma key_not_heartbeat [simp]:
  "namespace_lock_key ns \<noteq> worker_heartbeat_key w" "worker_heartbeat_key w \<noteq> namespace_lock_key ns"
  by (simp_all add: namespace_lock_key_def worker_heartbeat_key_def)

lemma purge_keeps_alive:
  "dict_get s k = Some (v, Some x) \<Longrightarrow> t < x \<Longrightarrow>
    dict_get (purge_if_expired t name s) k = Some (v, Some x)"
  by (auto simp: purge_if_expired_def dict_simps split: option.splits prod.splits)

lemma lock_step_foreign:
  assumes get: "dict_get s (lock_key l) = Some (held_value l, Some x)"
    and op: "foreign l x op"
  shows "dict_get (lock_step s op) (lock_key l) = Some (held_value l, Some x)"
proof (cases op)
  case (Acquire t t' token lease ns owner)
  with op have t: "t < x" by simp
  show ?thesis
  proof (cases "namespace_lock_key ns = lock_key l")
    case True
    with purge_keeps_alive [OF get t] have "dict_has (purge_if_expired t (lock_key l) s) (lock_key l)"
      by (simp add: dict_has_def)
    with True Acquire purge_keeps_alive [OF get t] show ?thesis
      by (simp add: acquire_def redis_set_def lock_key_def Let_def)
  next
    case False
    with Acquire purge_keeps_alive [OF get t] show ?thesis
      by (auto simp: acquire_def redis_set_def lock_key_def Let_def dict_simps)
  qed
next
  case (Renew t0 t t' l')
  with op have t: "t0 < x" and v: "held_value l' \<noteq> held_value l" by simp_all
  note keep = purge_keeps_alive [OF get t]
  show ?thesis
  proof (cases "lock_key l' = lock_key l")
    case True
    with Renew keep v show ?thesis by (simp add: renew_def redis_get_def Let_def)
  next
    case False
    with Renew get show ?thesis
      by (auto simp: renew_def redis_get_def redis_expire_def Let_def dict_simps dict_get_purge
          split: option.splits)
  qed
next
  case (Release t l')
  with op have t: "t < x" and v: "held_value l' \<noteq> held_value l" by simp_all
  note keep = purge_keeps_alive [OF get t]
  show ?thesis
  proof (cases "lock_key l' = lock_key l")
    case True
    with Release keep v show ?thesis by (simp add: release_def redis_get_def Let_def)
  next
    case False
    with Release get show ?thesis
      by (auto simp: release_def redis_get_def redis_delete_def Let_def dict_simps dict_get_purge)
  qed
next
  case (Heartbeat t t' ttl w j)
  have "lock_key l \<noteq> worker_heartbeat_key w" by (simp add: lock_key_def)
  then show ?thesis
    using Heartbeat get
    by (auto simp: heartbeat_def redis_set_def Let_def dict_simps dict_get_purge)
qed

lemma lock_run_foreign:
  assumes "list_all (foreign l x) ops"
    and "dict_get s (lock_key l) = Some (held_value l, Some x)"
  shows "dict_get (lock_run s ops) (lock_key l) = Some (held_value l, Some x)"
  using assms unfolding lock_run_def
  by (induction ops arbitrary: s) (auto intro: lock_step_foreign)

lemma acquire_stores:
  assumes "acquire t t' token lease ns owner s = (Inr l, s')" and "lease \<noteq> 0"
  shows "dict_get s' (lock_key l) = Some (held_value l, Some (t' + seconds lease))"
    and "nl_namespace l = ns" and "nl_lease_seconds l = lease"
  using assms
  by (auto simp: acquire_def redis_set_def Let_def dict_simps split: if_splits)

lemma live_get: "dict_get s k = Some (v, Some x) \<Longrightarrow> t < x \<Longrightarrow> live t s k = Some (v, Some x)"
  by (simp add: live_def)

text \<open>Acquiring a lock fails exactly while a lease on the namespace is alive.\<close>

lemma acquire_busy:
  "live t s (namespace_lock_key ns) \<noteq> None \<Longrightarrow>
    fst (acquire t t' token lease ns owner s)
      = Inl (LockUnavailable (''namespace_lock_unavailable:'' @ ns))"
  using redis.set_nx_busy [of t s "namespace_lock_key ns" t' "lock_value owner token" lease]
  by (simp add: acquire_def lock_key_def held_value_def Let_def split_beta)

lemma acquire_free:
  "live t s (namespace_lock_key ns) = None \<Longrightarrow>
    fst (acquire t t' token lease ns owner s)
      = Inr \<lparr>nl_namespace = ns, nl_owner = owner, nl_token = token, nl_lease_seconds = lease\<rparr>"
  using redis.set_nx_free [of t s "namespace_lock_key ns" t' "lock_value owner token" lease]
  by (simp add: acquire_def lock_key_def held_value_def Let_def split_beta)

section \<open>Properties\<close>

text \<open>
  C32. The namespace lock is exclusive for its lease. From the moment a lock with a
  non-zero lease is acquired until the lease ends, and whatever other clients do in between
  (attempts to acquire, releases and renewals with another owner or token, heartbeats),
  every attempt to acquire the same namespace fails, and the holder can still renew.
\<close>

theorem lock_is_exclusive:
  assumes "acquire t t' token lease ns owner s = (Inr l, s')" and "lease \<noteq> 0"
    and "list_all (foreign l (t' + seconds lease)) ops"
    and "u < t' + seconds lease" and "v < t' + seconds lease"
  shows "fst (acquire u u' token' lease' ns owner' (lock_run s' ops))
      = Inl (LockUnavailable (''namespace_lock_unavailable:'' @ ns)) \<and>
    fst (renew u v v' l (lock_run s' ops))"
proof -
  let ?s = "lock_run s' ops" and ?x = "t' + seconds lease"
  have key: "lock_key l = namespace_lock_key ns"
    using acquire_stores(2) [OF assms(1,2)] by (simp add: lock_key_def)
  have get: "dict_get ?s (lock_key l) = Some (held_value l, Some ?x)"
    by (rule lock_run_foreign [OF assms(3) acquire_stores(1) [OF assms(1,2)]])
  have "fst (renew u v v' l ?s)"
    using purge_keeps_alive [OF get assms(4)]
      purge_keeps_alive [OF purge_keeps_alive [OF get assms(4)] assms(5)]
    by (simp add: renew_def redis_get_def redis_expire_def Let_def)
  moreover have "live u ?s (namespace_lock_key ns) \<noteq> None"
    using live_get [OF get assms(4)] key by simp
  ultimately show ?thesis by (simp add: acquire_busy)
qed

theorem lock_is_exclusive_witness:
  "\<exists>l s'. acquire 0 1 ''t1'' 300 ''prod'' ''job-1'' [] = (Inr l, s') \<and>
     fst (acquire 90 91 ''t3'' 300 ''prod'' ''job-3''
       (lock_run s' [Acquire 5 6 ''t2'' 300 ''prod'' ''job-2'', Heartbeat 7 8 120 ''w'' None]))
       = Inl (LockUnavailable (''namespace_lock_unavailable:'' @ ''prod'')) \<and>
     fst (renew 90 95 96 l
       (lock_run s' [Acquire 5 6 ''t2'' 300 ''prod'' ''job-2'', Heartbeat 7 8 120 ''w'' None]))"
proof -
  have free: "live 0 [] (namespace_lock_key ''prod'') = None" by (simp add: live_def)
  obtain l s' where a: "acquire 0 1 ''t1'' 300 ''prod'' ''job-1'' [] = (Inr l, s')"
    using acquire_free [OF free, of 1 "''t1''" 300 "''job-1''"] by (metis prod.collapse)
  have "list_all (foreign l (1 + seconds 300))
      [Acquire 5 6 ''t2'' 300 ''prod'' ''job-2'', Heartbeat 7 8 120 ''w'' None]"
    by (simp add: seconds_def)
  from a lock_is_exclusive [OF a _ this, of 90 95 91 "''t3''" 300 "''job-3''" 96]
  show ?thesis by (auto simp: seconds_def)
qed

text \<open>
  A lease that has ended passes on safely. Once it is over, another owner can acquire
  the namespace; from then on the former holder can neither renew nor release, and its
  attempts leave the new lock in place.
\<close>

theorem expired_lock_passes_on:
  assumes "acquire t t' token lease ns owner s = (Inr l, s')" and "lease \<noteq> 0"
    and "t' + seconds lease \<le> u" and "lease' \<noteq> 0"
    and "lock_value owner' token' \<noteq> held_value l"
    and "r < u' + seconds lease'"
  shows "\<exists>l' s''. acquire u u' token' lease' ns owner' s' = (Inr l', s'') \<and>
    \<not> fst (release r l s'') \<and> \<not> fst (renew r r' r'' l s'') \<and>
    dict_get (snd (release r l s'')) (lock_key l')
      = Some (held_value l', Some (u' + seconds lease')) \<and>
    dict_get (snd (renew r r' r'' l s'')) (lock_key l')
      = Some (held_value l', Some (u' + seconds lease'))"
proof -
  have key: "lock_key l = namespace_lock_key ns"
    using acquire_stores(2) [OF assms(1,2)] by (simp add: lock_key_def)
  have "dict_get s' (namespace_lock_key ns) = Some (held_value l, Some (t' + seconds lease))"
    using acquire_stores(1) [OF assms(1,2)] key by simp
  then have "live u s' (namespace_lock_key ns) = None"
    using assms(3) by (simp add: live_def)
  from acquire_free [OF this, of u' token' lease' owner']
  obtain l' s'' where a: "acquire u u' token' lease' ns owner' s' = (Inr l', s'')"
    and l': "l' = \<lparr>nl_namespace = ns, nl_owner = owner', nl_token = token', nl_lease_seconds = lease'\<rparr>"
    by (metis prod.collapse)
  have ne: "held_value l \<noteq> held_value l'" using assms(5) by (simp add: l' held_value_def)
  have key': "lock_key l' = lock_key l" by (simp add: l' lock_key_def key [unfolded lock_key_def])
  note get = acquire_stores(1) [OF a assms(4)]
  note keep = purge_keeps_alive [OF get assms(6)]
  have "\<not> fst (release r l s'')" "\<not> fst (renew r r' r'' l s'')"
    using keep ne by (simp_all add: release_def renew_def redis_get_def Let_def key')
  moreover have "foreign l' (u' + seconds lease') (Release r l)"
    and "foreign l' (u' + seconds lease') (Renew r r' r'' l)"
    using assms(6) ne by simp_all
  then have "dict_get (snd (release r l s'')) (lock_key l')
      = Some (held_value l', Some (u' + seconds lease'))"
    and "dict_get (snd (renew r r' r'' l s'')) (lock_key l')
      = Some (held_value l', Some (u' + seconds lease'))"
    using lock_step_foreign [OF get] by fastforce+
  ultimately show ?thesis using a by blast
qed

theorem expired_lock_passes_on_witness:
  "\<exists>l s' l' s''. acquire 0 1 ''t1'' 1 ''prod'' ''job-1'' [] = (Inr l, s') \<and>
    acquire 2000000 2000001 ''t2'' 1 ''prod'' ''job-2'' s' = (Inr l', s'') \<and>
    \<not> fst (release 2000005 l s'') \<and> \<not> fst (renew 2000005 2000006 2000007 l s'')"
proof -
  have free: "live 0 [] (namespace_lock_key ''prod'') = None" by (simp add: live_def)
  obtain l s' where a: "acquire 0 1 ''t1'' 1 ''prod'' ''job-1'' [] = (Inr l, s')"
    and l: "l = \<lparr>nl_namespace = ''prod'', nl_owner = ''job-1'', nl_token = ''t1'', nl_lease_seconds = 1\<rparr>"
    using acquire_free [OF free, of 1 "''t1''" 1 "''job-1''"] by (metis prod.collapse)
  have "lock_value ''job-2'' ''t2'' \<noteq> held_value l"
    by (simp add: l held_value_def lock_value_def)
  from a expired_lock_passes_on [OF a _ _ _ this, of 2000000 1 2000005 2000001 2000006 2000007]
  show ?thesis by (auto simp: seconds_def)
qed

end
