(* ===== verification/Repository.thy ===== *)
theory Repository
  imports Models Redaction "HOL-Library.Multiset"
begin

text \<open>
  The durable repository of \<open>persistence/repositories.py\<close> with its append-only audit log
  (\<open>persistence/audit.py\<close>), and the execution memory of \<open>memory/store.py\<close>. The
  snapshot keeps records by key in insertion order; every change rewrites the file, whose
  mappings are sorted by key; a new repository reads it back. Encoding a record as JSON and
  validating it again is the identity.
\<close>

section \<open>State\<close>

record snapshot =
  sn_jobs :: "exec_job dict"
  sn_phases :: "exec_phase dict"
  sn_steps :: "exec_step dict"
  sn_observations :: "observation dict"
  sn_instructions :: "instruction dict"
  sn_approvals :: "human_approval dict"
  sn_audit :: "audit_event list"
  sn_memory :: "memory_record dict"
  sn_reports :: "report_artifact dict"

record repository =
  rp_snap :: snapshot
  rp_file :: "snapshot option"

definition empty_snapshot :: snapshot where
  "empty_snapshot = \<lparr>sn_jobs = [], sn_phases = [], sn_steps = [], sn_observations = [],
     sn_instructions = [], sn_approvals = [], sn_audit = [], sn_memory = [], sn_reports = []\<rparr>"

definition sorted_snapshot :: "snapshot \<Rightarrow> snapshot" where
  "sorted_snapshot s =
     \<lparr>sn_jobs = sort_key fst (sn_jobs s), sn_phases = sort_key fst (sn_phases s),
      sn_steps = sort_key fst (sn_steps s), sn_observations = sort_key fst (sn_observations s),
      sn_instructions = sort_key fst (sn_instructions s),
      sn_approvals = sort_key fst (sn_approvals s), sn_audit = sn_audit s,
      sn_memory = sort_key fst (sn_memory s), sn_reports = sort_key fst (sn_reports s)\<rparr>"

definition repo_flush :: "repository \<Rightarrow> repository" where
  "repo_flush r = r\<lparr>rp_file := Some (sorted_snapshot (rp_snap r))\<rparr>"

definition repo_load :: "snapshot option \<Rightarrow> repository" where
  "repo_load f = \<lparr>rp_snap = (case f of None \<Rightarrow> empty_snapshot | Some s \<Rightarrow> s), rp_file = f\<rparr>"

definition repo_change :: "(snapshot \<Rightarrow> snapshot) \<Rightarrow> repository \<Rightarrow> repository" where
  "repo_change f r = repo_flush (r\<lparr>rp_snap := f (rp_snap r)\<rparr>)"

definition compound_key :: "string \<Rightarrow> string \<Rightarrow> string" where
  "compound_key left right = left @ '':'' @ right"

section \<open>Operations\<close>

definition save_job :: "exec_job \<Rightarrow> repository \<Rightarrow> repository" where
  "save_job j = repo_change (\<lambda>s. s\<lparr>sn_jobs := dict_set (job_id j) j (sn_jobs s)\<rparr>)"

definition get_job :: "repository \<Rightarrow> string \<Rightarrow> exec_job option" where
  "get_job r jid = dict_get (sn_jobs (rp_snap r)) jid"

definition list_jobs :: "repository \<Rightarrow> exec_job list" where
  "list_jobs r = dict_values (sn_jobs (rp_snap r))"

definition save_phase :: "exec_phase \<Rightarrow> repository \<Rightarrow> repository" where
  "save_phase p = repo_change
     (\<lambda>s. s\<lparr>sn_phases := dict_set (compound_key (ph_job_id p) (ph_id p)) p (sn_phases s)\<rparr>)"

definition get_phases :: "repository \<Rightarrow> string \<Rightarrow> exec_phase list" where
  "get_phases r jid =
     map snd (filter (\<lambda>kv. starts_with (fst kv) (jid @ '':'')) (sn_phases (rp_snap r)))"

definition save_step :: "exec_step \<Rightarrow> repository \<Rightarrow> repository" where
  "save_step p = repo_change
     (\<lambda>s. s\<lparr>sn_steps := dict_set (compound_key (stp_job_id p) (stp_id p)) p (sn_steps s)\<rparr>)"

definition get_steps :: "repository \<Rightarrow> string \<Rightarrow> exec_step list" where
  "get_steps r jid =
     map snd (filter (\<lambda>kv. starts_with (fst kv) (jid @ '':'')) (sn_steps (rp_snap r)))"

definition add_observation :: "observation \<Rightarrow> repository \<Rightarrow> repository" where
  "add_observation ob = repo_change
     (\<lambda>s. s\<lparr>sn_observations := dict_set (obs_id ob) ob (sn_observations s)\<rparr>)"

definition get_observations :: "repository \<Rightarrow> string \<Rightarrow> observation list" where
  "get_observations r jid =
     filter (\<lambda>ob. obs_job_id ob = jid) (dict_values (sn_observations (rp_snap r)))"

definition save_instruction :: "instruction \<Rightarrow> repository \<Rightarrow> repository" where
  "save_instruction i = repo_change
     (\<lambda>s. s\<lparr>sn_instructions := dict_set (ins_id i) i (sn_instructions s)\<rparr>)"

definition get_instruction :: "repository \<Rightarrow> string \<Rightarrow> instruction option" where
  "get_instruction r iid = dict_get (sn_instructions (rp_snap r)) iid"

definition get_instructions :: "repository \<Rightarrow> string \<Rightarrow> instruction list" where
  "get_instructions r jid =
     filter (\<lambda>i. ins_job_id i = jid) (dict_values (sn_instructions (rp_snap r)))"

definition save_approval :: "human_approval \<Rightarrow> repository \<Rightarrow> repository" where
  "save_approval a = repo_change
     (\<lambda>s. s\<lparr>sn_approvals := dict_set (apr_id a) a (sn_approvals s)\<rparr>)"

definition get_approval :: "repository \<Rightarrow> string \<Rightarrow> human_approval option" where
  "get_approval r aid = dict_get (sn_approvals (rp_snap r)) aid"

definition get_approvals :: "repository \<Rightarrow> string \<Rightarrow> human_approval list" where
  "get_approvals r jid =
     filter (\<lambda>a. apr_job_id a = jid) (dict_values (sn_approvals (rp_snap r)))"

definition append_audit_event :: "audit_event \<Rightarrow> repository \<Rightarrow> (py_error + unit) \<times> repository" where
  "append_audit_event ev r =
     (if list_ex (\<lambda>x. aud_id x = aud_id ev) (sn_audit (rp_snap r))
      then (Inl (ValueError (''audit_event_already_exists:'' @ aud_id ev)), r)
      else (Inr (), repo_change (\<lambda>s. s\<lparr>sn_audit := sn_audit s @ [ev]\<rparr>) r))"

definition list_audit_events :: "repository \<Rightarrow> string option \<Rightarrow> audit_event list" where
  "list_audit_events r jid =
     filter (\<lambda>ev. jid = None \<or> aud_job_id ev = jid) (sn_audit (rp_snap r))"

text \<open>\<open>AppendOnlyAuditWriter.write\<close> and \<open>list_for_job\<close>.\<close>

definition audit_write :: "audit_event \<Rightarrow> repository \<Rightarrow> (py_error + unit) \<times> repository" where
  "audit_write ev r = append_audit_event ev r"

definition audit_list_for_job :: "repository \<Rightarrow> string \<Rightarrow> audit_event list" where
  "audit_list_for_job r jid = list_audit_events r (Some jid)"

definition field_matches :: "string option \<Rightarrow> string option \<Rightarrow> bool" where
  "field_matches expected actual \<longleftrightarrow> (case expected of None \<Rightarrow> True | Some x \<Rightarrow> actual = Some x)"

definition matches_memory :: "memory_record \<Rightarrow> memory_query \<Rightarrow> bool" where
  "matches_memory m q \<longleftrightarrow>
     field_matches (mq_job_id q) (Some (mem_job_id m)) \<and>
     field_matches (mq_namespace q) (mem_namespace m) \<and>
     field_matches (mq_chart q) (mem_chart m) \<and>
     field_matches (mq_kind q) (mem_kind m) \<and>
     field_matches (mq_error_code q) (mem_error_code m) \<and>
     field_matches (mq_mcp_source q) (mem_mcp_source m) \<and>
     field_matches (mq_tenant q) (mem_tenant m) \<and>
     field_matches (mq_environment q) (mem_environment m)"

definition save_memory_record :: "memory_record \<Rightarrow> repository \<Rightarrow> repository" where
  "save_memory_record m = repo_change
     (\<lambda>s. s\<lparr>sn_memory := dict_set (mem_id m) m (sn_memory s)\<rparr>)"

definition empty_query :: memory_query where
  "empty_query = \<lparr>mq_job_id = None, mq_namespace = None, mq_chart = None, mq_kind = None,
     mq_error_code = None, mq_mcp_source = None, mq_tenant = None, mq_environment = None\<rparr>"

definition list_memory_records :: "repository \<Rightarrow> memory_query option \<Rightarrow> memory_record list" where
  "list_memory_records r q =
     (let query = (case q of None \<Rightarrow> empty_query | Some x \<Rightarrow> x) in
      filter (\<lambda>m. matches_memory m query) (dict_values (sn_memory (rp_snap r))))"

definition save_report :: "report_artifact \<Rightarrow> repository \<Rightarrow> repository" where
  "save_report a = repo_change (\<lambda>s. s\<lparr>sn_reports := dict_set (rep_id a) a (sn_reports s)\<rparr>)"

definition get_reports :: "repository \<Rightarrow> string \<Rightarrow> report_artifact list" where
  "get_reports r jid =
     filter (\<lambda>a. rep_job_id a = Some jid) (dict_values (sn_reports (rp_snap r)))"

section \<open>Execution memory (memory/store.py)\<close>

record memory_store = ctx +
  ms_records :: "memory_record list"

definition memory_write ::
    "env \<Rightarrow> memory_layer \<Rightarrow> string \<Rightarrow> string \<Rightarrow> json dict \<Rightarrow> memory_query \<Rightarrow> string option \<Rightarrow>
     string list \<Rightarrow> (memory_store, py_error, memory_record) prog" where
  "memory_write e layer jid summary payload scope resource_name tags =
     bind (new_id e ''mem'') (\<lambda>mid.
     bind (utc_now e) (\<lambda>now.
     let m = \<lparr>mem_id = mid, mem_layer = layer, mem_job_id = jid,
              mem_namespace = mq_namespace scope, mem_chart = mq_chart scope,
              mem_kind = mq_kind scope, mem_resource_name = resource_name,
              mem_error_code = mq_error_code scope, mem_mcp_source = mq_mcp_source scope,
              mem_tenant = mq_tenant scope, mem_environment = mq_environment scope,
              mem_summary = py_str (redact_value (JStr summary)),
              mem_payload = redact_value (JObj payload), mem_authority = MEMORY_AUTHORITY,
              mem_redaction_applied = True, mem_tags = tags, mem_created_at = now\<rparr> in
     seqp (modify (\<lambda>s. s\<lparr>ms_records := ms_records s @ [m]\<rparr>)) (ret m)))"

definition memory_append :: "memory_record \<Rightarrow> (memory_store, py_error, unit) prog" where
  "memory_append m = modify (\<lambda>s. s\<lparr>ms_records := ms_records s @ [m]\<rparr>)"

definition memory_select :: "memory_query \<Rightarrow> (memory_store, py_error, memory_record list) prog" where
  "memory_select q = gets (\<lambda>s. filter (\<lambda>m. matches_memory m q) (ms_records s))"

section \<open>What an operation changes\<close>

lemma repo_change_snap [simp]: "rp_snap (repo_change f r) = f (rp_snap r)"
  by (simp add: repo_change_def repo_flush_def)

lemmas save_defs = save_job_def save_phase_def save_step_def add_observation_def
  save_instruction_def save_approval_def save_memory_record_def save_report_def

lemma get_job_save_job [dict_simps]:
  "get_job (save_job j r) i = (if i = job_id j then Some j else get_job r i)"
  by (simp add: get_job_def save_job_def dict_simps)

lemma get_job_frame [simp]:
  "get_job (save_phase p r) = get_job r" "get_job (save_step st r) = get_job r"
  "get_job (add_observation ob r) = get_job r" "get_job (save_instruction i r) = get_job r"
  "get_job (save_approval a r) = get_job r" "get_job (snd (append_audit_event ev r)) = get_job r"
  by (auto simp: get_job_def save_defs append_audit_event_def fun_eq_iff)

lemma audit_frame [simp]:
  "sn_audit (rp_snap (save_job j r)) = sn_audit (rp_snap r)"
  "sn_audit (rp_snap (save_phase p r)) = sn_audit (rp_snap r)"
  "sn_audit (rp_snap (save_step st r)) = sn_audit (rp_snap r)"
  "sn_audit (rp_snap (add_observation ob r)) = sn_audit (rp_snap r)"
  "sn_audit (rp_snap (save_instruction i r)) = sn_audit (rp_snap r)"
  "sn_audit (rp_snap (save_approval a r)) = sn_audit (rp_snap r)"
  "sn_audit (rp_snap (save_memory_record m r)) = sn_audit (rp_snap r)"
  "sn_audit (rp_snap (save_report x r)) = sn_audit (rp_snap r)"
  by (simp_all add: save_defs)

text \<open>
  The contract of a keyed collection: the last value saved under a key is the one found.
\<close>

locale keyed_store =
  fixes save :: "'v \<Rightarrow> 's \<Rightarrow> 's" and find :: "'s \<Rightarrow> string \<Rightarrow> 'v option" and key :: "'v \<Rightarrow> string"
  assumes find_save: "find (save v s) k = (if k = key v then Some v else find s k)"
begin

lemma found [simp]: "find (save v s) (key v) = Some v"
  by (simp add: find_save)

lemma last_wins: "key w = key v \<Longrightarrow> find (save w (save v s)) = find (save w s)"
  by (simp add: fun_eq_iff find_save)

lemma others_kept: "k \<noteq> key v \<Longrightarrow> find (save v s) k = find s k"
  by (simp add: find_save)

lemma find_foldl_other: "k \<notin> key ` set vs \<Longrightarrow> find (foldl (\<lambda>s v. save v s) s vs) k = find s k"
  by (induction vs arbitrary: s) (auto simp: find_save)

end

interpretation job_store: keyed_store save_job get_job job_id
  by unfold_locales (simp add: dict_simps)

interpretation instruction_store: keyed_store save_instruction get_instruction ins_id
  by unfold_locales (simp add: get_instruction_def save_instruction_def dict_simps)

interpretation approval_store: keyed_store save_approval get_approval apr_id
  by unfold_locales (simp add: get_approval_def save_approval_def dict_simps)

interpretation step_store: keyed_store save_step
  "\<lambda>r. dict_get (sn_steps (rp_snap r))" "\<lambda>st. compound_key (stp_job_id st) (stp_id st)"
  by unfold_locales (simp add: save_step_def dict_simps)

interpretation phase_store: keyed_store save_phase
  "\<lambda>r. dict_get (sn_phases (rp_snap r))" "\<lambda>p. compound_key (ph_job_id p) (ph_id p)"
  by unfold_locales (simp add: save_phase_def dict_simps)

section \<open>Sequences of operations, restarts included\<close>

datatype repo_op =
    Op_job exec_job
  | Op_phase exec_phase
  | Op_step exec_step
  | Op_observation observation
  | Op_instruction instruction
  | Op_approval human_approval
  | Op_audit audit_event
  | Op_memory memory_record
  | Op_report report_artifact
  | Op_restart

primrec repo_step :: "repo_op \<Rightarrow> repository \<Rightarrow> repository" where
  "repo_step (Op_job j) r = save_job j r"
| "repo_step (Op_phase p) r = save_phase p r"
| "repo_step (Op_step st) r = save_step st r"
| "repo_step (Op_observation ob) r = add_observation ob r"
| "repo_step (Op_instruction i) r = save_instruction i r"
| "repo_step (Op_approval a) r = save_approval a r"
| "repo_step (Op_audit ev) r = snd (append_audit_event ev r)"
| "repo_step (Op_memory m) r = save_memory_record m r"
| "repo_step (Op_report a) r = save_report a r"
| "repo_step Op_restart r = repo_load (rp_file r)"

definition repo_run :: "repo_op list \<Rightarrow> repository \<Rightarrow> repository" where
  "repo_run ops r = fold repo_step ops r"

lemma repo_run_append: "repo_run (xs @ ys) r = repo_run ys (repo_run xs r)"
  by (simp add: repo_run_def)

text \<open>Every key of a collection is the key of its record, and no key occurs twice.\<close>

definition keyed :: "('v \<Rightarrow> string) \<Rightarrow> 'v dict \<Rightarrow> bool" where
  "keyed key d \<longleftrightarrow> distinct (dict_keys d) \<and> (\<forall>(k, v) \<in> set d. k = key v)"

definition snapshot_ok :: "snapshot \<Rightarrow> bool" where
  "snapshot_ok s \<longleftrightarrow>
     keyed job_id (sn_jobs s) \<and>
     keyed (\<lambda>p. compound_key (ph_job_id p) (ph_id p)) (sn_phases s) \<and>
     keyed (\<lambda>st. compound_key (stp_job_id st) (stp_id st)) (sn_steps s) \<and>
     keyed obs_id (sn_observations s) \<and> keyed ins_id (sn_instructions s) \<and>
     keyed apr_id (sn_approvals s) \<and> keyed mem_id (sn_memory s) \<and>
     keyed rep_id (sn_reports s) \<and> distinct (map aud_id (sn_audit s))"

text \<open>
  The invariant of a repository: its snapshot is well formed, and the file holds it sorted
  (a repository that has never changed has no file).
\<close>

definition repo_inv :: "repository \<Rightarrow> bool" where
  "repo_inv r \<longleftrightarrow> snapshot_ok (rp_snap r) \<and>
     (case rp_file r of None \<Rightarrow> rp_snap r = empty_snapshot
      | Some f \<Rightarrow> f = sorted_snapshot (rp_snap r))"

lemma keyed_set [simp]: "keyed key d \<Longrightarrow> k = key v \<Longrightarrow> keyed key (dict_set k v d)"
  by (auto simp: keyed_def dest: dict_set_in)

lemma keyed_sort [simp]: "keyed key d \<Longrightarrow> keyed key (sort_key fst d)"
  by (simp add: keyed_def distinct_map)

lemma keyed_nil [simp]: "keyed key []"
  by (simp add: keyed_def)

lemma sort_twice [simp]: "sort_key fst (sort_key fst (d :: 'v dict)) = sort_key fst d"
  by (rule sort_key_id_if_sorted) (rule sorted_sort_key)

lemma sorted_twice [simp]: "sorted_snapshot (sorted_snapshot s) = sorted_snapshot s"
  by (simp add: sorted_snapshot_def)

lemma sorted_ok: "snapshot_ok s \<Longrightarrow> snapshot_ok (sorted_snapshot s)"
  by (simp add: snapshot_ok_def sorted_snapshot_def)

lemma repo_change_inv: "repo_inv r \<Longrightarrow> snapshot_ok (f (rp_snap r)) \<Longrightarrow> repo_inv (repo_change f r)"
  by (simp add: repo_inv_def repo_change_def repo_flush_def)

lemma repo_step_inv: "repo_inv r \<Longrightarrow> repo_inv (repo_step op r)"
proof (cases op)
  case Op_restart
  assume "repo_inv r"
  with Op_restart show ?thesis
    by (cases "rp_file r") (auto simp: repo_inv_def repo_load_def sorted_ok)
next
  case (Op_audit ev)
  assume "repo_inv r"
  with Op_audit show ?thesis
    by (cases "list_ex (\<lambda>x. aud_id x = aud_id ev) (sn_audit (rp_snap r))")
       (auto simp: append_audit_event_def list_ex_iff snapshot_ok_def repo_inv_def
          repo_change_def repo_flush_def)
qed (auto simp: save_defs repo_inv_def snapshot_ok_def repo_change_def repo_flush_def)

lemma repo_load_none_inv: "repo_inv (repo_load None)"
  by (simp add: repo_inv_def repo_load_def snapshot_ok_def empty_snapshot_def)

lemma repo_run_inv: "repo_inv r \<Longrightarrow> repo_inv (repo_run ops r)"
  unfolding repo_run_def by (induction ops arbitrary: r) (simp_all add: repo_step_inv)

lemma repo_step_audit:
  "repo_inv r \<Longrightarrow> \<exists>new. sn_audit (rp_snap (repo_step op r)) = sn_audit (rp_snap r) @ new"
  by (cases op) (auto simp: append_audit_event_def repo_load_def repo_inv_def sorted_snapshot_def
      empty_snapshot_def split: option.splits)

lemma repo_run_audit:
  "repo_inv r \<Longrightarrow> \<exists>new. sn_audit (rp_snap (repo_run ops r)) = sn_audit (rp_snap r) @ new"
proof (induction ops arbitrary: r)
  case (Cons op ops)
  from repo_step_audit [OF Cons.prems, of op] obtain xs where
    "sn_audit (rp_snap (repo_step op r)) = sn_audit (rp_snap r) @ xs" by blast
  moreover from Cons.IH [OF repo_step_inv [OF Cons.prems, of op]] obtain ys where
    "sn_audit (rp_snap (repo_run ops (repo_step op r))) =
       sn_audit (rp_snap (repo_step op r)) @ ys" by blast
  ultimately show ?case by (simp add: repo_run_def)
qed (simp add: repo_run_def)

text \<open>
  The audit log is append-only: whatever operations follow, restarts from the file
  included, the events already recorded stay, in their order and unchanged, as the first
  ones of the log, and no two events of the log share an identifier.
\<close>

theorem audit_log_append_only:
  "let before = repo_run ops (repo_load None); after = repo_run later before in
   (\<exists>new. list_audit_events after None = list_audit_events before None @ new) \<and>
   distinct (map aud_id (list_audit_events after None))"
proof -
  have before: "repo_inv (repo_run ops (repo_load None))"
    by (rule repo_run_inv [OF repo_load_none_inv])
  from repo_run_audit [OF before, of later] repo_run_inv [OF before, of later] show ?thesis
    by (simp add: Let_def list_audit_events_def repo_inv_def snapshot_ok_def)
qed

lemma map_of_sort:
  "distinct (dict_keys (d :: 'v dict)) \<Longrightarrow> dict_get (sort_key fst d) = dict_get d"
  by (subst map_of_inject_set) (simp_all add: distinct_map)

lemma mset_filter_sort: "mset (map snd (filter P (sort_key fst d))) = mset (map snd (filter P d))"
  by (simp add: filter_sort)

lemma mset_values_sort:
  "mset (filter P (dict_values (sort_key fst d))) = mset (filter P (dict_values d))"
  by (simp add: mset_filter)

lemma keyed_filter:
  assumes "keyed key d" and "\<And>v. v \<in> set (dict_values d) \<Longrightarrow> P (key v) = Q v"
  shows "map snd (filter (\<lambda>kv. P (fst kv)) d) = filter Q (dict_values d)"
  using assms by (induction d) (auto simp: keyed_def)

lemma restart_snapshot:
  "repo_inv r \<Longrightarrow> rp_snap (repo_load (rp_file r)) = sorted_snapshot (rp_snap r)"
  by (cases "rp_file r")
     (simp_all add: repo_inv_def repo_load_def empty_snapshot_def sorted_snapshot_def)


section \<open>Isolation of jobs\<close>

text \<open>
  Phases and steps are found by the prefix "job id and colon" of their compound key. An
  identifier with a colon in it can therefore see the records of another job.
\<close>

definition plain_id :: "string \<Rightarrow> bool" where
  "plain_id s \<longleftrightarrow> CHR '':'' \<notin> set s"

lemma starts_with_compound:
  assumes "plain_id a" and "plain_id b"
  shows "starts_with (compound_key a x) (b @ '':'') \<longleftrightarrow> a = b"
  using assms unfolding compound_key_def plain_id_def starts_with_iff
  by (auto simp: prefix_def append_eq_append_conv2 append_eq_Cons_conv Cons_eq_append_conv)

primrec plain_op :: "repo_op \<Rightarrow> bool" where
  "plain_op (Op_job j) = True"
| "plain_op (Op_phase p) = plain_id (ph_job_id p)"
| "plain_op (Op_step st) = plain_id (stp_job_id st)"
| "plain_op (Op_observation ob) = True"
| "plain_op (Op_instruction i) = True"
| "plain_op (Op_approval a) = True"
| "plain_op (Op_audit ev) = True"
| "plain_op (Op_memory m) = True"
| "plain_op (Op_report a) = True"
| "plain_op Op_restart = True"

definition plain_snapshot :: "snapshot \<Rightarrow> bool" where
  "plain_snapshot s \<longleftrightarrow>
     (\<forall>p \<in> set (dict_values (sn_phases s)). plain_id (ph_job_id p)) \<and>
     (\<forall>st \<in> set (dict_values (sn_steps s)). plain_id (stp_job_id st))"

lemma plain_step:
  assumes "repo_inv r" and "plain_snapshot (rp_snap r)" and "plain_op op"
  shows "plain_snapshot (rp_snap (repo_step op r))"
proof (cases op)
  case Op_restart
  with assms show ?thesis
    by (cases "rp_file r") (auto simp: plain_snapshot_def repo_load_def repo_inv_def
        sorted_snapshot_def)
qed (use assms in \<open>auto simp: plain_snapshot_def save_defs append_audit_event_def
      dest!: dict_set_in\<close>)

lemma plain_run:
  "repo_inv r \<Longrightarrow> plain_snapshot (rp_snap r) \<Longrightarrow> list_all plain_op ops \<Longrightarrow>
    plain_snapshot (rp_snap (repo_run ops r))"
proof (induction ops arbitrary: r)
  case (Cons op ops)
  from Cons.IH [OF repo_step_inv [OF Cons.prems(1)] plain_step [OF Cons.prems(1,2)]] Cons.prems(3)
  show ?case by (simp add: repo_run_def)
qed (simp add: repo_run_def)

text \<open>
  Jobs are isolated as long as no job identifier contains a colon: the phases and the
  steps found for a job are exactly the stored ones that name this job.
\<close>

theorem jobs_are_isolated:
  assumes "list_all plain_op ops" and "plain_id jid"
  shows "let r = repo_run ops (repo_load None) in
    get_steps r jid =
      filter (\<lambda>st. stp_job_id st = jid) (dict_values (sn_steps (rp_snap r))) \<and>
    get_phases r jid =
      filter (\<lambda>p. ph_job_id p = jid) (dict_values (sn_phases (rp_snap r)))"
proof -
  define r where "r = repo_run ops (repo_load None)"
  have "repo_inv r" unfolding r_def by (rule repo_run_inv [OF repo_load_none_inv])
  then have ok: "snapshot_ok (rp_snap r)" by (simp add: repo_inv_def)
  have plain: "plain_snapshot (rp_snap r)"
    unfolding r_def using assms(1)
    by (intro plain_run [OF repo_load_none_inv])
       (simp_all add: repo_load_def empty_snapshot_def plain_snapshot_def)
  have "get_steps r jid = filter (\<lambda>st. stp_job_id st = jid) (dict_values (sn_steps (rp_snap r)))"
    unfolding get_steps_def
    by (rule keyed_filter [where key = "\<lambda>st. compound_key (stp_job_id st) (stp_id st)"])
       (use ok plain assms(2) in \<open>auto simp: snapshot_ok_def plain_snapshot_def
          starts_with_compound\<close>)
  moreover have
    "get_phases r jid = filter (\<lambda>p. ph_job_id p = jid) (dict_values (sn_phases (rp_snap r)))"
    unfolding get_phases_def
    by (rule keyed_filter [where key = "\<lambda>p. compound_key (ph_job_id p) (ph_id p)"])
       (use ok plain assms(2) in \<open>auto simp: snapshot_ok_def plain_snapshot_def
          starts_with_compound\<close>)
  ultimately show ?thesis by (simp add: r_def Let_def)
qed

definition demo_step :: "string \<Rightarrow> string \<Rightarrow> exec_step" where
  "demo_step jid sid =
     \<lparr>stp_id = sid, stp_job_id = jid, stp_phase_id = ''p'', stp_index = 0, stp_title = None,
      stp_type = T_K8S_APPLY, stp_state = S_PENDING, stp_depends_on = [],
      stp_resource_refs = [], stp_manifest_refs = [], stp_values_refs = [], stp_commands = [],
      stp_metadata = [], stp_fingerprint = None, stp_dry_run_status = None,
      stp_mutation_status = None, stp_validation_status = None, stp_attempt = 0,
      stp_correlation_id = None, stp_trace_id = None, stp_started_at = None,
      stp_completed_at = None\<rparr>"

theorem jobs_are_isolated_witness:
  "map stp_id (get_steps (repo_run [Op_step (demo_step ''a'' ''s1''), Op_step (demo_step ''b'' ''s2''),
     Op_restart] (repo_load None)) ''b'') = [''s2'']"
  using jobs_are_isolated [of "[Op_step (demo_step ''a'' ''s1''), Op_step (demo_step ''b'' ''s2''),
     Op_restart]" "''b''"]
  by (simp add: Let_def demo_step_def plain_id_def repo_run_def repo_load_def save_step_def
      repo_change_def repo_flush_def sorted_snapshot_def compound_key_def empty_snapshot_def)

lemma colon_breaks_isolation:
  "map stp_job_id (get_steps (repo_run [Op_step (demo_step ''a:b'' ''s'')] (repo_load None)) ''a'')
    = [''a:b'']"
  by (simp add: get_steps_def demo_step_def repo_run_def repo_load_def save_step_def
      repo_change_def repo_flush_def compound_key_def empty_snapshot_def starts_with_def)

end
