(* ===== verification/Scheduler.thy ===== *)
theory Scheduler
  imports Models
begin

text \<open>
  Phase and step selection (\<open>runtime/scheduler.py\<close>) and the evaluation of waits
  (\<open>runtime/waits.py\<close>). Selection walks the phases in the order of their index and, in a
  phase, the steps in the order of theirs; the lemmas about \<open>scan_phases\<close> say what such
  a walk finds, for any test on steps.
\<close>

section \<open>Selection\<close>

definition completed_phase_ids :: "exec_phase list \<Rightarrow> string list" where
  "completed_phase_ids phases = map ph_id (filter (\<lambda>p. ph_status p = P_COMPLETED) phases)"

definition ready_phases :: "exec_phase list \<Rightarrow> exec_phase list" where
  "ready_phases phases = sort_key ph_index
     (filter (\<lambda>p. ph_status p \<in> {P_PENDING, P_READY, P_RUNNING} \<and>
        list_all (\<lambda>dep. List.member (completed_phase_ids phases) dep) (ph_depends_on p)) phases)"

text \<open>The steps that count as done for a dependency.\<close>

definition completed_step_ids :: "exec_step list \<Rightarrow> string list" where
  "completed_step_ids steps = map stp_id (filter (\<lambda>st. stp_state st \<in>
     {S_DRY_RUN_SUCCEEDED, S_MUTATION_SUCCEEDED, S_VALIDATION_SUCCEEDED,
      S_SKIPPED_BY_INSTRUCTION}) steps)"

definition steps_of_phase :: "exec_step list \<Rightarrow> exec_phase \<Rightarrow> exec_step list" where
  "steps_of_phase steps p = sort_key stp_index (filter (\<lambda>st. stp_phase_id st = ph_id p) steps)"

primrec scan_phases ::
    "(exec_step \<Rightarrow> bool) \<Rightarrow> exec_step list \<Rightarrow> exec_phase list \<Rightarrow> (exec_phase \<times> exec_step) option" where
  "scan_phases ok steps [] = None"
| "scan_phases ok steps (p # ps) =
     (case List.find ok (steps_of_phase steps p) of
        Some st \<Rightarrow> Some (p, st)
      | None \<Rightarrow> scan_phases ok steps ps)"

definition dependencies_done :: "exec_phase list \<Rightarrow> exec_step list \<Rightarrow> exec_step \<Rightarrow> bool" where
  "dependencies_done phases steps st = list_all
     (\<lambda>dep. List.member (completed_step_ids steps) dep \<or>
            List.member (completed_phase_ids phases) dep) (stp_depends_on st)"

definition select_next_step ::
    "exec_phase list \<Rightarrow> exec_step list \<Rightarrow> (exec_phase \<times> exec_step) option" where
  "select_next_step phases steps =
     (let phase_by_id = dict_update [] (map (\<lambda>p. (ph_id p, p)) (ready_phases phases)) in
      scan_phases
        (\<lambda>st. stp_state st \<in> {S_PENDING, S_READY, S_WAITING} \<and> dependencies_done phases steps st)
        steps (dict_values phase_by_id))"

definition mutating_types :: "step_type set" where
  "mutating_types = {T_K8S_APPLY, T_K8S_DELETE, T_HELM_INSTALL, T_HELM_UPGRADE}"

definition mutation_ready :: "exec_phase list \<Rightarrow> exec_step list \<Rightarrow> exec_step \<Rightarrow> bool" where
  "mutation_ready phases steps st \<longleftrightarrow>
     stp_type st \<in> mutating_types \<and>
     stp_state st \<notin> {S_MUTATION_RUNNING, S_MUTATION_SUCCEEDED, S_MUTATION_FAILED,
       S_DECISION_REQUIRED, S_CANCELLED} \<and>
     \<not> (stp_state st \<noteq> S_DRY_RUN_SUCCEEDED \<and> stp_dry_run_status st \<noteq> Some S_DRY_RUN_SUCCEEDED) \<and>
     list_all
       (\<lambda>dep. List.member (completed_step_ids steps) dep \<or>
              List.member (completed_phase_ids phases) dep \<or> dep = stp_id st) (stp_depends_on st)"

definition select_next_mutation_step ::
    "exec_phase list \<Rightarrow> exec_step list \<Rightarrow> (exec_phase \<times> exec_step) option" where
  "select_next_mutation_step phases steps =
     scan_phases (mutation_ready phases steps) steps (sort_key ph_index phases)"

definition phase_is_complete :: "exec_phase \<Rightarrow> exec_step list \<Rightarrow> bool" where
  "phase_is_complete p steps =
     (let phase_steps = filter (\<lambda>st. stp_phase_id st = ph_id p) steps in
      phase_steps \<noteq> [] \<and>
      list_all (\<lambda>st. stp_state st \<in> {S_DRY_RUN_SUCCEEDED, S_MUTATION_SUCCEEDED,
        S_VALIDATION_SUCCEEDED, S_SKIPPED_BY_INSTRUCTION, S_CANCELLED}) phase_steps)"

section \<open>What a walk finds\<close>

lemma find_sorted_least:
  "sorted (map f xs) \<Longrightarrow> List.find P xs = Some x \<Longrightarrow> y \<in> set xs \<Longrightarrow> P y \<Longrightarrow> f x \<le> f y"
  by (induction xs) (auto split: if_splits)

lemma find_SomeD: "List.find P xs = Some x \<Longrightarrow> x \<in> set xs \<and> P x"
  by (induction xs) (auto split: if_splits)

lemma steps_of_phase_set: "set (steps_of_phase steps p) = {st \<in> set steps. stp_phase_id st = ph_id p}"
  by (simp add: steps_of_phase_def)

lemma steps_of_phase_cong: "ph_id p = ph_id q \<Longrightarrow> steps_of_phase steps p = steps_of_phase steps q"
  by (simp add: steps_of_phase_def)

lemma scan_Some:
  "scan_phases ok steps ps = Some (p, st) \<Longrightarrow>
    p \<in> set ps \<and> st \<in> set steps \<and> stp_phase_id st = ph_id p \<and> ok st"
  by (induction ps) (auto simp: steps_of_phase_set dest!: find_SomeD split: option.splits)

lemma scan_None:
  "scan_phases ok steps ps = None \<longleftrightarrow>
    (\<forall>p \<in> set ps. \<forall>st \<in> set steps. stp_phase_id st = ph_id p \<longrightarrow> \<not> ok st)"
proof (induction ps)
  case (Cons p ps)
  show ?case
  proof (cases "List.find ok (steps_of_phase steps p)")
    case None
    then have "\<forall>st \<in> set steps. stp_phase_id st = ph_id p \<longrightarrow> \<not> ok st"
      by (auto simp: find_None_iff steps_of_phase_set)
    with None Cons show ?thesis by simp
  next
    case (Some st)
    then show ?thesis by (auto simp: steps_of_phase_set dest!: find_SomeD)
  qed
qed simp

lemma scan_least:
  assumes "scan_phases ok steps ps = Some (p, st)" and "sorted (map ph_index ps)"
    and "p' \<in> set ps" and "st' \<in> set steps" and "stp_phase_id st' = ph_id p'" and "ok st'"
  shows "ph_index p \<le> ph_index p' \<and> (ph_id p' = ph_id p \<longrightarrow> stp_index st \<le> stp_index st')"
  using assms
proof (induction ps)
  case (Cons q qs)
  have sorted_steps: "sorted (map stp_index (steps_of_phase steps q))"
    by (simp add: steps_of_phase_def)
  show ?case
  proof (cases "List.find ok (steps_of_phase steps q)")
    case None
    then have "st' \<notin> set (steps_of_phase steps q)"
      using Cons.prems by (auto simp: find_None_iff)
    then have "p' \<noteq> q" using Cons.prems by (auto simp: steps_of_phase_set)
    with Cons None show ?thesis by auto
  next
    case (Some s0)
    with Cons.prems have eq: "p = q" "st = s0" by auto
    have "ph_id p' = ph_id p \<longrightarrow> stp_index st \<le> stp_index st'"
      using find_sorted_least [OF sorted_steps Some] Cons.prems eq
      by (auto simp: steps_of_phase_set)
    moreover have "ph_index p \<le> ph_index p'" using Cons.prems eq by auto
    ultimately show ?thesis by simp
  qed
qed simp

lemma dict_update_fresh:
  "distinct (dict_keys (d @ e)) \<Longrightarrow> dict_update d e = d @ e"
proof (induction e arbitrary: d)
  case (Cons kv e)
  have "dict_set (fst kv) (snd kv) d = d @ [kv]"
    using Cons.prems by (induction d) auto
  with Cons.IH [of "d @ [kv]"] Cons.prems show ?case by simp
qed simp

lemma dict_by_id: "distinct (map f xs) \<Longrightarrow> dict_values (dict_update [] (map (\<lambda>x. (f x, x)) xs)) = xs"
  by (subst dict_update_fresh) (simp_all add: comp_def)

section \<open>Properties of selection\<close>

text \<open>What the code means by a runnable step, and by a step ready to be executed.\<close>

definition phase_open :: "exec_phase list \<Rightarrow> exec_phase \<Rightarrow> bool" where
  "phase_open phases p \<longleftrightarrow> p \<in> set phases \<and>
     ph_status p \<in> {P_PENDING, P_READY, P_RUNNING} \<and>
     (\<forall>dep \<in> set (ph_depends_on p).
        \<exists>q \<in> set phases. ph_id q = dep \<and> ph_status q = P_COMPLETED)"

definition dependency_met :: "exec_phase list \<Rightarrow> exec_step list \<Rightarrow> string \<Rightarrow> bool" where
  "dependency_met phases steps dep \<longleftrightarrow>
     (\<exists>st \<in> set steps. stp_id st = dep \<and> stp_state st \<in> {S_DRY_RUN_SUCCEEDED,
        S_MUTATION_SUCCEEDED, S_VALIDATION_SUCCEEDED, S_SKIPPED_BY_INSTRUCTION}) \<or>
     (\<exists>q \<in> set phases. ph_id q = dep \<and> ph_status q = P_COMPLETED)"

definition runnable :: "exec_phase list \<Rightarrow> exec_step list \<Rightarrow> exec_phase \<Rightarrow> exec_step \<Rightarrow> bool" where
  "runnable phases steps p st \<longleftrightarrow> phase_open phases p \<and> st \<in> set steps \<and>
     stp_phase_id st = ph_id p \<and> stp_state st \<in> {S_PENDING, S_READY, S_WAITING} \<and>
     (\<forall>dep \<in> set (stp_depends_on st). dependency_met phases steps dep)"

definition executable :: "exec_phase list \<Rightarrow> exec_step list \<Rightarrow> exec_phase \<Rightarrow> exec_step \<Rightarrow> bool" where
  "executable phases steps p st \<longleftrightarrow> p \<in> set phases \<and> st \<in> set steps \<and>
     stp_phase_id st = ph_id p \<and> stp_type st \<in> mutating_types \<and>
     stp_state st \<notin> {S_MUTATION_RUNNING, S_MUTATION_SUCCEEDED, S_MUTATION_FAILED,
       S_DECISION_REQUIRED, S_CANCELLED} \<and>
     (stp_state st = S_DRY_RUN_SUCCEEDED \<or> stp_dry_run_status st = Some S_DRY_RUN_SUCCEEDED) \<and>
     (\<forall>dep \<in> set (stp_depends_on st). dependency_met phases steps dep \<or> dep = stp_id st)"

lemma member_completed:
  "List.member (completed_step_ids steps) dep \<or> List.member (completed_phase_ids phases) dep
     \<longleftrightarrow> dependency_met phases steps dep"
  "dep \<in> set (completed_step_ids steps) \<or> dep \<in> set (completed_phase_ids phases)
     \<longleftrightarrow> dependency_met phases steps dep"
  by (auto simp: completed_step_ids_def completed_phase_ids_def dependency_met_def)

lemma ready_phases_iff: "p \<in> set (ready_phases phases) \<longleftrightarrow> phase_open phases p"
  by (auto simp: ready_phases_def phase_open_def completed_phase_ids_def list_all_iff)

lemma ready_phases_sorted: "sorted (map ph_index (ready_phases phases))"
  by (simp add: ready_phases_def)

lemma ready_phases_distinct:
  "distinct (map ph_id phases) \<Longrightarrow> distinct (map ph_id (ready_phases phases))"
  by (simp add: ready_phases_def distinct_map inj_on_def)

lemma dependencies_done_iff:
  "dependencies_done phases steps st \<longleftrightarrow>
    (\<forall>dep \<in> set (stp_depends_on st). dependency_met phases steps dep)"
  by (simp add: dependencies_done_def list_all_iff member_completed)

lemma mutation_ready_iff:
  "p \<in> set phases \<and> st \<in> set steps \<and> stp_phase_id st = ph_id p \<and> mutation_ready phases steps st
     \<longleftrightarrow> executable phases steps p st"
  by (auto simp: mutation_ready_def executable_def list_all_iff member_completed [symmetric])

text \<open>
  The step chosen for a dry run is runnable (it waits in an open phase all of whose
  dependencies are completed, and its own dependencies are met), no runnable step has a
  smaller phase index, none of the same phase a smaller step index, and when nothing is
  chosen nothing is runnable.
\<close>

theorem selected_step_is_first_runnable:
  assumes "distinct (map ph_id phases)"
  shows "case select_next_step phases steps of
      None \<Rightarrow> \<not> (\<exists>p st. runnable phases steps p st)
    | Some (p, st) \<Rightarrow> runnable phases steps p st \<and>
        (\<forall>p' st'. runnable phases steps p' st' \<longrightarrow> ph_index p \<le> ph_index p' \<and>
           (ph_id p' = ph_id p \<longrightarrow> stp_index st \<le> stp_index st'))"
proof -
  let ?ok = "\<lambda>st. stp_state st \<in> {S_PENDING, S_READY, S_WAITING} \<and> dependencies_done phases steps st"
  have sel: "select_next_step phases steps = scan_phases ?ok steps (ready_phases phases)"
    unfolding select_next_step_def Let_def
    by (simp only: dict_by_id [OF ready_phases_distinct [OF assms]])
  have run: "runnable phases steps p st \<longleftrightarrow> p \<in> set (ready_phases phases) \<and> st \<in> set steps \<and>
      stp_phase_id st = ph_id p \<and> ?ok st" for p st
    by (auto simp: runnable_def ready_phases_iff dependencies_done_iff)
  show ?thesis
  proof (cases "select_next_step phases steps")
    case None
    from None [unfolded sel scan_None] have "\<not> (\<exists>p st. runnable phases steps p st)"
      unfolding run by blast
    then show ?thesis unfolding None by simp
  next
    case (Some r)
    obtain p st where r: "r = (p, st)" by (cases r)
    note found = Some [unfolded r sel]
    from scan_Some [OF found] scan_least [OF found ready_phases_sorted] show ?thesis
      unfolding Some r run option.case prod.case by blast
  qed
qed

definition demo_phase :: "string \<Rightarrow> nat \<Rightarrow> phase_status \<Rightarrow> string list \<Rightarrow> exec_phase" where
  "demo_phase pid i st deps = \<lparr>ph_id = pid, ph_job_id = ''j'', ph_index = i, ph_status = st,
     ph_title = None, ph_objective = None, ph_depends_on = deps, ph_correlation_id = None,
     ph_trace_id = None, ph_started_at = None, ph_completed_at = None\<rparr>"

definition demo_item :: "string \<Rightarrow> string \<Rightarrow> nat \<Rightarrow> step_state \<Rightarrow> string list \<Rightarrow> exec_step" where
  "demo_item sid pid i st deps =
     \<lparr>stp_id = sid, stp_job_id = ''j'', stp_phase_id = pid, stp_index = i, stp_title = None,
      stp_type = T_K8S_APPLY, stp_state = st, stp_depends_on = deps,
      stp_resource_refs = [], stp_manifest_refs = [], stp_values_refs = [], stp_commands = [],
      stp_metadata = [], stp_fingerprint = None, stp_dry_run_status = None,
      stp_mutation_status = None, stp_validation_status = None, stp_attempt = 0,
      stp_correlation_id = None, stp_trace_id = None, stp_started_at = None,
      stp_completed_at = None\<rparr>"

lemmas demo_sims = demo_phase_def demo_item_def

theorem selected_step_is_first_runnable_witness:
  "runnable
     [demo_phase ''b'' 2 P_PENDING [''a''], demo_phase ''a'' 1 P_COMPLETED []]
     [demo_item ''t'' ''b'' 2 S_PENDING [], demo_item ''s'' ''b'' 1 S_PENDING [''a'']]
     (demo_phase ''b'' 2 P_PENDING [''a'']) (demo_item ''s'' ''b'' 1 S_PENDING [''a''])"
  using selected_step_is_first_runnable
    [of "[demo_phase ''b'' 2 P_PENDING [''a''], demo_phase ''a'' 1 P_COMPLETED []]"
        "[demo_item ''t'' ''b'' 2 S_PENDING [], demo_item ''s'' ''b'' 1 S_PENDING [''a'']]"]
  by (simp add: demo_sims select_next_step_def ready_phases_def completed_phase_ids_def
      steps_of_phase_def dependencies_done_def completed_step_ids_def)

text \<open>
  The step chosen for execution is a mutating one whose dry run has succeeded, that has
  not been started, and whose dependencies are met; no such step has a smaller phase index,
  none of the same phase a smaller step index, and when nothing is chosen there is none.
\<close>

theorem selected_mutation_is_first_executable:
  "case select_next_mutation_step phases steps of
      None \<Rightarrow> \<not> (\<exists>p st. executable phases steps p st)
    | Some (p, st) \<Rightarrow> executable phases steps p st \<and>
        (\<forall>p' st'. executable phases steps p' st' \<longrightarrow> ph_index p \<le> ph_index p' \<and>
           (ph_id p' = ph_id p \<longrightarrow> stp_index st \<le> stp_index st'))"
proof (cases "select_next_mutation_step phases steps")
  case None
  from None [unfolded select_next_mutation_step_def scan_None]
  have "\<not> (\<exists>p st. executable phases steps p st)"
    by (simp flip: mutation_ready_iff)
  then show ?thesis unfolding None by simp
next
  case (Some r)
  obtain p st where r: "r = (p, st)" by (cases r)
  note found = Some [unfolded r select_next_mutation_step_def]
  from scan_Some [OF found] scan_least [OF found] show ?thesis
    unfolding Some r by (auto simp flip: mutation_ready_iff)
qed

theorem selected_mutation_is_first_executable_witness:
  "executable
     [demo_phase ''b'' 2 P_PENDING [''a''], demo_phase ''a'' 1 P_COMPLETED []]
     [demo_item ''t'' ''b'' 2 S_DRY_RUN_SUCCEEDED [], demo_item ''s'' ''b'' 1 S_PENDING []]
     (demo_phase ''b'' 2 P_PENDING [''a'']) (demo_item ''t'' ''b'' 2 S_DRY_RUN_SUCCEEDED [])"
  using selected_mutation_is_first_executable
    [of "[demo_phase ''b'' 2 P_PENDING [''a''], demo_phase ''a'' 1 P_COMPLETED []]"
        "[demo_item ''t'' ''b'' 2 S_DRY_RUN_SUCCEEDED [], demo_item ''s'' ''b'' 1 S_PENDING []]"]
  by (simp add: demo_sims select_next_mutation_step_def mutation_ready_def mutating_types_def
      completed_phase_ids_def steps_of_phase_def completed_step_ids_def)

text \<open>
  A dry run of a step is enough for the dependencies on it: a step can be executed before
  the step it depends on, when its index is the smaller one.
\<close>

lemma mutation_may_precede_dependency:
  "select_next_mutation_step [demo_phase ''p'' 0 P_RUNNING []]
     [demo_item ''a'' ''p'' 0 S_DRY_RUN_SUCCEEDED [''b''], demo_item ''b'' ''p'' 1 S_DRY_RUN_SUCCEEDED []]
   = Some (demo_phase ''p'' 0 P_RUNNING [], demo_item ''a'' ''p'' 0 S_DRY_RUN_SUCCEEDED [''b''])"
  by (simp add: demo_sims select_next_mutation_step_def mutation_ready_def mutating_types_def
      completed_phase_ids_def steps_of_phase_def completed_step_ids_def)

text \<open>Nor does execution look at the dependencies between phases.\<close>

lemma mutation_ignores_phase_dependencies:
  "select_next_mutation_step
     [demo_phase ''p'' 0 P_PENDING [''q''], demo_phase ''q'' 1 P_RUNNING []]
     [demo_item ''a'' ''p'' 0 S_DRY_RUN_SUCCEEDED [], demo_item ''b'' ''q'' 1 S_DRY_RUN_SUCCEEDED []]
   = Some (demo_phase ''p'' 0 P_PENDING [''q''], demo_item ''a'' ''p'' 0 S_DRY_RUN_SUCCEEDED [])"
  by (simp add: demo_sims select_next_mutation_step_def mutation_ready_def mutating_types_def
      completed_phase_ids_def steps_of_phase_def completed_step_ids_def)

text \<open>A step that was skipped after its dry run is chosen for execution all the same.\<close>

lemma skipped_step_is_executed:
  "select_next_mutation_step [demo_phase ''p'' 0 P_RUNNING []]
     [(demo_item ''a'' ''p'' 0 S_SKIPPED_BY_INSTRUCTION [])
        \<lparr>stp_dry_run_status := Some S_DRY_RUN_SUCCEEDED\<rparr>] \<noteq> None"
  by code_simp

section \<open>Waits (runtime/waits.py)\<close>

record wait_config =
  wc_default_poll :: int
  wc_max_timeout :: int

definition default_wait_config :: wait_config where
  "default_wait_config = \<lparr>wc_default_poll = 30, wc_max_timeout = 1800\<rparr>"

record wait_result =
  wr_complete :: bool
  wr_timed_out :: bool
  wr_next_poll :: int
  wr_elapsed :: int

text \<open>\<open>x or y\<close> on optional integers: zero counts as missing.\<close>

definition int_or :: "int option \<Rightarrow> int \<Rightarrow> int" where
  "int_or x y = (case x of None \<Rightarrow> y | Some n \<Rightarrow> if n = 0 then y else n)"

definition effective_timeout :: "wait_config \<Rightarrow> int option \<Rightarrow> int" where
  "effective_timeout w timeout = min (int_or timeout (wc_max_timeout w)) (wc_max_timeout w)"

text \<open>\<open>int(delta.total_seconds())\<close> rounds to zero; negative values end as zero anyway.\<close>

definition elapsed_seconds :: "instant \<Rightarrow> instant \<Rightarrow> int" where
  "elapsed_seconds started now =
     (let delta = now - started in
      max 0 (if delta < 0 then - (- delta div 1000000) else delta div 1000000))"

definition wait_evaluate ::
    "env \<Rightarrow> wait_config \<Rightarrow> instant option \<Rightarrow> int option \<Rightarrow> int option \<Rightarrow>
     ('a ctx_scheme, py_error, wait_result) prog" where
  "wait_evaluate e w started timeout poll =
     bind (utc_now e) (\<lambda>now.
     let elapsed = elapsed_seconds (case started of None \<Rightarrow> now | Some t \<Rightarrow> t) now in
     ret \<lparr>wr_complete = False, wr_timed_out = (effective_timeout w timeout \<le> elapsed),
          wr_next_poll = int_or poll (wc_default_poll w), wr_elapsed = elapsed\<rparr>)"

definition wait_due_at ::
    "env \<Rightarrow> wait_config \<Rightarrow> int option \<Rightarrow> ('a ctx_scheme, py_error, instant) prog" where
  "wait_due_at e w poll =
     bind (utc_now e) (\<lambda>now. ret (now + seconds (int_or poll (wc_default_poll w))))"

text \<open>
  No request can make a wait longer than the configured maximum: from that many seconds
  after its start on, every evaluation reports a time-out, whatever time-out was asked for.
\<close>

theorem wait_never_exceeds_maximum:
  assumes "started + seconds (wc_max_timeout w) \<le> env_clock e (c_tick s)" and "0 \<le> wc_max_timeout w"
  shows "\<exists>r t. wait_evaluate e w (Some started) timeout poll s = (Inr r, t) \<and>
     wr_timed_out r \<and> wc_max_timeout w \<le> wr_elapsed r"
proof -
  let ?d = "env_clock e (c_tick s) - started"
  have "wc_max_timeout w * 1000000 div 1000000 \<le> ?d div 1000000"
    using assms(1) by (intro zdiv_mono1) (simp_all add: seconds_def)
  moreover have "0 \<le> ?d" using assms by (simp add: seconds_def)
  ultimately have "wc_max_timeout w \<le> elapsed_seconds started (env_clock e (c_tick s))"
    by (simp add: elapsed_seconds_def Let_def)
  moreover have "effective_timeout w timeout \<le> wc_max_timeout w"
    by (simp add: effective_timeout_def)
  ultimately show ?thesis
    by (simp add: wait_evaluate_def utc_now_def prog_defs Let_def)
qed

theorem wait_never_exceeds_maximum_witness:
  "let e = \<lparr>env_clock = (\<lambda>n. 1800000000), env_uuid = nat_str, env_sha256 = id,
         env_dt_json = int_str, env_isoformat = int_str\<rparr> in
   \<exists>r t. wait_evaluate e default_wait_config (Some 0) (Some 999999) None \<lparr>c_tick = 0, c_ids = 0\<rparr>
       = (Inr r, t) \<and> wr_timed_out r \<and> 1800 \<le> wr_elapsed r"
  unfolding Let_def
  using wait_never_exceeds_maximum
    [of 0 default_wait_config "\<lparr>env_clock = (\<lambda>n. 1800000000), env_uuid = nat_str,
       env_sha256 = id, env_dt_json = int_str, env_isoformat = int_str\<rparr>" "\<lparr>c_tick = 0, c_ids = 0\<rparr>"
      "Some 999999" None]
  by (simp add: default_wait_config_def seconds_def)

end
