(* ===== verification/JobQueue.thy ===== *)
theory JobQueue
  imports Repository
begin

text \<open>
  The queue of runnable jobs (\<open>runtime/queue.py\<close>): a FIFO of job identifiers with the set
  of the identifiers in it, filled again from the repository after a restart. The contract
  the worker relies on is the locale \<open>unique_fifo\<close>: the queue behaves as a list without
  repetitions.
\<close>

definition RUNNABLE_STATES :: "job_state set" where
  "RUNNABLE_STATES = {J_CREATED, J_VALIDATING_BUNDLE, J_DRY_RUN_READY, J_DRY_RUNNING,
     J_AWAITING_LLM_INSTRUCTION, J_EXECUTING, J_WAIT_SCHEDULED, J_VALIDATION_RUNNING,
     J_ROLLBACK_REQUESTED, J_ROLLING_BACK}"

record job_queue =
  jq_queue :: "string list"
  jq_ids :: "string set"

definition new_queue :: job_queue where
  "new_queue = \<lparr>jq_queue = [], jq_ids = {}\<rparr>"

definition enqueue :: "string \<Rightarrow> job_queue \<Rightarrow> bool \<times> job_queue" where
  "enqueue jid q =
     (if jid \<in> jq_ids q then (False, q)
      else (True, q\<lparr>jq_queue := jq_queue q @ [jid], jq_ids := insert jid (jq_ids q)\<rparr>))"

definition dequeue :: "job_queue \<Rightarrow> string option \<times> job_queue" where
  "dequeue q =
     (case jq_queue q of
        [] \<Rightarrow> (None, q)
      | item # rest \<Rightarrow> (Some item, q\<lparr>jq_queue := rest, jq_ids := jq_ids q - {item}\<rparr>))"

primrec rehydrate_from :: "exec_job list \<Rightarrow> job_queue \<Rightarrow> nat \<times> job_queue" where
  "rehydrate_from [] q = (0, q)"
| "rehydrate_from (j # js) q =
     (if job_st j \<in> RUNNABLE_STATES
      then (let (added, q1) = enqueue (job_id j) q; (n, q2) = rehydrate_from js q1 in
            ((if added then 1 else 0) + n, q2))
      else rehydrate_from js q)"

definition rehydrate :: "repository \<Rightarrow> job_queue \<Rightarrow> nat \<times> job_queue" where
  "rehydrate r q = rehydrate_from (sort_key job_created_at (list_jobs r)) q"

definition queue_len :: "job_queue \<Rightarrow> nat" where
  "queue_len q = length (jq_queue q)"

section \<open>Contract\<close>

locale unique_fifo =
  fixes put :: "'a \<Rightarrow> 'q \<Rightarrow> bool \<times> 'q" and get :: "'q \<Rightarrow> 'a option \<times> 'q"
    and items :: "'q \<Rightarrow> 'a list" and ok :: "'q \<Rightarrow> bool"
  assumes put_ok: "ok q \<Longrightarrow> ok (snd (put x q))"
    and get_ok: "ok q \<Longrightarrow> ok (snd (get q))"
    and put_new: "ok q \<Longrightarrow> fst (put x q) \<longleftrightarrow> x \<notin> set (items q)"
    and put_items: "ok q \<Longrightarrow>
      items (snd (put x q)) = (if x \<in> set (items q) then items q else items q @ [x])"
    and get_none: "ok q \<Longrightarrow> items q = [] \<Longrightarrow> fst (get q) = None \<and> items (snd (get q)) = []"
    and get_some: "ok q \<Longrightarrow> items q = x # xs \<Longrightarrow>
      fst (get q) = Some x \<and> items (snd (get q)) = xs"
    and ok_distinct: "ok q \<Longrightarrow> distinct (items q)"
begin

lemma put_all_items:
  "ok q \<Longrightarrow> ok (fold (\<lambda>x q. snd (put x q)) xs q) \<and>
    set (items (fold (\<lambda>x q. snd (put x q)) xs q)) = set (items q) \<union> set xs"
proof (induction xs arbitrary: q)
  case (Cons x xs)
  from Cons.IH [OF put_ok [OF Cons.prems]] put_items [OF Cons.prems] show ?case by auto
qed simp

lemma put_keeps_front:
  "ok q \<Longrightarrow> \<exists>new. items (fold (\<lambda>x q. snd (put x q)) xs q) = items q @ new"
proof (induction xs arbitrary: q)
  case (Cons x xs)
  from Cons.IH [OF put_ok [OF Cons.prems, of x]] put_items [OF Cons.prems, of x]
  show ?case by (auto split: if_splits)
qed simp

text \<open>Taking from the queue as long as it holds something gives its items in order.\<close>

primrec drain :: "nat \<Rightarrow> 'q \<Rightarrow> 'a option list" where
  "drain 0 q = []"
| "drain (Suc n) q = fst (get q) # drain n (snd (get q))"

lemma drain_items: "ok q \<Longrightarrow> drain (length (items q)) q = map Some (items q)"
proof (induction "items q" arbitrary: q)
  case (Cons x xs)
  note g = get_some [OF Cons.prems Cons.hyps(2) [symmetric]]
  from Cons.hyps(1) [OF _ get_ok [OF Cons.prems]] g have
    "drain (length xs) (snd (get q)) = map Some xs" by simp
  with g Cons.hyps(2) [symmetric] show ?case by simp
qed simp

end

definition queue_ok :: "job_queue \<Rightarrow> bool" where
  "queue_ok q \<longleftrightarrow> distinct (jq_queue q) \<and> jq_ids q = set (jq_queue q)"

interpretation job_fifo: unique_fifo enqueue dequeue jq_queue queue_ok
  by unfold_locales
     (auto simp: queue_ok_def enqueue_def dequeue_def split: list.splits)

lemma new_queue_ok: "queue_ok new_queue"
  by (simp add: queue_ok_def new_queue_def)

section \<open>Operations in sequence\<close>

datatype queue_op = Q_enqueue string | Q_dequeue | Q_rehydrate repository

datatype queue_out = Added bool | Taken "string option" | Counted nat

primrec queue_step :: "queue_op \<Rightarrow> job_queue \<Rightarrow> queue_out \<times> job_queue" where
  "queue_step (Q_enqueue j) q = map_prod Added id (enqueue j q)"
| "queue_step Q_dequeue q = map_prod Taken id (dequeue q)"
| "queue_step (Q_rehydrate r) q = map_prod Counted id (rehydrate r q)"

primrec queue_run :: "queue_op list \<Rightarrow> job_queue \<Rightarrow> queue_out list \<times> job_queue" where
  "queue_run [] q = ([], q)"
| "queue_run (x # xs) q =
     (let (out, q1) = queue_step x q; (outs, q2) = queue_run xs q1 in (out # outs, q2))"

text \<open>The specification: a list of identifiers, each at most once.\<close>

definition runnable_ids :: "repository \<Rightarrow> string list" where
  "runnable_ids r = map job_id
     (filter (\<lambda>j. job_st j \<in> RUNNABLE_STATES) (sort_key job_created_at (list_jobs r)))"

definition add_new :: "string list \<Rightarrow> string list \<Rightarrow> string list" where
  "add_new js l = fold (\<lambda>j l. if j \<in> set l then l else l @ [j]) js l"

primrec spec_step :: "queue_op \<Rightarrow> string list \<Rightarrow> queue_out \<times> string list" where
  "spec_step (Q_enqueue j) l = (Added (j \<notin> set l), add_new [j] l)"
| "spec_step Q_dequeue l = (Taken (if l = [] then None else Some (hd l)), tl l)"
| "spec_step (Q_rehydrate r) l =
     (Counted (length (add_new (runnable_ids r) l) - length l), add_new (runnable_ids r) l)"

primrec spec_run :: "queue_op list \<Rightarrow> string list \<Rightarrow> queue_out list \<times> string list" where
  "spec_run [] l = ([], l)"
| "spec_run (x # xs) l =
     (let (out, l1) = spec_step x l; (outs, l2) = spec_run xs l1 in (out # outs, l2))"

lemma add_new_length: "length l \<le> length (add_new js l)"
  unfolding add_new_def
proof (induction js arbitrary: l)
  case (Cons j js)
  show ?case
    using Cons [of l] Cons [of "l @ [j]"] by (auto intro: le_trans)
qed simp

lemma rehydrate_from_spec:
  "queue_ok q \<Longrightarrow>
    (let ids = map job_id (filter (\<lambda>j. job_st j \<in> RUNNABLE_STATES) js) in
     queue_ok (snd (rehydrate_from js q)) \<and>
     jq_queue (snd (rehydrate_from js q)) = add_new ids (jq_queue q) \<and>
     fst (rehydrate_from js q) = length (add_new ids (jq_queue q)) - length (jq_queue q))"
proof (induction js arbitrary: q)
  case (Cons j js)
  show ?case
  proof (cases "job_st j \<in> RUNNABLE_STATES")
    case True
    let ?q = "snd (enqueue (job_id j) q)"
    let ?ids = "map job_id (filter (\<lambda>j. job_st j \<in> RUNNABLE_STATES) js)"
    have ok: "queue_ok ?q" by (rule job_fifo.put_ok [OF Cons.prems])
    note items = job_fifo.put_items [OF Cons.prems, of "job_id j"]
    note new = job_fifo.put_new [OF Cons.prems, of "job_id j"]
    from Cons.IH [OF ok] items new True add_new_length [of "jq_queue ?q" ?ids] show ?thesis
      by (auto simp: Let_def add_new_def split: prod.splits if_splits)
  next
    case False
    with Cons show ?thesis by (simp add: Let_def)
  qed
qed (simp add: add_new_def Let_def)

lemma queue_step_spec:
  "queue_ok q \<Longrightarrow> queue_ok (snd (queue_step x q)) \<and>
    spec_step x (jq_queue q) = (fst (queue_step x q), jq_queue (snd (queue_step x q)))"
proof (cases x)
  case (Q_enqueue j)
  assume "queue_ok q"
  with Q_enqueue job_fifo.put_ok job_fifo.put_new job_fifo.put_items show ?thesis
    by (auto simp: add_new_def)
next
  case Q_dequeue
  assume "queue_ok q"
  with Q_dequeue job_fifo.get_ok [of q] show ?thesis
    by (auto simp: dequeue_def split: list.splits)
next
  case (Q_rehydrate r)
  assume "queue_ok q"
  with Q_rehydrate rehydrate_from_spec [of q "sort_key job_created_at (list_jobs r)"] show ?thesis
    by (simp add: rehydrate_def runnable_ids_def Let_def)
qed

lemma queue_run_spec:
  "queue_ok q \<Longrightarrow> queue_ok (snd (queue_run xs q)) \<and>
    spec_run xs (jq_queue q) = (fst (queue_run xs q), jq_queue (snd (queue_run xs q)))"
proof (induction xs arbitrary: q)
  case (Cons x xs)
  note step = queue_step_spec [OF Cons.prems, of x]
  obtain out1 q1 where q1: "queue_step x q = (out1, q1)" by (cases "queue_step x q")
  obtain outs q2 where q2: "queue_run xs q1 = (outs, q2)" by (cases "queue_run xs q1")
  have "queue_ok q1" using step q1 by simp
  from Cons.IH [OF this] q1 q2 step show ?case by simp
qed simp

text \<open>
  C35. The queue is a FIFO without repetitions: on every sequence of enqueue, dequeue and
  rehydrate calls it answers what the list of distinct identifiers answers, and it holds
  that list.
\<close>

theorem queue_refines_fifo:
  "fst (queue_run xs new_queue) = fst (spec_run xs []) \<and>
   jq_queue (snd (queue_run xs new_queue)) = snd (spec_run xs []) \<and>
   distinct (jq_queue (snd (queue_run xs new_queue)))"
  using queue_run_spec [OF new_queue_ok, of xs]
  by (simp add: new_queue_def queue_ok_def)

lemma add_new_set: "set (add_new js l) = set l \<union> set js"
  unfolding add_new_def by (induction js arbitrary: l) auto

text \<open>
  After a restart every runnable job of the repository is queued exactly once, nothing
  else is, and the count returned is the number of queued jobs; no completed, failed,
  cancelled, paused or human-blocked job is queued.
\<close>

theorem rehydrate_queues_runnable_jobs:
  "let (n, q) = rehydrate r new_queue in
     distinct (jq_queue q) \<and> n = queue_len q \<and>
     set (jq_queue q) = {job_id j | j. j \<in> set (list_jobs r) \<and>
       job_st j \<notin> {J_COMPLETED, J_FAILED, J_CANCELLED, J_INVALID_BUNDLE, J_PAUSED,
         J_DECISION_REQUIRED, J_AWAITING_HUMAN_APPROVAL}}"
proof -
  obtain n q where q: "rehydrate r new_queue = (n, q)" by (cases "rehydrate r new_queue")
  have runnable: "job_st j \<in> RUNNABLE_STATES \<longleftrightarrow> job_st j \<notin> {J_COMPLETED, J_FAILED, J_CANCELLED,
      J_INVALID_BUNDLE, J_PAUSED, J_DECISION_REQUIRED, J_AWAITING_HUMAN_APPROVAL}" for j
    by (cases "job_st j") (simp_all add: RUNNABLE_STATES_def)
  from rehydrate_from_spec [OF new_queue_ok, of "sort_key job_created_at (list_jobs r)"] q
  have "queue_ok q" "jq_queue q = add_new (runnable_ids r) []" "n = length (jq_queue q)"
    by (simp_all add: rehydrate_def runnable_ids_def Let_def new_queue_def)
  then show ?thesis
    unfolding q prod.case
    by (auto simp: queue_ok_def queue_len_def add_new_set runnable_ids_def runnable)
qed

end
