(* ===== verification/PlanGraph.thy ===== *)
theory PlanGraph
  imports Json "HOL-Library.Multiset"
begin

text \<open>
  The machine execution plan (\<open>plans/models.py\<close>) and the validation of its phase
  dependencies (\<open>plans/dependency_graph.py\<close>): every dependency is a known phase and the
  depth-first search finds no cycle. The sets of dependencies are lists, whose order is the
  order in which the search visits them.
\<close>

section \<open>Plans\<close>

definition SUPPORTED_MACHINE_PLAN_SCHEMA_VERSIONS :: "string list" where
  "SUPPORTED_MACHINE_PLAN_SCHEMA_VERSIONS = [''0.1.0'', ''1.0'']"

record executor_contract =
  ec_parse_this_block_first :: bool
  ec_dry_run_before_mutation :: bool
  ec_human_approval_before_mutation :: bool
  ec_never_copy_secret_values :: bool
  ec_target_namespace_only :: json
  ec_llm_suggestions_are_not_authority :: "bool option"

record graph_entry =
  ge_phase_id :: string
  ge_depends_on :: "string list"

record plan_command =
  pcm_kind :: string
  pcm_text :: string
  pcm_dry_run :: "bool option"
  pcm_mutating :: "bool option"

record plan_step =
  ps_id :: string
  ps_title :: string
  ps_type :: string
  ps_depends_on :: "string list"
  ps_evidence_refs :: "string list"
  ps_manifest_refs :: "string list"
  ps_values_refs :: "string list"
  ps_commands :: "plan_command list"
  ps_rollback_commands :: "string list"
  ps_metadata :: "json dict"
  ps_expected_outcomes :: "string list"
  ps_required_human_inputs :: "string list"
  ps_inference :: "json dict option"

record plan_phase =
  pp_id :: string
  pp_title :: "string option"
  pp_objective :: string
  pp_depends_on :: "string list"
  pp_steps :: "plan_step list"

record machine_plan =
  mp_schema_version :: string
  mp_target_namespace :: string
  mp_authority_order :: "string option"
  mp_executor_contract :: executor_contract
  mp_dependency_graph :: "graph_entry list"
  mp_phases :: "plan_phase list"
  mp_raw :: "json dict"

datatype plan_error =
    ParseError string
  | DependencyGraphError string
  | MissingNode string

definition validate_schema_version :: "machine_plan \<Rightarrow> plan_error + machine_plan" where
  "validate_schema_version plan =
     (if mp_schema_version plan \<notin> set SUPPORTED_MACHINE_PLAN_SCHEMA_VERSIONS
      then Inl (ParseError (''unsupported_machine_plan_schema:'' @ mp_schema_version plan))
      else Inr plan)"

definition plan_phase_ids :: "machine_plan \<Rightarrow> string list" where
  "plan_phase_ids plan = remdups (map pp_id (mp_phases plan))"

definition plan_manifest_refs :: "machine_plan \<Rightarrow> string list" where
  "plan_manifest_refs plan =
     remdups (concat (map (\<lambda>p. concat (map ps_manifest_refs (pp_steps p))) (mp_phases plan)))"

definition plan_values_refs :: "machine_plan \<Rightarrow> string list" where
  "plan_values_refs plan =
     remdups (concat (map (\<lambda>p. concat (map ps_values_refs (pp_steps p))) (mp_phases plan)))"

section \<open>The dependency graph\<close>

definition set_update :: "string list \<Rightarrow> string list \<Rightarrow> string list" where
  "set_update xs ys = remdups (xs @ ys)"

text \<open>\<open>graph.setdefault(entry.phase_id, set()).update(entry.depends_on)\<close>.\<close>

definition add_entry :: "graph_entry \<Rightarrow> string list dict \<Rightarrow> string list dict" where
  "add_entry en g =
     dict_set (ge_phase_id en)
       (set_update (case dict_get g (ge_phase_id en) of None \<Rightarrow> [] | Some ds \<Rightarrow> ds)
          (ge_depends_on en)) g"

definition phase_graph :: "machine_plan \<Rightarrow> string list dict" where
  "phase_graph plan =
     fold add_entry (mp_dependency_graph plan)
       (dict_update [] (map (\<lambda>p. (pp_id p, remdups (pp_depends_on p))) (mp_phases plan)))"

definition missing_of :: "string list dict \<Rightarrow> string list \<Rightarrow> string list" where
  "missing_of g ds = filter (\<lambda>d. \<not> dict_has g d) ds"

primrec validate_known :: "string list dict \<Rightarrow> string list dict \<Rightarrow> plan_error + unit" where
  "validate_known g [] = Inr ()"
| "validate_known g (entry # rest) =
     (let missing = missing_of g (snd entry) in
      if missing \<noteq> []
      then Inl (DependencyGraphError (''unknown_phase_dependency:'' @ fst entry @ '':'' @
             str_join '','' (sort missing)))
      else validate_known g rest)"

definition validate_known_dependencies :: "string list dict \<Rightarrow> plan_error + unit" where
  "validate_known_dependencies g = validate_known g g"

text \<open>
  The nested function \<open>visit\<close>, for a list of nodes in turn: \<open>temp\<close> are the nodes under
  way (the set is the same after a visit as before it), \<open>perm\<close> the finished ones. The
  search ends because a nested visit has one node more under way.
\<close>

definition graph_nodes :: "string list dict \<Rightarrow> string set" where
  "graph_nodes g = set (dict_keys g)"

lemma graph_nodes_finite [simp]: "finite (graph_nodes g)"
  by (simp add: graph_nodes_def)

lemma dict_get_node: "dict_get g n = Some ds \<Longrightarrow> n \<in> graph_nodes g"
  by (force simp: graph_nodes_def dest: map_of_SomeD)

function visit_all ::
    "string list dict \<Rightarrow> string list \<Rightarrow> string list \<Rightarrow> string list \<Rightarrow> plan_error + string list" where
  "visit_all g temp perm [] = Inr perm"
| "visit_all g temp perm (n # ns) =
     (if n \<in> set perm then visit_all g temp perm ns
      else if n \<in> set temp then Inl (DependencyGraphError (''phase_dependency_cycle:'' @ n))
      else case dict_get g n of
             None \<Rightarrow> Inl (MissingNode n)
           | Some ds \<Rightarrow>
               (case visit_all g (n # temp) perm ds of
                  Inl err \<Rightarrow> Inl err
                | Inr perm' \<Rightarrow> visit_all g temp (n # perm') ns))"
  by pat_completeness auto
termination
proof (relation "inv_image (less_than <*lex*> less_than)
    (\<lambda>(g, temp, perm, ns). (card (graph_nodes g - set temp), length ns))")
  fix g :: "string list dict" and temp perm n ns ds
  assume "n \<notin> set temp" and "dict_get g n = Some ds"
  then have "card (graph_nodes g - set (n # temp)) < card (graph_nodes g - set temp)"
    by (intro psubset_card_mono) (auto dest: dict_get_node)
  then show "((g, n # temp, perm, ds), g, temp, perm, n # ns)
      \<in> inv_image (less_than <*lex*> less_than)
        (\<lambda>(g, temp, perm, ns). (card (graph_nodes g - set temp), length ns))"
    by simp
qed (simp_all add: wf_inv_image wf_lex_prod)

text \<open>A visit of a new node succeeds by visiting what it depends on, then the rest.\<close>

lemma visit_new:
  assumes "visit_all g temp perm (n # ns) = Inr perm'" and "n \<notin> set perm"
  obtains ds inner where "n \<notin> set temp" and "dict_get g n = Some ds"
    and "visit_all g (n # temp) perm ds = Inr inner"
    and "visit_all g temp (n # inner) ns = Inr perm'"
proof -
  have n: "n \<notin> set temp" using assms by auto
  with assms obtain ds where ds: "dict_get g n = Some ds" by (cases "dict_get g n") auto
  with n assms obtain inner where "visit_all g (n # temp) perm ds = Inr inner"
    by (cases "visit_all g (n # temp) perm ds") auto
  with n ds assms show ?thesis by (intro that) auto
qed

definition detect_cycles :: "string list dict \<Rightarrow> plan_error + unit" where
  "detect_cycles g =
     (case visit_all g [] [] (dict_keys g) of Inl err \<Rightarrow> Inl err | Inr _ \<Rightarrow> Inr ())"

definition validate_dependency_graph :: "machine_plan \<Rightarrow> plan_error + unit" where
  "validate_dependency_graph plan =
     (let graph = phase_graph plan in
      case validate_known_dependencies graph of
        Inl err \<Rightarrow> Inl err
      | Inr _ \<Rightarrow> detect_cycles graph)"

section \<open>What the search decides\<close>

definition edges :: "string list dict \<Rightarrow> (string \<times> string) set" where
  "edges g = {(a, b). \<exists>ds. dict_get g a = Some ds \<and> b \<in> set ds}"

lemma edges_get: "dict_get g n = Some ds \<Longrightarrow> b \<in> set ds \<Longrightarrow> (n, b) \<in> edges g"
  by (auto simp: edges_def)

lemma edges_node: "(a, b) \<in> edges g \<Longrightarrow> a \<in> graph_nodes g"
  by (auto simp: edges_def dest: dict_get_node)

text \<open>Finished nodes are listed after everything they depend on.\<close>

primrec topological :: "string list dict \<Rightarrow> string list \<Rightarrow> bool" where
  "topological g [] \<longleftrightarrow> True"
| "topological g (n # ns) \<longleftrightarrow>
     n \<notin> set ns \<and> (\<exists>ds. dict_get g n = Some ds \<and> set ds \<subseteq> set ns) \<and> topological g ns"

lemma visit_all_order:
  "visit_all g temp perm ns = Inr perm' \<Longrightarrow> topological g perm \<Longrightarrow> set perm \<inter> set temp = {} \<Longrightarrow>
    topological g perm' \<and> set ns \<union> set perm \<subseteq> set perm' \<and> set perm' \<inter> set temp = {}"
proof (induction g temp perm ns arbitrary: perm' rule: visit_all.induct)
  case (2 g temp perm n ns)
  show ?case
  proof (cases "n \<in> set perm")
    case True
    with 2(4) have "visit_all g temp perm ns = Inr perm'" by simp
    from 2(1) [OF True this 2(5,6)] True show ?thesis by auto
  next
    case False
    from visit_new [OF 2(4) False] obtain ds inner where n: "n \<notin> set temp"
      and ds: "dict_get g n = Some ds"
      and inner: "visit_all g (n # temp) perm ds = Inr inner"
      and rest: "visit_all g temp (n # inner) ns = Inr perm'" .
    from 2(2) [OF False n ds inner] 2(5,6) False
    have i: "topological g inner" "set ds \<union> set perm \<subseteq> set inner" "set inner \<inter> set (n # temp) = {}"
      by auto
    with ds n have "topological g (n # inner)" "set (n # inner) \<inter> set temp = {}" by auto
    from 2(3) [OF False n ds inner rest this] i show ?thesis by auto
  qed
qed simp

definition rank :: "string list \<Rightarrow> string \<Rightarrow> nat" where
  "rank ns a = length (dropWhile (\<lambda>x. x \<noteq> a) ns)"

lemma rank_decreases:
  "topological g ns \<Longrightarrow> a \<in> set ns \<Longrightarrow> (a, b) \<in> edges g \<Longrightarrow> b \<in> set ns \<and> rank ns b < rank ns a"
proof (induction ns)
  case (Cons n ns)
  show ?case
  proof (cases "a = n")
    case True
    with Cons.prems have "b \<in> set ns" "b \<noteq> n" by (auto simp: edges_def)
    moreover have "rank ns b \<le> length ns" by (simp add: rank_def length_dropWhile_le)
    ultimately show ?thesis using True by (simp add: rank_def)
  next
    case False
    with Cons have "b \<in> set ns" "rank ns b < rank ns a" "b \<noteq> n" by auto
    with False show ?thesis by (simp add: rank_def)
  qed
qed simp

lemma topological_acyclic:
  assumes "topological g ns"
  shows "acyclic {(a, b) \<in> edges g. a \<in> set ns}"
proof (rule acyclic_subset)
  show "acyclic ((measure (rank ns))\<inverse>)" by (simp add: wf_acyclic)
  show "{(a, b) \<in> edges g. a \<in> set ns} \<subseteq> (measure (rank ns))\<inverse>"
    using rank_decreases [OF assms] by auto
qed

lemma visit_all_cycle:
  "visit_all g temp perm ns = Inl err \<Longrightarrow> (\<And>t m. t \<in> set temp \<Longrightarrow> m \<in> set ns \<Longrightarrow> (t, m) \<in> (edges g)\<^sup>+) \<Longrightarrow>
    set ns \<subseteq> graph_nodes g \<Longrightarrow> snd ` edges g \<subseteq> graph_nodes g \<Longrightarrow> \<not> acyclic (edges g)"
proof (induction g temp perm ns rule: visit_all.induct)
  case (2 g temp perm n ns)
  show ?case
  proof (cases "n \<in> set perm")
    case True
    with 2 show ?thesis by auto
  next
    case new: False
    show ?thesis
    proof (cases "n \<in> set temp")
      case True
      with 2(5) show ?thesis by (auto simp: acyclic_def)
    next
      case False
      from 2(6) obtain ds where ds: "dict_get g n = Some ds"
        by (auto simp: graph_nodes_def dest: weak_map_of_SomeI)
      show ?thesis
      proof (cases "visit_all g (n # temp) perm ds")
        case (Inl err')
        have "(t, m) \<in> (edges g)\<^sup>+" if "t \<in> set (n # temp)" "m \<in> set ds" for t m
          using that 2(5) [of t n] edges_get [OF ds that(2)]
          by (auto intro: trancl_into_trancl)
        moreover have "set ds \<subseteq> graph_nodes g"
          using edges_get [OF ds] 2(7) by force
        ultimately show ?thesis using 2(2) [OF new False ds] 2(4) Inl new False ds 2(7) by simp
      next
        case (Inr perm')
        with 2(3) [OF new False ds Inr] 2(4-7) new False ds show ?thesis by auto
      qed
    qed
  qed
qed simp

lemma validate_known_iff:
  "validate_known g h = Inr () \<longleftrightarrow> (\<forall>(k, ds) \<in> set h. set ds \<subseteq> graph_nodes g)"
  by (induction h) (auto simp: Let_def missing_of_def filter_empty_conv dict_has_iff graph_nodes_def)

lemma known_iff:
  "distinct (dict_keys g) \<Longrightarrow>
    validate_known_dependencies g = Inr () \<longleftrightarrow> snd ` edges g \<subseteq> graph_nodes g"
  unfolding validate_known_dependencies_def validate_known_iff edges_def
  by (force simp: map_of_eq_Some_iff)

lemma detect_cycles_iff:
  assumes "snd ` edges g \<subseteq> graph_nodes g"
  shows "detect_cycles g = Inr () \<longleftrightarrow> acyclic (edges g)"
proof (cases "visit_all g [] [] (dict_keys g)")
  case (Inl err)
  with visit_all_cycle [OF Inl _ _ assms] show ?thesis
    by (simp add: detect_cycles_def graph_nodes_def)
next
  case (Inr perm)
  from visit_all_order [OF Inr] have topo: "topological g perm"
    and sub: "graph_nodes g \<subseteq> set perm" unfolding graph_nodes_def by simp_all
  have "edges g \<subseteq> {(a, b) \<in> edges g. a \<in> set perm}"
    using edges_node sub by auto
  with topological_acyclic [OF topo] have "acyclic (edges g)" by (rule acyclic_subset)
  with Inr show ?thesis by (simp add: detect_cycles_def)
qed

section \<open>The graph of a plan\<close>

text \<open>The dependencies a plan declares, in its phases and in its dependency graph.\<close>

definition declared_nodes :: "machine_plan \<Rightarrow> string set" where
  "declared_nodes plan =
     set (map pp_id (mp_phases plan)) \<union> set (map ge_phase_id (mp_dependency_graph plan))"

definition declared_edges :: "machine_plan \<Rightarrow> (string \<times> string) set" where
  "declared_edges plan =
     set (concat (map (\<lambda>p. map (Pair (pp_id p)) (pp_depends_on p)) (mp_phases plan))) \<union>
     set (concat (map (\<lambda>en. map (Pair (ge_phase_id en)) (ge_depends_on en))
       (mp_dependency_graph plan)))"

lemma add_entry_edges:
  "edges (add_entry en g) = edges g \<union> {ge_phase_id en} \<times> set (ge_depends_on en)"
  by (auto simp: edges_def add_entry_def set_update_def dict_simps split: if_splits option.splits)

lemma add_entry_nodes: "graph_nodes (add_entry en g) = insert (ge_phase_id en) (graph_nodes g)"
  by (simp only: graph_nodes_def add_entry_def dict_set_keys)

lemma add_entry_distinct: "distinct (dict_keys g) \<Longrightarrow> distinct (dict_keys (add_entry en g))"
  unfolding add_entry_def by (rule dict_set_distinct)

lemma add_entries_edges:
  "edges (fold add_entry ens g) =
     edges g \<union> set (concat (map (\<lambda>en. map (Pair (ge_phase_id en)) (ge_depends_on en)) ens))"
  by (induction ens arbitrary: g) (auto simp: add_entry_edges)

lemma add_entries_nodes: "graph_nodes (fold add_entry ens g) = graph_nodes g \<union> set (map ge_phase_id ens)"
  by (induction ens arbitrary: g) (auto simp: add_entry_nodes)

lemma add_entries_distinct:
  "distinct (dict_keys g) \<Longrightarrow> distinct (dict_keys (fold add_entry ens g))"
  by (induction ens arbitrary: g) (simp_all only: fold_simps comp_apply id_apply add_entry_distinct)

lemma dict_update_append:
  "distinct (dict_keys (d @ e)) \<Longrightarrow> dict_update d e = d @ e"
proof (induction e arbitrary: d)
  case (Cons kv e)
  have "dict_set (fst kv) (snd kv) d = d @ [kv]"
    using Cons.prems by (induction d) auto
  with Cons.IH [of "d @ [kv]"] Cons.prems show ?case by simp
qed simp

lemma phase_graph_declared:
  assumes "distinct (map pp_id (mp_phases plan))"
  shows "edges (phase_graph plan) = declared_edges plan"
    and "graph_nodes (phase_graph plan) = declared_nodes plan"
    and "distinct (dict_keys (phase_graph plan))"
proof -
  let ?items = "map (\<lambda>p. (pp_id p, remdups (pp_depends_on p))) (mp_phases plan)"
  have items: "dict_update [] ?items = ?items"
    using dict_update_append [of "[]" ?items] assms by (simp add: comp_def)
  have "edges ?items = set (concat (map (\<lambda>p. map (Pair (pp_id p)) (pp_depends_on p)) (mp_phases plan)))"
    using assms by (force simp: edges_def map_of_eq_Some_iff comp_def)
  then show "edges (phase_graph plan) = declared_edges plan"
    unfolding phase_graph_def items add_entries_edges declared_edges_def by simp
  show "graph_nodes (phase_graph plan) = declared_nodes plan"
    unfolding phase_graph_def items add_entries_nodes declared_nodes_def
    by (simp add: graph_nodes_def image_image)
  show "distinct (dict_keys (phase_graph plan))"
    unfolding phase_graph_def items using assms
    by (intro add_entries_distinct) (simp add: comp_def)
qed

text \<open>
  C36. A plan whose phase identifiers differ passes the validation exactly when every
  declared dependency is a known phase and the declared dependencies contain no cycle.
\<close>

theorem dependency_validation_is_exact:
  assumes "distinct (map pp_id (mp_phases plan))"
  shows "validate_dependency_graph plan = Inr () \<longleftrightarrow>
    snd ` declared_edges plan \<subseteq> declared_nodes plan \<and> acyclic (declared_edges plan)"
proof -
  note g = phase_graph_declared [OF assms]
  note known = known_iff [OF g(3), unfolded g(1,2)]
  note cycles = detect_cycles_iff [of "phase_graph plan", unfolded g(1,2)]
  show ?thesis
  proof (cases "validate_known_dependencies (phase_graph plan)")
    case (Inl err)
    with known show ?thesis by (simp add: validate_dependency_graph_def Let_def)
  next
    case (Inr u)
    with known cycles show ?thesis by (simp add: validate_dependency_graph_def Let_def)
  qed
qed

definition demo_plan :: "(string \<times> string list) list \<Rightarrow> machine_plan" where
  "demo_plan phases =
     \<lparr>mp_schema_version = ''1.0'', mp_target_namespace = ''ns'', mp_authority_order = None,
      mp_executor_contract =
        \<lparr>ec_parse_this_block_first = True, ec_dry_run_before_mutation = True,
         ec_human_approval_before_mutation = True, ec_never_copy_secret_values = True,
         ec_target_namespace_only = JBool True, ec_llm_suggestions_are_not_authority = None\<rparr>,
      mp_dependency_graph = [],
      mp_phases = map (\<lambda>(i, ds). \<lparr>pp_id = i, pp_title = None, pp_objective = i,
        pp_depends_on = ds, pp_steps = []\<rparr>) phases, mp_raw = []\<rparr>"

lemmas demo_graph = demo_plan_def phase_graph_def validate_dependency_graph_def
  validate_known_dependencies_def missing_of_def dict_has_def detect_cycles_def

theorem dependency_validation_is_exact_witness:
  "\<not> acyclic (declared_edges (demo_plan [(''a'', [''b'']), (''b'', [''a''])]))"
  using dependency_validation_is_exact [of "demo_plan [(''a'', [''b'']), (''b'', [''a''])]"]
  by (simp add: demo_graph declared_edges_def declared_nodes_def)

text \<open>
  When two phases share an identifier the later one replaces the dependencies of the
  earlier one, so that a declared cycle passes the validation.
\<close>

lemma duplicate_phase_hides_cycle:
  "validate_dependency_graph (demo_plan [(''a'', [''b'']), (''b'', [''a'']), (''a'', [])]) = Inr ()"
  by (simp add: demo_graph)

lemma declared_cycle_hidden:
  "(''a'', ''a'') \<in> (declared_edges (demo_plan [(''a'', [''b'']), (''b'', [''a'']), (''a'', [])]))\<^sup>+"
proof -
  let ?E = "declared_edges (demo_plan [(''a'', [''b'']), (''b'', [''a'']), (''a'', [])])"
  have "(''a'', ''b'') \<in> ?E" "(''b'', ''a'') \<in> ?E"
    by (simp_all add: declared_edges_def demo_plan_def)
  then show ?thesis by (meson r_into_trancl trancl_into_trancl)
qed

end
