(* ===== verification/PlanParser.thy ===== *)
theory PlanParser
  imports PlanGraph Models
begin

text \<open>
  The parser of machine execution plans (\<open>plans/machine_plan_parser.py\<close>): normalisation
  of the decoded document into the plan schema, field by field, and the entry points for a
  plan file and for a plan embedded in markdown. The YAML reader and the field validation of
  the schema classes are libraries, hence parameters.
\<close>

section \<open>Normalisation\<close>

definition STEP_METADATA_KEYS :: "string list" where
  "STEP_METADATA_KEYS =
     [''release_name'', ''chart_ref'', ''chart_version'', ''chart_source'', ''repo_name'',
      ''repo_url'', ''credential_secret_ref'', ''generated_by'', ''timeout'', ''helm_timeout'',
      ''install_timeout'', ''wait'', ''atomic'', ''current_revision'', ''previous_revision'',
      ''revision'', ''forward_step_id'', ''forward_step_ids'', ''reverts_step_id'',
      ''rollback_for'']"

fun nonempty_str :: "json \<Rightarrow> bool" where
  "nonempty_str (JStr s) = (s \<noteq> [])"
| "nonempty_str _ = False"

fun is_bool :: "json \<Rightarrow> bool" where
  "is_bool (JBool b) = True"
| "is_bool _ = False"

fun is_str :: "json \<Rightarrow> bool" where
  "is_str (JStr s) = True"
| "is_str _ = False"

text \<open>\<open>str(value or "")\<close>.\<close>

definition text_or_empty :: "json \<Rightarrow> string" where
  "text_or_empty v = py_str (json_or v (JStr []))"

fun str_of :: "json \<Rightarrow> string" where
  "str_of (JStr s) = s"
| "str_of _ = []"

definition string_list :: "json \<Rightarrow> string list" where
  "string_list v = map str_of (filter is_str (arr_items v))"

definition list_or_empty :: "json \<Rightarrow> json" where
  "list_or_empty v = (if is_arr v then v else JArr [])"

definition normalize_executor_contract :: "json \<Rightarrow> json dict" where
  "normalize_executor_contract v = filter (\<lambda>kv. fst kv \<in>
     {''parse_this_block_first'', ''dry_run_before_mutation'', ''human_approval_before_mutation'',
      ''never_copy_secret_values'', ''target_namespace_only'',
      ''llm_suggestions_are_not_authority''}) (obj_items v)"

definition normalize_graph_entry :: "json dict \<Rightarrow> json" where
  "normalize_graph_entry item = JObj
     [(''phase_id'', get_or_null item ''phase_id''),
      (''depends_on'', list_or_empty (get_or_null item ''depends_on''))]"

definition normalize_dependency_graph :: "json \<Rightarrow> json" where
  "normalize_dependency_graph v = JArr
     (map (\<lambda>it. normalize_graph_entry (obj_items it))
       (filter (\<lambda>it. is_obj it \<and> nonempty_str (get_or_null (obj_items it) ''phase_id''))
         (arr_items v)))"

definition bool_or_null :: "json \<Rightarrow> json" where
  "bool_or_null v = (if is_bool v then v else JNull)"

definition normalize_command :: "json dict \<Rightarrow> json dict" where
  "normalize_command item =
     [(''kind'', JStr (py_str (json_or (get_or_null item ''kind'') (JStr ''command'')))),
      (''command'', get_or_null item ''command''),
      (''dry_run'', bool_or_null (get_or_null item ''dry_run'')),
      (''mutating'', bool_or_null (get_or_null item ''mutating''))]"

definition normalize_commands :: "json \<Rightarrow> json dict list" where
  "normalize_commands v =
     map (\<lambda>it. normalize_command (obj_items it))
       (filter (\<lambda>it. is_obj it \<and> is_str (get_or_null (obj_items it) ''command'')) (arr_items v))"

primrec add_metadata :: "json dict \<Rightarrow> string list \<Rightarrow> json dict \<Rightarrow> json dict" where
  "add_metadata item [] m = m"
| "add_metadata item (k # ks) m =
     (let v = get_or_null item k in
      add_metadata item ks (if v \<noteq> JNull then dict_set k v m else m))"

definition normalize_step_metadata :: "json dict \<Rightarrow> json dict" where
  "normalize_step_metadata item =
     add_metadata item STEP_METADATA_KEYS (dict_update [] (obj_items (get_or_null item ''metadata'')))"

definition SUPPORTED_STEP_TYPES :: "string list" where
  "SUPPORTED_STEP_TYPES =
     [''context_check'', ''k8s_apply'', ''k8s_delete'', ''k8s_get'', ''k8s_validate'',
      ''helm_install'', ''helm_upgrade'', ''helm_validate'', ''wait'', ''manual_input'',
      ''rollback'', ''release_notes'']"

definition normalize_step_type :: "string \<Rightarrow> string list \<Rightarrow> json dict list \<Rightarrow> string" where
  "normalize_step_type raw_type manifest_refs commands =
     (if raw_type \<in> set SUPPORTED_STEP_TYPES then raw_type
      else
        let command_text = str_join [CHR 0x0A]
              (map (\<lambda>c. py_str (get_or c ''command'' (JStr []))) commands) in
        if manifest_refs \<noteq> [] \<or> str_contains ''kubectl apply'' command_text then ''k8s_apply''
        else if str_contains ''kubectl get'' command_text then ''k8s_get''
        else if raw_type = ''helm'' \<and> str_contains ''helm upgrade'' command_text then ''helm_upgrade''
        else if raw_type = ''helm'' \<and> str_contains ''helm install'' command_text then ''helm_install''
        else if str_contains ''helm template'' command_text \<or>
                str_contains ''helm list'' command_text then ''helm_validate''
        else if raw_type \<in> {''validation'', ''validate''} then ''k8s_validate''
        else if raw_type \<in> {''human_input'', ''namespace''} then ''context_check''
        else ''unknown'')"

text \<open>The file names that follow one of the flags, without repetitions.\<close>

fun flag_refs :: "string list \<Rightarrow> string list \<Rightarrow> string list \<Rightarrow> string list" where
  "flag_refs flags (part # nxt # rest) refs =
     (let candidate = str_strip_chars [quote_single, quote_double] nxt in
      flag_refs flags (nxt # rest)
        (if part \<in> set flags \<and> (ends_with candidate ''.yaml'' \<or> ends_with candidate ''.yml'') \<and>
            candidate \<notin> set refs
         then refs @ [candidate] else refs))"
| "flag_refs flags _ refs = refs"

definition command_text_of :: "json dict \<Rightarrow> string" where
  "command_text_of c = text_or_empty (get_or_null c ''command'')"

definition manifest_refs_from_commands :: "json dict list \<Rightarrow> string list" where
  "manifest_refs_from_commands commands =
     fold (\<lambda>c refs. if str_contains ''kubectl apply'' (command_text_of c)
             then flag_refs [''-f'', ''--filename''] (str_split (command_text_of c)) refs
             else refs) commands []"

definition values_refs_from_commands :: "json dict list \<Rightarrow> string list" where
  "values_refs_from_commands commands =
     fold (\<lambda>c refs. if starts_with (command_text_of c) ''helm ''
             then flag_refs [''-f'', ''--values'', ''--value''] (str_split (command_text_of c)) refs
             else refs) commands []"

definition list_or :: "'a list \<Rightarrow> 'a list \<Rightarrow> 'a list" where
  "list_or xs ys = (if xs \<noteq> [] then xs else ys)"

definition normalize_step :: "json dict \<Rightarrow> json dict" where
  "normalize_step item =
     (let commands = normalize_commands (get_or_null item ''commands'');
          manifest_refs = list_or (string_list (get_or_null item ''manifest_refs''))
            (manifest_refs_from_commands commands);
          values_refs = list_or (string_list (get_or_null item ''values_refs''))
            (values_refs_from_commands commands);
          inference = get_or_null item ''inference''
      in [(''step_id'', get_or_null item ''step_id''),
          (''title'', json_or (get_or_null item ''title'') (get_or_null item ''step_id'')),
          (''type'', JStr (normalize_step_type (text_or_empty (get_or_null item ''type''))
             manifest_refs commands)),
          (''depends_on'', list_or_empty (get_or_null item ''depends_on'')),
          (''evidence_refs'', jstrs (string_list (get_or_null item ''evidence_refs''))),
          (''manifest_refs'', jstrs manifest_refs),
          (''values_refs'', jstrs values_refs),
          (''commands'', JArr (map JObj commands)),
          (''rollback_commands'', jstrs (string_list (get_or_null item ''rollback_commands''))),
          (''metadata'', JObj (normalize_step_metadata item)),
          (''expected_outcomes'', jstrs (string_list (get_or_null item ''expected_outcomes''))),
          (''required_human_inputs'',
             jstrs (string_list (get_or_null item ''required_human_inputs''))),
          (''inference'', (if is_obj inference then inference else JNull))])"

definition normalize_steps :: "json \<Rightarrow> json" where
  "normalize_steps v = JArr
     (map (\<lambda>it. JObj (normalize_step (obj_items it)))
       (filter (\<lambda>it. is_obj it \<and> nonempty_str (get_or_null (obj_items it) ''step_id''))
         (arr_items v)))"

definition normalize_phase :: "json dict \<Rightarrow> json dict" where
  "normalize_phase item =
     [(''phase_id'', get_or_null item ''phase_id''),
      (''title'', get_or_null item ''title''),
      (''objective'', json_or (json_or (get_or_null item ''objective'') (get_or_null item ''title''))
         (get_or_null item ''phase_id'')),
      (''depends_on'', list_or_empty (get_or_null item ''depends_on'')),
      (''steps'', normalize_steps (get_or_null item ''steps''))]"

definition normalize_phases :: "json \<Rightarrow> plan_error + json" where
  "normalize_phases v =
     (if \<not> is_arr v then Inl (ParseError ''machine_plan_phases_not_list'')
      else Inr (JArr (map (\<lambda>it. JObj (normalize_phase (obj_items it)))
        (filter (\<lambda>it. is_obj it \<and> nonempty_str (get_or_null (obj_items it) ''phase_id''))
          (arr_items v)))))"

definition normalize_target :: "json dict \<Rightarrow> json dict \<Rightarrow> json" where
  "normalize_target payload contract =
     (let target = get_or_null payload ''target_namespace'';
          only = get_or_null contract ''target_namespace_only'' in
      if \<not> nonempty_str target \<and> nonempty_str only then only else target)"

definition normalize_machine_plan_payload :: "json dict \<Rightarrow> plan_error + json dict" where
  "normalize_machine_plan_payload loaded =
     (let payload = get_or loaded ''machine_execution_plan'' (JObj loaded) in
      if \<not> is_obj payload then Inl (ParseError ''machine_plan_not_mapping'')
      else
        let p = obj_items payload;
            contract = normalize_executor_contract (get_or_null p ''executor_contract'');
            target = normalize_target p contract in
        if \<not> nonempty_str target then Inl (ParseError ''machine_plan_target_namespace_missing'')
        else case normalize_phases (get_or_null p ''phases'') of
               Inl err \<Rightarrow> Inl err
             | Inr phases \<Rightarrow> Inr
                 [(''schema_version'', JStr (text_or_empty (get_or_null p ''schema_version''))),
                  (''target_namespace'', target),
                  (''authority_order'', get_or_null p ''authority_order''),
                  (''executor_contract'', JObj contract),
                  (''dependency_graph'',
                     normalize_dependency_graph (get_or_null p ''dependency_graph'')),
                  (''phases'', phases)])"

section \<open>Entry points\<close>

record plan_lib =
  pl_yaml :: "string \<Rightarrow> string + json"
  pl_fields :: "json dict \<Rightarrow> string + machine_plan"
  pl_describe :: "plan_error \<Rightarrow> string"

text \<open>The validation of the fields, followed by the class's own validator.\<close>

definition model_validate :: "plan_lib \<Rightarrow> string \<Rightarrow> json dict \<Rightarrow> plan_error + machine_plan" where
  "model_validate lib label loaded =
     (case pl_fields lib (dict_set ''raw_machine_execution_plan'' (JObj loaded) loaded) of
        Inl text \<Rightarrow> Inl (ParseError (label @ text))
      | Inr plan \<Rightarrow>
          (case validate_schema_version plan of
             Inl err \<Rightarrow> Inl (ParseError (label @ pl_describe lib err))
           | Inr plan' \<Rightarrow> Inr plan'))"

definition parse_loaded ::
    "plan_lib \<Rightarrow> string \<Rightarrow> string \<Rightarrow> json \<Rightarrow> plan_error + machine_plan" where
  "parse_loaded lib not_mapping label loaded =
     (if \<not> is_obj loaded then Inl (ParseError not_mapping)
      else case normalize_machine_plan_payload (obj_items loaded) of
             Inl err \<Rightarrow> Inl err
           | Inr payload \<Rightarrow>
               (case model_validate lib label payload of
                  Inl err \<Rightarrow> Inl err
                | Inr plan \<Rightarrow>
                    (case validate_dependency_graph plan of
                       Inl err \<Rightarrow> Inl err
                     | Inr _ \<Rightarrow> Inr plan)))"

definition parse_machine_plan :: "plan_lib \<Rightarrow> string \<Rightarrow> plan_error + machine_plan" where
  "parse_machine_plan lib text =
     (case pl_yaml lib text of
        Inl err \<Rightarrow> Inl (ParseError (''machine_plan_yaml_invalid:'' @ err))
      | Inr loaded \<Rightarrow>
          parse_loaded lib ''machine_plan_not_mapping'' ''machine_plan_schema_invalid:'' loaded)"

text \<open>\<open>splitlines\<close>, on ASCII text.\<close>

definition line_break :: "char \<Rightarrow> bool" where
  "line_break c \<longleftrightarrow> (let n = char_code c in (10 \<le> n \<and> n \<le> 13) \<or> (28 \<le> n \<and> n \<le> 30))"

fun splitlines_acc :: "string \<Rightarrow> string \<Rightarrow> string list" where
  "splitlines_acc acc [] = (if acc = [] then [] else [rev acc])"
| "splitlines_acc acc [c] = (if line_break c then [rev acc] else [rev (c # acc)])"
| "splitlines_acc acc (c # d # s) =
     (if char_code c = 13 \<and> char_code d = 10 then rev acc # splitlines_acc [] s
      else if line_break c then rev acc # splitlines_acc [] (d # s)
      else splitlines_acc (c # acc) (d # s))"

definition splitlines :: "string \<Rightarrow> string list" where
  "splitlines s = splitlines_acc [] s"

primrec fence_block :: "bool \<Rightarrow> string list \<Rightarrow> string list" where
  "fence_block collecting [] = []"
| "fence_block collecting (line # rest) =
     (let stripped = str_strip line in
      if starts_with stripped ''```'' \<and> str_contains ''machine_execution_plan'' stripped
      then fence_block True rest
      else if collecting \<and> starts_with stripped ''```'' then []
      else if collecting then line # fence_block collecting rest
      else fence_block collecting rest)"

definition parse_embedded_machine_plan ::
    "plan_lib \<Rightarrow> string \<Rightarrow> plan_error + machine_plan option" where
  "parse_embedded_machine_plan lib markdown =
     (if \<not> str_contains ''machine_execution_plan'' markdown then Inr None
      else
        let block = fence_block False (splitlines markdown) in
        if block = [] then Inr None
        else case pl_yaml lib (str_join [CHR 0x0A] block) of
               Inl err \<Rightarrow> Inl (ParseError (''embedded_machine_plan_yaml_invalid:'' @ err))
             | Inr loaded \<Rightarrow>
                 (case parse_loaded lib ''embedded_machine_plan_not_mapping''
                     ''embedded_machine_plan_schema_invalid:'' loaded of
                    Inl err \<Rightarrow> Inl err
                  | Inr plan \<Rightarrow> Inr (Some plan)))"

section \<open>Normalising twice\<close>

lemma nat_str_ne [simp]: "nat_str n \<noteq> []"
  by (rule nat_str_nonempty)

lemma py_str_truthy: "truthy v \<Longrightarrow> py_str v \<noteq> []"
  by (cases v) (simp_all add: int_str_def)

lemma truthy_json_or [simp]: "truthy y \<Longrightarrow> truthy (json_or x y)"
  by (simp add: json_or_def)

lemma json_or_truthy: "truthy x \<Longrightarrow> json_or x y = x"
  by (simp add: json_or_def)

lemma nonempty_str_truthy: "nonempty_str v \<Longrightarrow> truthy v"
  by (cases v) simp_all

lemma text_twice [simp]: "text_or_empty (JStr s) = s"
  by (simp add: text_or_empty_def json_or_def)

lemma string_list_twice [simp]: "string_list (jstrs xs) = xs"
  by (induction xs) (simp_all add: string_list_def jstrs_def)

lemma list_or_empty_twice [simp]: "list_or_empty (list_or_empty v) = list_or_empty v"
  by (simp add: list_or_empty_def)

lemma bool_or_null_twice [simp]: "bool_or_null (bool_or_null v) = bool_or_null v"
  by (simp add: bool_or_null_def)

text \<open>A field of a mapping written out field by field.\<close>

lemma get_field [simp]:
  "get_or_null ((k, v) # d) k' = (if k' = k then v else get_or_null d k')"
  "get_or_null [] k' = JNull"
  by (simp_all add: get_or_null_def)

lemma contract_twice [simp]:
  "normalize_executor_contract (JObj (normalize_executor_contract v)) = normalize_executor_contract v"
  by (simp add: normalize_executor_contract_def)

lemma map_filter_twice:
  assumes "\<And>x. P x \<Longrightarrow> P (f x)" and "\<And>x. P x \<Longrightarrow> f (f x) = f x"
  shows "map f (filter P (map f (filter P xs))) = map f (filter P xs)"
  using assms by (induction xs) auto

lemma graph_twice [simp]:
  "normalize_dependency_graph (normalize_dependency_graph v) = normalize_dependency_graph v"
  unfolding normalize_dependency_graph_def arr_items.simps
  by (subst map_filter_twice) (simp_all add: normalize_graph_entry_def)

lemma command_twice:
  "normalize_command (normalize_command item) = normalize_command item"
proof -
  have "py_str (json_or (get_or_null item ''kind'') (JStr ''command'')) \<noteq> []"
    by (intro py_str_truthy) simp
  then show ?thesis by (simp add: normalize_command_def json_or_def)
qed

lemma commands_twice [simp]:
  "normalize_commands (JArr (map JObj (normalize_commands v))) = normalize_commands v"
proof -
  let ?P = "\<lambda>it. is_obj it \<and> is_str (get_or_null (obj_items it) ''command'')"
  let ?f = "\<lambda>it. JObj (normalize_command (obj_items it))"
  have eq: "map JObj (normalize_commands (JArr xs)) = map ?f (filter ?P xs)" for xs
    by (simp add: normalize_commands_def)
  have items: "map JObj (normalize_commands v) = map ?f (filter ?P (arr_items v))"
    by (simp add: normalize_commands_def)
  have "map JObj (normalize_commands (JArr (map JObj (normalize_commands v)))) =
      map JObj (normalize_commands v)"
    unfolding eq items
  proof (rule map_filter_twice)
    fix x assume "?P x"
    then show "?P (?f x)" by (simp add: normalize_command_def)
    show "?f (?f x) = ?f x" by (simp add: command_twice)
  qed
  then show ?thesis by (simp add: inj_map_eq_map inj_def)
qed

lemma type_twice [simp]:
  "normalize_step_type (normalize_step_type t refs commands) refs commands =
     normalize_step_type t refs commands"
  by (simp add: normalize_step_type_def Let_def SUPPORTED_STEP_TYPES_def)

lemma list_or_twice: "list_or (list_or xs ys) ys = list_or xs ys"
  by (simp add: list_or_def)

lemma dict_update_distinct: "distinct (dict_keys d) \<Longrightarrow> distinct (dict_keys (dict_update d e))"
  by (induction e arbitrary: d) (simp_all add: dict_set_distinct del: AList.distinct_update)

lemma add_metadata_distinct:
  "distinct (dict_keys m) \<Longrightarrow> distinct (dict_keys (add_metadata item ks m))"
  by (induction ks arbitrary: m) (auto simp: Let_def intro: dict_set_distinct)

lemma add_metadata_none:
  "(\<And>k. k \<in> set ks \<Longrightarrow> get_or_null item k = JNull) \<Longrightarrow> add_metadata item ks m = m"
  by (induction ks) (simp_all add: Let_def)

lemma metadata_twice:
  assumes "get_or_null item' ''metadata'' = JObj (normalize_step_metadata item)"
    and "\<And>k. k \<in> set STEP_METADATA_KEYS \<Longrightarrow> get_or_null item' k = JNull"
  shows "normalize_step_metadata item' = normalize_step_metadata item"
proof -
  have "distinct (dict_keys (normalize_step_metadata item))"
    unfolding normalize_step_metadata_def
    by (intro add_metadata_distinct dict_update_distinct) simp
  then have "dict_update [] (normalize_step_metadata item) = normalize_step_metadata item"
    by (subst dict_update_append) simp_all
  with assms add_metadata_none show ?thesis by (simp add: normalize_step_metadata_def)
qed

definition step_commands :: "json dict \<Rightarrow> json dict list" where
  "step_commands item = normalize_commands (get_or_null item ''commands'')"

definition step_manifest_refs :: "json dict \<Rightarrow> string list" where
  "step_manifest_refs item = list_or (string_list (get_or_null item ''manifest_refs''))
     (manifest_refs_from_commands (step_commands item))"

definition step_values_refs :: "json dict \<Rightarrow> string list" where
  "step_values_refs item = list_or (string_list (get_or_null item ''values_refs''))
     (values_refs_from_commands (step_commands item))"

lemmas step_parts = step_commands_def step_manifest_refs_def step_values_refs_def

lemma step_fields:
  "get_or_null (normalize_step item) ''step_id'' = get_or_null item ''step_id''"
  "get_or_null (normalize_step item) ''title'' =
     json_or (get_or_null item ''title'') (get_or_null item ''step_id'')"
  "get_or_null (normalize_step item) ''type'' = JStr (normalize_step_type
     (text_or_empty (get_or_null item ''type'')) (step_manifest_refs item) (step_commands item))"
  "get_or_null (normalize_step item) ''depends_on'' = list_or_empty (get_or_null item ''depends_on'')"
  "get_or_null (normalize_step item) ''evidence_refs'' =
     jstrs (string_list (get_or_null item ''evidence_refs''))"
  "get_or_null (normalize_step item) ''manifest_refs'' = jstrs (step_manifest_refs item)"
  "get_or_null (normalize_step item) ''values_refs'' = jstrs (step_values_refs item)"
  "get_or_null (normalize_step item) ''commands'' = JArr (map JObj (step_commands item))"
  "get_or_null (normalize_step item) ''rollback_commands'' =
     jstrs (string_list (get_or_null item ''rollback_commands''))"
  "get_or_null (normalize_step item) ''metadata'' = JObj (normalize_step_metadata item)"
  "get_or_null (normalize_step item) ''expected_outcomes'' =
     jstrs (string_list (get_or_null item ''expected_outcomes''))"
  "get_or_null (normalize_step item) ''required_human_inputs'' =
     jstrs (string_list (get_or_null item ''required_human_inputs''))"
  "get_or_null (normalize_step item) ''inference'' =
     (if is_obj (get_or_null item ''inference'') then get_or_null item ''inference'' else JNull)"
  by (simp_all add: normalize_step_def Let_def step_parts)

definition STEP_FIELDS :: "string list" where
  "STEP_FIELDS = [''step_id'', ''title'', ''type'', ''depends_on'', ''evidence_refs'',
     ''manifest_refs'', ''values_refs'', ''commands'', ''rollback_commands'', ''metadata'',
     ''expected_outcomes'', ''required_human_inputs'', ''inference'']"

lemma step_keys: "dict_keys (normalize_step item) = STEP_FIELDS"
  by (simp only: normalize_step_def Let_def list.map fst_conv STEP_FIELDS_def)

lemma step_fields_not_metadata: "list_all (\<lambda>k. k \<notin> set STEP_FIELDS) STEP_METADATA_KEYS"
  by code_simp

lemma get_absent: "k \<notin> set (dict_keys d) \<Longrightarrow> get_or_null d k = JNull"
  by (simp add: get_or_null_def map_of_eq_None_iff [THEN iffD2])

lemma step_no_metadata_key:
  "k \<in> set STEP_METADATA_KEYS \<Longrightarrow> get_or_null (normalize_step item) k = JNull"
  using step_fields_not_metadata unfolding list_all_iff
  by (intro get_absent) (auto simp only: step_keys)

lemma step_twice:
  assumes "nonempty_str (get_or_null item ''step_id'')"
  shows "normalize_step (normalize_step item) = normalize_step item"
proof -
  have meta: "normalize_step_metadata (normalize_step item) = normalize_step_metadata item"
    by (rule metadata_twice [OF step_fields(10) step_no_metadata_key])
  have title: "json_or (json_or (get_or_null item ''title'') (get_or_null item ''step_id''))
      (get_or_null item ''step_id'') = json_or (get_or_null item ''title'') (get_or_null item ''step_id'')"
    using assms by (intro json_or_truthy truthy_json_or nonempty_str_truthy)
  have commands: "normalize_commands (JArr (map JObj (step_commands item))) = step_commands item"
    by (simp add: step_commands_def)
  have refs: "list_or (step_manifest_refs item) (manifest_refs_from_commands (step_commands item)) =
      step_manifest_refs item"
    "list_or (step_values_refs item) (values_refs_from_commands (step_commands item)) =
      step_values_refs item"
    by (simp_all only: step_manifest_refs_def step_values_refs_def list_or_twice)
  have "normalize_step (normalize_step item) =
      [(''step_id'', get_or_null item ''step_id''),
       (''title'', json_or (get_or_null item ''title'') (get_or_null item ''step_id'')),
       (''type'', JStr (normalize_step_type (text_or_empty (get_or_null item ''type''))
             (step_manifest_refs item) (step_commands item))),
       (''depends_on'', list_or_empty (get_or_null item ''depends_on'')),
       (''evidence_refs'', jstrs (string_list (get_or_null item ''evidence_refs''))),
       (''manifest_refs'', jstrs (step_manifest_refs item)),
       (''values_refs'', jstrs (step_values_refs item)),
       (''commands'', JArr (map JObj (step_commands item))),
       (''rollback_commands'', jstrs (string_list (get_or_null item ''rollback_commands''))),
       (''metadata'', JObj (normalize_step_metadata item)),
       (''expected_outcomes'', jstrs (string_list (get_or_null item ''expected_outcomes''))),
       (''required_human_inputs'', jstrs (string_list (get_or_null item ''required_human_inputs''))),
       (''inference'',
          (if is_obj (get_or_null item ''inference'') then get_or_null item ''inference'' else JNull))]"
    unfolding normalize_step_def [of "normalize_step item"] step_fields Let_def meta title commands
      string_list_twice refs text_twice type_twice list_or_empty_twice
    by simp
  also have "\<dots> = normalize_step item"
    by (simp only: normalize_step_def Let_def step_parts)
  finally show ?thesis .
qed

lemma step_keeps_id: "get_or_null (normalize_step item) ''step_id'' = get_or_null item ''step_id''"
  by (simp add: normalize_step_def Let_def)

lemma steps_twice [simp]: "normalize_steps (normalize_steps v) = normalize_steps v"
  unfolding normalize_steps_def arr_items.simps
  by (subst map_filter_twice) (simp_all add: step_twice step_keeps_id)

lemma phase_twice:
  assumes "nonempty_str (get_or_null item ''phase_id'')"
  shows "normalize_phase (normalize_phase item) = normalize_phase item"
proof -
  let ?o = "json_or (json_or (get_or_null item ''objective'') (get_or_null item ''title''))
      (get_or_null item ''phase_id'')"
  have "truthy ?o" using assms by (intro truthy_json_or nonempty_str_truthy)
  then have "json_or (json_or ?o t) p = ?o" for t p by (simp add: json_or_def)
  then show ?thesis by (simp add: normalize_phase_def)
qed

lemma phases_twice: "normalize_phases v = Inr w \<Longrightarrow> normalize_phases w = Inr w"
proof -
  assume "normalize_phases v = Inr w"
  then have w: "w = JArr (map (\<lambda>it. JObj (normalize_phase (obj_items it)))
        (filter (\<lambda>it. is_obj it \<and> nonempty_str (get_or_null (obj_items it) ''phase_id''))
          (arr_items v)))"
    by (simp add: normalize_phases_def split: if_splits)
  show ?thesis
    unfolding w normalize_phases_def is_arr.simps arr_items.simps
    by (subst map_filter_twice) (simp_all add: phase_twice, simp add: normalize_phase_def)
qed

text \<open>
  C34. Normalising is idempotent: a payload that has been normalised is left as it is, so the
  copy kept in \<open>raw_machine_execution_plan\<close> is read back as the same plan.
\<close>

theorem normalization_is_idempotent:
  assumes "normalize_machine_plan_payload loaded = Inr payload"
  shows "normalize_machine_plan_payload payload = Inr payload"
proof -
  define p where "p = obj_items (get_or loaded ''machine_execution_plan'' (JObj loaded))"
  define contract where "contract = normalize_executor_contract (get_or_null p ''executor_contract'')"
  obtain phases where target: "nonempty_str (normalize_target p contract)"
    and phases: "normalize_phases (get_or_null p ''phases'') = Inr phases"
    and payload: "payload =
      [(''schema_version'', JStr (text_or_empty (get_or_null p ''schema_version''))),
       (''target_namespace'', normalize_target p contract),
       (''authority_order'', get_or_null p ''authority_order''),
       (''executor_contract'', JObj contract),
       (''dependency_graph'', normalize_dependency_graph (get_or_null p ''dependency_graph'')),
       (''phases'', phases)]"
    using assms unfolding normalize_machine_plan_payload_def Let_def p_def [symmetric]
      contract_def [symmetric]
    by (auto split: if_splits sum.splits)
  have fields: "get_or_null payload ''schema_version'' =
      JStr (text_or_empty (get_or_null p ''schema_version''))"
    "get_or_null payload ''target_namespace'' = normalize_target p contract"
    "get_or_null payload ''authority_order'' = get_or_null p ''authority_order''"
    "get_or_null payload ''executor_contract'' = JObj contract"
    "get_or_null payload ''dependency_graph'' =
      normalize_dependency_graph (get_or_null p ''dependency_graph'')"
    "get_or_null payload ''phases'' = phases"
    by (simp_all add: payload)
  have whole: "get_or payload ''machine_execution_plan'' (JObj payload) = JObj payload"
    by (simp add: get_or_def payload)
  have contract: "normalize_executor_contract (JObj contract) = contract"
    unfolding contract_def by (rule contract_twice)
  have same_target: "normalize_target payload contract = normalize_target p contract"
    using target unfolding normalize_target_def [of payload] fields Let_def by simp
  show ?thesis
    unfolding normalize_machine_plan_payload_def whole obj_items.simps is_obj.simps Let_def fields
      contract same_target phases_twice [OF phases] text_twice graph_twice
    using target by (simp add: payload [symmetric])
qed

definition demo_payload :: "json dict" where
  "demo_payload =
     [(''schema_version'', JStr ''1.0''),
      (''executor_contract'', JObj [(''target_namespace_only'', JStr ''ns'')]),
      (''phases'', JArr [JObj [(''phase_id'', JStr ''p''), (''steps'', JArr [JObj
         [(''step_id'', JStr ''s''), (''wait'', JBool True)]])]])]"

theorem normalization_is_idempotent_witness:
  "\<exists>payload. normalize_machine_plan_payload demo_payload = Inr payload \<and>
     get_or_null payload ''target_namespace'' = JStr ''ns'' \<and>
     normalize_machine_plan_payload payload = Inr payload"
proof -
  have "\<exists>payload. normalize_machine_plan_payload demo_payload = Inr payload \<and>
     get_or_null payload ''target_namespace'' = JStr ''ns''"
    by (simp add: normalize_machine_plan_payload_def demo_payload_def get_or_def Let_def
        normalize_executor_contract_def normalize_target_def normalize_phases_def)
  then show ?thesis using normalization_is_idempotent by blast
qed

text \<open>What a normalised payload looks like.\<close>

definition good_step :: "json \<Rightarrow> bool" where
  "good_step v \<longleftrightarrow> is_obj v \<and> nonempty_str (get_or_null (obj_items v) ''step_id'') \<and>
     truthy (get_or_null (obj_items v) ''title'') \<and>
     str_of (get_or_null (obj_items v) ''type'') \<in> set (''unknown'' # SUPPORTED_STEP_TYPES) \<and>
     is_arr (get_or_null (obj_items v) ''depends_on'') \<and>
     is_obj (get_or_null (obj_items v) ''metadata'')"

definition good_phase :: "json \<Rightarrow> bool" where
  "good_phase v \<longleftrightarrow> is_obj v \<and> nonempty_str (get_or_null (obj_items v) ''phase_id'') \<and>
     truthy (get_or_null (obj_items v) ''objective'') \<and>
     is_arr (get_or_null (obj_items v) ''depends_on'') \<and>
     list_all good_step (arr_items (get_or_null (obj_items v) ''steps''))"

lemma type_supported:
  "normalize_step_type t refs commands \<in> set (''unknown'' # SUPPORTED_STEP_TYPES)"
  by (simp add: normalize_step_type_def Let_def SUPPORTED_STEP_TYPES_def)

lemma good_normal_step:
  assumes "nonempty_str (get_or_null item ''step_id'')"
  shows "good_step (JObj (normalize_step item))"
proof -
  have "truthy (json_or (get_or_null item ''title'') (get_or_null item ''step_id''))"
    using assms by (intro truthy_json_or nonempty_str_truthy)
  with assms type_supported show ?thesis
    unfolding good_step_def obj_items.simps step_fields by (simp add: list_or_empty_def)
qed

lemma good_normal_phase:
  assumes "nonempty_str (get_or_null item ''phase_id'')"
  shows "good_phase (JObj (normalize_phase item))"
proof -
  have "list_all good_step (arr_items (normalize_steps (get_or_null item ''steps'')))"
    by (auto simp: normalize_steps_def list_all_iff intro: good_normal_step)
  moreover have "truthy (json_or t (get_or_null item ''phase_id''))" for t
    using assms by (intro truthy_json_or nonempty_str_truthy)
  ultimately show ?thesis
    using assms by (simp add: good_phase_def normalize_phase_def list_or_empty_def)
qed

text \<open>
  C32. A normalised payload names a target namespace, and each of its phases and steps has
  an identifier, an objective or title, dependencies that are a list, and a step type of the
  supported set (or \<open>unknown\<close>); everything malformed has been dropped.
\<close>

theorem normalized_payload_is_well_formed:
  assumes "normalize_machine_plan_payload loaded = Inr payload"
  shows "nonempty_str (get_or_null payload ''target_namespace'') \<and>
    list_all good_phase (arr_items (get_or_null payload ''phases''))"
  using assms good_normal_phase
  unfolding normalize_machine_plan_payload_def normalize_phases_def
  by (auto simp: Let_def list_all_iff split: if_splits)

theorem normalized_payload_is_well_formed_witness:
  "\<exists>payload. normalize_machine_plan_payload demo_payload = Inr payload \<and>
     list_all good_phase (arr_items (get_or_null payload ''phases''))"
proof -
  have "\<exists>payload. normalize_machine_plan_payload demo_payload = Inr payload"
    by (simp add: normalize_machine_plan_payload_def demo_payload_def get_or_def Let_def
        normalize_executor_contract_def normalize_target_def normalize_phases_def)
  then show ?thesis using normalized_payload_is_well_formed by blast
qed

text \<open>
  A plan that the parser returns has a supported schema version and has passed the
  validation of its dependencies.
\<close>

theorem parsed_plan_is_valid:
  assumes "parse_machine_plan lib text = Inr plan"
  shows "mp_schema_version plan \<in> {''0.1.0'', ''1.0''} \<and> validate_dependency_graph plan = Inr ()"
proof -
  from assms have valid: "validate_dependency_graph plan = Inr ()"
    and version: "\<exists>x. validate_schema_version x = Inr plan"
    by (auto simp: parse_machine_plan_def parse_loaded_def model_validate_def
        split: sum.splits if_splits)
  from version have "mp_schema_version plan \<in> {''0.1.0'', ''1.0''}"
    by (auto simp: validate_schema_version_def SUPPORTED_MACHINE_PLAN_SCHEMA_VERSIONS_def
        split: if_splits)
  with valid show ?thesis by simp
qed

definition demo_lib :: plan_lib where
  "demo_lib = \<lparr>pl_yaml = (\<lambda>text. Inr (JObj demo_payload)),
     pl_fields = (\<lambda>d. Inr (demo_plan [(''p'', [])])), pl_describe = (\<lambda>err. ''invalid'')\<rparr>"

theorem parsed_plan_is_valid_witness:
  "mp_target_namespace (demo_plan [(''p'', [])]) = ''ns'' \<and>
   validate_dependency_graph (demo_plan [(''p'', [])]) = Inr ()"
proof -
  have "parse_machine_plan demo_lib [] = Inr (demo_plan [(''p'', [])])"
    by (simp add: parse_machine_plan_def demo_lib_def parse_loaded_def model_validate_def
        demo_graph validate_schema_version_def SUPPORTED_MACHINE_PLAN_SCHEMA_VERSIONS_def
        normalize_machine_plan_payload_def demo_payload_def get_or_def Let_def
        normalize_executor_contract_def normalize_target_def normalize_phases_def)
  from parsed_plan_is_valid [OF this] show ?thesis by (simp add: demo_plan_def)
qed

end
