(* ===== verification/Agent.thy ===== *)
theory Agent
  imports Repository StateMachine
begin

text \<open>
  Programs over the agent's repository: the state with the readings of clock and identifiers
  and the repository, the repository operations as programs, and the step relations that
  every part of the agent keeps (the audit log only grows, job states follow the transition
  table).
\<close>

record agent = ctx +
  ag_repo :: repository

definition repo_do :: "(repository \<Rightarrow> repository) \<Rightarrow> ('a agent_scheme, py_error, unit) prog" where
  "repo_do f = modify (\<lambda>s. s\<lparr>ag_repo := f (ag_repo s)\<rparr>)"

definition repo_get :: "(repository \<Rightarrow> 'b) \<Rightarrow> ('a agent_scheme, py_error, 'b) prog" where
  "repo_get f = gets (\<lambda>s. f (ag_repo s))"

definition write_event :: "audit_event \<Rightarrow> ('a agent_scheme, py_error, unit) prog" where
  "write_event ev = (\<lambda>s.
     case audit_write ev (ag_repo s) of (res, r) \<Rightarrow> (res, s\<lparr>ag_repo := r\<rparr>))"

lemma runs_repo [simp]:
  "runs (repo_do f) s P = P () (s\<lparr>ag_repo := f (ag_repo s)\<rparr>)"
  "runs (repo_get g) s Q = Q (g (ag_repo s)) s"
  by (simp_all add: repo_do_def repo_get_def runs_basic)

lemma write_event_Inr:
  "aud_id ev \<notin> set (map aud_id (sn_audit (rp_snap (ag_repo s)))) \<Longrightarrow>
    write_event ev s =
      (Inr (), s\<lparr>ag_repo := repo_change (\<lambda>x. x\<lparr>sn_audit := sn_audit x @ [ev]\<rparr>) (ag_repo s)\<rparr>)"
proof -
  assume "aud_id ev \<notin> set (map aud_id (sn_audit (rp_snap (ag_repo s))))"
  then have "\<not> list_ex (\<lambda>x. aud_id x = aud_id ev) (sn_audit (rp_snap (ag_repo s)))"
    unfolding list_ex_iff by (metis imageI set_map)
  then show ?thesis by (simp add: write_event_def audit_write_def append_audit_event_def)
qed

text \<open>Identifiers still to be drawn for audit events are new, as UUIDs are.\<close>

definition audit_ids_fresh :: "env \<Rightarrow> nat \<Rightarrow> 'a agent_scheme \<Rightarrow> bool" where
  "audit_ids_fresh e n s \<longleftrightarrow>
     distinct (map aud_id (sn_audit (rp_snap (ag_repo s))) @
       map (\<lambda>k. new_id_of e k ''audit'') [c_ids s..<c_ids s + n])"

section \<open>The audit log grows\<close>

definition audit_log :: "'a agent_scheme \<Rightarrow> audit_event list" where
  "audit_log s = sn_audit (rp_snap (ag_repo s))"

definition audit_grows :: "'a agent_scheme \<Rightarrow> 'a agent_scheme \<Rightarrow> bool" where
  "audit_grows s t \<longleftrightarrow> prefix (audit_log s) (audit_log t)"

interpretation audit: step_relation audit_grows
  by unfold_locales (auto simp: audit_grows_def)

lemma audit_grows_clock [step_intros]: "moves audit_grows (utc_now e)" "moves audit_grows (new_id e pre)"
  by (simp_all add: moves_def utc_now_def new_id_def audit_grows_def audit_log_def)

lemma audit_grows_write [step_intros]: "moves audit_grows (write_event ev)"
  by (auto simp: moves_def write_event_def audit_write_def append_audit_event_def audit_grows_def
      audit_log_def split: prod.splits if_splits)

lemma audit_grows_repo_do [step_intros]:
  "(\<And>r. sn_audit (rp_snap (f r)) = sn_audit (rp_snap r)) \<Longrightarrow> moves audit_grows (repo_do f)"
  by (simp add: repo_do_def moves_def modify_def audit_grows_def audit_log_def)

lemma audit_grows_repo_get [step_intros]: "moves audit_grows (repo_get f)"
  by (simp add: repo_get_def audit.moves_gets)

section \<open>Job states\<close>

text \<open>
  \<open>job_moves P\<close>: no job disappears, and the state of a job is left alone or changed as
  \<open>P\<close> allows.
\<close>

definition job_moves :: "(job_state \<Rightarrow> job_state \<Rightarrow> bool) \<Rightarrow> 'a agent_scheme \<Rightarrow> 'a agent_scheme \<Rightarrow> bool" where
  "job_moves P s t \<longleftrightarrow> (\<forall>jid j. get_job (ag_repo s) jid = Some j \<longrightarrow>
     (\<exists>j'. get_job (ag_repo t) jid = Some j' \<and> P\<^sup>*\<^sup>* (job_st j) (job_st j')))"

interpretation job_moves: step_relation "job_moves P" for P
  by unfold_locales (auto simp: job_moves_def, meson rtranclp_trans)

lemma job_moves_frame:
  "(\<And>s. get_job (ag_repo (snd (m s))) = get_job (ag_repo s)) \<Longrightarrow> moves (job_moves P) m"
  by (auto simp: moves_def job_moves_def)

lemma job_moves_clock [step_intros]:
  "moves (job_moves P) (utc_now e)" "moves (job_moves P) (new_id e pre)"
  by (rule job_moves_frame; simp add: utc_now_def new_id_def)+

lemma job_moves_write [step_intros]: "moves (job_moves P) (write_event ev)"
  by (rule job_moves_frame)
    (auto simp: write_event_def audit_write_def get_job_def append_audit_event_def split: prod.splits)

lemma job_moves_repo_do [step_intros]:
  "(\<And>r. get_job (f r) = get_job r) \<Longrightarrow> moves (job_moves P) (repo_do f)"
  by (rule job_moves_frame) (simp add: repo_do_def modify_def)

lemma job_moves_repo_get [step_intros]: "moves (job_moves P) (repo_get f)"
  by (simp add: repo_get_def job_moves.moves_gets)

section \<open>Programs that only write to the log\<close>

definition same_but_audit :: "'a agent_scheme \<Rightarrow> 'a agent_scheme \<Rightarrow> bool" where
  "same_but_audit s t \<longleftrightarrow>
     (\<exists>new. rp_snap (ag_repo t) = (rp_snap (ag_repo s))\<lparr>sn_audit := audit_log s @ new\<rparr>)"

interpretation logging: step_relation same_but_audit
proof
  fix s t u :: "'a agent_scheme"
  show "same_but_audit s s"
    unfolding same_but_audit_def audit_log_def by (rule exI [of _ "[]"]) simp
  assume "same_but_audit s t" "same_but_audit t u"
  then show "same_but_audit s u"
    unfolding same_but_audit_def audit_log_def by auto
qed

lemma same_repo: "ag_repo t = ag_repo s \<Longrightarrow> same_but_audit s t"
  using logging.refl [of s] by (simp add: same_but_audit_def)

lemma same_but_audit_clock [step_intros]:
  "moves same_but_audit (utc_now e)" "moves same_but_audit (new_id e pre)"
  by (simp_all add: moves_def utc_now_def new_id_def same_repo)

lemma same_but_audit_write [step_intros]: "moves same_but_audit (write_event ev)"
proof -
  have "same_but_audit s (snd (write_event ev s))" for s :: "'a agent_scheme"
    by (cases "list_ex (\<lambda>x. aud_id x = aud_id ev) (audit_log s)")
       (auto simp: write_event_def audit_write_def append_audit_event_def same_but_audit_def
          audit_log_def intro: exI [of _ "[]"])
  then show ?thesis by (simp add: moves_def)
qed

lemma same_but_audit_facts:
  assumes "same_but_audit s t"
  shows "get_job (ag_repo t) = get_job (ag_repo s)" "audit_grows s t"
    "get_steps (ag_repo t) = get_steps (ag_repo s)"
  using assms by (auto simp: same_but_audit_def get_job_def get_steps_def audit_grows_def
      audit_log_def fun_eq_iff)

text \<open>An event written under a fresh identifier is written.\<close>

lemma fresh_write:
  assumes "audit_ids_fresh e (Suc n) s" and "aud_id ev = new_id_of e (c_ids s) ''audit''"
    and "ag_repo u = ag_repo s" and "c_ids u = Suc (c_ids s)"
  shows "\<exists>t. write_event ev u = (Inr (), t) \<and> audit_ids_fresh e n t \<and> same_but_audit u t \<and>
    audit_log t = audit_log s @ [ev] \<and> c_ids t = Suc (c_ids s)"
proof -
  have upt: "[c_ids s..<c_ids s + Suc n] = c_ids s # [Suc (c_ids s)..<Suc (c_ids s) + n]"
    by (simp add: upt_conv_Cons)
  have "aud_id ev \<notin> set (map aud_id (sn_audit (rp_snap (ag_repo u))))"
    using assms unfolding audit_ids_fresh_def upt by auto
  note w = write_event_Inr [OF this]
  from movesD [OF same_but_audit_write, of u ev] have "same_but_audit u (snd (write_event ev u))" .
  moreover have "audit_log (snd (write_event ev u)) = audit_log s @ [ev]"
    using w assms(3) by (simp add: audit_log_def)
  moreover have "c_ids (snd (write_event ev u)) = Suc (c_ids s)" using w assms(4) by simp
  moreover have "audit_ids_fresh e n (snd (write_event ev u))"
    using assms(1,2) calculation(2,3)
    unfolding audit_ids_fresh_def upt audit_log_def by auto
  ultimately show ?thesis using w by auto
qed

section \<open>Inputs of the witnesses\<close>

definition demo_instruction :: "instruction_type \<Rightarrow> instruction" where
  "demo_instruction ty =
     \<lparr>ins_id = ''i'', ins_job_id = ''j'', ins_type = ty, ins_controller_id = ''c'',
      ins_issued_by = ''llm'', ins_issued_at = None, ins_correlation_id = None,
      ins_trace_id = None, ins_target_phase_id = None, ins_target_step_id = None,
      ins_target_resource = None, ins_rationale = None, ins_wait_seconds = None,
      ins_retry_policy = None, ins_manifest_patch = None, ins_replacement_manifest = None,
      ins_validation_selector = None, ins_approval_token = None, ins_dry_run_required = True,
      ins_destructive_action = False, ins_safety_acks = [], ins_metadata = []\<rparr>"

definition unit_env :: env where
  "unit_env = \<lparr>env_clock = int, env_uuid = (\<lambda>n. replicate n CHR ''x''), env_sha256 = id,
     env_dt_json = int_str, env_isoformat = int_str\<rparr>"

end
