(* ===== verification/Observations.thy ===== *)
theory Observations
  imports Agent
begin

text \<open>
  The observations of the runtime (\<open>runtime/observations.py\<close>) and the context packaged with
  a request for a decision (\<open>runtime/decision_context.py\<close>).
\<close>

text \<open>The defaults of the keyword arguments of \<open>ObservationBuilder.build\<close>.\<close>

definition observation_args :: "string \<Rightarrow> obs_type \<Rightarrow> string \<Rightarrow> observation" where
  "observation_args jid ty summary =
     \<lparr>obs_id = [], obs_job_id = jid, obs_timestamp = 0, obs_severity = Sev_INFO, obs_type = ty,
      obs_summary = summary, obs_phase_id = None, obs_step_id = None, obs_command_id = None,
      obs_correlation_id = None, obs_trace_id = None, obs_mcp_server = None, obs_mcp_tool = None,
      obs_resource_refs = [], obs_stdout_redacted = None, obs_stderr_redacted = None,
      obs_result = JObj [], obs_redaction_applied = True, obs_policy_blocks = [],
      obs_next_required_decision = None\<rparr>"

definition build_observation :: "env \<Rightarrow> observation \<Rightarrow> ('a ctx_scheme, py_error, observation) prog" where
  "build_observation e args =
     bind (new_id e ''obs'') (\<lambda>oid.
     bind (utc_now e) (\<lambda>now.
     ret (args\<lparr>obs_id := oid, obs_timestamp := now,
       obs_result := redact_value (obs_result args),
       obs_next_required_decision := (case obs_next_required_decision args of
          None \<Rightarrow> None
        | Some c \<Rightarrow> if truthy c then Some (redact_value c) else None)\<rparr>)))"

text \<open>\<open>ObservationBuilder.error\<close>.\<close>

definition error_observation ::
    "env \<Rightarrow> string \<Rightarrow> string \<Rightarrow> string \<Rightarrow> string option \<Rightarrow> string option \<Rightarrow> json dict \<Rightarrow>
     ('a ctx_scheme, py_error, observation) prog" where
  "error_observation e jid summary code phase step details =
     build_observation e ((observation_args jid Obs_ERROR summary)
       \<lparr>obs_severity := Sev_ERROR, obs_phase_id := phase, obs_step_id := step,
        obs_result := JObj (dict_update [(''code'', JStr code)] details)\<rparr>)"

definition default_next_actions :: "string list" where
  "default_next_actions = [''continue'', ''retry'', ''wait'', ''skip'', ''abort'']"

definition decision_context ::
    "env \<Rightarrow> exec_job \<Rightarrow> string \<Rightarrow> string \<Rightarrow> exec_step option \<Rightarrow> observation list \<Rightarrow> string list \<Rightarrow> json" where
  "decision_context e job code summary step obs actions = JObj
     [(''job_id'', JStr (job_id job)),
      (''target_namespace'', JStr (job_target_namespace job)),
      (''authority'', JStr ''context_only_not_decision_authority''),
      (''reason_code'', JStr code),
      (''summary'', JStr summary),
      (''phase_id'', case step of None \<Rightarrow> jopt (job_current_phase_id job) | Some st \<Rightarrow> JStr (stp_phase_id st)),
      (''step_id'', case step of None \<Rightarrow> jopt (job_current_step_id job) | Some st \<Rightarrow> JStr (stp_id st)),
      (''required_from'', JStr ''external_llm''),
      (''allowed_next_action_types'',
        jstrs (if actions = [] then default_next_actions else actions)),
      (''observations'', JArr (map (observation_json (env_dt_json e)) obs)),
      (''memory'', JObj
        [(''authority'', JStr ''context_only_not_decision_authority''), (''records'', JArr [])])]"

text \<open>
  An observation never shows a value under a sensitive key, neither in its result nor in the
  context of a requested decision.
\<close>

lemma built_observation_redacted:
  assumes "build_observation e args s = (Inr ob, t)"
  shows "''sensitive_key'' \<notin> set (map sf_kind (find_sensitive_content (obs_result ob) p))"
    and "obs_next_required_decision ob = Some c \<Longrightarrow>
      ''sensitive_key'' \<notin> set (map sf_kind (find_sensitive_content c p))"
  using assms
  by (auto simp: build_observation_def bind_def new_id_def utc_now_def ret_def
      dest!: redacted_finding_kind split: option.splits if_splits)

end
