(* ===== verification/Mcp.thy ===== *)
theory Mcp
  imports Agent
begin

text \<open>
  Calls to the MCP companions, as the executors see them: the results of
  \<open>mcp_clients/models.py\<close>, the calls that the Kubernetes and Helm clients offer, and the
  record of the calls made so far. The clients themselves talk to services; they are a
  parameter that answers a call, or raises, knowing everything that was called before.
  Also here: \<open>shlex.split\<close> and what the executors read from a step's metadata and
  commands.
\<close>

section \<open>Results\<close>

record mcp_error =
  me_code :: error_code
  me_message :: string
  me_retryable :: bool
  me_raw_type :: "string option"

record mcp_result =
  mr_server :: string
  mr_tool :: string
  mr_success :: bool
  mr_data :: "json dict option"
  mr_error :: "mcp_error option"
  mr_correlation_id :: "string option"
  mr_trace_id :: "string option"
  mr_observation :: observation
  mr_audit_event :: "audit_event option"
  mr_attempts :: nat

definition mcp_error_json :: "mcp_error \<Rightarrow> json" where
  "mcp_error_json er = JObj
     [(''error_code'', JStr (error_code_value (me_code er))),
      (''message'', JStr (me_message er)),
      (''retryable'', JBool (me_retryable er)),
      (''raw_type'', jopt (me_raw_type er))]"

text \<open>\<open>result.data or {}\<close>.\<close>

definition data_or_empty :: "mcp_result \<Rightarrow> json dict" where
  "data_or_empty r = (case mr_data r of None \<Rightarrow> [] | Some d \<Rightarrow> d)"

definition error_message :: "mcp_result \<Rightarrow> string \<Rightarrow> string" where
  "error_message r fallback = (case mr_error r of None \<Rightarrow> fallback | Some er \<Rightarrow> me_message er)"

definition result_error_code :: "mcp_result \<Rightarrow> error_code \<Rightarrow> error_code" where
  "result_error_code r fallback = (case mr_error r of None \<Rightarrow> fallback | Some er \<Rightarrow> me_code er)"

definition error_field :: "mcp_result \<Rightarrow> json dict" where
  "error_field r =
     (case mr_error r of None \<Rightarrow> [] | Some er \<Rightarrow> [(''error'', mcp_error_json er)])"

section \<open>Calls\<close>

record helm_request =
  hr_release :: string
  hr_chart :: string
  hr_namespace :: string
  hr_values :: "json dict"
  hr_version :: "string option"
  hr_repo_name :: "string option"
  hr_repo_url :: "string option"
  hr_timeout :: "string option"

datatype ext_call =
    K8sDryRunApply "json dict" string
  | K8sApply "json dict" string
  | K8sNamespaceSummary string
  | K8sList string string
  | K8sDeleteCollection string string bool "string option" "string option"
  | HelmTemplate helm_request
  | HelmDryRun helm_request
  | HelmInstallUpgrade helm_request
  | HelmStatus string string
  | HelmListReleases string bool
  | HelmRollback string string int bool
  | HelmUninstall string string bool bool bool

text \<open>The calls that change the cluster, and the namespace a call is for.\<close>

fun mutating_call :: "ext_call \<Rightarrow> bool" where
  "mutating_call (K8sApply m ns) = True"
| "mutating_call (K8sDeleteCollection res ns dry l f) = (\<not> dry)"
| "mutating_call (HelmInstallUpgrade r) = True"
| "mutating_call (HelmRollback rel ns rvn dry) = (\<not> dry)"
| "mutating_call (HelmUninstall rel ns dry keep force) = (\<not> dry)"
| "mutating_call _ = False"

fun call_namespace :: "ext_call \<Rightarrow> string" where
  "call_namespace (K8sDryRunApply m ns) = ns"
| "call_namespace (K8sApply m ns) = ns"
| "call_namespace (K8sNamespaceSummary ns) = ns"
| "call_namespace (K8sList kind ns) = ns"
| "call_namespace (K8sDeleteCollection res ns dry l f) = ns"
| "call_namespace (HelmTemplate r) = hr_namespace r"
| "call_namespace (HelmDryRun r) = hr_namespace r"
| "call_namespace (HelmInstallUpgrade r) = hr_namespace r"
| "call_namespace (HelmStatus rel ns) = ns"
| "call_namespace (HelmListReleases ns al) = ns"
| "call_namespace (HelmRollback rel ns rvn dry) = ns"
| "call_namespace (HelmUninstall rel ns dry keep force) = ns"

type_synonym clients = "ext_call list \<Rightarrow> ext_call \<Rightarrow> string + mcp_result"

record runtime = agent +
  rt_calls :: "ext_call list"

definition mcp_call :: "clients \<Rightarrow> ext_call \<Rightarrow> ('a runtime_scheme, py_error, mcp_result) prog" where
  "mcp_call cl c = (\<lambda>s.
     (case cl (rt_calls s) c of Inl name \<Rightarrow> Inl (ClientError name) | Inr r \<Rightarrow> Inr r,
      s\<lparr>rt_calls := rt_calls s @ [c]\<rparr>))"

text \<open>\<open>try: m except Exception\<close>: the outcome of \<open>m\<close> as a value.\<close>

definition attempt :: "('s, 'e, 'a) prog \<Rightarrow> ('s, 'e, 'e + 'a) prog" where
  "attempt m = (\<lambda>s. case m s of (res, t) \<Rightarrow> (Inr res, t))"

definition exception_name :: "py_error \<Rightarrow> string" where
  "exception_name err = (case err of
      InvalidTransition a b \<Rightarrow> ''InvalidTransitionError''
    | KeyError k \<Rightarrow> ''KeyError''
    | ValueError m \<Rightarrow> ''ValueError''
    | TypeError m \<Rightarrow> ''TypeError''
    | AttributeError m \<Rightarrow> ''AttributeError''
    | LockUnavailable m \<Rightarrow> ''NamespaceLockUnavailable''
    | IdempotencyConflict \<Rightarrow> ''IdempotencyConflictError''
    | ClientError name \<Rightarrow> name
    | GuardRejected m \<Rightarrow> ''ValueError'')"

section \<open>What a program calls\<close>

text \<open>\<open>calls_only P\<close>: every call that is added satisfies \<open>P\<close>.\<close>

definition calls_only :: "(ext_call \<Rightarrow> bool) \<Rightarrow> 'a runtime_scheme \<Rightarrow> 'a runtime_scheme \<Rightarrow> bool" where
  "calls_only P s t \<longleftrightarrow> (\<exists>new. rt_calls t = rt_calls s @ new \<and> list_all P new)"

interpretation calls: step_relation "calls_only P" for P
proof
  fix s t u :: "'a runtime_scheme"
  show "calls_only P s s" by (auto simp: calls_only_def)
  assume "calls_only P s t" "calls_only P t u"
  then show "calls_only P s u" unfolding calls_only_def by fastforce
qed

lemma calls_only_same: "rt_calls t = rt_calls s \<Longrightarrow> calls_only P s t"
  by (simp add: calls_only_def)

lemma calls_only_call: "P c \<Longrightarrow> moves (calls_only P) (mcp_call cl c)"
  by (auto simp: moves_def mcp_call_def calls_only_def)

lemma calls_only_frame [step_intros]:
  "moves (calls_only P) (utc_now e)" "moves (calls_only P) (new_id e pre)"
  "moves (calls_only P) (write_event ev)" "moves (calls_only P) (repo_do f)"
  "moves (calls_only P) (repo_get g)"
  by (auto simp: moves_def utc_now_def new_id_def write_event_def repo_do_def repo_get_def
      modify_def gets_def intro!: calls_only_same split: prod.splits)

lemma moves_attempt [step_intros]: "moves R m \<Longrightarrow> moves R (attempt m)"
  by (auto simp: moves_def attempt_def split: prod.splits) (metis snd_conv)

lemma audit_grows_call [step_intros]: "moves audit_grows (mcp_call cl c)"
  by (simp add: moves_def mcp_call_def audit_grows_def audit_log_def)

lemma job_moves_call [step_intros]: "moves (job_moves P) (mcp_call cl c)"
  by (rule job_moves_frame) (simp add: mcp_call_def)

lemma same_but_audit_call [step_intros]: "moves same_but_audit (mcp_call cl c)"
  by (simp add: moves_def mcp_call_def same_repo)

section \<open>shlex.split\<close>

datatype shlex_state = Sh_start | Sh_word | Sh_quote char | Sh_escape | Sh_escape_quoted

definition backslash :: char where
  "backslash = char_of (92 :: int)"

definition sh_white :: "char \<Rightarrow> bool" where
  "sh_white c \<longleftrightarrow> char_code c \<in> {9, 10, 13, 32}"

definition sh_quote :: "char \<Rightarrow> bool" where
  "sh_quote c \<longleftrightarrow> c = quote_single \<or> c = quote_double"

text \<open>The words of a POSIX command line; \<open>None\<close> where \<open>shlex\<close> raises.\<close>

fun shlex_go :: "shlex_state \<Rightarrow> string \<Rightarrow> bool \<Rightarrow> string \<Rightarrow> string list option" where
  "shlex_go Sh_start tok quoted [] = Some []"
| "shlex_go Sh_start tok quoted (c # s) =
     (if sh_white c then shlex_go Sh_start [] False s
      else if c = backslash then shlex_go Sh_escape [] False s
      else if sh_quote c then shlex_go (Sh_quote c) [] True s
      else shlex_go Sh_word [c] False s)"
| "shlex_go Sh_word tok quoted [] = Some (if tok \<noteq> [] \<or> quoted then [rev tok] else [])"
| "shlex_go Sh_word tok quoted (c # s) =
     (if sh_white c then
        (if tok \<noteq> [] \<or> quoted
         then map_option ((#) (rev tok)) (shlex_go Sh_start [] False s)
         else shlex_go Sh_start [] False s)
      else if sh_quote c then shlex_go (Sh_quote c) tok True s
      else if c = backslash then shlex_go Sh_escape tok quoted s
      else shlex_go Sh_word (c # tok) quoted s)"
| "shlex_go (Sh_quote q) tok quoted [] = None"
| "shlex_go (Sh_quote q) tok quoted (c # s) =
     (if c = q then shlex_go Sh_word tok True s
      else if c = backslash \<and> q = quote_double then shlex_go Sh_escape_quoted tok True s
      else shlex_go (Sh_quote q) (c # tok) True s)"
| "shlex_go Sh_escape tok quoted [] = None"
| "shlex_go Sh_escape tok quoted (c # s) = shlex_go Sh_word (c # tok) quoted s"
| "shlex_go Sh_escape_quoted tok quoted [] = None"
| "shlex_go Sh_escape_quoted tok quoted (c # s) =
     shlex_go (Sh_quote quote_double)
       (if c = backslash \<or> c = quote_double then c # tok else c # backslash # tok) True s"

definition shlex_split :: "string \<Rightarrow> string list option" where
  "shlex_split s = shlex_go Sh_start [] False s"

section \<open>Reading steps and manifests\<close>

definition after_word :: "string \<Rightarrow> string list \<Rightarrow> string list" where
  "after_word w parts = drop 1 (dropWhile (\<lambda>p. p \<noteq> w) parts)"

definition two_positional :: "string list \<Rightarrow> string option \<times> string option" where
  "two_positional parts =
     (let positional = filter (\<lambda>p. \<not> starts_with p ''-'' \<and> p \<notin> {''true'', ''false''}) parts in
      if length positional < 2 then (None, None)
      else (Some (positional ! 0), Some (positional ! 1)))"

definition metadata_str :: "exec_step \<Rightarrow> string \<Rightarrow> string option" where
  "metadata_str st key =
     (case get_or_null (stp_metadata st) key of
        JStr v \<Rightarrow> if v = [] then None else Some v
      | _ \<Rightarrow> None)"

definition manifest_kind :: "json dict \<Rightarrow> string" where
  "manifest_kind m = str_lower (str_strip (py_str (json_or (get_or_null m ''kind'') (JStr []))))"

definition manifest_metadata :: "json dict \<Rightarrow> json dict" where
  "manifest_metadata m = obj_items (get_or_null m ''metadata'')"

text \<open>The configured exclusions: kinds, names and name prefixes.\<close>

record exclusions =
  xc_kinds :: "string list"
  xc_names :: "string list"
  xc_prefixes :: "string list"

definition normal_names :: "string list \<Rightarrow> string list" where
  "normal_names xs = map (\<lambda>x. str_lower (str_strip x)) (filter (\<lambda>x. str_strip x \<noteq> []) xs)"

definition new_exclusions :: "string list \<Rightarrow> string list \<Rightarrow> string list \<Rightarrow> exclusions" where
  "new_exclusions kinds names pres =
     \<lparr>xc_kinds = normal_names kinds, xc_names = normal_names names,
      xc_prefixes = normal_names pres\<rparr>"

text \<open>A metadata that is neither a mapping nor false has no \<open>get\<close>.\<close>

definition manifest_excluded :: "exclusions \<Rightarrow> json dict \<Rightarrow> py_error + bool" where
  "manifest_excluded x m =
     (if manifest_kind m \<in> set (xc_kinds x) then Inr True
      else
        let metadata = json_or (get_or_null m ''metadata'') (JObj []) in
        if \<not> is_obj metadata then Inl (AttributeError ''get'')
        else
          let name = str_lower (py_str (json_or (get_or_null (obj_items metadata) ''name'') (JStr [])))
          in Inr (name \<in> set (xc_names x) \<or> list_ex (starts_with name) (xc_prefixes x)))"

text \<open>A file of the bundle: missing, not YAML (with the exception's class), or its documents.\<close>

datatype bundle_file = Missing_file | Bad_yaml string | Documents "json list"

definition mapping_documents :: "json list \<Rightarrow> json dict list" where
  "mapping_documents docs = map obj_items (filter is_obj docs)"

definition bundle_documents :: "(string \<Rightarrow> bundle_file) \<Rightarrow> string list \<Rightarrow> json dict list" where
  "bundle_documents load refs = concat (map
     (\<lambda>ref. case load ref of Documents docs \<Rightarrow> mapping_documents docs | _ \<Rightarrow> []) refs)"

definition all_readable :: "(string \<Rightarrow> bundle_file) \<Rightarrow> string list \<Rightarrow> bool" where
  "all_readable load refs \<longleftrightarrow>
     list_all (\<lambda>ref. case load ref of Documents docs \<Rightarrow> True | _ \<Rightarrow> False) refs"

definition kept_manifests :: "exclusions \<Rightarrow> json dict list \<Rightarrow> json dict list" where
  "kept_manifests x ms = filter (\<lambda>m. manifest_excluded x m = Inr False) ms"

text \<open>The clients answer a sequence of calls, made after the calls \<open>h\<close>, with success only.\<close>

primrec all_succeed :: "clients \<Rightarrow> ext_call list \<Rightarrow> ext_call list \<Rightarrow> bool" where
  "all_succeed cl h [] = True"
| "all_succeed cl h (c # cs) =
     (case cl h c of Inl name \<Rightarrow> False | Inr r \<Rightarrow> mr_success r \<and> all_succeed cl (h @ [c]) cs)"

lemma all_succeed_append:
  "all_succeed cl h (xs @ ys) \<longleftrightarrow> all_succeed cl h xs \<and> all_succeed cl (h @ xs) ys"
  by (induction xs arbitrary: h) (auto split: sum.splits)

end
