(* ===== verification/DryRun.thy ===== *)
theory DryRun
  imports Mcp
begin

text \<open>
  The dry-run executor (\<open>runtime/dry_run.py\<close>): a step is mapped to server-side dry runs of
  its manifests, or to the rendering and the dry run of its Helm release.
\<close>

section \<open>Model\<close>

record action_result =
  ar_success :: bool
  ar_action :: string
  ar_outputs :: "json dict list"
  ar_error_code :: "error_code option"
  ar_message :: "string option"

record dry_run_executor =
  dx_load :: "string \<Rightarrow> bundle_file"
  dx_k8s :: bool
  dx_helm :: bool
  dx_excluded :: exclusions

definition dry_failed ::
    "string \<Rightarrow> json dict list \<Rightarrow> error_code \<Rightarrow> string \<Rightarrow> action_result" where
  "dry_failed action outputs code message =
     \<lparr>ar_success = False, ar_action = action, ar_outputs = outputs,
      ar_error_code = Some code, ar_message = Some message\<rparr>"

definition dry_succeeded :: "string \<Rightarrow> json dict list \<Rightarrow> action_result" where
  "dry_succeeded action outputs =
     \<lparr>ar_success = True, ar_action = action, ar_outputs = outputs,
      ar_error_code = None, ar_message = None\<rparr>"

definition dry_mcp_output :: "mcp_result \<Rightarrow> string \<Rightarrow> json dict" where
  "dry_mcp_output r artifact_ref =
     [(''server'', JStr (mr_server r)), (''tool'', JStr (mr_tool r)),
      (''success'', JBool (mr_success r)), (''artifact_ref'', JStr artifact_ref),
      (''correlation_id'', jopt (mr_correlation_id r)), (''trace_id'', jopt (mr_trace_id r)),
      (''data'', JObj (data_or_empty r))] @ error_field r"

definition dry_excluded_output :: "json dict \<Rightarrow> string \<Rightarrow> json dict" where
  "dry_excluded_output m artifact_ref =
     [(''server'', JStr ''execution-agent''), (''tool'', JStr ''manifest.skip_excluded_kind''),
      (''success'', JBool True), (''artifact_ref'', JStr artifact_ref),
      (''data'', JObj
        [(''kind'', get_or_null m ''kind''),
         (''name'', get_or_null (manifest_metadata m) ''name''),
         (''reason'', JStr ''excluded_by_configuration'')])]"

abbreviation K8S_DRY :: string where
  "K8S_DRY \<equiv> ''k8s.server_side_dry_run_apply''"

text \<open>The manifests of one file: a failed result to return, or the outputs so far.\<close>

primrec dry_manifests ::
    "clients \<Rightarrow> dry_run_executor \<Rightarrow> string \<Rightarrow> string \<Rightarrow> json dict list \<Rightarrow> json dict list \<Rightarrow>
     ('a runtime_scheme, py_error, action_result + json dict list) prog" where
  "dry_manifests cl x ns ref [] outputs = ret (Inr outputs)"
| "dry_manifests cl x ns ref (m # ms) outputs =
     bind (lift_result (manifest_excluded (dx_excluded x) m)) (\<lambda>excluded.
     if excluded then dry_manifests cl x ns ref ms (outputs @ [dry_excluded_output m ref])
     else if \<not> dx_k8s x
     then ret (Inl (dry_failed K8S_DRY outputs E_MCP_UNAVAILABLE ''kubernetes_dry_run_client_missing''))
     else
       bind (mcp_call cl (K8sDryRunApply m ns)) (\<lambda>r.
       let outputs' = outputs @ [dry_mcp_output r ref] in
       if \<not> mr_success r
       then ret (Inl (dry_failed K8S_DRY outputs' (result_error_code r E_DRY_RUN_FAILED)
              (error_message r ''k8s_dry_run_failed'')))
       else dry_manifests cl x ns ref ms outputs'))"

primrec dry_refs ::
    "clients \<Rightarrow> dry_run_executor \<Rightarrow> string \<Rightarrow> string list \<Rightarrow> json dict list \<Rightarrow>
     ('a runtime_scheme, py_error, action_result) prog" where
  "dry_refs cl x ns [] outputs = ret (dry_succeeded K8S_DRY outputs)"
| "dry_refs cl x ns (ref # refs) outputs =
     (case dx_load x ref of
        Missing_file \<Rightarrow> ret (dry_failed K8S_DRY [] E_BUNDLE_MISSING_REQUIRED_FILE
                               (''manifest_not_found:'' @ ref))
      | Bad_yaml cls \<Rightarrow> ret (dry_failed K8S_DRY [] E_PLAN_SCHEMA_INVALID
                               (''invalid_yaml:'' @ ref @ '':'' @ cls))
      | Documents docs \<Rightarrow>
          bind (dry_manifests cl x ns ref (mapping_documents docs) outputs) (\<lambda>res.
          case res of Inl failed \<Rightarrow> ret failed | Inr outputs' \<Rightarrow> dry_refs cl x ns refs outputs'))"

definition dry_k8s_apply ::
    "clients \<Rightarrow> dry_run_executor \<Rightarrow> exec_job \<Rightarrow> exec_step \<Rightarrow>
     ('a runtime_scheme, py_error, action_result) prog" where
  "dry_k8s_apply cl x job st =
     (if stp_manifest_refs st = []
      then ret (dry_failed K8S_DRY [] E_BUNDLE_MISSING_REQUIRED_FILE
                  ''k8s_apply_step_missing_manifest_refs'')
      else dry_refs cl x (job_target_namespace job) (stp_manifest_refs st) [])"

primrec dry_values ::
    "dry_run_executor \<Rightarrow> string list \<Rightarrow> json dict \<Rightarrow> action_result + json dict" where
  "dry_values x [] merged = Inr merged"
| "dry_values x (ref # refs) merged =
     (case dx_load x ref of
        Missing_file \<Rightarrow> Inl (dry_failed ''helm.load_values'' [] E_BUNDLE_MISSING_REQUIRED_FILE
                               (''values_not_found:'' @ ref))
      | Bad_yaml cls \<Rightarrow> Inl (dry_failed ''helm.load_values'' [] E_PLAN_SCHEMA_INVALID
                               (''invalid_yaml:'' @ ref @ '':'' @ cls))
      | Documents docs \<Rightarrow> dry_values x refs (foldl dict_update merged (mapping_documents docs)))"

text \<open>The release and chart of a Helm command line; here \<open>helm template\<close> counts too.\<close>

definition dry_parse_helm_command :: "string \<Rightarrow> string option \<times> string option" where
  "dry_parse_helm_command command =
     (case shlex_split command of
        None \<Rightarrow> (None, None)
      | Some parts \<Rightarrow>
          if parts = [] \<or> hd parts \<noteq> ''helm'' then (None, None)
          else if ''upgrade'' \<in> set parts \<and> ''--install'' \<in> set parts
          then two_positional (after_word ''upgrade'' parts)
          else if ''install'' \<in> set parts then two_positional (after_word ''install'' parts)
          else if ''template'' \<in> set parts then two_positional (after_word ''template'' parts)
          else (None, None))"

fun both_truthy :: "string option \<times> string option \<Rightarrow> bool" where
  "both_truthy (a, b) = (opt_truthy a \<and> opt_truthy b)"

primrec dry_from_commands :: "json dict list \<Rightarrow> string option \<times> string option" where
  "dry_from_commands [] = (None, None)"
| "dry_from_commands (c # cs) =
     (let found = dry_parse_helm_command (py_str (get_or c ''command'' (JStr []))) in
      if both_truthy found then found else dry_from_commands cs)"

definition dry_release_and_chart :: "exec_step \<Rightarrow> string option \<times> string option" where
  "dry_release_and_chart st =
     (let found = (metadata_str st ''release_name'', metadata_str st ''chart_ref'') in
      if both_truthy found then found else dry_from_commands (stp_commands st))"

definition helm_request_of ::
    "exec_job \<Rightarrow> exec_step \<Rightarrow> string \<Rightarrow> string \<Rightarrow> json dict \<Rightarrow> string option \<Rightarrow> helm_request" where
  "helm_request_of job st release_name chart vals timeout =
     \<lparr>hr_release = release_name, hr_chart = chart, hr_namespace = job_target_namespace job,
      hr_values = vals, hr_version = metadata_str st ''chart_version'',
      hr_repo_name = metadata_str st ''repo_name'', hr_repo_url = metadata_str st ''repo_url'',
      hr_timeout = timeout\<rparr>"

definition dry_helm ::
    "clients \<Rightarrow> dry_run_executor \<Rightarrow> exec_job \<Rightarrow> exec_step \<Rightarrow>
     ('a runtime_scheme, py_error, action_result) prog" where
  "dry_helm cl x job st =
     (if \<not> dx_helm x
      then ret (dry_failed ''helm.dry_run'' [] E_MCP_UNAVAILABLE ''helm_dry_run_client_missing'')
      else
        let found = dry_release_and_chart st in
        if \<not> both_truthy found
        then ret (dry_failed ''helm.dry_run'' [] E_DRY_RUN_FAILED ''helm_step_missing_release_or_chart'')
        else case dry_values x (stp_values_refs st) [] of
          Inl failed \<Rightarrow> ret failed
        | Inr vals \<Rightarrow>
            let req = helm_request_of job st (opt_or (fst found) []) (opt_or (snd found) []) vals None;
                ref = str_join '','' (stp_values_refs st) in
            bind (mcp_call cl (HelmTemplate req)) (\<lambda>r.
            let outputs = [dry_mcp_output r ref] in
            if \<not> mr_success r
            then ret (dry_failed ''helm.template'' outputs E_HELM_RENDER_FAILED
                        (error_message r ''helm_template_failed''))
            else if stp_type st = T_HELM_VALIDATE then ret (dry_succeeded ''helm.template'' outputs)
            else
              bind (mcp_call cl (HelmDryRun req)) (\<lambda>r'.
              let outputs' = outputs @ [dry_mcp_output r' ref] in
              if \<not> mr_success r'
              then ret (dry_failed ''helm.dry_run_install_upgrade'' outputs'
                     (result_error_code r' E_DRY_RUN_FAILED) (error_message r' ''helm_dry_run_failed''))
              else ret (dry_succeeded ''helm.dry_run_install_upgrade'' outputs'))))"

definition dry_execute ::
    "clients \<Rightarrow> dry_run_executor \<Rightarrow> exec_job \<Rightarrow> exec_step \<Rightarrow>
     ('a runtime_scheme, py_error, action_result) prog" where
  "dry_execute cl x job st =
     (if stp_type st = T_K8S_APPLY then dry_k8s_apply cl x job st
      else if stp_type st \<in> {T_HELM_INSTALL, T_HELM_UPGRADE, T_HELM_VALIDATE}
      then dry_helm cl x job st
      else ret (dry_failed ''unsupported'' [] E_DRY_RUN_FAILED
             (''unsupported_dry_run_step_type:'' @ step_type_value (stp_type st))))"

section \<open>What a dry run calls\<close>

text \<open>The calls of a dry run change nothing and stay in the job's namespace.\<close>

definition harmless :: "string \<Rightarrow> ext_call \<Rightarrow> bool" where
  "harmless ns c \<longleftrightarrow> \<not> mutating_call c \<and> call_namespace c = ns"

lemma dry_manifests_harmless [step_intros]:
  "moves (calls_only (harmless ns)) (dry_manifests cl x ns ref ms outputs)"
  by (induction ms arbitrary: outputs)
     (auto simp: Let_def harmless_def intro!: step_intros calls_only_call)

lemma dry_refs_harmless [step_intros]:
  "moves (calls_only (harmless ns)) (dry_refs cl x ns refs outputs)"
proof (induction refs arbitrary: outputs)
  case (Cons ref refs)
  then show ?case by (cases "dx_load x ref") (auto intro!: step_intros split: sum.splits)
qed (auto intro!: step_intros)

lemma dry_helm_harmless:
  "moves (calls_only (harmless (job_target_namespace job))) (dry_helm cl x job st)"
  unfolding dry_helm_def Let_def
  by (auto simp: harmless_def helm_request_of_def intro!: step_intros calls_only_call split: sum.splits)

lemma dry_execute_harmless [step_intros]:
  "moves (calls_only (harmless (job_target_namespace job))) (dry_execute cl x job st)"
  unfolding dry_execute_def dry_k8s_apply_def
  by (auto intro!: step_intros dry_helm_harmless)

lemma dry_manifests_logs [step_intros]: "moves same_but_audit (dry_manifests cl x ns ref ms outputs)"
  by (induction ms arbitrary: outputs) (auto simp: Let_def intro!: step_intros)

lemma dry_refs_logs [step_intros]: "moves same_but_audit (dry_refs cl x ns refs outputs)"
proof (induction refs arbitrary: outputs)
  case (Cons ref refs)
  then show ?case by (cases "dx_load x ref") (auto intro!: step_intros split: sum.splits)
qed (auto intro!: step_intros)

lemma dry_execute_logs [step_intros]: "moves same_but_audit (dry_execute cl x job st)"
  unfolding dry_execute_def dry_k8s_apply_def dry_helm_def Let_def
  by (auto intro!: step_intros split: sum.splits)

text \<open>
  C30. A dry run never changes the cluster nor the stored jobs: all it does is to make calls
  that do not mutate, in the job's target namespace.
\<close>

theorem dry_run_never_mutates:
  "let t = snd (dry_execute cl x job st s) in
   (\<exists>new. rt_calls t = rt_calls s @ new \<and>
      list_all (\<lambda>c. \<not> mutating_call c \<and> call_namespace c = job_target_namespace job) new) \<and>
   get_job (ag_repo t) = get_job (ag_repo s) \<and> get_steps (ag_repo t) = get_steps (ag_repo s)"
  using movesD [OF dry_execute_harmless [of job cl x st], of s]
    movesD [OF dry_execute_logs [of cl x job st], of s]
  by (simp add: Let_def calls_only_def harmless_def [abs_def] same_but_audit_facts)

section \<open>What a successful dry run of manifests has checked\<close>

definition dry_calls :: "string \<Rightarrow> json dict list \<Rightarrow> ext_call list" where
  "dry_calls ns ms = map (\<lambda>m. K8sDryRunApply m ns) ms"

text \<open>The dry run of all kept manifests goes through.\<close>

definition dry_clean :: "clients \<Rightarrow> dry_run_executor \<Rightarrow> string \<Rightarrow> ext_call list \<Rightarrow> json dict list \<Rightarrow> bool" where
  "dry_clean cl x ns h ms \<longleftrightarrow>
     (kept_manifests (dx_excluded x) ms = [] \<or> dx_k8s x) \<and>
     all_succeed cl h (dry_calls ns (kept_manifests (dx_excluded x) ms))"

lemma kept_simps:
  "kept_manifests x [] = []"
  "manifest_excluded x m = Inr True \<Longrightarrow> kept_manifests x (m # ms) = kept_manifests x ms"
  "manifest_excluded x m = Inr False \<Longrightarrow> kept_manifests x (m # ms) = m # kept_manifests x ms"
  "kept_manifests x (ms @ ms') = kept_manifests x ms @ kept_manifests x ms'"
  by (simp_all add: kept_manifests_def)

lemma dry_manifests_outcome:
  "dry_manifests cl x ns ref ms outputs s = (Inr res, t) \<Longrightarrow>
    (case res of
       Inl failed \<Rightarrow> \<not> ar_success failed \<and> \<not> dry_clean cl x ns (rt_calls s) ms
     | Inr outs \<Rightarrow> dry_clean cl x ns (rt_calls s) ms \<and>
         rt_calls t = rt_calls s @ dry_calls ns (kept_manifests (dx_excluded x) ms))"
proof (induction ms arbitrary: outputs s)
  case Nil
  then show ?case by (auto simp: ret_def dry_clean_def kept_simps dry_calls_def)
next
  case (Cons m ms)
  show ?case
  proof (cases "manifest_excluded (dx_excluded x) m")
    case (Inl err)
    with Cons.prems show ?thesis by (simp add: bind_def lift_result_def)
  next
    case (Inr excluded)
    show ?thesis
    proof (cases excluded)
      case True
      with Inr Cons.prems have
        "dry_manifests cl x ns ref ms (outputs @ [dry_excluded_output m ref]) s = (Inr res, t)"
        by (simp add: bind_def lift_result_def)
      from Cons.IH [OF this] Inr True show ?thesis
        by (auto simp: dry_clean_def kept_simps(2) split: sum.splits)
    next
      case False
      have m: "manifest_excluded (dx_excluded x) m = Inr False" using Inr False by simp
      show ?thesis
      proof (cases "dx_k8s x")
        case no: False
        with m Cons.prems show ?thesis
          by (auto simp: bind_def lift_result_def ret_def dry_failed_def dry_clean_def kept_simps(3))
      next
        case yes: True
        show ?thesis
        proof (cases "cl (rt_calls s) (K8sDryRunApply m ns)")
          case (Inl name)
          with yes m Cons.prems show ?thesis by (simp add: bind_def lift_result_def mcp_call_def)
        next
          case (Inr r)
          show ?thesis
          proof (cases "mr_success r")
            case False
            with yes m Inr Cons.prems show ?thesis
              by (auto simp: bind_def lift_result_def mcp_call_def Let_def ret_def dry_failed_def
                  dry_clean_def kept_simps(3) dry_calls_def)
          next
            case True
            with yes m Inr Cons.prems have
              "dry_manifests cl x ns ref ms (outputs @ [dry_mcp_output r ref])
                 (s\<lparr>rt_calls := rt_calls s @ [K8sDryRunApply m ns]\<rparr>) = (Inr res, t)"
              by (simp add: bind_def lift_result_def mcp_call_def Let_def)
            from Cons.IH [OF this] yes m Inr True show ?thesis
              by (auto simp: dry_clean_def kept_simps(3) dry_calls_def split: sum.splits)
          qed
        qed
      qed
    qed
  qed
qed

lemma dry_clean_append:
  "dry_clean cl x ns h (ms @ ms') \<longleftrightarrow> dry_clean cl x ns h ms \<and>
     dry_clean cl x ns (h @ dry_calls ns (kept_manifests (dx_excluded x) ms)) ms'"
  by (auto simp: dry_clean_def kept_simps(4) dry_calls_def all_succeed_append)

lemma dry_refs_outcome:
  "dry_refs cl x ns refs outputs s = (Inr res, t) \<Longrightarrow>
    (ar_success res \<longleftrightarrow> all_readable (dx_load x) refs \<and>
       dry_clean cl x ns (rt_calls s) (bundle_documents (dx_load x) refs)) \<and>
    (ar_success res \<longrightarrow> rt_calls t = rt_calls s @
       dry_calls ns (kept_manifests (dx_excluded x) (bundle_documents (dx_load x) refs)))"
proof (induction refs arbitrary: outputs s)
  case Nil
  then show ?case
    by (auto simp: ret_def dry_succeeded_def all_readable_def dry_clean_def bundle_documents_def
        kept_simps dry_calls_def)
next
  case (Cons ref refs)
  show ?case
  proof (cases "dx_load x ref")
    case (Documents docs)
    have docs: "bundle_documents (dx_load x) (ref # refs) =
        mapping_documents docs @ bundle_documents (dx_load x) refs"
      "all_readable (dx_load x) (ref # refs) = all_readable (dx_load x) refs"
      using Documents by (simp_all add: bundle_documents_def all_readable_def)
    obtain r1 s1 where first: "dry_manifests cl x ns ref (mapping_documents docs) outputs s = (Inr r1, s1)"
      using Cons.prems Documents by (auto simp: bind_Inr)
    note out = dry_manifests_outcome [OF first]
    show ?thesis
    proof (cases r1)
      case (Inl failed)
      with Cons.prems Documents first have "res = failed" by (simp add: bind_def ret_def)
      with out Inl show ?thesis unfolding docs dry_clean_append by auto
    next
      case (Inr outs)
      with Cons.prems Documents first have "dry_refs cl x ns refs outs s1 = (Inr res, t)"
        by (simp add: bind_def)
      from Cons.IH [OF this] out Inr show ?thesis
        unfolding docs dry_clean_append by (auto simp: kept_simps(4) dry_calls_def)
    qed
  qed (use Cons.prems in \<open>auto simp: ret_def dry_failed_def all_readable_def\<close>)
qed

text \<open>
  The dry run of a manifest step succeeds exactly when the step names manifests, every
  file can be read, and the server accepts the dry run of each manifest that is not
  excluded; and then exactly these manifests have been submitted, in their order.
\<close>

theorem manifest_dry_run_is_complete:
  assumes "dry_execute cl x job st s = (Inr res, t)" and "stp_type st = T_K8S_APPLY"
  shows "(ar_success res \<longleftrightarrow>
      stp_manifest_refs st \<noteq> [] \<and> all_readable (dx_load x) (stp_manifest_refs st) \<and>
      dry_clean cl x (job_target_namespace job) (rt_calls s)
        (bundle_documents (dx_load x) (stp_manifest_refs st))) \<and>
    (\<not> ar_success res \<or> rt_calls t = rt_calls s @ dry_calls (job_target_namespace job)
      (kept_manifests (dx_excluded x) (bundle_documents (dx_load x) (stp_manifest_refs st))))"
proof (cases "stp_manifest_refs st = []")
  case True
  with assms show ?thesis by (auto simp: dry_execute_def dry_k8s_apply_def ret_def dry_failed_def)
next
  case False
  with assms have "dry_refs cl x (job_target_namespace job) (stp_manifest_refs st) [] s = (Inr res, t)"
    by (simp add: dry_execute_def dry_k8s_apply_def)
  from dry_refs_outcome [OF this] False show ?thesis by auto
qed

definition demo_manifest :: "string \<Rightarrow> json dict" where
  "demo_manifest name =
     [(''apiVersion'', JStr ''v1''), (''kind'', JStr ''ConfigMap''),
      (''metadata'', JObj [(''name'', JStr name)])]"

definition demo_observation :: observation where
  "demo_observation =
     \<lparr>obs_id = ''o'', obs_job_id = ''j'', obs_timestamp = 0, obs_severity = Sev_INFO,
      obs_type = Obs_MCP_CALL_RESULT, obs_summary = [], obs_phase_id = None, obs_step_id = None,
      obs_command_id = None, obs_correlation_id = None, obs_trace_id = None,
      obs_mcp_server = None, obs_mcp_tool = None, obs_resource_refs = [],
      obs_stdout_redacted = None, obs_stderr_redacted = None, obs_result = JObj [],
      obs_redaction_applied = True, obs_policy_blocks = [], obs_next_required_decision = None\<rparr>"

definition demo_result :: mcp_result where
  "demo_result =
     \<lparr>mr_server = ''k8s'', mr_tool = ''apply'', mr_success = True, mr_data = None,
      mr_error = None, mr_correlation_id = None, mr_trace_id = None,
      mr_observation = demo_observation, mr_audit_event = None, mr_attempts = 1\<rparr>"

text \<open>Clients that accept everything, and a bundle with one file of two manifests.\<close>

definition demo_clients :: clients where
  "demo_clients h c = Inr demo_result"

definition demo_bundle :: "string \<Rightarrow> bundle_file" where
  "demo_bundle ref = Documents [JObj (demo_manifest ''a''), JNull, JObj (demo_manifest ''istio-b'')]"

definition demo_dry_executor :: dry_run_executor where
  "demo_dry_executor = \<lparr>dx_load = demo_bundle, dx_k8s = True, dx_helm = False,
     dx_excluded = new_exclusions [''Ingress''] [''kube-root-ca.crt''] [''istio-'']\<rparr>"

definition demo_exec_job :: exec_job where
  "demo_exec_job =
     \<lparr>job_id = ''j'', job_bundle_id = ''b'', job_target_namespace = ''ns'', job_st = J_DRY_RUNNING,
      job_name = None, job_mop_id = None, job_run_id = None, job_correlation_id = None,
      job_trace_id = None, job_source_namespace = None, job_mode = M_EXECUTE_AFTER_APPROVAL,
      job_current_phase_id = None, job_current_step_id = None, job_dry_run_satisfied = True,
      job_approval_status = A_ACTIVE, job_decision_required = False, job_blocked = False,
      job_progress = \<lparr>pr_total_phases = 0, pr_completed_phases = 0, pr_total_steps = 0,
        pr_completed_steps = 0, pr_failed_steps = 0\<rparr>,
      job_created_at = 0, job_updated_at = 0, job_completed_at = None, job_links = []\<rparr>"

definition demo_apply_step :: exec_step where
  "demo_apply_step = (demo_step ''j'' ''s'')
     \<lparr>stp_manifest_refs := [''m.yaml''],
      stp_commands := [[(''command'', JStr ''kubectl apply -f m.yaml''), (''mutating'', JBool True)]],
      stp_dry_run_status := Some S_DRY_RUN_SUCCEEDED\<rparr>"

definition demo_runtime :: runtime where
  "demo_runtime = \<lparr>c_tick = 0, c_ids = 0, ag_repo = repo_load None, rt_calls = []\<rparr>"

lemma demo_excluded:
  "manifest_excluded (dx_excluded demo_dry_executor) (demo_manifest ''a'') = Inr False"
  "manifest_excluded (dx_excluded demo_dry_executor) (demo_manifest ''istio-b'') = Inr True"
  by code_simp+

theorem manifest_dry_run_is_complete_witness:
  "\<exists>res t. dry_execute demo_clients demo_dry_executor demo_exec_job demo_apply_step demo_runtime
      = (Inr res, t) \<and> ar_success res \<and>
     rt_calls t = [K8sDryRunApply (demo_manifest ''a'') ''ns'']"
proof -
  have docs: "bundle_documents demo_bundle [''m.yaml''] = [demo_manifest ''a'', demo_manifest ''istio-b'']"
    by (simp add: bundle_documents_def demo_bundle_def mapping_documents_def)
  have load: "dx_load demo_dry_executor = demo_bundle" "dx_k8s demo_dry_executor"
    by (simp_all add: demo_dry_executor_def)
  have step: "stp_type demo_apply_step = T_K8S_APPLY" "stp_manifest_refs demo_apply_step = [''m.yaml'']"
    by (simp_all add: demo_apply_step_def demo_step_def)
  obtain res t where run: "dry_execute demo_clients demo_dry_executor demo_exec_job demo_apply_step
      demo_runtime = (Inr res, t)"
    by (simp add: dry_execute_def dry_k8s_apply_def step load demo_bundle_def mapping_documents_def
        bind_def lift_result_def demo_excluded mcp_call_def demo_clients_def demo_result_def ret_def
        Let_def)
  from manifest_dry_run_is_complete [OF run step(1)] run show ?thesis
    by (simp add: step load docs all_readable_def demo_bundle_def dry_clean_def kept_manifests_def
        demo_excluded dry_calls_def demo_clients_def demo_result_def demo_exec_job_def
        demo_runtime_def)
qed

end
