(* ===== verification/Mutation.thy ===== *)
theory Mutation
  imports DryRun Policy "HOL-Library.Product_Lexorder"
begin

text \<open>
  The mutation executor (\<open>runtime/mutation.py\<close>): the deterministic gates in front of a
  change to the cluster, the application of the manifests or of the Helm release, and the
  reconciliation of an ambiguous Helm failure.
\<close>

section \<open>Gate\<close>

record mutation_result =
  mu_success :: bool
  mu_action :: string
  mu_outputs :: "json dict list"
  mu_policy_blocks :: "policy_block list"
  mu_resource_mutations :: "json dict list"
  mu_error_code :: "error_code option"
  mu_message :: "string option"
  mu_unknown_outcome :: bool

record mutation_executor =
  mx_load :: "string \<Rightarrow> bundle_file"
  mx_k8s :: bool
  mx_helm :: bool
  mx_excluded :: exclusions

definition mutation_result_of :: "bool \<Rightarrow> string \<Rightarrow> mutation_result" where
  "mutation_result_of success action =
     \<lparr>mu_success = success, mu_action = action, mu_outputs = [], mu_policy_blocks = [],
      mu_resource_mutations = [], mu_error_code = None, mu_message = None,
      mu_unknown_outcome = False\<rparr>"

definition mutation_failed :: "string \<Rightarrow> error_code \<Rightarrow> string \<Rightarrow> mutation_result" where
  "mutation_failed action code message = (mutation_result_of False action)
     \<lparr>mu_error_code := Some code, mu_message := Some message\<rparr>"

definition mutation_gate_block :: "string \<Rightarrow> string \<Rightarrow> string \<Rightarrow> policy_block" where
  "mutation_gate_block code message guardrail =
     \<lparr>pb_code = code, pb_message = message, pb_severity = Pol_BLOCK,
      pb_guardrail = Some guardrail\<rparr>"

definition continue_for :: "exec_step \<Rightarrow> instruction \<Rightarrow> bool" where
  "continue_for st i \<longleftrightarrow> ins_type i = I_CONTINUE \<and>
     (ins_target_step_id i = None \<or> ins_target_step_id i = Some (stp_id st)) \<and>
     (ins_target_phase_id i = None \<or> ins_target_phase_id i = Some (stp_phase_id st))"

definition matching_continue_instruction ::
    "env \<Rightarrow> exec_step \<Rightarrow> instruction list \<Rightarrow> instruction option" where
  "matching_continue_instruction e st is =
     (let matches = filter (continue_for st) is in
      if matches = [] then None
      else Some (last (sort_key
        (\<lambda>i. (ins_issued_at i \<noteq> None,
              case ins_issued_at i of None \<Rightarrow> [] | Some t \<Rightarrow> env_isoformat e t, ins_id i)) matches)))"

definition command_text :: "json dict \<Rightarrow> string" where
  "command_text c = py_str (get_or c ''command'' (JStr []))"

definition mutation_command :: "exec_step \<Rightarrow> string option" where
  "mutation_command st =
     (case List.find (\<lambda>c. get_or_null c ''mutating'' = JBool True) (stp_commands st) of
        Some c \<Rightarrow> Some (command_text c)
      | None \<Rightarrow> map_option command_text (List.find
          (\<lambda>c. str_contains ''apply'' (command_text c) \<or>
               str_contains ''helm upgrade'' (command_text c) \<or>
               str_contains ''helm install'' (command_text c)) (stp_commands st)))"

definition parse_helm_command :: "string \<Rightarrow> string option \<times> string option" where
  "parse_helm_command command =
     (case shlex_split command of
        None \<Rightarrow> (None, None)
      | Some parts \<Rightarrow>
          if parts = [] \<or> hd parts \<noteq> ''helm'' then (None, None)
          else if ''upgrade'' \<in> set parts \<and> ''--install'' \<in> set parts
          then two_positional (after_word ''upgrade'' parts)
          else if ''install'' \<in> set parts then two_positional (after_word ''install'' parts)
          else (None, None))"

definition helm_release_and_chart :: "exec_step \<Rightarrow> string option \<times> string option" where
  "helm_release_and_chart st =
     (let found = (metadata_str st ''release_name'', metadata_str st ''chart_ref'') in
      if both_truthy found then found else parse_helm_command (opt_or (mutation_command st) []))"

primrec load_manifest_refs ::
    "mutation_executor \<Rightarrow> string list \<Rightarrow> json dict list \<Rightarrow> mutation_result + json dict list" where
  "load_manifest_refs x [] ms = Inr ms"
| "load_manifest_refs x (ref # refs) ms =
     (case mx_load x ref of
        Missing_file \<Rightarrow> Inl (mutation_failed ''k8s.apply'' E_BUNDLE_MISSING_REQUIRED_FILE
                               (''manifest_not_found:'' @ ref))
      | Bad_yaml cls \<Rightarrow> Inl (mutation_failed ''k8s.apply'' E_PLAN_SCHEMA_INVALID
                               (''invalid_yaml:'' @ ref @ '':'' @ cls))
      | Documents docs \<Rightarrow> load_manifest_refs x refs (ms @ mapping_documents docs))"

definition load_manifests ::
    "mutation_executor \<Rightarrow> exec_step \<Rightarrow> mutation_result + json dict list" where
  "load_manifests x st =
     (if stp_type st \<noteq> T_K8S_APPLY then Inr []
      else if stp_manifest_refs st = []
      then Inl (mutation_failed ''k8s.apply'' E_BUNDLE_MISSING_REQUIRED_FILE
                  ''k8s_apply_step_missing_manifest_refs'')
      else load_manifest_refs x (stp_manifest_refs st) [])"

primrec load_values ::
    "mutation_executor \<Rightarrow> string list \<Rightarrow> json dict \<Rightarrow> mutation_result + json dict" where
  "load_values x [] merged = Inr merged"
| "load_values x (ref # refs) merged =
     (case mx_load x ref of
        Missing_file \<Rightarrow> Inl (mutation_failed ''helm.load_values'' E_BUNDLE_MISSING_REQUIRED_FILE
                               (''values_not_found:'' @ ref))
      | Bad_yaml cls \<Rightarrow> Inl (mutation_failed ''helm.load_values'' E_PLAN_SCHEMA_INVALID
                               (''invalid_yaml:'' @ ref @ '':'' @ cls))
      | Documents docs \<Rightarrow> load_values x refs (foldl dict_update merged (mapping_documents docs)))"

text \<open>The manifests split by the exclusions: first the excluded ones.\<close>

primrec split_excluded ::
    "exclusions \<Rightarrow> json dict list \<Rightarrow> py_error + (json dict list \<times> json dict list)" where
  "split_excluded x [] = Inr ([], [])"
| "split_excluded x (m # ms) =
     (case manifest_excluded x m of
        Inl err \<Rightarrow> Inl err
      | Inr excluded \<Rightarrow>
          (case split_excluded x ms of
             Inl err \<Rightarrow> Inl err
           | Inr (out, kept) \<Rightarrow> Inr (if excluded then (m # out, kept) else (out, m # kept))))"

definition excluded_manifest_output :: "json dict \<Rightarrow> json dict" where
  "excluded_manifest_output m =
     [(''server'', JStr ''execution-agent''), (''tool'', JStr ''manifest.skip_excluded_kind''),
      (''success'', JBool True),
      (''data'', JObj
        [(''kind'', get_or_null m ''kind''),
         (''name'', get_or_null (manifest_metadata m) ''name''),
         (''reason'', JStr ''excluded_by_configuration'')])]"

definition mutation_record :: "string \<Rightarrow> json dict \<Rightarrow> json dict" where
  "mutation_record action m =
     [(''action'', JStr action), (''api_version'', get_or_null m ''apiVersion''),
      (''kind'', get_or_null m ''kind''),
      (''namespace'', get_or_null (manifest_metadata m) ''namespace''),
      (''name'', get_or_null (manifest_metadata m) ''name'')]"

definition mcp_output :: "mcp_result \<Rightarrow> json dict" where
  "mcp_output r =
     [(''server'', JStr (mr_server r)), (''tool'', JStr (mr_tool r)),
      (''success'', JBool (mr_success r)),
      (''correlation_id'', jopt (mr_correlation_id r)), (''trace_id'', jopt (mr_trace_id r)),
      (''data'', JObj (data_or_empty r))] @ error_field r"

definition manifest_resource_ref :: "string \<Rightarrow> json dict \<Rightarrow> resource_ref" where
  "manifest_resource_ref target m =
     \<lparr>rr_api_version = Some (py_str (get_or m ''apiVersion'' (JStr []))),
      rr_kind = Some (py_str (get_or m ''kind'' (JStr []))),
      rr_namespace = Some (py_str (json_or (get_or_null (manifest_metadata m) ''namespace'')
         (JStr target))),
      rr_name = Some (py_str (get_or (manifest_metadata m) ''name'' (JStr []))),
      rr_file_path = None, rr_helm_release_name = None\<rparr>"

definition resource_refs_of ::
    "exec_step \<Rightarrow> json dict list \<Rightarrow> string \<Rightarrow> string list \<Rightarrow> resource_ref list" where
  "resource_refs_of st manifests target excluded =
     filter (\<lambda>r. str_lower (str_strip (opt_or (rr_kind r) [])) \<notin> set excluded) (stp_resource_refs st) @
     map (manifest_resource_ref target) manifests @
     (if stp_type st \<in> {T_HELM_INSTALL, T_HELM_UPGRADE}
      then let (release_name, chart) = parse_helm_command (opt_or (mutation_command st) []) in
           [\<lparr>rr_api_version = None, rr_kind = Some ''HelmRelease'', rr_namespace = Some target,
             rr_name = release_name, rr_file_path = chart, rr_helm_release_name = release_name\<rparr>]
      else [])"

definition request_payload :: "exec_job \<Rightarrow> exec_step \<Rightarrow> instruction \<Rightarrow> string \<Rightarrow> json" where
  "request_payload job st i command = JObj
     [(''job_id'', JStr (job_id job)), (''step_id'', JStr (stp_id st)),
      (''instruction_id'', JStr (ins_id i)), (''command'', JStr command),
      (''manifest_refs'', jstrs (stp_manifest_refs st)),
      (''values_refs'', jstrs (stp_values_refs st))]"

definition pre_mutation_event :: "env \<Rightarrow> exec_job \<Rightarrow> exec_step \<Rightarrow> string \<Rightarrow> string \<Rightarrow> instant \<Rightarrow> audit_event" where
  "pre_mutation_event e job st command aid now =
     \<lparr>aud_id = aid, aud_timestamp = now, aud_actor_type = Act_WORKER,
      aud_action = ''mutation_pre_event'', aud_redacted = True, aud_job_id = Some (job_id job),
      aud_actor_id = Some ''mutation-gate'', aud_correlation_id = job_correlation_id job,
      aud_trace_id = job_trace_id job,
      aud_input_hash = Some (stable_hash (env_sha256 e)
        (JObj [(''step_id'', JStr (stp_id st)), (''command'', JStr command)])),
      aud_output_hash = None,
      aud_details =
        [(''phase_id'', JStr (stp_phase_id st)), (''step_id'', JStr (stp_id st)),
         (''target_namespace'', JStr (job_target_namespace job))]\<rparr>"

definition write_pre_mutation_audit ::
    "env \<Rightarrow> exec_job \<Rightarrow> exec_step \<Rightarrow> string \<Rightarrow> ('a runtime_scheme, py_error, unit) prog" where
  "write_pre_mutation_audit e job st command =
     bind (new_id e ''audit'') (\<lambda>aid.
     bind (utc_now e) (\<lambda>now.
     write_event (pre_mutation_event e job st command aid now)))"

section \<open>Execution\<close>

primrec apply_manifests ::
    "clients \<Rightarrow> string \<Rightarrow> json dict list \<Rightarrow> json dict list \<Rightarrow> json dict list \<Rightarrow>
     ('a runtime_scheme, py_error, mutation_result) prog" where
  "apply_manifests cl ns [] outputs mutations =
     ret ((mutation_result_of True ''k8s.apply'')
       \<lparr>mu_outputs := outputs, mu_resource_mutations := mutations\<rparr>)"
| "apply_manifests cl ns (m # ms) outputs mutations =
     bind (attempt (mcp_call cl (K8sApply m ns))) (\<lambda>res.
     case res of
       Inl err \<Rightarrow> ret ((mutation_failed ''k8s.apply'' E_UNKNOWN_ERROR
                        (''unknown_mutation_outcome:'' @ exception_name err))
           \<lparr>mu_outputs := outputs, mu_resource_mutations := mutations, mu_unknown_outcome := True\<rparr>)
     | Inr r \<Rightarrow>
         let outputs' = outputs @ [mcp_output r];
             mutations' = mutations @ [mutation_record ''k8s_apply'' m] in
         if \<not> mr_success r
         then ret ((mutation_failed ''k8s.apply'' E_UNKNOWN_ERROR (error_message r ''k8s_apply_failed''))
                \<lparr>mu_outputs := outputs', mu_resource_mutations := mutations'\<rparr>)
         else apply_manifests cl ns ms outputs' mutations')"

definition execute_k8s_apply ::
    "clients \<Rightarrow> mutation_executor \<Rightarrow> exec_job \<Rightarrow> json dict list \<Rightarrow> json dict list \<Rightarrow>
     ('a runtime_scheme, py_error, mutation_result) prog" where
  "execute_k8s_apply cl x job manifests initial_outputs =
     (if \<not> mx_k8s x
      then ret (mutation_failed ''k8s.apply'' E_MCP_UNAVAILABLE ''kubernetes_mutation_client_missing'')
      else apply_manifests cl (job_target_namespace job) manifests initial_outputs [])"

definition ambiguous_transport_failure :: "mcp_result \<Rightarrow> bool" where
  "ambiguous_transport_failure r =
     (case mr_error r of None \<Rightarrow> False
      | Some er \<Rightarrow> me_retryable er \<or> me_code er \<in> {E_TIMEOUT_EXCEEDED, E_MCP_UNAVAILABLE})"

text \<open>The mapping that names the release and says it is deployed.\<close>

definition deployed_entry :: "string \<Rightarrow> json dict \<Rightarrow> bool" where
  "deployed_entry release_name d \<longleftrightarrow>
     (let name = str_strip (py_str (json_or (json_or (get_or_null d ''name'')
             (get_or_null d ''release_name'')) (JStr [])));
          info = obj_items (get_or_null d ''info'');
          status = str_lower (str_strip (py_str (json_or (json_or (get_or_null d ''status'')
             (get_or_null info ''status'')) (JStr []))))
      in name = release_name \<and> status = ''deployed'')"

definition container :: "json \<Rightarrow> bool" where
  "container v \<longleftrightarrow> is_obj v \<or> is_arr v"

fun jsize :: "json \<Rightarrow> nat" where
  "jsize (JArr xs) = Suc (sum_list (map jsize xs))"
| "jsize (JObj d) = Suc (sum_list (map (\<lambda>kv. jsize (snd kv)) d))"
| "jsize _ = 1"

lemma sum_rev: "sum_list (map f (rev xs)) = sum_list (map (f :: 'x \<Rightarrow> nat) xs)"
  by (simp add: rev_map [symmetric])

lemma jsize_members: "sum_list (map jsize (filter container (map snd d))) < jsize (JObj d)"
  by (induction d) auto

text \<open>The loop of \<open>_helm_release_is_deployed\<close>; the head of the list is the top of the stack.\<close>

function search_deployed :: "string \<Rightarrow> json list \<Rightarrow> bool" where
  "search_deployed release_name [] = False"
| "search_deployed release_name (current # pending) =
     (case current of
        JArr xs \<Rightarrow> search_deployed release_name (rev xs @ pending)
      | JObj d \<Rightarrow>
          if deployed_entry release_name d then True
          else search_deployed release_name (rev (filter container (map snd d)) @ pending)
      | _ \<Rightarrow> search_deployed release_name pending)"
  by pat_completeness auto
termination
  by (relation "measure (\<lambda>(_, pending). sum_list (map jsize pending))")
     (auto simp: sum_rev simp del: jsize.simps(2) rev_map intro!: jsize_members)

definition helm_release_is_deployed :: "mcp_result \<Rightarrow> string \<Rightarrow> bool" where
  "helm_release_is_deployed r release_name =
     (if \<not> mr_success r then False
      else case mr_data r of None \<Rightarrow> False | Some d \<Rightarrow> search_deployed release_name [JObj d])"

definition opt_or_opt :: "string option \<Rightarrow> string option \<Rightarrow> string option" where
  "opt_or_opt x y = (if opt_truthy x then x else y)"

definition execute_helm ::
    "clients \<Rightarrow> mutation_executor \<Rightarrow> exec_job \<Rightarrow> exec_step \<Rightarrow>
     ('a runtime_scheme, py_error, mutation_result) prog" where
  "execute_helm cl x job st =
     (if \<not> mx_helm x
      then ret (mutation_failed ''helm.install_upgrade'' E_MCP_UNAVAILABLE ''helm_mutation_client_missing'')
      else
        let found = helm_release_and_chart st in
        if \<not> both_truthy found
        then ret (mutation_failed ''helm.install_upgrade'' E_DRY_RUN_FAILED
                    ''helm_step_missing_release_or_chart'')
        else case load_values x (stp_values_refs st) [] of
          Inl failed \<Rightarrow> ret failed
        | Inr vals \<Rightarrow>
            let release_name = opt_or (fst found) []; chart = opt_or (snd found) [];
                timeout = opt_or_opt (opt_or_opt (metadata_str st ''install_timeout'')
                  (metadata_str st ''helm_timeout'')) (metadata_str st ''timeout'') in
            bind (attempt (mcp_call cl
              (HelmInstallUpgrade (helm_request_of job st release_name chart vals timeout)))) (\<lambda>res.
            case res of
              Inl err \<Rightarrow> ret ((mutation_failed ''helm.install_upgrade'' E_UNKNOWN_ERROR
                  (''unknown_mutation_outcome:'' @ exception_name err))\<lparr>mu_unknown_outcome := True\<rparr>)
            | Inr r \<Rightarrow>
                let outputs = [mcp_output r];
                    entry = [(''action'', JStr ''helm_install_upgrade''),
                             (''release_name'', JStr release_name), (''chart'', JStr chart),
                             (''namespace'', JStr (job_target_namespace job))];
                    failed = (\<lambda>outs. (mutation_failed ''helm.install_upgrade'' E_UNKNOWN_ERROR
                        (error_message r ''helm_install_upgrade_failed''))
                        \<lparr>mu_outputs := outs, mu_resource_mutations := [entry],
                         mu_unknown_outcome := ambiguous_transport_failure r\<rparr>) in
                if mr_success r
                then ret ((mutation_result_of True ''helm.install_upgrade'')
                       \<lparr>mu_outputs := outputs, mu_resource_mutations := [entry]\<rparr>)
                else if ambiguous_transport_failure r
                then
                  bind (mcp_call cl (HelmStatus release_name (job_target_namespace job))) (\<lambda>status.
                  let outputs' = outputs @ [mcp_output status] in
                  if helm_release_is_deployed status release_name
                  then ret ((mutation_result_of True ''helm.install_upgrade'')
                    \<lparr>mu_outputs := outputs',
                     mu_resource_mutations :=
                       [entry @ [(''reconciled_after_ambiguous_transport'', JBool True)]],
                     mu_message := Some ''helm_install_upgrade_reconciled_as_deployed''\<rparr>)
                  else ret (failed outputs'))
                else ret (failed outputs)))"

definition mutation_context ::
    "env \<Rightarrow> exec_job \<Rightarrow> exec_step \<Rightarrow> instruction \<Rightarrow> string \<Rightarrow> resource_ref list \<Rightarrow> json dict list \<Rightarrow>
     human_approval list \<Rightarrow> idem_record \<Rightarrow> instant \<Rightarrow> policy_context" where
  "mutation_context e job st i command refs manifests approvals idem now =
     \<lparr>pc_job_id = job_id job, pc_target = job_target_namespace job, pc_mutating = True,
      pc_phase_id = Some (stp_phase_id st), pc_step_id = Some (stp_id st),
      pc_command = Some command,
      pc_command_metadata = [(''step_type'', JStr (step_type_value (stp_type st)))],
      pc_resource_refs = refs, pc_manifests = manifests, pc_values_files = [],
      pc_instructions = [JObj (instruction_json (env_dt_json e) i)], pc_logs = [], pc_outputs = [],
      pc_approvals = approvals,
      pc_dry_run_satisfied = (stp_dry_run_status st = Some S_DRY_RUN_SUCCEEDED),
      pc_idempotency = Some idem, pc_request_payload = Some (request_payload job st i command),
      pc_timeout = None, pc_retries = int (stp_attempt st), pc_audit_written = True, pc_now = now\<rparr>"

definition mutation_execute ::
    "env \<Rightarrow> clients \<Rightarrow> mutation_executor \<Rightarrow> exec_job \<Rightarrow> exec_step \<Rightarrow> human_approval list \<Rightarrow>
     instruction list \<Rightarrow> ('a runtime_scheme, py_error, mutation_result) prog" where
  "mutation_execute e cl x job st approvals is =
     (case matching_continue_instruction e st is of
        None \<Rightarrow> ret ((mutation_result_of False ''mutation_gate'')
          \<lparr>mu_policy_blocks := [mutation_gate_block ''INSTRUCTION_REQUIRED''
              ''Mutation requires an explicit continue instruction.'' ''external_instruction''],
           mu_message := Some ''mutation_instruction_required''\<rparr>)
      | Some i \<Rightarrow>
      (case mutation_command st of
        None \<Rightarrow> ret (mutation_failed ''mutation_gate'' E_DRY_RUN_FAILED ''mutation_command_missing'')
      | Some command \<Rightarrow>
      (case load_manifests x st of
        Inl failed \<Rightarrow> ret failed
      | Inr loaded \<Rightarrow>
          bind (lift_result (split_excluded (mx_excluded x) loaded)) (\<lambda>(out, manifests).
          let excluded_outputs = map excluded_manifest_output out;
              refs = resource_refs_of st manifests (job_target_namespace job) (xc_kinds (mx_excluded x));
              payload = request_payload job st i command in
          bind (new_record e (ins_id i) ''mutation'' (stable_hash (env_sha256 e) payload)
            (job_correlation_id job) (job_trace_id job)) (\<lambda>idem.
          if stp_type st = T_K8S_APPLY \<and> manifests = []
          then ret ((mutation_result_of True ''k8s.apply'')
            \<lparr>mu_outputs := excluded_outputs,
             mu_message := Some ''all_manifests_excluded_by_configuration''\<rparr>)
          else
            seqp (write_pre_mutation_audit e job st command)
            (bind (utc_now e) (\<lambda>now.
            bind (lift_result (evaluate_policy e
              (mutation_context e job st i command refs manifests approvals idem now) None)) (\<lambda>decision.
            if \<not> pd_allowed decision
            then ret ((mutation_result_of False ''mutation_gate'')
              \<lparr>mu_policy_blocks := pd_blocks decision,
               mu_message := Some ''mutation_policy_blocked''\<rparr>)
            else if stp_type st = T_K8S_APPLY
            then execute_k8s_apply cl x job manifests excluded_outputs
            else if stp_type st \<in> {T_HELM_INSTALL, T_HELM_UPGRADE}
            then execute_helm cl x job st
            else ret (mutation_failed ''mutation_gate'' E_DRY_RUN_FAILED
              (''unsupported_mutation_step_type:'' @ step_type_value (stp_type st)))))))))))"

section \<open>What a mutation calls\<close>

lemma frame_clock [simp]:
  "rt_calls (snd (utc_now e s)) = rt_calls s" "audit_log (snd (utc_now e s)) = audit_log s"
  by (simp_all add: utc_now_def audit_log_def)

lemma new_record_run:
  "new_record e key scope hash corr trace s =
     (Inr \<lparr>idr_key = key, idr_scope = scope, idr_request_hash = hash,
          idr_state = Idem_IN_PROGRESS, idr_result_hash = None, idr_result_payload = None,
          idr_correlation_id = corr, idr_trace_id = trace, idr_created_at = env_clock e (c_tick s),
          idr_updated_at = env_clock e (Suc (c_tick s)), idr_expires_at = None\<rparr>,
      s\<lparr>c_tick := Suc (Suc (c_tick s))\<rparr>)"
  by (simp add: new_record_def bind_def utc_now_def ret_def)

text \<open>Sequencing after a computation whose outcome is known.\<close>

lemma bind_lift: "bind (lift_result r) f s = (case r of Inl err \<Rightarrow> (Inl err, s) | Inr y \<Rightarrow> f y s)"
  by (simp add: bind_def lift_result_def split: sum.splits)

lemma bind_utc: "bind (utc_now e) f s = f (env_clock e (c_tick s)) (s\<lparr>c_tick := Suc (c_tick s)\<rparr>)"
  by (simp add: bind_def utc_now_def)

lemma seqp_run:
  "seqp m n s = (case m s of (r, t) \<Rightarrow> (case r of Inl err \<Rightarrow> (Inl err, t) | Inr x \<Rightarrow> n t))"
  by (simp add: seqp_def bind_def split: prod.splits sum.splits)

lemma bind_new_record:
  "bind (new_record e key scope hash corr trace) f s =
     f \<lparr>idr_key = key, idr_scope = scope, idr_request_hash = hash,
          idr_state = Idem_IN_PROGRESS, idr_result_hash = None, idr_result_payload = None,
          idr_correlation_id = corr, idr_trace_id = trace, idr_created_at = env_clock e (c_tick s),
          idr_updated_at = env_clock e (Suc (c_tick s)), idr_expires_at = None\<rparr>
       (s\<lparr>c_tick := Suc (Suc (c_tick s))\<rparr>)"
  by (simp add: bind_def new_record_run)

lemma pre_audit_run:
  "write_pre_mutation_audit e job st command s = (Inr (), t) \<Longrightarrow>
    rt_calls t = rt_calls s \<and>
    (\<exists>ev. audit_log t = audit_log s @ [ev] \<and> aud_action ev = ''mutation_pre_event'' \<and>
       aud_job_id ev = Some (job_id job) \<and>
       get_or_null (aud_details ev) ''step_id'' = JStr (stp_id st))"
  by (auto simp: write_pre_mutation_audit_def bind_def new_id_def utc_now_def write_event_def
      audit_write_def append_audit_event_def audit_log_def pre_mutation_event_def get_or_null_def
      split: if_splits)

lemma pre_audit_calls [simp]: "rt_calls (snd (write_pre_mutation_audit e job st command s)) = rt_calls s"
  by (simp add: write_pre_mutation_audit_def bind_def new_id_def utc_now_def write_event_def
      split: prod.splits)

text \<open>The manifests that a step would apply.\<close>

definition step_manifests :: "mutation_executor \<Rightarrow> exec_step \<Rightarrow> json dict list" where
  "step_manifests x st = (if stp_type st = T_K8S_APPLY
     then kept_manifests (mx_excluded x) (bundle_documents (mx_load x) (stp_manifest_refs st)) else [])"

lemma split_excluded_kept:
  "split_excluded x ms = Inr (out, kept) \<Longrightarrow> kept = kept_manifests x ms"
proof (induction ms arbitrary: out kept)
  case (Cons m ms)
  then show ?case
    by (cases "manifest_excluded x m"; cases "split_excluded x ms")
       (auto simp: kept_simps split: if_splits)
qed (simp add: kept_simps)

lemma load_manifest_refs_documents:
  "load_manifest_refs x refs ms = Inr res \<Longrightarrow> res = ms @ bundle_documents (mx_load x) refs"
proof (induction refs arbitrary: ms)
  case (Cons ref refs)
  then show ?case by (cases "mx_load x ref") (fastforce simp: bundle_documents_def)+
qed (simp add: bundle_documents_def)

lemma load_manifests_documents:
  "load_manifests x st = Inr loaded \<Longrightarrow> split_excluded (mx_excluded x) loaded = Inr (out, kept) \<Longrightarrow>
    kept = step_manifests x st"
  by (auto simp: load_manifests_def step_manifests_def kept_simps
      dest!: load_manifest_refs_documents split_excluded_kept split: if_splits)

lemma apply_manifests_calls:
  "\<exists>k. rt_calls (snd (apply_manifests cl ns ms outs muts s)) =
     rt_calls s @ map (\<lambda>m. K8sApply m ns) (take k ms)"
proof (induction ms arbitrary: outs muts s)
  case (Cons m ms)
  let ?t = "s\<lparr>rt_calls := rt_calls s @ [K8sApply m ns]\<rparr>"
  have one: "rt_calls s @ [K8sApply m ns] = rt_calls s @ map (\<lambda>m. K8sApply m ns) (take 1 (m # ms))"
    by simp
  show ?case
  proof (cases "cl (rt_calls s) (K8sApply m ns)")
    case (Inl name)
    then show ?thesis by (intro exI [of _ 1])
        (simp add: bind_def attempt_def mcp_call_def ret_def)
  next
    case (Inr r)
    show ?thesis
    proof (cases "mr_success r")
      case True
      from Cons.IH [of "outs @ [mcp_output r]" "muts @ [mutation_record ''k8s_apply'' m]" ?t]
      obtain k where "rt_calls (snd (apply_manifests cl ns ms (outs @ [mcp_output r])
          (muts @ [mutation_record ''k8s_apply'' m]) ?t)) =
        rt_calls ?t @ map (\<lambda>m. K8sApply m ns) (take k ms)" by blast
      with Inr True show ?thesis by (intro exI [of _ "Suc k"])
          (simp add: bind_def attempt_def mcp_call_def Let_def)
    next
      case False
      with Inr show ?thesis by (intro exI [of _ 1])
          (simp add: bind_def attempt_def mcp_call_def ret_def Let_def)
    qed
  qed
qed (simp add: ret_def)

definition apply_calls :: "string \<Rightarrow> json dict list \<Rightarrow> ext_call list" where
  "apply_calls ns ms = map (\<lambda>m. K8sApply m ns) ms"

lemma apply_manifests_outcome:
  "\<exists>r t. apply_manifests cl ns ms outs muts s = (Inr r, t) \<and>
    (mu_success r \<longleftrightarrow> all_succeed cl (rt_calls s) (apply_calls ns ms)) \<and>
    (mu_success r \<longrightarrow> rt_calls t = rt_calls s @ apply_calls ns ms)"
proof (induction ms arbitrary: outs muts s)
  case (Cons m ms)
  let ?t = "s\<lparr>rt_calls := rt_calls s @ [K8sApply m ns]\<rparr>"
  show ?case
  proof (cases "cl (rt_calls s) (K8sApply m ns)")
    case (Inl name)
    then show ?thesis
      by (simp add: bind_def attempt_def mcp_call_def ret_def mutation_failed_def
          mutation_result_of_def apply_calls_def)
  next
    case (Inr q)
    show ?thesis
    proof (cases "mr_success q")
      case True
      from Cons.IH [of "outs @ [mcp_output q]" "muts @ [mutation_record ''k8s_apply'' m]" ?t] Inr True
      show ?thesis
        by (auto simp: bind_def attempt_def mcp_call_def Let_def apply_calls_def)
    next
      case False
      with Inr show ?thesis
        by (simp add: bind_def attempt_def mcp_call_def ret_def mutation_failed_def
          mutation_result_of_def Let_def apply_calls_def)
    qed
  qed
qed (simp add: ret_def apply_calls_def mutation_result_of_def)

lemma execute_helm_calls:
  "moves (calls_only (\<lambda>c. call_namespace c = job_target_namespace job \<and>
     ((\<exists>r. c = HelmInstallUpgrade r) \<or> \<not> mutating_call c))) (execute_helm cl x job st)"
  unfolding execute_helm_def Let_def
  by (auto simp: helm_request_of_def intro!: step_intros calls_only_call split: sum.splits)

text \<open>
  A run that calls a client has passed every gate: an instruction, the policy on exactly the
  manifests of the step, the audit event.
\<close>

definition pre_audited :: "exec_job \<Rightarrow> exec_step \<Rightarrow> 'a agent_scheme \<Rightarrow> 'a agent_scheme \<Rightarrow> bool" where
  "pre_audited job st s u \<longleftrightarrow>
     (\<exists>ev. audit_log u = audit_log s @ [ev] \<and> aud_action ev = ''mutation_pre_event'' \<and>
       aud_job_id ev = Some (job_id job) \<and>
       get_or_null (aud_details ev) ''step_id'' = JStr (stp_id st))"

definition authorised ::
    "env \<Rightarrow> mutation_executor \<Rightarrow> exec_job \<Rightarrow> exec_step \<Rightarrow> human_approval list \<Rightarrow> instruction \<Rightarrow> bool" where
  "authorised e x job st approvals i \<longleftrightarrow>
     (\<exists>command idem k. mutation_command st = Some command \<and>
        policy_satisfied e default_limits
          (mutation_context e job st i command
             (resource_refs_of st (step_manifests x st) (job_target_namespace job)
               (xc_kinds (mx_excluded x)))
             (step_manifests x st) approvals idem (env_clock e k)))"

lemma mutation_trace:
  assumes run: "mutation_execute e cl x job st approvals is s = (res, t)"
    and calls: "rt_calls t \<noteq> rt_calls s"
  obtains i u outs where "matching_continue_instruction e st is = Some i"
    and "authorised e x job st approvals i" and "rt_calls u = rt_calls s"
    and "pre_audited job st s u"
    and "stp_type st = T_K8S_APPLY \<and>
        execute_k8s_apply cl x job (step_manifests x st) outs u = (res, t) \<or>
      stp_type st \<in> {T_HELM_INSTALL, T_HELM_UPGRADE} \<and> execute_helm cl x job st u = (res, t)"
proof -
  obtain i where i: "matching_continue_instruction e st is = Some i"
    using run calls by (cases "matching_continue_instruction e st is")
      (auto simp: mutation_execute_def ret_def)
  obtain command where command: "mutation_command st = Some command"
    using run calls i by (cases "mutation_command st") (auto simp: mutation_execute_def ret_def)
  obtain loaded where loaded: "load_manifests x st = Inr loaded"
    using run calls i command by (cases "load_manifests x st")
      (auto simp: mutation_execute_def ret_def)
  obtain out kept where split: "split_excluded (mx_excluded x) loaded = Inr (out, kept)"
    using run calls i command loaded by (cases "split_excluded (mx_excluded x) loaded")
      (auto simp: mutation_execute_def bind_def lift_result_def)
  have kept: "kept = step_manifests x st" by (rule load_manifests_documents [OF loaded split])
  let ?refs = "resource_refs_of st kept (job_target_namespace job) (xc_kinds (mx_excluded x))"
  let ?s1 = "s\<lparr>c_tick := Suc (Suc (c_tick s))\<rparr>"
  note program = run [unfolded mutation_execute_def i command loaded option.case sum.case
      bind_lift split bind_new_record prod.case Let_def]
  have some: "\<not> (stp_type st = T_K8S_APPLY \<and> kept = [])"
    using program calls by (auto simp: ret_def split: if_splits)
  note program = program [unfolded if_not_P [OF some] seqp_run]
  obtain r2 u0 where pre: "write_pre_mutation_audit e job st command ?s1 = (r2, u0)"
    by (cases "write_pre_mutation_audit e job st command ?s1")
  have u0: "rt_calls u0 = rt_calls s"
    using arg_cong [OF pre, of "\<lambda>x. rt_calls (snd x)"] by simp
  obtain uu where r2: "r2 = Inr uu" using program calls u0 pre by (cases r2) auto
  with pre have pre: "write_pre_mutation_audit e job st command ?s1 = (Inr (), u0)" by simp
  define u where "u = u0\<lparr>c_tick := Suc (c_tick u0)\<rparr>"
  have u: "rt_calls u = rt_calls s" "audit_log u = audit_log u0"
    using u0 by (simp_all add: u_def audit_log_def)
  have audited: "pre_audited job st s u"
    using pre_audit_run [OF pre] u(2) by (auto simp: pre_audited_def audit_log_def)
  note program = program [unfolded pre prod.case sum.case bind_utc u_def [symmetric] bind_lift]
  let ?ctx = "\<lambda>idem. mutation_context e job st i command ?refs kept approvals idem
      (env_clock e (c_tick u0))"
  obtain idem d where d: "evaluate_policy e (?ctx idem) None = Inr d" and ok: "pd_allowed d"
    and exec: "stp_type st = T_K8S_APPLY \<and>
        execute_k8s_apply cl x job kept (map excluded_manifest_output out) u = (res, t) \<or>
      stp_type st \<in> {T_HELM_INSTALL, T_HELM_UPGRADE} \<and> execute_helm cl x job st u = (res, t)"
    using program calls u(1)
    by (auto simp: ret_def split: sum.splits if_splits)
  have "authorised e x job st approvals i"
    unfolding authorised_def kept [symmetric]
    using evaluate_policy_allowed [OF d] ok command by auto
  from that [OF i this u(1) audited exec [unfolded kept]] show ?thesis .
qed

lemma last_sort: "xs \<noteq> [] \<Longrightarrow> last (sort_key f xs) \<in> set xs"
  by (metis last_in_set set_empty set_sort)

lemma matching_instruction_in:
  "matching_continue_instruction e st is = Some i \<Longrightarrow> i \<in> set is \<and> continue_for st i"
  using last_sort [of "filter (continue_for st) is" "\<lambda>i. (ins_issued_at i \<noteq> None,
      case ins_issued_at i of None \<Rightarrow> [] | Some t \<Rightarrow> env_isoformat e t, ins_id i)"]
  unfolding matching_continue_instruction_def Let_def
  by (simp split: if_splits)

lemma context_fields [simp]:
  "pc_mutating (mutation_context e job st i command refs ms approvals idem now) = True"
  "pc_job_id (mutation_context e job st i command refs ms approvals idem now) = job_id job"
  "pc_approvals (mutation_context e job st i command refs ms approvals idem now) = approvals"
  "pc_now (mutation_context e job st i command refs ms approvals idem now) = now"
  "pc_dry_run_satisfied (mutation_context e job st i command refs ms approvals idem now) \<longleftrightarrow>
     stp_dry_run_status st = Some S_DRY_RUN_SUCCEEDED"
  by (simp_all add: mutation_context_def)

lemma authorised_facts:
  assumes "authorised e x job st approvals i"
  shows "stp_dry_run_status st = Some S_DRY_RUN_SUCCEEDED"
    and "\<exists>a k. a \<in> set approvals \<and> apr_job_id a = job_id job \<and> apr_scope a \<in> set MUTATION_SCOPES \<and>
      \<not> expired a (env_clock e k)"
proof -
  obtain command idem k where sat: "policy_satisfied e default_limits
      (mutation_context e job st i command (resource_refs_of st (step_manifests x st)
         (job_target_namespace job) (xc_kinds (mx_excluded x)))
       (step_manifests x st) approvals idem (env_clock e k))" (is "policy_satisfied _ _ ?c")
    using assms by (auto simp: authorised_def)
  then have gates: "pc_dry_run_satisfied ?c" "\<exists>a \<in> set approvals. approval_covers e ?c a"
    unfolding policy_satisfied_def by simp_all
  from gates(1) show "stp_dry_run_status st = Some S_DRY_RUN_SUCCEEDED" by simp
  from gates(2) obtain a where a: "a \<in> set approvals" "approval_covers e ?c a" by blast
  then have "apr_job_id a = job_id job" "apr_scope a \<in> set MUTATION_SCOPES"
    "\<not> expired a (env_clock e k)"
    unfolding approval_covers_def expired_def by (auto split: option.splits)
  with a show "\<exists>a k. a \<in> set approvals \<and> apr_job_id a = job_id job \<and>
      apr_scope a \<in> set MUTATION_SCOPES \<and> \<not> expired a (env_clock e k)" by blast
qed

text \<open>The calls that an authorised mutation may make.\<close>

definition permitted_call :: "exec_job \<Rightarrow> json dict list \<Rightarrow> ext_call \<Rightarrow> bool" where
  "permitted_call job manifests c \<longleftrightarrow> call_namespace c = job_target_namespace job \<and>
     (case c of K8sApply m ns \<Rightarrow> List.member manifests m | HelmInstallUpgrade r \<Rightarrow> True
      | _ \<Rightarrow> \<not> mutating_call c)"

lemma execute_calls_permitted:
  assumes "stp_type st = T_K8S_APPLY \<and>
      execute_k8s_apply cl x job manifests outs u = (res, t) \<or>
    stp_type st \<in> {T_HELM_INSTALL, T_HELM_UPGRADE} \<and> execute_helm cl x job st u = (res, t)"
  shows "\<exists>new. rt_calls t = rt_calls u @ new \<and> list_all (permitted_call job manifests) new"
  using assms
proof
  assume k8s: "stp_type st = T_K8S_APPLY \<and> execute_k8s_apply cl x job manifests outs u = (res, t)"
  show ?thesis
  proof (cases "mx_k8s x")
    case True
    with k8s have run: "apply_manifests cl (job_target_namespace job) manifests outs [] u = (res, t)"
      by (simp add: execute_k8s_apply_def)
    from apply_manifests_calls [of cl "job_target_namespace job" manifests outs "[]" u] run
    obtain k where "rt_calls t = rt_calls u @
        map (\<lambda>m. K8sApply m (job_target_namespace job)) (take k manifests)" by auto
    then show ?thesis
      by (auto simp: list_all_iff permitted_call_def dest: in_set_takeD)
  next
    case False
    with k8s show ?thesis by (simp add: execute_k8s_apply_def ret_def)
  qed
next
  assume "stp_type st \<in> {T_HELM_INSTALL, T_HELM_UPGRADE} \<and> execute_helm cl x job st u = (res, t)"
  with movesD [OF execute_helm_calls [of job cl x st], of u]
  obtain new where "rt_calls t = rt_calls u @ new" and new: "list_all (\<lambda>c. call_namespace c =
      job_target_namespace job \<and> ((\<exists>r. c = HelmInstallUpgrade r) \<or> \<not> mutating_call c)) new"
    by (auto simp: calls_only_def)
  moreover have "list_all (permitted_call job manifests) new"
    using new unfolding list_all_iff permitted_call_def by (auto split: ext_call.splits)
  ultimately show ?thesis by auto
qed

text \<open>
  C25. Nothing is called without authority: a run of the executor that makes any call at all
  has found a continue instruction for the step among the instructions given, its dry run
  has succeeded, an approval of a mutating scope for this job that has not expired covers
  it, the policy holds for exactly the manifests of the step, the pre-mutation event is in
  the audit log, and the calls are for the target namespace and apply only these manifests.
\<close>

theorem no_mutation_without_authority:
  assumes "mutation_execute e cl x job st approvals is s = (res, t)"
    and "rt_calls t \<noteq> rt_calls s"
  shows "(\<exists>i. i \<in> set is \<and> continue_for st i \<and> authorised e x job st approvals i) \<and>
    stp_dry_run_status st = Some S_DRY_RUN_SUCCEEDED \<and>
    (\<exists>a k. a \<in> set approvals \<and> apr_job_id a = job_id job \<and> apr_scope a \<in> set MUTATION_SCOPES \<and>
       \<not> expired a (env_clock e k)) \<and>
    (\<exists>u new. pre_audited job st s u \<and> rt_calls u = rt_calls s \<and> rt_calls t = rt_calls u @ new \<and>
       list_all (permitted_call job (step_manifests x st)) new)"
proof -
  obtain i u outs where i: "matching_continue_instruction e st is = Some i"
    and auth: "authorised e x job st approvals i" and u: "rt_calls u = rt_calls s"
    and audited: "pre_audited job st s u"
    and exec: "stp_type st = T_K8S_APPLY \<and>
        execute_k8s_apply cl x job (step_manifests x st) outs u = (res, t) \<or>
      stp_type st \<in> {T_HELM_INSTALL, T_HELM_UPGRADE} \<and> execute_helm cl x job st u = (res, t)"
    by (rule mutation_trace [OF assms])
  from matching_instruction_in [OF i] auth authorised_facts [OF auth] u audited
    execute_calls_permitted [OF exec]
  show ?thesis by blast
qed

text \<open>
  C27. The manifests of a step are applied in their order, each at most once and none left
  out before a later one; a run that has called the server reports success exactly when the
  server answers every application with success, and has then applied them all.
\<close>

theorem manifests_applied_in_order:
  assumes "mutation_execute e cl x job st approvals is s = (Inr r, t)"
    and "stp_type st = T_K8S_APPLY" and "rt_calls t \<noteq> rt_calls s"
  shows "let expected = apply_calls (job_target_namespace job) (step_manifests x st) in
    (\<exists>k. rt_calls t = rt_calls s @ take k expected) \<and>
    (mu_success r \<longleftrightarrow> all_succeed cl (rt_calls s) expected) \<and>
    (\<not> mu_success r \<or> rt_calls t = rt_calls s @ expected)"
proof -
  obtain u outs where u: "rt_calls u = rt_calls s"
    and exec: "execute_k8s_apply cl x job (step_manifests x st) outs u = (Inr r, t)"
    using mutation_trace [OF assms(1,3)] assms(2) by (metis insertE singletonD step_type.distinct)
  then have run: "apply_manifests cl (job_target_namespace job) (step_manifests x st) outs [] u = (Inr r, t)"
    using assms(3) by (auto simp: execute_k8s_apply_def ret_def split: if_splits)
  from apply_manifests_calls [of cl "job_target_namespace job" "step_manifests x st" outs "[]" u]
    apply_manifests_outcome [of cl "job_target_namespace job" "step_manifests x st" outs "[]" u]
  show ?thesis unfolding run Let_def u apply_calls_def take_map by auto
qed

section \<open>An authorised mutation\<close>

definition demo_mutation_executor :: mutation_executor where
  "demo_mutation_executor = \<lparr>mx_load = demo_bundle, mx_k8s = True, mx_helm = True,
     mx_excluded = new_exclusions [''Ingress''] [''kube-root-ca.crt''] [''istio-'']\<rparr>"

definition demo_approval :: human_approval where
  "demo_approval = \<lparr>apr_id = ''a'', apr_job_id = ''j'', apr_approver_id = ''u'',
     apr_scope = Scope_MUTATION, apr_ticket = ''t'', apr_statement = ''ok'',
     apr_correlation_id = None, apr_trace_id = None, apr_approver_role = None,
     apr_expires_at = Some 1000, apr_resource_refs = [], apr_phase_ids = [], apr_step_ids = [],
     apr_fingerprint = None, apr_policy_exception_id = None\<rparr>"

text \<open>The step applied with this approval and a continue instruction that carries the token.\<close>

definition demo_mutation :: "string option \<Rightarrow> (py_error + mutation_result) \<times> runtime" where
  "demo_mutation token = mutation_execute unit_env demo_clients demo_mutation_executor
     demo_exec_job demo_apply_step [demo_approval]
     [(demo_instruction I_CONTINUE)\<lparr>ins_approval_token := token\<rparr>] demo_runtime"

lemma demo_mutation_applies:
  "(case demo_mutation None of (res, t) \<Rightarrow>
     (case res of Inl _ \<Rightarrow> False | Inr r \<Rightarrow> mu_success r) \<and>
     rt_calls t = [K8sApply (demo_manifest ''a'') ''ns''])"
  by code_simp

lemma demo_mutation_run:
  "\<exists>r t. demo_mutation None = (Inr r, t) \<and> mu_success r \<and>
     rt_calls t = [K8sApply (demo_manifest ''a'') ''ns'']"
  using demo_mutation_applies by (auto split: prod.splits sum.splits)

text \<open>
  The instruction is scanned for secrets, and the name of its approval token makes any token
  a secret: an instruction that carries one can never release a mutation.
\<close>

lemma approval_token_blocks_mutation:
  "(case demo_mutation (Some ''ticket 123'') of (res, t) \<Rightarrow>
     (case res of Inl _ \<Rightarrow> False
      | Inr r \<Rightarrow> map pb_code (mu_policy_blocks r) = [''SECRET_VALUES_BLOCKED'']) \<and>
     rt_calls t = [])"
  by code_simp

theorem no_mutation_without_authority_witness:
  "continue_for demo_apply_step (demo_instruction I_CONTINUE) \<and>
   authorised unit_env demo_mutation_executor demo_exec_job demo_apply_step [demo_approval]
     (demo_instruction I_CONTINUE)"
proof -
  obtain r t where run: "demo_mutation None = (Inr r, t)"
    and calls: "rt_calls t = [K8sApply (demo_manifest ''a'') ''ns'']"
    using demo_mutation_run by blast
  have token: "(demo_instruction I_CONTINUE)\<lparr>ins_approval_token := None\<rparr> = demo_instruction I_CONTINUE"
    by (simp add: demo_instruction_def)
  have "rt_calls t \<noteq> rt_calls demo_runtime" by (simp add: calls demo_runtime_def)
  from no_mutation_without_authority [OF run [unfolded demo_mutation_def token] this]
  show ?thesis by simp
qed

theorem manifests_applied_in_order_witness:
  "all_succeed demo_clients [] (apply_calls ''ns'' (step_manifests demo_mutation_executor demo_apply_step))"
proof -
  obtain r t where run: "demo_mutation None = (Inr r, t)" and ok: "mu_success r"
    and calls: "rt_calls t = [K8sApply (demo_manifest ''a'') ''ns'']"
    using demo_mutation_run by blast
  have "rt_calls t \<noteq> rt_calls demo_runtime" "stp_type demo_apply_step = T_K8S_APPLY"
    by (simp_all add: calls demo_runtime_def demo_apply_step_def demo_step_def)
  from manifests_applied_in_order [OF run [unfolded demo_mutation_def] this(2,1)] ok
  show ?thesis by (simp add: Let_def demo_runtime_def demo_exec_job_def)
qed

section \<open>The Helm release\<close>

text \<open>A mapping anywhere in the value names the release and says it is deployed.\<close>

fun deployed_in :: "string \<Rightarrow> json \<Rightarrow> bool" where
  "deployed_in release_name (JArr xs) = list_ex (deployed_in release_name) xs"
| "deployed_in release_name (JObj d) =
     (deployed_entry release_name d \<or> list_ex (\<lambda>kv. deployed_in release_name (snd kv)) d)"
| "deployed_in release_name _ = False"

lemma deployed_container: "deployed_in n v \<Longrightarrow> container v"
  by (cases v) (simp_all add: container_def)

lemma search_deployed_iff: "search_deployed n vs \<longleftrightarrow> list_ex (deployed_in n) vs"
proof (induction n vs rule: search_deployed.induct)
  case (2 n v vs)
  have members: "list_ex (deployed_in n) (rev (filter container (map snd d)) @ vs) \<longleftrightarrow>
      list_ex (\<lambda>kv. deployed_in n (snd kv)) d \<or> list_ex (deployed_in n) vs" for d
    by (auto simp: list_ex_iff dest: deployed_container)
  show ?case
  proof (cases v)
    case (JArr xs)
    with 2 show ?thesis by (auto simp: list_ex_iff)
  next
    case (JObj d)
    with 2 members show ?thesis by auto
  qed (use 2 in simp_all)
qed simp

text \<open>
  The iterative search over the status answer always ends, and it finds the release
  deployed exactly when some mapping nested anywhere in a successful answer names the
  release with the status deployed.
\<close>

lemma release_search_is_exact:
  "helm_release_is_deployed r release_name \<longleftrightarrow>
     mr_success r \<and> (\<exists>d. mr_data r = Some d \<and> deployed_in release_name (JObj d))"
  by (simp add: helm_release_is_deployed_def search_deployed_iff split: option.splits)

text \<open>
  C28. A Helm change whose outcome is not known is never reported as plainly failed: when a
  failure is reported without the unknown-outcome mark, either no call was made, or the one
  call was answered with a failure that is not ambiguous. And success is only reported for
  a successful answer, or after the status call has shown the release deployed.
\<close>

theorem helm_outcome_is_sound:
  assumes "execute_helm cl x job st s = (Inr r, t)"
  shows "(mu_success r \<or> mu_unknown_outcome r \<or> rt_calls t = rt_calls s \<or>
      (\<exists>req q. rt_calls t = rt_calls s @ [HelmInstallUpgrade req] \<and>
         cl (rt_calls s) (HelmInstallUpgrade req) = Inr q \<and>
         \<not> mr_success q \<and> \<not> ambiguous_transport_failure q)) \<and>
    (\<not> mu_success r \<or> (\<exists>req q. cl (rt_calls s) (HelmInstallUpgrade req) = Inr q \<and>
         (mr_success q \<and> rt_calls t = rt_calls s @ [HelmInstallUpgrade req] \<or>
          (\<exists>q'. cl (rt_calls s @ [HelmInstallUpgrade req])
              (HelmStatus (hr_release req) (job_target_namespace job)) = Inr q' \<and>
            helm_release_is_deployed q' (hr_release req)))))"
proof -
  let ?found = "helm_release_and_chart st"
  show ?thesis
  proof (cases "mx_helm x \<and> both_truthy ?found \<and> (\<exists>v. load_values x (stp_values_refs st) [] = Inr v)")
    case False
    then have "\<not> mu_success r \<and> rt_calls t = rt_calls s"
    proof (cases "load_values x (stp_values_refs st) []")
      case (Inl failed)
      have "\<not> mu_success failed"
      proof -
        have "load_values x refs m = Inl f \<Longrightarrow> \<not> mu_success f" for refs m f
          by (induction refs arbitrary: m)
            (auto simp: mutation_failed_def mutation_result_of_def split: bundle_file.splits)
        with Inl show ?thesis by blast
      qed
      with Inl assms show ?thesis
        by (auto simp: execute_helm_def Let_def ret_def mutation_failed_def mutation_result_of_def
            split: if_splits)
    next
      case (Inr v)
      with False assms show ?thesis
        by (auto simp: execute_helm_def Let_def ret_def mutation_failed_def mutation_result_of_def
            split: if_splits)
    qed
    then show ?thesis by simp
  next
    case True
    then obtain v where helm: "mx_helm x" and found: "both_truthy ?found"
      and v: "load_values x (stp_values_refs st) [] = Inr v" by blast
    let ?name = "opt_or (fst ?found) []"
    let ?req = "helm_request_of job st ?name (opt_or (snd ?found) []) v
        (opt_or_opt (opt_or_opt (metadata_str st ''install_timeout'')
          (metadata_str st ''helm_timeout'')) (metadata_str st ''timeout''))"
    have req: "hr_release ?req = ?name" by (simp add: helm_request_of_def)
    note program = assms [unfolded execute_helm_def Let_def v sum.case]
    show ?thesis
    proof (cases "cl (rt_calls s) (HelmInstallUpgrade ?req)")
      case (Inl name)
      with program helm found show ?thesis
        by (auto simp: bind_def attempt_def mcp_call_def ret_def mutation_failed_def
            mutation_result_of_def)
    next
      case (Inr q)
      consider "mr_success q" | "\<not> mr_success q" "\<not> ambiguous_transport_failure q"
        | "\<not> mr_success q" "ambiguous_transport_failure q" by blast
      then show ?thesis
      proof cases
        case 1
        with Inr program helm found
        have "rt_calls t = rt_calls s @ [HelmInstallUpgrade ?req]"
          by (auto simp: bind_def attempt_def mcp_call_def ret_def)
        moreover have "mu_success r"
          using 1 Inr program helm found
          by (auto simp: bind_def attempt_def mcp_call_def ret_def mutation_result_of_def)
        ultimately show ?thesis using 1 Inr by blast
      next
        case 2
        with Inr program helm found show ?thesis
          by (auto simp: bind_def attempt_def mcp_call_def ret_def mutation_failed_def
              mutation_result_of_def)
      next
        case 3
        let ?call = "HelmStatus ?name (job_target_namespace job)"
        show ?thesis
        proof (cases "cl (rt_calls s @ [HelmInstallUpgrade ?req]) ?call")
          case (Inl name)
          with 3 Inr program helm found show ?thesis
            by (simp add: bind_def attempt_def mcp_call_def)
        next
          case (Inr q')
          with 3 \<open>cl (rt_calls s) (HelmInstallUpgrade ?req) = Inr q\<close> program helm found req
          show ?thesis
            by (cases "helm_release_is_deployed q' ?name")
              (auto simp: bind_def attempt_def mcp_call_def ret_def mutation_failed_def
                mutation_result_of_def intro!: exI [of _ ?req])
        qed
      qed
    qed
  qed
qed

text \<open>Clients whose Helm server times out and then reports the release deployed.\<close>

definition timed_out :: mcp_result where
  "timed_out = demo_result\<lparr>mr_success := False, mr_error := Some
     \<lparr>me_code = E_TIMEOUT_EXCEEDED, me_message = ''timeout'', me_retryable = True, me_raw_type = None\<rparr>\<rparr>"

definition flaky_clients :: clients where
  "flaky_clients h c = (case c of
     HelmInstallUpgrade r \<Rightarrow> Inr timed_out
   | HelmStatus name ns \<Rightarrow> Inr (demo_result\<lparr>mr_data := Some
       [(''releases'', JArr [JObj [(''name'', JStr name), (''status'', JStr ''DEPLOYED'')]])]\<rparr>)
   | _ \<Rightarrow> Inr demo_result)"

definition demo_helm_step :: exec_step where
  "demo_helm_step = (demo_step ''j'' ''s'')\<lparr>stp_type := T_HELM_INSTALL,
     stp_metadata := [(''release_name'', JStr ''web''), (''chart_ref'', JStr ''charts/web'')]\<rparr>"

lemma demo_helm_run:
  "(case execute_helm flaky_clients demo_mutation_executor demo_exec_job demo_helm_step demo_runtime of
     (res, t) \<Rightarrow> (case res of Inl _ \<Rightarrow> False | Inr r \<Rightarrow> mu_success r))"
  by code_simp

theorem helm_outcome_is_sound_witness:
  "\<exists>req q'. flaky_clients [HelmInstallUpgrade req] (HelmStatus (hr_release req) ''ns'') = Inr q' \<and>
     helm_release_is_deployed q' (hr_release req)"
proof -
  obtain r t where run: "execute_helm flaky_clients demo_mutation_executor demo_exec_job
      demo_helm_step demo_runtime = (Inr r, t)" and ok: "mu_success r"
    using demo_helm_run by (auto split: prod.splits sum.splits)
  from helm_outcome_is_sound [OF run] ok show ?thesis
    by (auto simp: flaky_clients_def timed_out_def demo_runtime_def demo_exec_job_def)
qed

text \<open>
  The policy judges the release named on the command line, the executor installs the release
  named in the metadata: an approval for one release lets another one be installed.
\<close>

lemma judged_release_is_not_installed_release:
  "let st = demo_helm_step\<lparr>stp_commands :=
       [[(''command'', JStr ''helm upgrade --install shop charts/shop''), (''mutating'', JBool True)]]\<rparr> in
     map rr_helm_release_name (resource_refs_of st [] ''ns'' []) = [Some ''shop''] \<and>
     fst (helm_release_and_chart st) = Some ''web''"
  by code_simp

end
