(* ===== verification/Instructions.thy ===== *)
theory Instructions
  imports Agent
begin

text \<open>
  The gate for the instructions of the external controller (\<open>runtime/instructions.py\<close>):
  each is recorded, checked against the job's state and the instruction policy, and applied
  to the job when it is accepted.
\<close>

section \<open>Model\<close>

definition SAFE_RESUME_INSTRUCTIONS :: "instruction_type set" where
  "SAFE_RESUME_INSTRUCTIONS =
     {I_CONTINUE, I_RETRY, I_WAIT, I_SKIP, I_ABORT, I_REFRESH_OBSERVATION}"

definition UNSAFE_WITHOUT_DEDICATED_POLICY :: "instruction_type set" where
  "UNSAFE_WITHOUT_DEDICATED_POLICY =
     {I_PATCH_MANIFEST, I_REPLACE_MANIFEST, I_INVOKE_MCP_TOOL}"

record instruction_decision =
  id_accepted :: bool
  id_status :: string
  id_reason_code :: "string option"
  id_policy_blocks :: "policy_block list"

definition instruction_block :: "string \<Rightarrow> string \<Rightarrow> policy_block" where
  "instruction_block code message =
     \<lparr>pb_code = code, pb_message = message, pb_severity = Pol_BLOCK,
      pb_guardrail = Some ''external_instruction''\<rparr>"

definition instruction_policy_blocks :: "exec_job \<Rightarrow> instruction \<Rightarrow> policy_block list" where
  "instruction_policy_blocks job i =
     (let allowed_non_decision =
            {I_ABORT, I_REFRESH_OBSERVATION} \<union>
            (if job_st job \<in> {J_AWAITING_HUMAN_APPROVAL, J_EXECUTING} then {I_CONTINUE} else {}) \<union>
            (if job_st job = J_ROLLBACK_REQUESTED then {I_ROLLBACK} else {}) in
      (if job_st job \<noteq> J_DECISION_REQUIRED \<and> ins_type i \<notin> allowed_non_decision
       then [instruction_block ''INSTRUCTION_STATE_MISMATCH''
               ''Instruction can only resume a decision-required job.''] else []) @
      (if ins_type i = I_ROLLBACK \<and> job_st job \<noteq> J_ROLLBACK_REQUESTED
       then [instruction_block ''ROLLBACK_STATE_REQUIRED''
               ''Rollback instructions require a rollback-requested job.''] else []) @
      (if ins_type i \<in> UNSAFE_WITHOUT_DEDICATED_POLICY
       then [instruction_block ''UNSAFE_INSTRUCTION_BLOCKED''
               (instruction_type_value (ins_type i) @ '' requires a dedicated policy path.'')]
       else []) @
      (if opt_truthy (ins_replacement_manifest i) \<and> \<not> ins_dry_run_required i
       then [instruction_block ''INSTRUCTION_DRY_RUN_REQUIRED''
               ''Manifest replacement instructions must require dry-run.''] else []))"

definition instruction_audit ::
    "env \<Rightarrow> instruction \<Rightarrow> string \<Rightarrow> json dict \<Rightarrow> ('a agent_scheme, py_error, unit) prog" where
  "instruction_audit e i action details =
     bind (new_id e ''audit'') (\<lambda>aid.
     bind (utc_now e) (\<lambda>now.
     write_event
       \<lparr>aud_id = aid, aud_timestamp = now, aud_actor_type = Act_EXTERNAL_LLM,
        aud_action = action, aud_redacted = True, aud_job_id = Some (ins_job_id i),
        aud_actor_id = Some (ins_controller_id i), aud_correlation_id = ins_correlation_id i,
        aud_trace_id = ins_trace_id i, aud_input_hash = None, aud_output_hash = None,
        aud_details = dict_update
          [(''instruction_id'', JStr (ins_id i)),
           (''instruction_type'', JStr (instruction_type_value (ins_type i))),
           (''issued_by'', JStr (ins_issued_by i))] details\<rparr>))"

text \<open>The step a resumption restarts: the first one waiting for a decision that is not excluded.\<close>

definition resumed_step :: "instruction \<Rightarrow> exec_step list \<Rightarrow> exec_step option" where
  "resumed_step i steps = List.find
     (\<lambda>st. \<not> (opt_truthy (ins_target_step_id i) \<and> ins_target_step_id i \<noteq> Some (stp_id st)) \<and>
       stp_state st = S_DECISION_REQUIRED) steps"

definition skipped_step :: "instruction \<Rightarrow> exec_step list \<Rightarrow> exec_step option" where
  "skipped_step i steps = List.find
     (\<lambda>st. opt_truthy (ins_target_step_id i) \<and> ins_target_step_id i = Some (stp_id st)) steps"

definition apply_safe_instruction ::
    "exec_job \<Rightarrow> instruction \<Rightarrow> ('a agent_scheme, py_error, unit) prog" where
  "apply_safe_instruction job i =
     (if ins_type i = I_ABORT
      then repo_do (save_job (job\<lparr>job_st := J_CANCELLED, job_blocked := False\<rparr>))
      else if ins_type i = I_ROLLBACK
      then repo_do (save_job (job\<lparr>job_decision_required := False, job_blocked := False\<rparr>))
      else if ins_type i \<in> {I_CONTINUE, I_RETRY}
      then
        if job_st job \<in> {J_AWAITING_HUMAN_APPROVAL, J_EXECUTING} then ret ()
        else
          let resume = (job_mode job = M_EXECUTE_AFTER_APPROVAL \<and> job_dry_run_satisfied job) in
          bind (repo_get (\<lambda>r. resumed_step i (get_steps r (job_id job)))) (\<lambda>found.
          seqp
            (case found of
               None \<Rightarrow> ret ()
             | Some st \<Rightarrow> repo_do (save_step
                 (st\<lparr>stp_state := (if resume then S_DRY_RUN_SUCCEEDED else S_PENDING),
                     stp_mutation_status := None, stp_validation_status := None,
                     stp_dry_run_status := (if resume then Some S_DRY_RUN_SUCCEEDED else None)\<rparr>)))
            (repo_do (save_job
               (job\<lparr>job_st := (if resume then J_EXECUTING else J_DRY_RUN_READY),
                    job_decision_required := False, job_blocked := False\<rparr>))))
      else if ins_type i = I_SKIP
      then
        bind (repo_get (\<lambda>r. skipped_step i (get_steps r (job_id job)))) (\<lambda>found.
        seqp
          (case found of
             None \<Rightarrow> ret ()
           | Some st \<Rightarrow> repo_do (save_step (st\<lparr>stp_state := S_SKIPPED_BY_INSTRUCTION\<rparr>)))
          (repo_do (save_job (job\<lparr>job_st := J_DRY_RUN_READY, job_decision_required := False,
             job_blocked := False\<rparr>))))
      else ret ())"

definition receive ::
    "env \<Rightarrow> instruction \<Rightarrow> ('a agent_scheme, py_error, instruction_decision) prog" where
  "receive e i =
     bind (repo_get (\<lambda>r. get_job r (ins_job_id i))) (\<lambda>found.
     seqp (instruction_audit e i ''instruction_received'' [])
     (case found of
        None \<Rightarrow>
          seqp (instruction_audit e i ''instruction_rejected''
                  [(''reason_code'', JStr ''JOB_NOT_FOUND'')])
            (ret \<lparr>id_accepted = False, id_status = ''rejected'',
               id_reason_code = Some ''JOB_NOT_FOUND'', id_policy_blocks = []\<rparr>)
      | Some job \<Rightarrow>
          let blocked = instruction_policy_blocks job i in
          if blocked \<noteq> [] then
            seqp (instruction_audit e i ''instruction_policy_blocked''
                    [(''reason_code'', JStr (pb_code (hd blocked)))])
              (ret \<lparr>id_accepted = False, id_status = ''policy_blocked'',
                 id_reason_code = Some (pb_code (hd blocked)), id_policy_blocks = blocked\<rparr>)
          else if ins_type i \<notin> SAFE_RESUME_INSTRUCTIONS then
            seqp (instruction_audit e i ''instruction_rejected''
                    [(''reason_code'', JStr ''UNSUPPORTED_INSTRUCTION_TYPE'')])
              (ret \<lparr>id_accepted = False, id_status = ''rejected'',
                 id_reason_code = Some ''UNSUPPORTED_INSTRUCTION_TYPE'', id_policy_blocks = []\<rparr>)
          else
            seqp (repo_do (save_instruction i))
            (seqp (apply_safe_instruction job i)
            (seqp (instruction_audit e i ''instruction_accepted'' [])
            (ret \<lparr>id_accepted = True, id_status = ''accepted'', id_reason_code = None,
               id_policy_blocks = []\<rparr>)))))"

section \<open>What the gate does\<close>

lemma instruction_audit_logs [step_intros]: "moves same_but_audit (instruction_audit e i action d)"
  unfolding instruction_audit_def by (intro step_intros logging.moves_bind)

lemma instruction_audit_runs:
  assumes "audit_ids_fresh e (Suc n) s"
  shows "\<exists>t. instruction_audit e i action d s = (Inr (), t) \<and> audit_ids_fresh e n t \<and>
    same_but_audit s t"
proof -
  let ?ev = "\<lambda>now. \<lparr>aud_id = new_id_of e (c_ids s) ''audit'', aud_timestamp = now,
      aud_actor_type = Act_EXTERNAL_LLM,
        aud_action = action, aud_redacted = True, aud_job_id = Some (ins_job_id i),
        aud_actor_id = Some (ins_controller_id i), aud_correlation_id = ins_correlation_id i,
        aud_trace_id = ins_trace_id i, aud_input_hash = None, aud_output_hash = None,
        aud_details = dict_update
          [(''instruction_id'', JStr (ins_id i)),
           (''instruction_type'', JStr (instruction_type_value (ins_type i))),
           (''issued_by'', JStr (ins_issued_by i))] d\<rparr>"
  let ?u = "s\<lparr>c_ids := Suc (c_ids s), c_tick := Suc (c_tick s)\<rparr>"
  have run: "instruction_audit e i action d s = write_event (?ev (env_clock e (c_tick s))) ?u"
    by (simp add: instruction_audit_def bind_def new_id_def utc_now_def)
  have "\<exists>t. write_event (?ev (env_clock e (c_tick s))) ?u = (Inr (), t) \<and> audit_ids_fresh e n t \<and>
      same_but_audit ?u t \<and> audit_log t = audit_log s @ [?ev (env_clock e (c_tick s))] \<and>
      c_ids t = Suc (c_ids s)"
    by (rule fresh_write [OF assms]) simp_all
  moreover have "same_but_audit s ?u" by (rule same_repo) simp
  ultimately show ?thesis unfolding run using logging.trans by blast
qed

text \<open>The changes of job state that an instruction may make.\<close>

definition instruction_legal :: "instruction \<Rightarrow> job_state \<Rightarrow> job_state \<Rightarrow> bool" where
  "instruction_legal i a b \<longleftrightarrow> a = b \<or>
     (a = J_DECISION_REQUIRED \<and> b \<in> set (allowed_targets a)) \<or>
     (ins_type i = I_ABORT \<and> b = J_CANCELLED)"

lemma policy_free:
  assumes "instruction_policy_blocks job i = []"
  shows "job_st job = J_DECISION_REQUIRED \<and> ins_type i \<noteq> I_ROLLBACK \<or>
    ins_type i \<in> {I_ABORT, I_REFRESH_OBSERVATION} \<or>
    ins_type i = I_CONTINUE \<and> job_st job \<in> {J_AWAITING_HUMAN_APPROVAL, J_EXECUTING} \<or>
    ins_type i = I_ROLLBACK \<and> job_st job = J_ROLLBACK_REQUESTED"
  using assms by (auto simp: instruction_policy_blocks_def Let_def split: if_splits)

definition instruction_effect ::
    "exec_job \<Rightarrow> instruction \<Rightarrow> 'a agent_scheme \<Rightarrow> 'a agent_scheme \<Rightarrow> bool" where
  "instruction_effect job i s t \<longleftrightarrow>
     audit_log t = audit_log s \<and> c_ids t = c_ids s \<and>
     (get_job (ag_repo t) = get_job (ag_repo s) \<or>
      (\<exists>j'. get_job (ag_repo t) = (get_job (ag_repo s))(job_id job \<mapsto> j') \<and>
        instruction_legal i (job_st job) (job_st j')))"

lemma effect_none: "instruction_effect job i s s"
  by (simp add: instruction_effect_def)

lemma effect_save:
  assumes "instruction_legal i (job_st job) (job_st j')" and "job_id j' = job_id job"
    and "sn_audit (rp_snap r) = audit_log s" and "get_job r = get_job (ag_repo s)"
  shows "instruction_effect job i s (s\<lparr>ag_repo := save_job j' r\<rparr>)"
proof -
  have "get_job (save_job j' r) = (get_job (ag_repo s))(job_id job \<mapsto> j')"
    using assms(2,4) by (intro ext) (simp add: dict_simps)
  with assms show ?thesis
    unfolding instruction_effect_def by (auto simp: audit_log_def)
qed

text \<open>Resuming and skipping need a job that waits for a decision.\<close>

lemma decision_needed:
  assumes "instruction_policy_blocks job i = []" and "ins_type i \<in> {I_CONTINUE, I_RETRY, I_SKIP}"
    and "job_st job \<notin> {J_AWAITING_HUMAN_APPROVAL, J_EXECUTING} \<or> ins_type i = I_SKIP"
  shows "instruction_legal i (job_st job) J_EXECUTING" "instruction_legal i (job_st job) J_DRY_RUN_READY"
proof -
  have "job_st job = J_DECISION_REQUIRED" using policy_free [OF assms(1)] assms(2,3) by auto
  then show "instruction_legal i (job_st job) J_EXECUTING"
    "instruction_legal i (job_st job) J_DRY_RUN_READY"
    by (simp_all add: instruction_legal_def allowed_targets_def)
qed

lemma apply_effect:
  assumes "instruction_policy_blocks job i = []"
  shows "runs (apply_safe_instruction job i) s (\<lambda>_. instruction_effect job i s)"
proof -
  note decide = decision_needed [OF assms]
  consider "ins_type i = I_ABORT" | "ins_type i = I_ROLLBACK"
    | "ins_type i \<in> {I_CONTINUE, I_RETRY}" "job_st job \<in> {J_AWAITING_HUMAN_APPROVAL, J_EXECUTING}"
    | "ins_type i \<in> {I_CONTINUE, I_RETRY}" "job_st job \<notin> {J_AWAITING_HUMAN_APPROVAL, J_EXECUTING}"
    | "ins_type i = I_SKIP" | "ins_type i \<notin> {I_ABORT, I_ROLLBACK, I_CONTINUE, I_RETRY, I_SKIP}"
    by auto
  then show ?thesis
  proof cases
    case 4
    with decide have "instruction_legal i (job_st job) J_EXECUTING"
      "instruction_legal i (job_st job) J_DRY_RUN_READY" by auto
    with 4 show ?thesis
      by (cases "resumed_step i (get_steps (ag_repo s) (job_id job))")
         (auto simp: apply_safe_instruction_def Let_def runs_simps audit_log_def
            intro!: effect_save)
  next
    case 5
    with decide have "instruction_legal i (job_st job) J_DRY_RUN_READY" by auto
    with 5 show ?thesis
      by (cases "skipped_step i (get_steps (ag_repo s) (job_id job))")
         (auto simp: apply_safe_instruction_def runs_simps audit_log_def intro!: effect_save)
  qed (auto simp: apply_safe_instruction_def runs_simps effect_none instruction_legal_def
      audit_log_def intro!: effect_save)
qed

text \<open>The instructions the gate accepts for a job.\<close>

definition acceptable :: "exec_job option \<Rightarrow> instruction \<Rightarrow> bool" where
  "acceptable found i \<longleftrightarrow> (case found of None \<Rightarrow> False | Some job \<Rightarrow>
     (case ins_type i of
        I_ABORT \<Rightarrow> True
      | I_REFRESH_OBSERVATION \<Rightarrow> True
      | I_CONTINUE \<Rightarrow> job_st job \<in> {J_DECISION_REQUIRED, J_AWAITING_HUMAN_APPROVAL, J_EXECUTING}
      | I_RETRY \<Rightarrow> job_st job = J_DECISION_REQUIRED
      | I_WAIT \<Rightarrow> job_st job = J_DECISION_REQUIRED
      | I_SKIP \<Rightarrow> job_st job = J_DECISION_REQUIRED
      | _ \<Rightarrow> False) \<and>
     \<not> (opt_truthy (ins_replacement_manifest i) \<and> \<not> ins_dry_run_required i))"

lemma acceptable_iff:
  "acceptable (Some job) i \<longleftrightarrow>
    instruction_policy_blocks job i = [] \<and> ins_type i \<in> SAFE_RESUME_INSTRUCTIONS"
  by (cases "ins_type i")
     (auto simp: acceptable_def instruction_policy_blocks_def Let_def
        UNSAFE_WITHOUT_DEDICATED_POLICY_def SAFE_RESUME_INSTRUCTIONS_def)

lemma audit_then:
  assumes "audit_ids_fresh e (Suc n) s"
    and "\<And>t. audit_ids_fresh e n t \<Longrightarrow> same_but_audit s t \<Longrightarrow> P () t"
  shows "runs (instruction_audit e i action d) s P"
  using instruction_audit_runs [OF assms(1), of i action d] assms(2) by (auto simp: runs_iff)

lemma fresh_kept:
  "audit_ids_fresh e n s \<Longrightarrow> audit_log t = audit_log s \<Longrightarrow> c_ids t = c_ids s \<Longrightarrow> audit_ids_fresh e n t"
  by (simp add: audit_ids_fresh_def audit_log_def)

lemma receive_runs:
  assumes fresh: "audit_ids_fresh e 2 s"
    and no: "\<And>d t. \<not> id_accepted d \<Longrightarrow> \<not> acceptable (get_job (ag_repo s) (ins_job_id i)) i \<Longrightarrow>
      same_but_audit s t \<Longrightarrow> P d t"
    and yes: "\<And>d job s1 s2 t. id_accepted d \<Longrightarrow> get_job (ag_repo s) (ins_job_id i) = Some job \<Longrightarrow>
      acceptable (Some job) i \<Longrightarrow> same_but_audit s s1 \<Longrightarrow>
      instruction_effect job i (s1\<lparr>ag_repo := save_instruction i (ag_repo s1)\<rparr>) s2 \<Longrightarrow>
      same_but_audit s2 t \<Longrightarrow> P d t"
  shows "runs (receive e i) s P"
  unfolding receive_def runs_bind runs_seqp runs_repo
proof (rule audit_then [of e 1])
  show "audit_ids_fresh e (Suc 1) s" using fresh by (simp add: numeral_2_eq_2)
  fix s1 assume f1: "audit_ids_fresh e 1 s1" and s1: "same_but_audit s s1"
  have log: "runs (instruction_audit e i action d) s1 Q"
    if "\<And>t. same_but_audit s t \<Longrightarrow> Q () t" for action d Q
    by (rule audit_then [of e 0]) (use f1 s1 that logging.trans in auto)
  show "runs (case get_job (ag_repo s) (ins_job_id i) of
      None \<Rightarrow> seqp (instruction_audit e i ''instruction_rejected''
                  [(''reason_code'', JStr ''JOB_NOT_FOUND'')])
            (ret \<lparr>id_accepted = False, id_status = ''rejected'',
               id_reason_code = Some ''JOB_NOT_FOUND'', id_policy_blocks = []\<rparr>)
    | Some job \<Rightarrow>
          let blocked = instruction_policy_blocks job i in
          if blocked \<noteq> [] then
            seqp (instruction_audit e i ''instruction_policy_blocked''
                    [(''reason_code'', JStr (pb_code (hd blocked)))])
              (ret \<lparr>id_accepted = False, id_status = ''policy_blocked'',
                 id_reason_code = Some (pb_code (hd blocked)), id_policy_blocks = blocked\<rparr>)
          else if ins_type i \<notin> SAFE_RESUME_INSTRUCTIONS then
            seqp (instruction_audit e i ''instruction_rejected''
                    [(''reason_code'', JStr ''UNSUPPORTED_INSTRUCTION_TYPE'')])
              (ret \<lparr>id_accepted = False, id_status = ''rejected'',
                 id_reason_code = Some ''UNSUPPORTED_INSTRUCTION_TYPE'', id_policy_blocks = []\<rparr>)
          else
            seqp (repo_do (save_instruction i))
            (seqp (apply_safe_instruction job i)
            (seqp (instruction_audit e i ''instruction_accepted'' [])
            (ret \<lparr>id_accepted = True, id_status = ''accepted'', id_reason_code = None,
               id_policy_blocks = []\<rparr>)))) s1 P"
  proof (cases "get_job (ag_repo s) (ins_job_id i)")
    case None
    then show ?thesis by (auto simp: runs_simps acceptable_def intro!: log no)
  next
    case (Some job)
    show ?thesis
    proof (cases "acceptable (Some job) i")
      case False
      with Some show ?thesis by (auto simp: acceptable_iff runs_simps Let_def intro!: log no)
    next
      case True
      let ?s2 = "s1\<lparr>ag_repo := save_instruction i (ag_repo s1)\<rparr>"
      have f2: "audit_ids_fresh e 1 ?s2"
        by (rule fresh_kept [OF f1]) (simp_all add: audit_log_def)
      have "runs (seqp (apply_safe_instruction job i)
            (seqp (instruction_audit e i ''instruction_accepted'' [])
            (ret \<lparr>id_accepted = True, id_status = ''accepted'', id_reason_code = None,
               id_policy_blocks = []\<rparr>))) ?s2 P"
        unfolding runs_seqp
      proof (rule runs_mono [OF apply_effect])
        show "instruction_policy_blocks job i = []" using True by (simp add: acceptable_iff)
        fix x t assume eff: "instruction_effect job i ?s2 t"
        have f3: "audit_ids_fresh e (Suc 0) t"
          using eff by (intro fresh_kept [OF f2 [unfolded One_nat_def]]) (simp_all add: instruction_effect_def)
        show "runs (instruction_audit e i ''instruction_accepted'' []) t
            (\<lambda>_ t. runs (ret \<lparr>id_accepted = True, id_status = ''accepted'', id_reason_code = None,
               id_policy_blocks = []\<rparr>) t P)"
          by (rule audit_then [OF f3]) (auto simp: runs_basic intro!: yes [OF _ Some True s1 eff])
      qed
      with True Some show ?thesis by (simp add: acceptable_iff Let_def runs_seqp)
    qed
  qed
qed

text \<open>
  C31. With fresh identifiers the gate always answers, and it accepts exactly the acceptable
  instructions: an abort or refresh of any known job, a continuation of a job that waits for
  a decision or an approval or executes, a retry, wait or skip of a job that waits for a
  decision, never with a replacement manifest that skips the dry run.
\<close>

theorem gate_accepts_exactly:
  assumes "audit_ids_fresh e 2 s"
  shows "\<exists>d t. receive e i s = (Inr d, t) \<and>
    (id_accepted d \<longleftrightarrow> acceptable (get_job (ag_repo s) (ins_job_id i)) i)"
proof -
  have "runs (receive e i) s
      (\<lambda>d t. id_accepted d \<longleftrightarrow> acceptable (get_job (ag_repo s) (ins_job_id i)) i)"
    by (rule receive_runs [OF assms]) simp_all
  then show ?thesis by (simp add: runs_iff)
qed

lemma stored_job_id: "repo_inv r \<Longrightarrow> get_job r jid = Some j \<Longrightarrow> job_id j = jid"
  by (auto simp: repo_inv_def snapshot_ok_def keyed_def get_job_def dest!: map_of_SomeD)

text \<open>
  An instruction never touches another job and never makes a job disappear; a rejected
  one only adds to the audit log; an accepted one keeps the job's state, leads it from
  decision-required along the transition table, or cancels it by an abort.
\<close>

theorem instruction_changes_are_bounded:
  assumes "audit_ids_fresh e 2 s" and "repo_inv (ag_repo s)"
  shows "\<exists>d t. receive e i s = (Inr d, t) \<and> audit_grows s t \<and>
    (id_accepted d \<or> same_but_audit s t) \<and>
    (\<forall>jid. case get_job (ag_repo s) jid of
        None \<Rightarrow> get_job (ag_repo t) jid = None
      | Some j \<Rightarrow> \<exists>j'. get_job (ag_repo t) jid = Some j' \<and>
          (if jid = ins_job_id i then instruction_legal i (job_st j) (job_st j') else j' = j))"
    (is "\<exists>d t. _ = (Inr d, t) \<and> ?P d t")
proof -
  have "runs (receive e i) s ?P"
  proof (rule receive_runs [OF assms(1)])
    fix d :: instruction_decision and t assume "same_but_audit s t"
    then show "?P d t"
      by (auto simp: same_but_audit_facts instruction_legal_def split: option.splits)
  next
    fix d :: instruction_decision and job s1 s2 t
    assume acc: "id_accepted d" and job: "get_job (ag_repo s) (ins_job_id i) = Some job"
      and s1: "same_but_audit s s1" and t: "same_but_audit s2 t"
      and eff: "instruction_effect job i (s1\<lparr>ag_repo := save_instruction i (ag_repo s1)\<rparr>) s2"
    have jobs: "get_job (ag_repo s2) = get_job (ag_repo s) \<or>
        (\<exists>j'. get_job (ag_repo s2) = (get_job (ag_repo s))(ins_job_id i \<mapsto> j') \<and>
          instruction_legal i (job_st job) (job_st j'))"
      using eff same_but_audit_facts(1) [OF s1] stored_job_id [OF assms(2) job]
      by (simp add: instruction_effect_def)
    have "audit_log s2 = audit_log s1"
      using eff by (simp add: instruction_effect_def audit_log_def)
    then have "audit_grows s t"
      using same_but_audit_facts(2) [OF s1] same_but_audit_facts(2) [OF t]
      by (auto simp: audit_grows_def)
    moreover have "case get_job (ag_repo s) jid of
        None \<Rightarrow> get_job (ag_repo t) jid = None
      | Some j \<Rightarrow> \<exists>j'. get_job (ag_repo t) jid = Some j' \<and>
          (if jid = ins_job_id i then instruction_legal i (job_st j) (job_st j') else j' = j)" for jid
      using job jobs same_but_audit_facts(1) [OF t]
      by (cases "jid = ins_job_id i") (auto simp: instruction_legal_def split: option.splits)
    ultimately show "?P d t" using acc by blast
  qed
  then show ?thesis by (simp add: runs_iff)
qed

text \<open>
  No rollback instruction is ever accepted or stored, although the policy of the gate
  admits it for a job whose rollback has been requested.
\<close>

theorem rollback_is_never_accepted:
  "case receive e (i\<lparr>ins_type := I_ROLLBACK\<rparr>) s of
     (Inl err, t) \<Rightarrow> same_but_audit s t
   | (Inr d, t) \<Rightarrow> \<not> id_accepted d \<and> same_but_audit s t"
proof -
  let ?i = "i\<lparr>ins_type := I_ROLLBACK\<rparr>"
  have unsafe: "I_ROLLBACK \<notin> SAFE_RESUME_INSTRUCTIONS" by (simp add: SAFE_RESUME_INSTRUCTIONS_def)
  have "moves same_but_audit (receive e ?i)"
    unfolding receive_def Let_def using unsafe
    by (auto simp: repo_get_def intro!: step_intros logging.moves_bind logging.moves_seq
        logging.moves_ret logging.moves_gets)
  moreover have "\<not> id_accepted d" if "receive e ?i s = (Inr d, t)" for d t
    using that unsafe unfolding receive_def
    by (auto simp: bind_Inr seqp_Inr Let_def ret_def split: option.splits if_splits)
  ultimately show ?thesis
    by (auto split: prod.splits sum.splits dest!: movesD [of _ _ s])
qed

definition demo_job :: "job_state \<Rightarrow> exec_job" where
  "demo_job st =
     \<lparr>job_id = ''j'', job_bundle_id = ''b'', job_target_namespace = ''ns'', job_st = st,
      job_name = None, job_mop_id = None, job_run_id = None, job_correlation_id = None,
      job_trace_id = None, job_source_namespace = None, job_mode = M_EXECUTE_AFTER_APPROVAL,
      job_current_phase_id = None, job_current_step_id = None, job_dry_run_satisfied = True,
      job_approval_status = A_ACTIVE, job_decision_required = False, job_blocked = False,
      job_progress = \<lparr>pr_total_phases = 0, pr_completed_phases = 0, pr_total_steps = 0,
        pr_completed_steps = 0, pr_failed_steps = 0\<rparr>,
      job_created_at = 0, job_updated_at = 0, job_completed_at = None, job_links = []\<rparr>"

definition demo_agent :: "job_state \<Rightarrow> agent" where
  "demo_agent st = \<lparr>c_tick = 0, c_ids = 0, ag_repo = save_job (demo_job st) (repo_load None)\<rparr>"

lemma demo_agent_fresh: "audit_ids_fresh unit_env n (demo_agent st)"
proof -
  have "inj (\<lambda>k. new_id_of unit_env k ''audit'')"
    by (rule injI) (simp add: new_id_of_def unit_env_def)
  then show ?thesis
    by (simp add: audit_ids_fresh_def demo_agent_def save_job_def repo_load_def empty_snapshot_def
        distinct_map inj_on_subset [OF _ subset_UNIV])
qed

lemma demo_agent_inv: "repo_inv (ag_repo (demo_agent st))"
  using repo_step_inv [OF repo_load_none_inv, of "Op_job (demo_job st)"]
  by (simp add: demo_agent_def)

lemma demo_agent_job: "get_job (ag_repo (demo_agent st)) ''j'' = Some (demo_job st)"
  by (simp add: demo_agent_def dict_simps demo_job_def)

theorem gate_accepts_exactly_witness:
  "\<exists>d t. receive unit_env (demo_instruction I_RETRY) (demo_agent J_DECISION_REQUIRED) = (Inr d, t) \<and>
     id_accepted d"
  using gate_accepts_exactly
    [OF demo_agent_fresh [of 2 J_DECISION_REQUIRED], of "demo_instruction I_RETRY"]
  by (simp add: demo_agent_job demo_instruction_def acceptable_def demo_job_def opt_truthy_def)

theorem instruction_changes_are_bounded_witness:
  "\<exists>d t. receive unit_env (demo_instruction I_RETRY) (demo_agent J_EXECUTING) = (Inr d, t) \<and>
     audit_grows (demo_agent J_EXECUTING) t"
  using instruction_changes_are_bounded [OF demo_agent_fresh demo_agent_inv,
      of "demo_instruction I_RETRY" J_EXECUTING] by blast

text \<open>
  The gate's own policy admits a rollback for a job whose rollback has been requested; and an
  abort is accepted for a completed job, which the transition table would not let be cancelled.
\<close>

lemma rollback_passes_policy:
  "instruction_policy_blocks (demo_job J_ROLLBACK_REQUESTED) (demo_instruction I_ROLLBACK) = []"
  by (simp add: instruction_policy_blocks_def demo_job_def demo_instruction_def Let_def
      UNSAFE_WITHOUT_DEDICATED_POLICY_def opt_truthy_def)

lemma abort_of_completed_job:
  "acceptable (Some (demo_job J_COMPLETED)) (demo_instruction I_ABORT) \<and>
   map_option job_st (get_job (ag_repo (snd (apply_safe_instruction (demo_job J_COMPLETED)
     (demo_instruction I_ABORT) (demo_agent J_COMPLETED)))) ''j'') = Some J_CANCELLED \<and>
   J_CANCELLED \<notin> set (allowed_targets J_COMPLETED)"
  by (simp add: acceptable_def demo_instruction_def opt_truthy_def apply_safe_instruction_def
      repo_do_def modify_def demo_agent_def dict_simps demo_job_def allowed_targets_def)

text \<open>
  A continuation marks the resumed step as dry-run succeeded although its dry run has failed,
  as soon as the dry run of any other step has satisfied the job.
\<close>

lemma continue_forges_dry_run:
  "let failed = (demo_step ''j'' ''s'')\<lparr>stp_state := S_DECISION_REQUIRED,
         stp_dry_run_status := Some S_DRY_RUN_FAILED\<rparr>;
       before = (demo_agent J_DECISION_REQUIRED)\<lparr>ag_repo :=
         save_step failed (ag_repo (demo_agent J_DECISION_REQUIRED))\<rparr> in
   map stp_dry_run_status (get_steps (ag_repo (snd (apply_safe_instruction
     (demo_job J_DECISION_REQUIRED) (demo_instruction I_CONTINUE) before))) ''j'')
   = [Some S_DRY_RUN_SUCCEEDED]"
  by code_simp

end
