(* ===== verification/Worker.thy ===== *)
theory Worker
  imports Observations Mutation Instructions Scheduler JobQueue Locks PlanGraph
begin

text \<open>
  The worker (\<open>runtime/worker.py\<close>): one method of \<open>WorkerRuntime\<close> per definition, over the
  world of a worker process: the repository, the calls made, the queue, the leases, and the
  locks and requests the process holds in memory. Metrics and log lines are left out; a lock
  operation takes the clock readings it may need up front.
\<close>

section \<open>The world of a worker\<close>

record world = runtime +
  w_queue :: job_queue
  w_redis :: redis
  w_active_locks :: "namespace_lock dict"
  w_pause_requested :: "string set"
  w_cancel_requested :: "string set"

text \<open>What a worker is made of: its name, the leases, the waits and the executors.\<close>

record worker =
  wk_id :: string
  wk_lease_seconds :: int
  wk_ttl_seconds :: int
  wk_waits :: wait_config
  wk_clients :: clients
  wk_dry_runs :: "dry_run_executor option"
  wk_dry_run_factory :: "(exec_job \<Rightarrow> dry_run_executor option) option"
  wk_mutations :: "mutation_executor option"
  wk_mutation_factory :: "(exec_job \<Rightarrow> mutation_executor option) option"

record runtime_decision =
  rd_job_id :: "string option"
  rd_state :: "job_state option"
  rd_action :: string
  rd_requeue :: bool

definition decided :: "string \<Rightarrow> job_state \<Rightarrow> string \<Rightarrow> bool \<Rightarrow> runtime_decision" where
  "decided jid st action requeue =
     \<lparr>rd_job_id = Some jid, rd_state = Some st, rd_action = action, rd_requeue = requeue\<rparr>"

type_synonym 'b work = "(world, py_error, 'b) prog"

definition dry_run_executor_for :: "worker \<Rightarrow> exec_job \<Rightarrow> dry_run_executor option" where
  "dry_run_executor_for w job =
     (case wk_dry_run_factory w of Some f \<Rightarrow> f job | None \<Rightarrow> wk_dry_runs w)"

definition mutation_executor_for :: "worker \<Rightarrow> exec_job \<Rightarrow> mutation_executor option" where
  "mutation_executor_for w job =
     (case wk_mutation_factory w of Some f \<Rightarrow> f job | None \<Rightarrow> wk_mutations w)"

section \<open>Saving and transitions\<close>

definition queue_job :: "string \<Rightarrow> bool work" where
  "queue_job jid = (\<lambda>s. case enqueue jid (w_queue s) of (added, q) \<Rightarrow> (Inr added, s\<lparr>w_queue := q\<rparr>))"

definition requeue :: "string \<Rightarrow> unit work" where
  "requeue jid = bind (queue_job jid) (\<lambda>_. ret ())"

definition require_job :: "string \<Rightarrow> exec_job work" where
  "require_job jid = bind (repo_get (\<lambda>r. get_job r jid)) (\<lambda>found.
     case found of None \<Rightarrow> raise_err (KeyError (''job_not_found:'' @ jid)) | Some job \<Rightarrow> ret job)"

definition DONE_STATES :: "step_state set" where
  "DONE_STATES = {S_DRY_RUN_SUCCEEDED, S_MUTATION_SUCCEEDED, S_VALIDATION_SUCCEEDED,
     S_SKIPPED_BY_INSTRUCTION}"

definition FAILED_STATES :: "step_state set" where
  "FAILED_STATES = {S_DRY_RUN_FAILED, S_MUTATION_FAILED, S_VALIDATION_FAILED, S_DECISION_REQUIRED}"

definition with_progress :: "repository \<Rightarrow> exec_job \<Rightarrow> exec_job" where
  "with_progress r job =
     (let phases = get_phases r (job_id job); steps = get_steps r (job_id job) in
      job\<lparr>job_progress :=
        \<lparr>pr_total_phases = length phases,
         pr_completed_phases = length (filter (\<lambda>p. ph_status p = P_COMPLETED) phases),
         pr_total_steps = length steps,
         pr_completed_steps = length (filter (\<lambda>st. stp_state st \<in> DONE_STATES) steps),
         pr_failed_steps = length (filter (\<lambda>st. stp_state st \<in> FAILED_STATES) steps)\<rparr>\<rparr>)"

text \<open>\<open>self._save_job(self._with_progress(job))\<close>.\<close>

definition save_progress :: "exec_job \<Rightarrow> unit work" where
  "save_progress job = repo_do (\<lambda>r. save_job (with_progress r job) r)"

text \<open>\<open>self._add_observation(self._observations.build(...))\<close>.\<close>

definition observe :: "env \<Rightarrow> observation \<Rightarrow> unit work" where
  "observe e args = bind (build_observation e args) (\<lambda>ob. repo_do (add_observation ob))"

definition release_lock :: "env \<Rightarrow> string \<Rightarrow> unit work" where
  "release_lock e jid =
     bind (gets (\<lambda>s. dict_get (w_active_locks s) jid)) (\<lambda>found.
     case found of
       None \<Rightarrow> ret ()
     | Some l \<Rightarrow> bind (utc_now e) (\<lambda>t.
         modify (\<lambda>s. s\<lparr>w_active_locks := dict_pop jid (w_active_locks s),
           w_redis := snd (release t l (w_redis s))\<rparr>)))"

definition worker_transition ::
    "env \<Rightarrow> worker \<Rightarrow> exec_job \<Rightarrow> job_state \<Rightarrow> string \<Rightarrow> json dict \<Rightarrow> exec_job work" where
  "worker_transition e w job target reason details =
     bind (transition e DEFAULT_STATE_MACHINE (job_id job) (job_st job) target Act_WORKER
       (Some (wk_id w)) (Some reason) (job_correlation_id job) (job_trace_id job) details) (\<lambda>res.
     bind (utc_now e) (\<lambda>now.
     bind (if target \<in> {J_COMPLETED, J_FAILED, J_CANCELLED}
           then bind (utc_now e) (\<lambda>t. ret (Some t)) else ret (job_completed_at job)) (\<lambda>completed.
     let updated = job\<lparr>job_st := target, job_updated_at := now,
           job_decision_required := (target = J_DECISION_REQUIRED),
           job_blocked := (target = J_DECISION_REQUIRED), job_completed_at := completed\<rparr> in
     seqp (save_progress updated)
     (seqp (repo_do (add_observation (res_observation res)))
     (seqp (write_event (res_audit res))
     (ret updated))))))"

text \<open>The last five elements of a list: \<open>xs[-5:]\<close>.\<close>

definition last_five :: "'a list \<Rightarrow> 'a list" where
  "last_five xs = drop (length xs - 5) xs"

definition decision_required ::
    "env \<Rightarrow> worker \<Rightarrow> exec_job \<Rightarrow> string \<Rightarrow> string \<Rightarrow> exec_step option \<Rightarrow> runtime_decision work" where
  "decision_required e w job code summary step =
     bind (repo_get (\<lambda>r. last_five (get_observations r (job_id job)))) (\<lambda>recent.
     seqp (observe e ((observation_args (job_id job) Obs_DECISION_REQUEST summary)
       \<lparr>obs_severity := Sev_WARNING,
        obs_phase_id := (case step of Some st \<Rightarrow> Some (stp_phase_id st) | None \<Rightarrow> job_current_phase_id job),
        obs_step_id := (case step of Some st \<Rightarrow> Some (stp_id st) | None \<Rightarrow> job_current_step_id job),
        obs_result := JObj [(''reason_code'', JStr code),
          (''worker_reasoning_triggered'', JBool False)],
        obs_next_required_decision := Some (decision_context e job code summary step recent [])\<rparr>))
     (seqp (case step of
              None \<Rightarrow> ret ()
            | Some st \<Rightarrow> repo_do (save_step (st\<lparr>stp_state := S_DECISION_REQUIRED\<rparr>)))
     (bind (worker_transition e w (job\<lparr>job_decision_required := True, job_blocked := True\<rparr>)
         J_DECISION_REQUIRED summary [(''reason_code'', JStr code)]) (\<lambda>updated.
      seqp (release_lock e (job_id job))
        (ret (decided (job_id updated) (job_st updated) ''decision_required'' False))))))"

section \<open>Locks\<close>

text \<open>\<open>NamespaceLockService.acquire\<close> on the leases of the world.\<close>

definition take_lock :: "env \<Rightarrow> worker \<Rightarrow> exec_job \<Rightarrow> (py_error + namespace_lock) work" where
  "take_lock e w job =
     bind (new_id e ''lease'') (\<lambda>token.
     bind (utc_now e) (\<lambda>t.
     bind (utc_now e) (\<lambda>t'. \<lambda>s.
       case acquire t t' token (wk_lease_seconds w) (job_target_namespace job) (job_id job) (w_redis s)
       of (res, redis) \<Rightarrow> (Inr res, s\<lparr>w_redis := redis\<rparr>))))"

definition acquire_lock_or_decision :: "env \<Rightarrow> worker \<Rightarrow> exec_job \<Rightarrow> namespace_lock option work" where
  "acquire_lock_or_decision e w job =
     bind (gets (\<lambda>s. dict_get (w_active_locks s) (job_id job))) (\<lambda>held.
     case held of
       Some l \<Rightarrow> ret (Some l)
     | None \<Rightarrow>
         bind (take_lock e w job) (\<lambda>res.
         case res of
           Inl unavailable \<Rightarrow>
             bind (decision_required e w job ''NAMESPACE_LOCK_UNAVAILABLE''
               (''Target namespace '' @ job_target_namespace job @ '' is locked by another job.'') None)
               (\<lambda>_. ret None)
         | Inr l \<Rightarrow>
             seqp (modify (\<lambda>s. s\<lparr>w_active_locks := dict_set (job_id job) l (w_active_locks s)\<rparr>))
             (seqp (observe e ((observation_args (job_id job) Obs_POLICY_CHECK
                  ''Target namespace lock acquired.'')
                \<lparr>obs_result := JObj [(''target_namespace'', JStr (job_target_namespace job)),
                   (''lease_seconds'', JInt (nl_lease_seconds l))]\<rparr>))
             (ret (Some l)))))"

section \<open>Steps\<close>

definition complete_phase_if_ready :: "env \<Rightarrow> exec_phase \<Rightarrow> unit work" where
  "complete_phase_if_ready e p =
     bind (repo_get (\<lambda>r. get_steps r (ph_job_id p))) (\<lambda>steps.
     if phase_is_complete p steps
     then bind (utc_now e) (\<lambda>now.
       repo_do (save_phase (p\<lparr>ph_status := P_COMPLETED, ph_completed_at := Some now\<rparr>)))
     else if ph_status p \<noteq> P_RUNNING
     then bind (utc_now e) (\<lambda>now.
       repo_do (save_phase (p\<lparr>ph_status := P_RUNNING, ph_started_at := Some now\<rparr>)))
     else ret ())"

text \<open>\<open>started_at or now\<close>.\<close>

definition started :: "exec_step \<Rightarrow> instant \<Rightarrow> instant option" where
  "started st now = Some (case stp_started_at st of Some t \<Rightarrow> t | None \<Rightarrow> now)"

text \<open>The first command flagged with the key that has a text.\<close>

definition flagged_command :: "exec_step \<Rightarrow> string \<Rightarrow> string option" where
  "flagged_command st key = map_option (\<lambda>c. py_str (get_or_null c ''command''))
     (List.find (\<lambda>c. get_or_null c key = JBool True \<and> truthy (get_or_null c ''command''))
        (stp_commands st))"

definition dry_run_fingerprint :: "env \<Rightarrow> exec_step \<Rightarrow> string" where
  "dry_run_fingerprint e st =
     (let dry_command = (case flagged_command st ''dry_run'' of Some c \<Rightarrow> c
            | None \<Rightarrow> step_type_value (stp_type st) @ '':'' @ stp_id st);
          command = (case flagged_command st ''mutating'' of Some c \<Rightarrow> c | None \<Rightarrow> dry_command) in
      command_fingerprint e command [(''step_type'', JStr (step_type_value (stp_type st)))])"

text \<open>\<open>str(output.get(key) or "") or None\<close>.\<close>

definition output_field :: "json dict list \<Rightarrow> string \<Rightarrow> string option" where
  "output_field outputs key =
     (let v = py_str (json_or (get_or_null (case outputs of [] \<Rightarrow> [] | d # ds \<Rightarrow> d) key) (JStr [])) in
      if v = [] then None else Some v)"

definition outputs_json :: "json dict list \<Rightarrow> json" where
  "outputs_json ds = JArr (map JObj ds)"

definition code_json :: "error_code option \<Rightarrow> json" where
  "code_json code = jopt (map_option error_code_value code)"

definition execute_dry_run_step ::
    "env \<Rightarrow> worker \<Rightarrow> exec_job \<Rightarrow> exec_phase \<Rightarrow> exec_step \<Rightarrow> runtime_decision work" where
  "execute_dry_run_step e w job p st =
     (case dry_run_executor_for w job of
        None \<Rightarrow> decision_required e w job ''DRY_RUN_EXECUTOR_UNAVAILABLE''
          (''Step '' @ stp_id st @ '' requires a configured dry-run executor.'') (Some st)
      | Some x \<Rightarrow>
          bind (utc_now e) (\<lambda>now.
          let running = st\<lparr>stp_state := S_DRY_RUN_RUNNING,
                stp_dry_run_status := Some S_DRY_RUN_RUNNING,
                stp_fingerprint := Some (dry_run_fingerprint e st),
                stp_started_at := started st now, stp_attempt := stp_attempt st + 1\<rparr> in
          seqp (repo_do (save_step running))
          (bind (dry_execute (wk_clients w) x job running) (\<lambda>r.
          let observed = (observation_args (job_id job) Obs_DRY_RUN_RESULT [])
                \<lparr>obs_phase_id := Some (ph_id p), obs_step_id := Some (stp_id st),
                 obs_mcp_server := output_field (ar_outputs r) ''server'',
                 obs_mcp_tool := output_field (ar_outputs r) ''tool''\<rparr>;
              failure = opt_or (ar_message r) (''Dry-run failed for step '' @ stp_id st @ ''.'') in
          if \<not> ar_success r
          then
            bind (utc_now e) (\<lambda>done.
            let failed = running\<lparr>stp_state := S_DRY_RUN_FAILED,
                  stp_dry_run_status := Some S_DRY_RUN_FAILED, stp_completed_at := Some done,
                  stp_attempt := stp_attempt st + 1\<rparr> in
            seqp (repo_do (save_step failed))
            (seqp (observe e (observed\<lparr>obs_severity := Sev_ERROR, obs_summary := failure,
               obs_result := JObj [(''action'', JStr (ar_action r)),
                 (''error_code'', code_json (ar_error_code r)),
                 (''outputs'', outputs_json (ar_outputs r)),
                 (''worker_reasoning_triggered'', JBool False)]\<rparr>))
            (decision_required e w job
              (case ar_error_code r of Some c \<Rightarrow> error_code_value c | None \<Rightarrow> ''DRY_RUN_FAILED'')
              failure (Some failed))))
          else
            bind (utc_now e) (\<lambda>done.
            let completed = running\<lparr>stp_state := S_DRY_RUN_SUCCEEDED,
                  stp_dry_run_status := Some S_DRY_RUN_SUCCEEDED, stp_completed_at := Some done,
                  stp_attempt := stp_attempt st + 1\<rparr> in
            seqp (repo_do (save_step completed))
            (seqp (observe e (observed
              \<lparr>obs_summary := ''Dry-run succeeded for step '' @ stp_id st @ ''.'',
               obs_result := JObj [(''action'', JStr (ar_action r)),
                 (''outputs'', outputs_json (ar_outputs r)),
                 (''dry_run_only'', JBool (job_mode job = M_DRY_RUN_ONLY)),
                 (''mutation_performed'', JBool False),
                 (''worker_reasoning_triggered'', JBool False)]\<rparr>))
            (seqp (complete_phase_if_ready e p)
            (seqp (save_progress (job\<lparr>job_dry_run_satisfied := True\<rparr>))
            (seqp (requeue (job_id job))
            (ret (decided (job_id job) (job_st job) ''dry_run_step_completed'' True)))))))))))"

text \<open>What \<open>_execute_mutation_step\<close> makes of the result of the executor.\<close>

definition settle_mutation ::
    "env \<Rightarrow> worker \<Rightarrow> exec_job \<Rightarrow> exec_phase \<Rightarrow> exec_step \<Rightarrow> exec_step \<Rightarrow> mutation_result \<Rightarrow>
     runtime_decision work" where
  "settle_mutation e w job p st running r =
     (let observed = (observation_args (job_id job) Obs_MUTATION_RESULT [])
            \<lparr>obs_phase_id := Some (ph_id p), obs_step_id := Some (stp_id st)\<rparr>;
          failure = opt_or (mu_message r) (''Mutation failed for step '' @ stp_id st @ ''.'') in
      if \<not> mu_success r
      then
        bind (utc_now e) (\<lambda>done.
        let failed = running\<lparr>stp_state := S_MUTATION_FAILED,
              stp_mutation_status := Some S_MUTATION_FAILED, stp_completed_at := Some done\<rparr> in
        seqp (repo_do (save_step failed))
        (seqp (observe e (observed
          \<lparr>obs_severity := (if mu_unknown_outcome r then Sev_CRITICAL else Sev_ERROR),
           obs_summary := failure,
           obs_result := JObj [(''action'', JStr (mu_action r)),
             (''error_code'', code_json (mu_error_code r)),
             (''outputs'', outputs_json (mu_outputs r)),
             (''resource_mutations'', outputs_json (mu_resource_mutations r)),
             (''unknown_mutation_outcome'', JBool (mu_unknown_outcome r)),
             (''worker_reasoning_triggered'', JBool False)],
           obs_policy_blocks := mu_policy_blocks r\<rparr>))
        (decision_required e w job
          (if mu_unknown_outcome r then ''UNKNOWN_MUTATION_OUTCOME''
           else case mu_error_code r of Some c \<Rightarrow> error_code_value c | None \<Rightarrow> ''MUTATION_BLOCKED'')
          failure (Some failed))))
      else
        bind (utc_now e) (\<lambda>done.
        let completed = running\<lparr>stp_state := S_MUTATION_SUCCEEDED,
              stp_mutation_status := Some S_MUTATION_SUCCEEDED, stp_completed_at := Some done\<rparr> in
        seqp (repo_do (save_step completed))
        (seqp (observe e (observed
          \<lparr>obs_summary := ''Mutation succeeded for step '' @ stp_id st @ ''.'',
           obs_result := JObj [(''action'', JStr (mu_action r)),
             (''outputs'', outputs_json (mu_outputs r)),
             (''resource_mutations'', outputs_json (mu_resource_mutations r)),
             (''unknown_mutation_outcome'', JBool False),
             (''worker_reasoning_triggered'', JBool False)]\<rparr>))
        (seqp (complete_phase_if_ready e p)
        (seqp (save_progress job)
        (seqp (requeue (job_id job))
        (ret (decided (job_id job) (job_st job) ''mutation_step_completed'' True))))))))"

text \<open>The step marked running, executed with what is stored for the job.\<close>

definition execute_locked_mutation ::
    "env \<Rightarrow> worker \<Rightarrow> mutation_executor \<Rightarrow> exec_job \<Rightarrow> exec_phase \<Rightarrow> exec_step \<Rightarrow> runtime_decision work" where
  "execute_locked_mutation e w x job p st =
     bind (utc_now e) (\<lambda>now.
     let running = st\<lparr>stp_state := S_MUTATION_RUNNING,
           stp_mutation_status := Some S_MUTATION_RUNNING,
           stp_started_at := started st now, stp_attempt := stp_attempt st + 1\<rparr> in
     seqp (repo_do (save_step running))
     (bind (repo_get (\<lambda>r. get_approvals r (job_id job))) (\<lambda>approvals.
     bind (repo_get (\<lambda>r. get_instructions r (job_id job))) (\<lambda>is.
     bind (mutation_execute e (wk_clients w) x job running approvals is) (\<lambda>r.
     settle_mutation e w job p st running r)))))"

definition execute_mutation_step ::
    "env \<Rightarrow> worker \<Rightarrow> exec_job \<Rightarrow> exec_phase \<Rightarrow> exec_step \<Rightarrow> runtime_decision work" where
  "execute_mutation_step e w job p st =
     (case mutation_executor_for w job of
        None \<Rightarrow> decision_required e w job ''MUTATION_EXECUTOR_UNAVAILABLE''
          (''Step '' @ stp_id st @ '' requires a configured mutation executor.'') (Some st)
      | Some x \<Rightarrow>
          bind (acquire_lock_or_decision e w job) (\<lambda>lock.
          if lock = None
          then ret (decided (job_id job) J_DECISION_REQUIRED ''lock_unavailable'' False)
          else execute_locked_mutation e w x job p st))"

definition complete_mechanical_step ::
    "env \<Rightarrow> exec_job \<Rightarrow> exec_phase \<Rightarrow> exec_step \<Rightarrow> bool \<Rightarrow> runtime_decision work" where
  "complete_mechanical_step e job p st dry_run =
     bind (utc_now e) (\<lambda>now.
     let completed = (if dry_run then S_DRY_RUN_SUCCEEDED else S_VALIDATION_SUCCEEDED) in
     seqp (repo_do (save_step (st\<lparr>stp_state := completed, stp_started_at := started st now,
       stp_completed_at := Some now, stp_attempt := stp_attempt st + 1\<rparr>)))
     (seqp (observe e ((observation_args (job_id job)
         (if dry_run then Obs_DRY_RUN_RESULT else Obs_VALIDATION_RESULT)
         (''Step '' @ stp_id st @ '' completed mechanically.''))
       \<lparr>obs_phase_id := Some (ph_id p), obs_step_id := Some (stp_id st),
        obs_result := JObj [(''worker_reasoning_triggered'', JBool False),
          (''step_type'', JStr (step_type_value (stp_type st))),
          (''state'', JStr (step_state_value completed))]\<rparr>))
     (seqp (complete_phase_if_ready e p)
     (seqp (save_progress job)
     (seqp (requeue (job_id job))
     (ret (decided (job_id job) (job_st job) ''step_completed'' True)))))))"

definition empty_ready_phase :: "exec_phase list \<Rightarrow> exec_step list \<Rightarrow> exec_phase option" where
  "empty_ready_phase phases steps = List.find
     (\<lambda>p. \<not> list_ex (\<lambda>st. stp_phase_id st = ph_id p) steps) (ready_phases phases)"

definition complete_next_empty_ready_phase ::
    "env \<Rightarrow> exec_job \<Rightarrow> exec_phase list \<Rightarrow> exec_step list \<Rightarrow> runtime_decision option work" where
  "complete_next_empty_ready_phase e job phases steps =
     (case empty_ready_phase phases steps of
        None \<Rightarrow> ret None
      | Some p \<Rightarrow>
          bind (case ph_started_at p of Some t \<Rightarrow> ret t | None \<Rightarrow> utc_now e) (\<lambda>begun.
          bind (utc_now e) (\<lambda>done.
          seqp (repo_do (save_phase (p\<lparr>ph_status := P_COMPLETED, ph_started_at := Some begun,
             ph_completed_at := Some done\<rparr>)))
          (seqp (observe e ((observation_args (job_id job) Obs_DRY_RUN_RESULT
               (''Empty phase '' @ ph_id p @ '' completed mechanically.''))
             \<lparr>obs_phase_id := Some (ph_id p),
              obs_result := JObj [(''worker_reasoning_triggered'', JBool False),
                (''phase_id'', JStr (ph_id p)), (''state'', JStr (phase_status_value P_COMPLETED))]\<rparr>))
          (seqp (save_progress job)
          (seqp (requeue (job_id job))
          (ret (Some (decided (job_id job) (job_st job) ''empty_phase_completed'' True)))))))))"

section \<open>Waits, pauses and cancellation\<close>

definition schedule_wait ::
    "env \<Rightarrow> worker \<Rightarrow> exec_job \<Rightarrow> exec_phase \<Rightarrow> exec_step \<Rightarrow> runtime_decision work" where
  "schedule_wait e w job p st =
     bind (utc_now e) (\<lambda>now.
     seqp (repo_do (save_step (st\<lparr>stp_state := S_WAITING, stp_started_at := started st now,
       stp_attempt := stp_attempt st + 1\<rparr>)))
     (bind (wait_due_at e (wk_waits w) None) (\<lambda>due.
     seqp (observe e ((observation_args (job_id job) Obs_WAIT_RESULT
         (''Wait scheduled for step '' @ stp_id st @ ''.''))
       \<lparr>obs_phase_id := Some (ph_id p), obs_step_id := Some (stp_id st),
        obs_result := JObj [(''next_poll_after_seconds'', JStr (env_isoformat e due))]\<rparr>))
     (bind (worker_transition e w job J_WAIT_SCHEDULED ''Wait scheduled.'' []) (\<lambda>updated.
     seqp (requeue (job_id job))
     (ret (decided (job_id updated) (job_st updated) ''wait_scheduled'' True)))))))"

definition current_or_waiting_step :: "exec_step list \<Rightarrow> exec_step option" where
  "current_or_waiting_step steps = List.find (\<lambda>st. stp_state st = S_WAITING) steps"

definition poll_wait :: "env \<Rightarrow> worker \<Rightarrow> exec_job \<Rightarrow> runtime_decision work" where
  "poll_wait e w job =
     bind (repo_get (\<lambda>r. current_or_waiting_step (get_steps r (job_id job)))) (\<lambda>found.
     case found of
       None \<Rightarrow> decision_required e w job ''WAIT_STATE_WITHOUT_STEP''
         ''Job is waiting but no waiting step is persisted.'' None
     | Some st \<Rightarrow>
         bind (wait_evaluate e (wk_waits w) (stp_started_at st) (Some 1) None) (\<lambda>r.
         if wr_timed_out r
         then decision_required e w job ''TIMEOUT_EXCEEDED''
           (''Wait step '' @ stp_id st @ '' exceeded its timeout.'') (Some st)
         else
           seqp (observe e ((observation_args (job_id job) Obs_WAIT_RESULT
               (''Wait step '' @ stp_id st @ '' is still pending.''))
             \<lparr>obs_phase_id := Some (stp_phase_id st), obs_step_id := Some (stp_id st),
              obs_result := JObj [(''complete'', JBool (wr_complete r)),
                (''timed_out'', JBool (wr_timed_out r)),
                (''next_poll_after_seconds'', JInt (wr_next_poll r)),
                (''elapsed_seconds'', JInt (wr_elapsed r))]\<rparr>))
           (seqp (requeue (job_id job))
           (ret (decided (job_id job) (job_st job) ''wait_pending'' True)))))"

definition pause_job :: "env \<Rightarrow> worker \<Rightarrow> exec_job \<Rightarrow> runtime_decision work" where
  "pause_job e w job =
     (if job_st job = J_PAUSED
      then ret (decided (job_id job) (job_st job) ''already_paused'' False)
      else
        bind (worker_transition e w job J_PAUSED ''Pause requested.'' []) (\<lambda>paused.
        seqp (release_lock e (job_id job))
        (ret (decided (job_id paused) (job_st paused) ''paused'' False))))"

definition cancel_step :: "exec_step \<Rightarrow> unit work" where
  "cancel_step st =
     (if stp_state st \<notin> {S_DRY_RUN_SUCCEEDED, S_MUTATION_SUCCEEDED, S_VALIDATION_SUCCEEDED}
      then repo_do (save_step (st\<lparr>stp_state := S_CANCELLED\<rparr>)) else ret ())"

definition cancel_job :: "env \<Rightarrow> worker \<Rightarrow> exec_job \<Rightarrow> runtime_decision work" where
  "cancel_job e w job =
     bind (worker_transition e w job J_CANCELLED ''Cancel requested.'' []) (\<lambda>cancelled.
     bind (repo_get (\<lambda>r. get_steps r (job_id job))) (\<lambda>steps.
     seqp (for_each cancel_step steps)
     (seqp (release_lock e (job_id job))
     (ret (decided (job_id cancelled) (job_st cancelled) ''cancelled'' False)))))"

section \<open>One tick\<close>

definition validate_runtime_plan :: "env \<Rightarrow> worker \<Rightarrow> exec_job \<Rightarrow> runtime_decision work" where
  "validate_runtime_plan e w job =
     bind (repo_get (\<lambda>r. (get_phases r (job_id job), get_steps r (job_id job)))) (\<lambda>(phases, steps).
     if phases = [] \<or> steps = []
     then decision_required e w job ''MACHINE_PLAN_REQUIRED''
       ''No persisted machine execution plan is available for this job.'' None
     else
       bind (worker_transition e w job J_DRY_RUN_READY ''Machine plan loaded.'' []) (\<lambda>updated.
       seqp (requeue (job_id job))
       (ret (decided (job_id updated) (job_st updated) ''plan_ready'' True))))"

definition start_dry_run :: "env \<Rightarrow> worker \<Rightarrow> exec_job \<Rightarrow> runtime_decision work" where
  "start_dry_run e w job =
     bind (acquire_lock_or_decision e w job) (\<lambda>lock.
     if lock = None
     then ret (decided (job_id job) J_DECISION_REQUIRED ''lock_unavailable'' False)
     else
       bind (worker_transition e w job J_DRY_RUNNING ''Dry-run execution started.'' []) (\<lambda>updated.
       seqp (requeue (job_id job))
       (ret (decided (job_id updated) (job_st updated) ''dry_run_started'' True))))"

definition await_human_approval :: "env \<Rightarrow> worker \<Rightarrow> exec_job \<Rightarrow> runtime_decision work" where
  "await_human_approval e w job =
     bind (repo_get (\<lambda>r. get_approvals r (job_id job))) (\<lambda>approvals.
     if approvals = []
     then ret (decided (job_id job) (job_st job) ''awaiting_human_approval'' False)
     else
       bind (worker_transition e w job J_EXECUTING ''Human approval is available.'' []) (\<lambda>updated.
       seqp (requeue (job_id job))
       (ret (decided (job_id updated) (job_st updated) ''executing'' True))))"

definition complete_job :: "env \<Rightarrow> worker \<Rightarrow> exec_job \<Rightarrow> string \<Rightarrow> runtime_decision work" where
  "complete_job e w job reason =
     bind (worker_transition e w job J_COMPLETED reason []) (\<lambda>completed.
     seqp (release_lock e (job_id completed))
     (ret (decided (job_id completed) (job_st completed) ''completed'' False)))"

text \<open>\<open>_run_next_step\<close> of an executing job.\<close>

definition run_next_mutation ::
    "env \<Rightarrow> worker \<Rightarrow> exec_job \<Rightarrow> exec_phase list \<Rightarrow> exec_step list \<Rightarrow> runtime_decision work" where
  "run_next_mutation e w job phases steps =
     (case select_next_mutation_step phases steps of
        Some (p, st) \<Rightarrow> execute_mutation_step e w job p st
      | None \<Rightarrow>
          (case List.find (\<lambda>st. stp_state st = S_MUTATION_RUNNING) steps of
             Some st \<Rightarrow> decision_required e w job ''UNKNOWN_MUTATION_OUTCOME_AFTER_RESTART''
               (''A mutation step is still marked running; '' @
                ''external reconciliation is required before continuing.'') (Some st)
           | None \<Rightarrow> complete_job e w job ''No mutations remain.''))"

definition perform_step ::
    "env \<Rightarrow> worker \<Rightarrow> exec_job \<Rightarrow> exec_phase \<Rightarrow> exec_step \<Rightarrow> bool \<Rightarrow> runtime_decision work" where
  "perform_step e w job p st dry_run =
     (if stp_type st = T_WAIT then schedule_wait e w job p st
      else if stp_type st \<in> {T_CONTEXT_CHECK, T_K8S_GET, T_K8S_VALIDATE}
      then complete_mechanical_step e job p st dry_run
      else if dry_run \<and> stp_type st \<in> {T_K8S_APPLY, T_HELM_INSTALL, T_HELM_UPGRADE, T_HELM_VALIDATE}
      then execute_dry_run_step e w job p st
      else decision_required e w job ''EXTERNAL_INSTRUCTION_REQUIRED''
        (''Step '' @ stp_id st @ '' requires external instruction before execution.'') (Some st))"

text \<open>What follows when no step is left to dry run.\<close>

definition finish_dry_run ::
    "env \<Rightarrow> worker \<Rightarrow> exec_job \<Rightarrow> exec_phase list \<Rightarrow> exec_step list \<Rightarrow> bool \<Rightarrow> runtime_decision work" where
  "finish_dry_run e w job phases steps dry_run =
     (if list_ex (\<lambda>st. stp_state st \<in> {S_PENDING, S_READY}) steps
      then decision_required e w job ''NO_RUNNABLE_STEP''
        ''Pending steps remain, but no dependency-ready step can run.'' None
      else if dry_run \<and> job_mode job = M_EXECUTE_AFTER_APPROVAL \<and>
        select_next_mutation_step phases steps \<noteq> None
      then
        bind (worker_transition e w (job\<lparr>job_dry_run_satisfied := True\<rparr>) J_AWAITING_HUMAN_APPROVAL
          ''Dry-run completed; mutation requires approval.'' []) (\<lambda>updated.
        seqp (release_lock e (job_id updated))
        (seqp (requeue (job_id job))
        (ret (decided (job_id updated) (job_st updated) ''awaiting_human_approval'' True))))
      else complete_job e w job ''No runnable steps remain.'')"

definition run_next_step :: "env \<Rightarrow> worker \<Rightarrow> exec_job \<Rightarrow> bool \<Rightarrow> runtime_decision work" where
  "run_next_step e w job dry_run =
     bind (repo_get (\<lambda>r. (get_phases r (job_id job), get_steps r (job_id job)))) (\<lambda>(phases, steps).
     if \<not> dry_run then run_next_mutation e w job phases steps
     else
       bind (complete_next_empty_ready_phase e job phases steps) (\<lambda>completed.
       case completed of
         Some d \<Rightarrow> ret d
       | None \<Rightarrow>
           bind (repo_get (\<lambda>r. (get_phases r (job_id job), get_steps r (job_id job)))) (\<lambda>(phases, steps).
           case select_next_step phases steps of
             None \<Rightarrow> finish_dry_run e w job phases steps dry_run
           | Some (p, st) \<Rightarrow> perform_step e w job p st dry_run)))"

text \<open>The state machine of a tick, once the requests have been looked at.\<close>

definition process_state :: "env \<Rightarrow> worker \<Rightarrow> string \<Rightarrow> exec_job \<Rightarrow> runtime_decision work" where
  "process_state e w jid job =
     (case job_st job of
        J_CREATED \<Rightarrow>
          bind (worker_transition e w job J_VALIDATING_BUNDLE ''Worker accepted queued job.'' []) (\<lambda>updated.
          seqp (requeue jid)
          (ret (decided jid (job_st updated) ''accepted'' True)))
      | J_VALIDATING_BUNDLE \<Rightarrow> validate_runtime_plan e w job
      | J_DRY_RUN_READY \<Rightarrow> start_dry_run e w job
      | J_DRY_RUNNING \<Rightarrow> run_next_step e w job True
      | J_AWAITING_HUMAN_APPROVAL \<Rightarrow> await_human_approval e w job
      | J_EXECUTING \<Rightarrow> run_next_step e w job False
      | J_WAIT_SCHEDULED \<Rightarrow> poll_wait e w job
      | J_ROLLBACK_REQUESTED \<Rightarrow> decision_required e w job ''ROLLBACK_INSTRUCTION_REQUIRED''
          ''Rollback requires explicit external instruction and human approval.'' None
      | _ \<Rightarrow> ret (decided jid (job_st job) ''not_runnable'' False))"

definition beat :: "env \<Rightarrow> worker \<Rightarrow> string \<Rightarrow> unit work" where
  "beat e w jid =
     bind (utc_now e) (\<lambda>t. bind (utc_now e) (\<lambda>t'.
     modify (\<lambda>s. s\<lparr>w_redis := heartbeat t t' (wk_ttl_seconds w) (wk_id w) (Some jid) (w_redis s)\<rparr>)))"

definition process_job :: "env \<Rightarrow> worker \<Rightarrow> string \<Rightarrow> runtime_decision work" where
  "process_job e w jid =
     bind (require_job jid) (\<lambda>job.
     seqp (beat e w jid)
     (bind (gets (\<lambda>s. (jid \<in> w_cancel_requested s, jid \<in> w_pause_requested s))) (\<lambda>(cancel, pause).
     if cancel
     then seqp (modify (\<lambda>s. s\<lparr>w_cancel_requested := w_cancel_requested s - {jid}\<rparr>))
       (cancel_job e w job)
     else if pause
     then seqp (modify (\<lambda>s. s\<lparr>w_pause_requested := w_pause_requested s - {jid}\<rparr>))
       (pause_job e w job)
     else process_state e w jid job)))"

definition idle :: runtime_decision where
  "idle = \<lparr>rd_job_id = None, rd_state = None, rd_action = ''idle'', rd_requeue = False\<rparr>"

definition run_once :: "env \<Rightarrow> worker \<Rightarrow> runtime_decision work" where
  "run_once e w =
     bind (\<lambda>s. case dequeue (w_queue s) of (item, q) \<Rightarrow> (Inr item, s\<lparr>w_queue := q\<rparr>)) (\<lambda>item.
     case item of None \<Rightarrow> ret idle | Some jid \<Rightarrow> process_job e w jid)"

section \<open>Restart\<close>

definition reset_step :: "env \<Rightarrow> exec_job \<Rightarrow> exec_step \<Rightarrow> unit work" where
  "reset_step e job st =
     seqp (repo_do (save_step (st\<lparr>stp_state := S_PENDING,
       stp_dry_run_status := (if stp_state st = S_DRY_RUN_RUNNING then None else stp_dry_run_status st),
       stp_validation_status := (if stp_state st = S_VALIDATION_RUNNING then None
         else stp_validation_status st)\<rparr>)))
     (observe e ((observation_args (job_id job) Obs_STATE_TRANSITION
         (''Restart reconciliation reset retryable step '' @ stp_id st @ ''.''))
       \<lparr>obs_severity := Sev_WARNING, obs_phase_id := Some (stp_phase_id st),
        obs_step_id := Some (stp_id st),
        obs_result := JObj [(''from_state'', JStr (step_state_value (stp_state st))),
          (''to_state'', JStr (step_state_value S_PENDING)),
          (''worker_reasoning_triggered'', JBool False)]\<rparr>))"

definition retryable_running :: "exec_step \<Rightarrow> bool" where
  "retryable_running st \<longleftrightarrow> stp_state st \<in> {S_DRY_RUN_RUNNING, S_VALIDATION_RUNNING}"

definition reset_retryable_running_steps :: "env \<Rightarrow> exec_job \<Rightarrow> exec_step list \<Rightarrow> bool work" where
  "reset_retryable_running_steps e job steps =
     (let running = filter retryable_running steps in
      seqp (for_each (reset_step e job) running)
        (if running = [] then ret False else seqp (requeue (job_id job)) (ret True)))"

definition TERMINAL_STEP_STATES :: "step_state set" where
  "TERMINAL_STEP_STATES = {S_DRY_RUN_SUCCEEDED, S_MUTATION_SUCCEEDED, S_VALIDATION_SUCCEEDED,
     S_SKIPPED_BY_INSTRUCTION, S_CANCELLED}"

definition job_work_is_complete :: "repository \<Rightarrow> exec_job \<Rightarrow> bool" where
  "job_work_is_complete r job =
     (let steps = get_steps r (job_id job) in
      if steps = [] then False
      else if list_ex (\<lambda>st. stp_state st \<notin> TERMINAL_STEP_STATES) steps then False
      else if job_mode job = M_EXECUTE_AFTER_APPROVAL then
        \<not> list_ex (\<lambda>st. stp_type st \<in> {T_K8S_APPLY, T_K8S_DELETE, T_HELM_INSTALL, T_HELM_UPGRADE} \<and>
          stp_state st \<noteq> S_MUTATION_SUCCEEDED) steps
      else True)"

definition reconcile_complete :: "env \<Rightarrow> worker \<Rightarrow> exec_job \<Rightarrow> nat work" where
  "reconcile_complete e w job =
     bind (repo_get (\<lambda>r. case get_job r (job_id job) of Some j \<Rightarrow> j | None \<Rightarrow> job)) (\<lambda>refreshed.
     bind (repo_get (\<lambda>r. job_work_is_complete r refreshed)) (\<lambda>complete.
     if complete \<and> J_COMPLETED \<in> set (allowed_targets (job_st refreshed))
     then
       bind (worker_transition e w refreshed J_COMPLETED
         ''Restart reconciliation found all persisted work complete.''
         [(''reconciled_after_restart'', JBool True)]) (\<lambda>_.
       seqp (release_lock e (job_id refreshed)) (ret 1))
     else ret 0))"

definition restart_decision :: "env \<Rightarrow> worker \<Rightarrow> exec_job \<Rightarrow> exec_step \<Rightarrow> unit work" where
  "restart_decision e w job st =
     bind (decision_required e w job ''UNKNOWN_MUTATION_OUTCOME_AFTER_RESTART''
       (''Worker restarted while a mutation was running; '' @
        ''external reconciliation is required before continuing.'') (Some st)) (\<lambda>_. ret ())"

definition reconcile_job :: "env \<Rightarrow> worker \<Rightarrow> exec_job \<Rightarrow> nat work" where
  "reconcile_job e w job =
     (if job_st job \<in> {J_COMPLETED, J_FAILED, J_CANCELLED} then ret 0
      else
        bind (repo_get (\<lambda>r. get_steps r (job_id job))) (\<lambda>steps.
        bind (reset_retryable_running_steps e job steps) (\<lambda>reset.
        if reset then ret 1
        else
          let running = filter (\<lambda>st. stp_state st = S_MUTATION_RUNNING) steps in
          if running \<noteq> []
          then seqp (for_each (restart_decision e w job) running) (ret (length running))
          else reconcile_complete e w job)))"

primrec reconcile_jobs :: "env \<Rightarrow> worker \<Rightarrow> exec_job list \<Rightarrow> nat work" where
  "reconcile_jobs e w [] = ret 0"
| "reconcile_jobs e w (job # jobs) =
     bind (reconcile_job e w job) (\<lambda>n. bind (reconcile_jobs e w jobs) (\<lambda>m. ret (n + m)))"

definition reconcile_after_restart :: "env \<Rightarrow> worker \<Rightarrow> nat work" where
  "reconcile_after_restart e w =
     bind (repo_get (\<lambda>r. sort_key job_created_at (list_jobs r))) (\<lambda>jobs. reconcile_jobs e w jobs)"

definition recover_restartable_jobs :: "env \<Rightarrow> worker \<Rightarrow> nat work" where
  "recover_restartable_jobs e w =
     bind (reconcile_after_restart e w) (\<lambda>_. \<lambda>s.
       case rehydrate (ag_repo s) (w_queue s) of (n, q) \<Rightarrow> (Inr n, s\<lparr>w_queue := q\<rparr>))"

section \<open>Seeding a plan\<close>

definition step_type_or_unknown :: "string \<Rightarrow> step_type" where
  "step_type_or_unknown v = (case step_type_of v of Some t \<Rightarrow> t | None \<Rightarrow> T_UNKNOWN)"

definition jbool_opt :: "bool option \<Rightarrow> json" where
  "jbool_opt b = (case b of None \<Rightarrow> JNull | Some x \<Rightarrow> JBool x)"

definition plan_command_json :: "plan_command \<Rightarrow> json dict" where
  "plan_command_json c =
     [(''kind'', JStr (pcm_kind c)), (''command'', JStr (pcm_text c)),
      (''dry_run'', jbool_opt (pcm_dry_run c)), (''mutating'', jbool_opt (pcm_mutating c))]"

definition seeded_phase :: "string \<Rightarrow> nat \<Rightarrow> plan_phase \<Rightarrow> exec_phase" where
  "seeded_phase jid n p =
     \<lparr>ph_id = pp_id p, ph_job_id = jid, ph_index = n, ph_status = P_PENDING,
      ph_title = pp_title p, ph_objective = Some (pp_objective p), ph_depends_on = pp_depends_on p,
      ph_correlation_id = None, ph_trace_id = None, ph_started_at = None, ph_completed_at = None\<rparr>"

definition seeded_step :: "string \<Rightarrow> string \<Rightarrow> nat \<Rightarrow> plan_step \<Rightarrow> exec_step" where
  "seeded_step jid pid n st =
     \<lparr>stp_id = ps_id st, stp_job_id = jid, stp_phase_id = pid, stp_index = n,
      stp_title = Some (ps_title st), stp_type = step_type_or_unknown (ps_type st),
      stp_state = S_PENDING, stp_depends_on = ps_depends_on st, stp_resource_refs = [],
      stp_manifest_refs = ps_manifest_refs st, stp_values_refs = ps_values_refs st,
      stp_commands = map plan_command_json (ps_commands st), stp_metadata = ps_metadata st,
      stp_fingerprint = None, stp_dry_run_status = None, stp_mutation_status = None,
      stp_validation_status = None, stp_attempt = 0, stp_correlation_id = None,
      stp_trace_id = None, stp_started_at = None, stp_completed_at = None\<rparr>"

definition seed_phase :: "string \<Rightarrow> nat \<times> plan_phase \<Rightarrow> unit work" where
  "seed_phase jid np =
     seqp (repo_do (save_phase (seeded_phase jid (fst np) (snd np))))
       (for_each (\<lambda>ns. repo_do (save_step (seeded_step jid (pp_id (snd np)) (fst ns) (snd ns))))
         (enumerate 0 (pp_steps (snd np))))"

definition seed_plan :: "string \<Rightarrow> machine_plan \<Rightarrow> unit work" where
  "seed_plan jid plan =
     seqp (for_each (seed_phase jid) (enumerate 0 (mp_phases plan)))
     (bind (require_job jid) (\<lambda>job. save_progress job))"

section \<open>Requests\<close>

definition request_pause :: "string \<Rightarrow> unit work" where
  "request_pause jid =
     seqp (modify (\<lambda>s. s\<lparr>w_pause_requested := insert jid (w_pause_requested s)\<rparr>)) (requeue jid)"

definition request_cancel :: "string \<Rightarrow> unit work" where
  "request_cancel jid =
     seqp (modify (\<lambda>s. s\<lparr>w_cancel_requested := insert jid (w_cancel_requested s)\<rparr>)) (requeue jid)"

definition submit_instruction :: "env \<Rightarrow> instruction \<Rightarrow> instruction_decision work" where
  "submit_instruction e i =
     bind (receive e i) (\<lambda>d.
     seqp (if id_accepted d then requeue (ins_job_id i) else ret ()) (ret d))"

text \<open>
  What can happen to a worker: its own methods, and an approval that arrives in its
  repository. An exception ends a method where it is raised; what was done stays.
\<close>

datatype worker_op =
    W_enqueue string
  | W_pause string
  | W_cancel string
  | W_instruction instruction
  | W_approval human_approval
  | W_run
  | W_reconcile
  | W_recover
  | W_seed string machine_plan

primrec worker_step :: "env \<Rightarrow> worker \<Rightarrow> worker_op \<Rightarrow> world \<Rightarrow> world" where
  "worker_step e w (W_enqueue jid) s = snd (requeue jid s)"
| "worker_step e w (W_pause jid) s = snd (request_pause jid s)"
| "worker_step e w (W_cancel jid) s = snd (request_cancel jid s)"
| "worker_step e w (W_instruction i) s = snd (submit_instruction e i s)"
| "worker_step e w (W_approval a) s = s\<lparr>ag_repo := save_approval a (ag_repo s)\<rparr>"
| "worker_step e w W_run s = snd (run_once e w s)"
| "worker_step e w W_reconcile s = snd (reconcile_after_restart e w s)"
| "worker_step e w W_recover s = snd (recover_restartable_jobs e w s)"
| "worker_step e w (W_seed jid plan) s = snd (seed_plan jid plan s)"

definition worker_run :: "env \<Rightarrow> worker \<Rightarrow> worker_op list \<Rightarrow> world \<Rightarrow> world" where
  "worker_run e w ops s = fold (worker_step e w) ops s"

end
