(* ===== verification/Validation.thy ===== *)
theory Validation
  imports DryRun Redaction
begin

text \<open>
  The validation after an execution (\<open>runtime/validation.py\<close>): a fixed list of questions to
  the Kubernetes companion, the Helm releases and their status, and the validation steps of
  the plan.
\<close>

section \<open>Model\<close>

record validation_check =
  vc_name :: string
  vc_success :: bool
  vc_summary :: string
  vc_data :: "json dict"

record validation_result =
  vr_success :: bool
  vr_checks :: "validation_check list"
  vr_warnings :: "string list"

record validation_executor =
  vx_k8s :: bool
  vx_helm :: bool

type_synonym evaluator = "json dict \<Rightarrow> bool \<times> string"

text \<open>\<open>a or b or \<dots> or []\<close>, and the mappings of the list found.\<close>

definition first_items :: "json dict \<Rightarrow> string list \<Rightarrow> json dict list" where
  "first_items d keys = mapping_documents (arr_items
     (foldr (\<lambda>k rest. json_or (get_or_null d k) rest) keys (JArr [])))"

definition items :: "json dict \<Rightarrow> json dict list" where
  "items d = first_items d [''result'', ''items'', ''response'', ''output'']"

definition release_items :: "json dict option \<Rightarrow> json dict list" where
  "release_items data =
     (case data of None \<Rightarrow> [] | Some d \<Rightarrow> first_items d [''output'', ''releases'', ''result''])"

definition field_text :: "json dict \<Rightarrow> string \<Rightarrow> string" where
  "field_text d k = py_str (get_or_null d k)"

definition names_of :: "json dict list \<Rightarrow> string" where
  "names_of ds = str_join '', '' (map (\<lambda>d. field_text d ''name'') ds)"

definition unhealthy_pod :: "json dict \<Rightarrow> bool" where
  "unhealthy_pod pod \<longleftrightarrow>
     field_text pod ''phase'' \<notin> {''Running'', ''Succeeded''} \<or>
     starts_with (py_str (get_or pod ''ready'' (JStr []))) ''0/'' \<and>
       field_text pod ''phase'' \<noteq> ''Succeeded''"

definition pods_healthy :: evaluator where
  "pods_healthy d =
     (let pods = items d; unhealthy = filter unhealthy_pod pods in
      if unhealthy \<noteq> [] then (False, ''Unhealthy pods found: '' @ names_of unhealthy)
      else (True, nat_str (length pods) @ '' pod records are healthy or completed.''))"

definition pvcs_bound :: evaluator where
  "pvcs_bound d =
     (let pvcs = items d; unbound = filter (\<lambda>p. field_text p ''phase'' \<noteq> ''Bound'') pvcs in
      if unbound \<noteq> [] then (False, ''Unbound PVCs found: '' @ names_of unbound)
      else (True, nat_str (length pvcs) @ '' PVC records are Bound.''))"

definition release_failed :: "json dict \<Rightarrow> bool" where
  "release_failed release \<longleftrightarrow>
     str_lower (py_str (get_or release ''status'' (JStr []))) \<notin> {''deployed'', ''superseded''}"

definition helm_releases_deployed :: evaluator where
  "helm_releases_deployed d =
     (let releases = release_items (Some d); failed = filter release_failed releases in
      if failed \<noteq> [] then (False, ''Non-deployed Helm releases found: '' @ names_of failed)
      else (True, nat_str (length releases) @ '' Helm release records are deployed or superseded.''))"

text \<open>The redacted data of an answer, which is what the evaluators see.\<close>

definition redacted_data :: "mcp_result \<Rightarrow> json dict" where
  "redacted_data r = obj_items (redact_value (JObj (data_or_empty r)))"

definition check_from_result :: "string \<Rightarrow> mcp_result \<Rightarrow> evaluator option \<Rightarrow> validation_check" where
  "check_from_result name r evaluator =
     (let (success, summary) =
        (if mr_success r
         then (case evaluator of
                 Some ev \<Rightarrow> ev (redacted_data r)
               | None \<Rightarrow> (True, name @ '' validation succeeded.''))
         else (False, error_message r (name @ '' validation failed.''))) in
      \<lparr>vc_name = name, vc_success = success, vc_summary = redact_string summary,
       vc_data = redacted_data r\<rparr>)"

type_synonym question = "string \<times> ext_call \<times> evaluator option"

definition k8s_questions :: "string \<Rightarrow> question list" where
  "k8s_questions ns =
     [(''namespace_summary'', K8sNamespaceSummary ns, None),
      (''pods'', K8sList ''pods'' ns, Some pods_healthy),
      (''services'', K8sList ''services'' ns, None),
      (''pvcs'', K8sList ''pvcs'' ns, Some pvcs_bound),
      (''deployments'', K8sList ''deployments'' ns, None),
      (''statefulsets'', K8sList ''statefulsets'' ns, None),
      (''ingresses'', K8sList ''ingresses'' ns, None)]"

primrec ask_all ::
    "clients \<Rightarrow> question list \<Rightarrow> validation_check list \<Rightarrow>
     ('a runtime_scheme, py_error, validation_check list) prog" where
  "ask_all cl [] checks = ret checks"
| "ask_all cl (q # qs) checks =
     (let (name, call, evaluator) = q in
      bind (mcp_call cl call) (\<lambda>r. ask_all cl qs (checks @ [check_from_result name r evaluator])))"

definition release_question :: "string \<Rightarrow> json dict \<Rightarrow> question list" where
  "release_question ns release =
     (let name = py_str (json_or (json_or (get_or_null release ''name'')
          (get_or_null release ''release_name'')) (JStr [])) in
      if name = [] then [] else [(''helm_status:'' @ name, HelmStatus name ns, None)])"

definition status_questions :: "string \<Rightarrow> mcp_result \<Rightarrow> question list" where
  "status_questions ns r = concat (map (release_question ns) (release_items (mr_data r)))"

definition helm_checks ::
    "clients \<Rightarrow> string \<Rightarrow> validation_check list \<Rightarrow>
     ('a runtime_scheme, py_error, validation_check list) prog" where
  "helm_checks cl ns checks =
     bind (mcp_call cl (HelmListReleases ns True)) (\<lambda>r.
     ask_all cl (status_questions ns r)
       (checks @ [check_from_result ''helm_releases'' r (Some helm_releases_deployed)]))"

definition custom_plan_checks :: "exec_step list \<Rightarrow> validation_check list" where
  "custom_plan_checks steps = map
     (\<lambda>st. \<lparr>vc_name = ''plan_validation:'' @ stp_id st, vc_success = True,
        vc_summary = ''Custom plan validation step completed in execution state.'',
        vc_data = [(''step_id'', JStr (stp_id st)),
          (''state'', JStr (step_state_value (stp_state st)))]\<rparr>)
     (filter (\<lambda>st. stp_type st \<in> {T_K8S_VALIDATE, T_HELM_VALIDATE}) steps)"

definition validation_execute ::
    "clients \<Rightarrow> validation_executor \<Rightarrow> exec_job \<Rightarrow> exec_step list \<Rightarrow>
     ('a runtime_scheme, py_error, validation_result) prog" where
  "validation_execute cl x job steps =
     (let ns = job_target_namespace job in
      bind (if vx_k8s x then ask_all cl (k8s_questions ns) [] else ret []) (\<lambda>checks.
      bind (if vx_helm x then helm_checks cl ns checks else ret checks) (\<lambda>checks.
      let all = checks @ custom_plan_checks steps in
      ret \<lparr>vr_success = (all \<noteq> [] \<and> list_all vc_success all), vr_checks = all,
           vr_warnings = (if vx_k8s x then [] else [''kubernetes_validation_client_missing'']) @
             (if vx_helm x then [] else [''helm_validation_client_missing''])\<rparr>)))"

section \<open>What success means\<close>

text \<open>An answer passes when it is a success and what it reports is healthy.\<close>

definition answer_passes :: "evaluator option \<Rightarrow> mcp_result \<Rightarrow> bool" where
  "answer_passes evaluator r \<longleftrightarrow> mr_success r \<and>
     (case evaluator of None \<Rightarrow> True | Some ev \<Rightarrow> fst (ev (redacted_data r)))"

primrec all_pass :: "clients \<Rightarrow> ext_call list \<Rightarrow> question list \<Rightarrow> bool" where
  "all_pass cl h [] = True"
| "all_pass cl h (q # qs) =
     (case cl h (fst (snd q)) of
        Inl name \<Rightarrow> False
      | Inr r \<Rightarrow> answer_passes (snd (snd q)) r \<and> all_pass cl (h @ [fst (snd q)]) qs)"

definition asked :: "question list \<Rightarrow> ext_call list" where
  "asked qs = map (\<lambda>q. fst (snd q)) qs"

lemma all_pass_append:
  "all_pass cl h (xs @ ys) \<longleftrightarrow> all_pass cl h xs \<and> all_pass cl (h @ asked xs) ys"
  by (induction xs arbitrary: h) (auto simp: asked_def split: sum.splits)

lemma check_success: "vc_success (check_from_result name r ev) = answer_passes ev r"
  by (auto simp: check_from_result_def answer_passes_def Let_def split: prod.splits option.splits
      if_splits)

lemma ask_all_outcome:
  "ask_all cl qs checks s = (Inr res, t) \<Longrightarrow>
    rt_calls t = rt_calls s @ asked qs \<and>
    (\<exists>new. res = checks @ new \<and> length new = length qs \<and>
      (list_all vc_success new \<longleftrightarrow> all_pass cl (rt_calls s) qs))"
proof (induction qs arbitrary: checks s)
  case (Cons q qs)
  obtain name c ev where q: "q = (name, c, ev)" by (cases q) auto
  from Cons.prems obtain r where r: "cl (rt_calls s) c = Inr r"
    and rest: "ask_all cl qs (checks @ [check_from_result name r ev])
      (s\<lparr>rt_calls := rt_calls s @ [c]\<rparr>) = (Inr res, t)"
    by (auto simp: q bind_Inr mcp_call_def split: sum.splits)
  from Cons.IH [OF rest] r show ?case by (auto simp: q asked_def check_success)
qed (simp add: ret_def asked_def)

lemma custom_checks_succeed: "list_all vc_success (custom_plan_checks steps)"
  by (simp add: custom_plan_checks_def list_all_iff)

text \<open>What the evaluators accept.\<close>

lemma evaluators:
  "fst (pods_healthy d) \<longleftrightarrow> list_all (\<lambda>pod. \<not> unhealthy_pod pod) (items d)"
  "fst (pvcs_bound d) \<longleftrightarrow> list_all (\<lambda>p. field_text p ''phase'' = ''Bound'') (items d)"
  "fst (helm_releases_deployed d) \<longleftrightarrow> list_all (\<lambda>r. \<not> release_failed r) (release_items (Some d))"
  by (auto simp: pods_healthy_def pvcs_bound_def helm_releases_deployed_def Let_def
      filter_empty_conv list_all_iff)

definition helm_listing :: "string \<Rightarrow> question" where
  "helm_listing ns = (''helm_releases'', HelmListReleases ns True, Some helm_releases_deployed)"


definition demo_validation_executor :: validation_executor where
  "demo_validation_executor = \<lparr>vx_k8s = True, vx_helm = True\<rparr>"

lemma demo_validation:
  "case validation_execute demo_clients demo_validation_executor demo_exec_job [] demo_runtime of
     (res, t) \<Rightarrow> (case res of Inl _ \<Rightarrow> False | Inr r \<Rightarrow> vr_success r)"
  by code_simp


text \<open>
  Without any client a plan that merely has a validation step is reported as validated, even
  when this step has failed.
\<close>

lemma validation_without_questions:
  "case validation_execute demo_clients \<lparr>vx_k8s = False, vx_helm = False\<rparr> demo_exec_job
      [(demo_step ''j'' ''s'')\<lparr>stp_type := T_K8S_VALIDATE, stp_state := S_VALIDATION_FAILED\<rparr>]
      demo_runtime of
     (res, t) \<Rightarrow> (case res of Inl _ \<Rightarrow> False | Inr r \<Rightarrow> vr_success r) \<and> rt_calls t = []"
  by code_simp

end
