(* ===== verification/Rollback.thy ===== *)
theory Rollback
  imports DryRun Redaction
begin

text \<open>
  The rollback executor (\<open>runtime/rollback.py\<close>): the authorisation of a rollback, the
  removal of the Helm releases (or their rollback to a revision) and the deletion of every
  collection of resources of the namespace.
\<close>

section \<open>Model\<close>

record rollback_step =
  rs_action :: string
  rs_success :: bool
  rs_summary :: string
  rs_data :: "json dict"

record rollback_result =
  rb_success :: bool
  rb_steps :: "rollback_step list"
  rb_warnings :: "string list"

record rollback_executor =
  rx_k8s :: bool
  rx_helm :: bool

record rollback_options =
  ro_mode :: string
  ro_dry_run :: bool
  ro_release :: "string option"
  ro_revision :: "int option"
  ro_force_purge :: bool

definition ROLLBACK_SCOPES :: "approval_scope set" where
  "ROLLBACK_SCOPES = {Scope_ROLLBACK, Scope_DESTRUCTIVE_ROLLBACK}"

definition NAMESPACE_REVERT_RESOURCES :: "string list" where
  "NAMESPACE_REVERT_RESOURCES =
     [''ingresses'', ''deployments'', ''statefulsets'', ''daemonsets'', ''jobs'', ''cronjobs'',
      ''services'', ''configmaps'', ''serviceaccounts'', ''persistentvolumeclaims'', ''pods'']"

definition authorization_warnings :: "human_approval list \<Rightarrow> instruction list \<Rightarrow> string list" where
  "authorization_warnings approvals is =
     (if list_ex (\<lambda>a. apr_scope a \<in> ROLLBACK_SCOPES) approvals then []
      else [''rollback_approval_required'']) @
     (if list_ex (\<lambda>i. ins_type i = I_ROLLBACK) is then []
      else [''external_rollback_instruction_required''])"

definition rollback_step_of :: "string \<Rightarrow> mcp_result \<Rightarrow> rollback_step" where
  "rollback_step_of action r =
     \<lparr>rs_action = action, rs_success = mr_success r,
      rs_summary = (if mr_success r then ''succeeded'' else error_message r ''failed''),
      rs_data = (case redact_value (JObj (data_or_empty r)) of
         JObj d \<Rightarrow> d | v \<Rightarrow> [(''value'', v)])\<rparr>"

text \<open>The names of the releases that the Helm server lists.\<close>

definition listed_releases :: "mcp_result \<Rightarrow> string list" where
  "listed_releases r =
     (if \<not> mr_success r then []
      else case mr_data r of
        None \<Rightarrow> []
      | Some d \<Rightarrow> map (\<lambda>item. py_str (get_or_null (obj_items item) ''name''))
          (filter (\<lambda>item. is_obj item \<and> truthy (get_or_null (obj_items item) ''name''))
             (arr_items (get_or_null d ''output''))))"

definition release_names ::
    "clients \<Rightarrow> rollback_executor \<Rightarrow> string \<Rightarrow> ('a runtime_scheme, py_error, string list) prog" where
  "release_names cl x ns =
     (if \<not> rx_helm x then ret []
      else bind (mcp_call cl (HelmListReleases ns True)) (\<lambda>r. ret (listed_releases r)))"

text \<open>What is done with a release: its rollback to the revision, or its removal.\<close>

definition release_change :: "rollback_options \<Rightarrow> string \<Rightarrow> string \<Rightarrow> string \<times> ext_call" where
  "release_change opts ns name =
     (case (ro_mode opts = ''helm_revision_rollback'', ro_revision opts) of
        (True, Some revision) \<Rightarrow> (''helm.rollback'', HelmRollback name ns revision (ro_dry_run opts))
      | _ \<Rightarrow> (''helm.uninstall'', HelmUninstall name ns (ro_dry_run opts) False (ro_force_purge opts)))"

definition selected_release :: "rollback_options \<Rightarrow> string \<Rightarrow> bool" where
  "selected_release opts name \<longleftrightarrow>
     \<not> (opt_truthy (ro_release opts) \<and> Some name \<noteq> ro_release opts)"

primrec change_releases ::
    "clients \<Rightarrow> rollback_options \<Rightarrow> string \<Rightarrow> string list \<Rightarrow> rollback_step list \<Rightarrow>
     ('a runtime_scheme, py_error, rollback_step list) prog" where
  "change_releases cl opts ns [] steps = ret steps"
| "change_releases cl opts ns (name # names) steps =
     (if \<not> selected_release opts name then change_releases cl opts ns names steps
      else
        let (action, call) = release_change opts ns name in
        bind (mcp_call cl call) (\<lambda>r.
        change_releases cl opts ns names (steps @ [rollback_step_of action r])))"

definition delete_call :: "rollback_options \<Rightarrow> string \<Rightarrow> string \<Rightarrow> ext_call" where
  "delete_call opts ns res =
     K8sDeleteCollection res ns (ro_dry_run opts) None (Some (''metadata.namespace='' @ ns))"

primrec delete_resources ::
    "clients \<Rightarrow> rollback_options \<Rightarrow> string \<Rightarrow> string list \<Rightarrow> rollback_step list \<Rightarrow>
     ('a runtime_scheme, py_error, rollback_step list) prog" where
  "delete_resources cl opts ns [] steps = ret steps"
| "delete_resources cl opts ns (res # rest) steps =
     bind (mcp_call cl (delete_call opts ns res)) (\<lambda>r.
     delete_resources cl opts ns rest
       (steps @ [rollback_step_of (''k8s.delete_collection:'' @ res) r]))"

definition rollback_namespace ::
    "clients \<Rightarrow> rollback_executor \<Rightarrow> exec_job \<Rightarrow> rollback_options \<Rightarrow>
     ('a runtime_scheme, py_error, rollback_result) prog" where
  "rollback_namespace cl x job opts =
     (let ns = job_target_namespace job in
      bind (if \<not> rx_helm x then ret []
            else bind (release_names cl x ns) (\<lambda>names. change_releases cl opts ns names [])) (\<lambda>steps.
      bind (if \<not> rx_k8s x then ret steps
            else delete_resources cl opts ns NAMESPACE_REVERT_RESOURCES steps) (\<lambda>all.
      ret \<lparr>rb_success = (all \<noteq> [] \<and> list_all rs_success all), rb_steps = all,
           rb_warnings = (if rx_helm x then [] else [''helm_rollback_client_missing'']) @
             (if rx_k8s x then [] else [''kubernetes_rollback_client_missing''])\<rparr>)))"

definition rollback_execute ::
    "clients \<Rightarrow> rollback_executor \<Rightarrow> exec_job \<Rightarrow> human_approval list \<Rightarrow> instruction list \<Rightarrow>
     rollback_options \<Rightarrow> ('a runtime_scheme, py_error, rollback_result) prog" where
  "rollback_execute cl x job approvals is opts =
     (let warnings = authorization_warnings approvals is in
      if warnings \<noteq> [] then ret \<lparr>rb_success = False, rb_steps = [], rb_warnings = warnings\<rparr>
      else rollback_namespace cl x job opts)"

section \<open>What a rollback calls\<close>

definition rollback_call :: "exec_job \<Rightarrow> rollback_options \<Rightarrow> ext_call \<Rightarrow> bool" where
  "rollback_call job opts c \<longleftrightarrow> call_namespace c = job_target_namespace job \<and>
     (if ro_dry_run opts then \<not> mutating_call c else True)"

lemma release_change_call:
  "release_change opts (job_target_namespace job) name = (action, c) \<Longrightarrow> rollback_call job opts c"
  by (auto simp: release_change_def rollback_call_def split: prod.splits bool.splits option.splits)

lemma change_releases_calls:
  "moves (calls_only (rollback_call job opts))
     (change_releases cl opts (job_target_namespace job) names steps)"
  by (induction names arbitrary: steps)
     (auto intro!: step_intros calls_only_call dest: release_change_call)

lemma delete_resources_calls:
  "moves (calls_only (rollback_call job opts))
     (delete_resources cl opts (job_target_namespace job) rs steps)"
  by (induction rs arbitrary: steps)
     (auto simp: rollback_call_def delete_call_def intro!: step_intros calls_only_call)

lemma rollback_namespace_calls:
  "moves (calls_only (rollback_call job opts)) (rollback_namespace cl x job opts)"
  unfolding rollback_namespace_def release_names_def Let_def
  by (auto simp: rollback_call_def
      intro!: step_intros calls_only_call change_releases_calls delete_resources_calls)

text \<open>
  A rollback calls nothing unless an approval of a rollback scope and a rollback
  instruction are given; all its calls are for the target namespace of the job, and a dry
  run makes no call that changes the cluster.
\<close>

theorem rollback_needs_authority:
  "\<exists>new. rt_calls (snd (rollback_execute cl x job approvals is opts s)) = rt_calls s @ new \<and>
     list_all (rollback_call job opts) new \<and>
     (if new = [] then True
      else (\<exists>a. a \<in> set approvals \<and> apr_scope a \<in> ROLLBACK_SCOPES) \<and>
        (\<exists>i. i \<in> set is \<and> ins_type i = I_ROLLBACK))"
proof (cases "authorization_warnings approvals is = []")
  case True
  then have "(\<exists>a. a \<in> set approvals \<and> apr_scope a \<in> ROLLBACK_SCOPES) \<and>
      (\<exists>i. i \<in> set is \<and> ins_type i = I_ROLLBACK)"
    by (auto simp: authorization_warnings_def list_ex_iff split: if_splits)
  moreover have "calls_only (rollback_call job opts) s
      (snd (rollback_execute cl x job approvals is opts s))"
    using movesD [OF rollback_namespace_calls] True by (simp add: rollback_execute_def Let_def)
  then obtain new where "rt_calls (snd (rollback_execute cl x job approvals is opts s)) = rt_calls s @ new"
    "list_all (rollback_call job opts) new" unfolding calls_only_def by blast
  ultimately show ?thesis by (intro exI [of _ new]) simp
next
  case False
  then show ?thesis by (simp add: rollback_execute_def Let_def ret_def)
qed

section \<open>Completeness\<close>

definition change_calls :: "rollback_options \<Rightarrow> string \<Rightarrow> string list \<Rightarrow> ext_call list" where
  "change_calls opts ns names = map (\<lambda>n. snd (release_change opts ns n)) (filter (selected_release opts) names)"

lemma change_releases_outcome:
  "change_releases cl opts ns names steps s = (Inr res, t) \<Longrightarrow>
    rt_calls t = rt_calls s @ change_calls opts ns names \<and>
    (\<exists>new. res = steps @ new \<and> length new = length (change_calls opts ns names) \<and>
      (list_all rs_success new \<longleftrightarrow> all_succeed cl (rt_calls s) (change_calls opts ns names)))"
proof (induction names arbitrary: steps s)
  case (Cons name names)
  show ?case
  proof (cases "selected_release opts name")
    case True
    obtain action c where c: "release_change opts ns name = (action, c)" by force
    from Cons.prems True c obtain r where r: "cl (rt_calls s) c = Inr r"
      and rest: "change_releases cl opts ns names (steps @ [rollback_step_of action r])
        (s\<lparr>rt_calls := rt_calls s @ [c]\<rparr>) = (Inr res, t)"
      by (auto simp: bind_Inr mcp_call_def split: sum.splits)
    from Cons.IH [OF rest] r c True show ?thesis
      by (auto simp: change_calls_def rollback_step_of_def)
  qed (use Cons in \<open>simp add: change_calls_def\<close>)
qed (simp add: ret_def change_calls_def)

lemma delete_resources_outcome:
  "delete_resources cl opts ns rs steps s = (Inr res, t) \<Longrightarrow>
    rt_calls t = rt_calls s @ map (delete_call opts ns) rs \<and>
    (\<exists>new. res = steps @ new \<and> length new = length rs \<and>
      (list_all rs_success new \<longleftrightarrow> all_succeed cl (rt_calls s) (map (delete_call opts ns) rs)))"
proof (induction rs arbitrary: steps s)
  case (Cons r rs)
  from Cons.prems obtain q where q: "cl (rt_calls s) (delete_call opts ns r) = Inr q"
    and rest: "delete_resources cl opts ns rs
      (steps @ [rollback_step_of (''k8s.delete_collection:'' @ r) q])
      (s\<lparr>rt_calls := rt_calls s @ [delete_call opts ns r]\<rparr>) = (Inr res, t)"
    by (auto simp: bind_Inr mcp_call_def split: sum.splits)
  from Cons.IH [OF rest] q show ?case by (auto simp: rollback_step_of_def)
qed (simp add: ret_def)

text \<open>
  When both clients are present and none of the calls raises, a revert lists the
  releases, changes every selected one and then deletes every kind of resource, in this
  order and whatever of it fails; it succeeds exactly when all these changes succeed.
\<close>

theorem revert_is_complete:
  assumes "rollback_namespace cl x job opts s = (Inr r, t)" and "rx_helm x" and "rx_k8s x"
  shows "\<exists>q. let ns = job_target_namespace job; listing = HelmListReleases ns True;
      changes = change_calls opts ns (listed_releases q) @
        map (delete_call opts ns) NAMESPACE_REVERT_RESOURCES in
    cl (rt_calls s) listing = Inr q \<and> rt_calls t = rt_calls s @ listing # changes \<and>
    rb_success r = all_succeed cl (rt_calls s @ [listing]) changes"
proof -
  let ?ns = "job_target_namespace job"
  let ?s = "s\<lparr>rt_calls := rt_calls s @ [HelmListReleases ?ns True]\<rparr>"
  from assms obtain q steps u all where q: "cl (rt_calls s) (HelmListReleases ?ns True) = Inr q"
    and releases: "change_releases cl opts ?ns (listed_releases q) [] ?s = (Inr steps, u)"
    and deletes: "delete_resources cl opts ?ns NAMESPACE_REVERT_RESOURCES steps u = (Inr all, t)"
    and r: "rb_success r \<longleftrightarrow> all \<noteq> [] \<and> list_all rs_success all"
    by (auto simp: rollback_namespace_def release_names_def Let_def bind_Inr mcp_call_def ret_def
        split: sum.splits)
  from change_releases_outcome [OF releases] delete_resources_outcome [OF deletes] q r show ?thesis
    by (intro exI [of _ q]) (auto simp: Let_def all_succeed_append NAMESPACE_REVERT_RESOURCES_def)
qed

definition demo_rollback_executor :: rollback_executor where
  "demo_rollback_executor = \<lparr>rx_k8s = True, rx_helm = True\<rparr>"

definition demo_rollback_options :: rollback_options where
  "demo_rollback_options = \<lparr>ro_mode = ''helm_revision_rollback'', ro_dry_run = False,
     ro_release = Some ''web'', ro_revision = Some 1, ro_force_purge = True\<rparr>"

text \<open>Clients that list one release and accept everything.\<close>

definition listing_clients :: clients where
  "listing_clients h c = (case c of
     HelmListReleases ns al \<Rightarrow> Inr (demo_result\<lparr>mr_data := Some
       [(''output'', JArr [JObj [(''name'', JStr ''web'')]])]\<rparr>)
   | _ \<Rightarrow> Inr demo_result)"

lemma demo_revert:
  "case rollback_namespace listing_clients demo_rollback_executor demo_exec_job
      demo_rollback_options demo_runtime of (res, t) \<Rightarrow> (case res of Inl _ \<Rightarrow> False | Inr r \<Rightarrow> rb_success r)"
  by code_simp

theorem revert_is_complete_witness:
  "all_succeed listing_clients [HelmListReleases ''ns'' True]
     (HelmRollback ''web'' ''ns'' 1 False #
      map (delete_call demo_rollback_options ''ns'') NAMESPACE_REVERT_RESOURCES)"
proof -
  obtain r t where run: "rollback_namespace listing_clients demo_rollback_executor demo_exec_job
      demo_rollback_options demo_runtime = (Inr r, t)" and ok: "rb_success r"
    using demo_revert by (auto split: prod.splits sum.splits)
  have clients: "rx_helm demo_rollback_executor" "rx_k8s demo_rollback_executor"
    by (simp_all add: demo_rollback_executor_def)
  have "change_calls demo_rollback_options ''ns'' [''web''] = [HelmRollback ''web'' ''ns'' 1 False]"
    by code_simp
  moreover have "listing_clients (rt_calls demo_runtime) (HelmListReleases ''ns'' True) = Inr q \<Longrightarrow>
      listed_releases q = [''web'']" for q
    by (auto simp: listing_clients_def listed_releases_def demo_result_def get_or_null_def
        truthy.simps py_str.simps)
  ultimately show ?thesis
    using revert_is_complete [OF run clients] ok
    by (auto simp: Let_def demo_exec_job_def demo_runtime_def)
qed

text \<open>
  So even the rollback of one release to a revision deletes every resource of the namespace;
  and when the releases cannot be listed the revert succeeds without touching any.
\<close>

lemma revision_rollback_deletes_everything:
  "delete_call demo_rollback_options ''ns'' ''deployments'' \<in> set (rt_calls (snd
     (rollback_namespace listing_clients demo_rollback_executor demo_exec_job
        demo_rollback_options demo_runtime)))"
  by code_simp

definition unlisting_clients :: clients where
  "unlisting_clients h c = (case c of
     HelmListReleases ns al \<Rightarrow> Inr (demo_result\<lparr>mr_success := False\<rparr>) | _ \<Rightarrow> Inr demo_result)"

lemma unlisted_releases_are_ignored:
  "case rollback_namespace unlisting_clients demo_rollback_executor demo_exec_job
      demo_rollback_options demo_runtime of (res, t) \<Rightarrow>
     (case res of Inl _ \<Rightarrow> False | Inr r \<Rightarrow> rb_success r \<and> length (rb_steps r) = 11)"
  by code_simp

end
