(* ===== verification/Artifacts.thy ===== *)
theory Artifacts
  imports PlanParser Mcp
begin

text \<open>
  The bundles of artifacts (\<open>artifacts/\<close>): where a bundle comes from, how its archive is
  unpacked, and what its plan, manifests, values and index have to satisfy. A directory is the
  list of its files and subdirectories by path; what the host holds, the network and the
  decoders of YAML and JSON texts are parameters.
\<close>

section \<open>Errors\<close>

datatype bundle_error =
    SourceError string
  | BundleError string
  | ManifestError string
  | ValuesError string
  | PlanFailed plan_error
  | OsError string

definition and_then :: "bundle_error + 'a \<Rightarrow> ('a \<Rightarrow> bundle_error + 'b) \<Rightarrow> bundle_error + 'b" where
  "and_then r f = (case r of Inl err \<Rightarrow> Inl err | Inr x \<Rightarrow> f x)"

lemma and_then_Inr: "and_then r f = Inr y \<longleftrightarrow> (\<exists>x. r = Inr x \<and> f x = Inr y)"
  by (cases r) (simp_all add: and_then_def)

text \<open>An error of a library that is given a name.\<close>

lemma renamed_Inr:
  "(case r of Inl err \<Rightarrow> Inl (f err) | Inr x \<Rightarrow> g x) = Inr y \<longleftrightarrow> (\<exists>x. r = Inr x \<and> g x = Inr y)"
  by (cases r) simp_all

lemma refused_Inr: "(if b then Inl err else r) = Inr y \<longleftrightarrow> \<not> b \<and> r = Inr y"
  by simp

primrec load_each :: "('a \<Rightarrow> bundle_error + 'b) \<Rightarrow> 'a list \<Rightarrow> bundle_error + 'b list" where
  "load_each f [] = Inr []"
| "load_each f (x # xs) =
     and_then (f x) (\<lambda>y. and_then (load_each f xs) (\<lambda>ys. Inr (y # ys)))"

lemma load_each_Inr: "load_each f xs = Inr ys \<longleftrightarrow> list_all2 (\<lambda>x y. f x = Inr y) xs ys"
proof (induction xs arbitrary: ys)
  case (Cons x xs)
  then show ?case by (cases ys) (auto simp: and_then_Inr)
qed auto

section \<open>Paths and directories\<close>

text \<open>\<open>Path(text).parts\<close> without the root, on a POSIX system.\<close>

fun split_slash :: "string \<Rightarrow> string \<Rightarrow> string list" where
  "split_slash acc [] = [rev acc]"
| "split_slash acc (c # s) =
     (if c = CHR ''/'' then rev acc # split_slash [] s else split_slash (c # acc) s)"

definition path_parts :: "string \<Rightarrow> string list" where
  "path_parts s = filter (\<lambda>p. p \<noteq> [] \<and> p \<noteq> ''.'') (split_slash [] s)"

definition is_unsafe_relative_path :: "string \<Rightarrow> bool" where
  "is_unsafe_relative_path s \<longleftrightarrow> starts_with s ''/'' \<or> ''..'' \<in> set (path_parts s)"

text \<open>A directory: its files with their texts, and its subdirectories.\<close>

type_synonym tree = "(string list \<times> string option) list"

datatype tree_entry = Missing | Directory | File string

definition tree_entry :: "tree \<Rightarrow> string list \<Rightarrow> tree_entry" where
  "tree_entry t ps =
     (if ps = [] then Directory
      else case map_of t ps of
             Some (Some text) \<Rightarrow> File text
           | Some None \<Rightarrow> Directory
           | None \<Rightarrow> if list_ex (\<lambda>e. take (length ps) (fst e) = ps) t then Directory else Missing)"

definition read_entry :: "tree \<Rightarrow> string list \<Rightarrow> bundle_error + string" where
  "read_entry t ps =
     (case tree_entry t ps of
        File text \<Rightarrow> Inr text
      | Directory \<Rightarrow> Inl (OsError ''is_a_directory'')
      | Missing \<Rightarrow> Inl (OsError ''no_such_file''))"

text \<open>\<open>sorted(root.glob("*" + suffix))\<close>.\<close>

definition glob_suffix :: "tree \<Rightarrow> string \<Rightarrow> string list" where
  "glob_suffix t ext = sort (remdups (filter (\<lambda>n. ends_with n ext)
     (map (\<lambda>e. hd (fst e)) (filter (\<lambda>e. fst e \<noteq> []) t))))"

section \<open>Sources\<close>

datatype bundle_source_type =
    LOCAL_PATH | UPLOADED_ZIP | MOP_CREATION_RUN | ARTIFACT_MANIFEST | OBJECT_STORE

record bundle_source =
  bs_type :: bundle_source_type
  bs_value :: string

text \<open>A member of an archive: its name and its text.\<close>

type_synonym zip_member = "string \<times> string"

datatype host_entry = H_missing | H_dir tree | H_text string | H_archive "zip_member list"

text \<open>
  The host: what is at a path, what a download gives, and where an archive is unpacked (a
  directory named by its digest). The decoders of YAML (one and several documents) and JSON.
\<close>

record host =
  ho_at :: "string \<Rightarrow> host_entry"
  ho_download :: "string \<Rightarrow> string + zip_member list"
  ho_extracted :: "zip_member list \<Rightarrow> string"
  ho_plans :: plan_lib
  ho_yaml_all :: "string \<Rightarrow> string + json list"
  ho_json :: "string \<Rightarrow> string + json"

definition write_member :: "string list \<Rightarrow> string \<Rightarrow> tree \<Rightarrow> bundle_error + tree" where
  "write_member ps text t =
     (if tree_entry t ps = Directory then Inl (OsError ''is_a_directory'')
      else if list_ex (\<lambda>n. case tree_entry t (take n ps) of File _ \<Rightarrow> True | _ \<Rightarrow> False) [1..<length ps]
      then Inl (OsError ''not_a_directory'')
      else Inr (AList.update ps (Some text) t))"

fun extract_members :: "zip_member list \<Rightarrow> tree \<Rightarrow> bundle_error + tree" where
  "extract_members [] t = Inr t"
| "extract_members ((name, text) # rest) t =
     (if is_unsafe_relative_path name then Inl (SourceError (''unsafe_zip_member:'' @ name))
      else if ends_with name ''/'' then extract_members rest t
      else and_then (write_member (path_parts name) text t) (extract_members rest))"

definition extract_zip_safely :: "host \<Rightarrow> zip_member list \<Rightarrow> bundle_error + string \<times> tree" where
  "extract_zip_safely h members =
     and_then (extract_members members []) (\<lambda>t. Inr (ho_extracted h members, t))"

definition json_object :: "host \<Rightarrow> string \<Rightarrow> string \<Rightarrow> bundle_error + json dict" where
  "json_object h name text =
     (case ho_json h text of
        Inl msg \<Rightarrow> Inl (SourceError (''json_file_invalid:'' @ name @ '':'' @ msg))
      | Inr v \<Rightarrow> if is_obj v then Inr (obj_items v)
          else Inl (SourceError (''json_file_not_object:'' @ name)))"

definition source_type_value :: "bundle_source_type \<Rightarrow> string" where
  "source_type_value ty = (case ty of LOCAL_PATH \<Rightarrow> ''local_path'' | UPLOADED_ZIP \<Rightarrow> ''uploaded_zip''
     | MOP_CREATION_RUN \<Rightarrow> ''mop_creation_run'' | ARTIFACT_MANIFEST \<Rightarrow> ''artifact_manifest''
     | OBJECT_STORE \<Rightarrow> ''object_store'')"

definition resolve_local :: "host \<Rightarrow> string \<Rightarrow> string \<Rightarrow> bundle_error + string \<times> tree" where
  "resolve_local h label path =
     (case ho_at h path of H_dir t \<Rightarrow> Inr (path, t) | _ \<Rightarrow> Inl (SourceError (label @ path)))"

definition resolve_artifact_manifest :: "host \<Rightarrow> string \<Rightarrow> bundle_error + string \<times> tree" where
  "resolve_artifact_manifest h path =
     (case ho_at h path of
        H_missing \<Rightarrow> Inl (SourceError (''artifact_manifest_missing:'' @ path))
      | H_text text \<Rightarrow>
          and_then (json_object h path text) (\<lambda>manifest.
            case json_or (get_or_null manifest ''root_path'') (get_or_null manifest ''artifact_root'') of
              JStr root \<Rightarrow> resolve_local h ''artifact_manifest_root_missing:'' root
            | _ \<Rightarrow> Inl (SourceError ''artifact_manifest_root_path_missing''))
      | _ \<Rightarrow> Inl (OsError ''not_a_text_file''))"

definition resolve_object_store :: "host \<Rightarrow> string \<Rightarrow> bundle_error + string \<times> tree" where
  "resolve_object_store h value =
     (if starts_with (str_lower value) ''http:'' \<or> starts_with (str_lower value) ''https:''
      then case ho_download h value of
             Inl msg \<Rightarrow> Inl (SourceError msg)
           | Inr members \<Rightarrow> extract_zip_safely h members
      else case ho_at h value of
             H_archive members \<Rightarrow> extract_zip_safely h members
           | H_text _ \<Rightarrow> Inl (OsError ''bad_zip_file'')
           | _ \<Rightarrow> Inl (SourceError (''bundle_source_not_locally_resolvable:object_store:'' @ value)))"

definition resolve_bundle_source :: "host \<Rightarrow> bundle_source \<Rightarrow> bundle_error + string \<times> tree" where
  "resolve_bundle_source h source =
     (let value = bs_value source in
      case bs_type source of
        LOCAL_PATH \<Rightarrow> resolve_local h ''bundle_local_path_missing:'' value
      | UPLOADED_ZIP \<Rightarrow>
          (case ho_at h value of
             H_archive members \<Rightarrow> extract_zip_safely h members
           | H_text _ \<Rightarrow> Inl (OsError ''bad_zip_file'')
           | _ \<Rightarrow> Inl (SourceError (''bundle_archive_missing:'' @ value)))
      | ARTIFACT_MANIFEST \<Rightarrow> resolve_artifact_manifest h value
      | OBJECT_STORE \<Rightarrow> resolve_object_store h value
      | MOP_CREATION_RUN \<Rightarrow> Inl (SourceError (''bundle_source_not_locally_resolvable:'' @
          source_type_value (bs_type source))))"

section \<open>Manifests\<close>

definition NAMESPACED_KINDS :: "string list" where
  "NAMESPACED_KINDS = [''ConfigMap'', ''Secret'', ''Service'', ''Deployment'', ''StatefulSet'',
     ''DaemonSet'', ''Job'', ''CronJob'', ''PersistentVolumeClaim'', ''Ingress'', ''Role'',
     ''RoleBinding'', ''ServiceAccount'']"

definition CLUSTER_SCOPED_KINDS :: "string list" where
  "CLUSTER_SCOPED_KINDS = [''Namespace'', ''ClusterRole'', ''ClusterRoleBinding'',
     ''CustomResourceDefinition'', ''StorageClass'', ''PersistentVolume'']"

record loaded_manifest =
  lm_path :: string
  lm_index :: nat
  lm_api_version :: string
  lm_kind :: string
  lm_name :: string
  lm_namespace :: "string option"
  lm_content :: "json dict"

definition manifest_failure :: "string \<Rightarrow> string \<Rightarrow> string \<Rightarrow> bundle_error + 'a" where
  "manifest_failure code path what = Inl (ManifestError (code @ '':'' @ path @ '':'' @ what))"

definition validate_manifest ::
    "json dict \<Rightarrow> string \<Rightarrow> nat \<Rightarrow> string \<Rightarrow> bundle_error + loaded_manifest" where
  "validate_manifest doc path n target =
     (let at = nat_str n; metadata = get_or_null doc ''metadata'';
          meta = obj_items metadata; ns = get_or_null meta ''namespace'' in
      if \<not> nonempty_str (get_or_null doc ''apiVersion'')
      then manifest_failure ''manifest_missing_apiVersion'' path at
      else if \<not> nonempty_str (get_or_null doc ''kind'')
      then manifest_failure ''manifest_missing_kind'' path at
      else if \<not> is_obj metadata then manifest_failure ''manifest_missing_metadata'' path at
      else if \<not> nonempty_str (get_or_null meta ''name'')
      then manifest_failure ''manifest_missing_metadata_name'' path at
      else
        let kind = str_of (get_or_null doc ''kind''); name = str_of (get_or_null meta ''name'') in
        if kind \<in> set CLUSTER_SCOPED_KINDS
        then manifest_failure ''cluster_scoped_resource_blocked'' path kind
        else if ns \<noteq> JNull \<and> ns \<noteq> JStr target
        then manifest_failure ''manifest_namespace_mismatch'' path (py_str ns)
        else if kind = ''Secret'' \<and>
          truthy (json_or (get_or_null doc ''data'') (get_or_null doc ''stringData''))
        then manifest_failure ''secret_value_detected'' path name
        else if kind \<notin> set NAMESPACED_KINDS
        then manifest_failure ''manifest_kind_unsupported'' path kind
        else Inr \<lparr>lm_path = path, lm_index = n,
          lm_api_version = str_of (get_or_null doc ''apiVersion''), lm_kind = kind, lm_name = name,
          lm_namespace = (if ns = JNull then None else Some target), lm_content = doc\<rparr>)"

text \<open>The documents of a file, an empty one left out.\<close>

fun validate_documents ::
    "(nat \<times> json) list \<Rightarrow> string \<Rightarrow> string \<Rightarrow> bundle_error + loaded_manifest list" where
  "validate_documents [] path target = Inr []"
| "validate_documents ((n, doc) # rest) path target =
     (if doc = JNull then validate_documents rest path target
      else if \<not> is_obj doc
      then manifest_failure ''manifest_document_not_mapping'' path (nat_str n)
      else and_then (validate_manifest (obj_items doc) path n target) (\<lambda>m.
           and_then (validate_documents rest path target) (\<lambda>ms. Inr (m # ms))))"

definition load_manifest_file ::
    "host \<Rightarrow> tree \<Rightarrow> string \<Rightarrow> string \<Rightarrow> bundle_error + loaded_manifest list" where
  "load_manifest_file h root target path =
     (if is_unsafe_relative_path path then Inl (ManifestError (''manifest_path_unsafe:'' @ path))
      else if tree_entry root (path_parts path) = Missing
      then Inl (ManifestError (''manifest_missing:'' @ path))
      else and_then (read_entry root (path_parts path)) (\<lambda>text.
        case ho_yaml_all h text of
          Inl msg \<Rightarrow> Inl (ManifestError (''manifest_yaml_invalid:'' @ path @ '':'' @ msg))
        | Inr docs \<Rightarrow>
            and_then (validate_documents (enumerate 0 docs) path target) (\<lambda>ms.
            if ms = [] then Inl (ManifestError (''manifest_empty:'' @ path)) else Inr ms)))"

section \<open>Values\<close>

record loaded_values =
  lv_path :: string
  lv_content :: "json dict"

text \<open>\<open>SENSITIVE_KEY_PATTERN.search\<close>, which ignores case.\<close>

definition VALUES_SENSITIVE_WORDS :: "string list" where
  "VALUES_SENSITIVE_WORDS = [''password'', ''passwd'', ''pwd'', ''token'', ''apikey'', ''api_key'',
     ''api-key'', ''secret'', ''client_secret'', ''privatekey'', ''private_key'', ''private-key'']"

definition sensitive_values_key :: "string \<Rightarrow> bool" where
  "sensitive_values_key key \<longleftrightarrow>
     list_ex (\<lambda>word. str_contains word (str_lower key)) VALUES_SENSITIVE_WORDS"

definition holds_nothing :: "json \<Rightarrow> bool" where
  "holds_nothing v \<longleftrightarrow> v \<in> {JNull, JStr [], JArr []}"

definition sub_path :: "string \<Rightarrow> string \<Rightarrow> string" where
  "sub_path path key = (if path = [] then key else path @ ''.'' @ key)"

lemma enumerate_size [termination_simp]:
  "nx \<in> set (enumerate n xs) \<Longrightarrow> size (snd nx) < Suc (size_list size xs)"
  by (induction xs arbitrary: n) (auto simp: less_Suc_eq_le, fastforce)

function find_sensitive_paths :: "json \<Rightarrow> string \<Rightarrow> string list" where
  "find_sensitive_paths (JObj d) path = concat (map (\<lambda>kv.
     (if sensitive_values_key (fst kv) \<and> \<not> holds_nothing (snd kv) then [sub_path path (fst kv)] else [])
     @ find_sensitive_paths (snd kv) (sub_path path (fst kv))) d)"
| "find_sensitive_paths (JArr xs) path = concat (map (\<lambda>nx.
     find_sensitive_paths (snd nx) (path @ ''['' @ nat_str (fst nx) @ '']'')) (enumerate 0 xs))"
| "find_sensitive_paths JNull path = []"
| "find_sensitive_paths (JBool b) path = []"
| "find_sensitive_paths (JInt n) path = []"
| "find_sensitive_paths (JStr s) path = []"
  by pat_completeness auto

termination
proof (relation "measure (\<lambda>(v, path). size v)")
  fix d :: "json dict" and path x assume "x \<in> set d"
  then have "size (snd x) < Suc (size_list (size_prod (\<lambda>_. 0) size) d)"
    by (induction d) (auto simp: less_Suc_eq_le)
  then show "((snd x, sub_path path (fst x)), JObj d, path) \<in> measure (\<lambda>(v, path). size v)" by simp
qed (simp_all add: enumerate_size)

definition load_values_file :: "host \<Rightarrow> tree \<Rightarrow> string \<Rightarrow> bundle_error + loaded_values" where
  "load_values_file h root path =
     (if is_unsafe_relative_path path then Inl (ValuesError (''values_file_path_unsafe:'' @ path))
      else if tree_entry root (path_parts path) = Missing
      then Inl (ValuesError (''values_file_missing:'' @ path))
      else and_then (read_entry root (path_parts path)) (\<lambda>text.
        case pl_yaml (ho_plans h) text of
          Inl msg \<Rightarrow> Inl (ValuesError (''values_yaml_invalid:'' @ path @ '':'' @ msg))
        | Inr v \<Rightarrow>
            let loaded = json_or v (JObj []); found = find_sensitive_paths loaded [] in
            if \<not> is_obj loaded then Inl (ValuesError (''values_not_mapping:'' @ path))
            else if found \<noteq> []
            then Inl (ValuesError (''values_secret_like_key_detected:'' @ path @ '':'' @
              str_join '','' found))
            else Inr \<lparr>lv_path = path, lv_content = obj_items loaded\<rparr>))"

section \<open>The index of a bundle\<close>

primrec first_occurrences :: "string list \<Rightarrow> string list \<Rightarrow> string list" where
  "first_occurrences [] seen = []"
| "first_occurrences (x # xs) seen =
     (if x \<in> set seen then first_occurrences xs seen else x # first_occurrences xs (x # seen))"

definition artifact_index_file_entries :: "json dict \<Rightarrow> bundle_error + json list" where
  "artifact_index_file_entries index =
     (let files = get_or_null index ''files'' in
      if files \<noteq> JNull
      then (if is_arr files then Inr (arr_items files)
            else Inl (BundleError ''artifact_index_files_not_list''))
      else
        let listed = concat (map (\<lambda>key. string_list (get_or_null index key))
              [''values'', ''kubernetes_manifests'', ''raw_configmaps'', ''crds'', ''rendered_manifests'']);
            commands = get_or_null index ''commands'';
            package = get_or_null (obj_items (get_or_null index ''chart'')) ''package'' in
        Inr (map (\<lambda>path. JObj [(''path'', JStr path)])
          (first_occurrences (listed @ (if is_str commands then [str_of commands] else []) @
             (if is_str package then [str_of package] else [])) [])))"

primrec validate_index_entries :: "tree \<Rightarrow> string list \<Rightarrow> json list \<Rightarrow> bundle_error + unit" where
  "validate_index_entries root base [] = Inr ()"
| "validate_index_entries root base (entry # rest) =
     (let path = get_or_null (obj_items entry) ''path'' in
      if \<not> is_obj entry then Inl (BundleError ''artifact_index_entry_not_object'')
      else if is_str path \<and> is_unsafe_relative_path (str_of path)
      then Inl (BundleError (''artifact_index_file_path_unsafe:'' @ str_of path))
      else if is_str path \<and> tree_entry root (base @ path_parts (str_of path)) = Missing
      then Inl (BundleError (''artifact_index_file_missing:'' @ str_of path))
      else validate_index_entries root base rest)"

definition validate_artifact_index_refs ::
    "tree \<Rightarrow> string list \<Rightarrow> json dict option \<Rightarrow> bundle_error + unit" where
  "validate_artifact_index_refs root base index =
     (case index of
        None \<Rightarrow> Inr ()
      | Some d \<Rightarrow> and_then (artifact_index_file_entries d) (validate_index_entries root base))"

section \<open>Bundles\<close>

record artifact_bundle =
  ab_root_path :: string
  ab_root :: tree
  ab_source :: bundle_source
  ab_target_namespace :: string
  ab_plan :: machine_plan
  ab_human_mop :: "string option"
  ab_notes :: "string option"
  ab_artifact :: "json dict option"
  ab_index :: "json dict option"
  ab_index_root :: "string list"
  ab_response :: "json dict option"
  ab_manifests :: "loaded_manifest list"
  ab_values :: "loaded_values list"

definition read_optional_text :: "tree \<Rightarrow> string \<Rightarrow> string \<Rightarrow> bundle_error + string option" where
  "read_optional_text root name glob =
     (if tree_entry root [name] \<noteq> Missing
      then and_then (read_entry root [name]) (\<lambda>text. Inr (Some text))
      else case glob_suffix root glob of
             [] \<Rightarrow> Inr None
           | found # _ \<Rightarrow> and_then (read_entry root [found]) (\<lambda>text. Inr (Some text)))"

definition read_optional_json :: "host \<Rightarrow> tree \<Rightarrow> string list \<Rightarrow> bundle_error + json dict option" where
  "read_optional_json h root ps =
     (if tree_entry root ps = Missing then Inr None
      else and_then (read_entry root ps) (\<lambda>text.
           and_then (json_object h (str_join ''/'' ps) text) (\<lambda>d. Inr (Some d))))"

definition plan_error_result :: "plan_error + 'a \<Rightarrow> bundle_error + 'a" where
  "plan_error_result r = (case r of Inl err \<Rightarrow> Inl (PlanFailed err) | Inr x \<Rightarrow> Inr x)"

definition load_plan :: "host \<Rightarrow> tree \<Rightarrow> string option \<Rightarrow> bundle_error + machine_plan" where
  "load_plan h root notes =
     (if tree_entry root [''machine_execution_plan.yaml''] \<noteq> Missing
      then and_then (read_entry root [''machine_execution_plan.yaml'']) (\<lambda>text.
        plan_error_result (parse_machine_plan (ho_plans h) text))
      else if opt_truthy notes
      then and_then (plan_error_result (parse_embedded_machine_plan (ho_plans h) (the notes)))
        (\<lambda>found. case found of
           None \<Rightarrow> Inl (BundleError ''machine_execution_plan_missing'')
         | Some plan \<Rightarrow> Inr plan)
      else Inl (BundleError ''machine_execution_plan_missing''))"

text \<open>Where the index is: at the top, or where the deployment artifacts are generated.\<close>

definition index_root :: "tree \<Rightarrow> string list" where
  "index_root root =
     (if tree_entry root [''artifact-index.json''] = Missing \<and>
        tree_entry root [''deployment-artifacts'', ''artifact-index.json''] \<noteq> Missing
      then [''deployment-artifacts''] else [])"

definition load_and_validate_bundle ::
    "host \<Rightarrow> bundle_source \<Rightarrow> string \<Rightarrow> bundle_error + artifact_bundle" where
  "load_and_validate_bundle h source target =
     and_then (resolve_bundle_source h source) (\<lambda>(path, root).
     and_then (read_optional_text root ''machine-readable-installation-notes.md''
       ''.installation.md'') (\<lambda>notes.
     and_then (load_plan h root notes) (\<lambda>plan.
     if mp_target_namespace plan \<noteq> target
     then Inl (BundleError (''machine_plan_target_namespace_mismatch:'' @ mp_target_namespace plan))
     else
     and_then (read_optional_text root ''human-readable-mop.md'' ''.human-mop.md'') (\<lambda>mop.
     and_then (read_optional_json h root [''artifact.json'']) (\<lambda>artifact.
     and_then (read_optional_json h root (index_root root @ [''artifact-index.json''])) (\<lambda>index.
     and_then (read_optional_json h root [''response.json'']) (\<lambda>response.
     and_then (load_each (load_manifest_file h root target) (sort (plan_manifest_refs plan))) (\<lambda>mss.
     and_then (load_each (load_values_file h root) (sort (plan_values_refs plan))) (\<lambda>values.
     and_then (validate_artifact_index_refs root (index_root root) index) (\<lambda>_.
     Inr \<lparr>ab_root_path = path, ab_root = root, ab_source = source, ab_target_namespace = target, ab_plan = plan,
       ab_human_mop = mop, ab_notes = notes, ab_artifact = artifact, ab_index = index,
       ab_index_root = index_root root, ab_response = response, ab_manifests = concat mss,
       ab_values = values\<rparr>))))))))))"

section \<open>What a loaded bundle can hold\<close>

text \<open>A value nested in another one.\<close>

inductive nested :: "json \<Rightarrow> json \<Rightarrow> bool" where
  here: "nested v v"
| member: "(k, x) \<in> set d \<Longrightarrow> nested v x \<Longrightarrow> nested v (JObj d)"
| element: "x \<in> set xs \<Longrightarrow> nested v x \<Longrightarrow> nested v (JArr xs)"

inductive_simps nested_simps: "nested v (JObj d)" "nested v (JArr xs)" "nested v JNull"
  "nested v (JBool b)" "nested v (JInt n)" "nested v (JStr s)"

definition shows_secret :: "json \<Rightarrow> bool" where
  "shows_secret v \<longleftrightarrow> (\<exists>d k x. nested (JObj d) v \<and> (k, x) \<in> set d \<and>
     sensitive_values_key k \<and> \<not> holds_nothing x)"

lemma in_enumerate: "x \<in> set xs \<Longrightarrow> \<exists>n. (n, x) \<in> set (enumerate m xs)"
  by (induction xs arbitrary: m) auto

lemma find_sensitive_paths_complete:
  "nested (JObj d) v \<Longrightarrow> find_sensitive_paths v path = [] \<Longrightarrow> (k, x) \<in> set d \<Longrightarrow>
    sensitive_values_key k \<Longrightarrow> holds_nothing x"
proof (induction "JObj d" v arbitrary: path rule: nested.induct)
  case here
  then show ?case by (auto split: if_splits)
next
  case (member k' y d')
  then show ?case by fastforce
next
  case (element y ys)
  obtain n where "(n, y) \<in> set (enumerate 0 ys)" using in_enumerate [OF element(1)] by blast
  with element show ?case by fastforce
qed

lemma no_sensitive_paths: "find_sensitive_paths v path = [] \<Longrightarrow> \<not> shows_secret v"
  unfolding shows_secret_def using find_sensitive_paths_complete by blast

text \<open>A manifest that only concerns the target namespace and carries no secret.\<close>

definition confined_manifest :: "string \<Rightarrow> loaded_manifest \<Rightarrow> bool" where
  "confined_manifest ns m \<longleftrightarrow>
     \<not> is_unsafe_relative_path (lm_path m) \<and> lm_kind m \<in> set NAMESPACED_KINDS \<and>
     get_or_null (lm_content m) ''kind'' = JStr (lm_kind m) \<and>
     get_or_null (obj_items (get_or_null (lm_content m) ''metadata'')) ''namespace'' \<in> {JNull, JStr ns} \<and>
     (lm_kind m \<noteq> ''Secret'' \<or> \<not> truthy (get_or_null (lm_content m) ''data'') \<and>
        \<not> truthy (get_or_null (lm_content m) ''stringData''))"

lemma validate_manifest_confined:
  assumes "validate_manifest doc path n ns = Inr m" and "\<not> is_unsafe_relative_path path"
  shows "confined_manifest ns m \<and> lm_path m = path"
proof -
  have str: "nonempty_str v \<Longrightarrow> v = JStr (str_of v)" for v by (cases v) auto
  from assms show ?thesis
    by (auto simp: validate_manifest_def manifest_failure_def confined_manifest_def Let_def
        json_or_def dest: str split: if_splits)
qed

lemma validate_documents_confined:
  "validate_documents docs path ns = Inr ms \<Longrightarrow> \<not> is_unsafe_relative_path path \<Longrightarrow>
    list_all (\<lambda>m. confined_manifest ns m \<and> lm_path m = path) ms"
proof (induction docs path ns arbitrary: ms rule: validate_documents.induct)
  case (2 n doc rest path target)
  then show ?case
    by (auto simp: and_then_Inr manifest_failure_def split: if_splits
        dest: validate_manifest_confined)
qed simp

lemma load_manifest_file_confined:
  assumes "load_manifest_file h root ns path = Inr ms"
  shows "ms \<noteq> [] \<and> list_all (\<lambda>m. confined_manifest ns m \<and> lm_path m = path) ms"
  using assms
  by (auto simp: load_manifest_file_def and_then_Inr renamed_Inr split: if_splits
      dest: validate_documents_confined)

lemma load_values_file_clean:
  assumes "load_values_file h root path = Inr v"
  shows "lv_path v = path \<and> \<not> is_unsafe_relative_path path \<and> \<not> shows_secret (JObj (lv_content v))"
proof -
  from assms obtain loaded where "find_sensitive_paths loaded [] = []" "is_obj loaded"
    and v: "v = \<lparr>lv_path = path, lv_content = obj_items loaded\<rparr>" "\<not> is_unsafe_relative_path path"
    by (auto simp: load_values_file_def and_then_Inr renamed_Inr Let_def split: if_splits)
  moreover from this(2) have "JObj (obj_items loaded) = loaded" by (cases loaded) auto
  ultimately show ?thesis using no_sensitive_paths by simp
qed

lemma loaded_manifests:
  assumes "list_all2 (\<lambda>ref ms. load_manifest_file h root ns ref = Inr ms) refs mss"
  shows "set (map lm_path (concat mss)) = set refs \<and> list_all (confined_manifest ns) (concat mss)"
  using assms
proof (induction refs mss rule: list_all2_induct)
  case (Cons ref refs ms mss)
  from load_manifest_file_confined [OF Cons(1)] obtain m rest where "ms = m # rest"
    by (cases ms) auto
  with load_manifest_file_confined [OF Cons(1)] Cons.IH show ?case
    by (auto simp: list_all_iff)
qed simp

lemma loaded_values:
  assumes "list_all2 (\<lambda>ref v. load_values_file h root ref = Inr v) refs vs"
  shows "map lv_path vs = refs \<and> list_all (\<lambda>v. \<not> is_unsafe_relative_path (lv_path v) \<and>
    \<not> shows_secret (JObj (lv_content v))) vs"
  using assms by (induction refs vs rule: list_all2_induct) (auto dest: load_values_file_clean)

text \<open>
  C39. A bundle that is loaded is confined to its target namespace: its plan is for this
  namespace; exactly the manifests and values files of the plan have been loaded, from
  inside the bundle; each manifest is of a namespaced kind, names no other namespace and is
  no secret with data; and no mapping nested anywhere in the values has something under a
  sensitive key.
\<close>

theorem loaded_bundle_is_confined:
  assumes "load_and_validate_bundle h source ns = Inr b"
  shows "mp_target_namespace (ab_plan b) = ns \<and>
    set (map lm_path (ab_manifests b)) = set (plan_manifest_refs (ab_plan b)) \<and>
    list_all (confined_manifest ns) (ab_manifests b) \<and>
    set (map lv_path (ab_values b)) = set (plan_values_refs (ab_plan b)) \<and>
    list_all (\<lambda>v. \<not> is_unsafe_relative_path (lv_path v) \<and> \<not> shows_secret (JObj (lv_content v)))
      (ab_values b)"
proof -
  from assms obtain path root nts plan mop artifact index response mss vs
    where "resolve_bundle_source h source = Inr (path, root)"
    and ns: "mp_target_namespace plan = ns"
    and ms: "list_all2 (\<lambda>ref ms. load_manifest_file h root ns ref = Inr ms)
      (sort (plan_manifest_refs plan)) mss"
    and vs: "list_all2 (\<lambda>ref v. load_values_file h root ref = Inr v)
      (sort (plan_values_refs plan)) vs"
    and b: "Inr \<lparr>ab_root_path = path, ab_root = root, ab_source = source, ab_target_namespace = ns, ab_plan = plan,
      ab_human_mop = mop, ab_notes = nts, ab_artifact = artifact, ab_index = index,
      ab_index_root = index_root root, ab_response = response, ab_manifests = concat mss,
      ab_values = vs\<rparr> = (Inr b :: bundle_error + artifact_bundle)"
    unfolding load_and_validate_bundle_def and_then_Inr refused_Inr load_each_Inr not_not split_paired_Ex prod.case
    by (elim exE conjE) (rule that, assumption+)
  from b have "ab_plan b = plan" "ab_manifests b = concat mss" "ab_values b = vs" by auto
  with ns loaded_manifests [OF ms] loaded_values [OF vs] show ?thesis by simp
qed

text \<open>A host with one directory: a plan whose only step names a manifest and a values file.\<close>

definition demo_bundle_plan :: machine_plan where
  "demo_bundle_plan = (demo_plan [(''p'', [])])\<lparr>mp_phases := [\<lparr>pp_id = ''p'', pp_title = None,
     pp_objective = ''o'', pp_depends_on = [], pp_steps = [\<lparr>ps_id = ''s'', ps_title = ''s'',
       ps_type = ''helm_install'', ps_depends_on = [], ps_evidence_refs = [],
       ps_manifest_refs = [''k/m.yaml''], ps_values_refs = [''v.yaml''], ps_commands = [],
       ps_rollback_commands = [], ps_metadata = [], ps_expected_outcomes = [],
       ps_required_human_inputs = [], ps_inference = None\<rparr>]\<rparr>]\<rparr>"

definition demo_host :: host where
  "demo_host =
     \<lparr>ho_at = (\<lambda>path. if path = ''/b'' then H_dir [([''machine_execution_plan.yaml''], Some ''plan''),
         ([''k'', ''m.yaml''], Some ''manifest''), ([''v.yaml''], Some ''values'')] else H_missing),
      ho_download = (\<lambda>url. Inl ''object_store_download_failed''),
      ho_extracted = (\<lambda>members. ''/x''),
      ho_plans = demo_lib\<lparr>pl_fields := (\<lambda>d. Inr demo_bundle_plan),
        pl_yaml := (\<lambda>body. Inr (if body = ''values'' then JObj [(''replicas'', JInt 2)]
          else JObj demo_payload))\<rparr>,
      ho_yaml_all = (\<lambda>body. Inr [JNull, JObj [(''apiVersion'', JStr ''v1''),
        (''kind'', JStr ''ConfigMap''), (''metadata'', JObj [(''name'', JStr ''a'')])]]),
      ho_json = (\<lambda>body. Inl ''no json'')\<rparr>"

definition demo_source :: bundle_source where
  "demo_source = \<lparr>bs_type = LOCAL_PATH, bs_value = ''/b''\<rparr>"

lemma demo_bundle_loads:
  "case load_and_validate_bundle demo_host demo_source ''ns'' of
     Inl err \<Rightarrow> False
   | Inr b \<Rightarrow> map lm_path (ab_manifests b) = [''k/m.yaml''] \<and> map lm_index (ab_manifests b) = [1] \<and>
       map lv_path (ab_values b) = [''v.yaml'']"
  by code_simp

theorem loaded_bundle_is_confined_witness:
  "\<exists>b. load_and_validate_bundle demo_host demo_source ''ns'' = Inr b \<and>
     map lm_path (ab_manifests b) = [''k/m.yaml''] \<and> list_all (confined_manifest ''ns'') (ab_manifests b)"
proof -
  obtain b where b: "load_and_validate_bundle demo_host demo_source ''ns'' = Inr b"
    and paths: "map lm_path (ab_manifests b) = [''k/m.yaml'']"
    using demo_bundle_loads by (auto split: sum.splits)
  from loaded_bundle_is_confined [OF b] b paths show ?thesis
    by (intro exI [of _ b] conjI) simp_all
qed

text \<open>An archive is unpacked only when all its members stay inside, and then it holds them.\<close>

lemma write_member_keys:
  assumes "write_member ps body t = Inr u"
  shows "set (map fst u) = insert ps (set (map fst t))"
proof -
  from assms have u: "u = AList.update ps (Some body) t"
    unfolding write_member_def refused_Inr by (elim conjE) simp
  show ?thesis unfolding u AList.update_keys by auto
qed

lemma extracted_members_are_safe:
  "extract_members members t = Inr t' \<Longrightarrow>
    list_all (\<lambda>m. \<not> is_unsafe_relative_path (fst m)) members \<and>
    set (map fst t') \<subseteq> set (map fst t) \<union> set (map (\<lambda>m. path_parts (fst m)) members)"
proof (induction members t arbitrary: t' rule: extract_members.induct)
  case (2 name body rest t)
  have safe: "\<not> is_unsafe_relative_path name" using 2(3) by (cases "is_unsafe_relative_path name") simp_all
  show ?case
  proof (cases "ends_with name ''/''")
    case True
    with 2(3) safe have "extract_members rest t = Inr t'" by simp
    with 2(1) [OF safe True this] safe show ?thesis by auto
  next
    case False
    with 2(3) safe have "and_then (write_member (path_parts name) body t) (extract_members rest) = Inr t'"
      by simp
    then obtain u where u: "write_member (path_parts name) body t = Inr u"
      and rest: "extract_members rest u = Inr t'" unfolding and_then_Inr by blast
    from 2(2) [OF safe False rest] write_member_keys [OF u] safe show ?thesis by auto
  qed
qed simp

end
