(* ===== verification/ApiModels.thy ===== *)
theory ApiModels
  imports Worker Validation Rollback Artifacts
begin

text \<open>
  What the interface of the agent (\<open>api/service.py\<close>) answers and records: the JSON form of
  the models it shows, its responses, and the values it reads from a payload.
\<close>

section \<open>JSON form of the models\<close>

definition jinstant :: "env \<Rightarrow> instant \<Rightarrow> json" where
  "jinstant e t = JStr (env_dt_json e t)"

definition jinstant_opt :: "env \<Rightarrow> instant option \<Rightarrow> json" where
  "jinstant_opt e t = (case t of None \<Rightarrow> JNull | Some x \<Rightarrow> jinstant e x)"

definition jnat :: "nat \<Rightarrow> json" where
  "jnat n = JInt (int n)"

definition progress_json :: "progress \<Rightarrow> json" where
  "progress_json p = JObj
     [(''total_phases'', jnat (pr_total_phases p)), (''completed_phases'', jnat (pr_completed_phases p)),
      (''total_steps'', jnat (pr_total_steps p)), (''completed_steps'', jnat (pr_completed_steps p)),
      (''failed_steps'', jnat (pr_failed_steps p))]"

definition job_json :: "env \<Rightarrow> exec_job \<Rightarrow> json" where
  "job_json e j = JObj
     [(''job_id'', JStr (job_id j)), (''bundle_id'', JStr (job_bundle_id j)),
      (''target_namespace'', JStr (job_target_namespace j)),
      (''state'', JStr (job_state_value (job_st j))), (''job_name'', jopt (job_name j)),
      (''mop_id'', jopt (job_mop_id j)), (''run_id'', jopt (job_run_id j)),
      (''correlation_id'', jopt (job_correlation_id j)), (''trace_id'', jopt (job_trace_id j)),
      (''source_namespace'', jopt (job_source_namespace j)),
      (''execution_mode'', JStr (execution_mode_value (job_mode j))),
      (''current_phase_id'', jopt (job_current_phase_id j)),
      (''current_step_id'', jopt (job_current_step_id j)),
      (''dry_run_satisfied'', JBool (job_dry_run_satisfied j)),
      (''approval_status'', JStr (approval_status_value (job_approval_status j))),
      (''decision_required'', JBool (job_decision_required j)), (''blocked'', JBool (job_blocked j)),
      (''progress'', progress_json (job_progress j)), (''created_at'', jinstant e (job_created_at j)),
      (''updated_at'', jinstant e (job_updated_at j)),
      (''completed_at'', jinstant_opt e (job_completed_at j)),
      (''links'', JObj (map (\<lambda>(k, v). (k, JStr v)) (job_links j)))]"

definition audit_json :: "env \<Rightarrow> audit_event \<Rightarrow> json dict" where
  "audit_json e a =
     [(''audit_event_id'', JStr (aud_id a)), (''timestamp'', jinstant e (aud_timestamp a)),
      (''actor_type'', JStr (actor_type_value (aud_actor_type a))), (''action'', JStr (aud_action a)),
      (''redacted'', JBool (aud_redacted a)), (''job_id'', jopt (aud_job_id a)),
      (''actor_id'', jopt (aud_actor_id a)), (''correlation_id'', jopt (aud_correlation_id a)),
      (''trace_id'', jopt (aud_trace_id a)), (''input_hash'', jopt (aud_input_hash a)),
      (''output_hash'', jopt (aud_output_hash a)), (''details'', JObj (aud_details a))]"

definition approval_json :: "env \<Rightarrow> human_approval \<Rightarrow> json" where
  "approval_json e a = JObj
     [(''approval_id'', JStr (apr_id a)), (''job_id'', JStr (apr_job_id a)),
      (''approver_id'', JStr (apr_approver_id a)),
      (''approval_scope'', JStr (approval_scope_value (apr_scope a))),
      (''ticket_reference'', JStr (apr_ticket a)), (''statement'', JStr (apr_statement a)),
      (''correlation_id'', jopt (apr_correlation_id a)), (''trace_id'', jopt (apr_trace_id a)),
      (''approver_role'', jopt (apr_approver_role a)), (''expires_at'', jinstant_opt e (apr_expires_at a)),
      (''approved_resource_refs'', JArr (map resource_ref_json (apr_resource_refs a))),
      (''approved_phase_ids'', jstrs (apr_phase_ids a)), (''approved_step_ids'', jstrs (apr_step_ids a)),
      (''command_fingerprint'', jopt (apr_fingerprint a)),
      (''policy_exception_id'', jopt (apr_policy_exception_id a))]"

definition transition_json :: "env \<Rightarrow> state_transition \<Rightarrow> json dict" where
  "transition_json e t =
     [(''job_id'', JStr (tr_job_id t)), (''from_state'', JStr (job_state_value (tr_from t))),
      (''to_state'', JStr (job_state_value (tr_to t))),
      (''actor_type'', JStr (actor_type_value (tr_actor_type t))), (''actor_id'', jopt (tr_actor_id t)),
      (''reason'', jopt (tr_reason t)), (''correlation_id'', jopt (tr_correlation_id t)),
      (''trace_id'', jopt (tr_trace_id t)), (''occurred_at'', jinstant e (tr_occurred_at t))]"

definition memory_json :: "env \<Rightarrow> memory_record \<Rightarrow> json" where
  "memory_json e m = JObj
     [(''memory_id'', JStr (mem_id m)), (''layer'', JStr (memory_layer_value (mem_layer m))),
      (''job_id'', JStr (mem_job_id m)), (''namespace'', jopt (mem_namespace m)),
      (''chart'', jopt (mem_chart m)), (''kind'', jopt (mem_kind m)),
      (''resource_name'', jopt (mem_resource_name m)), (''error_code'', jopt (mem_error_code m)),
      (''mcp_source'', jopt (mem_mcp_source m)), (''tenant'', jopt (mem_tenant m)),
      (''environment'', jopt (mem_environment m)), (''summary'', JStr (mem_summary m)),
      (''payload_redacted'', mem_payload m), (''authority'', JStr (mem_authority m)),
      (''redaction_applied'', JBool (mem_redaction_applied m)), (''tags'', jstrs (mem_tags m)),
      (''created_at'', jinstant e (mem_created_at m))]"

definition report_json :: "env \<Rightarrow> report_artifact \<Rightarrow> json dict" where
  "report_json e r =
     [(''report_id'', JStr (rep_id r)), (''report_type'', JStr (report_type_value (rep_type r))),
      (''path'', JStr (rep_path r)), (''job_id'', jopt (rep_job_id r)),
      (''correlation_id'', jopt (rep_correlation_id r)), (''trace_id'', jopt (rep_trace_id r)),
      (''download_url'', jopt (rep_download_url r)), (''html_path'', jopt (rep_html_path r)),
      (''pdf_path'', jopt (rep_pdf_path r)), (''archive_path'', jopt (rep_archive_path r)),
      (''created_at'', jinstant e (rep_created_at r)), (''redacted'', JBool (rep_redacted r))]"

definition step_state_opt :: "step_state option \<Rightarrow> json" where
  "step_state_opt st = jopt (map_option step_state_value st)"

definition step_json :: "env \<Rightarrow> exec_step \<Rightarrow> json" where
  "step_json e st = JObj
     [(''step_id'', JStr (stp_id st)), (''job_id'', JStr (stp_job_id st)),
      (''phase_id'', JStr (stp_phase_id st)), (''sequence_index'', jnat (stp_index st)),
      (''title'', jopt (stp_title st)), (''type'', JStr (step_type_value (stp_type st))),
      (''state'', JStr (step_state_value (stp_state st))),
      (''depends_on'', jstrs (stp_depends_on st)),
      (''resource_refs'', JArr (map resource_ref_json (stp_resource_refs st))),
      (''manifest_refs'', jstrs (stp_manifest_refs st)),
      (''values_refs'', jstrs (stp_values_refs st)),
      (''commands'', JArr (map JObj (stp_commands st))), (''metadata'', JObj (stp_metadata st)),
      (''command_fingerprint'', jopt (stp_fingerprint st)),
      (''dry_run_status'', step_state_opt (stp_dry_run_status st)),
      (''mutation_status'', step_state_opt (stp_mutation_status st)),
      (''validation_status'', step_state_opt (stp_validation_status st)),
      (''attempt_number'', jnat (stp_attempt st)), (''correlation_id'', jopt (stp_correlation_id st)),
      (''trace_id'', jopt (stp_trace_id st)), (''started_at'', jinstant_opt e (stp_started_at st)),
      (''completed_at'', jinstant_opt e (stp_completed_at st))]"

text \<open>\<open>_dataclass_payload\<close> of the results of the validation and the rollback.\<close>

definition validation_payload :: "validation_result \<Rightarrow> json" where
  "validation_payload r = redact_value (JObj
     [(''success'', JBool (vr_success r)),
      (''checks'', JArr (map (\<lambda>c. JObj [(''name'', JStr (vc_name c)),
         (''success'', JBool (vc_success c)), (''summary'', JStr (vc_summary c)),
         (''data'', JObj (vc_data c))]) (vr_checks r))),
      (''warnings'', jstrs (vr_warnings r))])"

definition rollback_payload :: "rollback_result \<Rightarrow> json" where
  "rollback_payload r = redact_value (JObj
     [(''success'', JBool (rb_success r)),
      (''steps'', JArr (map (\<lambda>st. JObj [(''action'', JStr (rs_action st)),
         (''success'', JBool (rs_success st)), (''summary'', JStr (rs_summary st)),
         (''data'', JObj (rs_data st))]) (rb_steps r))),
      (''warnings'', jstrs (rb_warnings r))])"

section \<open>Responses\<close>

record response =
  re_ok :: bool
  re_message :: string
  re_job_id :: "string option"
  re_bundle_id :: "string option"
  re_state :: "job_state option"
  re_data :: json
  re_policy_blocks :: "json list"
  re_next_decision :: "json option"

definition ok_response :: "string \<Rightarrow> json dict \<Rightarrow> string option \<Rightarrow> job_state option \<Rightarrow> response" where
  "ok_response message data jid st =
     \<lparr>re_ok = True, re_message = message, re_job_id = jid, re_bundle_id = None, re_state = st,
      re_data = redact_value (JObj data), re_policy_blocks = [], re_next_decision = None\<rparr>"

definition error_response ::
    "string \<Rightarrow> string \<Rightarrow> json dict \<Rightarrow> string option \<Rightarrow> job_state option \<Rightarrow> response" where
  "error_response message code data jid st =
     \<lparr>re_ok = False, re_message = message, re_job_id = jid, re_bundle_id = None, re_state = st,
      re_data = redact_value (JObj data),
      re_policy_blocks = [JObj [(''code'', JStr code), (''message'', JStr message),
        (''severity'', JStr ''block'')]],
      re_next_decision = None\<rparr>"

definition not_found :: "string \<Rightarrow> string option \<Rightarrow> response" where
  "not_found message jid = error_response message ''NOT_FOUND'' [] jid None"

section \<open>Payloads\<close>

text \<open>A field declared \<open>str | None\<close> takes nothing else.\<close>

definition optional_text :: "json \<Rightarrow> py_error + string option" where
  "optional_text v = (case v of JNull \<Rightarrow> Inr None | JStr s \<Rightarrow> Inr (Some s)
     | _ \<Rightarrow> Inl (ValueError ''string_type''))"

text \<open>\<open>str(payload.get(key) or default)\<close>.\<close>

definition text_field :: "json dict \<Rightarrow> string \<Rightarrow> string \<Rightarrow> string" where
  "text_field payload key other = py_str (json_or (get_or_null payload key) (JStr other))"

definition all_execution_mode :: "execution_mode list" where
  "all_execution_mode = [M_VALIDATE_ONLY, M_DRY_RUN_ONLY, M_EXECUTE_AFTER_APPROVAL,
     M_EXTERNAL_LLM_CONTROLLED]"

definition execution_mode_of :: "json \<Rightarrow> execution_mode" where
  "execution_mode_of v =
     (if v = JNull then M_EXTERNAL_LLM_CONTROLLED
      else case enum_of_value execution_mode_value all_execution_mode (py_str v) of
             Some m \<Rightarrow> m
           | None \<Rightarrow> M_EXTERNAL_LLM_CONTROLLED)"

text \<open>The links of a job: the hashes of the payload that are set.\<close>

definition payload_links :: "json dict \<Rightarrow> string dict" where
  "payload_links payload =
     map (\<lambda>key. (key, py_str (get_or_null payload key)))
       (filter (\<lambda>key. truthy (get_or_null payload key))
         [''namespace_twin_input_hash'', ''bundle_hash'', ''snapshot_hash''])"

text \<open>\<open>{**defaults, **payload without job_id}\<close>.\<close>

definition with_payload :: "json dict \<Rightarrow> json dict \<Rightarrow> json dict" where
  "with_payload defaults payload =
     dict_update defaults (filter (\<lambda>kv. fst kv \<noteq> ''job_id'') payload)"

definition MEMORY_FILTERS :: "string list" where
  "MEMORY_FILTERS = [''namespace'', ''chart'', ''kind'', ''error_code'', ''mcp_source'', ''tenant'',
     ''environment'']"

definition memory_filters :: "json dict \<Rightarrow> json dict" where
  "memory_filters payload = filter (\<lambda>kv. fst kv \<in> set MEMORY_FILTERS \<and> truthy (snd kv)) payload"

definition report_download_url :: "string \<Rightarrow> string \<Rightarrow> string \<Rightarrow> string" where
  "report_download_url jid rid artifact =
     ''/v1/execution-jobs/'' @ jid @ ''/reports/'' @ rid @ ''/download?artifact='' @ artifact"

end
