(* ===== verification/McpClients.thy ===== *)
theory McpClients
  imports Mcp Observations
begin

text \<open>
  The governed clients of the MCP companions (\<open>mcp_clients/base.py\<close> and its subclasses): one
  tool call with its audit hook, its bounded retries and the normalisation of what comes back,
  and the typed calls of each client. The transport is a parameter that answers a call knowing
  the calls sent before it, by a timeout, a transport error, another exception or a raw value;
  the audit hook is a parameter too, and may raise. Durations and timeouts are left out.
\<close>

section \<open>Transport and client\<close>

record tool_call =
  tc_server :: string
  tc_tool :: string
  tc_arguments :: "json dict"
  tc_correlation_id :: "string option"
  tc_trace_id :: "string option"

text \<open>The exception's class and, for a transport error, its text.\<close>

datatype wire_answer =
    Timed_out string
  | Unavailable string string
  | Raised string
  | Answered json

type_synonym transport = "tool_call list \<Rightarrow> tool_call \<Rightarrow> wire_answer"

text \<open>A hook returns the class of the exception it raises, if any.\<close>

type_synonym audit_hook = "audit_event list \<Rightarrow> audit_event \<Rightarrow> string option"

record wire = ctx +
  wi_sent :: "tool_call list"
  wi_hooked :: "audit_event list"

record mcp_client =
  mc_server :: string
  mc_transport :: transport
  mc_job_id :: string
  mc_correlation_id :: "string option"
  mc_trace_id :: "string option"
  mc_hook :: "audit_hook option"
  mc_max_safe_retries :: int

type_synonym ('a, 'b) wire_prog = "('a wire_scheme, py_error, 'b) prog"

section \<open>Raw results\<close>

fun json_type_name :: "json \<Rightarrow> string" where
  "json_type_name JNull = ''NoneType''"
| "json_type_name (JBool b) = ''bool''"
| "json_type_name (JInt n) = ''int''"
| "json_type_name (JStr s) = ''str''"
| "json_type_name (JArr xs) = ''list''"
| "json_type_name (JObj d) = ''dict''"

definition plain_error :: "error_code \<Rightarrow> string \<Rightarrow> mcp_error" where
  "plain_error code message =
     \<lparr>me_code = code, me_message = message, me_retryable = False, me_raw_type = None\<rparr>"

definition structured_error :: "json dict \<Rightarrow> mcp_error" where
  "structured_error d =
     (let raw_code = get_or_null d ''error_code'' in
      \<lparr>me_code = (case error_code_of (py_str raw_code) of None \<Rightarrow> E_MCP_UNAVAILABLE | Some c \<Rightarrow> c),
       me_message = py_str (redact_value (get_or d ''message'' (JStr ''mcp_error''))),
       me_retryable = truthy (get_or d ''retryable'' (JBool False)),
       me_raw_type = (if raw_code = JNull then None else Some (py_str raw_code))\<rparr>)"

text \<open>\<open>_ParsedMcpResult\<close>: an error or the redacted data.\<close>

definition parse_raw_result :: "json \<Rightarrow> mcp_error + json dict" where
  "parse_raw_result raw =
     (case raw of
        JObj d \<Rightarrow>
          if \<not> dict_has d ''ok''
          then Inl (plain_error E_UNKNOWN_ERROR ''mcp_malformed_response:missing_ok'')
          else (case get_or_null d ''ok'' of
              JBool True \<Rightarrow>
                (case get_or d ''data'' (JObj []) of
                   JObj data \<Rightarrow> Inr (obj_items (redact_value (JObj data)))
                 | _ \<Rightarrow> Inl (plain_error E_UNKNOWN_ERROR ''mcp_malformed_response:data_not_object''))
            | JBool False \<Rightarrow>
                (case get_or_null d ''error'' of
                   JObj er \<Rightarrow> Inl (structured_error er)
                 | _ \<Rightarrow> Inl (plain_error E_MCP_UNAVAILABLE ''mcp_error_response:missing_error''))
            | _ \<Rightarrow> Inl (plain_error E_UNKNOWN_ERROR ''mcp_malformed_response:ok_not_boolean''))
      | _ \<Rightarrow> Inl ((plain_error E_UNKNOWN_ERROR ''mcp_malformed_response:not_object'')
          \<lparr>me_raw_type := Some (json_type_name raw)\<rparr>))"

section \<open>Records of a call\<close>

definition client_observation ::
    "env \<Rightarrow> mcp_client \<Rightarrow> string \<Rightarrow> obs_severity \<Rightarrow> string \<Rightarrow> json dict \<Rightarrow>
     ('a ctx_scheme, py_error, observation) prog" where
  "client_observation e c tool sev summary result =
     build_observation e ((observation_args (mc_job_id c) Obs_MCP_CALL_RESULT summary)
       \<lparr>obs_severity := sev, obs_correlation_id := mc_correlation_id c,
        obs_trace_id := mc_trace_id c, obs_mcp_server := Some (mc_server c),
        obs_mcp_tool := Some tool, obs_result := JObj result\<rparr>)"

definition build_audit_event ::
    "env \<Rightarrow> mcp_client \<Rightarrow> string \<Rightarrow> json dict \<Rightarrow> ('a ctx_scheme, py_error, audit_event) prog" where
  "build_audit_event e c tool args =
     (let redacted = redact_value (JObj args) in
      bind (new_id e ''audit'') (\<lambda>aid.
      bind (utc_now e) (\<lambda>now.
      ret \<lparr>aud_id = aid, aud_timestamp = now, aud_actor_type = Act_WORKER,
           aud_action = ''mcp_call:'' @ mc_server c @ ''.'' @ tool, aud_redacted = True,
           aud_job_id = Some (mc_job_id c), aud_actor_id = None,
           aud_correlation_id = mc_correlation_id c, aud_trace_id = mc_trace_id c,
           aud_input_hash = Some (stable_hash (env_sha256 e) redacted), aud_output_hash = None,
           aud_details = [(''mcp_server'', JStr (mc_server c)), (''mcp_tool'', JStr tool),
             (''arguments_redacted'', redacted)]\<rparr>)))"

text \<open>The validation of a result refuses less than one attempt.\<close>

definition call_result ::
    "mcp_client \<Rightarrow> string \<Rightarrow> observation \<Rightarrow> int \<Rightarrow> audit_event \<Rightarrow> mcp_error + json dict \<Rightarrow>
     ('s, py_error, mcp_result) prog" where
  "call_result c tool ob attempts event outcome =
     (if attempts < 1 then raise_err (ValueError ''greater_than_equal'')
      else ret \<lparr>mr_server = mc_server c, mr_tool = tool,
        mr_success = (case outcome of Inl er \<Rightarrow> False | Inr d \<Rightarrow> True),
        mr_data = (case outcome of Inl er \<Rightarrow> None | Inr d \<Rightarrow> Some d),
        mr_error = (case outcome of Inl er \<Rightarrow> Some er | Inr d \<Rightarrow> None),
        mr_correlation_id = mc_correlation_id c, mr_trace_id = mc_trace_id c,
        mr_observation = ob, mr_audit_event = Some event, mr_attempts = nat attempts\<rparr>)"

definition success_result ::
    "env \<Rightarrow> mcp_client \<Rightarrow> string \<Rightarrow> json dict \<Rightarrow> int \<Rightarrow> audit_event \<Rightarrow>
     ('a ctx_scheme, py_error, mcp_result) prog" where
  "success_result e c tool data attempts event =
     bind (client_observation e c tool Sev_INFO
       (''MCP call succeeded: '' @ mc_server c @ ''.'' @ tool)
       [(''success'', JBool True), (''data'', JObj data), (''attempts'', JInt attempts)]) (\<lambda>ob.
     call_result c tool ob attempts event (Inr data))"

definition failure_result ::
    "env \<Rightarrow> mcp_client \<Rightarrow> string \<Rightarrow> mcp_error \<Rightarrow> int \<Rightarrow> audit_event \<Rightarrow>
     ('a ctx_scheme, py_error, mcp_result) prog" where
  "failure_result e c tool er attempts event =
     bind (client_observation e c tool Sev_ERROR
       (''MCP call failed: '' @ mc_server c @ ''.'' @ tool)
       [(''success'', JBool False), (''error'', mcp_error_json er), (''attempts'', JInt attempts),
        (''worker_reasoning_triggered'', JBool False)]) (\<lambda>ob.
     call_result c tool ob attempts event (Inl er))"

section \<open>A tool call\<close>

definition run_hook :: "mcp_client \<Rightarrow> audit_event \<Rightarrow> ('a, string option) wire_prog" where
  "run_hook c event =
     (case mc_hook c of
        None \<Rightarrow> ret None
      | Some hook \<Rightarrow> (\<lambda>s. (Inr (hook (wi_hooked s) event), s\<lparr>wi_hooked := wi_hooked s @ [event]\<rparr>)))"

definition send :: "mcp_client \<Rightarrow> tool_call \<Rightarrow> ('a, wire_answer) wire_prog" where
  "send c call = (\<lambda>s. (Inr (mc_transport c (wi_sent s) call), s\<lparr>wi_sent := wi_sent s @ [call]\<rparr>))"

definition tool_call_of :: "mcp_client \<Rightarrow> string \<Rightarrow> json dict \<Rightarrow> tool_call" where
  "tool_call_of c tool args =
     \<lparr>tc_server = mc_server c, tc_tool = tool, tc_arguments = args,
      tc_correlation_id = mc_correlation_id c, tc_trace_id = mc_trace_id c\<rparr>"

definition attempts_of :: "mcp_client \<Rightarrow> bool \<Rightarrow> bool \<Rightarrow> int" where
  "attempts_of c safe_retry mutating =
     (if safe_retry \<and> \<not> mutating then mc_max_safe_retries c + 1 else 1)"

text \<open>The error of an attempt that another one may follow.\<close>

definition timeout_error :: "string \<Rightarrow> string \<Rightarrow> bool \<Rightarrow> mcp_error" where
  "timeout_error tool name retryable =
     \<lparr>me_code = E_TIMEOUT_EXCEEDED, me_message = ''mcp_timeout:'' @ tool,
      me_retryable = retryable, me_raw_type = Some name\<rparr>"

definition unavailable_error :: "string \<Rightarrow> string \<Rightarrow> string \<Rightarrow> bool \<Rightarrow> mcp_error" where
  "unavailable_error tool name shown retryable =
     \<lparr>me_code = E_MCP_UNAVAILABLE, me_message = ''mcp_unavailable:'' @ tool @ '':'' @ shown,
      me_retryable = retryable, me_raw_type = Some name\<rparr>"

text \<open>
  The loop over the attempts: \<open>left\<close> of them may still follow the one at hand. It only comes to
  its end without a result when no attempt is allowed at all.
\<close>

primrec attempt_call ::
    "env \<Rightarrow> mcp_client \<Rightarrow> string \<Rightarrow> json dict \<Rightarrow> bool \<Rightarrow> audit_event \<Rightarrow> int \<Rightarrow> nat \<Rightarrow>
     ('a, mcp_result) wire_prog" where
  "attempt_call e c tool args safe_retry event attempts 0 =
     failure_result e c tool (plain_error E_UNKNOWN_ERROR (''mcp_unknown_failure:'' @ tool))
       attempts event"
| "attempt_call e c tool args safe_retry event attempts (Suc left) =
     (let attempt = attempts - int left; again = (safe_retry \<and> attempt < attempts);
          give_up = (\<lambda>er. if attempt < attempts
            then attempt_call e c tool args safe_retry event attempts left
            else failure_result e c tool er attempt event) in
      bind (send c (tool_call_of c tool args)) (\<lambda>answer.
      case answer of
        Raised name \<Rightarrow> raise_err (ClientError name)
      | Timed_out name \<Rightarrow> give_up (timeout_error tool name again)
      | Unavailable name shown \<Rightarrow> give_up (unavailable_error tool name shown again)
      | Answered raw \<Rightarrow>
          (case parse_raw_result raw of
             Inl er \<Rightarrow> failure_result e c tool er attempt event
           | Inr data \<Rightarrow> success_result e c tool data attempt event)))"

definition call_tool ::
    "env \<Rightarrow> mcp_client \<Rightarrow> string \<Rightarrow> json dict \<Rightarrow> bool \<Rightarrow> bool \<Rightarrow> ('a, mcp_result) wire_prog" where
  "call_tool e c tool args safe_retry mutating =
     bind (build_audit_event e c tool args) (\<lambda>event.
     bind (run_hook c event) (\<lambda>refused.
     case refused of
       Some name \<Rightarrow> failure_result e c tool
         \<lparr>me_code = E_AUDIT_WRITE_FAILED, me_message = ''audit_hook_failed:'' @ name,
          me_retryable = False, me_raw_type = Some name\<rparr> 1 event
     | None \<Rightarrow>
         attempt_call e c tool args safe_retry event (attempts_of c safe_retry mutating)
           (nat (attempts_of c safe_retry mutating))))"

section \<open>The typed clients\<close>

text \<open>
  The methods of each client as a datatype, and the tool call each makes: the tool, its
  arguments, whether it may be retried and whether it changes something.
\<close>

type_synonym tool_request = "string \<times> json dict \<times> bool \<times> bool"

definition read_request :: "string \<Rightarrow> json dict \<Rightarrow> tool_request" where
  "read_request tool args = (tool, args, True, False)"

definition single_request :: "string \<Rightarrow> json dict \<Rightarrow> tool_request" where
  "single_request tool args = (tool, args, False, False)"

definition change_request :: "string \<Rightarrow> json dict \<Rightarrow> tool_request" where
  "change_request tool args = (tool, args, False, True)"

definition jint_opt :: "int option \<Rightarrow> json" where
  "jint_opt n = (case n of None \<Rightarrow> JNull | Some i \<Rightarrow> JInt i)"

datatype helm_method =
    Helm_repo_add string string
  | Helm_repo_update "string option"
  | Helm_template string string string "json dict"
  | Helm_dry_run string string string "json dict"
  | Helm_install_upgrade string string string "json dict"
  | Helm_status string string
  | Helm_history string string
  | Helm_rollback string string int
  | Helm_uninstall string string
  | Helm_list_releases string
  | Helm_validate_values string "json dict"

definition release_arguments :: "string \<Rightarrow> string \<Rightarrow> string \<Rightarrow> json dict \<Rightarrow> json dict" where
  "release_arguments release chart ns values =
     [(''release_name'', JStr release), (''chart'', JStr chart), (''namespace'', JStr ns),
      (''values'', JObj values)]"

definition release_at :: "string \<Rightarrow> string \<Rightarrow> json dict" where
  "release_at release ns = [(''release_name'', JStr release), (''namespace'', JStr ns)]"

definition redaction_required :: "json dict" where
  "redaction_required = [(''redaction_required'', JBool True)]"

fun helm_tool :: "helm_method \<Rightarrow> tool_request" where
  "helm_tool (Helm_repo_add name url) =
     change_request ''repo.add'' [(''name'', JStr name), (''url'', JStr url)]"
| "helm_tool (Helm_repo_update name) = change_request ''repo.update'' [(''name'', jopt name)]"
| "helm_tool (Helm_template release chart ns values) =
     read_request ''chart.template'' (release_arguments release chart ns values @ redaction_required)"
| "helm_tool (Helm_dry_run release chart ns values) =
     single_request ''release.dry_run_install_upgrade''
       (release_arguments release chart ns values @ redaction_required)"
| "helm_tool (Helm_install_upgrade release chart ns values) =
     change_request ''release.install_upgrade'' (release_arguments release chart ns values)"
| "helm_tool (Helm_status release ns) = read_request ''release.status'' (release_at release ns)"
| "helm_tool (Helm_history release ns) = read_request ''release.history'' (release_at release ns)"
| "helm_tool (Helm_rollback release ns revision) =
     change_request ''release.rollback'' (release_at release ns @ [(''revision'', JInt revision)])"
| "helm_tool (Helm_uninstall release ns) = change_request ''release.uninstall'' (release_at release ns)"
| "helm_tool (Helm_list_releases ns) = read_request ''release.list'' [(''namespace'', JStr ns)]"
| "helm_tool (Helm_validate_values chart values) =
     single_request ''values.validate''
       ([(''chart'', JStr chart), (''values'', JObj values)] @ redaction_required)"

datatype k8s_method =
    K8s_namespace string
  | K8s_create_namespace string "json dict"
  | K8s_dry_run_apply "json dict" string
  | K8s_apply "json dict" string
  | K8s_get_resource string string string "string option"
  | K8s_list_resources string string "string option"
  | K8s_describe_resource string string string
  | K8s_events string "string option"
  | K8s_pod_status string string
  | K8s_pod_logs string string "string option" "int option"
  | K8s_delete_resource string string string "string option"
  | K8s_wait_for_condition string string string string int
  | K8s_rollout_status string string string int

definition resource_at :: "string \<Rightarrow> string \<Rightarrow> string \<Rightarrow> json dict" where
  "resource_at ns kind name =
     [(''namespace'', JStr ns), (''kind'', JStr kind), (''name'', JStr name)]"

fun k8s_tool :: "k8s_method \<Rightarrow> tool_request" where
  "k8s_tool (K8s_namespace ns) = read_request ''namespace.get'' [(''namespace'', JStr ns)]"
| "k8s_tool (K8s_create_namespace ns labels) =
     change_request ''namespace.create'' [(''namespace'', JStr ns), (''labels'', JObj labels)]"
| "k8s_tool (K8s_dry_run_apply manifest ns) =
     single_request ''manifest.server_side_dry_run_apply''
       [(''manifest'', JObj manifest), (''namespace'', JStr ns)]"
| "k8s_tool (K8s_apply manifest ns) =
     change_request ''manifest.apply'' [(''manifest'', JObj manifest), (''namespace'', JStr ns)]"
| "k8s_tool (K8s_get_resource ns kind name version) =
     read_request ''resource.get'' (resource_at ns kind name @ [(''api_version'', jopt version)])"
| "k8s_tool (K8s_list_resources ns kind selector) =
     read_request ''resource.list''
       [(''namespace'', JStr ns), (''kind'', JStr kind), (''label_selector'', jopt selector)]"
| "k8s_tool (K8s_describe_resource ns kind name) =
     read_request ''resource.describe'' (resource_at ns kind name)"
| "k8s_tool (K8s_events ns name) =
     read_request ''events.list'' [(''namespace'', JStr ns), (''involved_object_name'', jopt name)]"
| "k8s_tool (K8s_pod_status ns pod) =
     read_request ''pod.status'' [(''namespace'', JStr ns), (''pod_name'', JStr pod)]"
| "k8s_tool (K8s_pod_logs ns pod container tail) =
     read_request ''pod.logs''
       ([(''namespace'', JStr ns), (''pod_name'', JStr pod), (''container'', jopt container),
         (''tail_lines'', jint_opt tail)] @ redaction_required)"
| "k8s_tool (K8s_delete_resource ns kind name version) =
     change_request ''resource.delete'' (resource_at ns kind name @ [(''api_version'', jopt version)])"
| "k8s_tool (K8s_wait_for_condition ns kind name condition secs) =
     read_request ''resource.wait_for_condition'' (resource_at ns kind name @
       [(''condition'', JStr condition), (''timeout_seconds'', JInt secs)])"
| "k8s_tool (K8s_rollout_status ns kind name secs) =
     read_request ''workload.rollout_status''
       (resource_at ns kind name @ [(''timeout_seconds'', JInt secs)])"

datatype ingestion_method =
    Ingestion_latest_snapshot string
  | Ingestion_historical_facts string "string option" "int option"
  | Ingestion_recent_events string int

fun ingestion_tool :: "ingestion_method \<Rightarrow> tool_request" where
  "ingestion_tool (Ingestion_latest_snapshot ns) =
     read_request ''snapshot.latest'' [(''namespace'', JStr ns)]"
| "ingestion_tool (Ingestion_historical_facts ns name hours) =
     read_request ''facts.historical''
       [(''namespace'', JStr ns), (''resource_name'', jopt name), (''lookback_hours'', jint_opt hours)]"
| "ingestion_tool (Ingestion_recent_events ns hours) =
     read_request ''events.recent'' [(''namespace'', JStr ns), (''lookback_hours'', JInt hours)]"

datatype notes_method =
    Notes_execution string "json list" "string list" "string option"
  | Notes_rollback string "json list" "string list" "string option"

definition notes_arguments ::
    "string \<Rightarrow> string \<Rightarrow> json list \<Rightarrow> string list \<Rightarrow> string option \<Rightarrow> json dict" where
  "notes_arguments jid field steps warnings trace =
     [(''job_id'', JStr jid), (field, JArr steps), (''warnings'', jstrs warnings),
      (''trace_id'', jopt trace)]"

fun notes_tool :: "notes_method \<Rightarrow> tool_request" where
  "notes_tool (Notes_execution jid steps warnings trace) =
     single_request ''release_notes.create_execution_notes''
       (notes_arguments jid ''executed_steps'' steps warnings trace)"
| "notes_tool (Notes_rollback jid steps warnings trace) =
     single_request ''release_notes.create_rollback_notes''
       (notes_arguments jid ''rollback_steps'' steps warnings trace)"

definition request_call :: "env \<Rightarrow> mcp_client \<Rightarrow> tool_request \<Rightarrow> ('a, mcp_result) wire_prog" where
  "request_call e c req = (case req of (tool, args, safe_retry, mutating) \<Rightarrow>
     call_tool e c tool args safe_retry mutating)"

section \<open>What a call sends and returns\<close>

definition transient :: "wire_answer \<Rightarrow> bool" where
  "transient a = (case a of Timed_out n \<Rightarrow> True | Unavailable n m \<Rightarrow> True | Raised n \<Rightarrow> False
     | Answered raw \<Rightarrow> False)"

text \<open>The answer to the attempt number \<open>k\<close>, from 0, after the calls \<open>h\<close>.\<close>

definition answer_at :: "mcp_client \<Rightarrow> tool_call list \<Rightarrow> tool_call \<Rightarrow> nat \<Rightarrow> wire_answer" where
  "answer_at c h call k = mc_transport c (h @ replicate k call) call"

text \<open>What is made of the last answer: an exception, an error or data.\<close>

definition settle :: "string \<Rightarrow> wire_answer \<Rightarrow> string + mcp_error + json dict" where
  "settle tool a = (case a of
       Raised name \<Rightarrow> Inl name
     | Timed_out name \<Rightarrow> Inr (Inl (timeout_error tool name False))
     | Unavailable name shown \<Rightarrow> Inr (Inl (unavailable_error tool name shown False))
     | Answered raw \<Rightarrow> Inr (parse_raw_result raw))"

definition reports_outcome :: "mcp_result \<Rightarrow> mcp_error + json dict \<Rightarrow> nat \<Rightarrow> bool" where
  "reports_outcome r outcome n \<longleftrightarrow> mr_attempts r = n \<and>
     (case outcome of
        Inl er \<Rightarrow> \<not> mr_success r \<and> mr_error r = Some er \<and> mr_data r = None
      | Inr d \<Rightarrow> mr_success r \<and> mr_error r = None \<and> mr_data r = Some d)"

text \<open>
  The result after \<open>n\<close> attempts: every attempt but the last failed in a way that may pass, the
  last one did not unless it was the last allowed, and the result tells what it was.
\<close>

definition settled ::
    "mcp_client \<Rightarrow> string \<Rightarrow> tool_call list \<Rightarrow> tool_call \<Rightarrow> nat \<Rightarrow> nat \<Rightarrow> nat \<Rightarrow>
     py_error + mcp_result \<Rightarrow> bool" where
  "settled c tool h call i limit n res \<longleftrightarrow>
     i < n \<and> n \<le> limit \<and> list_all (\<lambda>k. transient (answer_at c h call k)) [i..<n - 1] \<and>
     (n = limit \<or> \<not> transient (answer_at c h call (n - 1))) \<and>
     (case settle tool (answer_at c h call (n - 1)) of
        Inl name \<Rightarrow> res = Inl (ClientError name)
      | Inr outcome \<Rightarrow> (\<exists>r. res = Inr r \<and> reports_outcome r outcome n))"

text \<open>An attempt either gives way to the next one or is concluded.\<close>

definition conclude ::
    "env \<Rightarrow> mcp_client \<Rightarrow> string \<Rightarrow> audit_event \<Rightarrow> int \<Rightarrow> wire_answer \<Rightarrow> ('a, mcp_result) wire_prog" where
  "conclude e c tool event num a =
     (case settle tool a of
        Inl name \<Rightarrow> raise_err (ClientError name)
      | Inr (Inl er) \<Rightarrow> failure_result e c tool er num event
      | Inr (Inr data) \<Rightarrow> success_result e c tool data num event)"

lemma attempt_step:
  assumes "wi_sent s = h @ replicate i call" and "call = tool_call_of c tool args"
  shows "attempt_call e c tool args safe_retry event attempts (Suc left) s =
    (if 0 < left \<and> transient (answer_at c h call i)
     then attempt_call e c tool args safe_retry event attempts left (s\<lparr>wi_sent := wi_sent s @ [call]\<rparr>)
     else conclude e c tool event (attempts - int left) (answer_at c h call i)
       (s\<lparr>wi_sent := wi_sent s @ [call]\<rparr>))"
proof -
  have "send c call s = (Inr (answer_at c h call i), s\<lparr>wi_sent := wi_sent s @ [call]\<rparr>)"
    using assms(1) by (simp add: send_def answer_at_def)
  then show ?thesis
    unfolding attempt_call.simps Let_def bind_def assms(2) [symmetric]
    by (cases "answer_at c h call i")
       (auto simp: transient_def conclude_def settle_def split: sum.splits)
qed

lemma conclude_reports:
  assumes "1 \<le> num"
  shows "\<exists>res t. conclude e c tool event num a s = (res, t) \<and> wi_sent t = wi_sent s \<and>
    (case settle tool a of
       Inl name \<Rightarrow> res = Inl (ClientError name)
     | Inr outcome \<Rightarrow> (\<exists>r. res = Inr r \<and> reports_outcome r outcome (nat num)))"
  using assms
  by (auto simp: conclude_def failure_result_def success_result_def client_observation_def
      build_observation_def call_result_def bind_def new_id_def utc_now_def ret_def raise_err_def
      reports_outcome_def split: sum.splits)

lemma attempt_call_settles:
  assumes "wi_sent s = h @ replicate i call" and "call = tool_call_of c tool args"
    and "attempts = int (i + Suc left)"
  shows "\<exists>n res t. attempt_call e c tool args safe_retry event attempts (Suc left) s = (res, t) \<and>
    wi_sent t = h @ replicate n call \<and> settled c tool h call i (i + Suc left) n res"
  using assms
proof (induction left arbitrary: i s)
  case 0
  let ?s = "s\<lparr>wi_sent := wi_sent s @ [call]\<rparr>" and ?a = "answer_at c h call i"
  have num: "1 \<le> attempts" "nat attempts = Suc i" using 0(3) by auto
  have sent: "wi_sent ?s = h @ replicate (Suc i) call" using 0(1) by (simp add: replicate_append_same)
  from conclude_reports [OF num(1), of e c tool event ?a ?s, unfolded num(2)] obtain res t where
    "conclude e c tool event attempts ?a ?s = (res, t)" "wi_sent t = wi_sent ?s"
    "settled c tool h call i (Suc i) (Suc i) res"
    by (auto simp: settled_def)
  with attempt_step [OF 0(1,2), of e safe_retry event attempts 0] sent show ?case
    by (intro exI [of _ "Suc i"] exI [of _ res] exI [of _ t]) (simp del: attempt_call.simps)
next
  case (Suc left)
  let ?s = "s\<lparr>wi_sent := wi_sent s @ [call]\<rparr>" and ?a = "answer_at c h call i"
  have sent: "wi_sent ?s = h @ replicate (Suc i) call"
    using Suc.prems(1) by (simp add: replicate_append_same)
  note step = attempt_step [OF Suc.prems(1,2), of e safe_retry event attempts "Suc left"]
  show ?case
  proof (cases "transient ?a")
    case True
    from Suc.IH [OF sent Suc.prems(2)] Suc.prems(3) obtain n res t where
      run: "attempt_call e c tool args safe_retry event attempts (Suc left) ?s = (res, t)"
      and t: "wi_sent t = h @ replicate n call"
      and rest: "settled c tool h call (Suc i) (i + Suc (Suc left)) n res" by auto
    have "[i..<n - 1] = i # [Suc i..<n - 1]"
      using rest by (simp add: settled_def upt_conv_Cons less_diff_conv)
    with rest True have "settled c tool h call i (i + Suc (Suc left)) n res"
      unfolding settled_def by simp
    with step run t True show ?thesis
      by (intro exI [of _ n] exI [of _ res] exI [of _ t]) (simp del: attempt_call.simps)
  next
    case False
    have num: "1 \<le> attempts - int (Suc left)" "nat (attempts - int (Suc left)) = Suc i"
      using Suc.prems(3) by auto
    from conclude_reports [OF num(1), of e c tool event ?a ?s, unfolded num(2)] obtain res t where "conclude e c tool event (attempts - int (Suc left)) ?a ?s = (res, t)"
      "wi_sent t = wi_sent ?s" "settled c tool h call i (i + Suc (Suc left)) (Suc i) res"
      using False by (auto simp: settled_def)
    with step sent False show ?thesis
      by (intro exI [of _ "Suc i"] exI [of _ res] exI [of _ t]) (simp del: attempt_call.simps)
  qed
qed

lemma run_hook_frame:
  "run_hook c event s = (res, t) \<Longrightarrow> wi_sent t = wi_sent s \<and> (\<exists>refused. res = Inr refused)"
  by (auto simp: run_hook_def ret_def split: option.splits)

text \<open>
  C40. A tool call sends the same request over and over, at most once if it changes something
  or is not marked as safe to retry and otherwise at most once more than the retries allowed;
  it only goes on after a timeout or a transport error. What it returns tells the number of
  attempts and what the last answer was, and an error it ends with is never called
  retryable when it is one of these two. Nothing is sent only if the audit hook fails, and then
  the result is a failure to audit.
\<close>

theorem tool_call_is_bounded:
  assumes "0 \<le> mc_max_safe_retries c"
  shows "\<exists>n res t. call_tool e c tool args safe_retry mutating s = (res, t) \<and>
    wi_sent t = wi_sent s @ replicate n (tool_call_of c tool args) \<and>
    int n \<le> (if safe_retry \<and> \<not> mutating then mc_max_safe_retries c + 1 else 1) \<and>
    (if n = 0
     then mc_hook c \<noteq> None \<and> (\<exists>r er. res = Inr r \<and> reports_outcome r (Inl er) 1 \<and>
       me_code er = E_AUDIT_WRITE_FAILED)
     else settled c tool (wi_sent s) (tool_call_of c tool args) 0
       (nat (attempts_of c safe_retry mutating)) n res)"
proof -
  let ?call = "tool_call_of c tool args" and ?N = "attempts_of c safe_retry mutating"
  obtain event u where event: "build_audit_event e c tool args s = (Inr event, u)" "wi_sent u = wi_sent s"
    by (simp add: build_audit_event_def Let_def bind_def new_id_def utc_now_def ret_def)
  obtain refused v where hook: "run_hook c event u = (Inr refused, v)" "wi_sent v = wi_sent s"
    using run_hook_frame [of c event u] event(2) by (cases "run_hook c event u") auto
  show ?thesis
  proof (cases refused)
    case (Some name)
    let ?er = "\<lparr>me_code = E_AUDIT_WRITE_FAILED, me_message = ''audit_hook_failed:'' @ name,
      me_retryable = False, me_raw_type = Some name\<rparr>"
    obtain r t where f: "failure_result e c tool ?er 1 event v = (Inr r, t)" "wi_sent t = wi_sent v"
      "reports_outcome r (Inl ?er) 1"
      by (simp add: failure_result_def client_observation_def build_observation_def call_result_def
          bind_def new_id_def utc_now_def ret_def reports_outcome_def)
    have "mc_hook c \<noteq> None" using hook(1) Some by (cases "mc_hook c") (simp_all add: run_hook_def ret_def)
    moreover have "call_tool e c tool args safe_retry mutating s = (Inr r, t)"
      using event(1) hook(1) Some f(1) by (simp add: call_tool_def bind_def)
    ultimately show ?thesis
      using f hook(2) assms by (intro exI [of _ 0] exI [of _ "Inr r"] exI [of _ t]) auto
  next
    case None
    have pos: "?N = int (0 + Suc (nat ?N - 1))" "nat ?N = Suc (nat ?N - 1)"
      using assms by (auto simp: attempts_of_def)
    from attempt_call_settles [where i = 0 and h = "wi_sent s" and s = v, OF _ refl pos(1)] hook(2)
    obtain n res t where "attempt_call e c tool args safe_retry event ?N (nat ?N) v = (res, t)"
      "wi_sent t = wi_sent s @ replicate n ?call"
      "settled c tool (wi_sent s) ?call 0 (nat ?N) n res"
      using pos(2) by fastforce
    moreover from this(1) have "call_tool e c tool args safe_retry mutating s = (res, t)"
      using event(1) hook(1) None by (simp add: call_tool_def bind_def)
    moreover have "0 < n" "int n \<le> (if safe_retry \<and> \<not> mutating then mc_max_safe_retries c + 1 else 1)"
      using \<open>settled c tool _ _ _ _ n res\<close> assms by (auto simp: settled_def attempts_of_def split: if_splits)
    ultimately show ?thesis by (intro exI [of _ n] exI [of _ res] exI [of _ t]) auto
  qed
qed

text \<open>A companion that times out once and then answers.\<close>

definition demo_transport :: transport where
  "demo_transport h call =
     (if h = [] then Timed_out ''TimeoutError''
      else Answered (JObj [(''ok'', JBool True), (''data'', JObj [(''phase'', JStr ''Running'')])]))"

definition demo_client :: mcp_client where
  "demo_client = \<lparr>mc_server = ''k8s'', mc_transport = demo_transport, mc_job_id = ''j'',
     mc_correlation_id = None, mc_trace_id = None, mc_hook = None, mc_max_safe_retries = 1\<rparr>"

definition no_calls :: wire where
  "no_calls = \<lparr>c_tick = 0, c_ids = 0, wi_sent = [], wi_hooked = []\<rparr>"

theorem tool_call_is_bounded_witness:
  "\<exists>n res t. request_call unit_env demo_client (k8s_tool (K8s_apply [] ''ns'')) no_calls = (res, t) \<and>
    length (wi_sent t) = n \<and> n \<le> 1"
proof -
  have "0 \<le> mc_max_safe_retries demo_client" by (simp add: demo_client_def)
  from tool_call_is_bounded [OF this, of unit_env "''manifest.apply''"
      "[(''manifest'', JObj []), (''namespace'', JStr ''ns'')]" False True no_calls]
  show ?thesis by (auto simp: request_call_def change_request_def no_calls_def)
qed

end
