(* ===== verification/Api.thy ===== *)
theory Api
  imports ApiModels McpClients
begin

text \<open>
  The interface of the agent (\<open>MopExecutionApiService\<close> of \<open>api/service.py\<close>): one endpoint
  per definition, over the world of its background worker and the copies the service itself
  keeps. Programs of the worker run on the world inside by \<open>on_world\<close>. Metrics and log lines
  are left out; the field validation of pydantic is a parameter.
\<close>

section \<open>State\<close>

record api =
  ap_world :: world
  ap_jobs :: "exec_job dict"
  ap_instructions :: "instruction dict"
  ap_approvals :: "human_approval dict"
  ap_observations :: "observation list dict"
  ap_audit :: "audit_event list dict"
  ap_reports :: "report_artifact list dict"
  ap_plans :: "json dict dict"
  ap_memory :: "memory_record list"
  ap_bundles :: "json dict dict"
  ap_bundle_plans :: "machine_plan dict"
  ap_bundle_roots :: "string dict"
  ap_job_bundle_roots :: "string dict"
  ap_worker_running :: bool
  ap_uploads :: "int list dict"
  ap_sent :: "tool_call list"

text \<open>
  The runtime, the host (with what the bytes of an uploaded archive are to the archive
  library), the text of a refusal of a bundle (\<open>None\<close> for a source that is not one), the
  validators of incoming models, whether the background worker is enabled, the roots of reports
  and uploads, the largest upload, and the transport to the release note agent when there is one.
\<close>

record service =
  sv_worker :: worker
  sv_host :: host
  sv_unzip :: "int list \<Rightarrow> host_entry"
  sv_refusal_text :: "bundle_error option \<Rightarrow> string"
  sv_instruction :: "json dict \<Rightarrow> string + instruction"
  sv_approval :: "json dict \<Rightarrow> string + human_approval"
  sv_policy :: "json dict \<Rightarrow> string + policy_context"
  sv_background :: bool
  sv_root :: string
  sv_upload_root :: string
  sv_max_upload :: nat
  sv_notes :: "transport option"

type_synonym 'b endpoint = "(api, py_error, 'b) prog"

definition on_world :: "'b work \<Rightarrow> 'b endpoint" where
  "on_world m = (\<lambda>s. case m (ap_world s) of (r, w) \<Rightarrow> (r, s\<lparr>ap_world := w\<rparr>))"

definition from_repo :: "(repository \<Rightarrow> 'b) \<Rightarrow> 'b endpoint" where
  "from_repo f = gets (\<lambda>s. f (ag_repo (ap_world s)))"

text \<open>\<open>d.setdefault(key, []).append(x)\<close>.\<close>

definition dict_append :: "string \<Rightarrow> 'v \<Rightarrow> 'v list dict \<Rightarrow> 'v list dict" where
  "dict_append k x d = dict_set k ((case dict_get d k of None \<Rightarrow> [] | Some xs \<Rightarrow> xs) @ [x]) d"

section \<open>Records\<close>

definition api_job :: "string \<Rightarrow> exec_job option endpoint" where
  "api_job jid = gets (\<lambda>s. case get_job (ag_repo (ap_world s)) jid of
     Some j \<Rightarrow> Some j | None \<Rightarrow> dict_get (ap_jobs s) jid)"

definition api_save_job :: "exec_job \<Rightarrow> unit endpoint" where
  "api_save_job j =
     seqp (modify (\<lambda>s. s\<lparr>ap_jobs := dict_set (job_id j) j (ap_jobs s)\<rparr>))
       (on_world (repo_do (save_job j)))"

definition write_memory ::
    "env \<Rightarrow> memory_layer \<Rightarrow> string \<Rightarrow> string \<Rightarrow> json dict \<Rightarrow> memory_query \<Rightarrow> unit endpoint" where
  "write_memory e layer jid summary payload scope = (\<lambda>s.
     let w = ap_world s in
     case memory_write e layer jid summary payload scope None []
       \<lparr>c_tick = c_tick w, c_ids = c_ids w, ms_records = ap_memory s\<rparr> of
     (r, m) \<Rightarrow> (Inr (), s\<lparr>ap_world := w\<lparr>c_tick := c_tick m, c_ids := c_ids m\<rparr>,
       ap_memory := ms_records m\<rparr>))"

definition in_namespace :: "string option \<Rightarrow> memory_query" where
  "in_namespace ns = empty_query\<lparr>mq_namespace := ns\<rparr>"

definition namespace_of :: "exec_job option \<Rightarrow> memory_query" where
  "namespace_of job = in_namespace (map_option job_target_namespace job)"

definition add_audit :: "env \<Rightarrow> string \<Rightarrow> string \<Rightarrow> json dict \<Rightarrow> unit endpoint" where
  "add_audit e jid action details =
     bind (api_job jid) (\<lambda>job.
     bind (on_world (new_id e ''audit'')) (\<lambda>aid.
     bind (on_world (utc_now e)) (\<lambda>now.
     let event = \<lparr>aud_id = aid, aud_timestamp = now, aud_actor_type = Act_WORKER, aud_action = action,
           aud_redacted = True, aud_job_id = Some jid, aud_actor_id = None,
           aud_correlation_id = (case job of None \<Rightarrow> None | Some j \<Rightarrow> job_correlation_id j),
           aud_trace_id = (case job of None \<Rightarrow> None | Some j \<Rightarrow> job_trace_id j),
           aud_input_hash = None, aud_output_hash = None,
           aud_details = obj_items (redact_value (JObj details))\<rparr> in
     seqp (modify (\<lambda>s. s\<lparr>ap_audit := dict_append jid event (ap_audit s)\<rparr>))
     (seqp (on_world (write_event event))
     (write_memory e L_AUDIT jid (''Audit event recorded: '' @ action @ ''.'') (audit_json e event)
       (namespace_of job))))))"

definition record_observation :: "env \<Rightarrow> observation \<Rightarrow> unit endpoint" where
  "record_observation e ob =
     seqp (modify (\<lambda>s. s\<lparr>ap_observations := dict_append (obs_job_id ob) ob (ap_observations s)\<rparr>))
     (seqp (on_world (repo_do (add_observation ob)))
     (bind (api_job (obs_job_id ob)) (\<lambda>job.
      write_memory e L_OBSERVABILITY (obs_job_id ob) (obs_summary ob)
        (obj_items (observation_json (env_dt_json e) ob)) (namespace_of job))))"

text \<open>A new observation of the service, with its identifier and time.\<close>

definition new_observation :: "env \<Rightarrow> observation \<Rightarrow> unit endpoint" where
  "new_observation e args =
     bind (on_world (new_id e ''obs'')) (\<lambda>oid.
     bind (on_world (utc_now e)) (\<lambda>now.
     record_observation e (args\<lparr>obs_id := oid, obs_timestamp := now\<rparr>)))"

definition api_add_observation :: "env \<Rightarrow> string \<Rightarrow> string \<Rightarrow> json dict \<Rightarrow> unit endpoint" where
  "api_add_observation e jid summary result =
     bind (api_job jid) (\<lambda>job.
     new_observation e ((observation_args jid Obs_POLICY_CHECK summary)
       \<lparr>obs_correlation_id := (case job of None \<Rightarrow> None | Some j \<Rightarrow> job_correlation_id j),
        obs_trace_id := (case job of None \<Rightarrow> None | Some j \<Rightarrow> job_trace_id j),
        obs_result := redact_value (JObj result)\<rparr>))"

section \<open>Transitions\<close>

definition transitioned_job :: "job_state \<Rightarrow> instant \<Rightarrow> instant option \<Rightarrow> exec_job \<Rightarrow> exec_job" where
  "transitioned_job target now completed job =
     job\<lparr>job_st := target, job_updated_at := now,
       job_decision_required := (target = J_DECISION_REQUIRED),
       job_blocked := (target = J_DECISION_REQUIRED), job_completed_at := completed\<rparr>"

definition save_transition ::
    "env \<Rightarrow> string \<Rightarrow> exec_job \<Rightarrow> transition_result \<Rightarrow> job_state \<Rightarrow> string \<Rightarrow> response endpoint" where
  "save_transition e jid job res target reason =
     bind (on_world (utc_now e)) (\<lambda>now.
     bind (if target \<in> {J_COMPLETED, J_FAILED, J_CANCELLED}
           then bind (on_world (utc_now e)) (\<lambda>t. ret (Some t)) else ret (job_completed_at job)) (\<lambda>completed.
     let updated = transitioned_job target now completed job;
         scope = in_namespace (Some (job_target_namespace updated)) in
     seqp (api_save_job updated)
     (seqp (modify (\<lambda>s. s\<lparr>ap_observations := dict_append jid (res_observation res) (ap_observations s),
         ap_audit := dict_append jid (res_audit res) (ap_audit s)\<rparr>))
     (seqp (on_world (repo_do (add_observation (res_observation res))))
     (seqp (on_world (write_event (res_audit res)))
     (seqp (write_memory e L_EPISODIC_EXECUTION jid
         (''Job transitioned to '' @ job_state_value target @ ''.'')
         (transition_json e (res_transition res)) scope)
     (seqp (write_memory e L_AUDIT jid ''State transition audit event recorded.''
         (audit_json e (res_audit res)) scope)
     (ret (ok_response reason [(''job'', job_json e updated),
       (''transition'', JObj (transition_json e (res_transition res)))] (Some jid) (Some target))))))))))"

definition api_transition ::
    "env \<Rightarrow> string \<Rightarrow> job_state \<Rightarrow> string \<Rightarrow> json dict \<Rightarrow> response endpoint" where
  "api_transition e jid target reason details =
     bind (api_job jid) (\<lambda>found.
     case found of
       None \<Rightarrow> ret (not_found ''Job not found.'' (Some jid))
     | Some job \<Rightarrow>
         bind (on_world (attempt (transition e DEFAULT_STATE_MACHINE jid (job_st job) target Act_WORKER
           None (Some reason) (job_correlation_id job) (job_trace_id job) details))) (\<lambda>outcome.
         case outcome of
           Inl err \<Rightarrow> ret (error_response (''Invalid transition from '' @ job_state_value (job_st job)
               @ '' to '' @ job_state_value target) (error_code_value E_INVALID_STATE_TRANSITION) []
               (Some jid) (Some (job_st job)))
         | Inr res \<Rightarrow> save_transition e jid job res target reason))"

section \<open>Reports\<close>

text \<open>
  \<open>ReportGenerator.artifact\<close>; the files that \<open>generate\<close> writes are not part of the state.
  Paths are kept as written.
\<close>

definition report_file :: "service \<Rightarrow> exec_job \<Rightarrow> report_type \<Rightarrow> string \<Rightarrow> string" where
  "report_file sv job ty ext = sv_root sv @ ''/reports/'' @ job_id job @ ''/'' @
     str_replace ''_'' ''-'' (report_type_value ty) @ ext"

definition report_artifact_of ::
    "service \<Rightarrow> exec_job \<Rightarrow> report_type \<Rightarrow> instant \<Rightarrow> report_artifact" where
  "report_artifact_of sv job ty now =
     (let rid = ''report-'' @ report_type_value ty @ ''-'' @ job_id job in
      \<lparr>rep_id = rid, rep_type = ty, rep_path = report_file sv job ty ''.md'',
       rep_job_id = Some (job_id job), rep_correlation_id = job_correlation_id job,
       rep_trace_id = job_trace_id job,
       rep_download_url = Some (report_download_url (job_id job) rid ''pdf''),
       rep_html_path = Some (report_file sv job ty ''.html''),
       rep_pdf_path = Some (report_file sv job ty ''.pdf''),
       rep_archive_path = Some (report_file sv job ty ''.zip''), rep_created_at = now,
       rep_redacted = True\<rparr>)"

definition record_report :: "env \<Rightarrow> service \<Rightarrow> exec_job \<Rightarrow> report_type \<Rightarrow> report_artifact endpoint" where
  "record_report e sv job ty =
     bind (on_world (utc_now e)) (\<lambda>generated.
     bind (on_world (utc_now e)) (\<lambda>now.
     let report = report_artifact_of sv job ty now in
     seqp (modify (\<lambda>s. s\<lparr>ap_reports := dict_set (job_id job)
       (filter (\<lambda>r. rep_id r \<noteq> rep_id report)
          (case dict_get (ap_reports s) (job_id job) of None \<Rightarrow> [] | Some rs \<Rightarrow> rs) @ [report])
       (ap_reports s)\<rparr>))
     (seqp (on_world (repo_do (save_report report)))
     (seqp (add_audit e (job_id job) ''report_generated''
       [(''report_id'', JStr (rep_id report)), (''report_type'', JStr (report_type_value ty))])
     (ret report)))))"

definition report_payload :: "env \<Rightarrow> report_artifact \<Rightarrow> json" where
  "report_payload e r = JObj
     (if opt_truthy (rep_job_id r)
      then dict_set ''download_url'' (JStr (report_download_url (the (rep_job_id r)) (rep_id r) ''pdf''))
        (report_json e r)
      else report_json e r)"

text \<open>The reports of the repository, overlaid with those the service keeps.\<close>

definition known_reports :: "string \<Rightarrow> report_artifact dict endpoint" where
  "known_reports jid = gets (\<lambda>s. dict_update
     (dict_update [] (map (\<lambda>r. (rep_id r, r)) (get_reports (ag_repo (ap_world s)) jid)))
     (map (\<lambda>r. (rep_id r, r)) (case dict_get (ap_reports s) jid of None \<Rightarrow> [] | Some rs \<Rightarrow> rs)))"

definition find_report :: "string \<Rightarrow> string \<Rightarrow> report_artifact option endpoint" where
  "find_report jid rid = bind (known_reports jid) (\<lambda>d. ret (dict_get d rid))"

text \<open>The endpoints that first look up the job.\<close>

definition with_job :: "string \<Rightarrow> (exec_job \<Rightarrow> response endpoint) \<Rightarrow> response endpoint" where
  "with_job jid f = bind (api_job jid) (\<lambda>found.
     case found of None \<Rightarrow> ret (not_found ''Job not found.'' (Some jid)) | Some job \<Rightarrow> f job)"

definition api_list_reports :: "env \<Rightarrow> string \<Rightarrow> response endpoint" where
  "api_list_reports e jid = with_job jid (\<lambda>job. bind (known_reports jid) (\<lambda>d.
     ret (ok_response ''Reports returned.''
       [(''reports'', JArr (map (report_payload e) (sort_key rep_created_at (dict_values d))))]
       (Some jid) None)))"

definition generate_report :: "env \<Rightarrow> service \<Rightarrow> report_type \<Rightarrow> string \<Rightarrow> string \<Rightarrow> response endpoint" where
  "generate_report e sv ty message jid = with_job jid (\<lambda>job. bind (record_report e sv job ty) (\<lambda>r.
     ret (ok_response message [(''report'', report_payload e r)] (Some jid) None)))"

section \<open>Creating and seeding a job\<close>

definition ensure_background_worker :: "service \<Rightarrow> unit endpoint" where
  "ensure_background_worker sv =
     (if sv_background sv then modify (\<lambda>s. s\<lparr>ap_worker_running := True\<rparr>) else ret ())"

definition all_source_type :: "bundle_source_type list" where
  "all_source_type = [LOCAL_PATH, UPLOADED_ZIP, MOP_CREATION_RUN, ARTIFACT_MANIFEST, OBJECT_STORE]"

text \<open>\<open>BundleSource.model_validate\<close>: the two fields and no other.\<close>

definition bundle_source_of :: "json \<Rightarrow> bundle_source option" where
  "bundle_source_of v =
     (case (get_or_null (obj_items v) ''type'', get_or_null (obj_items v) ''value'') of
        (JStr ty, JStr path) \<Rightarrow>
          if list_all (\<lambda>k. k \<in> {''type'', ''value''}) (dict_keys (obj_items v))
          then map_option (\<lambda>t. \<lparr>bs_type = t, bs_value = path\<rparr>)
            (enum_of_value source_type_value all_source_type ty)
          else None
      | _ \<Rightarrow> None)"

definition load_source :: "host \<Rightarrow> json \<Rightarrow> string \<Rightarrow> bundle_error option + artifact_bundle" where
  "load_source h source ns =
     (case bundle_source_of source of
        None \<Rightarrow> Inl None
      | Some src \<Rightarrow> (case load_and_validate_bundle h src ns of
          Inl err \<Rightarrow> Inl (Some err) | Inr b \<Rightarrow> Inr b))"

text \<open>The host with the archives that were uploaded.\<close>

definition host_now :: "service \<Rightarrow> api \<Rightarrow> host" where
  "host_now sv s = (sv_host sv)\<lparr>ho_at := (\<lambda>path. case dict_get (ap_uploads s) path of
     Some bytes \<Rightarrow> sv_unzip sv bytes | None \<Rightarrow> ho_at (sv_host sv) path)\<rparr>"

definition remember_bundle :: "string \<Rightarrow> artifact_bundle \<Rightarrow> unit endpoint" where
  "remember_bundle bid b = modify (\<lambda>s. s\<lparr>ap_bundle_plans := dict_set bid (ab_plan b) (ap_bundle_plans s),
     ap_bundle_roots := dict_set bid (ab_root_path b) (ap_bundle_roots s)\<rparr>)"

text \<open>The plan of the bundle of a job with the root it lies under, loaded when it is not known.\<close>

definition plan_of_bundle :: "service \<Rightarrow> exec_job \<Rightarrow> (machine_plan \<times> string) option endpoint" where
  "plan_of_bundle sv job =
     (let bid = job_bundle_id job in
      bind (gets (\<lambda>s. (dict_get (ap_bundle_plans s) bid, dict_get (ap_bundle_roots s) bid,
        dict_get (ap_bundles s) bid, host_now sv s))) (\<lambda>(plan, root, bundle, h).
      case (plan, root) of
        (Some p, Some r) \<Rightarrow> ret (Some (p, r))
      | (Some p, None) \<Rightarrow> ret None
      | (None, _) \<Rightarrow>
          (case bundle of
             None \<Rightarrow> ret None
           | Some d \<Rightarrow>
               if get_or_null d ''validation_status'' = JStr ''invalid'' then ret None
               else (case load_source h (get_or_null d ''source'') (job_target_namespace job) of
                   Inl refusal \<Rightarrow> ret None
                 | Inr b \<Rightarrow> seqp (remember_bundle bid b) (ret (Some (ab_plan b, ab_root_path b)))))))"

definition with_bundle_root_link :: "exec_job \<Rightarrow> string \<Rightarrow> exec_job" where
  "with_bundle_root_link job root =
     job\<lparr>job_links := dict_set ''bundle_root_path'' root (job_links job)\<rparr>"

definition seed_job_plan :: "service \<Rightarrow> exec_job \<Rightarrow> unit endpoint" where
  "seed_job_plan sv job =
     bind (plan_of_bundle sv job) (\<lambda>found.
     case found of
       None \<Rightarrow> ret ()
     | Some (plan, root) \<Rightarrow>
         seqp (api_save_job (with_bundle_root_link job root))
         (seqp (on_world (seed_plan (job_id job) plan))
         (modify (\<lambda>s. s\<lparr>ap_job_bundle_roots := dict_set (job_id job) root (ap_job_bundle_roots s),
            ap_plans := dict_set (job_id job) (mp_raw plan) (ap_plans s)\<rparr>))))"

definition new_progress :: progress where
  "new_progress = \<lparr>pr_total_phases = 0, pr_completed_phases = 0, pr_total_steps = 0,
     pr_completed_steps = 0, pr_failed_steps = 0\<rparr>"

definition fresh_job ::
    "string \<Rightarrow> string \<Rightarrow> string \<Rightarrow> job_state \<Rightarrow> execution_mode \<Rightarrow> instant \<Rightarrow> instant \<Rightarrow> exec_job" where
  "fresh_job jid bid ns st mode created updated =
     \<lparr>job_id = jid, job_bundle_id = bid, job_target_namespace = ns, job_st = st, job_name = None,
      job_mop_id = None, job_run_id = None, job_correlation_id = None, job_trace_id = None,
      job_source_namespace = None, job_mode = mode, job_current_phase_id = None,
      job_current_step_id = None, job_dry_run_satisfied = False, job_approval_status = A_MISSING,
      job_decision_required = False, job_blocked = False, job_progress = new_progress,
      job_created_at = created, job_updated_at = updated, job_completed_at = None, job_links = []\<rparr>"

text \<open>An identifier of the payload, or a fresh one.\<close>

definition payload_id :: "env \<Rightarrow> json dict \<Rightarrow> string \<Rightarrow> string \<Rightarrow> string endpoint" where
  "payload_id e payload key pre =
     (if truthy (get_or_null payload key) then ret (py_str (get_or_null payload key))
      else on_world (new_id e pre))"

definition payload_text :: "json dict \<Rightarrow> string \<Rightarrow> string option endpoint" where
  "payload_text payload key = lift_result (optional_text (get_or_null payload key))"

definition payload_scope :: "exec_job \<Rightarrow> json dict \<Rightarrow> memory_query endpoint" where
  "payload_scope job payload =
     bind (payload_text payload ''tenant'') (\<lambda>tenant.
     bind (payload_text payload ''environment'') (\<lambda>environment.
     ret ((in_namespace (Some (job_target_namespace job)))
       \<lparr>mq_tenant := tenant, mq_environment := environment\<rparr>)))"

definition create_job :: "env \<Rightarrow> service \<Rightarrow> json dict \<Rightarrow> response endpoint" where
  "create_job e sv payload =
     bind (payload_id e payload ''job_id'' ''job'') (\<lambda>jid.
     bind (payload_text payload ''job_name'') (\<lambda>name.
     bind (payload_text payload ''mop_id'') (\<lambda>mop.
     bind (payload_text payload ''run_id'') (\<lambda>run.
     bind (payload_text payload ''correlation_id'') (\<lambda>corr.
     bind (payload_text payload ''trace_id'') (\<lambda>trace.
     bind (payload_text payload ''source_namespace'') (\<lambda>source.
     bind (on_world (utc_now e)) (\<lambda>created.
     bind (on_world (utc_now e)) (\<lambda>updated.
     let job = (fresh_job jid (text_field payload ''bundle_id'' ''unregistered'')
             (text_field payload ''target_namespace'' []) J_CREATED
             (execution_mode_of (get_or_null payload ''execution_mode'')) created updated)
           \<lparr>job_name := name, job_mop_id := mop, job_run_id := run, job_correlation_id := corr,
            job_trace_id := trace, job_source_namespace := source,
            job_links := payload_links payload\<rparr> in
     seqp (api_save_job job)
     (seqp (modify (\<lambda>s. s\<lparr>ap_plans := dict_set jid
         (obj_items (json_or (get_or_null payload ''plan'') (JObj []))) (ap_plans s)\<rparr>))
     (seqp (seed_job_plan sv job)
     (seqp (api_add_observation e jid ''Execution job created.''
         [(''state'', JStr (job_state_value (job_st job))), (''bundle_id'', JStr (job_bundle_id job))])
     (seqp (add_audit e jid ''job_created'' [(''bundle_id'', JStr (job_bundle_id job))])
     (bind (payload_scope job payload) (\<lambda>scope.
     seqp (write_memory e L_DURABLE_JOB jid ''Execution job created.'' [(''job'', job_json e job)] scope)
     (seqp (write_memory e L_IN_RUN jid ''In-run execution context initialized.''
         [(''state'', JStr (job_state_value (job_st job))),
          (''execution_mode'', JStr (execution_mode_value (job_mode job)))] scope)
     (ret (ok_response ''Execution job created.'' [(''job'', job_json e job)]
        (Some jid) (Some (job_st job))))))))))))))))))))"

section \<open>Control of a job\<close>

definition api_list_jobs :: "env \<Rightarrow> response endpoint" where
  "api_list_jobs e = bind (from_repo (\<lambda>r. sort_key job_created_at (list_jobs r))) (\<lambda>jobs.
     ret (ok_response ''Execution jobs returned.'' [(''jobs'', JArr (map (job_json e) jobs))] None None))"

definition api_get_job :: "env \<Rightarrow> string \<Rightarrow> response endpoint" where
  "api_get_job e jid = with_job jid (\<lambda>job.
     ret (ok_response ''Execution job returned.'' [(''job'', job_json e job)] (Some jid) (Some (job_st job))))"

definition api_start_job :: "env \<Rightarrow> service \<Rightarrow> string \<Rightarrow> response endpoint" where
  "api_start_job e sv jid = with_job jid (\<lambda>job.
     bind (from_repo (\<lambda>r. get_steps r jid)) (\<lambda>steps.
     if job_mode job \<in> {M_DRY_RUN_ONLY, M_EXECUTE_AFTER_APPROVAL} \<and> steps \<noteq> []
     then
       seqp (on_world (requeue jid))
       (seqp (ensure_background_worker sv)
       (bind (api_job jid) (\<lambda>found.
        let updated = (case found of None \<Rightarrow> job | Some j \<Rightarrow> j) in
        ret (ok_response ''Job queued for asynchronous execution.''
          [(''job'', job_json e updated), (''runtime_action'', JStr ''queued'')]
          (Some jid) (Some (job_st updated))))))
     else api_transition e jid J_VALIDATING_BUNDLE ''Job start requested.'' []))"

definition api_pause_job :: "env \<Rightarrow> string \<Rightarrow> response endpoint" where
  "api_pause_job e jid = api_transition e jid J_PAUSED ''Job pause requested.'' []"

text \<open>The state is looked up in the copies of the service, not in the repository.\<close>

definition api_resume_job :: "env \<Rightarrow> string \<Rightarrow> response endpoint" where
  "api_resume_job e jid =
     bind (gets (\<lambda>s. dict_get (ap_jobs s) jid)) (\<lambda>job.
     api_transition e jid
       (case job of
          Some j \<Rightarrow> if job_st j = J_PAUSED then J_EXECUTING else J_AWAITING_LLM_INSTRUCTION
        | None \<Rightarrow> J_AWAITING_LLM_INSTRUCTION)
       ''Job resume requested.'' [])"

definition api_cancel_job :: "env \<Rightarrow> string \<Rightarrow> response endpoint" where
  "api_cancel_job e jid = api_transition e jid J_CANCELLED ''Job cancel requested.'' []"

definition api_request_rollback :: "env \<Rightarrow> string \<Rightarrow> json dict \<Rightarrow> response endpoint" where
  "api_request_rollback e jid payload =
     api_transition e jid J_ROLLBACK_REQUESTED ''Rollback requested.'' payload"

section \<open>Validation and rollback\<close>

text \<open>The executors are built with both clients; the requests of the payload.\<close>

definition full_validation :: validation_executor where
  "full_validation = \<lparr>vx_k8s = True, vx_helm = True\<rparr>"

definition full_rollback :: rollback_executor where
  "full_rollback = \<lparr>rx_k8s = True, rx_helm = True\<rparr>"

text \<open>A release that is given is a text and a revision a number.\<close>

definition rollback_request :: "json dict \<Rightarrow> rollback_options" where
  "rollback_request payload =
     \<lparr>ro_mode = text_field payload ''mode'' ''namespace_revert'',
      ro_dry_run = truthy (get_or payload ''dry_run'' (JBool False)),
      ro_release = (case get_or_null payload ''release_name'' of JStr r \<Rightarrow> Some r | _ \<Rightarrow> None),
      ro_revision = (case get_or_null payload ''revision'' of JInt n \<Rightarrow> Some n | _ \<Rightarrow> None),
      ro_force_purge = truthy (get_or payload ''force_purge_release_storage'' (JBool True))\<rparr>"

definition outcome_observation ::
    "env \<Rightarrow> exec_job \<Rightarrow> string \<Rightarrow> obs_type \<Rightarrow> bool \<Rightarrow> string \<Rightarrow> json \<Rightarrow> unit endpoint" where
  "outcome_observation e job jid ty success summary payload =
     new_observation e ((observation_args jid ty summary)
       \<lparr>obs_severity := (if success then Sev_INFO else Sev_ERROR),
        obs_correlation_id := job_correlation_id job, obs_trace_id := job_trace_id job,
        obs_result := payload\<rparr>)"

definition bool_text :: "bool \<Rightarrow> json" where
  "bool_text b = JStr (if b then ''True'' else ''False'')"

definition api_run_validation :: "env \<Rightarrow> service \<Rightarrow> string \<Rightarrow> response endpoint" where
  "api_run_validation e sv jid = with_job jid (\<lambda>job.
     bind (from_repo (\<lambda>r. get_steps r jid)) (\<lambda>steps.
     bind (on_world (validation_execute (wk_clients (sv_worker sv)) full_validation job steps)) (\<lambda>r.
     let payload = validation_payload r in
     seqp (outcome_observation e job jid Obs_VALIDATION_RESULT (vr_success r)
       ''Post-execution validation completed.'' payload)
     (seqp (add_audit e jid ''validation_completed'' [(''success'', bool_text (vr_success r)),
        (''check_count'', JStr (nat_str (length (vr_checks r))))])
     (bind (record_report e sv job R_VALIDATION_REPORT) (\<lambda>report.
     ret (ok_response ''Validation completed.''
       [(''validation'', payload), (''report'', report_payload e report)]
       (Some jid) (Some (job_st job)))))))))"

text \<open>The state of the job now, or of the copy at hand.\<close>

definition current_state :: "string \<Rightarrow> exec_job \<Rightarrow> job_state endpoint" where
  "current_state jid job = bind (api_job jid) (\<lambda>found.
     ret (job_st (case found of None \<Rightarrow> job | Some j \<Rightarrow> j)))"

definition perform_rollback :: "env \<Rightarrow> service \<Rightarrow> string \<Rightarrow> json dict \<Rightarrow> exec_job \<Rightarrow> response endpoint" where
  "perform_rollback e sv jid payload job =
     bind (from_repo (\<lambda>r. (get_approvals r jid, get_instructions r jid))) (\<lambda>(approvals, instructions).
     bind (on_world (rollback_execute (wk_clients (sv_worker sv)) full_rollback job approvals
       instructions (rollback_request payload))) (\<lambda>r.
     let data = rollback_payload r in
     seqp (outcome_observation e job jid Obs_MUTATION_RESULT (rb_success r)
       ''Rollback execution completed.'' data)
     (seqp (add_audit e jid ''rollback_executed'' [(''success'', bool_text (rb_success r)),
        (''step_count'', JStr (nat_str (length (rb_steps r))))])
     (bind (record_report e sv job R_ROLLBACK_REPORT) (\<lambda>report.
     bind (current_state jid job) (\<lambda>latest.
     if rb_success r \<and> J_COMPLETED \<in> set (allowed_targets latest)
     then
       bind (api_transition e jid J_COMPLETED ''Rollback completed.'' (obj_items data)) (\<lambda>_.
       bind (current_state jid job) (\<lambda>st.
       ret (ok_response ''Rollback execution completed.''
         [(''rollback'', data), (''report'', report_payload e report)] (Some jid) (Some st))))
     else if \<not> rb_success r \<and> J_DECISION_REQUIRED \<in> set (allowed_targets latest)
     then
       bind (api_transition e jid J_DECISION_REQUIRED ''Rollback requires external decision.''
         [(''warnings'', jstrs (rb_warnings r))]) (\<lambda>failed.
       bind (current_state jid job) (\<lambda>st.
       ret (error_response ''Rollback execution failed and requires external decision.''
         ''ROLLBACK_FAILED'' [(''rollback'', data), (''report'', report_payload e report),
           (''transition'', re_data failed)] (Some jid) (Some st))))
     else
       ret (ok_response ''Rollback execution completed.''
         [(''rollback'', data), (''report'', report_payload e report)] (Some jid) (Some latest))))))))"

definition api_execute_rollback :: "env \<Rightarrow> service \<Rightarrow> string \<Rightarrow> json dict \<Rightarrow> response endpoint" where
  "api_execute_rollback e sv jid payload = with_job jid (\<lambda>job.
     if get_or_null payload ''confirm'' \<noteq> JBool True
     then ret (error_response ''Rollback execution requires confirm=true.''
       ''ROLLBACK_CONFIRMATION_REQUIRED'' [] (Some jid) (Some (job_st job)))
     else if job_st job \<notin> {J_ROLLBACK_REQUESTED, J_ROLLING_BACK}
     then ret (error_response ''Rollback execution requires a rollback-requested job.''
       ''ROLLBACK_REQUEST_REQUIRED'' [] (Some jid) (Some (job_st job)))
     else if job_st job = J_ROLLBACK_REQUESTED
     then
       bind (api_transition e jid J_ROLLING_BACK ''Rollback execution started.''
         [(''mode'', JStr (text_field payload ''mode'' ''namespace_revert''))]) (\<lambda>started.
       if \<not> re_ok started then ret started
       else bind (api_job jid) (\<lambda>found.
         perform_rollback e sv jid payload (case found of None \<Rightarrow> job | Some j \<Rightarrow> j)))
     else perform_rollback e sv jid payload job)"

text \<open>The job a namespace is reverted for: the stored one, or a new one that is rolling back.\<close>

definition revert_job :: "env \<Rightarrow> json dict \<Rightarrow> string \<Rightarrow> string \<Rightarrow> exec_job endpoint" where
  "revert_job e payload jid ns =
     bind (api_job jid) (\<lambda>found.
     case found of
       Some job \<Rightarrow> ret job
     | None \<Rightarrow>
         bind (payload_text payload ''correlation_id'') (\<lambda>corr.
         bind (payload_text payload ''trace_id'') (\<lambda>trace.
         bind (on_world (utc_now e)) (\<lambda>created.
         bind (on_world (utc_now e)) (\<lambda>updated.
         let job = (fresh_job jid ''namespace-revert'' ns J_ROLLING_BACK M_EXTERNAL_LLM_CONTROLLED
               created updated)
             \<lparr>job_name := Some ''agent-ai-namespace-revert'', job_correlation_id := corr,
              job_trace_id := trace\<rparr> in
         seqp (api_save_job job)
         (seqp (add_audit e jid ''namespace_revert_job_created'' [(''target_namespace'', JStr ns)])
         (ret job)))))))"

definition finish_revert ::
    "env \<Rightarrow> exec_job \<Rightarrow> rollback_result \<Rightarrow> json \<Rightarrow> report_artifact \<Rightarrow> response endpoint" where
  "finish_revert e job r data report =
     (let jid = job_id job; shown = [(''rollback'', data), (''report'', report_payload e report)] in
      bind (current_state jid job) (\<lambda>latest.
      if rb_success r \<and> latest = J_ROLLING_BACK
      then
        bind (api_transition e jid J_COMPLETED ''Namespace revert completed.'' []) (\<lambda>_.
        bind (current_state jid job) (\<lambda>st.
        ret (ok_response ''Namespace revert completed.'' shown (Some jid) (Some st))))
      else if \<not> rb_success r \<and> latest = J_ROLLING_BACK
      then
        bind (api_transition e jid J_DECISION_REQUIRED ''Namespace revert requires external decision.''
          [(''warnings'', jstrs (rb_warnings r))]) (\<lambda>failed.
        bind (current_state jid job) (\<lambda>st.
        ret (error_response ''Namespace revert failed and requires external decision.''
          ''NAMESPACE_REVERT_FAILED'' (shown @ [(''transition'', re_data failed)]) (Some jid) (Some st))))
      else ret (ok_response ''Namespace revert completed.'' shown (Some jid) (Some latest))))"

definition api_revert_namespace :: "env \<Rightarrow> service \<Rightarrow> json dict \<Rightarrow> response endpoint" where
  "api_revert_namespace e sv payload =
     (let ns = py_str (json_or (json_or (get_or_null payload ''target_namespace'')
           (get_or_null payload ''namespace'')) (JStr [])) in
      if ns = []
      then ret (error_response ''Namespace revert requires target_namespace.''
        ''TARGET_NAMESPACE_REQUIRED'' [] None None)
      else if get_or_null payload ''confirm'' \<noteq> JBool True
      then ret (error_response ''Namespace revert requires confirm=true.''
        ''NAMESPACE_REVERT_CONFIRMATION_REQUIRED'' [] None None)
      else
        bind (payload_id e payload ''job_id'' ''job'') (\<lambda>jid.
        bind (revert_job e payload jid ns) (\<lambda>job.
        bind (on_world (rollback_namespace (wk_clients (sv_worker sv)) full_rollback job
          (rollback_request payload))) (\<lambda>r.
        let data = rollback_payload r in
        seqp (outcome_observation e job (job_id job) Obs_MUTATION_RESULT (rb_success r)
          (''Namespace revert completed for '' @ ns @ ''.'') data)
        (seqp (add_audit e (job_id job) ''namespace_reverted''
          [(''target_namespace'', JStr ns), (''success'', bool_text (rb_success r))])
        (bind (record_report e sv job R_ROLLBACK_REPORT) (\<lambda>report.
        finish_revert e job r data report)))))))"

section \<open>Instructions and approvals\<close>

definition instruction_defaults :: "json dict \<Rightarrow> string \<Rightarrow> string \<Rightarrow> json dict" where
  "instruction_defaults payload jid iid =
     [(''instruction_id'', JStr iid), (''job_id'', JStr jid),
      (''instruction_type'', json_or (get_or_null payload ''instruction_type'') (JStr ''continue'')),
      (''controller_id'', json_or (get_or_null payload ''controller_id'') (JStr ''external-llm-controller'')),
      (''issued_by'', json_or (get_or_null payload ''issued_by'') (JStr ''external_llm_controller''))]"

definition refuse_instruction ::
    "env \<Rightarrow> string \<Rightarrow> exec_job \<Rightarrow> string \<Rightarrow> json dict \<Rightarrow> string \<Rightarrow> string \<Rightarrow> response endpoint" where
  "refuse_instruction e jid job action details message code =
     seqp (add_audit e jid action details)
       (ret (error_response message code [] (Some jid) (Some (job_st job))))"

definition UNSAFE_TYPES :: "instruction_type set" where
  "UNSAFE_TYPES = {I_PATCH_MANIFEST, I_REPLACE_MANIFEST, I_INVOKE_MCP_TOOL}"

text \<open>What is done with an instruction that has been accepted.\<close>

definition instruction_recorded ::
    "env \<Rightarrow> service \<Rightarrow> string \<Rightarrow> exec_job \<Rightarrow> instruction \<Rightarrow> response endpoint" where
  "instruction_recorded e sv jid job i =
     (let shown = [(''instruction'', JObj (instruction_json (env_dt_json e) i))] in
      seqp (modify (\<lambda>s. s\<lparr>ap_instructions := dict_set (ins_id i) i (ap_instructions s)\<rparr>))
      (seqp (api_add_observation e jid ''External instruction submitted.'' shown)
      (seqp (add_audit e jid ''instruction_accepted'' [(''instruction_id'', JStr (ins_id i))])
      (seqp (write_memory e L_EPISODIC_EXECUTION jid ''External instruction accepted.'' shown
        (in_namespace (Some (job_target_namespace job))))
      (bind (from_repo (\<lambda>r. get_steps r jid)) (\<lambda>steps.
      seqp (if steps \<noteq> [] then ensure_background_worker sv else ret ())
      (bind (current_state jid job) (\<lambda>st.
      ret (ok_response ''Instruction submitted.'' shown (Some jid) (Some st))))))))))"

definition route_instruction ::
    "env \<Rightarrow> service \<Rightarrow> string \<Rightarrow> exec_job \<Rightarrow> instruction \<Rightarrow> response endpoint" where
  "route_instruction e sv jid job i =
     (if ins_type i \<in> UNSAFE_TYPES
      then refuse_instruction e jid job ''instruction_policy_blocked''
        [(''instruction_id'', JStr (ins_id i)), (''reason_code'', JStr ''UNSAFE_INSTRUCTION_BLOCKED'')]
        (''Instruction '' @ instruction_type_value (ins_type i) @ '' requires a dedicated policy path.'')
        ''UNSAFE_INSTRUCTION_BLOCKED''
      else if ins_type i = I_ROLLBACK \<and> job_st job \<noteq> J_ROLLBACK_REQUESTED
      then refuse_instruction e jid job ''instruction_policy_blocked''
        [(''instruction_id'', JStr (ins_id i)), (''reason_code'', JStr ''ROLLBACK_STATE_REQUIRED'')]
        ''Rollback instructions require a rollback-requested job.'' ''ROLLBACK_STATE_REQUIRED''
      else
        bind (from_repo (\<lambda>r. get_steps r jid)) (\<lambda>steps.
        if steps \<noteq> []
        then
          bind (on_world (submit_instruction e i)) (\<lambda>d.
          if \<not> id_accepted d
          then
            let code = opt_or (id_reason_code d) ''INSTRUCTION_REJECTED'' in
            refuse_instruction e jid job ''instruction_rejected'' [(''reason_code'', JStr code)]
              ''Instruction was rejected by the runtime gate.'' code
          else instruction_recorded e sv jid job i)
        else
          seqp (on_world (repo_do (save_instruction i))) (instruction_recorded e sv jid job i)))"

definition api_submit_instruction :: "env \<Rightarrow> service \<Rightarrow> string \<Rightarrow> json dict \<Rightarrow> response endpoint" where
  "api_submit_instruction e sv jid payload = with_job jid (\<lambda>job.
     seqp (add_audit e jid ''instruction_received''
       [(''instruction_id'', get_or_null payload ''instruction_id''),
        (''issued_by'', get_or_null payload ''issued_by'')])
     (bind (payload_id e payload ''instruction_id'' ''instr'') (\<lambda>iid.
     case sv_instruction sv (with_payload (instruction_defaults payload jid iid) payload) of
       Inl msg \<Rightarrow>
         seqp (add_audit e jid ''instruction_rejected''
           [(''reason_code'', JStr ''INSTRUCTION_SCHEMA_INVALID'')])
         (ret (error_response ''Instruction input is invalid.'' ''INSTRUCTION_SCHEMA_INVALID''
           [(''error'', JStr msg)] (Some jid) (Some (job_st job))))
     | Inr i \<Rightarrow> route_instruction e sv jid job i)))"

definition approval_defaults :: "json dict \<Rightarrow> string \<Rightarrow> string \<Rightarrow> json dict" where
  "approval_defaults payload jid aid =
     [(''approval_id'', JStr aid), (''job_id'', JStr jid),
      (''approver_id'', json_or (get_or_null payload ''approver_id'') (JStr ''human-approver'')),
      (''approval_scope'', json_or (get_or_null payload ''approval_scope'') (JStr ''mutation'')),
      (''ticket_reference'', json_or (get_or_null payload ''ticket_reference'') (JStr ''TICKET-PENDING'')),
      (''statement'', json_or (get_or_null payload ''statement'')
        (JStr ''Approval reference recorded.''))]"

definition api_submit_approval :: "env \<Rightarrow> service \<Rightarrow> string \<Rightarrow> json dict \<Rightarrow> response endpoint" where
  "api_submit_approval e sv jid payload = with_job jid (\<lambda>_.
     bind (payload_id e payload ''approval_id'' ''approval'') (\<lambda>aid.
     case sv_approval sv (with_payload (approval_defaults payload jid aid) payload) of
       Inl msg \<Rightarrow> raise_err (ValueError msg)
     | Inr a \<Rightarrow>
         let shown = (''approval'', approval_json e a) in
         seqp (modify (\<lambda>s. s\<lparr>ap_approvals := dict_set (apr_id a) a (ap_approvals s)\<rparr>))
         (seqp (on_world (repo_do (save_approval a)))
         (bind (api_job jid) (\<lambda>found.
          case found of
            None \<Rightarrow> raise_err (KeyError jid)
          | Some j \<Rightarrow>
              let job = j\<lparr>job_approval_status := A_ACTIVE\<rparr> in
              seqp (api_save_job job)
              (seqp (api_add_observation e jid ''Human approval submitted.'' [shown])
              (seqp (add_audit e jid ''approval_submitted'' [(''approval_id'', JStr (apr_id a))])
              (seqp (write_memory e L_APPROVAL jid ''Human approval submitted.'' [shown]
                (in_namespace (Some (job_target_namespace job))))
              (ret (ok_response ''Approval submitted.'' [shown, (''job'', job_json e job)]
                (Some jid) (Some (job_st job))))))))))))"

end
