(* ===== verification/ApiBundles.thy ===== *)
theory ApiBundles
  imports Api
begin

text \<open>
  The bundle endpoints of the application service: registration with the upload of an archive,
  validation and listing.
\<close>

section \<open>Uploading an archive\<close>

text \<open>\<open>int(text)\<close>: a sign and digits, with single underscores between them.\<close>

fun split_on :: "char \<Rightarrow> string \<Rightarrow> string \<Rightarrow> string list" where
  "split_on sep acc [] = [rev acc]"
| "split_on sep acc (c # s) = (if c = sep then rev acc # split_on sep [] s else split_on sep (c # acc) s)"

definition digits_value :: "string \<Rightarrow> int" where
  "digits_value s = foldl (\<lambda>n c. 10 * n + (char_code c - 48)) 0 s"

definition py_int_text :: "string \<Rightarrow> py_error + int" where
  "py_int_text s =
     (let t = str_strip s; negative = starts_with t ''-'';
          body = (if negative \<or> starts_with t ''+'' then drop 1 t else t);
          groups = split_on (CHR ''_'') [] body in
      if list_all (\<lambda>g. g \<noteq> [] \<and> list_all is_digit g) groups
      then Inr ((if negative then - 1 else 1) * digits_value (concat groups))
      else Inl (ValueError (''invalid literal for int() with base 10: '' @ repr_str s)))"

definition py_int :: "json \<Rightarrow> py_error + int" where
  "py_int v = (case v of
       JInt n \<Rightarrow> Inr n
     | JBool b \<Rightarrow> Inr (if b then 1 else 0)
     | JStr s \<Rightarrow> py_int_text s
     | _ \<Rightarrow> Inl (TypeError ''int''))"

text \<open>\<open>base64.b64decode(text, validate=True)\<close>.\<close>

definition b64decode_strict :: "string \<Rightarrow> int list option" where
  "b64decode_strict s = (if list_all is_b64 s then b64_decode s else None)"

text \<open>\<open>Path(text).name\<close>.\<close>

definition path_name :: "string \<Rightarrow> string" where
  "path_name s = (case path_parts s of [] \<Rightarrow> [] | p # ps \<Rightarrow> last (p # ps))"

definition archive_name :: "json dict \<Rightarrow> string" where
  "archive_name source =
     (let filename = path_name (text_field source ''filename'' ''mop-bundle.zip'') in
      if ends_with (str_lower filename) ''.zip'' then filename else filename @ ''.zip'')"

text \<open>The decoded archive with its digest, or the reason why it is refused.\<close>

definition uploaded_content :: "env \<Rightarrow> nat \<Rightarrow> json dict \<Rightarrow> py_error + int list \<times> string" where
  "uploaded_content e limit source =
     (case get_or_null source ''archive_base64'' of
        JStr encoded \<Rightarrow>
          if encoded = [] then Inl (ValueError ''uploaded_archive_requires_archive_base64'')
          else (case b64decode_strict encoded of
              None \<Rightarrow> Inl (ValueError ''uploaded_archive_base64_invalid'')
            | Some bytes \<Rightarrow>
                if bytes = [] then Inl (ValueError ''uploaded_archive_empty'')
                else if limit < length bytes
                then Inl (ValueError (''uploaded_archive_too_large:'' @ nat_str (length bytes)))
                else (case (if get_or_null source ''size_bytes'' = JNull then Inr (int (length bytes))
                            else py_int (get_or_null source ''size_bytes'')) of
                    Inl err \<Rightarrow> Inl err
                  | Inr expected_size \<Rightarrow>
                      if expected_size \<noteq> int (length bytes)
                      then Inl (ValueError ''uploaded_archive_size_mismatch'')
                      else
                        let actual = env_sha256 e (map char_of bytes);
                            expected = str_lower (str_strip (text_field source ''sha256'' [])) in
                        if expected \<noteq> [] \<and> expected \<noteq> actual
                        then Inl (ValueError ''uploaded_archive_sha256_mismatch'')
                        else Inr (bytes, actual)))
      | _ \<Rightarrow> Inl (ValueError ''uploaded_archive_requires_archive_base64''))"

definition upload_path :: "service \<Rightarrow> string \<Rightarrow> json dict \<Rightarrow> string" where
  "upload_path sv digest source = sv_upload_root sv @ ''/'' @ digest @ ''/'' @ archive_name source"

text \<open>An archive that is there with the same digest is not written again.\<close>

definition store_upload :: "env \<Rightarrow> string \<Rightarrow> string \<Rightarrow> int list \<Rightarrow> unit endpoint" where
  "store_upload e path digest bytes = modify (\<lambda>s.
     case dict_get (ap_uploads s) path of
       Some old \<Rightarrow> if env_sha256 e (map char_of old) = digest then s
         else s\<lparr>ap_uploads := dict_set path bytes (ap_uploads s)\<rparr>
     | None \<Rightarrow> s\<lparr>ap_uploads := dict_set path bytes (ap_uploads s)\<rparr>)"

definition materialize_source :: "env \<Rightarrow> service \<Rightarrow> json \<Rightarrow> json endpoint" where
  "materialize_source e sv source =
     (case source of
        JObj d \<Rightarrow>
          if get_or_null d ''type'' \<noteq> JStr ''uploaded_archive'' then ret source
          else
            bind (lift_result (uploaded_content e (sv_max_upload sv) d)) (\<lambda>(bytes, digest).
            seqp (store_upload e (upload_path sv digest d) digest bytes)
              (ret (JObj [(''type'', JStr ''uploaded_zip''),
                (''value'', JStr (upload_path sv digest d))])))
      | _ \<Rightarrow> ret source)"

section \<open>Registration\<close>

definition for_bundle :: "string \<Rightarrow> response \<Rightarrow> response" where
  "for_bundle bid r = r\<lparr>re_bundle_id := Some bid\<rparr>"

definition set_bundle :: "string \<Rightarrow> json dict \<Rightarrow> unit endpoint" where
  "set_bundle bid d = modify (\<lambda>s. s\<lparr>ap_bundles := dict_set bid d (ap_bundles s)\<rparr>)"

definition default_source :: json where
  "default_source = JObj [(''type'', JStr ''local_path''), (''value'', JStr [])]"

definition register_bundle :: "env \<Rightarrow> service \<Rightarrow> json dict \<Rightarrow> response endpoint" where
  "register_bundle e sv payload =
     bind (payload_id e payload ''bundle_id'' ''bundle'') (\<lambda>bid.
     bind (attempt (materialize_source e sv (json_or (get_or_null payload ''source'') default_source)))
       (\<lambda>outcome.
     case outcome of
       Inl (ValueError msg) \<Rightarrow>
         ret (for_bundle bid (error_response msg ''BUNDLE_UPLOAD_INVALID'' [] None None))
     | Inl err \<Rightarrow> raise_err err
     | Inr source \<Rightarrow>
         bind (on_world (utc_now e)) (\<lambda>now.
         let bundle = [(''bundle_id'', JStr bid), (''source'', redact_value source),
               (''target_namespace'', JStr (text_field payload ''target_namespace'' [])),
               (''registered_at'', JStr (env_isoformat e now)),
               (''validation_status'', JStr ''not_validated'')] in
         seqp (set_bundle bid bundle)
           (ret (for_bundle bid (ok_response ''Artifact bundle registered.'' bundle None None))))))"

definition list_bundles :: "response endpoint" where
  "list_bundles = bind (gets (\<lambda>s. dict_values (ap_bundles s))) (\<lambda>bundles.
     ret (ok_response ''Artifact bundles returned.''
       [(''bundles'', JArr (map JObj
          (sort_key (\<lambda>d. py_str (get_or_null d ''registered_at'')) bundles)))] None None))"

definition get_bundle :: "string \<Rightarrow> response endpoint" where
  "get_bundle bid = bind (gets (\<lambda>s. dict_get (ap_bundles s) bid)) (\<lambda>found.
     ret (for_bundle bid (case found of
       None \<Rightarrow> not_found ''Bundle not found.'' None
     | Some d \<Rightarrow> ok_response ''Artifact bundle returned.'' d None None)))"

section \<open>Validation\<close>

definition bundle_namespace :: "json dict \<Rightarrow> json dict \<Rightarrow> string" where
  "bundle_namespace bundle payload = py_str (json_or (json_or (get_or_null bundle ''target_namespace'')
     (get_or_null payload ''target_namespace'')) (JStr []))"

definition validated :: "artifact_bundle \<Rightarrow> json dict \<Rightarrow> json dict" where
  "validated b d = dict_update d
     [(''validation_status'', JStr ''valid''), (''root_path'', JStr (ab_root_path b)),
      (''phase_count'', jnat (length (mp_phases (ab_plan b)))),
      (''step_count'', jnat (sum_list (map (\<lambda>p. length (pp_steps p)) (mp_phases (ab_plan b))))),
      (''manifest_count'', jnat (length (ab_manifests b)))]"

definition invalidated :: "string \<Rightarrow> json dict \<Rightarrow> json dict" where
  "invalidated message d = dict_update d
     [(''validation_status'', JStr ''invalid''),
      (''validation_error'', JStr (py_str (redact_value (JStr message))))]"

definition validate_known_bundle ::
    "env \<Rightarrow> service \<Rightarrow> json dict \<Rightarrow> string \<Rightarrow> json dict \<Rightarrow> response endpoint" where
  "validate_known_bundle e sv payload bid bundle =
     bind (gets (\<lambda>s. load_source (host_now sv s) (get_or_null bundle ''source'')
       (bundle_namespace bundle payload))) (\<lambda>loaded.
     seqp (case loaded of Inl refusal \<Rightarrow> ret () | Inr b \<Rightarrow> remember_bundle bid b)
     (bind (on_world (utc_now e)) (\<lambda>now.
     let checked = dict_set ''validated_at'' (JStr (env_isoformat e now)) (case loaded of
           Inl refusal \<Rightarrow> invalidated (sv_refusal_text sv refusal) bundle
         | Inr b \<Rightarrow> validated b bundle) in
     seqp (set_bundle bid checked)
       (ret (for_bundle bid (ok_response ''Artifact bundle validation complete.''
          [(''bundle'', JObj checked), (''valid'', JBool (\<not> isl loaded))] None None))))))"

text \<open>Without an identifier the bundle is registered first, whatever comes of it.\<close>

definition validate_bundle ::
    "env \<Rightarrow> service \<Rightarrow> string option \<Rightarrow> json dict \<Rightarrow> response endpoint" where
  "validate_bundle e sv requested payload =
     bind (case requested of
         Some bid \<Rightarrow> ret bid
       | None \<Rightarrow> bind (register_bundle e sv payload) (\<lambda>r.
           ret (case re_bundle_id r of None \<Rightarrow> ''None'' | Some bid \<Rightarrow> bid))) (\<lambda>bid.
     bind (gets (\<lambda>s. dict_get (ap_bundles s) bid)) (\<lambda>found.
     case found of
       None \<Rightarrow> ret (for_bundle bid (not_found ''Bundle not found.'' None))
     | Some bundle \<Rightarrow> validate_known_bundle e sv payload bid bundle))"

end
