(* ===== verification/ApiQueries.thy ===== *)
theory ApiQueries
  imports ApiBundles
begin

text \<open>
  The endpoints of the application service that read: the plan, the observations, the audit
  events, the memory and the decision a job waits for, the evaluation of a policy, the preview
  of a redaction, and the reports with their downloads.
\<close>

section \<open>Plan, observations and events\<close>

definition api_get_plan :: "string \<Rightarrow> response endpoint" where
  "api_get_plan jid = with_job jid (\<lambda>_.
     bind (gets (\<lambda>s. dict_get (ap_plans s) jid)) (\<lambda>plan.
     ret (ok_response ''Plan returned.''
       [(''plan'', JObj (case plan of None \<Rightarrow> [] | Some p \<Rightarrow> p))] (Some jid) None)))"

text \<open>\<open>stored or copies\<close>.\<close>

definition stored_or_copies :: "'b list \<Rightarrow> 'b list option \<Rightarrow> 'b list" where
  "stored_or_copies stored copies =
     (if stored \<noteq> [] then stored else case copies of None \<Rightarrow> [] | Some xs \<Rightarrow> xs)"

definition api_list_observations :: "env \<Rightarrow> string \<Rightarrow> response endpoint" where
  "api_list_observations e jid = with_job jid (\<lambda>_.
     bind (gets (\<lambda>s. stored_or_copies (get_observations (ag_repo (ap_world s)) jid)
       (dict_get (ap_observations s) jid))) (\<lambda>obs.
     ret (ok_response ''Observations returned.''
       [(''observations'', JArr (map (observation_json (env_dt_json e)) obs))] (Some jid) None)))"

definition api_list_events :: "env \<Rightarrow> string \<Rightarrow> response endpoint" where
  "api_list_events e jid = with_job jid (\<lambda>_.
     bind (from_repo (\<lambda>r. (get_observations r jid, list_audit_events r (Some jid)))) (\<lambda>(obs, audits).
     ret (ok_response ''Events returned.''
       [(''events'', JArr (map (observation_json (env_dt_json e)) obs @
          map (\<lambda>a. JObj (audit_json e a)) audits))] (Some jid) None)))"

definition api_list_audit_events :: "env \<Rightarrow> string \<Rightarrow> response endpoint" where
  "api_list_audit_events e jid = with_job jid (\<lambda>_.
     bind (gets (\<lambda>s. stored_or_copies (list_audit_events (ag_repo (ap_world s)) (Some jid))
       (dict_get (ap_audit s) jid))) (\<lambda>audits.
     ret (ok_response ''Audit events returned.''
       [(''audit_events'', JArr (map (\<lambda>a. JObj (audit_json e a)) audits))] (Some jid) None)))"

section \<open>Memory\<close>

text \<open>The query of the filters, which must be texts.\<close>

definition filtered_query :: "string \<Rightarrow> json dict \<Rightarrow> py_error + memory_query" where
  "filtered_query jid filters =
     (let d = memory_filters filters; given = (\<lambda>k. case get_or_null d k of JStr v \<Rightarrow> Some v | _ \<Rightarrow> None) in
      if list_ex (\<lambda>kv. case snd kv of JStr v \<Rightarrow> False | _ \<Rightarrow> True) d then Inl (ValueError ''string_type'')
      else Inr \<lparr>mq_job_id = Some jid, mq_namespace = given ''namespace'', mq_chart = given ''chart'',
        mq_kind = given ''kind'', mq_error_code = given ''error_code'',
        mq_mcp_source = given ''mcp_source'', mq_tenant = given ''tenant'',
        mq_environment = given ''environment''\<rparr>)"

definition some_field :: "string \<Rightarrow> string option \<Rightarrow> json dict" where
  "some_field key v = (case v of None \<Rightarrow> [] | Some x \<Rightarrow> [(key, JStr x)])"

text \<open>\<open>query.model_dump(exclude_none=True)\<close>.\<close>

definition query_json :: "memory_query \<Rightarrow> json" where
  "query_json q = JObj (some_field ''job_id'' (mq_job_id q) @ some_field ''namespace'' (mq_namespace q) @
     some_field ''chart'' (mq_chart q) @ some_field ''kind'' (mq_kind q) @
     some_field ''error_code'' (mq_error_code q) @ some_field ''mcp_source'' (mq_mcp_source q) @
     some_field ''tenant'' (mq_tenant q) @ some_field ''environment'' (mq_environment q))"

definition known_memory :: "memory_query \<Rightarrow> memory_record list endpoint" where
  "known_memory q = gets (\<lambda>s. filter (\<lambda>m. matches_memory m q) (ap_memory s))"

definition api_memory_context :: "env \<Rightarrow> string \<Rightarrow> json dict \<Rightarrow> response endpoint" where
  "api_memory_context e jid filters = with_job jid (\<lambda>_.
     bind (lift_result (filtered_query jid filters)) (\<lambda>q.
     bind (known_memory q) (\<lambda>ms.
     let records = JArr (map (memory_json e) ms) in
     ret (ok_response ''Memory context returned.'' [(''memory_context'', JObj
       [(''job_id'', JStr jid), (''authority'', JStr MEMORY_AUTHORITY),
        (''redaction_applied'', JBool True), (''filters'', query_json q), (''records'', records),
        (''facts'', records)])] (Some jid) None))))"

section \<open>The decision a job waits for\<close>

text \<open>The last of the service's own copies that asks for a decision.\<close>

definition latest_decision :: "observation list \<Rightarrow> json option" where
  "latest_decision obs =
     List.find truthy (map (\<lambda>ob. case obs_next_required_decision ob of
        None \<Rightarrow> JNull | Some v \<Rightarrow> v) (rev obs))"

definition waiting_decision :: "env \<Rightarrow> exec_job \<Rightarrow> string \<Rightarrow> memory_record list \<Rightarrow> json" where
  "waiting_decision e job jid ms = JObj
     [(''job_id'', JStr jid), (''target_namespace'', JStr (job_target_namespace job)),
      (''authority'', JStr MEMORY_AUTHORITY), (''reason_code'', JStr ''DECISION_REQUIRED''),
      (''summary'', JStr ''External LLM instruction is required.''),
      (''required_from'', JStr ''external_llm''),
      (''allowed_next_action_types'',
        jstrs [''continue'', ''retry'', ''wait'', ''skip'', ''abort'']),
      (''memory'', JObj [(''authority'', JStr MEMORY_AUTHORITY),
        (''records'', JArr (map (memory_json e) ms))])]"

definition api_next_required_decision :: "env \<Rightarrow> string \<Rightarrow> response endpoint" where
  "api_next_required_decision e jid = with_job jid (\<lambda>job.
     bind (gets (\<lambda>s. latest_decision
       (case dict_get (ap_observations s) jid of None \<Rightarrow> [] | Some obs \<Rightarrow> obs))) (\<lambda>asked.
     bind (known_memory (empty_query\<lparr>mq_job_id := Some jid\<rparr>)) (\<lambda>ms.
     let decision = (case asked of
           Some v \<Rightarrow> Some v
         | None \<Rightarrow> if job_st job = J_DECISION_REQUIRED then Some (waiting_decision e job jid ms) else None) in
     ret ((ok_response ''Next required decision returned.''
       [(''next_required_decision'', case decision of None \<Rightarrow> JNull | Some v \<Rightarrow> v)] (Some jid) None)
       \<lparr>re_next_decision := decision\<rparr>))))"

section \<open>Policy and redaction\<close>

definition policy_json :: "policy_decision \<Rightarrow> json dict" where
  "policy_json d = [(''allowed'', JBool (pd_allowed d)),
     (''blocks'', JArr (map policy_block_json (pd_blocks d))),
     (''command_fingerprint'', jopt (pd_fingerprint d))]"

definition remember_policy :: "env \<Rightarrow> policy_context \<Rightarrow> policy_decision \<Rightarrow> unit endpoint" where
  "remember_policy e c d =
     (if pc_job_id c \<noteq> []
      then write_memory e L_POLICY (pc_job_id c) ''Policy evaluated.'' (policy_json d)
        (empty_query\<lparr>mq_namespace := Some (pc_target c),
           mq_error_code := (case pd_blocks d of [] \<Rightarrow> None | b # bs \<Rightarrow> Some (pb_code b))\<rparr>)
      else ret ())"

definition api_evaluate_policy :: "env \<Rightarrow> service \<Rightarrow> json dict \<Rightarrow> response endpoint" where
  "api_evaluate_policy e sv payload =
     (case sv_policy sv payload of
        Inl msg \<Rightarrow> ret (error_response ''Policy evaluation input is invalid.'' ''POLICY_INPUT_INVALID''
          [(''error'', JStr msg)] None None)
      | Inr c \<Rightarrow>
          bind (lift_result (evaluate_policy e c None)) (\<lambda>d.
          seqp (remember_policy e c d)
          (ret ((ok_response ''Policy evaluated.'' (policy_json d) None None)
            \<lparr>re_policy_blocks := map policy_block_json (pd_blocks d)\<rparr>))))"

definition api_preview_redaction :: "json dict \<Rightarrow> response endpoint" where
  "api_preview_redaction payload = ret (ok_response ''Redaction preview returned.''
     [(''redacted_content'', redact_value (get_or payload ''content'' (JObj payload))),
      (''redaction_applied'', JBool True)] None None)"

section \<open>Reports\<close>

definition generate_execution_report :: "env \<Rightarrow> service \<Rightarrow> string \<Rightarrow> response endpoint" where
  "generate_execution_report e sv = generate_report e sv R_EXECUTION_SUMMARY ''Execution report generated.''"

definition generate_validation_report :: "env \<Rightarrow> service \<Rightarrow> string \<Rightarrow> response endpoint" where
  "generate_validation_report e sv = generate_report e sv R_VALIDATION_REPORT ''Validation report generated.''"

definition generate_rollback_report :: "env \<Rightarrow> service \<Rightarrow> string \<Rightarrow> response endpoint" where
  "generate_rollback_report e sv = generate_report e sv R_ROLLBACK_REPORT ''Rollback report generated.''"

definition generate_change_report :: "env \<Rightarrow> service \<Rightarrow> string \<Rightarrow> response endpoint" where
  "generate_change_report e sv = generate_report e sv R_CHANGE_REPORT ''Change report generated.''"

subsection \<open>Release notes\<close>

definition on_wire :: "(wire, py_error, 'b) prog \<Rightarrow> 'b endpoint" where
  "on_wire m = (\<lambda>s. let w = ap_world s in
     case m \<lparr>c_tick = c_tick w, c_ids = c_ids w, wi_sent = ap_sent s, wi_hooked = []\<rparr> of
       (r, u) \<Rightarrow> (r, s\<lparr>ap_world := w\<lparr>c_tick := c_tick u, c_ids := c_ids u\<rparr>, ap_sent := wi_sent u\<rparr>))"

definition notes_client :: "transport \<Rightarrow> exec_job \<Rightarrow> mcp_client" where
  "notes_client tr job = \<lparr>mc_server = ''bosgenesis_release_note_agent'', mc_transport = tr,
     mc_job_id = job_id job, mc_correlation_id = job_correlation_id job,
     mc_trace_id = job_trace_id job, mc_hook = None, mc_max_safe_retries = 1\<rparr>"

definition notes_warnings :: "observation list \<Rightarrow> string list" where
  "notes_warnings obs = map obs_summary
     (filter (\<lambda>ob. obs_severity ob \<in> {Sev_WARNING, Sev_ERROR}) obs)"

definition notes_outcome :: "mcp_result \<Rightarrow> json dict" where
  "notes_outcome r =
     [(''adapter'', JStr ''bosgenesis_release_note_agent''), (''configured'', JBool True)] @
     (if mr_success r
      then [(''status'', JStr ''generated_by_release_note_mcp''), (''data'', JObj (data_or_empty r))]
      else [(''status'', JStr ''release_note_mcp_failed_local_artifacts_generated''),
        (''error'', case mr_error r of None \<Rightarrow> JObj [] | Some er \<Rightarrow> mcp_error_json er)])"

definition notes_not_configured :: "json dict" where
  "notes_not_configured =
     [(''adapter'', JStr ''bosgenesis_release_note_agent''), (''configured'', JBool False),
      (''status'', JStr ''not_configured_local_artifacts_generated''),
      (''formats'', jstrs [''markdown'', ''html'', ''pdf'', ''zip''])]"

definition call_release_note_agent :: "env \<Rightarrow> service \<Rightarrow> exec_job \<Rightarrow> json dict endpoint" where
  "call_release_note_agent e sv job =
     (case sv_notes sv of
        None \<Rightarrow> ret notes_not_configured
      | Some tr \<Rightarrow>
          bind (from_repo (\<lambda>r. (get_steps r (job_id job), get_observations r (job_id job)))) (\<lambda>(steps, obs).
          bind (on_wire (request_call e (notes_client tr job) (notes_tool (Notes_execution (job_id job)
            (map (step_json e) steps) (notes_warnings obs) (job_trace_id job))))) (\<lambda>r.
          seqp (record_observation e (mr_observation r))
          (seqp (case mr_audit_event r of None \<Rightarrow> ret () | Some ev \<Rightarrow> on_world (write_event ev))
          (ret (notes_outcome r))))))"

definition generate_release_notes :: "env \<Rightarrow> service \<Rightarrow> string \<Rightarrow> response endpoint" where
  "generate_release_notes e sv jid = with_job jid (\<lambda>job.
     bind (call_release_note_agent e sv job) (\<lambda>notes.
     bind (record_report e sv job R_RELEASE_NOTES) (\<lambda>report.
     seqp (add_audit e jid ''release_notes_requested'' [(''report_id'', JStr (rep_id report))])
     (ret (ok_response ''Release notes generated.''
       [(''report'', report_payload e report), (''release_note_mcp'', JObj notes)] (Some jid) None)))))"

subsection \<open>Downloads\<close>

text \<open>
  The files of the host: where a path resolves to (with links followed), and the size of the file
  there, if there is one.
\<close>

record files =
  fi_resolve :: "string \<Rightarrow> string list"
  fi_size :: "string list \<Rightarrow> nat option"

definition artifact_fields :: "(string \<times> (report_artifact \<Rightarrow> string option) \<times> string \<times> string) list" where
  "artifact_fields =
     [(''markdown'', \<lambda>r. Some (rep_path r), ''path'', ''text/markdown; charset=utf-8''),
      (''md'', \<lambda>r. Some (rep_path r), ''path'', ''text/markdown; charset=utf-8''),
      (''html'', rep_html_path, ''html_path'', ''text/html; charset=utf-8''),
      (''pdf'', rep_pdf_path, ''pdf_path'', ''application/pdf''),
      (''archive'', rep_archive_path, ''archive_path'', ''application/zip''),
      (''zip'', rep_archive_path, ''archive_path'', ''application/zip'')]"

definition artifact_key :: "string \<Rightarrow> string" where
  "artifact_key artifact = str_lower (str_strip (str_or artifact ''pdf''))"

definition normalized_artifact :: "string \<Rightarrow> string" where
  "normalized_artifact key =
     (if key = ''zip'' then ''archive'' else if key = ''md'' then ''markdown'' else key)"

definition rooted :: "service \<Rightarrow> string \<Rightarrow> string" where
  "rooted sv path = (if starts_with path ''/'' then path else sv_root sv @ ''/'' @ path)"

definition absolute_text :: "string list \<Rightarrow> string" where
  "absolute_text ps = ''/'' @ str_join ''/'' ps"

definition download_fields :: "report_artifact \<Rightarrow> string \<Rightarrow> string \<Rightarrow> string \<Rightarrow> string \<Rightarrow> string list \<Rightarrow> nat \<Rightarrow> json dict" where
  "download_fields r jid rid key media at n =
     [(''job_id'', JStr jid), (''report_id'', JStr rid),
      (''report_type'', JStr (report_type_value (rep_type r))),
      (''artifact'', JStr (normalized_artifact key)), (''filename'', JStr (last at)),
      (''media_type'', JStr media), (''size_bytes'', jnat n),
      (''download_url'', JStr (report_download_url jid rid (normalized_artifact key))),
      (''path'', JStr (absolute_text at))]"

text \<open>The data of the response is not redacted.\<close>

definition resolved_download :: "files \<Rightarrow> service \<Rightarrow> string \<Rightarrow> string \<Rightarrow> string \<Rightarrow> report_artifact \<Rightarrow> response" where
  "resolved_download fs sv jid rid artifact r =
     (let key = artifact_key artifact in
      case map_of artifact_fields key of
        None \<Rightarrow> error_response ''Unsupported report artifact requested.'' ''REPORT_ARTIFACT_UNSUPPORTED''
          [(''artifact'', JStr artifact), (''supported_artifacts'', jstrs (sort (map fst artifact_fields)))]
          (Some jid) None
      | Some (field, field_name, media) \<Rightarrow>
          if \<not> opt_truthy (field r)
          then error_response ''Report artifact is not available for this report.''
            ''REPORT_ARTIFACT_UNAVAILABLE'' [(''artifact'', JStr key), (''field'', JStr field_name)]
            (Some jid) None
          else
            let at = fi_resolve fs (rooted sv (the (field r))); root = fi_resolve fs (sv_root sv) in
            if take (length root) at \<noteq> root
            then error_response ''Report artifact path is outside the configured artifact root.''
              ''REPORT_ARTIFACT_PATH_OUTSIDE_ROOT'' [] (Some jid) None
            else (case fi_size fs at of
                None \<Rightarrow> not_found ''Report artifact file not found.'' (Some jid)
              | Some n \<Rightarrow> (ok_response ''Report artifact resolved.'' [] (Some jid) None)
                  \<lparr>re_data := JObj [(''download'', JObj (download_fields r jid rid key media at n))]\<rparr>))"

definition with_report :: "string \<Rightarrow> string \<Rightarrow> (report_artifact \<Rightarrow> response endpoint) \<Rightarrow> response endpoint" where
  "with_report jid rid f = with_job jid (\<lambda>_. bind (find_report jid rid) (\<lambda>found.
     case found of None \<Rightarrow> ret (not_found ''Report not found.'' (Some jid)) | Some r \<Rightarrow> f r))"

definition resolve_report_download ::
    "files \<Rightarrow> service \<Rightarrow> string \<Rightarrow> string \<Rightarrow> string \<Rightarrow> response endpoint" where
  "resolve_report_download fs sv jid rid artifact =
     with_report jid rid (\<lambda>r. ret (resolved_download fs sv jid rid artifact r))"

definition api_get_report_metadata ::
    "env \<Rightarrow> files \<Rightarrow> service \<Rightarrow> string \<Rightarrow> string \<Rightarrow> response endpoint" where
  "api_get_report_metadata e fs sv jid rid = with_report jid rid (\<lambda>r.
     bind (resolve_report_download fs sv jid rid ''pdf'') (\<lambda>resolved.
     ret (ok_response ''Report metadata returned.''
       [(''report'', report_payload e r), (''download_ready'', JBool (re_ok resolved))] (Some jid) None)))"

definition report_download_metadata ::
    "files \<Rightarrow> service \<Rightarrow> string \<Rightarrow> string \<Rightarrow> string \<Rightarrow> response endpoint" where
  "report_download_metadata fs sv jid rid artifact =
     bind (resolve_report_download fs sv jid rid artifact) (\<lambda>resolved.
     if \<not> re_ok resolved then ret resolved
     else
       let download = obj_items (get_or_null (obj_items (re_data resolved)) ''download'') in
       ret ((ok_response ''Report download metadata returned.'' [] (Some jid) None)
         \<lparr>re_data := JObj [(''download'', JObj (dict_pop ''path'' download))]\<rparr>))"

end
