(* ===== verification/ApiEvidence.thy ===== *)
theory ApiEvidence
  imports ApiQueries
begin

text \<open>
  The evidence of a dry run (\<open>namespace_twin_dry_run_evidence\<close> of \<open>api/service.py\<close>, with the
  fidelity contract of \<open>namespace_twin/dry_run_fidelity.py\<close>): the status an outside analysis is
  told, from the steps, observations and reports of a job.
\<close>

section \<open>The fidelity contract\<close>

text \<open>Identifier, failure mode, title, signal, why it is not proven and what has to be validated.\<close>

definition FIDELITY_CASES :: "(string \<times> string \<times> string \<times> string \<times> string \<times> string) list" where
  "FIDELITY_CASES =
     [(''image_pull_after_admission'', ''image_pull_failure'',
       ''Image pull can fail after dry-run acceptance'', ''ImagePullBackOff or ErrImagePull'',
       ''API admission does not pull the image from its registry or prove image, credential, architecture, and network availability on a target node.'',
       ''Observe Pod container waiting reasons and image-pull events after creation.''),
      (''scheduling_after_admission'', ''scheduling_failure'',
       ''Scheduling can fail after dry-run acceptance'', ''FailedScheduling with a Pending Pod'',
       ''API admission does not reserve live node capacity or prove affinity, taints, topology, quota, and scheduler constraints can be satisfied at runtime.'',
       ''Observe Pod scheduling conditions and scheduler events after creation.''),
      (''pvc_binding_after_admission'', ''pvc_binding_failure'',
       ''PVC binding can fail after dry-run acceptance'', ''Pending PVC or FailedBinding event'',
       ''API admission does not provision or bind storage and cannot prove a matching StorageClass, provisioner, topology, capacity, or access mode is available.'',
       ''Observe PVC phase, binding events, StorageClass, and provisioner outcome.''),
      (''readiness_probe_after_admission'', ''readiness_probe_failure'',
       ''Readiness probes can fail after dry-run acceptance'', ''Unhealthy event or Ready=False condition'',
       ''API admission validates probe structure but does not start the workload, call the probe endpoint, or prove application dependencies become healthy.'',
       ''Observe readiness conditions, probe events, endpoint state, and safe pod logs.''),
      (''controller_webhook_after_admission'', ''controller_or_webhook_failure'',
       ''Controllers or webhooks can fail after dry-run acceptance'',
       ''Reconcile error, webhook timeout, or rejected dependent resource'',
       ''A successful admission response does not prove asynchronous controller reconciliation, later webhook calls, generated resources, or external control plane dependencies will converge.'',
       ''Observe controller conditions, events, webhook health, and generated resources.'')]"

definition fidelity_case :: "string \<times> string \<times> string \<times> string \<times> string \<times> string \<Rightarrow> json" where
  "fidelity_case c = (case c of (ident, mode, title, signal, why, validation) \<Rightarrow> JObj
     [(''case_id'', JStr ident), (''failure_mode'', JStr mode), (''title'', JStr title),
      (''runtime_signal'', JStr signal), (''why_not_proven'', JStr why),
      (''runtime_validation_required'', JStr validation),
      (''classification'', JStr ''fidelity_limitation''),
      (''demonstration_type'', JStr ''deterministic_counterexample''),
      (''sequence'', JArr
        [JObj [(''stage'', JStr ''authoritative_dry_run''), (''outcome'', JStr ''accepted'')],
         JObj [(''stage'', JStr ''post_admission_runtime''), (''outcome'', JStr ''failure_possible'')]]),
      (''runtime_success_prediction'', JStr ''not_predicted''),
      (''observed_in_current_run'', JBool False),
      (''safe_conclusion'', JStr ''Dry-run acceptance proves admission/static validation only; runtime success remains unknown until post-creation evidence is collected.'')])"

definition dry_run_fidelity_contract :: "json dict" where
  "dry_run_fidelity_contract =
     [(''version'', JStr ''1.0.0''), (''classification'', JStr ''fidelity_limitation''),
      (''dry_run_scope'', JStr ''api_admission_and_static_validation''),
      (''runtime_success_predicted'', JBool False), (''runtime_validation_required'', JBool True),
      (''case_count'', jnat (length FIDELITY_CASES)),
      (''summary'', JStr ''A successful dry-run is not a prediction of runtime success. The cases below are deterministic counterexamples, not failures observed in the current run.''),
      (''cases'', JArr (map fidelity_case FIDELITY_CASES))]"

section \<open>The status of the dry run\<close>

text \<open>\<open>str(step.dry_run_status or step.state)\<close>.\<close>

definition dry_outcome :: "exec_step \<Rightarrow> step_state" where
  "dry_outcome st = (case stp_dry_run_status st of Some v \<Rightarrow> v | None \<Rightarrow> stp_state st)"

definition has_command :: "exec_step \<Rightarrow> bool" where
  "has_command st \<longleftrightarrow> stp_commands st \<noteq> [] \<or> opt_truthy (stp_fingerprint st)"

definition failed_dry_steps :: "exec_step list \<Rightarrow> string list" where
  "failed_dry_steps steps = map stp_id (filter (\<lambda>st. dry_outcome st = S_DRY_RUN_FAILED) steps)"

definition partial_dry_steps :: "exec_step list \<Rightarrow> string list" where
  "partial_dry_steps steps =
     map stp_id (filter (\<lambda>st. has_command st \<and> dry_outcome st \<noteq> S_DRY_RUN_SUCCEEDED) steps)"

definition dry_fingerprints :: "exec_step list \<Rightarrow> string list" where
  "dry_fingerprints steps =
     sort (remdups (map (\<lambda>st. the (stp_fingerprint st)) (filter (\<lambda>st. opt_truthy (stp_fingerprint st)) steps)))"

definition has_dry_run_steps :: "exec_step list \<Rightarrow> bool" where
  "has_dry_run_steps steps \<longleftrightarrow>
     list_ex (\<lambda>st. has_command st \<or> stp_dry_run_status st \<noteq> None) steps"

definition dry_run_status_of :: "exec_job \<Rightarrow> exec_step list \<Rightarrow> string" where
  "dry_run_status_of job steps =
     (if job_st job \<in> {J_INVALID_BUNDLE, J_FAILED, J_CANCELLED} \<or> failed_dry_steps steps \<noteq> [] then ''failed''
      else if job_dry_run_satisfied job \<and> has_dry_run_steps steps \<and> dry_fingerprints steps \<noteq> [] \<and>
        partial_dry_steps steps = [] then ''passed''
      else if job_st job = J_DRY_RUNNING then ''running''
      else if job_dry_run_satisfied job \<or> has_dry_run_steps steps then ''partial''
      else ''pending'')"

definition validation_entry :: "string \<Rightarrow> string \<Rightarrow> string \<Rightarrow> json" where
  "validation_entry label status summary =
     JObj [(''type'', JStr label), (''status'', JStr status), (''summary'', JStr summary)]"

definition step_validation :: "exec_step list \<Rightarrow> step_type set \<Rightarrow> string \<Rightarrow> json" where
  "step_validation steps types label =
     (let matching = filter (\<lambda>st. stp_type st \<in> types) steps in
      if matching = [] then validation_entry label ''not_available'' ''No matching step was present.''
      else if list_ex (\<lambda>st. dry_outcome st = S_DRY_RUN_FAILED) matching
      then validation_entry label ''failed'' ''One or more authoritative dry-run steps were rejected.''
      else if list_all (\<lambda>st. dry_outcome st = S_DRY_RUN_SUCCEEDED) matching
      then validation_entry label ''passed'' ''All matching authoritative dry-run steps were accepted.''
      else validation_entry label ''warning'' ''Matching steps produced incomplete authoritative evidence.'')"

section \<open>Observations and reports\<close>

definition observation_outcome :: "observation \<Rightarrow> string" where
  "observation_outcome ob =
     (let status = str_lower (py_str (json_or (get_or_null (obj_items (obs_result ob)) ''status'') (JStr []))) in
      if obs_severity ob \<in> {Sev_ERROR, Sev_CRITICAL} \<or> status \<in> {''failed'', ''rejected'', ''error''}
      then ''rejected''
      else if obs_severity ob = Sev_WARNING then ''warning''
      else if status \<in> {''skipped'', ''not_applicable''} then ''skipped''
      else ''accepted'')"

text \<open>Namespace, kind and name of the first resource, as far as they are known.\<close>

definition resource_identity :: "observation \<Rightarrow> string option" where
  "resource_identity ob =
     (case obs_resource_refs ob of
        [] \<Rightarrow> None
      | r # rs \<Rightarrow> Some (str_join ''/'' (map the (filter opt_truthy
          [rr_namespace r, rr_kind r,
           if opt_truthy (rr_name r) then rr_name r else rr_helm_release_name r]))))"

definition redacted_text :: "string \<Rightarrow> json" where
  "redacted_text s = JStr (py_str (redact_value (JStr s)))"

definition normalized_observation :: "env \<Rightarrow> observation \<Rightarrow> json" where
  "normalized_observation e ob = JObj
     [(''observation_id'', JStr (obs_id ob)),
      (''phase'', JStr (opt_or (obs_phase_id ob) ''unassigned'')),
      (''step'', JStr (opt_or (obs_step_id ob) ''unassigned'')),
      (''tool'', JStr (opt_or (obs_mcp_tool ob) (opt_or (obs_mcp_server ob) (obs_type_value (obs_type ob))))),
      (''outcome'', JStr (observation_outcome ob)), (''summary'', redacted_text (obs_summary ob)),
      (''resource_identity'', jopt (resource_identity ob)),
      (''evidence_refs'', JArr [JObj
        [(''evidence_id'', JStr (obs_id ob)), (''source_type'', JStr ''dry_run''),
         (''source_id'', JStr (obs_id ob)), (''summary'', redacted_text (obs_summary ob)),
         (''captured_at'', JStr (env_isoformat e (obs_timestamp ob))), (''redacted'', JBool True),
         (''href'', JNull)]]),
      (''redacted'', JBool True)]"

text \<open>\<open>Path(text).suffix\<close>: the last dot of the name and what follows, inside the name.\<close>

definition path_suffix :: "string \<Rightarrow> string" where
  "path_suffix s =
     (let name = path_name s; tail = rev (takeWhile (\<lambda>c. c \<noteq> CHR ''.'') (rev name)) in
      if tail \<noteq> [] \<and> length tail + 1 < length name then CHR ''.'' # tail else [])"

definition report_media :: "string \<Rightarrow> string" where
  "report_media path =
     (let ext = str_lower (path_suffix path) in
      if ext = ''.pdf'' then ''application/pdf''
      else if ext \<in> {''.html'', ''.htm''} then ''text/html'' else ''application/json'')"

definition report_metadata :: "string \<Rightarrow> report_artifact \<Rightarrow> json" where
  "report_metadata jid r = JObj
     [(''artifact_id'', JStr (rep_id r)), (''filename'', JStr (path_name (rep_path r))),
      (''media_type'', JStr (report_media (rep_path r))),
      (''download_href'', JStr (opt_or (rep_download_url r)
        (''/v1/execution-jobs/'' @ jid @ ''/reports/'' @ rep_id r))),
      (''sha256'', JNull)]"

section \<open>The evidence\<close>

definition bundle_validation :: "exec_job \<Rightarrow> json" where
  "bundle_validation job =
     (if job_bundle_id job \<noteq> ''unregistered''
      then validation_entry ''bundle_schema'' ''passed''
        ''The execution job references a registered, validated artifact bundle.''
      else validation_entry ''bundle_schema'' ''failed''
        ''The execution job does not reference a registered bundle.'')"

definition FIDELITY_LIMITATIONS :: "string list" where
  "FIDELITY_LIMITATIONS =
     [''A successful dry-run proves API admission and static validation only; it is not predicted runtime success.'',
      ''Image pulls, scheduling, PVC binding, readiness probes, and controller or webhook convergence require runtime validation.'',
      ''External DNS and dependencies are outside authoritative dry-run evidence.'']"

definition evidence_refs :: "string \<Rightarrow> observation list \<Rightarrow> report_artifact list \<Rightarrow> string list" where
  "evidence_refs jid obs reports = (''job:'' @ jid) #
     map (\<lambda>ob. ''job:'' @ jid @ '':observation:'' @ obs_id ob) obs @
     map (\<lambda>r. ''job:'' @ jid @ '':report:'' @ rep_id r) reports"

definition fingerprint_hash :: "env \<Rightarrow> string list \<Rightarrow> json" where
  "fingerprint_hash e fps = (if fps = [] then JNull else JStr (env_sha256 e (dumps (jstrs fps))))"

definition dry_run_evidence ::
    "env \<Rightarrow> exec_job \<Rightarrow> string \<Rightarrow> exec_step list \<Rightarrow> observation list \<Rightarrow> report_artifact list \<Rightarrow> json dict" where
  "dry_run_evidence e job jid steps obs reports =
     [(''dry_run_job_id'', JStr (job_id job)), (''status'', JStr (dry_run_status_of job steps)),
      (''authoritative'', JBool True), (''bundle_id'', JStr (job_bundle_id job)),
      (''bundle_hash'', jopt (dict_get (job_links job) ''bundle_hash'')),
      (''input_hash'', jopt (dict_get (job_links job) ''namespace_twin_input_hash'')),
      (''target_namespace'', JStr (job_target_namespace job)),
      (''source_namespace'', jopt (job_source_namespace job)),
      (''job_state'', JStr (job_state_value (job_st job))),
      (''execution_mode'', JStr (execution_mode_value (job_mode job))),
      (''dry_run_satisfied'', JBool (job_dry_run_satisfied job)),
      (''created_at'', JStr (env_isoformat e (job_created_at job))),
      (''updated_at'', JStr (env_isoformat e (job_updated_at job))),
      (''completed_at'', jopt (map_option (env_isoformat e) (job_completed_at job))),
      (''command_fingerprints'', jstrs (dry_fingerprints steps)),
      (''command_fingerprint_hash'', fingerprint_hash e (dry_fingerprints steps)),
      (''failed_steps'', jstrs (failed_dry_steps steps)),
      (''partial_steps'', jstrs (partial_dry_steps steps)),
      (''validations'', JArr
        [bundle_validation job, step_validation steps {T_HELM_VALIDATE} ''helm_lint'',
         step_validation steps {T_HELM_INSTALL, T_HELM_UPGRADE} ''helm_dry_run'',
         step_validation steps {T_K8S_VALIDATE, T_K8S_APPLY, T_K8S_DELETE} ''kubernetes_server_dry_run'']),
      (''observations'', JArr (map (normalized_observation e) obs)),
      (''reports'', JArr (map (report_metadata jid) reports)),
      (''evidence_refs'', jstrs (evidence_refs jid obs reports)),
      (''fidelity_limitations'', jstrs FIDELITY_LIMITATIONS),
      (''fidelity_contract'', JObj (dict_pop ''cases'' dry_run_fidelity_contract)),
      (''fidelity_demonstrations'', get_or_null dry_run_fidelity_contract ''cases''),
      (''redacted'', JBool True)]"

definition namespace_twin_dry_run_evidence :: "env \<Rightarrow> string \<Rightarrow> response endpoint" where
  "namespace_twin_dry_run_evidence e jid = with_job jid (\<lambda>job.
     bind (from_repo (\<lambda>r. (get_steps r jid, get_observations r jid, get_reports r jid))) (\<lambda>(ss, os, rs).
     let steps = sort_key stp_index (sort_key stp_id ss);
         obs = sort_key obs_timestamp (sort_key obs_id os);
         reports = sort_key rep_created_at (sort_key rep_id rs) in
     ret (ok_response ''Authoritative dry-run evidence returned.''
       [(''dry_run_evidence'', redact_value (JObj (dry_run_evidence e job jid steps obs reports)))]
       (Some jid) (Some (job_st job)))))"

end
