(* ===== verification/WorkerFrames.thy ===== *)
theory WorkerFrames
  imports Worker
begin

text \<open>
  Relations that the methods of the worker keep. Such a relation only has to tolerate the
  basic operations (the clock, identifiers, the saving of records, events, the memory of the
  process) and the dry-run executor; the locale carries it through all the methods that do
  not mutate, and the extended one, which also tolerates the mutation executor, through all
  of them. They are interpreted for the invariant of the repository, the growth of the audit
  log and the calls that change the cluster.
\<close>

text \<open>Sequencing from one given state.\<close>

context step_relation
begin

lemma at_bind:
  assumes "R s (snd (m s))" and "\<And>x t. m s = (Inr x, t) \<Longrightarrow> R t (snd (f x t))"
  shows "R s (snd (bind m f s))"
proof -
  obtain r t where m: "m s = (r, t)" by force
  show ?thesis
  proof (cases r)
    case (Inr x)
    with assms m have "R s t" "R t (snd (f x t))" by auto
    then have "R s (snd (f x t))" by (rule trans)
    with m Inr show ?thesis by (simp add: bind_def)
  qed (use assms m in \<open>simp add: bind_def\<close>)
qed

lemma at_seq:
  assumes "R s (snd (m s))" and "\<And>t. m s = (Inr (), t) \<Longrightarrow> R t (snd (n t))"
  shows "R s (snd (seqp m n s))"
  unfolding seqp_def using assms by (intro at_bind) simp_all

end

section \<open>The executors\<close>

text \<open>A relation that tolerates calls and audit events tolerates the executors.\<close>

locale executor_relation = step_relation R for R :: "'a runtime_scheme \<Rightarrow> 'a runtime_scheme \<Rightarrow> bool" +
  assumes exec_clock: "moves R (utc_now e)" and exec_fresh: "moves R (new_id e pre)"
    and exec_call: "moves R (mcp_call cl c)" and exec_event: "moves R (write_event ev)"
begin

lemmas exec_rules = exec_clock exec_fresh exec_call exec_event moves_attempt moves_gets moves_ret moves_raise
  moves_lift moves_bind moves_seq moves_if moves_case_option moves_case_prod moves_case_sum moves_let

lemma moves_dry_execute: "moves R (dry_execute cl x job st)"
proof -
  have one: "moves R (dry_manifests cl x ns ref ms outputs)" for ns ref ms outputs
    by (induction ms arbitrary: outputs) (auto simp: Let_def intro!: exec_rules split: sum.splits)
  have "moves R (dry_refs cl x ns refs outputs)" for ns refs outputs
    by (induction refs arbitrary: outputs)
       (auto intro!: exec_rules one split: sum.splits bundle_file.splits)
  then show ?thesis
    unfolding dry_execute_def dry_k8s_apply_def dry_helm_def Let_def by (intro exec_rules)
qed

lemma moves_mutation_execute: "moves R (mutation_execute e cl x job st approvals is)"
proof -
  have "moves R (apply_manifests cl ns ms outs muts)" for ns ms outs muts
    by (induction ms arbitrary: outs muts) (auto simp: Let_def intro!: exec_rules split: sum.splits)
  then show ?thesis
    unfolding mutation_execute_def execute_k8s_apply_def execute_helm_def new_record_def
      write_pre_mutation_audit_def Let_def
    by (intro exec_rules)
qed

end

section \<open>The interface of a relation\<close>

locale quiet_relation = step_relation R for R :: "world \<Rightarrow> world \<Rightarrow> bool" +
  assumes clock: "moves R (utc_now e)"
    and fresh: "moves R (new_id e pre)"
    and saves: "moves R (repo_do (\<lambda>r. save_job (f r) r))" "moves R (repo_do (save_phase p))"
      "moves R (repo_do (save_step st))" "moves R (repo_do (add_observation ob))"
      "moves R (repo_do (save_instruction i))" "moves R (repo_do (save_approval a))"
    and event: "moves R (write_event ev)"
    and memory: "rt_calls t = rt_calls s \<Longrightarrow> ag_repo t = ag_repo s \<Longrightarrow> w_queue t = w_queue s \<Longrightarrow> R s t"
    and queue: "moves R (queue_job jid)"
    and dry: "moves R (dry_execute cl dx job st)"
begin

lemma moves_memory: "(\<And>s. rt_calls (snd (m s)) = rt_calls s \<and> ag_repo (snd (m s)) = ag_repo s \<and>
    w_queue (snd (m s)) = w_queue s) \<Longrightarrow> moves R m"
  by (simp add: moves_def memory)

lemma moves_get: "moves R (repo_get g)"
  by (rule moves_memory) (simp add: repo_get_def gets_def)

lemma moves_save: "moves R (repo_do (save_job j))"
  using saves(1) [of "\<lambda>_. j"] by simp

lemmas basics = clock fresh saves moves_save event dry moves_get moves_gets moves_ret
  moves_raise moves_lift

lemma moves_world:
  "moves R (modify (\<lambda>s. s\<lparr>w_active_locks := f1 s, w_redis := f2 s\<rparr>))"
  "moves R (modify (\<lambda>s. s\<lparr>w_active_locks := f1 s\<rparr>))" "moves R (modify (\<lambda>s. s\<lparr>w_redis := f2 s\<rparr>))"
  "moves R (modify (\<lambda>s. s\<lparr>w_cancel_requested := f3 s\<rparr>))"
  "moves R (modify (\<lambda>s. s\<lparr>w_pause_requested := f3 s\<rparr>))"
  by (rule moves_memory; simp add: modify_def)+

lemmas rules = basics moves_world moves_bind moves_seq moves_for_each moves_if moves_case_option
  moves_case_prod moves_case_sum moves_let

lemma moves_requeue: "moves R (requeue jid)"
  unfolding requeue_def by (intro queue rules)

lemma moves_observe: "moves R (observe e args)"
  unfolding observe_def build_observation_def by (intro rules)

lemma moves_release: "moves R (release_lock e jid)"
  unfolding release_lock_def by (intro rules)

lemma moves_progress: "moves R (save_progress job)"
  unfolding save_progress_def by (rule saves)

lemma moves_transition:
  "moves R (transition e DEFAULT_STATE_MACHINE jid a b act aid reason corr trace d)"
  unfolding transition_def run_guards_def DEFAULT_STATE_MACHINE_def Let_def by (intro rules)

lemma moves_worker_transition: "moves R (worker_transition e w job target reason d)"
  unfolding worker_transition_def Let_def by (intro moves_transition moves_progress rules)

lemma moves_decision: "moves R (decision_required e w job code summary step)"
  unfolding decision_required_def
  by (intro moves_observe moves_worker_transition moves_release rules)

lemma moves_take: "moves R (take_lock e w job)"
  unfolding take_lock_def
  by (intro rules moves_memory) (simp split: prod.splits)

lemma moves_lock: "moves R (acquire_lock_or_decision e w job)"
  unfolding acquire_lock_or_decision_def
  by (intro moves_take moves_decision moves_observe rules)

lemma moves_phase: "moves R (complete_phase_if_ready e p)"
  unfolding complete_phase_if_ready_def by (intro rules)

lemmas parts = queue moves_requeue moves_observe moves_release moves_progress moves_worker_transition
  moves_decision moves_lock moves_phase

lemma moves_settle: "moves R (settle_mutation e w job p st running r)"
  unfolding settle_mutation_def Let_def by (intro parts rules)

lemma moves_steps:
  "moves R (execute_dry_run_step e w job p st)" "moves R (complete_mechanical_step e job p st dry)"
  "moves R (complete_next_empty_ready_phase e job phases steps)"
  unfolding execute_dry_run_step_def complete_mechanical_step_def
    complete_next_empty_ready_phase_def Let_def
  by (intro parts rules)+

lemma moves_requests:
  "moves R (schedule_wait e w job p st)" "moves R (poll_wait e w job)"
  "moves R (pause_job e w job)" "moves R (cancel_job e w job)"
  unfolding schedule_wait_def poll_wait_def pause_job_def cancel_job_def cancel_step_def
    wait_due_at_def wait_evaluate_def Let_def
  by (intro parts rules)+

lemma moves_states:
  "moves R (validate_runtime_plan e w job)" "moves R (start_dry_run e w job)"
  "moves R (await_human_approval e w job)" "moves R (complete_job e w job reason)"
  unfolding validate_runtime_plan_def start_dry_run_def await_human_approval_def complete_job_def
  by (intro parts rules)+

lemma moves_dry_next: "moves R (run_next_step e w job True)"
  unfolding run_next_step_def finish_dry_run_def perform_step_def
  by (simp, intro moves_steps moves_states moves_requests parts rules)

lemma moves_quiet_state: "job_st job \<noteq> J_EXECUTING \<Longrightarrow> moves R (process_state e w jid job)"
  unfolding process_state_def
  by (cases "job_st job")
     (simp_all, (intro moves_dry_next moves_states moves_requests parts rules)+)

lemma moves_beat: "moves R (beat e w jid)"
  unfolding beat_def by (intro rules)

lemma moves_reconcile: "moves R (reconcile_after_restart e w)"
proof -
  have one: "moves R (reconcile_job e w job)" for job
    unfolding reconcile_job_def reset_retryable_running_steps_def reset_step_def
      reconcile_complete_def restart_decision_def Let_def
    by (intro parts rules)
  have "moves R (reconcile_jobs e w jobs)" for jobs
    by (induction jobs) (auto intro!: one moves_bind moves_ret)
  then show ?thesis unfolding reconcile_after_restart_def by (intro rules)
qed

lemma moves_seed: "moves R (seed_plan jid plan)"
  unfolding seed_plan_def seed_phase_def require_job_def by (intro parts rules)

lemma moves_submit: "moves R (submit_instruction e i)"
  unfolding submit_instruction_def receive_def instruction_audit_def apply_safe_instruction_def
    Let_def
  by (intro parts rules)

lemma moves_pause: "moves R (request_pause jid)" "moves R (request_cancel jid)"
  unfolding request_pause_def request_cancel_def by (intro parts rules)+

lemma quiet_method: "op \<noteq> W_run \<Longrightarrow> op \<noteq> W_recover \<Longrightarrow> R s (worker_step e w op s)"
proof (cases op)
  case (W_approval a)
  with movesD [OF saves(6) [of a], of s] show ?thesis by (simp add: repo_do_def modify_def)
qed (simp_all add: movesD queue moves_requeue moves_pause moves_submit moves_reconcile moves_seed)

end

text \<open>A relation that does not look at the queue.\<close>

locale queueless_relation = quiet_relation +
  assumes queueless: "rt_calls t = rt_calls s \<Longrightarrow> ag_repo t = ag_repo s \<Longrightarrow> R s t"
begin

lemma moves_take_item:
  "moves R (\<lambda>s. case dequeue (w_queue s) of (item, q) \<Rightarrow> (Inr item, s\<lparr>w_queue := q\<rparr>))"
  by (simp add: moves_def queueless split: prod.splits)

lemma moves_recover: "moves R (recover_restartable_jobs e w)"
  unfolding recover_restartable_jobs_def
  by (intro moves_bind moves_reconcile) (simp add: moves_def queueless split: prod.splits)

lemma quiet_step: "op \<noteq> W_run \<Longrightarrow> R s (worker_step e w op s)"
  by (cases "op = W_recover") (simp_all add: quiet_method movesD moves_recover)

end

locale worker_relation = quiet_relation +
  assumes mutation: "moves R (mutation_execute e cl mx job st approvals is)"
begin

lemma moves_next: "moves R (run_next_step e w job dry_run)"
  unfolding run_next_step_def run_next_mutation_def execute_mutation_step_def
    execute_locked_mutation_def finish_dry_run_def perform_step_def Let_def
  by (intro mutation moves_settle moves_steps moves_states moves_requests parts rules)

lemma moves_process: "moves R (process_job e w jid)"
proof -
  have "moves R (process_state e w jid job)" for job
    using moves_next [of e w job False] moves_quiet_state [of job e w jid]
    by (cases "job_st job = J_EXECUTING") (simp_all add: process_state_def)
  then show ?thesis
    unfolding process_job_def require_job_def by (intro moves_beat moves_requests rules)
qed

end

locale whole_relation = queueless_relation R + worker_relation R for R
begin

lemma moves_run_once: "moves R (run_once e w)"
  unfolding run_once_def by (intro moves_bind moves_take_item) (intro moves_process rules)

lemma step_R: "R s (worker_step e w op s)"
  by (cases "op = W_run") (simp_all add: quiet_step movesD moves_run_once)

lemma run_R: "R s (worker_run e w ops s)"
proof (induction ops arbitrary: s)
  case (Cons op ops)
  from step_R [of s e w op] Cons.IH [of "worker_step e w op s"] show ?case
    by (auto simp: worker_run_def intro: trans)
qed (simp add: worker_run_def refl)

end

section \<open>The repository stays well formed\<close>

definition inv_kept :: "'a agent_scheme \<Rightarrow> 'a agent_scheme \<Rightarrow> bool" where
  "inv_kept = keeps (\<lambda>s. repo_inv (ag_repo s))"

interpretation inv_kept: step_relation inv_kept
  unfolding inv_kept_def by (rule keeps.step_relation_axioms)

lemma inv_kept_frame: "(\<And>s. ag_repo (snd (m s)) = ag_repo s) \<Longrightarrow> moves inv_kept m"
  by (simp add: moves_def inv_kept_def keeps_def)

lemma inv_kept_basic [step_intros]:
  "moves inv_kept (utc_now e)" "moves inv_kept (new_id e pre)" "moves inv_kept (repo_get g)"
  by (rule inv_kept_frame; simp add: utc_now_def new_id_def repo_get_def gets_def)+

lemma inv_kept_call [step_intros]: "moves inv_kept (mcp_call cl c)"
  by (rule inv_kept_frame) (simp add: mcp_call_def)

lemma inv_kept_repo_do [step_intros]:
  "(\<And>r. repo_inv r \<Longrightarrow> repo_inv (f r)) \<Longrightarrow> moves inv_kept (repo_do f)"
  by (simp add: moves_def inv_kept_def keeps_def repo_do_def modify_def)

lemma saved_inv [intro]:
  assumes "repo_inv r"
  shows "repo_inv (save_job j r)" "repo_inv (save_phase p r)" "repo_inv (save_step st r)"
    "repo_inv (add_observation ob r)" "repo_inv (save_instruction i r)" "repo_inv (save_approval a r)"
    "repo_inv (snd (append_audit_event ev r))"
  using repo_step_inv [OF assms, of "Op_job j"] repo_step_inv [OF assms, of "Op_phase p"]
    repo_step_inv [OF assms, of "Op_step st"] repo_step_inv [OF assms, of "Op_observation ob"]
    repo_step_inv [OF assms, of "Op_instruction i"] repo_step_inv [OF assms, of "Op_approval a"]
    repo_step_inv [OF assms, of "Op_audit ev"]
  by simp_all

lemma inv_kept_event [step_intros]: "moves inv_kept (write_event ev)"
  using saved_inv(7) [of _ ev]
  by (auto simp: moves_def inv_kept_def keeps_def write_event_def audit_write_def split: prod.splits)
     (metis snd_conv)

interpretation inv_kept: executor_relation inv_kept
  by unfold_locales (intro step_intros)+

interpretation inv_kept: whole_relation inv_kept
proof
  fix s t :: world
  assume "ag_repo t = ag_repo s"
  then show "inv_kept s t" by (simp add: inv_kept_def keeps_def)
  then show "inv_kept s t" .
next
  fix jid show "moves inv_kept (queue_job jid)"
    by (rule inv_kept_frame) (simp add: queue_job_def split: prod.splits)
qed (intro step_intros saved_inv inv_kept.moves_dry_execute inv_kept.moves_mutation_execute; assumption)+

section \<open>The audit log grows\<close>

interpretation logging: executor_relation same_but_audit
  by unfold_locales (intro step_intros)+

lemmas mutation_execute_logs [step_intros] = logging.moves_mutation_execute

lemma audit_grows_executors [step_intros]:
  "moves audit_grows (dry_execute cl dx job st)"
  "moves audit_grows (mutation_execute e cl mx job st approvals is)"
  by (auto intro: moves_mono [OF dry_execute_logs] moves_mono [OF mutation_execute_logs]
      same_but_audit_facts(2))

lemma audit_grows_same: "ag_repo t = ag_repo s \<Longrightarrow> audit_grows s t"
  by (simp add: audit_grows_def audit_log_def)

interpretation audit: whole_relation audit_grows
proof
  fix jid show "moves audit_grows (queue_job jid)"
    by (simp add: moves_def audit_grows_same queue_job_def split: prod.splits)
qed (simp add: audit_grows_same | (intro step_intros; simp add: save_defs))+

section \<open>Calls that change the cluster\<close>

text \<open>Calls are only added, and one that changes the cluster must be allowed.\<close>

definition mutating_only :: "(ext_call \<Rightarrow> bool) \<Rightarrow> world \<Rightarrow> world \<Rightarrow> bool" where
  "mutating_only allowed = calls_only (\<lambda>c. mutating_call c \<longrightarrow> allowed c)"

lemma mutating_only_same: "rt_calls t = rt_calls s \<Longrightarrow> mutating_only allowed s t"
  by (simp add: mutating_only_def calls_only_same)

interpretation mutating: step_relation "mutating_only allowed" for allowed
  unfolding mutating_only_def by (rule calls.step_relation_axioms)

interpretation mutating: queueless_relation "mutating_only allowed" for allowed
proof
  fix s t :: world
  assume "rt_calls t = rt_calls s"
  then show "mutating_only allowed s t" by (rule mutating_only_same)
  then show "mutating_only allowed s t" .
next
  fix cl :: clients and dx job st
  show "moves (mutating_only allowed) (dry_execute cl dx job st)"
    by (rule moves_mono [OF dry_execute_harmless])
       (auto simp: mutating_only_def calls_only_def harmless_def list_all_iff)
qed (simp_all add: moves_def utc_now_def new_id_def repo_do_def modify_def write_event_def
    queue_job_def mutating_only_same split: prod.splits)

section \<open>Inputs of the witnesses\<close>

text \<open>A worker with clients that accept everything, and a stored and queued job with one step.\<close>

definition demo_worker :: worker where
  "demo_worker =
     \<lparr>wk_id = ''w'', wk_lease_seconds = 300, wk_ttl_seconds = 30,
      wk_waits = default_wait_config, wk_clients = demo_clients,
      wk_dry_runs = Some demo_dry_executor, wk_dry_run_factory = None,
      wk_mutations = Some demo_mutation_executor, wk_mutation_factory = None\<rparr>"

definition demo_job :: exec_job where
  "demo_job = demo_exec_job\<lparr>job_st := J_CREATED, job_dry_run_satisfied := False\<rparr>"

definition demo_world :: world where
  "demo_world =
     \<lparr>c_tick = 0, c_ids = 0,
      ag_repo = save_phase (demo_phase ''p'' 0 P_PENDING [])
        (save_step (demo_apply_step\<lparr>stp_dry_run_status := None\<rparr>) (save_job demo_job (repo_load None))),
      rt_calls = [], w_queue = snd (enqueue ''j'' new_queue), w_redis = [],
      w_active_locks = [], w_pause_requested = {}, w_cancel_requested = {}\<rparr>"

text \<open>Its life up to the end, with the approval and the instruction it needs on the way.\<close>

definition demo_ops :: "worker_op list" where
  "demo_ops = replicate 5 W_run @
     [W_approval demo_approval, W_instruction (demo_instruction I_CONTINUE)] @ replicate 4 W_run"

lemma demo_world_inv: "repo_inv (ag_repo demo_world)"
  by (simp add: demo_world_def saved_inv repo_load_none_inv)

end
