(* ===== verification/WorkerSafety.thy ===== *)
theory WorkerSafety
  imports WorkerFrames
begin

text \<open>
  What the worker does to the jobs: their states follow the transition table, and only jobs
  whose mode asks for an execution after approval ever come near one.
\<close>

section \<open>Programs that leave the jobs alone\<close>

definition jobs_same :: "world \<Rightarrow> world \<Rightarrow> bool" where
  "jobs_same s t \<longleftrightarrow> get_job (ag_repo t) = get_job (ag_repo s)"

interpretation jobs_same: step_relation jobs_same
  by unfold_locales (simp_all add: jobs_same_def)

lemma jobs_same_frame: "(\<And>s. get_job (ag_repo (snd (m s))) = get_job (ag_repo s)) \<Longrightarrow> moves jobs_same m"
  by (simp add: moves_def jobs_same_def)

lemma jobs_same_basic [step_intros]:
  "moves jobs_same (utc_now e)" "moves jobs_same (new_id e pre)" "moves jobs_same (repo_get g)"
  "moves jobs_same (mcp_call cl c)" "moves jobs_same (write_event ev)"
  by (rule jobs_same_frame;
      auto simp: utc_now_def new_id_def repo_get_def gets_def mcp_call_def write_event_def
        audit_write_def append_audit_event_def get_job_def split: prod.splits)+

lemma jobs_same_repo_do [step_intros]:
  "(\<And>r. get_job (f r) = get_job r) \<Longrightarrow> moves jobs_same (repo_do f)"
  by (rule jobs_same_frame) (simp add: repo_do_def modify_def)

lemma jobs_same_world [step_intros]:
  "moves jobs_same (modify (\<lambda>s. s\<lparr>w_active_locks := f1 s, w_redis := f2 s\<rparr>))"
  "moves jobs_same (modify (\<lambda>s. s\<lparr>w_active_locks := f1 s\<rparr>))"
  "moves jobs_same (modify (\<lambda>s. s\<lparr>w_redis := f2 s\<rparr>))"
  "moves jobs_same (modify (\<lambda>s. s\<lparr>w_cancel_requested := f3 s\<rparr>))"
  "moves jobs_same (modify (\<lambda>s. s\<lparr>w_pause_requested := f4 s\<rparr>))"
  by (rule jobs_same_frame; simp add: modify_def)+

lemma get_job_other [simp]:
  "get_job (save_step st r) = get_job r" "get_job (save_phase p r) = get_job r"
  "get_job (add_observation ob r) = get_job r" "get_job (save_instruction i r) = get_job r"
  "get_job (save_approval a r) = get_job r"
  by (simp_all add: fun_eq_iff get_job_def save_defs)

lemma jobs_same_build [step_intros]: "moves jobs_same (build_observation e args)"
  unfolding build_observation_def by (intro step_intros)

lemma jobs_same_observe [step_intros]: "moves jobs_same (observe e args)"
  unfolding observe_def by (intro step_intros) simp

lemma jobs_same_requeue [step_intros]: "moves jobs_same (queue_job jid)" "moves jobs_same (requeue jid)"
  unfolding requeue_def
  by (auto simp: queue_job_def moves_def bind_def ret_def jobs_same_def split: prod.splits sum.splits)

lemma jobs_same_release [step_intros]: "moves jobs_same (release_lock e jid)"
  unfolding release_lock_def by (intro step_intros)

lemma jobs_same_take [step_intros]: "moves jobs_same (take_lock e w job)"
  unfolding take_lock_def
  by (intro step_intros) (auto simp: moves_def jobs_same_def split: prod.splits)

lemma jobs_same_phase [step_intros]: "moves jobs_same (complete_phase_if_ready e p)"
  unfolding complete_phase_if_ready_def by (intro step_intros) simp_all

lemma jobs_same_beat [step_intros]: "moves jobs_same (beat e w jid)"
  unfolding beat_def by (intro step_intros)

lemma jobs_same_executors [step_intros]:
  "moves jobs_same (dry_execute cl dx job st)"
  "moves jobs_same (mutation_execute e cl x job st approvals is)"
  by (rule moves_mono [OF dry_execute_logs], simp add: jobs_same_def same_but_audit_facts)
     (rule moves_mono [OF mutation_execute_logs], simp add: jobs_same_def same_but_audit_facts)

section \<open>How a job may change\<close>

text \<open>
  One change of a job: what it is about stays; its state stays, follows the table (towards
  approval or execution only for jobs that execute after approval, or from there), or is
  cancelled by an abort.
\<close>

definition same_subject :: "exec_job \<Rightarrow> exec_job \<Rightarrow> bool" where
  "same_subject j j' \<longleftrightarrow> job_id j' = job_id j \<and> job_mode j' = job_mode j \<and>
     job_target_namespace j' = job_target_namespace j"

definition EXECUTION_STATES :: "job_state set" where
  "EXECUTION_STATES = {J_AWAITING_HUMAN_APPROVAL, J_EXECUTING}"

definition legal_change :: "bool \<Rightarrow> exec_job \<Rightarrow> exec_job \<Rightarrow> bool" where
  "legal_change abort j j' \<longleftrightarrow> same_subject j j' \<and>
     (job_st j' = job_st j \<or>
      job_st j' \<in> set (allowed_targets (job_st j)) \<and>
        (job_st j' \<notin> EXECUTION_STATES \<or> job_st j \<in> EXECUTION_STATES \<or>
         job_mode j = M_EXECUTE_AFTER_APPROVAL) \<or>
      abort \<and> job_st j' = J_CANCELLED)"

text \<open>From one state to a later one only the given job changes, by legal changes.\<close>

definition job_evolves :: "bool \<Rightarrow> string \<Rightarrow> world \<Rightarrow> world \<Rightarrow> bool" where
  "job_evolves abort jid s t \<longleftrightarrow>
     (\<forall>k. k \<noteq> jid \<longrightarrow> get_job (ag_repo t) k = get_job (ag_repo s) k) \<and>
     (case get_job (ag_repo s) jid of
        None \<Rightarrow> get_job (ag_repo t) jid = None
      | Some j \<Rightarrow> (\<exists>j'. get_job (ag_repo t) jid = Some j' \<and> (legal_change abort)\<^sup>*\<^sup>* j j'))"

interpretation evolves: step_relation "job_evolves abort jid" for abort jid
proof
  fix s t u :: world
  show "job_evolves abort jid s s" by (auto simp: job_evolves_def split: option.splits)
  assume st: "job_evolves abort jid s t" and tu: "job_evolves abort jid t u"
  show "job_evolves abort jid s u"
  proof (cases "get_job (ag_repo s) jid")
    case None
    with st tu show ?thesis by (auto simp: job_evolves_def)
  next
    case (Some j)
    with st obtain j1 where j1: "get_job (ag_repo t) jid = Some j1" "(legal_change abort)\<^sup>*\<^sup>* j j1"
      by (auto simp: job_evolves_def)
    with tu obtain j2 where "get_job (ag_repo u) jid = Some j2" "(legal_change abort)\<^sup>*\<^sup>* j1 j2"
      by (auto simp: job_evolves_def)
    with Some j1 st tu show ?thesis by (fastforce simp: job_evolves_def)
  qed
qed

lemma jobs_same_evolves: "jobs_same s t \<Longrightarrow> job_evolves abort jid s t"
  by (auto simp: jobs_same_def job_evolves_def split: option.splits)

text \<open>The job in hand is the stored one, or the stored one is already in a state of \<open>A\<close>.\<close>

definition tracks :: "job_state set \<Rightarrow> exec_job \<Rightarrow> world \<Rightarrow> bool" where
  "tracks A job s \<longleftrightarrow> (\<exists>j. get_job (ag_repo s) (job_id job) = Some j \<and> same_subject job j \<and>
     job_st j \<in> insert (job_st job) A)"

lemma tracks_same: "jobs_same s t \<Longrightarrow> tracks A job s \<Longrightarrow> tracks A job t"
  by (simp add: jobs_same_def tracks_def)

text \<open>A program that is run with a tracked job changes it legally.\<close>

definition safe :: "bool \<Rightarrow> job_state set \<Rightarrow> exec_job \<Rightarrow> 'b work \<Rightarrow> bool" where
  "safe abort A job m \<longleftrightarrow> (\<forall>s. tracks A job s \<longrightarrow> job_evolves abort (job_id job) s (snd (m s)))"

lemma safe_frame: "moves jobs_same m \<Longrightarrow> safe abort A job m"
  by (simp add: safe_def moves_def jobs_same_evolves)

lemma safe_bind:
  assumes "moves jobs_same m" and "\<And>x. safe abort A job (f x)"
  shows "safe abort A job (bind m f)"
  unfolding safe_def
proof (intro allI impI)
  fix s assume tr: "tracks A job s"
  obtain r t where m: "m s = (r, t)" by force
  with assms(1) have st: "jobs_same s t" by (auto simp: moves_def dest: spec [of _ s])
  then have "job_evolves abort (job_id job) s t" "tracks A job t"
    using tr by (auto intro: jobs_same_evolves tracks_same)
  moreover have "job_evolves abort (job_id job) t (snd (f x t))" for x
    using assms(2) \<open>tracks A job t\<close> by (simp add: safe_def)
  ultimately show "job_evolves abort (job_id job) s (snd (bind m f s))"
    by (cases r) (auto simp: bind_def m intro: evolves.trans)
qed

lemma safe_seq: "moves jobs_same m \<Longrightarrow> safe abort A job n \<Longrightarrow> safe abort A job (seqp m n)"
  unfolding seqp_def by (rule safe_bind)

text \<open>After the change the rest leaves the jobs alone.\<close>

lemma safe_last:
  assumes "safe abort A job m" and "\<And>x. moves jobs_same (f x)"
  shows "safe abort A job (bind m f)"
  unfolding safe_def
proof (intro allI impI)
  fix s assume tr: "tracks A job s"
  obtain r t where m: "m s = (r, t)" by force
  with assms(1) tr have st: "job_evolves abort (job_id job) s t" by (force simp: safe_def)
  moreover have "job_evolves abort (job_id job) t (snd (f x t))" for x
    using assms(2) by (simp add: moves_def jobs_same_evolves)
  ultimately show "job_evolves abort (job_id job) s (snd (bind m f s))"
    by (cases r) (auto simp: bind_def m intro: evolves.trans)
qed

lemma safe_last_seq: "safe abort A job m \<Longrightarrow> moves jobs_same n \<Longrightarrow> safe abort A job (seqp m n)"
  unfolding seqp_def by (rule safe_last)

lemma safe_save:
  assumes "\<And>r. job_id (f r) = job_id job"
    and "\<And>r j. same_subject job j \<Longrightarrow> job_st j \<in> insert (job_st job) A \<Longrightarrow>
      (legal_change abort)\<^sup>*\<^sup>* j (f r)"
  shows "safe abort A job (repo_do (\<lambda>r. save_job (f r) r))"
  unfolding safe_def
proof (intro allI impI)
  fix s assume "tracks A job s"
  then show "job_evolves abort (job_id job) s (snd (repo_do (\<lambda>r. save_job (f r) r) s))"
    using assms by (auto simp: tracks_def job_evolves_def repo_do_def modify_def dict_simps)
qed

lemma with_progress_fields [simp]:
  "job_id (with_progress r job) = job_id job" "job_st (with_progress r job) = job_st job"
  "job_mode (with_progress r job) = job_mode job"
  "job_target_namespace (with_progress r job) = job_target_namespace job"
  by (simp_all add: with_progress_def Let_def)

lemma safe_progress:
  assumes "same_subject job job'" and "job_st job' = job_st job"
  shows "safe abort {} job (save_progress job')"
  unfolding save_progress_def
  by (rule safe_save) (use assms in \<open>auto simp: same_subject_def legal_change_def\<close>)

lemma jobs_same_transition [step_intros]:
  "moves jobs_same (transition e DEFAULT_STATE_MACHINE jid a b act aid reason corr trace d)"
  unfolding transition_def run_guards_def DEFAULT_STATE_MACHINE_def Let_def
  by (intro step_intros)

lemma transition_refused:
  "b \<notin> set (allowed_targets a) \<Longrightarrow>
    transition e g jid a b act aid reason corr trace d s = (Inl (InvalidTransition a b), s)"
  by (simp add: transition_def bind_def lift_result_def assert_transition_allowed_def)

definition gated_change :: "exec_job \<Rightarrow> job_state \<Rightarrow> bool" where
  "gated_change job target \<longleftrightarrow> target \<notin> EXECUTION_STATES \<or> job_st job \<in> EXECUTION_STATES \<or>
     job_mode job = M_EXECUTE_AFTER_APPROVAL"

lemma safe_transition:
  assumes "same_subject job job'" and "job_st job' = job_st job" and "A \<subseteq> {target}"
    and "gated_change job target"
  shows "safe abort A job (worker_transition e w job' target reason d)"
proof (cases "target \<in> set (allowed_targets (job_st job))")
  case False
  with assms(2) show ?thesis
    by (simp add: safe_def worker_transition_def bind_def transition_refused evolves.refl)
next
  case True
  have save: "safe abort A job (save_progress (job'\<lparr>job_st := target, job_updated_at := now,
      job_decision_required := dr, job_blocked := bl, job_completed_at := c\<rparr>))" for now dr bl c
    unfolding save_progress_def
  proof (rule safe_save)
    fix r and j :: exec_job
    assume "same_subject job j" and "job_st j \<in> insert (job_st job) A"
    then have "legal_change abort j (with_progress r (job'\<lparr>job_st := target, job_updated_at := now,
        job_decision_required := dr, job_blocked := bl, job_completed_at := c\<rparr>))"
      using assms True unfolding legal_change_def same_subject_def gated_change_def by auto
    then show "(legal_change abort)\<^sup>*\<^sup>* j (with_progress r (job'\<lparr>job_st := target,
        job_updated_at := now, job_decision_required := dr, job_blocked := bl,
        job_completed_at := c\<rparr>))" by blast
  qed (use assms in \<open>simp add: same_subject_def\<close>)
  show ?thesis
    unfolding worker_transition_def Let_def
    by (intro safe_bind safe_last_seq save step_intros) simp_all
qed

lemma safe_decision:
  assumes "A \<subseteq> {J_DECISION_REQUIRED}"
  shows "safe abort A job (decision_required e w job code summary step)"
  unfolding decision_required_def
  by (intro safe_bind safe_seq safe_last safe_transition step_intros)
     (use assms in \<open>simp_all add: same_subject_def gated_change_def EXECUTION_STATES_def\<close>)

lemma safe_ret: "safe abort A job (ret x)"
  by (simp add: safe_def ret_def evolves.refl)

lemma safe_if: "(b \<Longrightarrow> safe abort A job m) \<Longrightarrow> (\<not> b \<Longrightarrow> safe abort A job n) \<Longrightarrow>
    safe abort A job (if b then m else n)"
  by simp

lemma safe_case_option:
  "(x = None \<Longrightarrow> safe abort A job m) \<Longrightarrow> (\<And>y. x = Some y \<Longrightarrow> safe abort A job (f y)) \<Longrightarrow>
    safe abort A job (case x of None \<Rightarrow> m | Some y \<Rightarrow> f y)"
  by (cases x) auto

lemma safe_case_prod:
  "(\<And>a b. x = (a, b) \<Longrightarrow> safe abort A job (f a b)) \<Longrightarrow> safe abort A job (case x of (a, b) \<Rightarrow> f a b)"
  by (cases x) auto

lemma safe_case_sum:
  "(\<And>a. x = Inl a \<Longrightarrow> safe abort A job (f a)) \<Longrightarrow> (\<And>b. x = Inr b \<Longrightarrow> safe abort A job (g b)) \<Longrightarrow>
    safe abort A job (case x of Inl a \<Rightarrow> f a | Inr b \<Rightarrow> g b)"
  by (cases x) auto

lemmas safe_intros = safe_case_sum safe_if safe_case_option safe_case_prod safe_ret

text \<open>Where the job is saved the rest must leave it alone.\<close>

lemma safe_progress_then:
  "same_subject job job' \<Longrightarrow> job_st job' = job_st job \<Longrightarrow> moves jobs_same n \<Longrightarrow>
    safe abort {} job (seqp (save_progress job') n)"
  by (intro safe_last_seq safe_progress)

lemma safe_transition_then:
  "same_subject job job' \<Longrightarrow> job_st job' = job_st job \<Longrightarrow> gated_change job target \<Longrightarrow>
    (\<And>x. moves jobs_same (f x)) \<Longrightarrow>
    safe abort {} job (bind (worker_transition e w job' target reason d) f)"
  by (intro safe_last safe_transition) simp_all

lemma safe_decision_then:
  "(\<And>x. moves jobs_same (f x)) \<Longrightarrow>
    safe abort {} job (bind (decision_required e w job code summary step) f)"
  by (intro safe_last safe_decision) simp_all

lemmas safe_rules = safe_intros safe_progress_then safe_transition_then safe_decision_then
  safe_decision safe_bind safe_seq

lemma subject_self [simp]: "same_subject job job"
  "same_subject job (job\<lparr>job_dry_run_satisfied := b\<rparr>)"
  by (simp_all add: same_subject_def)

lemma gated_targets [simp]:
  "target \<notin> EXECUTION_STATES \<Longrightarrow> gated_change job target"
  "job_st job \<in> EXECUTION_STATES \<Longrightarrow> gated_change job target"
  "job_mode job = M_EXECUTE_AFTER_APPROVAL \<Longrightarrow> gated_change job target"
  by (simp_all add: gated_change_def)

lemma safe_mechanical: "safe abort {} job (complete_mechanical_step e job p st dry)"
  unfolding complete_mechanical_step_def Let_def
  by (intro safe_rules step_intros) simp_all

lemma safe_dry_run_step: "safe abort {} job (execute_dry_run_step e w job p st)"
  unfolding execute_dry_run_step_def Let_def
  by (intro safe_rules step_intros) simp_all

text \<open>With the lock the job is as it was; without it a decision is required.\<close>

lemma safe_lock: "safe abort {} job (acquire_lock_or_decision e w job)"
  unfolding acquire_lock_or_decision_def
  by (intro safe_rules step_intros)

lemma lock_jobs_same:
  "acquire_lock_or_decision e w job s = (Inr (Some l), t) \<Longrightarrow> jobs_same s t"
proof -
  assume run: "acquire_lock_or_decision e w job s = (Inr (Some l), t)"
  show ?thesis
  proof (cases "dict_get (w_active_locks s) (job_id job)")
    case (Some held)
    with run show ?thesis
      by (simp add: acquire_lock_or_decision_def bind_def gets_def ret_def jobs_same.refl)
  next
    case None
    obtain r u where take: "take_lock e w job s = (r, u)" by force
    from run None take obtain l' where r: "r = Inr (Inr l')"
      by (auto simp: acquire_lock_or_decision_def gets_def bind_def ret_def
          split: sum.splits prod.splits)
    let ?v = "u\<lparr>w_active_locks := dict_set (job_id job) l' (w_active_locks u)\<rparr>"
    let ?args = "(observation_args (job_id job) Obs_POLICY_CHECK ''Target namespace lock acquired.'')
        \<lparr>obs_result := JObj [(''target_namespace'', JStr (job_target_namespace job)),
           (''lease_seconds'', JInt (nl_lease_seconds l'))]\<rparr>"
    have "observe e ?args ?v = (Inr (), t)"
      using run None take r
      by (auto simp: acquire_lock_or_decision_def gets_def bind_def seqp_def modify_def ret_def
          split: sum.splits prod.splits)
    with movesD [OF jobs_same_take, of s e w job] movesD [OF jobs_same_observe, of ?v e ?args] take
    show ?thesis by (simp add: jobs_same_def)
  qed
qed

text \<open>After a program that may change the job, the rest leaves the jobs alone or it did not.\<close>

lemma safe_either:
  assumes "safe abort {} job m"
    and "\<And>s x t. m s = (Inr x, t) \<Longrightarrow> jobs_same s t \<and> safe abort {} job (f x) \<or> moves jobs_same (f x)"
  shows "safe abort {} job (bind m f)"
  unfolding safe_def
proof (intro allI impI)
  fix s assume tr: "tracks {} job s"
  obtain r t where m: "m s = (r, t)" by force
  with assms(1) tr have st: "job_evolves abort (job_id job) s t"
    unfolding safe_def by (metis snd_conv)
  show "job_evolves abort (job_id job) s (snd (bind m f s))"
  proof (cases r)
    case (Inl err)
    with m st show ?thesis by (simp add: bind_def)
  next
    case (Inr x)
    have "job_evolves abort (job_id job) t (snd (f x t))"
      using assms(2) [OF m [unfolded Inr]] tr tracks_same
      by (auto simp: safe_def moves_def jobs_same_evolves)
    with m Inr st show ?thesis by (auto simp: bind_def intro: evolves.trans)
  qed
qed

lemma safe_lock_then:
  assumes "moves jobs_same (f None)" and "\<And>l. safe abort {} job (f (Some l))"
  shows "safe abort {} job (bind (acquire_lock_or_decision e w job) f)"
proof (rule safe_either [OF safe_lock])
  fix s x t assume "acquire_lock_or_decision e w job s = (Inr x, t)"
  with assms lock_jobs_same
  show "jobs_same s t \<and> safe abort {} job (f x) \<or> moves jobs_same (f x)" by (cases x) auto
qed

lemma safe_mutation_step: "safe abort {} job (execute_mutation_step e w job p st)"
  unfolding execute_mutation_step_def execute_locked_mutation_def settle_mutation_def Let_def
  by (intro safe_lock_then safe_rules step_intros) simp_all

section \<open>A tick\<close>

lemma EXECUTION_STATES_iff [simp]:
  "st \<in> EXECUTION_STATES \<longleftrightarrow> st = J_AWAITING_HUMAN_APPROVAL \<or> st = J_EXECUTING"
  by (auto simp: EXECUTION_STATES_def)

lemma safe_waits:
  "safe abort {} job (schedule_wait e w job p st)" "safe abort {} job (poll_wait e w job)"
  unfolding schedule_wait_def poll_wait_def wait_due_at_def wait_evaluate_def Let_def
  by ((intro safe_rules step_intros; simp))+

lemma safe_requests:
  "safe abort {} job (pause_job e w job)" "safe abort {} job (cancel_job e w job)"
  unfolding pause_job_def cancel_job_def cancel_step_def
  by ((intro safe_rules step_intros; simp))+

lemma safe_starts:
  "safe abort {} job (validate_runtime_plan e w job)" "safe abort {} job (start_dry_run e w job)"
  "safe abort {} job (complete_job e w job reason)"
  unfolding validate_runtime_plan_def start_dry_run_def complete_job_def
  by ((intro safe_lock_then safe_rules step_intros; simp))+

lemma safe_await:
  "job_st job = J_AWAITING_HUMAN_APPROVAL \<Longrightarrow> safe abort {} job (await_human_approval e w job)"
  unfolding await_human_approval_def
  by (intro safe_rules step_intros) simp_all

lemma safe_next:
  "safe abort {} job (run_next_mutation e w job phases steps)"
  "safe abort {} job (finish_dry_run e w job phases steps dry)"
  "safe abort {} job (perform_step e w job p st dry)"
  unfolding run_next_mutation_def finish_dry_run_def perform_step_def
  by (intro safe_starts safe_mutation_step safe_dry_run_step safe_mechanical safe_waits safe_rules
      step_intros; simp)+

lemma safe_empty_phase:
  "safe abort {} job (complete_next_empty_ready_phase e job phases steps)"
  unfolding complete_next_empty_ready_phase_def
  by (intro safe_rules step_intros) simp_all

lemma empty_phase_None:
  "complete_next_empty_ready_phase e job phases steps s = (Inr None, t) \<Longrightarrow> t = s"
  by (cases "empty_ready_phase phases steps")
     (auto simp: complete_next_empty_ready_phase_def ret_def bind_Inr seqp_Inr split: option.splits)

lemma safe_empty_phase_then:
  assumes "\<And>d. moves jobs_same (f (Some d))" and "safe abort {} job (f None)"
  shows "safe abort {} job (bind (complete_next_empty_ready_phase e job phases steps) f)"
proof (rule safe_either [OF safe_empty_phase])
  fix s x t assume run: "complete_next_empty_ready_phase e job phases steps s = (Inr x, t)"
  show "jobs_same s t \<and> safe abort {} job (f x) \<or> moves jobs_same (f x)"
  proof (cases x)
    case None
    with run empty_phase_None assms(2) show ?thesis by (metis jobs_same.refl)
  qed (simp add: assms(1))
qed

lemma safe_run_next_step: "safe abort {} job (run_next_step e w job dry)"
  unfolding run_next_step_def
  by (intro safe_empty_phase_then safe_next safe_rules step_intros; simp;
      intro safe_next safe_rules step_intros)

lemma safe_process_state: "safe abort {} job (process_state e w jid job)"
  unfolding process_state_def
  by (cases "job_st job")
     (simp_all add: safe_starts safe_run_next_step safe_await safe_waits safe_decision safe_ret
        safe_transition_then jobs_same_requeue jobs_same.moves_seq jobs_same.moves_ret)

lemma process_job_evolves:
  assumes "repo_inv (ag_repo s)"
  shows "job_evolves abort jid s (snd (process_job e w jid s))"
proof (cases "get_job (ag_repo s) jid")
  case None
  then show ?thesis
    by (simp add: process_job_def require_job_def bind_def repo_get_def gets_def raise_err_def
        evolves.refl)
next
  case (Some job)
  have id: "job_id job = jid" using stored_job_id [OF assms Some] .
  have "safe abort {} job (seqp (beat e w jid)
     (bind (gets (\<lambda>s. (jid \<in> w_cancel_requested s, jid \<in> w_pause_requested s))) (\<lambda>(cancel, pause).
     if cancel
     then seqp (modify (\<lambda>s. s\<lparr>w_cancel_requested := w_cancel_requested s - {jid}\<rparr>))
       (cancel_job e w job)
     else if pause
     then seqp (modify (\<lambda>s. s\<lparr>w_pause_requested := w_pause_requested s - {jid}\<rparr>))
       (pause_job e w job)
     else process_state e w jid job)))" (is "safe abort {} job ?rest")
    by (intro safe_rules safe_requests safe_process_state step_intros jobs_same.moves_gets)
  moreover have "tracks {} job s" using Some id by (simp add: tracks_def)
  moreover have "snd (process_job e w jid s) = snd (?rest s)"
    using Some by (simp add: process_job_def require_job_def bind_def repo_get_def gets_def ret_def)
  ultimately show ?thesis using id by (simp add: safe_def)
qed

section \<open>Instructions\<close>

lemma safe_repo_save:
  assumes "legal_change abort job job'"
  shows "safe abort {} job (repo_do (save_job job'))"
proof -
  have "safe abort {} job (repo_do (\<lambda>r. save_job ((\<lambda>_. job') r) r))"
  proof (rule safe_save)
    fix r :: repository and j
    assume "same_subject job j" "job_st j \<in> insert (job_st job) {}"
    with assms have "legal_change abort j job'" by (auto simp: legal_change_def same_subject_def)
    then show "(legal_change abort)\<^sup>*\<^sup>* j job'" by blast
  qed (use assms in \<open>simp add: legal_change_def same_subject_def\<close>)
  then show ?thesis by simp
qed

lemma safe_apply_instruction:
  assumes free: "instruction_policy_blocks job i = []" and "ins_type i \<in> SAFE_RESUME_INSTRUCTIONS"
  shows "safe (ins_type i = I_ABORT) {} job (apply_safe_instruction job i)"
proof -
  have waiting: "job_st job = J_DECISION_REQUIRED"
    if "ins_type i \<in> {I_CONTINUE, I_RETRY, I_SKIP}"
      "ins_type i = I_SKIP \<or> job_st job \<notin> {J_AWAITING_HUMAN_APPROVAL, J_EXECUTING}"
    using policy_free [OF free] that by auto
  have table: "J_EXECUTING \<in> set (allowed_targets J_DECISION_REQUIRED)"
    "J_DRY_RUN_READY \<in> set (allowed_targets J_DECISION_REQUIRED)"
    by (simp_all add: allowed_targets_def)
  show ?thesis
    unfolding apply_safe_instruction_def Let_def
    using assms(2) waiting table
    by (intro safe_rules safe_repo_save step_intros)
       (auto simp: legal_change_def same_subject_def SAFE_RESUME_INSTRUCTIONS_def)
qed

lemma jobs_same_instruction_audit [step_intros]: "moves jobs_same (instruction_audit e i action d)"
  unfolding instruction_audit_def by (intro step_intros)

lemma receive_evolves:
  assumes "repo_inv (ag_repo s)"
  shows "job_evolves (ins_type i = I_ABORT) (ins_job_id i) s (snd (receive e i s))"
proof (cases "get_job (ag_repo s) (ins_job_id i)")
  case None
  have "moves jobs_same (seqp (instruction_audit e i ''instruction_received'' [])
     (seqp (instruction_audit e i ''instruction_rejected''
                  [(''reason_code'', JStr ''JOB_NOT_FOUND'')])
            (ret \<lparr>id_accepted = False, id_status = ''rejected'',
               id_reason_code = Some ''JOB_NOT_FOUND'', id_policy_blocks = []\<rparr>)))"
    by (intro step_intros)
  from movesD [OF this, of s] None show ?thesis
    by (simp add: receive_def bind_def repo_get_def gets_def jobs_same_evolves)
next
  case (Some job)
  have id: "job_id job = ins_job_id i" using stored_job_id [OF assms Some] .
  have rest: "safe (ins_type i = I_ABORT) {} job (seqp (instruction_audit e i ''instruction_received'' [])
     (let blocked = instruction_policy_blocks job i in
          if blocked \<noteq> [] then
            seqp (instruction_audit e i ''instruction_policy_blocked''
                    [(''reason_code'', JStr (pb_code (hd blocked)))])
              (ret \<lparr>id_accepted = False, id_status = ''policy_blocked'',
                 id_reason_code = Some (pb_code (hd blocked)), id_policy_blocks = blocked\<rparr>)
          else if ins_type i \<notin> SAFE_RESUME_INSTRUCTIONS then
            seqp (instruction_audit e i ''instruction_rejected''
                    [(''reason_code'', JStr ''UNSUPPORTED_INSTRUCTION_TYPE'')])
              (ret \<lparr>id_accepted = False, id_status = ''rejected'',
                 id_reason_code = Some ''UNSUPPORTED_INSTRUCTION_TYPE'', id_policy_blocks = []\<rparr>)
          else
            seqp (repo_do (save_instruction i))
            (seqp (apply_safe_instruction job i)
            (seqp (instruction_audit e i ''instruction_accepted'' [])
            (ret \<lparr>id_accepted = True, id_status = ''accepted'', id_reason_code = None,
               id_policy_blocks = []\<rparr>)))))" (is "safe _ _ _ ?rest")
    unfolding Let_def
    by (intro safe_if safe_seq [of "instruction_audit _ _ _ _"] safe_seq [of "repo_do _"]
        safe_last_seq [OF safe_apply_instruction] safe_ret step_intros) simp_all
  have "snd (receive e i s) = snd (?rest s)"
    using Some by (simp add: receive_def bind_def repo_get_def gets_def)
  moreover have "tracks {} job s" using Some id by (simp add: tracks_def)
  ultimately show ?thesis using rest id by (simp add: safe_def)
qed

lemma submit_evolves:
  assumes "repo_inv (ag_repo s)"
  shows "job_evolves (ins_type i = I_ABORT) (ins_job_id i) s (snd (submit_instruction e i s))"
  unfolding submit_instruction_def
proof (rule evolves.at_bind)
  show "job_evolves (ins_type i = I_ABORT) (ins_job_id i) s (snd (receive e i s))"
    by (rule receive_evolves [OF assms])
  fix d t
  have "moves jobs_same (seqp (if id_accepted d then requeue (ins_job_id i) else ret ()) (ret d))"
    by (intro step_intros)
  from movesD [OF this]
  show "job_evolves (ins_type i = I_ABORT) (ins_job_id i) t
      (snd (seqp (if id_accepted d then requeue (ins_job_id i) else ret ()) (ret d) t))"
    by (rule jobs_same_evolves)
qed

section \<open>Restart\<close>

lemma keeps_tracks: "moves jobs_same m \<Longrightarrow> moves (keeps (tracks A job)) m"
  unfolding moves_def keeps_def using tracks_same by blast

lemma keeps_tracks_save:
  assumes "same_subject job job'" and "job_st job' \<in> A"
  shows "moves (keeps (tracks A job)) (save_progress job')"
  using assms
  by (auto simp: moves_def keeps_def save_progress_def repo_do_def modify_def tracks_def dict_simps
      same_subject_def)

lemma decision_keeps_tracks:
  "moves (keeps (tracks {J_DECISION_REQUIRED} job)) (decision_required e w job code summary step)"
  unfolding decision_required_def worker_transition_def Let_def
  by (intro keeps.moves_bind keeps.moves_seq keeps_tracks_save moves_if keeps_tracks step_intros)
     (simp_all add: same_subject_def)

text \<open>Several steps of one job may still be marked running: each asks for the same decision.\<close>

lemma restart_decisions_evolve:
  "tracks {J_DECISION_REQUIRED} job s \<Longrightarrow>
    job_evolves abort (job_id job) s (snd (for_each (restart_decision e w job) steps s))"
proof (induction steps arbitrary: s)
  case (Cons st steps)
  let ?m = "restart_decision e w job st"
  obtain r t where m: "?m s = (r, t)" by force
  have "moves (keeps (tracks {J_DECISION_REQUIRED} job)) ?m"
    unfolding restart_decision_def
    by (intro keeps.moves_bind decision_keeps_tracks keeps.moves_ret)
  from movesD [OF this, of s] m Cons.prems have t: "tracks {J_DECISION_REQUIRED} job t"
    by (simp add: keeps_def)
  have "safe abort {J_DECISION_REQUIRED} job ?m"
    unfolding restart_decision_def
    by (intro safe_last safe_decision step_intros) simp
  with Cons.prems m have "job_evolves abort (job_id job) s t"
    unfolding safe_def by (metis snd_conv)
  with Cons.IH [OF t] m show ?case
    by (cases r) (auto simp: seqp_def bind_def intro: evolves.trans)
qed (simp add: ret_def evolves.refl)

lemma safe_restart_decisions: "safe abort {} job (for_each (restart_decision e w job) steps)"
  using restart_decisions_evolve unfolding safe_def tracks_def by blast

lemma jobs_same_reset [step_intros]: "moves jobs_same (reset_retryable_running_steps e job steps)"
  unfolding reset_retryable_running_steps_def reset_step_def Let_def
  by (intro step_intros) simp_all

lemma reconcile_complete_evolves:
  assumes "tracks {} job s"
  shows "job_evolves abort (job_id job) s (snd (reconcile_complete e w job s))"
proof -
  from assms obtain j where j: "get_job (ag_repo s) (job_id job) = Some j" "same_subject job j"
    by (auto simp: tracks_def)
  let ?rest = "bind (repo_get (\<lambda>r. job_work_is_complete r j)) (\<lambda>complete.
     if complete \<and> J_COMPLETED \<in> set (allowed_targets (job_st j))
     then
       bind (worker_transition e w j J_COMPLETED
         ''Restart reconciliation found all persisted work complete.''
         [(''reconciled_after_restart'', JBool True)]) (\<lambda>_.
       seqp (release_lock e (job_id j)) (ret (1 :: nat)))
     else ret 0)"
  have "safe abort {} j ?rest" by (intro safe_rules step_intros) simp_all
  moreover have "tracks {} j s" using j by (simp add: tracks_def same_subject_def)
  moreover have "snd (reconcile_complete e w job s) = snd (?rest s)"
    using j by (simp add: reconcile_complete_def bind_def repo_get_def gets_def)
  ultimately show ?thesis using j by (simp add: safe_def same_subject_def)
qed

lemma safe_reconcile_job: "safe abort {} job (reconcile_job e w job)"
proof -
  have "safe abort {} job (reconcile_complete e w job)"
    using reconcile_complete_evolves by (simp add: safe_def)
  then show ?thesis
    unfolding reconcile_job_def Let_def
    by (intro safe_rules safe_last_seq [OF safe_restart_decisions] step_intros)
qed

lemma evolves_other: "job_evolves abort jid s t \<Longrightarrow> k \<noteq> jid \<Longrightarrow> get_job (ag_repo t) k = get_job (ag_repo s) k"
  by (simp add: job_evolves_def)

section \<open>All jobs\<close>

definition jobs_evolve :: "bool \<Rightarrow> world \<Rightarrow> world \<Rightarrow> bool" where
  "jobs_evolve abort s t \<longleftrightarrow> (\<forall>jid. case get_job (ag_repo s) jid of
       None \<Rightarrow> get_job (ag_repo t) jid = None
     | Some j \<Rightarrow> (\<exists>j'. get_job (ag_repo t) jid = Some j' \<and> (legal_change abort)\<^sup>*\<^sup>* j j'))"

lemma evolve_all: "job_evolves abort jid s t \<Longrightarrow> jobs_evolve abort s t"
  unfolding jobs_evolve_def
proof
  fix k assume "job_evolves abort jid s t"
  then show "case get_job (ag_repo s) k of
       None \<Rightarrow> get_job (ag_repo t) k = None
     | Some j \<Rightarrow> (\<exists>j'. get_job (ag_repo t) k = Some j' \<and> (legal_change abort)\<^sup>*\<^sup>* j j')"
    by (cases "k = jid") (auto simp: job_evolves_def split: option.splits)
qed

lemma jobs_evolve_at:
  "jobs_evolve abort s t \<Longrightarrow> get_job (ag_repo s) jid = Some j \<Longrightarrow>
    \<exists>j'. get_job (ag_repo t) jid = Some j' \<and> (legal_change abort)\<^sup>*\<^sup>* j j'"
  unfolding jobs_evolve_def by (drule spec [of _ jid]) simp

lemma jobs_evolve_none:
  "jobs_evolve abort s t \<Longrightarrow> get_job (ag_repo s) jid = None \<Longrightarrow> get_job (ag_repo t) jid = None"
  unfolding jobs_evolve_def by (drule spec [of _ jid]) simp

interpretation jobs: step_relation "jobs_evolve abort" for abort
proof
  fix s t u :: world
  show "jobs_evolve abort s s" by (auto simp: jobs_evolve_def split: option.splits)
  assume st: "jobs_evolve abort s t" and tu: "jobs_evolve abort t u"
  show "jobs_evolve abort s u"
    unfolding jobs_evolve_def
  proof
    fix jid
    show "case get_job (ag_repo s) jid of
       None \<Rightarrow> get_job (ag_repo u) jid = None
     | Some j \<Rightarrow> (\<exists>j'. get_job (ag_repo u) jid = Some j' \<and> (legal_change abort)\<^sup>*\<^sup>* j j')"
    proof (cases "get_job (ag_repo s) jid")
      case None
      with st tu show ?thesis by (simp add: jobs_evolve_none)
    next
      case (Some j)
      with jobs_evolve_at [OF st] jobs_evolve_at [OF tu] rtranclp_trans show ?thesis
        by (fastforce intro: rtranclp_trans)
    qed
  qed
qed

lemma jobs_same_evolve: "jobs_same s t \<Longrightarrow> jobs_evolve abort s t"
  by (auto simp: jobs_same_def jobs_evolve_def split: option.splits)

lemma reconcile_jobs_evolve:
  assumes "distinct (map job_id jobs)" and "\<forall>job \<in> set jobs. tracks {} job s"
  shows "jobs_evolve abort s (snd (reconcile_jobs e w jobs s))"
  using assms
proof (induction jobs arbitrary: s)
  case (Cons job jobs)
  have first: "job_evolves abort (job_id job) s (snd (reconcile_job e w job s))"
    using safe_reconcile_job [of abort job e w] Cons.prems(2) by (simp add: safe_def)
  show ?case
    unfolding reconcile_jobs.simps
  proof (rule jobs.at_bind)
    show "jobs_evolve abort s (snd (reconcile_job e w job s))" by (rule evolve_all [OF first])
    fix n t assume "reconcile_job e w job s = (Inr n, t)"
    with first have st: "job_evolves abort (job_id job) s t" by simp
    have "tracks {} j t" if j: "j \<in> set jobs" for j
    proof -
      have "job_id j \<noteq> job_id job" using Cons.prems(1) j by simp (metis imageI)
      with evolves_other [OF st] have "get_job (ag_repo t) (job_id j) = get_job (ag_repo s) (job_id j)"
        by blast
      with Cons.prems(2) j show ?thesis by (auto simp: tracks_def)
    qed
    with Cons have "jobs_evolve abort t (snd (reconcile_jobs e w jobs t))" by simp
    then show "jobs_evolve abort t (snd (bind (reconcile_jobs e w jobs) (\<lambda>m. ret (n + m)) t))"
      by (rule jobs.at_bind) (simp add: ret_def jobs.refl)
  qed
qed (simp add: ret_def jobs.refl)

lemma reconcile_evolves:
  assumes "repo_inv (ag_repo s)"
  shows "jobs_evolve abort s (snd (reconcile_after_restart e w s))"
proof -
  let ?jobs = "sort_key job_created_at (list_jobs (ag_repo s))"
  have keyed: "keyed job_id (sn_jobs (rp_snap (ag_repo s)))"
    using assms by (simp add: repo_inv_def snapshot_ok_def)
  then have "map job_id (list_jobs (ag_repo s)) = dict_keys (sn_jobs (rp_snap (ag_repo s)))"
    by (auto simp: list_jobs_def keyed_def)
  then have "distinct (map job_id (list_jobs (ag_repo s)))" using keyed by (simp add: keyed_def)
  then have "distinct (map job_id ?jobs)" by (simp add: distinct_map)
  moreover have "tracks {} job s" if "job \<in> set ?jobs" for job
    using that keyed by (force simp: list_jobs_def tracks_def same_subject_def get_job_def keyed_def)
  ultimately have "jobs_evolve abort s (snd (reconcile_jobs e w ?jobs s))"
    by (intro reconcile_jobs_evolve) auto
  then show ?thesis
    by (simp add: reconcile_after_restart_def bind_def repo_get_def gets_def)
qed

section \<open>Every sequence of operations\<close>

definition is_abort :: "worker_op \<Rightarrow> bool" where
  "is_abort op = (case op of W_instruction i \<Rightarrow> ins_type i = I_ABORT | _ \<Rightarrow> False)"

lemma legal_change_mono: "legal_change abort j j' \<Longrightarrow> (abort \<Longrightarrow> b) \<Longrightarrow> legal_change b j j'"
  by (auto simp: legal_change_def)

lemma jobs_evolve_mono:
  assumes "jobs_evolve abort s t" and "abort \<Longrightarrow> b"
  shows "jobs_evolve b s t"
proof -
  have "(legal_change abort)\<^sup>*\<^sup>* j j' \<Longrightarrow> (legal_change b)\<^sup>*\<^sup>* j j'" for j j'
    by (rule rtranclp_mono [THEN predicate2D]) (auto intro: legal_change_mono assms(2))
  with assms(1) show ?thesis
    unfolding jobs_evolve_def by (fastforce split: option.splits)
qed

lemma run_once_evolves:
  assumes "repo_inv (ag_repo s)"
  shows "jobs_evolve abort s (snd (run_once e w s))"
proof -
  obtain item q where q: "dequeue (w_queue s) = (item, q)" by force
  let ?t = "s\<lparr>w_queue := q\<rparr>"
  have "jobs_same s ?t" by (simp add: jobs_same_def)
  moreover have "jobs_evolve abort ?t (snd (process_job e w jid ?t))" for jid
    by (rule evolve_all, rule process_job_evolves) (simp add: assms)
  ultimately show ?thesis
    by (cases item)
       (auto simp: run_once_def bind_def q ret_def intro: jobs_same_evolve jobs.trans)
qed

lemma seed_evolves:
  assumes "repo_inv (ag_repo s)"
  shows "jobs_evolve abort s (snd (seed_plan jid plan s))"
  unfolding seed_plan_def
proof (rule jobs.at_seq)
  let ?phases = "for_each (seed_phase jid) (enumerate 0 (mp_phases plan))"
  have "moves jobs_same ?phases" unfolding seed_phase_def by (intro step_intros) simp_all
  then show "jobs_evolve abort s (snd (?phases s))" by (simp add: jobs_same_evolve movesD)
  have "moves inv_kept ?phases" unfolding seed_phase_def by (intro step_intros saved_inv)
  from movesD [OF this, of s] have inv: "repo_inv (ag_repo (snd (?phases s)))"
    using assms by (simp add: inv_kept_def keeps_def)
  fix t assume "?phases s = (Inr (), t)"
  with inv have t: "repo_inv (ag_repo t)" by simp
  show "jobs_evolve abort t (snd (bind (require_job jid) (\<lambda>job. save_progress job) t))"
  proof (cases "get_job (ag_repo t) jid")
    case None
    then show ?thesis
      by (simp add: require_job_def bind_def repo_get_def gets_def raise_err_def jobs.refl)
  next
    case (Some job)
    have id: "job_id job = jid" by (rule stored_job_id [OF t Some])
    have "tracks {} job t" using Some id by (simp add: tracks_def)
    moreover have "safe abort {} job (save_progress job)" by (rule safe_progress) simp_all
    ultimately have "job_evolves abort jid t (snd (save_progress job t))"
      using id by (simp add: safe_def)
    with Some evolve_all show ?thesis
      by (simp add: require_job_def bind_def repo_get_def gets_def ret_def)
  qed
qed

lemma step_evolves:
  assumes "repo_inv (ag_repo s)"
  shows "jobs_evolve (is_abort op) s (worker_step e w op s)"
proof (cases op)
  case (W_instruction i)
  then show ?thesis using evolve_all [OF submit_evolves [OF assms]] by (simp add: is_abort_def)
next
  case (W_approval a)
  then show ?thesis by (simp add: jobs_same_evolve jobs_same_def)
next
  case W_run
  then show ?thesis by (simp add: run_once_evolves assms)
next
  case W_reconcile
  then show ?thesis by (simp add: reconcile_evolves assms)
next
  case W_recover
  have "jobs_evolve (is_abort op) s (snd (recover_restartable_jobs e w s))"
    unfolding recover_restartable_jobs_def
  proof (rule jobs.at_bind)
    show "jobs_evolve (is_abort op) s (snd (reconcile_after_restart e w s))"
      by (rule reconcile_evolves [OF assms])
  qed (simp add: jobs_same_evolve jobs_same_def split: prod.splits)
  with W_recover show ?thesis by simp
next
  case (W_seed jid plan)
  with seed_evolves [OF assms] show ?thesis by simp
next
  case (W_enqueue jid)
  have "moves jobs_same (requeue jid)" by (intro step_intros)
  with W_enqueue show ?thesis by (simp add: jobs_same_evolve movesD)
next
  case (W_pause jid)
  have "moves jobs_same (request_pause jid)" unfolding request_pause_def by (intro step_intros)
  with W_pause show ?thesis by (simp add: jobs_same_evolve movesD)
next
  case (W_cancel jid)
  have "moves jobs_same (request_cancel jid)" unfolding request_cancel_def by (intro step_intros)
  with W_cancel show ?thesis by (simp add: jobs_same_evolve movesD)
qed

lemma run_evolves:
  assumes "repo_inv (ag_repo s)"
  shows "jobs_evolve (list_ex is_abort ops) s (worker_run e w ops s)"
  using assms
proof (induction ops arbitrary: s)
  case (Cons op ops)
  let ?t = "worker_step e w op s"
  have "repo_inv (ag_repo ?t)"
    using inv_kept.step_R [of s e w op] Cons.prems by (simp add: inv_kept_def keeps_def)
  then have "jobs_evolve (list_ex is_abort ops) ?t (worker_run e w ops ?t)" by (rule Cons.IH)
  then have "jobs_evolve (list_ex is_abort (op # ops)) ?t (worker_run e w ops ?t)"
    by (rule jobs_evolve_mono) simp
  moreover have "jobs_evolve (list_ex is_abort (op # ops)) s ?t"
    by (rule jobs_evolve_mono [OF step_evolves [OF Cons.prems]]) simp
  ultimately have "jobs_evolve (list_ex is_abort (op # ops)) s (worker_run e w ops ?t)"
    using jobs.trans by blast
  then show ?case by (simp add: worker_run_def)
qed (simp add: worker_run_def jobs.refl)

lemma legal_path:
  "(legal_change abort)\<^sup>*\<^sup>* j j' \<Longrightarrow> same_subject j j' \<and>
    (\<lambda>a b. job_step a b \<or> abort \<and> b = J_CANCELLED)\<^sup>*\<^sup>* (job_st j) (job_st j')"
proof (induction rule: rtranclp_induct)
  case (step k l)
  then have "same_subject j l" by (simp add: legal_change_def same_subject_def)
  moreover have "job_st l = job_st k \<or> job_step (job_st k) (job_st l) \<or> abort \<and> job_st l = J_CANCELLED"
    using step(2) by (auto simp: legal_change_def intro: allowed)
  ultimately show ?case using step(3) by (auto intro: rtranclp.rtrancl_into_rtrancl)
qed simp



lemma gated_path:
  "(legal_change abort)\<^sup>*\<^sup>* j j' \<Longrightarrow> job_mode j \<noteq> M_EXECUTE_AFTER_APPROVAL \<Longrightarrow>
    job_st j \<notin> EXECUTION_STATES \<Longrightarrow> job_mode j' = job_mode j \<and> job_st j' \<notin> EXECUTION_STATES"
  by (induction rule: rtranclp_induct)
     (auto simp: legal_change_def same_subject_def)

end
