(* ===== verification/WorkerAuthority.thy ===== *)
theory WorkerAuthority
  imports WorkerSafety
begin

text \<open>
  When the worker changes the cluster: only while it executes a job, with the namespace lock
  in its hands, for a step whose dry run has succeeded, under an approval and a continue
  instruction that are stored for this job.
\<close>

section \<open>The lock\<close>

lemma take_lock_frame:
  "take_lock e w job s = (r, u) \<Longrightarrow>
    ag_repo u = ag_repo s \<and> rt_calls u = rt_calls s \<and> w_active_locks u = w_active_locks s"
  by (auto simp: take_lock_def bind_def new_id_def utc_now_def split: prod.splits)

lemma observe_frame:
  "observe e args s = (r, u) \<Longrightarrow> \<exists>ob. r = Inr () \<and> ag_repo u = add_observation ob (ag_repo s) \<and>
    rt_calls u = rt_calls s \<and> w_active_locks u = w_active_locks s"
  by (auto simp: observe_def build_observation_def bind_def new_id_def utc_now_def ret_def
      repo_do_def modify_def)

lemma lock_held:
  assumes "acquire_lock_or_decision e w job s = (Inr (Some l), t)"
  shows "rt_calls t = rt_calls s \<and> get_approvals (ag_repo t) = get_approvals (ag_repo s) \<and>
    get_instructions (ag_repo t) = get_instructions (ag_repo s) \<and>
    dict_get (w_active_locks t) (job_id job) = Some l \<and>
    (dict_get (w_active_locks s) (job_id job) = Some l \<or> fst (take_lock e w job s) = Inr (Inr l))"
proof (cases "dict_get (w_active_locks s) (job_id job)")
  case (Some held)
  with assms show ?thesis
    by (simp add: acquire_lock_or_decision_def bind_def gets_def ret_def)
next
  case None
  obtain r u where take: "take_lock e w job s = (r, u)" by force
  from assms None take obtain l' where r: "r = Inr (Inr l')"
    by (auto simp: acquire_lock_or_decision_def gets_def bind_def ret_def
        split: sum.splits prod.splits)
  let ?v = "u\<lparr>w_active_locks := dict_set (job_id job) l' (w_active_locks u)\<rparr>"
  obtain args where "observe e args ?v = (Inr (), t)" and l: "l' = l"
    using assms None take r
    by (auto simp: acquire_lock_or_decision_def gets_def bind_def seqp_def modify_def ret_def
        split: sum.splits prod.splits)
  from observe_frame [OF this(1)] take_lock_frame [OF take] take r l show ?thesis
    by (auto simp: fun_eq_iff get_approvals_def get_instructions_def add_observation_def dict_simps)
qed

section \<open>A mutation step\<close>

text \<open>What the authority for a mutation of a step consists of, in the state before it.\<close>

definition step_authorised ::
    "env \<Rightarrow> worker \<Rightarrow> world \<Rightarrow> exec_job \<Rightarrow> exec_step \<Rightarrow> bool" where
  "step_authorised e w s job st \<longleftrightarrow>
     stp_dry_run_status st = Some S_DRY_RUN_SUCCEEDED \<and>
     (\<exists>i. i \<in> set (get_instructions (ag_repo s) (job_id job)) \<and> continue_for st i) \<and>
     (\<exists>a k. a \<in> set (get_approvals (ag_repo s) (job_id job)) \<and> apr_scope a \<in> set MUTATION_SCOPES \<and>
        \<not> expired a (env_clock e k)) \<and>
     (\<exists>l. dict_get (w_active_locks s) (job_id job) = Some l \<or> fst (take_lock e w job s) = Inr (Inr l))"

definition step_call :: "worker \<Rightarrow> exec_job \<Rightarrow> exec_step \<Rightarrow> ext_call \<Rightarrow> bool" where
  "step_call w job st c \<longleftrightarrow>
     (\<exists>x. mutation_executor_for w job = Some x \<and> permitted_call job (step_manifests x st) c)"

lemma mutation_execute_calls:
  assumes "\<And>i a k c. i \<in> set is \<Longrightarrow> continue_for st i \<Longrightarrow>
      stp_dry_run_status st = Some S_DRY_RUN_SUCCEEDED \<Longrightarrow> a \<in> set approvals \<Longrightarrow>
      apr_scope a \<in> set MUTATION_SCOPES \<Longrightarrow> \<not> expired a (env_clock e k) \<Longrightarrow>
      permitted_call job (step_manifests x st) c \<Longrightarrow> allowed c"
  shows "mutating_only allowed s (snd (mutation_execute e cl x job st approvals is s))"
proof (cases "rt_calls (snd (mutation_execute e cl x job st approvals is s)) = rt_calls s")
  case True
  then show ?thesis by (rule mutating_only_same)
next
  case False
  obtain res t where run: "mutation_execute e cl x job st approvals is s = (res, t)" by force
  with False have "rt_calls t \<noteq> rt_calls s" by simp
  from mutation_trace [OF run this] obtain i u outs
    where i: "matching_continue_instruction e st is = Some i"
    and auth: "authorised e x job st approvals i" and u: "rt_calls u = rt_calls s"
    and exec: "stp_type st = T_K8S_APPLY \<and>
        execute_k8s_apply cl x job (step_manifests x st) outs u = (res, t) \<or>
      stp_type st \<in> {T_HELM_INSTALL, T_HELM_UPGRADE} \<and> execute_helm cl x job st u = (res, t)"
    by metis
  from execute_calls_permitted [OF exec] u obtain new
    where new: "rt_calls t = rt_calls s @ new"
      "list_all (permitted_call job (step_manifests x st)) new" by auto
  have "allowed c" if "permitted_call job (step_manifests x st) c" for c
    using authorised_facts [OF auth] matching_instruction_in [OF i] assms that by blast
  with new show ?thesis
    unfolding run mutating_only_def calls_only_def by (auto simp: list_all_iff)
qed

lemma bind_repo_get: "bind (repo_get g) f s = f (g (ag_repo s)) s"
  by (simp add: bind_def repo_get_def gets_def)

lemma seq_repo_do: "seqp (repo_do g) n s = n (s\<lparr>ag_repo := g (ag_repo s)\<rparr>)"
  by (simp add: seqp_def bind_def repo_do_def modify_def)

lemma locked_mutation_calls:
  assumes "dict_get (w_active_locks s) (job_id job) = Some l" and "mutation_executor_for w job = Some x"
  shows "mutating_only (\<lambda>c. step_authorised e w s job st \<and> step_call w job st c) s
     (snd (execute_locked_mutation e w x job p st s))"
  (is "mutating_only ?allowed s _")
proof -
  let ?running = "st\<lparr>stp_state := S_MUTATION_RUNNING,
      stp_mutation_status := Some S_MUTATION_RUNNING,
      stp_started_at := started st (env_clock e (c_tick s)), stp_attempt := stp_attempt st + 1\<rparr>"
  let ?s = "s\<lparr>c_tick := Suc (c_tick s), ag_repo := save_step ?running (ag_repo s)\<rparr>"
  let ?exec = "mutation_execute e (wk_clients w) x job ?running
      (get_approvals (ag_repo s) (job_id job)) (get_instructions (ag_repo s) (job_id job))"
  have records: "get_approvals (ag_repo ?s) = get_approvals (ag_repo s)"
    "get_instructions (ag_repo ?s) = get_instructions (ag_repo s)"
    by (simp_all add: fun_eq_iff get_approvals_def get_instructions_def save_step_def)
  have run: "execute_locked_mutation e w x job p st s =
      bind ?exec (settle_mutation e w job p st ?running) ?s"
    unfolding execute_locked_mutation_def Let_def bind_utc seq_repo_do bind_repo_get
    using records by simp
  have running: "continue_for ?running i = continue_for st i"
    "step_manifests x ?running = step_manifests x st" for i
    by (simp_all add: continue_for_def step_manifests_def)
  have "mutating_only ?allowed ?s (snd (?exec ?s))"
    by (rule mutation_execute_calls)
       (use assms running in \<open>auto simp: step_authorised_def step_call_def\<close>)
  then have "mutating_only ?allowed ?s (snd (execute_locked_mutation e w x job p st s))"
    unfolding run by (rule mutating.at_bind) (rule movesD, rule mutating.moves_settle)
  moreover have "mutating_only ?allowed s ?s" by (rule mutating_only_same) simp
  ultimately show ?thesis using mutating.trans by blast
qed

lemma execute_mutation_step_calls:
  "mutating_only (\<lambda>c. step_authorised e w s job st \<and> step_call w job st c) s
     (snd (execute_mutation_step e w job p st s))"
  (is "mutating_only ?allowed s _")
proof (cases "mutation_executor_for w job")
  case None
  then show ?thesis by (simp add: execute_mutation_step_def movesD mutating.moves_decision)
next
  case (Some x)
  show ?thesis
    unfolding execute_mutation_step_def Some option.case
  proof (rule mutating.at_bind)
    show "mutating_only ?allowed s (snd (acquire_lock_or_decision e w job s))"
      by (rule movesD, rule mutating.moves_lock)
    fix lock t assume run: "acquire_lock_or_decision e w job s = (Inr lock, t)"
    show "mutating_only ?allowed t (snd ((if lock = None
        then ret (decided (job_id job) J_DECISION_REQUIRED ''lock_unavailable'' False)
        else execute_locked_mutation e w x job p st) t))"
    proof (cases lock)
      case None
      then show ?thesis by (simp add: ret_def mutating.refl)
    next
      case (Some l)
      note held = lock_held [OF run [unfolded Some]]
      then have auth: "step_authorised e w t job st \<Longrightarrow> step_authorised e w s job st"
        by (auto simp: step_authorised_def)
      have "mutating_only (\<lambda>c. step_authorised e w t job st \<and> step_call w job st c) t
          (snd (execute_locked_mutation e w x job p st t))"
        using held \<open>mutation_executor_for w job = Some x\<close> by (intro locked_mutation_calls) auto
      then have "mutating_only ?allowed t (snd (execute_locked_mutation e w x job p st t))"
        using auth unfolding mutating_only_def calls_only_def by (fastforce simp: list_all_iff)
      with Some show ?thesis by simp
    qed
  qed
qed

section \<open>One operation\<close>

text \<open>
  What the worker may call when it takes the job at the head of its queue: the job is
  executing and no request stops it, the step is the one the scheduler chooses, its authority
  is complete, and the call is one of this step.
\<close>

definition may_call :: "env \<Rightarrow> worker \<Rightarrow> world \<Rightarrow> ext_call \<Rightarrow> bool" where
  "may_call e w s c \<longleftrightarrow> (\<exists>jid q job p st.
     dequeue (w_queue s) = (Some jid, q) \<and> get_job (ag_repo s) jid = Some job \<and>
     job_st job = J_EXECUTING \<and> jid \<notin> w_cancel_requested s \<and> jid \<notin> w_pause_requested s \<and>
     select_next_mutation_step (get_phases (ag_repo s) (job_id job)) (get_steps (ag_repo s) (job_id job))
       = Some (p, st) \<and>
     step_authorised e w (snd (beat e w jid (s\<lparr>w_queue := q\<rparr>))) job st \<and> step_call w job st c)"

lemma beat_frame:
  "\<exists>t. beat e w jid s = (Inr (), t) \<and> ag_repo t = ag_repo s \<and> rt_calls t = rt_calls s \<and>
    w_cancel_requested t = w_cancel_requested s \<and> w_pause_requested t = w_pause_requested s"
  by (simp add: beat_def bind_def utc_now_def modify_def)

lemma executing_calls:
  assumes "job_st job = J_EXECUTING"
  shows "mutating_only (\<lambda>c. \<exists>p st. select_next_mutation_step (get_phases (ag_repo s) (job_id job))
      (get_steps (ag_repo s) (job_id job)) = Some (p, st) \<and>
      step_authorised e w s job st \<and> step_call w job st c) s (snd (process_state e w jid job s))"
proof (cases "select_next_mutation_step (get_phases (ag_repo s) (job_id job))
      (get_steps (ag_repo s) (job_id job))")
  case None
  have "moves (mutating_only a) (run_next_mutation e w job phases steps)"
    if "select_next_mutation_step phases steps = None" for a phases steps
    using that unfolding run_next_mutation_def
    by (simp, intro mutating.moves_states mutating.parts mutating.rules)
  with None assms show ?thesis
    by (simp add: process_state_def run_next_step_def bind_repo_get movesD)
next
  case (Some found)
  then obtain p st where "select_next_mutation_step (get_phases (ag_repo s) (job_id job))
      (get_steps (ag_repo s) (job_id job)) = Some (p, st)" by (cases found) auto
  with assms execute_mutation_step_calls [of e w s job st p] show ?thesis
    by (simp add: process_state_def run_next_step_def bind_repo_get run_next_mutation_def)
qed

lemma mutating_only_weaken:
  "mutating_only a s t \<Longrightarrow> (\<And>c. a c \<Longrightarrow> b c) \<Longrightarrow> mutating_only b s t"
  unfolding mutating_only_def calls_only_def by (fastforce simp: list_all_iff)

lemma process_job_calls:
  assumes "dequeue (w_queue s) = (Some jid, q)"
  shows "mutating_only (may_call e w s) (s\<lparr>w_queue := q\<rparr>) (snd (process_job e w jid (s\<lparr>w_queue := q\<rparr>)))"
proof (cases "get_job (ag_repo s) jid")
  case None
  then show ?thesis
    by (simp add: process_job_def require_job_def bind_def repo_get_def gets_def raise_err_def mutating.refl)
next
  case (Some job)
  let ?q = "s\<lparr>w_queue := q\<rparr>"
  obtain t where t: "beat e w jid ?q = (Inr (), t)" "ag_repo t = ag_repo s" "rt_calls t = rt_calls s"
    "w_cancel_requested t = w_cancel_requested s" "w_pause_requested t = w_pause_requested s"
    using beat_frame [of e w jid ?q] by auto
  let ?rest = "(if jid \<in> w_cancel_requested s
     then seqp (modify (\<lambda>s. s\<lparr>w_cancel_requested := w_cancel_requested s - {jid}\<rparr>)) (cancel_job e w job)
     else if jid \<in> w_pause_requested s
     then seqp (modify (\<lambda>s. s\<lparr>w_pause_requested := w_pause_requested s - {jid}\<rparr>)) (pause_job e w job)
     else process_state e w jid job)"
  have run: "process_job e w jid ?q = ?rest t"
    using Some t by (simp add: process_job_def require_job_def bind_def seqp_def repo_get_def gets_def ret_def)
  have "mutating_only (may_call e w s) t (snd (?rest t))"
  proof (cases "job_st job = J_EXECUTING \<and> jid \<notin> w_cancel_requested s \<and> jid \<notin> w_pause_requested s")
    case True
    with executing_calls [of job t e w jid] have "mutating_only (\<lambda>c. \<exists>p st.
        select_next_mutation_step (get_phases (ag_repo s) (job_id job)) (get_steps (ag_repo s) (job_id job))
          = Some (p, st) \<and> step_authorised e w t job st \<and> step_call w job st c) t (snd (?rest t))"
      using t by simp
    then show ?thesis
      by (rule mutating_only_weaken) (use True Some t assms in \<open>auto simp: may_call_def\<close>)
  next
    case False
    have "moves (mutating_only (may_call e w s)) ?rest"
      using False mutating.moves_quiet_state [of job "may_call e w s" e w jid]
      by (auto intro!: mutating.moves_requests mutating.rules)
    then show ?thesis by (rule movesD)
  qed
  with run t show ?thesis by (simp add: mutating_only_def calls_only_def)
qed

lemma step_calls: "mutating_only (\<lambda>c. op = W_run \<and> may_call e w s c) s (worker_step e w op s)"
proof (cases "op = W_run")
  case True
  obtain item q where q: "dequeue (w_queue s) = (item, q)" by force
  show ?thesis
  proof (cases item)
    case None
    with True q show ?thesis by (simp add: run_once_def bind_def ret_def mutating_only_same)
  next
    case (Some jid)
    with True q process_job_calls [of s jid q e w] show ?thesis
      by (simp add: run_once_def bind_def mutating_only_def calls_only_def)
  qed
next
  case False
  then show ?thesis by (rule mutating.quiet_step)
qed


section \<open>Every sequence of operations\<close>

text \<open>The call is for the namespace of a job that may execute.\<close>

definition may_execute :: "exec_job \<Rightarrow> bool" where
  "may_execute j \<longleftrightarrow> job_mode j = M_EXECUTE_AFTER_APPROVAL \<or> job_st j \<in> EXECUTION_STATES"

definition for_executable_job :: "world \<Rightarrow> ext_call \<Rightarrow> bool" where
  "for_executable_job s c \<longleftrightarrow> (\<exists>jid j. get_job (ag_repo s) jid = Some j \<and> may_execute j \<and>
     call_namespace c = job_target_namespace j)"

lemma may_call_executable: "may_call e w s c \<Longrightarrow> for_executable_job s c"
  by (auto simp: may_call_def for_executable_job_def may_execute_def step_call_def
      permitted_call_def EXECUTION_STATES_def)

lemma for_executable_back:
  assumes "jobs_evolve abort s t" and "for_executable_job t c"
  shows "for_executable_job s c"
proof -
  from assms(2) obtain jid j' where j': "get_job (ag_repo t) jid = Some j'" "may_execute j'"
    "call_namespace c = job_target_namespace j'" by (auto simp: for_executable_job_def)
  with jobs_evolve_none [OF assms(1), of jid] obtain j where j: "get_job (ag_repo s) jid = Some j"
    by (cases "get_job (ag_repo s) jid") auto
  from jobs_evolve_at [OF assms(1) j] j' have path: "(legal_change abort)\<^sup>*\<^sup>* j j'" by simp
  from legal_path [OF path] have same: "same_subject j j'" by simp
  from gated_path [OF path] j'(2) same have "may_execute j"
    unfolding may_execute_def same_subject_def by metis
  with same j j' show ?thesis
    by (auto simp: for_executable_job_def same_subject_def)
qed

lemma run_calls:
  assumes "repo_inv (ag_repo s)"
  shows "mutating_only (for_executable_job s) s (worker_run e w ops s)"
  using assms
proof (induction ops arbitrary: s)
  case (Cons op ops)
  let ?t = "worker_step e w op s"
  have "repo_inv (ag_repo ?t)"
    using inv_kept.step_R [of s e w op] Cons.prems by (simp add: inv_kept_def keeps_def)
  then have "mutating_only (for_executable_job ?t) ?t (worker_run e w ops ?t)" by (rule Cons.IH)
  then have "mutating_only (for_executable_job s) ?t (worker_run e w ops ?t)"
    by (rule mutating_only_weaken) (rule for_executable_back [OF step_evolves [OF Cons.prems]])
  moreover have "mutating_only (for_executable_job s) s ?t"
    using step_calls by (rule mutating_only_weaken) (auto intro: may_call_executable)
  ultimately have "mutating_only (for_executable_job s) s (worker_run e w ops ?t)"
    using mutating.trans by blast
  then show ?case by (simp add: worker_run_def)
qed (simp add: worker_run_def mutating.refl)

text \<open>
  C22. Over any sequence of operations, the cluster is changed only in the namespace of a
  job that executes after approval, or that was already awaiting approval or executing when
  the sequence began: a job submitted for a dry run or a report never changes anything,
  whatever instructions and approvals arrive for it.
\<close>

theorem only_executable_jobs_mutate:
  assumes "repo_inv (ag_repo s)"
  shows "\<exists>new. rt_calls (worker_run e w ops s) = rt_calls s @ new \<and>
     list_all (\<lambda>c. \<exists>jid j. get_job (ag_repo s) jid = Some j \<and>
       (job_mode j = M_EXECUTE_AFTER_APPROVAL \<or> job_st j \<in> {J_AWAITING_HUMAN_APPROVAL, J_EXECUTING}) \<and>
       call_namespace c = job_target_namespace j) (filter mutating_call new)"
  using run_calls [OF assms, of e w ops]
  by (auto simp: mutating_only_def calls_only_def list_all_iff for_executable_job_def
      may_execute_def EXECUTION_STATES_def)

theorem only_executable_jobs_mutate_witness:
  "\<exists>new. rt_calls (worker_run unit_env demo_worker demo_ops demo_world) = new \<and>
     list_all (\<lambda>c. \<exists>jid j. get_job (ag_repo demo_world) jid = Some j \<and>
       (job_mode j = M_EXECUTE_AFTER_APPROVAL \<or> job_st j \<in> {J_AWAITING_HUMAN_APPROVAL, J_EXECUTING}) \<and>
       call_namespace c = job_target_namespace j) (filter mutating_call new)"
  using only_executable_jobs_mutate [OF demo_world_inv, of unit_env demo_worker demo_ops]
  by (simp add: demo_world_def)

end
