(* ===== verification/ApiFrames.thy ===== *)
theory ApiFrames
  imports ApiEvidence WorkerAuthority
begin

text \<open>
  Relations that the endpoints of the application service keep. A relation on the world of the
  worker is read over the state of the service; the locale carries it through every endpoint that
  does not roll back, from what the worker's methods keep and from two more operations (the
  saving of a report and the validation). It is interpreted for the invariant of the repository,
  the growth of the audit log and the calls that change the cluster.
\<close>

section \<open>Operations of the service\<close>

text \<open>
  The requests to the service and the tick of its background worker. Each runs to its end before
  the next one; what two threads do to each other in between is not part of the model.
\<close>

datatype api_op =
    A_tick
  | A_register_bundle "json dict"
  | A_validate_bundle "string option" "json dict"
  | A_create "json dict"
  | A_start string
  | A_pause string
  | A_resume string
  | A_cancel string
  | A_request_rollback string "json dict"
  | A_run_validation string
  | A_execute_rollback string "json dict"
  | A_revert_namespace "json dict"
  | A_instruction string "json dict"
  | A_approval string "json dict"
  | A_report report_type string string
  | A_release_notes string
  | A_policy "json dict"

text \<open>The endpoints that only read leave the state as it is and are not listed.\<close>

fun api_step :: "env \<Rightarrow> service \<Rightarrow> api_op \<Rightarrow> api \<Rightarrow> api" where
  "api_step e sv A_tick s = s\<lparr>ap_world := worker_step e (sv_worker sv) W_run (ap_world s)\<rparr>"
| "api_step e sv (A_register_bundle payload) s = snd (register_bundle e sv payload s)"
| "api_step e sv (A_validate_bundle bid payload) s = snd (validate_bundle e sv bid payload s)"
| "api_step e sv (A_create payload) s = snd (create_job e sv payload s)"
| "api_step e sv (A_start jid) s = snd (api_start_job e sv jid s)"
| "api_step e sv (A_pause jid) s = snd (api_pause_job e jid s)"
| "api_step e sv (A_resume jid) s = snd (api_resume_job e jid s)"
| "api_step e sv (A_cancel jid) s = snd (api_cancel_job e jid s)"
| "api_step e sv (A_request_rollback jid payload) s = snd (api_request_rollback e jid payload s)"
| "api_step e sv (A_run_validation jid) s = snd (api_run_validation e sv jid s)"
| "api_step e sv (A_execute_rollback jid payload) s = snd (api_execute_rollback e sv jid payload s)"
| "api_step e sv (A_revert_namespace payload) s = snd (api_revert_namespace e sv payload s)"
| "api_step e sv (A_instruction jid payload) s = snd (api_submit_instruction e sv jid payload s)"
| "api_step e sv (A_approval jid payload) s = snd (api_submit_approval e sv jid payload s)"
| "api_step e sv (A_report ty message jid) s = snd (generate_report e sv ty message jid s)"
| "api_step e sv (A_release_notes jid) s = snd (generate_release_notes e sv jid s)"
| "api_step e sv (A_policy payload) s = snd (api_evaluate_policy e sv payload s)"

definition api_run :: "env \<Rightarrow> service \<Rightarrow> api_op list \<Rightarrow> api \<Rightarrow> api" where
  "api_run e sv ops s = foldl (\<lambda>s op. api_step e sv op s) s ops"

section \<open>The interface of a relation\<close>

text \<open>
  \<open>R\<close> is about the world of the worker and \<open>Q\<close> about the service. The first locale has what the
  records of the service need (observations, audit events, reports, memory), none of which saves
  a job; the second one adds the programs of the worker and the saving of a job.
\<close>

locale record_relation = step_relation R + over: step_relation Q
  for R :: "world \<Rightarrow> world \<Rightarrow> bool" and Q :: "api \<Rightarrow> api \<Rightarrow> bool" +
  assumes lifted: "R (ap_world s) (ap_world t) \<Longrightarrow> ap_jobs t = ap_jobs s \<Longrightarrow> Q s t"
    and clocked: "moves R (utc_now e)" and fresh_id: "moves R (new_id e pre)"
    and logged: "moves R (write_event ev)"
    and observed: "moves R (repo_do (add_observation ob))"
    and reported: "moves R (repo_do (save_report r))"
    and untouched: "rt_calls v = rt_calls u \<Longrightarrow> ag_repo v = ag_repo u \<Longrightarrow> w_queue v = w_queue u \<Longrightarrow> R u v"
begin

lemma moves_on_world: "moves R m \<Longrightarrow> moves Q (on_world m)"
  by (auto simp: moves_def on_world_def split: prod.splits intro!: lifted) (metis snd_conv)

text \<open>What only reads or writes the service's own copies, and the programs of the worker.\<close>

lemma moves_copies: "(\<And>s. ap_world (snd (m s)) = ap_world s \<and> ap_jobs (snd (m s)) = ap_jobs s) \<Longrightarrow> moves Q m"
  by (simp add: moves_def lifted refl)

lemma moves_copy: "(\<And>s. ap_world (f s) = ap_world s \<and> ap_jobs (f s) = ap_jobs s) \<Longrightarrow> moves Q (modify f)"
  by (rule moves_copies) (simp add: modify_def)

lemmas api_basics = over.moves_ret over.moves_raise over.moves_gets over.moves_lift over.moves_bind
  over.moves_seq moves_if moves_case_option moves_case_prod moves_case_sum moves_let

lemma moves_from_repo: "moves Q (from_repo f)"
  by (simp add: from_repo_def over.moves_gets)

lemma moves_api_job: "moves Q (api_job jid)"
  by (simp add: api_job_def over.moves_gets)

lemma moves_write_memory: "moves Q (write_memory e layer jid summary payload scope)"
  by (auto simp: moves_def write_memory_def Let_def intro!: lifted untouched split: prod.splits)

lemmas api_reads = moves_from_repo moves_api_job moves_write_memory api_basics

lemma moves_add_audit: "moves Q (add_audit e jid action details)"
  unfolding add_audit_def Let_def
  by (intro api_reads moves_copy moves_on_world clocked fresh_id logged observed) simp

lemma moves_record_observation: "moves Q (record_observation e ob)"
  unfolding record_observation_def
  by (intro api_reads moves_copy moves_on_world clocked fresh_id logged observed) simp

lemma moves_new_observation: "moves Q (new_observation e args)"
  unfolding new_observation_def
  by (intro moves_record_observation api_reads moves_on_world clocked fresh_id)

lemma moves_api_observation: "moves Q (api_add_observation e jid summary result)"
  unfolding api_add_observation_def by (intro moves_new_observation api_reads)

lemma moves_outcome: "moves Q (outcome_observation e job jid ty success summary payload)"
  unfolding outcome_observation_def by (intro moves_new_observation api_reads)

lemma moves_record_report: "moves Q (record_report e sv job ty)"
  unfolding record_report_def Let_def
  by (intro moves_add_audit api_reads moves_copy moves_on_world clocked fresh_id reported) simp

lemma moves_with_job: "(\<And>job. moves Q (f job)) \<Longrightarrow> moves Q (with_job jid f)"
  unfolding with_job_def by (intro api_reads)

lemma moves_ensure: "moves Q (ensure_background_worker sv)"
  unfolding ensure_background_worker_def by (intro api_reads moves_copy) simp

lemma moves_payload: "moves Q (payload_id e payload key pre)"
  "moves Q (payload_text payload key)" "moves Q (payload_scope job payload)"
  unfolding payload_id_def payload_text_def payload_scope_def
  by (intro api_reads moves_on_world clocked fresh_id)+

lemmas api_writes = moves_add_audit moves_record_observation moves_new_observation
  moves_api_observation moves_outcome moves_record_report moves_with_job moves_ensure moves_payload
  api_reads

lemma moves_remember: "moves Q (remember_bundle bid b)" "moves Q (set_bundle bid d)"
  unfolding remember_bundle_def set_bundle_def by (intro moves_copy, simp)+

lemma moves_bundles: "moves Q (register_bundle e sv payload)"
  "moves Q (validate_bundle e sv bid payload)"
proof -
  have store: "moves Q (store_upload e path digest bytes)" for path digest bytes
    unfolding store_upload_def by (rule moves_copy) (auto split: option.splits)
  have materialize: "moves Q (materialize_source e sv source)" for source
    by (cases source) (auto simp: materialize_source_def intro!: store api_writes)
  show register: "moves Q (register_bundle e sv payload)" for payload
    unfolding register_bundle_def Let_def
    by (intro materialize moves_payload moves_remember moves_attempt moves_on_world clocked api_writes)
       (auto split: py_error.splits intro!: materialize moves_payload moves_remember moves_attempt
          moves_on_world clocked api_writes)
  show "moves Q (validate_bundle e sv bid payload)"
    unfolding validate_bundle_def validate_known_bundle_def Let_def
    by (intro register moves_remember moves_on_world clocked api_writes)
qed

lemma moves_wire: "moves Q (on_wire m)"
  by (auto simp: moves_def on_wire_def Let_def intro!: lifted untouched split: prod.splits)

lemma moves_notes: "moves Q (generate_release_notes e sv jid)"
  unfolding generate_release_notes_def call_release_note_agent_def
  by (intro api_writes moves_wire moves_on_world logged)

lemma moves_reports: "moves Q (generate_report e sv ty message jid)"
  "moves Q (api_evaluate_policy e sv payload)"
  unfolding generate_report_def api_evaluate_policy_def remember_policy_def
  by (intro api_writes)+

lemma moves_current: "moves Q (current_state jid job)"
  unfolding current_state_def by (intro api_writes)

end

text \<open>With a relation that tolerates the saving of a job: transitions.\<close>

locale transition_relation = record_relation R Q for R Q +
  assumes saved: "moves Q (api_save_job j)"
begin

lemma moves_save_transition: "moves Q (save_transition e jid job res target reason)"
  unfolding save_transition_def Let_def
  by (intro saved api_reads moves_copy moves_on_world clocked observed logged) simp_all

lemma moves_api_transition: "moves Q (api_transition e jid target reason details)"
proof -
  have "moves R (transition e DEFAULT_STATE_MACHINE jid a b act aid why corr trace details)"
    for a b act aid why corr trace
    unfolding transition_def run_guards_def DEFAULT_STATE_MACHINE_def Let_def
    by (intro clocked fresh_id moves_lift moves_bind moves_for_each moves_ret)
  then show ?thesis
    unfolding api_transition_def
    by (intro moves_save_transition api_reads moves_on_world moves_attempt)
qed

lemmas transition_parts = saved moves_save_transition moves_api_transition api_writes

text \<open>What the two ways to roll back have in common.\<close>

lemma moves_after_rollback:
  "moves Q (finish_revert e job r data rep)" "moves Q (revert_job e payload jid ns)"
  unfolding finish_revert_def revert_job_def Let_def
  by (intro transition_parts moves_current moves_on_world clocked fresh_id)+

end

locale service_relation = quiet_relation R + transition_relation R Q for R Q +
  assumes validation: "moves R (validation_execute cl vx job steps)"
begin

lemmas api_parts = transition_parts

lemma moves_seed_job: "moves Q (seed_job_plan sv job)"
  unfolding seed_job_plan_def plan_of_bundle_def Let_def
  by (intro api_parts moves_remember moves_copy moves_on_world moves_seed) simp

lemma moves_create: "moves Q (create_job e sv payload)"
  unfolding create_job_def Let_def
  by (intro moves_seed_job moves_payload api_parts moves_copy moves_on_world basics) simp

lemma moves_controls: "moves Q (api_start_job e sv jid)" "moves Q (api_pause_job e jid)"
  "moves Q (api_resume_job e jid)" "moves Q (api_cancel_job e jid)"
  "moves Q (api_request_rollback e jid payload)"
  unfolding api_start_job_def api_pause_job_def api_resume_job_def api_cancel_job_def
    api_request_rollback_def Let_def
  by (intro api_parts moves_on_world moves_requeue)+

lemma moves_run_validation: "moves Q (api_run_validation e sv jid)"
  unfolding api_run_validation_def Let_def by (intro api_parts moves_on_world validation)

lemma moves_instruction: "moves Q (api_submit_instruction e sv jid payload)"
  unfolding api_submit_instruction_def route_instruction_def instruction_recorded_def
    refuse_instruction_def Let_def
  by (intro api_parts moves_current moves_copy moves_on_world moves_submit basics) simp_all

lemma moves_approval: "moves Q (api_submit_approval e sv jid payload)"
  unfolding api_submit_approval_def Let_def
  by (intro api_parts moves_payload moves_copy moves_on_world saves) simp_all

lemmas api_endpoints = moves_create moves_bundles moves_controls moves_run_validation
  moves_instruction moves_approval moves_notes moves_reports

end

text \<open>A relation that also tolerates the rollback itself and the worker's tick.\<close>

locale whole_service_relation = service_relation R Q + whole_relation R for R Q +
  assumes tick: "Q s (s\<lparr>ap_world := worker_step e w W_run (ap_world s)\<rparr>)"
    and rollback: "moves R (rollback_namespace cl rx job opts)"
begin

lemma moves_rollback_execute: "moves R (rollback_execute cl rx job approvals is opts)"
  unfolding rollback_execute_def Let_def by (intro moves_if moves_ret rollback)

lemma moves_perform_rollback: "moves Q (perform_rollback e sv jid payload job)"
  unfolding perform_rollback_def Let_def
  by (intro moves_after_rollback moves_current moves_rollback_execute moves_on_world api_parts)

lemma moves_execute_rollback: "moves Q (api_execute_rollback e sv jid payload)"
  unfolding api_execute_rollback_def by (intro moves_perform_rollback api_parts)

lemma moves_revert: "moves Q (api_revert_namespace e sv payload)"
  unfolding api_revert_namespace_def Let_def
  by (intro moves_after_rollback rollback moves_payload moves_on_world api_parts)

lemma api_step_R: "Q s (api_step e sv op s)"
proof (cases op)
  case A_tick
  with tick show ?thesis by simp
qed (simp_all add: movesD api_endpoints moves_execute_rollback moves_revert)

lemma api_run_R: "Q s (api_run e sv ops s)"
proof (induction ops arbitrary: s)
  case (Cons op ops)
  from api_step_R [of s e sv op] Cons.IH [of "api_step e sv op s"] show ?case
    by (auto simp: api_run_def intro: over.trans)
qed (simp add: api_run_def over.refl)

end

section \<open>The executors of validation and rollback\<close>

context executor_relation
begin

lemma moves_validation: "moves R (validation_execute cl vx job steps)"
proof -
  have "moves R (ask_all cl qs checks)" for qs checks
    by (induction qs arbitrary: checks) (auto intro!: exec_rules)
  then show ?thesis
    unfolding validation_execute_def helm_checks_def Let_def by (intro exec_rules)
qed

lemma moves_rollback: "moves R (rollback_namespace cl rx job opts)"
proof -
  have releases: "moves R (change_releases cl opts ns names steps)" for ns names steps
    by (induction names arbitrary: steps) (auto intro!: exec_rules)
  have "moves R (delete_resources cl opts ns rs steps)" for ns rs steps
    by (induction rs arbitrary: steps) (auto intro!: exec_rules)
  with releases show ?thesis
    unfolding rollback_namespace_def release_names_def Let_def by (intro exec_rules)
qed

end

lemmas rollback_logs = logging.moves_rollback logging.moves_validation

section \<open>The repository stays well formed and the audit log grows\<close>

text \<open>A relation on the world, read over the state of the service.\<close>

definition over :: "(world \<Rightarrow> world \<Rightarrow> bool) \<Rightarrow> api \<Rightarrow> api \<Rightarrow> bool" where
  "over R s t \<longleftrightarrow> R (ap_world s) (ap_world t)"

lemma over_save:
  "moves R (repo_do (save_job j)) \<Longrightarrow> moves (over R) (api_save_job j)"
  by (auto simp: moves_def over_def api_save_job_def seqp_def bind_def modify_def on_world_def
      split: prod.splits) (metis snd_conv)

text \<open>A relation that the quiet methods keep is, read so, kept by the endpoints.\<close>

context quiet_relation
begin

lemma over_relation:
  assumes "\<And>r. moves R (repo_do (save_report r))"
    and "\<And>cl vx job steps. moves R (validation_execute cl vx job steps)"
  shows "service_relation R (over R)"
proof -
  have "step_relation (over R)"
    by unfold_locales (auto simp: over_def refl intro: trans)
  moreover have "moves (over R) (api_save_job j)" for j by (rule over_save [OF moves_save])
  ultimately show ?thesis
    using quiet_relation_axioms step_relation_axioms assms clock fresh event saves(4) memory
    by (simp add: service_relation_def service_relation_axioms_def transition_relation_def
        transition_relation_axioms_def record_relation_def record_relation_axioms_def over_def)
qed

end

lemma inv_kept_report: "moves inv_kept (repo_do (save_report r))"
  using repo_step_inv [of _ "Op_report r"] by (intro step_intros) simp

interpretation inv_kept: service_relation inv_kept "over inv_kept"
  by (rule inv_kept.over_relation) (rule inv_kept_report inv_kept.moves_validation)+

interpretation inv_kept: whole_service_relation inv_kept "over inv_kept"
  by unfold_locales (simp_all add: over_def movesD [OF inv_kept.moves_run_once] inv_kept.moves_rollback)

lemma audit_grows_report: "moves audit_grows (repo_do (save_report r))"
  by (intro step_intros) (simp add: save_defs)

lemma audit_grows_rollback:
  "moves audit_grows (rollback_namespace cl rx job opts)"
  "moves audit_grows (validation_execute cl vx job steps)"
  by (auto intro: moves_mono [OF rollback_logs(1)] moves_mono [OF rollback_logs(2)] same_but_audit_facts(2))

interpretation audit: service_relation audit_grows "over audit_grows"
  by (rule audit.over_relation) (rule audit_grows_report audit_grows_rollback(2))+

interpretation audit: whole_service_relation audit_grows "over audit_grows"
  by unfold_locales (simp_all add: over_def movesD [OF audit.moves_run_once] audit_grows_rollback(1))

section \<open>Calls that change the cluster\<close>

lemma harmless_call: "\<not> mutating_call c \<Longrightarrow> moves (mutating_only allowed) (mcp_call cl c)"
  unfolding mutating_only_def by (rule calls_only_call) simp

lemma ask_all_harmless:
  "list_all (\<lambda>q. \<not> mutating_call (fst (snd q))) qs \<Longrightarrow>
    moves (mutating_only allowed) (ask_all cl qs checks)"
  by (induction qs arbitrary: checks)
     (auto intro!: mutating.moves_ret mutating.moves_bind harmless_call)

lemma questions_harmless:
  "list_all (\<lambda>q. \<not> mutating_call (fst (snd q))) (k8s_questions ns)"
  "list_all (\<lambda>q. \<not> mutating_call (fst (snd q))) (status_questions ns r)"
  by (auto simp: k8s_questions_def status_questions_def release_question_def list_all_iff Let_def
      split: if_splits)

lemma validation_harmless: "moves (mutating_only allowed) (validation_execute cl vx job steps)"
  unfolding validation_execute_def helm_checks_def Let_def
  by (intro ask_all_harmless questions_harmless harmless_call mutating.rules) simp

lemma mutating_report: "moves (mutating_only allowed) (repo_do (save_report r))"
  by (simp add: moves_def repo_do_def modify_def mutating_only_same)

interpretation mutating: service_relation "mutating_only allowed" "over (mutating_only allowed)"
  for allowed
  by (rule mutating.over_relation) (rule mutating_report validation_harmless)+

section \<open>Records that leave the jobs alone\<close>

definition api_jobs_same :: "api \<Rightarrow> api \<Rightarrow> bool" where
  "api_jobs_same s t \<longleftrightarrow> jobs_same (ap_world s) (ap_world t) \<and> ap_jobs t = ap_jobs s"

lemma api_jobs_same_step: "step_relation api_jobs_same"
  by unfold_locales (auto simp: api_jobs_same_def jobs_same_def)

lemma jobs_same_report: "moves jobs_same (repo_do (save_report r))"
  by (intro step_intros) (simp add: fun_eq_iff get_job_def save_defs)

interpretation jobs_same: record_relation jobs_same api_jobs_same
  using api_jobs_same_step jobs_same_report
  by (auto simp: record_relation_def record_relation_axioms_def api_jobs_same_def
      intro!: step_intros jobs_same.step_relation_axioms) (simp_all add: jobs_same_def)

end
