(* ===== verification/ApiSafety.thy ===== *)
theory ApiSafety
  imports ApiFrames
begin

text \<open>
  What requests to the service do to the jobs and to the cluster, with the background worker
  ticking in between: the states of jobs follow the transition table, the audit log only grows,
  and the cluster is changed only with authority.
\<close>

section \<open>The copies of jobs are keyed by their identifiers\<close>

definition copies_keyed :: "api \<Rightarrow> bool" where
  "copies_keyed s \<longleftrightarrow> (\<forall>jid j. dict_get (ap_jobs s) jid = Some j \<longrightarrow> job_id j = jid)"

lemma copies_keyed_save: "copies_keyed s \<Longrightarrow> copies_keyed (snd (api_save_job j s))"
  by (auto simp: copies_keyed_def api_save_job_def seqp_def bind_def modify_def on_world_def
      repo_do_def dict_simps split: if_splits)

interpretation anything: whole_service_relation "\<lambda>s t. True" "keeps copies_keyed"
  by unfold_locales
     (auto simp: moves_def keeps_def copies_keyed_save, simp_all add: copies_keyed_def)

definition api_inv :: "api \<Rightarrow> bool" where
  "api_inv s \<longleftrightarrow> repo_inv (ag_repo (ap_world s)) \<and> copies_keyed s"

lemma api_inv_moves:
  "moves (over inv_kept) m \<Longrightarrow> moves (keeps copies_keyed) m \<Longrightarrow> api_inv s \<Longrightarrow> api_inv (snd (m s))"
  by (auto simp: api_inv_def moves_def over_def inv_kept_def keeps_def)

lemma api_step_inv: "api_inv s \<Longrightarrow> api_inv (api_step e sv op s)"
  using inv_kept.api_step_R [of s e sv op] anything.api_step_R [of s e sv op]
  by (auto simp: api_inv_def over_def inv_kept_def keeps_def)

lemma api_job_id:
  assumes "api_inv s" and "api_job jid s = (Inr (Some j), t)"
  shows "job_id j = jid" "t = s"
  using assms stored_job_id [of "ag_repo (ap_world s)" jid j]
  by (auto simp: api_job_def gets_def api_inv_def copies_keyed_def split: option.splits)

section \<open>The audit log\<close>

text \<open>
  C26. Over any sequence of requests and ticks of the worker the audit log only grows: what was
  recorded stays, in its order, and a well-formed repository stays well formed, with no two
  events under one identifier.
\<close>

theorem service_log_is_append_only:
  "prefix (sn_audit (rp_snap (ag_repo (ap_world s))))
     (sn_audit (rp_snap (ag_repo (ap_world (api_run e sv ops s))))) \<and>
   (if repo_inv (ag_repo (ap_world s)) then repo_inv (ag_repo (ap_world (api_run e sv ops s))) else True)"
  using audit.api_run_R [of s e sv ops] inv_kept.api_run_R [of s e sv ops]
  by (auto simp: over_def audit_grows_def audit_log_def inv_kept_def keeps_def)

section \<open>How a job may change\<close>

definition job_change :: "bool \<Rightarrow> exec_job \<Rightarrow> exec_job \<Rightarrow> bool" where
  "job_change abort j j' \<longleftrightarrow> same_subject j j' \<and>
     (job_st j' = job_st j \<or> job_step (job_st j) (job_st j') \<or> abort \<and> job_st j' = J_CANCELLED)"

lemma legal_job_change: "legal_change abort j j' \<Longrightarrow> job_change abort j j'"
  by (auto simp: legal_change_def job_change_def intro: allowed)

lemma job_change_self: "job_change abort j j" by (simp add: job_change_def)

text \<open>The stored job \<open>jid\<close> stays stored and changes step by step.\<close>

definition job_follows :: "bool \<Rightarrow> string \<Rightarrow> api \<Rightarrow> api \<Rightarrow> bool" where
  "job_follows abort jid s t \<longleftrightarrow> (api_inv s \<longrightarrow> api_inv t \<and>
     (case get_job (ag_repo (ap_world s)) jid of
        None \<Rightarrow> True
      | Some j \<Rightarrow> (\<exists>j'. get_job (ag_repo (ap_world t)) jid = Some j' \<and> (job_change abort)\<^sup>*\<^sup>* j j')))"

interpretation follows: step_relation "job_follows abort jid" for abort jid
proof
  fix s t u :: api
  show "job_follows abort jid s s" by (auto simp: job_follows_def split: option.splits)
  assume st: "job_follows abort jid s t" and tu: "job_follows abort jid t u"
  show "job_follows abort jid s u"
    unfolding job_follows_def
  proof
    assume s: "api_inv s"
    with st have t: "api_inv t" by (simp add: job_follows_def)
    with tu have u: "api_inv u" by (simp add: job_follows_def)
    show "api_inv u \<and> (case get_job (ag_repo (ap_world s)) jid of None \<Rightarrow> True
      | Some j \<Rightarrow> (\<exists>j'. get_job (ag_repo (ap_world u)) jid = Some j' \<and> (job_change abort)\<^sup>*\<^sup>* j j'))"
    proof (cases "get_job (ag_repo (ap_world s)) jid")
      case (Some j)
      with st s obtain j1 where "get_job (ag_repo (ap_world t)) jid = Some j1" "(job_change abort)\<^sup>*\<^sup>* j j1"
        by (auto simp: job_follows_def)
      moreover from this tu t obtain j2 where "get_job (ag_repo (ap_world u)) jid = Some j2"
        "(job_change abort)\<^sup>*\<^sup>* j1 j2" by (auto simp: job_follows_def)
      ultimately show ?thesis using Some u by (auto intro: rtranclp_trans)
    qed (simp add: u)
  qed
qed

text \<open>What leaves the jobs alone and keeps the invariant.\<close>

definition world_settled :: "world \<Rightarrow> world \<Rightarrow> bool" where
  "world_settled s t \<longleftrightarrow> jobs_same s t \<and> inv_kept s t"

definition api_settled :: "api \<Rightarrow> api \<Rightarrow> bool" where
  "api_settled s t \<longleftrightarrow> api_jobs_same s t \<and> (api_inv s \<longrightarrow> api_inv t)"

lemma world_settled: "moves jobs_same m \<Longrightarrow> moves inv_kept m \<Longrightarrow> moves world_settled m"
  by (simp add: moves_def world_settled_def)

interpretation settled: record_relation world_settled api_settled
proof -
  have "step_relation world_settled"
    by unfold_locales (auto simp: world_settled_def jobs_same.refl inv_kept.refl
        intro: jobs_same.trans inv_kept.trans)
  moreover have "step_relation api_settled"
    by unfold_locales (auto simp: api_settled_def jobs_same.over.refl intro: jobs_same.over.trans)
  moreover have "world_settled (ap_world s) (ap_world t) \<Longrightarrow> ap_jobs t = ap_jobs s \<Longrightarrow> api_settled s t"
    for s t
    by (simp add: world_settled_def api_settled_def api_jobs_same_def api_inv_def copies_keyed_def
        inv_kept_def keeps_def)
  moreover have "rt_calls v = rt_calls u \<Longrightarrow> ag_repo v = ag_repo u \<Longrightarrow> w_queue v = w_queue u \<Longrightarrow>
      world_settled u v" for u v
    by (simp add: world_settled_def jobs_same.untouched inv_kept.memory)
  ultimately show "record_relation world_settled api_settled"
    by (auto simp: record_relation_def record_relation_axioms_def
        intro!: world_settled step_intros jobs_same.reported inv_kept.saves inv_kept.reported)
qed

lemma settled_follows: "moves api_settled m \<Longrightarrow> job_follows abort jid s (snd (m s))"
  using movesD [of api_settled m s]
  by (auto simp: job_follows_def api_settled_def api_jobs_same_def jobs_same_def split: option.splits)

lemma settled_then:
  assumes "moves api_settled m"
    and "\<And>x t. m s = (Inr x, t) \<Longrightarrow> api_jobs_same s t \<Longrightarrow> api_inv t \<Longrightarrow>
      job_follows abort jid t (snd (f x t))"
  shows "job_follows abort jid s (snd (bind m f s))"
proof (cases "api_inv s")
  case True
  show ?thesis
  proof (rule follows.at_bind)
    show "job_follows abort jid s (snd (m s))" by (rule settled_follows [OF assms(1)])
    fix x t assume run: "m s = (Inr x, t)"
    with True movesD [OF assms(1), of s] have "api_jobs_same s t" "api_inv t"
      by (simp_all add: api_settled_def)
    with run show "job_follows abort jid t (snd (f x t))" by (rule assms(2))
  qed
qed (simp add: job_follows_def)

lemma settled_seq:
  assumes "moves api_settled m"
    and "\<And>t. api_jobs_same s t \<Longrightarrow> api_inv t \<Longrightarrow> job_follows abort jid t (snd (n t))"
  shows "job_follows abort jid s (snd (seqp m n s))"
  unfolding seqp_def using assms by (intro settled_then) simp_all

lemma followed_then:
  assumes "\<And>s. job_follows abort jid s (snd (m s))" and "\<And>x. moves api_settled (f x)"
  shows "job_follows abort jid s (snd (bind m f s))"
  by (rule follows.at_bind) (rule assms(1) settled_follows [OF assms(2)])+

lemmas settled_world = settled.moves_on_world world_settled

section \<open>Saving a job\<close>

lemma save_follows:
  assumes "api_inv s"
    and "\<And>j0. get_job (ag_repo (ap_world s)) jid = Some j0 \<Longrightarrow> job_id j = jid \<Longrightarrow> (job_change abort)\<^sup>*\<^sup>* j0 j"
  shows "job_follows abort jid s (snd (api_save_job j s))"
proof -
  have "api_inv (snd (api_save_job j s))"
    using assms(1) movesD [OF inv_kept.saved, of s j] copies_keyed_save [of s j]
    by (simp add: api_inv_def over_def inv_kept_def keeps_def)
  moreover have "get_job (ag_repo (ap_world (snd (api_save_job j s)))) jid =
      (if job_id j = jid then Some j else get_job (ag_repo (ap_world s)) jid)"
    by (simp add: api_save_job_def seqp_def bind_def modify_def on_world_def repo_do_def dict_simps)
  ultimately show ?thesis
    using assms(2) by (auto simp: job_follows_def split: option.splits)
qed

text \<open>After the save nothing touches the jobs.\<close>

lemma save_then_follows:
  assumes "api_inv s" and "moves api_settled n"
    and "\<And>j0. get_job (ag_repo (ap_world s)) jid = Some j0 \<Longrightarrow> job_id j = jid \<Longrightarrow> (job_change abort)\<^sup>*\<^sup>* j0 j"
  shows "job_follows abort jid s (snd (seqp (api_save_job j) n s))"
proof (rule follows.at_seq)
  show "job_follows abort jid s (snd (api_save_job j s))" by (rule save_follows [OF assms(1,3)])
qed (rule settled_follows [OF assms(2)])

section \<open>The endpoints\<close>

lemma api_job_found:
  assumes "api_job k s = (Inr (Some j), t)" and "api_inv s"
  shows "job_id j = k" and "get_job (ag_repo (ap_world s)) k = Some j0 \<Longrightarrow> j = j0" and "t = s"
  using assms api_job_id [OF assms(2,1)] by (auto simp: api_job_def gets_def)

text \<open>The job found is the stored one, when there is one.\<close>

definition in_hand :: "exec_job \<Rightarrow> string \<Rightarrow> api \<Rightarrow> bool" where
  "in_hand j k s \<longleftrightarrow> job_id j = k \<and> (case get_job (ag_repo (ap_world s)) k of
     None \<Rightarrow> True | Some j0 \<Rightarrow> j0 = j)"

lemma in_hand_same: "in_hand j k s \<Longrightarrow> api_jobs_same s t \<Longrightarrow> in_hand j k t"
  by (simp add: in_hand_def api_jobs_same_def jobs_same_def)

lemma read_job:
  assumes "api_inv s \<Longrightarrow> get_job (ag_repo (ap_world s)) k = None \<Longrightarrow> job_follows abort jid s (snd (f None s))"
    and "\<And>j. api_inv s \<Longrightarrow> in_hand j k s \<Longrightarrow> job_follows abort jid s (snd (f (Some j) s))"
  shows "job_follows abort jid s (snd (bind (api_job k) f s))"
proof (cases "api_inv s")
  case True
  obtain found where run: "api_job k s = (Inr found, s)" by (simp add: api_job_def gets_def)
  show ?thesis
  proof (cases found)
    case (Some j)
    with api_job_found [OF run [unfolded Some] True] have "in_hand j k s"
      by (auto simp: in_hand_def split: option.splits)
    with assms(2) [OF True] run Some show ?thesis by (simp add: bind_def)
  next
    case None
    with run have "get_job (ag_repo (ap_world s)) k = None"
      by (auto simp: api_job_def gets_def split: option.splits)
    with run assms(1) True None show ?thesis by (simp add: bind_def)
  qed
qed (simp add: job_follows_def)

lemma follows_ret: "job_follows abort jid s (snd (ret x s))"
  by (simp add: ret_def follows.refl)

lemma save_transition_follows:
  assumes "api_inv s" and "in_hand job k s" and "job_step (job_st job) target"
  shows "job_follows abort jid s (snd (save_transition e k job res target reason s))"
  unfolding save_transition_def
proof (rule settled_then, goal_cases)
  case 1
  show ?case by (intro settled.moves_on_world settled.clocked)
next
  case (2 now t)
  show ?case
  proof (rule settled_then, goal_cases)
    case 1
    show ?case by (intro settled.api_reads settled.moves_on_world settled.clocked)
  next
    case (2 completed u)
    have hand: "in_hand job k u"
      using assms(2) \<open>api_jobs_same s t\<close> \<open>api_jobs_same t u\<close> in_hand_same by blast
    show ?case
      unfolding Let_def
    proof (rule save_then_follows, goal_cases)
      case 1
      show ?case by (rule \<open>api_inv u\<close>)
    next
      case 2
      show ?case
        by (intro settled.api_reads settled.moves_copy settled.moves_on_world settled.clocked
            settled.observed settled.logged) simp
    next
      case (3 j0)
      with hand assms(3) have "job_change abort j0 (transitioned_job target now completed job)"
        by (simp add: in_hand_def transitioned_job_def job_change_def same_subject_def)
      then show ?case by blast
    qed
  qed
qed

lemma attempted_transition:
  "attempt (transition e DEFAULT_STATE_MACHINE k a b act aid reason corr trace d) w = (Inr (Inr res), v) \<Longrightarrow>
    job_step a b"
  using transition_refused [of b a e DEFAULT_STATE_MACHINE k act aid reason corr trace d w]
  by (cases "b \<in> set (allowed_targets a)") (auto simp: attempt_def allowed)

lemma transition_settled:
  "moves api_settled (on_world (attempt (transition e DEFAULT_STATE_MACHINE k a b act aid reason corr trace d)))"
  by (intro settled_world moves_attempt jobs_same_transition inv_kept.moves_transition)

lemma transition_follows: "job_follows abort jid s (snd (api_transition e k target reason details s))"
  unfolding api_transition_def
proof (rule read_job, goal_cases)
  case 1
  show ?case by (simp add: follows_ret)
next
  case (2 job)
  show ?case
    unfolding option.case
  proof (rule settled_then, goal_cases)
    case 1
    show ?case by (rule transition_settled)
  next
    case (2 outcome t)
    show ?case
    proof (cases outcome)
      case (Inr res)
      with 2(1) have step: "job_step (job_st job) target"
        by (auto simp: on_world_def split: prod.splits dest: attempted_transition)
      have "in_hand job k t" using \<open>in_hand job k s\<close> \<open>api_jobs_same s t\<close> by (rule in_hand_same)
      with save_transition_follows [OF \<open>api_inv t\<close> _ step] Inr show ?thesis by simp
    qed (simp add: follows_ret)
  qed
qed

lemma approval_follows: "job_follows abort jid s (snd (api_submit_approval e sv k payload s))"
  unfolding api_submit_approval_def with_job_def
proof (rule read_job, goal_cases)
  case 1
  show ?case by (simp add: follows_ret)
next
  case (2 job)
  show ?case
    unfolding option.case
  proof (rule settled_then, goal_cases)
    case 1
    show ?case by (rule settled.moves_payload)
  next
    case (2 aid t)
    show ?case
    proof (cases "sv_approval sv (with_payload (approval_defaults payload k aid) payload)")
      case (Inl msg)
      then show ?thesis by (simp add: raise_err_def follows.refl)
    next
      case (Inr a)
      show ?thesis
        unfolding Inr sum.case Let_def
      proof (rule settled_seq, goal_cases)
        case 1
        show ?case by (rule settled.moves_copy) simp
      next
        case (2 u)
        show ?case
        proof (rule settled_seq, goal_cases)
          case 1
          show ?case by (intro settled_world step_intros inv_kept.saves) simp
        next
          case (2 v)
          show ?case
          proof (rule read_job, goal_cases)
            case 1
            show ?case by (simp add: raise_err_def follows.refl)
          next
            case (2 j)
            show ?case
              unfolding option.case
            proof (rule save_then_follows, goal_cases)
              case 1
              show ?case by (rule \<open>api_inv v\<close>)
            next
              case 2
              show ?case by (intro settled.api_writes)
            next
              case (3 j0)
              with \<open>in_hand j k v\<close> have "job_change abort j0 (j\<lparr>job_approval_status := A_ACTIVE\<rparr>)"
                by (auto simp: in_hand_def job_change_def same_subject_def)
              then show ?case by blast
            qed
          qed
        qed
      qed
    qed
  qed
qed

text \<open>What follows from every state can be chained.\<close>

lemma settled_moves: "moves api_settled m \<Longrightarrow> moves (job_follows abort jid) m"
  by (simp add: moves_def settled_follows)

lemma transition_moves: "moves (job_follows abort jid) (api_transition e k target reason details)"
  by (simp add: moves_def transition_follows)

lemma executors_settled:
  "moves world_settled (validation_execute cl vx job steps)"
  "moves world_settled (rollback_namespace cl rx job opts)"
  "moves world_settled (rollback_execute cl rx job approvals is opts)"
proof -
  have same: "same_but_audit s t \<Longrightarrow> jobs_same s t" for s t :: world
    by (simp add: jobs_same_def same_but_audit_facts)
  show "moves world_settled (validation_execute cl vx job steps)"
    and rollback: "moves world_settled (rollback_namespace cl rx job opts)"
    by (intro world_settled inv_kept.moves_validation inv_kept.moves_rollback,
        rule moves_mono [OF rollback_logs(2) same] moves_mono [OF rollback_logs(1) same], assumption)+
  then show "moves world_settled (rollback_execute cl rx job approvals is opts)"
    unfolding rollback_execute_def Let_def by (intro moves_if rollback settled.moves_ret)
qed

lemmas settled_parts = settled_moves [OF settled.moves_add_audit] settled_moves [OF settled.moves_outcome]
  settled_moves [OF settled.moves_record_report] settled_moves [OF settled.moves_current]
  settled_moves [OF settled.moves_from_repo] settled_moves [OF settled.moves_api_job]
  settled_moves [OF settled.moves_ensure] settled_moves [OF settled.moves_payload(1)]
  settled_moves [OF settled.moves_payload(2)] settled_moves [OF settled.moves_payload(3)]
  settled_moves [OF settled.moves_api_observation] settled_moves [OF settled.moves_write_memory]
  settled_moves [OF settled.moves_copy] settled_moves [OF settled.moves_on_world]
  executors_settled settled.clocked settled.fresh_id
  follows.moves_ret follows.moves_raise follows.moves_gets follows.moves_lift follows.moves_bind
  follows.moves_seq moves_if moves_case_option moves_case_prod moves_case_sum moves_let

lemma requeue_settled: "moves world_settled (requeue k)"
  by (intro world_settled jobs_same_requeue inv_kept.moves_requeue)

lemma controls_follow: "moves (job_follows abort jid) (api_start_job e sv k)"
  "moves (job_follows abort jid) (api_pause_job e k)"
  "moves (job_follows abort jid) (api_resume_job e k)"
  "moves (job_follows abort jid) (api_cancel_job e k)"
  "moves (job_follows abort jid) (api_request_rollback e k payload)"
  unfolding api_start_job_def api_pause_job_def api_resume_job_def api_cancel_job_def
    api_request_rollback_def with_job_def Let_def
  by (intro transition_moves requeue_settled settled_parts)+

lemma validation_follows: "moves (job_follows abort jid) (api_run_validation e sv k)"
  unfolding api_run_validation_def with_job_def Let_def by (intro settled_parts)

lemma perform_rollback_follows: "moves (job_follows abort jid) (perform_rollback e sv k payload job)"
  unfolding perform_rollback_def Let_def by (intro transition_moves settled_parts)

lemma execute_rollback_follows: "moves (job_follows abort jid) (api_execute_rollback e sv k payload)"
  unfolding api_execute_rollback_def with_job_def
  by (intro perform_rollback_follows transition_moves settled_parts)

lemma save_other_moves: "job_id j \<noteq> jid \<Longrightarrow> moves (job_follows abort jid) (api_save_job j)"
  unfolding moves_def
proof
  fix s assume "job_id j \<noteq> jid"
  with save_follows [of s jid j abort] show "job_follows abort jid s (snd (api_save_job j s))"
    by (cases "api_inv s") (simp_all add: job_follows_def)
qed

text \<open>A program that only runs while the job is not stored.\<close>

definition absent_follows :: "string \<Rightarrow> bool \<Rightarrow> string \<Rightarrow> 'b endpoint \<Rightarrow> bool" where
  "absent_follows k abort jid m \<longleftrightarrow> (\<forall>s. get_job (ag_repo (ap_world s)) k = None \<longrightarrow>
     job_follows abort jid s (snd (m s)))"

lemma absent_bind:
  assumes "moves api_settled m" and "\<And>x. absent_follows k abort jid (f x)"
  shows "absent_follows k abort jid (bind m f)"
  unfolding absent_follows_def
proof (intro allI impI settled_then [OF assms(1)])
  fix s t :: api and x
  assume "get_job (ag_repo (ap_world s)) k = None" "api_jobs_same s t"
  then have "get_job (ag_repo (ap_world t)) k = None" by (simp add: api_jobs_same_def jobs_same_def)
  then show "job_follows abort jid t (snd (f x t))" using assms(2) by (simp add: absent_follows_def)
qed

lemma absent_save:
  assumes "moves api_settled n" and "job_id j = k"
  shows "absent_follows k abort jid (seqp (api_save_job j) n)"
  unfolding absent_follows_def
proof (intro allI impI)
  fix s :: api assume none: "get_job (ag_repo (ap_world s)) k = None"
  show "job_follows abort jid s (snd (seqp (api_save_job j) n s))"
  proof (cases "api_inv s")
    case True
    then show ?thesis by (rule save_then_follows [OF _ assms(1)]) (use none assms(2) in simp)
  qed (simp add: job_follows_def)
qed

lemma revert_job_follows: "moves (job_follows abort jid) (revert_job e payload k ns)"
proof -
  have "absent_follows k abort jid (bind (payload_text payload ''correlation_id'') (\<lambda>corr.
         bind (payload_text payload ''trace_id'') (\<lambda>trace.
         bind (on_world (utc_now e)) (\<lambda>created.
         bind (on_world (utc_now e)) (\<lambda>updated.
         let job = (fresh_job k ''namespace-revert'' ns J_ROLLING_BACK M_EXTERNAL_LLM_CONTROLLED
               created updated)
             \<lparr>job_name := Some ''agent-ai-namespace-revert'', job_correlation_id := corr,
              job_trace_id := trace\<rparr> in
         seqp (api_save_job job)
         (seqp (add_audit e k ''namespace_revert_job_created'' [(''target_namespace'', JStr ns)])
         (ret job)))))))"
    unfolding Let_def
    by (intro absent_bind absent_save settled.moves_on_world settled.clocked settled.api_writes)
       (simp add: fresh_job_def)
  then show ?thesis
    unfolding moves_def revert_job_def
    by (intro allI read_job) (simp_all add: absent_follows_def follows_ret)
qed

lemma revert_follows: "moves (job_follows abort jid) (api_revert_namespace e sv payload)"
  unfolding api_revert_namespace_def finish_revert_def Let_def
  by (intro revert_job_follows transition_moves settled_parts)

text \<open>What the worker's programs do to jobs is legal.\<close>

lemma evolving_moves:
  assumes "\<And>w. repo_inv (ag_repo w) \<Longrightarrow> jobs_evolve abort w (snd (m w))" and "moves inv_kept m"
  shows "moves (job_follows abort jid) (on_world m)"
  unfolding moves_def job_follows_def
proof (intro allI impI)
  fix s assume s: "api_inv s"
  let ?w = "ap_world s" and ?t = "snd (on_world m s)"
  have t: "ap_world ?t = snd (m ?w)" "ap_jobs ?t = ap_jobs s"
    by (simp_all add: on_world_def split: prod.splits)
  have "api_inv ?t"
    using s t movesD [OF assms(2), of ?w]
    by (simp add: api_inv_def inv_kept_def keeps_def copies_keyed_def)
  moreover have "jobs_evolve abort ?w (ap_world ?t)" using assms(1) s t by (simp add: api_inv_def)
  moreover have "(legal_change abort)\<^sup>*\<^sup>* j j' \<Longrightarrow> (job_change abort)\<^sup>*\<^sup>* j j'" for j j'
    by (rule rtranclp_mono [THEN predicate2D]) (auto intro: legal_job_change)
  ultimately show "api_inv ?t \<and> (case get_job (ag_repo ?w) jid of None \<Rightarrow> True
      | Some j \<Rightarrow> (\<exists>j'. get_job (ag_repo (ap_world ?t)) jid = Some j' \<and> (job_change abort)\<^sup>*\<^sup>* j j'))"
    using jobs_evolve_at by (fastforce split: option.splits)
qed

lemma submit_moves: "moves (job_follows True jid) (on_world (submit_instruction e i))"
proof (rule evolving_moves)
  fix w :: world assume "repo_inv (ag_repo w)"
  from jobs_evolve_mono [OF evolve_all [OF submit_evolves [OF this]]]
  show "jobs_evolve True w (snd (submit_instruction e i w))" by simp
qed (rule inv_kept.moves_submit)

lemma save_instruction_settled: "moves world_settled (repo_do (save_instruction i))"
  by (intro world_settled step_intros inv_kept.saves) simp

lemma instruction_follows: "moves (job_follows True jid) (api_submit_instruction e sv k payload)"
  unfolding api_submit_instruction_def route_instruction_def instruction_recorded_def
    refuse_instruction_def with_job_def Let_def
  by (intro submit_moves save_instruction_settled settled_parts) simp_all

lemma tick_follows: "job_follows abort jid s (s\<lparr>ap_world := worker_step e w W_run (ap_world s)\<rparr>)"
proof -
  have "moves (job_follows abort jid) (on_world (run_once e w))"
    by (intro evolving_moves run_once_evolves inv_kept.moves_run_once)
  from movesD [OF this, of s] show ?thesis
    by (simp add: on_world_def split: prod.splits)
qed

text \<open>A new job leaves those with other identifiers alone.\<close>

lemma seed_follows:
  assumes "job_id job \<noteq> jid"
  shows "moves (job_follows abort jid) (seed_job_plan sv job)"
proof -
  have seed: "moves (job_follows abort jid) (on_world (seed_plan (job_id job) plan))" for plan
    by (intro evolving_moves seed_evolves inv_kept.moves_seed)
  have "job_id (with_bundle_root_link job root) \<noteq> jid" for root
    using assms by (simp add: with_bundle_root_link_def)
  then show ?thesis
    unfolding seed_job_plan_def plan_of_bundle_def remember_bundle_def Let_def
    by (intro save_other_moves seed settled_parts) simp_all
qed

text \<open>The identifier a creation uses.\<close>

definition created_id :: "env \<Rightarrow> json dict \<Rightarrow> api \<Rightarrow> string" where
  "created_id e payload s =
     (if truthy (get_or_null payload ''job_id'') then py_str (get_or_null payload ''job_id'')
      else new_id_of e (c_ids (ap_world s)) ''job'')"

lemma create_follows:
  assumes "created_id e payload s \<noteq> jid"
  shows "job_follows abort jid s (snd (create_job e sv payload s))"
  unfolding create_job_def
proof (rule follows.at_bind, goal_cases)
  case 1
  show ?case by (rule settled_follows [OF settled.moves_payload(1)])
next
  case (2 k t)
  then have "k \<noteq> jid"
    using assms by (auto simp: payload_id_def created_id_def on_world_def new_id_def ret_def split: if_splits)
  then show ?case
    unfolding Let_def
    by (intro movesD [where R = "job_follows abort jid"])
       (intro save_other_moves seed_follows settled_parts, simp_all add: fresh_job_def)
qed

section \<open>Every sequence of requests\<close>

definition is_instruction :: "api_op \<Rightarrow> bool" where
  "is_instruction op \<longleftrightarrow> (case op of A_instruction k payload \<Rightarrow> True | _ \<Rightarrow> False)"

definition creates :: "env \<Rightarrow> string \<Rightarrow> api_op \<Rightarrow> api \<Rightarrow> bool" where
  "creates e jid op s \<longleftrightarrow> (case op of A_create payload \<Rightarrow> created_id e payload s = jid | _ \<Rightarrow> False)"

lemma step_follows:
  assumes "\<not> creates e jid op s"
  shows "job_follows (is_instruction op) jid s (api_step e sv op s)"
proof (cases op)
  case (A_create payload)
  with assms create_follows show ?thesis by (simp add: creates_def)
next
  case (A_instruction k payload)
  with movesD [OF instruction_follows] show ?thesis by (simp add: is_instruction_def)
next
  case (A_approval k payload)
  with approval_follows show ?thesis by simp
next
  case A_tick
  with tick_follows [of _ jid s e "sv_worker sv"] show ?thesis by simp
qed (simp_all add: movesD controls_follow validation_follows execute_rollback_follows revert_follows
    settled_follows settled.moves_bundles settled.moves_notes settled.moves_reports)

primrec never_creates :: "env \<Rightarrow> service \<Rightarrow> string \<Rightarrow> api_op list \<Rightarrow> api \<Rightarrow> bool" where
  "never_creates e sv jid [] s = True"
| "never_creates e sv jid (op # ops) s =
     (\<not> creates e jid op s \<and> never_creates e sv jid ops (api_step e sv op s))"

lemma job_follows_mono:
  assumes "job_follows a jid s t" and "a \<Longrightarrow> b"
  shows "job_follows b jid s t"
proof -
  have "(job_change a)\<^sup>*\<^sup>* j j' \<Longrightarrow> (job_change b)\<^sup>*\<^sup>* j j'" for j j'
    by (rule rtranclp_mono [THEN predicate2D]) (use assms(2) in \<open>auto simp: job_change_def\<close>)
  with assms(1) show ?thesis
    unfolding job_follows_def by (fastforce split: option.splits)
qed

lemma run_follows:
  "never_creates e sv jid ops s \<Longrightarrow> job_follows (list_ex is_instruction ops) jid s (api_run e sv ops s)"
proof (induction ops arbitrary: s)
  case (Cons op ops)
  let ?t = "api_step e sv op s" and ?b = "list_ex is_instruction (op # ops)"
  have "job_follows ?b jid s ?t"
    by (rule job_follows_mono [OF step_follows]) (use Cons.prems in simp_all)
  moreover have "job_follows ?b jid ?t (api_run e sv ops ?t)"
    by (rule job_follows_mono [OF Cons.IH]) (use Cons.prems in simp_all)
  ultimately show ?case by (simp add: api_run_def follows.trans)
qed (simp add: api_run_def follows.refl)

lemma job_path:
  "(job_change abort)\<^sup>*\<^sup>* j j' \<Longrightarrow> same_subject j j' \<and>
    (\<lambda>a b. job_step a b \<or> abort \<and> b = J_CANCELLED)\<^sup>*\<^sup>* (job_st j) (job_st j')"
proof (induction rule: rtranclp_induct)
  case (step k l)
  then have "same_subject j l" by (simp add: job_change_def same_subject_def)
  moreover have "job_st l = job_st k \<or> job_step (job_st k) (job_st l) \<or> abort \<and> job_st l = J_CANCELLED"
    using step(2) by (auto simp: job_change_def)
  ultimately show ?case using step(3) by (auto intro: rtranclp.rtrancl_into_rtrancl)
qed simp


section \<open>Inputs of the witnesses\<close>

text \<open>A service that refuses every model, over the stored and queued job of the worker.\<close>

definition demo_service :: service where
  "demo_service =
     \<lparr>sv_worker = demo_worker, sv_host = demo_host, sv_unzip = (\<lambda>bytes. H_missing),
      sv_refusal_text = (\<lambda>refusal. ''refused''), sv_instruction = (\<lambda>d. Inl ''invalid''),
      sv_approval = (\<lambda>d. Inl ''invalid''), sv_policy = (\<lambda>d. Inl ''invalid''),
      sv_background = False, sv_root = ''/artifacts'', sv_upload_root = ''/uploads'',
      sv_max_upload = 64, sv_notes = None\<rparr>"

definition demo_api :: api where
  "demo_api =
     \<lparr>ap_world = demo_world, ap_jobs = [], ap_instructions = [], ap_approvals = [],
      ap_observations = [], ap_audit = [], ap_reports = [], ap_plans = [], ap_memory = [],
      ap_bundles = [], ap_bundle_plans = [], ap_bundle_roots = [], ap_job_bundle_roots = [],
      ap_worker_running = False, ap_uploads = [], ap_sent = []\<rparr>"

lemma demo_api_inv: "api_inv demo_api"
  by (simp add: api_inv_def demo_api_def demo_world_inv copies_keyed_def)

lemma demo_api_job: "get_job (ag_repo (ap_world demo_api)) ''j'' = Some demo_job"
  by (simp add: demo_api_def demo_world_def) (simp add: get_job_def save_job_def repo_change_def
      repo_load_def repo_flush_def empty_snapshot_def demo_job_def demo_exec_job_def dict_simps)


end
