(* ===== verification/ApiAuthority.thy ===== *)
theory ApiAuthority
  imports ApiSafety
begin

text \<open>
  Who may change the cluster through the service: the background worker with the authority of a
  mutation, a confirmed rollback with its approval and its instruction, and a confirmed revert.
\<close>

section \<open>What a rollback rests on stays\<close>

definition grants_same :: "world \<Rightarrow> world \<Rightarrow> bool" where
  "grants_same s t \<longleftrightarrow> get_approvals (ag_repo t) = get_approvals (ag_repo s) \<and>
     get_instructions (ag_repo t) = get_instructions (ag_repo s)"

lemma grants_same_repo_do:
  "(\<And>r. sn_approvals (rp_snap (f r)) = sn_approvals (rp_snap r) \<and>
      sn_instructions (rp_snap (f r)) = sn_instructions (rp_snap r)) \<Longrightarrow>
    moves grants_same (repo_do f)"
  by (simp add: moves_def repo_do_def modify_def grants_same_def fun_eq_iff get_approvals_def
      get_instructions_def)

lemma grants_same_event: "moves grants_same (write_event ev)"
  by (auto simp: moves_def write_event_def audit_write_def append_audit_event_def grants_same_def
      fun_eq_iff get_approvals_def get_instructions_def split: prod.splits)

interpretation grants: transition_relation grants_same "over grants_same"
proof -
  have saves: "moves grants_same (repo_do (save_job j))" "moves grants_same (repo_do (add_observation ob))"
    "moves grants_same (repo_do (save_report r))" for j ob r
    by (rule grants_same_repo_do, simp add: save_defs)+
  have "moves grants_same (utc_now e)" "moves grants_same (new_id e pre)" for e pre
    by (simp_all add: moves_def grants_same_def utc_now_def new_id_def)
  moreover have "step_relation grants_same" "step_relation (over grants_same)"
    by unfold_locales (auto simp: grants_same_def over_def)
  moreover have "moves (over grants_same) (api_save_job j)" for j by (rule over_save [OF saves(1)])
  moreover have "ag_repo v = ag_repo u \<Longrightarrow> grants_same u v" for u v by (simp add: grants_same_def)
  ultimately show "transition_relation grants_same (over grants_same)"
    using grants_same_event saves
    by (simp add: transition_relation_def transition_relation_axioms_def record_relation_def
        record_relation_axioms_def over_def)
qed

section \<open>The job of a request\<close>

definition known_job :: "api \<Rightarrow> string \<Rightarrow> exec_job option" where
  "known_job s jid = (case get_job (ag_repo (ap_world s)) jid of
     Some j \<Rightarrow> Some j | None \<Rightarrow> dict_get (ap_jobs s) jid)"

lemma api_job_known: "api_job jid s = (Inr (known_job s jid), s)"
  by (simp add: api_job_def gets_def known_job_def)

lemma known_job_same: "api_jobs_same s t \<Longrightarrow> known_job t = known_job s"
  by (rule ext) (simp add: known_job_def api_jobs_same_def jobs_same_def split: option.split)

lemma settled_run: "moves api_settled m \<Longrightarrow> m s = (r, t) \<Longrightarrow> api_jobs_same s t \<and> (api_inv s \<longrightarrow> api_inv t)"
  using movesD [of api_settled m s] by (simp add: api_settled_def)

lemma saved_job_known:
  assumes "seqp (api_save_job j) n s = (Inr x, t)" and "moves api_settled n"
  shows "known_job t (job_id j) = Some j"
proof -
  from assms(1) obtain u where save: "api_save_job j s = (Inr (), u)" and rest: "n u = (Inr x, t)"
    by (auto simp: seqp_Inr)
  from save have "known_job u (job_id j) = Some j"
    by (auto simp: api_save_job_def seqp_def bind_def modify_def on_world_def repo_do_def known_job_def
        dict_simps)
  with known_job_same [of u t] settled_run [OF assms(2) rest] show ?thesis by simp
qed

lemma bind_InrE:
  assumes "bind m f s = (Inr y, t)"
  obtains x u where "m s = (Inr x, u)" and "f x u = (Inr y, t)"
  using assms by (auto simp: bind_Inr)

lemma transition_subject:
  assumes "api_inv s" and "known_job s jid = Some job"
    and "api_transition e jid target reason details s = (Inr resp, t)" and "re_ok resp"
  shows "\<exists>j. known_job t jid = Some j \<and> job_target_namespace j = job_target_namespace job"
  using assms(3) [unfolded api_transition_def]
proof (rule bind_InrE, goal_cases)
  case (1 found u)
  then have found: "found = Some job" "u = s" using assms(2) by (simp_all add: api_job_known)
  from 1(2) [unfolded found option.case] show ?case
  proof (rule bind_InrE, goal_cases)
    case (1 outcome v)
    show ?case
    proof (cases outcome)
      case (Inl err)
      with 1(2) assms(4) show ?thesis by (auto simp: ret_def error_response_def)
    next
      case (Inr res)
      from 1(2) [unfolded Inr sum.case save_transition_def] show ?thesis
      proof (rule bind_InrE, goal_cases)
        case (1 now w)
        from 1(2) show ?case
        proof (rule bind_InrE, goal_cases)
          case (1 completed x)
          from 1(2) [unfolded Let_def]
          have "known_job t (job_id (transitioned_job target now completed job)) =
              Some (transitioned_job target now completed job)"
            by (rule saved_job_known)
               (intro settled.api_reads settled.moves_copy settled.moves_on_world settled.clocked
                  settled.observed settled.logged, simp)
          moreover have "job_id job = jid"
            using assms(1,2) api_job_id(1) [of s jid job s] by (simp add: api_job_known)
          ultimately show ?case by (simp add: transitioned_job_def)
        qed
      qed
    qed
  qed
qed

section \<open>Rolling back\<close>

text \<open>The approval and the instruction that a rollback of the job needs are stored.\<close>

definition rollback_granted :: "api \<Rightarrow> string \<Rightarrow> bool" where
  "rollback_granted s jid \<longleftrightarrow>
     list_ex (\<lambda>a. apr_scope a \<in> ROLLBACK_SCOPES) (get_approvals (ag_repo (ap_world s)) jid) \<and>
     list_ex (\<lambda>i. ins_type i = I_ROLLBACK) (get_instructions (ag_repo (ap_world s)) jid)"

lemma rollback_execute_calls:
  "mutating_only (\<lambda>c. rollback_call job opts c \<and> list_ex (\<lambda>a. apr_scope a \<in> ROLLBACK_SCOPES) approvals \<and>
      list_ex (\<lambda>i. ins_type i = I_ROLLBACK) is) w (snd (rollback_execute cl x job approvals is opts w))"
  using rollback_needs_authority [of cl x job approvals "is" opts w]
  by (auto simp: mutating_only_def calls_only_def list_all_iff list_ex_iff split: if_splits)

lemma perform_rollback_calls:
  "over (mutating_only (\<lambda>c. rollback_call job (rollback_request payload) c \<and> rollback_granted s jid)) s
     (snd (perform_rollback e sv jid payload job s))"
  unfolding perform_rollback_def
proof (rule mutating.over.at_bind, goal_cases)
  case 1
  show ?case by (rule movesD [OF mutating.moves_from_repo])
next
  case (2 grants t)
  then have t: "t = s" "grants = (get_approvals (ag_repo (ap_world s)) jid, get_instructions (ag_repo (ap_world s)) jid)"
    by (auto simp: from_repo_def gets_def)
  show ?case
    unfolding t prod.case
  proof (rule mutating.over.at_bind, goal_cases)
    case 1
    show ?case
      using rollback_execute_calls [of job "rollback_request payload"]
      by (simp add: over_def on_world_def rollback_granted_def split: prod.splits) (metis snd_conv)
  next
    case (2 r u)
    show ?case
      unfolding Let_def
      by (rule movesD) (intro mutating.moves_after_rollback mutating.moves_current mutating.api_parts)
  qed
qed

text \<open>The calls a request to roll back may make.\<close>

definition rollback_may_call :: "string \<Rightarrow> json dict \<Rightarrow> api \<Rightarrow> ext_call \<Rightarrow> bool" where
  "rollback_may_call jid payload s c \<longleftrightarrow> get_or_null payload ''confirm'' = JBool True \<and>
     rollback_granted s jid \<and>
     (case known_job s jid of
        None \<Rightarrow> False
      | Some job \<Rightarrow> job_st job \<in> {J_ROLLBACK_REQUESTED, J_ROLLING_BACK} \<and>
          rollback_call job (rollback_request payload) c)"

lemma rollback_call_cong:
  "job_target_namespace j = job_target_namespace job \<Longrightarrow> rollback_call j opts c = rollback_call job opts c"
  by (simp add: rollback_call_def)

lemma mutating_over_mono:
  "over (mutating_only a) s t \<Longrightarrow> (\<And>c. a c \<Longrightarrow> b c) \<Longrightarrow> over (mutating_only b) s t"
  unfolding over_def by (rule mutating_only_weaken)

lemma execute_rollback_calls:
  assumes "api_inv s"
  shows "over (mutating_only (rollback_may_call jid payload s)) s
    (snd (api_execute_rollback e sv jid payload s))"
proof (cases "known_job s jid")
  case None
  then show ?thesis
    by (simp add: api_execute_rollback_def with_job_def bind_def api_job_known ret_def mutating.over.refl)
next
  case (Some job)
  let ?may = "rollback_may_call jid payload s"
  show ?thesis
  proof (cases "get_or_null payload ''confirm'' = JBool True \<and> job_st job \<in> {J_ROLLBACK_REQUESTED, J_ROLLING_BACK}")
    case False
    then have "snd (api_execute_rollback e sv jid payload s) = s"
      using Some by (auto simp: api_execute_rollback_def with_job_def bind_def api_job_known ret_def)
    then show ?thesis by (simp add: mutating.over.refl)
  next
    case True
    have may: "over (mutating_only ?may) t (snd (perform_rollback e sv jid payload j t))"
      if "job_target_namespace j = job_target_namespace job" "rollback_granted t jid = rollback_granted s jid"
      for j t
      by (rule mutating_over_mono [OF perform_rollback_calls])
         (use that True Some in \<open>simp add: rollback_may_call_def rollback_call_cong [OF that(1)]\<close>)
    show ?thesis
    proof (cases "job_st job = J_ROLLBACK_REQUESTED")
      case False
      with True Some may [of job s] show ?thesis
        by (simp add: api_execute_rollback_def with_job_def bind_def api_job_known)
    next
      case requested: True
      let ?start = "api_transition e jid J_ROLLING_BACK ''Rollback execution started.''
         [(''mode'', JStr (text_field payload ''mode'' ''namespace_revert''))]"
      have "over (mutating_only ?may) s (snd (bind ?start (\<lambda>started.
          if \<not> re_ok started then ret started
          else bind (api_job jid) (\<lambda>found.
            perform_rollback e sv jid payload (case found of None \<Rightarrow> job | Some j \<Rightarrow> j))) s))"
      proof (rule mutating.over.at_bind, goal_cases)
        case 1
        show ?case by (rule movesD [OF mutating.moves_api_transition])
      next
        case (2 started t)
        show ?case
        proof (cases "re_ok started")
          case ok: True
          from transition_subject [OF assms Some 2 ok] obtain j where
            j: "known_job t jid = Some j" "job_target_namespace j = job_target_namespace job" by blast
          have "over grants_same s t"
            using movesD [OF grants.moves_api_transition, of s e jid J_ROLLING_BACK] 2 by (metis snd_conv)
          then have "rollback_granted t jid = rollback_granted s jid"
            by (simp add: over_def grants_same_def rollback_granted_def)
          with may [OF j(2)] ok j(1) show ?thesis by (simp add: bind_def api_job_known)
        qed (simp add: ret_def mutating.over.refl)
      qed
      with True Some requested show ?thesis
        by (simp add: api_execute_rollback_def with_job_def bind_def [of "api_job jid"] api_job_known)
    qed
  qed
qed

section \<open>Reverting a namespace\<close>

definition requested_namespace :: "json dict \<Rightarrow> string" where
  "requested_namespace payload = py_str (json_or (json_or (get_or_null payload ''target_namespace'')
     (get_or_null payload ''namespace'')) (JStr []))"

text \<open>The namespace of the job the request names, when there is such a job.\<close>

definition revert_may_call :: "env \<Rightarrow> json dict \<Rightarrow> api \<Rightarrow> ext_call \<Rightarrow> bool" where
  "revert_may_call e payload s c \<longleftrightarrow> get_or_null payload ''confirm'' = JBool True \<and>
     \<not> ro_dry_run (rollback_request payload) \<and>
     call_namespace c = (case known_job s (created_id e payload s) of
       None \<Rightarrow> requested_namespace payload | Some j \<Rightarrow> job_target_namespace j)"

lemma revert_job_namespace:
  assumes "revert_job e payload k ns s = (Inr job, t)"
  shows "job_target_namespace job = (case known_job s k of None \<Rightarrow> ns | Some j \<Rightarrow> job_target_namespace j)"
  using assms
  by (auto simp: revert_job_def bind_Inr seqp_Inr Let_def api_job_known ret_def fresh_job_def
      split: option.splits)

lemma rollback_namespace_mutates:
  "mutating_only (\<lambda>c. call_namespace c = job_target_namespace job \<and> \<not> ro_dry_run opts) w
    (snd (rollback_namespace cl x job opts w))"
  using movesD [OF rollback_namespace_calls, of job opts w cl x]
  by (auto simp: mutating_only_def calls_only_def list_all_iff rollback_call_def split: if_splits)

lemma payload_id_run:
  assumes "payload_id e payload ''job_id'' ''job'' s = (Inr k, t)"
  shows "k = created_id e payload s" and "known_job t = known_job s" and "rt_calls (ap_world t) = rt_calls (ap_world s)"
  using assms settled_run [OF settled.moves_payload(1) assms] known_job_same
  by (auto simp: payload_id_def created_id_def on_world_def new_id_def ret_def split: if_splits)

lemma revert_calls:
  "over (mutating_only (revert_may_call e payload s)) s (snd (api_revert_namespace e sv payload s))"
proof (cases "requested_namespace payload \<noteq> [] \<and> get_or_null payload ''confirm'' = JBool True")
  case False
  then have "snd (api_revert_namespace e sv payload s) = s"
    by (auto simp: api_revert_namespace_def requested_namespace_def Let_def ret_def)
  then show ?thesis by (simp add: mutating.over.refl)
next
  case True
  let ?ns = "requested_namespace payload"
  have "over (mutating_only (revert_may_call e payload s)) s (snd (
    bind (payload_id e payload ''job_id'' ''job'') (\<lambda>jid.
        bind (revert_job e payload jid ?ns) (\<lambda>job.
        bind (on_world (rollback_namespace (wk_clients (sv_worker sv)) full_rollback job
          (rollback_request payload))) (\<lambda>r.
        let data = rollback_payload r in
        seqp (outcome_observation e job (job_id job) Obs_MUTATION_RESULT (rb_success r)
          (''Namespace revert completed for '' @ ?ns @ ''.'') data)
        (seqp (add_audit e (job_id job) ''namespace_reverted''
          [(''target_namespace'', JStr ?ns), (''success'', bool_text (rb_success r))])
        (bind (record_report e sv job R_ROLLBACK_REPORT) (\<lambda>report.
        finish_revert e job r data report)))))) s))"
  proof (rule mutating.over.at_bind, goal_cases)
    case 1
    show ?case by (rule movesD [OF mutating.moves_payload(1)])
  next
    case (2 k t)
    note k = payload_id_run [OF 2]
    show ?case
    proof (rule mutating.over.at_bind, goal_cases)
      case 1
      show ?case by (rule movesD [OF mutating.moves_after_rollback(2)])
    next
      case (2 job u)
      have ns: "job_target_namespace job = (case known_job s (created_id e payload s) of
          None \<Rightarrow> ?ns | Some j \<Rightarrow> job_target_namespace j)"
        using revert_job_namespace [OF 2] k by simp
      show ?case
      proof (rule mutating.over.at_bind, goal_cases)
        case 1
        have "mutating_only (revert_may_call e payload s) (ap_world u)
            (snd (rollback_namespace (wk_clients (sv_worker sv)) full_rollback job
              (rollback_request payload) (ap_world u)))"
          by (rule mutating_only_weaken [OF rollback_namespace_mutates])
             (use True ns in \<open>simp add: revert_may_call_def\<close>)
        then show ?case by (auto simp: over_def on_world_def split: prod.splits)
      next
        case (2 r v)
        show ?case
          unfolding Let_def
          by (rule movesD) (intro mutating.moves_after_rollback mutating.api_parts)
      qed
    qed
  qed
  with True show ?thesis
    unfolding api_revert_namespace_def requested_namespace_def [symmetric] Let_def by simp
qed

section \<open>Every request\<close>

definition op_may_call :: "env \<Rightarrow> service \<Rightarrow> api_op \<Rightarrow> api \<Rightarrow> ext_call \<Rightarrow> bool" where
  "op_may_call e sv op s = (case op of
       A_tick \<Rightarrow> may_call e (sv_worker sv) (ap_world s)
     | A_execute_rollback jid payload \<Rightarrow> rollback_may_call jid payload s
     | A_revert_namespace payload \<Rightarrow> revert_may_call e payload s
     | _ \<Rightarrow> (\<lambda>c. False))"

lemma api_step_calls:
  assumes "api_inv s"
  shows "over (mutating_only (op_may_call e sv op s)) s (api_step e sv op s)"
proof (cases op)
  case A_tick
  have "mutating_only (may_call e (sv_worker sv) (ap_world s)) (ap_world s)
      (worker_step e (sv_worker sv) W_run (ap_world s))"
    by (rule mutating_only_weaken [OF step_calls]) simp
  with A_tick show ?thesis by (simp add: over_def op_may_call_def)
next
  case (A_execute_rollback jid payload)
  with execute_rollback_calls [OF assms] show ?thesis by (simp add: op_may_call_def)
next
  case (A_revert_namespace payload)
  with revert_calls show ?thesis by (simp add: op_may_call_def)
qed (simp_all add: movesD mutating.api_endpoints)

text \<open>
  C1. Whatever is requested of the service, each call that changes the cluster is one of three:
  a tick of the worker makes it with the authority of a mutation; or the rollback of a job was
  confirmed, the job is waiting for it or in it, an approval of a rollback scope and a rollback
  instruction are stored for the job and the call is for its namespace; or the revert of a
  namespace was confirmed, and the call is for the namespace of the job named, or for the
  requested one if there is no such job.
\<close>

theorem service_mutates_only_with_authority:
  assumes "api_inv s"
  shows "\<exists>new. rt_calls (ap_world (api_step e sv op s)) = rt_calls (ap_world s) @ new \<and>
    list_all (op_may_call e sv op s) (filter mutating_call new)"
  using api_step_calls [OF assms, of e sv op]
  by (auto simp: over_def mutating_only_def calls_only_def list_all_iff)

text \<open>A job for which a rollback is requested, approved and instructed.\<close>

definition rollback_world :: world where
  "rollback_world = demo_world\<lparr>ag_repo := save_instruction (demo_instruction I_ROLLBACK)
     (save_approval (demo_approval\<lparr>apr_scope := Scope_ROLLBACK\<rparr>)
     (save_job (demo_job\<lparr>job_st := J_ROLLING_BACK\<rparr>) (ag_repo demo_world)))\<rparr>"

theorem service_mutates_only_with_authority_witness:
  "\<exists>new. rt_calls (ap_world (api_step unit_env demo_service
      (A_execute_rollback ''j'' [(''confirm'', JBool True)]) (demo_api\<lparr>ap_world := rollback_world\<rparr>))) = new \<and>
    list_all (rollback_may_call ''j'' [(''confirm'', JBool True)] (demo_api\<lparr>ap_world := rollback_world\<rparr>))
      (filter mutating_call new)"
proof -
  have "api_inv (demo_api\<lparr>ap_world := rollback_world\<rparr>)"
    using demo_world_inv
    by (simp add: api_inv_def demo_api_def rollback_world_def saved_inv copies_keyed_def)
  from service_mutates_only_with_authority [OF this, where e = unit_env and sv = demo_service
      and op = "A_execute_rollback ''j'' [(''confirm'', JBool True)]"]
  show ?thesis by (simp add: op_may_call_def rollback_world_def demo_world_def)
qed

end
