(* ===== verification/ApiRequests.thy ===== *)
theory ApiRequests
  imports ApiAuthority
begin

text \<open>
  What single requests to the service do: the requests that control a job, and the cases in which
  a request does something else than its name says.
\<close>

section \<open>Control requests\<close>

lemma runs_on_world: "runs (on_world m) s P \<longleftrightarrow> runs m (ap_world s) (\<lambda>x w. P x (s\<lparr>ap_world := w\<rparr>))"
  by (auto simp: runs_def on_world_def split: prod.splits sum.splits)

lemma runs_readings:
  "runs (utc_now e) w P = P (env_clock e (c_tick w)) (w\<lparr>c_tick := Suc (c_tick w)\<rparr>)"
  "runs (new_id e pre) w Q = Q (new_id_of e (c_ids w) pre) (w\<lparr>c_ids := Suc (c_ids w)\<rparr>)"
  by (simp_all add: runs_def utc_now_def new_id_def)

lemma runs_write_memory:
  "(\<And>w ms. ag_repo w = ag_repo (ap_world s) \<Longrightarrow> P () (s\<lparr>ap_world := w, ap_memory := ms\<rparr>)) \<Longrightarrow>
    runs (write_memory e layer jid summary payload scope) s P"
  by (auto simp: runs_def write_memory_def Let_def split: prod.splits)

lemma runs_write_event:
  "aud_id ev \<notin> set (map aud_id (audit_log w)) \<Longrightarrow>
    P () (w\<lparr>ag_repo := repo_change (\<lambda>x. x\<lparr>sn_audit := sn_audit x @ [ev]\<rparr>) (ag_repo w)\<rparr>) \<Longrightarrow>
    runs (write_event ev) w P"
  using write_event_Inr [of ev w] by (simp add: runs_def audit_log_def)

text \<open>The job in its new state, one more audit event, and no other job touched.\<close>

definition recorded :: "api \<Rightarrow> exec_job \<Rightarrow> audit_event \<Rightarrow> api \<Rightarrow> bool" where
  "recorded s j ev t \<longleftrightarrow> get_job (ag_repo (ap_world t)) (job_id j) = Some j \<and>
     (\<forall>k. k = job_id j \<or> get_job (ag_repo (ap_world t)) k = get_job (ag_repo (ap_world s)) k) \<and>
     audit_log (ap_world t) = audit_log (ap_world s) @ [ev]"

lemma runs_clock:
  "(\<And>now w. ag_repo w = ag_repo (ap_world u) \<Longrightarrow> runs (f now) (u\<lparr>ap_world := w\<rparr>) P) \<Longrightarrow>
    runs (bind (on_world (utc_now e)) f) u P"
  by (simp add: runs_bind runs_on_world runs_readings)

lemma runs_completed:
  "(\<And>completed w. ag_repo w = ag_repo (ap_world u) \<Longrightarrow> runs (f completed) (u\<lparr>ap_world := w\<rparr>) P) \<Longrightarrow>
    runs (bind (if b then bind (on_world (utc_now e)) (\<lambda>t. ret (Some t)) else ret c) f) u P"
  by (cases b) (simp_all add: runs_bind [of "ret c"] runs_bind [of "bind m n" for m n] runs_bind
      runs_on_world runs_readings runs_basic, metis api.surjective api.update_convs(1))

lemma save_transition_runs:
  assumes "aud_id (res_audit res) \<notin> set (map aud_id (audit_log (ap_world s)))"
  shows "runs (save_transition e jid job res target reason) s (\<lambda>resp t.
    re_ok resp \<and> re_state resp = Some target \<and>
    (\<exists>now completed. recorded s (transitioned_job target now completed job) (res_audit res) t))"
  unfolding save_transition_def Let_def
proof (intro runs_clock runs_completed, goal_cases)
  case (1 now u completed w)
  let ?j = "transitioned_job target now completed job"
  have fresh: "aud_id (res_audit res) \<notin> set (map aud_id (audit_log v))"
    if "audit_log v = audit_log (ap_world s)" for v :: world using assms that by simp
  have rec: "recorded s ?j (res_audit res) t" if "ag_repo (ap_world t) = repo_change
      (\<lambda>x. x\<lparr>sn_audit := sn_audit x @ [res_audit res]\<rparr>) (add_observation ob (save_job ?j (ag_repo (ap_world s))))"
    for t ob
    using that by (auto simp: recorded_def audit_log_def get_job_def save_defs dict_simps)
  show ?case
    using 1
    by (simp add: runs_seqp api_save_job_def runs_on_world runs_basic)
       (intro runs_write_event fresh runs_write_memory,
        simp_all add: audit_log_def save_defs runs_basic ok_response_def,
        intro exI, rule rec [where ob = "res_observation res"], simp add: save_defs)
qed

text \<open>
  C3. A request to control a job is answered exactly as the transition table says: if the target
  is allowed from the state of the job, the job is in it afterwards, every other job is as it was
  and one audit event more is recorded, that of the transition; if it is not, the request is
  refused with the state the job is in and nothing has changed. No request is answered for a job
  that is not known.
\<close>

theorem control_request_is_exact:
  assumes "new_id_of e (Suc (c_ids (ap_world s))) ''audit'' \<notin>
    set (map aud_id (sn_audit (rp_snap (ag_repo (ap_world s)))))"
  shows "\<exists>resp t. api_transition e jid target reason details s = (Inr resp, t) \<and>
    (case known_job s jid of
       None \<Rightarrow> \<not> re_ok resp \<and> t = s
     | Some job \<Rightarrow>
         if target \<in> set (allowed_targets (job_st job))
         then re_ok resp \<and> re_state resp = Some target \<and>
           (\<exists>j ev. recorded s j ev t \<and> job_st j = target \<and> same_subject job j \<and>
             aud_action ev = ''job_state_transition'' \<and> aud_job_id ev = Some jid)
         else \<not> re_ok resp \<and> re_state resp = Some (job_st job) \<and> t = s)"
proof (cases "known_job s jid")
  case None
  then show ?thesis
    by (simp add: api_transition_def bind_def api_job_known ret_def not_found_def error_response_def)
next
  case (Some job)
  show ?thesis
  proof (cases "target \<in> set (allowed_targets (job_st job))")
    case False
    then have "transition e DEFAULT_STATE_MACHINE jid (job_st job) target Act_WORKER None (Some reason)
        (job_correlation_id job) (job_trace_id job) details (ap_world s) =
      (Inl (InvalidTransition (job_st job) target), ap_world s)"
      by (rule transition_Inl)
    with Some False show ?thesis
      by (simp add: api_transition_def bind_def api_job_known on_world_def attempt_def ret_def
          error_response_def)
  next
    case True
    let ?w = "(ap_world s)\<lparr>c_tick := c_tick (ap_world s) + 3, c_ids := c_ids (ap_world s) + 2\<rparr>"
    obtain res where run: "transition e DEFAULT_STATE_MACHINE jid (job_st job) target Act_WORKER None
          (Some reason) (job_correlation_id job) (job_trace_id job) details (ap_world s) = (Inr res, ?w)"
      and res: "aud_job_id (res_audit res) = Some jid" "aud_action (res_audit res) = ''job_state_transition''"
        "aud_id (res_audit res) = new_id_of e (Suc (c_ids (ap_world s))) ''audit''"
      using transition_default [OF True] by metis
    let ?s = "s\<lparr>ap_world := ?w\<rparr>"
    have "aud_id (res_audit res) \<notin> set (map aud_id (audit_log (ap_world ?s)))"
      using assms res(3) by (simp add: audit_log_def)
    from save_transition_runs [OF this, of e jid job target reason] obtain resp t now completed where
      save: "save_transition e jid job res target reason ?s = (Inr resp, t)" "re_ok resp"
        "re_state resp = Some target"
      and rec: "recorded ?s (transitioned_job target now completed job) (res_audit res) t"
      unfolding runs_iff by blast
    have "api_transition e jid target reason details s = (Inr resp, t)"
      using run save(1) Some
      by (simp add: api_transition_def bind_def api_job_known on_world_def attempt_def)
    moreover have "recorded s (transitioned_job target now completed job) (res_audit res) t"
      using rec by (simp add: recorded_def audit_log_def)
    moreover have "job_st (transitioned_job target now completed job) = target"
      "same_subject job (transitioned_job target now completed job)"
      by (simp_all add: transitioned_job_def same_subject_def)
    ultimately show ?thesis using Some True save(2,3) res(1,2) by auto
  qed
qed

lemma demo_known: "known_job demo_api ''j'' = Some demo_job"
  using demo_api_job by (simp add: known_job_def)

theorem control_request_is_exact_witness:
  "\<exists>resp t. api_transition unit_env ''j'' J_CANCELLED ''Job cancel requested.'' [] demo_api = (Inr resp, t) \<and>
    re_ok resp \<and> (\<exists>j. get_job (ag_repo (ap_world t)) ''j'' = Some j \<and> job_st j = J_CANCELLED)"
proof -
  have "sn_audit (rp_snap (ag_repo (ap_world demo_api))) = []"
    by (simp add: demo_api_def demo_world_def) (simp add: save_defs repo_load_def empty_snapshot_def)
  then have "new_id_of unit_env (Suc (c_ids (ap_world demo_api))) ''audit'' \<notin>
      set (map aud_id (sn_audit (rp_snap (ag_repo (ap_world demo_api)))))" by simp
  from control_request_is_exact [OF this, of "''j''" J_CANCELLED "''Job cancel requested.''" "[]"]
  show ?thesis
    by (auto simp: demo_known demo_job_def allowed_targets_def recorded_def same_subject_def
        demo_exec_job_def)
qed

section \<open>Requests that surprise\<close>

text \<open>
  Resuming looks at the service's copy of the job alone: a copy that is paused sends the job into
  execution, whatever its mode and whatever was approved; with a copy that the pause has not
  reached the request aims at a state that a paused job cannot enter, and is refused.
\<close>

lemma resume_goes_by_the_copy:
  assumes "dict_get (ap_jobs s) jid = Some copy"
  shows "api_resume_job e jid s =
    api_transition e jid (if job_st copy = J_PAUSED then J_EXECUTING else J_AWAITING_LLM_INSTRUCTION)
      ''Job resume requested.'' [] s"
    and "J_EXECUTING \<in> set (allowed_targets J_PAUSED)"
    and "J_AWAITING_LLM_INSTRUCTION \<notin> set (allowed_targets J_PAUSED)"
  using assms by (simp_all add: api_resume_job_def bind_def gets_def allowed_targets_def)

text \<open>
  The decisions the worker asks for are stored in the repository, and the endpoint that returns
  the next one does not look there.
\<close>

lemma worker_decisions_are_not_returned:
  assumes "known_job s jid = Some job" and "job_st job \<noteq> J_DECISION_REQUIRED"
    and "dict_get (ap_observations s) jid = None"
  shows "\<exists>resp. api_next_required_decision e jid s = (Inr resp, s) \<and> re_next_decision resp = None"
  using assms
  by (simp add: api_next_required_decision_def with_job_def bind_def api_job_known gets_def ret_def
      known_memory_def latest_decision_def)

text \<open>
  A plan that was loaded for a bundle stays in force: neither a new registration under the same
  identifier nor a failed validation removes it, and it is not checked for the namespace of the job.
\<close>

definition plans_kept :: "api \<Rightarrow> api \<Rightarrow> bool" where
  "plans_kept s t \<longleftrightarrow> ap_bundle_plans t = ap_bundle_plans s"

interpretation plans_kept: step_relation plans_kept
  by unfold_locales (simp_all add: plans_kept_def)

lemma register_keeps_plans: "moves plans_kept (register_bundle e sv payload)"
proof -
  have worlds: "moves plans_kept (on_world m)" for m :: "'b work"
    by (auto simp: moves_def plans_kept_def on_world_def split: prod.splits)
  have store: "moves plans_kept (store_upload e path digest bytes)" for path digest bytes
    by (simp add: moves_def plans_kept_def store_upload_def modify_def split: option.splits)
  have set: "moves plans_kept (set_bundle bid d)" for bid d
    by (simp add: moves_def plans_kept_def set_bundle_def modify_def)
  have "moves plans_kept (materialize_source e sv source)" for source
    by (cases source) (auto simp: materialize_source_def intro!: store plans_kept.moves_bind
        plans_kept.moves_seq plans_kept.moves_lift plans_kept.moves_ret moves_case_prod)
  then show ?thesis
    unfolding register_bundle_def payload_id_def Let_def
    by (intro plans_kept.moves_bind moves_if)
       (auto intro!: plans_kept.moves_bind plans_kept.moves_seq plans_kept.moves_ret
          plans_kept.moves_raise moves_attempt worlds set split: sum.splits py_error.splits)
qed

lemma loaded_plan_stays:
  assumes "dict_get (ap_bundle_plans s) (job_bundle_id job) = Some plan"
    and "dict_get (ap_bundle_roots s) (job_bundle_id job) = Some root"
  shows "plan_of_bundle sv job s = (Inr (Some (plan, root)), s)"
    and "ap_bundle_plans (snd (register_bundle e sv payload s)) = ap_bundle_plans s"
  using assms movesD [OF register_keeps_plans, of s e sv payload]
  by (simp_all add: plan_of_bundle_def Let_def bind_def gets_def ret_def plans_kept_def)

text \<open>An upload that is refused is reported as a bundle that is not there.\<close>

lemma refused_upload_is_reported_missing:
  assumes "truthy (get_or_null payload ''bundle_id'')"
    and "materialize_source e sv (json_or (get_or_null payload ''source'') default_source) s =
      (Inl (ValueError msg), s)"
    and "dict_get (ap_bundles s) (py_str (get_or_null payload ''bundle_id'')) = None"
  shows "validate_bundle e sv None payload s =
    (Inr (for_bundle (py_str (get_or_null payload ''bundle_id'')) (not_found ''Bundle not found.'' None)), s)"
  using assms
  by (simp add: validate_bundle_def register_bundle_def payload_id_def bind_def ret_def attempt_def
      for_bundle_def gets_def)

text \<open>The payload of a rollback request is recorded in the audit log as it was given.\<close>

lemma request_details_are_logged_as_given:
  "dict_get (rev details) k = Some v \<Longrightarrow> dict_get (aud_details (transition_audit aid now t details)) k = Some v"
  by (simp add: transition_audit_def dict_get_update)

end
