(* ===== verification/WorkerFairness.thy ===== *)
theory WorkerFairness
  imports WorkerFrames
begin

text \<open>
  Every queued job gets its turn: whatever happens, a worker only takes jobs from the head of
  its queue and only adds jobs at the end.
\<close>

section \<open>The queue grows at its end\<close>

definition queue_grows :: "world \<Rightarrow> world \<Rightarrow> bool" where
  "queue_grows s t \<longleftrightarrow> (\<exists>new. jq_queue (w_queue t) = jq_queue (w_queue s) @ new)"

lemma queue_grows_same: "w_queue t = w_queue s \<Longrightarrow> queue_grows s t"
  by (simp add: queue_grows_def)

interpretation growing: step_relation queue_grows
  by unfold_locales (auto simp: queue_grows_def)

lemma growing_frame: "(\<And>s. w_queue (snd (m s)) = w_queue s) \<Longrightarrow> moves queue_grows m"
  by (simp add: moves_def queue_grows_same)

interpretation growing: executor_relation queue_grows
  by unfold_locales
     (rule growing_frame; simp add: utc_now_def new_id_def mcp_call_def write_event_def split: prod.splits)+

interpretation growing: worker_relation queue_grows
proof
  fix jid show "moves queue_grows (queue_job jid)"
    by (auto simp: moves_def queue_grows_def queue_job_def enqueue_def split: prod.splits if_splits)
qed (simp_all add: queue_grows_same growing.moves_dry_execute growing.moves_mutation_execute
    growing_frame utc_now_def new_id_def repo_do_def modify_def write_event_def split: prod.splits)

lemma enqueue_grows: "\<exists>new. jq_queue (snd (enqueue jid q)) = jq_queue q @ new"
  by (simp add: enqueue_def)

lemma rehydrate_grows: "\<exists>new. jq_queue (snd (rehydrate_from js q)) = jq_queue q @ new"
proof (induction js arbitrary: q)
  case (Cons j js)
  obtain added q1 where q1: "enqueue (job_id j) q = (added, q1)" by force
  from enqueue_grows [of "job_id j" q] q1 Cons.IH [of q1] Cons.IH [of q] show ?case
    by (auto split: prod.splits)
qed simp

lemma recover_grows: "queue_grows s (snd (recover_restartable_jobs e w s))"
  unfolding recover_restartable_jobs_def
proof (rule growing.at_bind)
  show "queue_grows s (snd (reconcile_after_restart e w s))"
    by (rule movesD, rule growing.moves_reconcile)
  fix n t
  show "queue_grows t (snd (case rehydrate (ag_repo t) (w_queue t) of
      (n, q) \<Rightarrow> (Inr n, t\<lparr>w_queue := q\<rparr>)))"
    using rehydrate_grows [of "sort_key job_created_at (list_jobs (ag_repo t))" "w_queue t"]
    by (auto simp: queue_grows_def rehydrate_def split: prod.splits)
qed

lemma other_step_grows: "op \<noteq> W_run \<Longrightarrow> queue_grows s (worker_step e w op s)"
  by (cases "op = W_recover") (simp_all add: growing.quiet_method recover_grows)

lemma run_step_advances:
  assumes "jq_queue (w_queue s) = x # xs"
  shows "\<exists>new. jq_queue (w_queue (worker_step e w W_run s)) = xs @ new"
proof -
  obtain q where q: "dequeue (w_queue s) = (Some x, q)" "jq_queue q = xs"
    using assms by (simp add: dequeue_def)
  have "queue_grows (s\<lparr>w_queue := q\<rparr>) (snd (process_job e w x (s\<lparr>w_queue := q\<rparr>)))"
    by (rule movesD, rule growing.moves_process)
  with q show ?thesis by (simp add: run_once_def bind_def queue_grows_def)
qed

section \<open>Turns\<close>

lemma turn_comes:
  assumes "k < length (jq_queue (w_queue s))" and "k < length (filter (\<lambda>op. op = W_run) ops)"
  shows "\<exists>pre post q. ops = pre @ W_run # post \<and> length (filter (\<lambda>op. op = W_run) pre) = k \<and>
    dequeue (w_queue (worker_run e w pre s)) = (Some (jq_queue (w_queue s) ! k), q)"
  using assms
proof (induction ops arbitrary: s k)
  case (Cons op ops)
  obtain x xs where xs: "jq_queue (w_queue s) = x # xs"
    using Cons.prems(1) by (cases "jq_queue (w_queue s)") auto
  let ?t = "worker_step e w op s"
  show ?case
  proof (cases "op = W_run \<and> k = 0")
    case True
    with xs have "op # ops = [] @ W_run # ops" and "\<exists>q. dequeue (w_queue s) = (Some x, q)"
      by (simp_all add: dequeue_def)
    with xs True show ?thesis
      by (intro exI [of _ "[]"] exI [of _ ops]) (simp add: worker_run_def)
  next
    case False
    define k' where "k' = (if op = W_run then k - 1 else k)"
    obtain new where "jq_queue (w_queue ?t) = (if op = W_run then xs else x # xs) @ new"
      using run_step_advances [OF xs] other_step_grows [of op s e w] xs
      by (cases "op = W_run") (auto simp: queue_grows_def)
    then have at: "k' < length (jq_queue (w_queue ?t))"
      "jq_queue (w_queue ?t) ! k' = jq_queue (w_queue s) ! k"
      using False xs Cons.prems(1) by (auto simp: k'_def nth_append)
    have "k' < length (filter (\<lambda>op. op = W_run) ops)"
      using False Cons.prems(2) by (auto simp: k'_def split: if_splits)
    from Cons.IH [OF at(1) this] at(2) obtain pre post q where split: "ops = pre @ W_run # post"
      "length (filter (\<lambda>op. op = W_run) pre) = k'"
      "dequeue (w_queue (worker_run e w pre ?t)) = (Some (jq_queue (w_queue s) ! k), q)" by auto
    then have "op # ops = (op # pre) @ W_run # post"
      "length (filter (\<lambda>op. op = W_run) (op # pre)) = k"
      "dequeue (w_queue (worker_run e w (op # pre) s)) = (Some (jq_queue (w_queue s) ! k), q)"
      using False by (auto simp: k'_def worker_run_def)
    then show ?thesis by blast
  qed
qed simp

lemma run_once_at: "dequeue (w_queue s) = (Some jid, q) \<Longrightarrow>
    run_once e w s = process_job e w jid (s\<lparr>w_queue := q\<rparr>)"
  by (simp add: run_once_def bind_def)

text \<open>
  C24. No job starves: a job with \<open>k\<close> jobs before it in the queue is the one processed by
  the tick number \<open>k + 1\<close>, whatever requests, instructions, approvals, restarts and requeues
  come in between.
\<close>

theorem queued_job_gets_its_turn:
  assumes "k < length (jq_queue (w_queue s))" and "jq_queue (w_queue s) ! k = jid"
    and "k < length (filter (\<lambda>op. op = W_run) ops)"
  shows "\<exists>pre post q. ops = pre @ W_run # post \<and> length (filter (\<lambda>op. op = W_run) pre) = k \<and>
    run_once e w (worker_run e w pre s)
      = process_job e w jid ((worker_run e w pre s)\<lparr>w_queue := q\<rparr>)"
  using turn_comes [OF assms(1,3), of e w] assms(2) run_once_at by blast

theorem queued_job_gets_its_turn_witness:
  "\<exists>pre post q. demo_ops = pre @ W_run # post \<and> length (filter (\<lambda>op. op = W_run) pre) = 0 \<and>
    run_once unit_env demo_worker (worker_run unit_env demo_worker pre demo_world)
      = process_job unit_env demo_worker ''j''
          ((worker_run unit_env demo_worker pre demo_world)\<lparr>w_queue := q\<rparr>)"
  by (rule queued_job_gets_its_turn)
     (simp_all add: demo_world_def enqueue_def new_queue_def demo_ops_def numeral_eq_Suc)

end
