(* ===== verification/JsonText.thy ===== *)
theory JsonText
  imports Json
begin

text \<open>
  The text of decoded values: \<open>json.dumps\<close> with any layout of white space (the default one and
  that of \<open>indent=2\<close>), and \<open>json.loads\<close>, which reads such a text back. Texts with floating point
  numbers or characters above 255 are outside the model: they are not read.
\<close>

section \<open>Decimal digits\<close>

definition digit_value :: "char \<Rightarrow> nat" where
  "digit_value c = nat (char_code c - 48)"

definition nat_of_digits :: "string \<Rightarrow> nat" where
  "nat_of_digits s = foldl (\<lambda>n c. 10 * n + digit_value c) 0 s"

lemma digit_char_cases: "digit_char n \<in> set ''0123456789''"
proof -
  have "n mod 10 < length ''0123456789''" by simp
  then show ?thesis unfolding digit_char_def by (rule nth_mem)
qed

lemma is_digit_digit_char [simp]: "is_digit (digit_char n)"
proof -
  have "list_all is_digit ''0123456789''" by (simp add: is_digit_def char_code_def)
  then show ?thesis using digit_char_cases [of n] by (simp only: list_all_iff)
qed

lemma digit_value_digit_char: "n < 10 \<Longrightarrow> digit_value (digit_char n) = n"
proof -
  assume "n < 10"
  then have "n \<in> set [0, 1, 2, 3, 4, 5, 6, 7, 8, 9]" by auto
  then show ?thesis by (auto simp: digit_value_def digit_char_def char_code_def)
qed

lemma nat_str_digits: "list_all is_digit (nat_str n)"
proof (induction n rule: nat_str.induct)
  case (1 n)
  show ?case by (subst nat_str.simps) (simp add: 1)
qed

lemma nat_of_digits_snoc: "nat_of_digits (s @ [c]) = 10 * nat_of_digits s + digit_value c"
  by (simp add: nat_of_digits_def)

lemma nat_of_digits_nat_str [simp]: "nat_of_digits (nat_str n) = n"
proof (induction n rule: nat_str.induct)
  case (1 n)
  show ?case
  proof (cases "n < 10")
    case True
    then show ?thesis
      by (subst nat_str.simps) (simp add: nat_of_digits_def digit_value_digit_char)
  next
    case False
    have "digit_char n = digit_char (n mod 10)" by (simp add: digit_char_def)
    then have "digit_value (digit_char n) = n mod 10"
      by (simp only:) (simp add: digit_value_digit_char)
    with False 1 show ?thesis by (subst nat_str.simps) (simp add: nat_of_digits_snoc)
  qed
qed

lemma hd_nat_str: "hd (nat_str n) = CHR ''0'' \<Longrightarrow> n = 0"
proof (induction n rule: nat_str.induct)
  case (1 n)
  show ?case
  proof (cases "n < 10")
    case True
    with 1(2) have "digit_char n = CHR ''0''" by (subst (asm) nat_str.simps) simp
    then have "digit_value (digit_char n) = 0" by (simp add: digit_value_def char_code_def)
    with True show ?thesis by (simp add: digit_value_digit_char)
  next
    case False
    with 1(2) have "hd (nat_str (n div 10)) = CHR ''0''" by (subst (asm) nat_str.simps) simp
    with 1(1) False show ?thesis by simp
  qed
qed

section \<open>json.dumps\<close>

text \<open>
  The white space of a layout: after a comma, after a colon, and after an opening bracket and
  before a closing one at a level of nesting.
\<close>

record layout =
  la_comma :: "nat \<Rightarrow> string"
  la_colon :: string
  la_pad :: "nat \<Rightarrow> string"

text \<open>The separators by default, those of \<open>(",", ":")\<close>, and \<open>indent=2\<close>.\<close>

definition default_layout :: layout where
  "default_layout = \<lparr>la_comma = (\<lambda>n. '' ''), la_colon = '' '', la_pad = (\<lambda>n. [])\<rparr>"

definition compact_layout :: layout where
  "compact_layout = \<lparr>la_comma = (\<lambda>n. []), la_colon = [], la_pad = (\<lambda>n. [])\<rparr>"

definition new_line :: "nat \<Rightarrow> string" where
  "new_line n = char_of (10 :: int) # replicate (2 * n) (CHR '' '')"

definition indent_layout :: layout where
  "indent_layout = \<lparr>la_comma = new_line, la_colon = '' '', la_pad = new_line\<rparr>"

fun dumps_in :: "layout \<Rightarrow> nat \<Rightarrow> json \<Rightarrow> string" where
  "dumps_in l n JNull = ''null''"
| "dumps_in l n (JBool b) = (if b then ''true'' else ''false'')"
| "dumps_in l n (JInt i) = int_str i"
| "dumps_in l n (JStr s) = dumps_str s"
| "dumps_in l n (JArr xs) =
     (if xs = [] then ''[]''
      else ''['' @ la_pad l (Suc n) @
        str_join ('','' @ la_comma l (Suc n)) (map (dumps_in l (Suc n)) xs) @ la_pad l n @ '']'')"
| "dumps_in l n (JObj d) =
     (if d = [] then ''{}''
      else ''{'' @ la_pad l (Suc n) @
        str_join ('','' @ la_comma l (Suc n))
          (map (\<lambda>kv. dumps_str (fst kv) @ '':'' @ la_colon l @ dumps_in l (Suc n) (snd kv)) d)
        @ la_pad l n @ ''}'')"

lemma compact_layout_simps [simp]:
  "la_comma compact_layout n = []" "la_colon compact_layout = []" "la_pad compact_layout n = []"
  by (simp_all add: compact_layout_def)

lemma dumps_in_compact: "dumps_in compact_layout n v = dumps v"
proof (induction v arbitrary: n)
  case (JArr xs)
  then have "map (dumps_in compact_layout (Suc n)) xs = map dumps xs" by simp
  then show ?case by (simp del: map_eq_conv)
next
  case (JObj d)
  have "dumps_in compact_layout (Suc n) (snd kv) = dumps (snd kv)" if "kv \<in> set d" for kv
    using JObj [of kv "snd kv" "Suc n"] that by (cases kv) simp
  then have "map (\<lambda>kv. dumps_str (fst kv) @ '':'' @ dumps_in compact_layout (Suc n) (snd kv)) d
    = map (\<lambda>kv. dumps_str (fst kv) @ '':'' @ dumps (snd kv)) d" by simp
  then show ?case by (simp del: map_eq_conv)
qed simp_all

text \<open>\<open>json.dumps(v, sort_keys=True)\<close>, also with \<open>indent=2\<close>.\<close>

definition dumps_default :: "json \<Rightarrow> string" where
  "dumps_default v = dumps_in default_layout 0 (sort_keys v)"

definition dumps_indent :: "json \<Rightarrow> string" where
  "dumps_indent v = dumps_in indent_layout 0 (sort_keys v)"

section \<open>json.loads\<close>

definition json_space :: "char \<Rightarrow> bool" where
  "json_space c \<longleftrightarrow> char_code c \<in> {32, 9, 10, 13}"

definition skip_space :: "string \<Rightarrow> string" where
  "skip_space s = dropWhile json_space s"

definition hex_value :: "char \<Rightarrow> int option" where
  "hex_value c =
     (let n = char_code c in
      if 48 \<le> n \<and> n \<le> 57 then Some (n - 48)
      else if 97 \<le> n \<and> n \<le> 102 then Some (n - 87)
      else if 65 \<le> n \<and> n \<le> 70 then Some (n - 55)
      else None)"

text \<open>The character of \<open>\uXXXX\<close>, up to 255.\<close>

definition unicode_char :: "char \<Rightarrow> char \<Rightarrow> char \<Rightarrow> char \<Rightarrow> char option" where
  "unicode_char a b c d =
     (case (hex_value a, hex_value b, hex_value c, hex_value d) of
        (Some i, Some j, Some x, Some y) \<Rightarrow>
          if i = 0 \<and> j = 0 then Some (char_of (16 * x + y)) else None
      | _ \<Rightarrow> None)"

definition escape_char :: "char \<Rightarrow> char option" where
  "escape_char c =
     map_of [(CHR 0x22, CHR 0x22), (CHR 0x5C, CHR 0x5C), (CHR ''/'', CHR ''/''), (CHR ''b'', CHR 0x08),
       (CHR ''f'', CHR 0x0C), (CHR ''n'', CHR 0x0A), (CHR ''r'', CHR 0x0D), (CHR ''t'', CHR 0x09)] c"

text \<open>What follows a backslash: the character meant, and what follows it.\<close>

definition read_escape :: "string \<Rightarrow> (char \<times> string) option" where
  "read_escape s =
     (case s of
        [] \<Rightarrow> None
      | x # t \<Rightarrow>
          if x = CHR ''u''
          then (case t of
             a # b # y # z # u \<Rightarrow> map_option (\<lambda>ch. (ch, u)) (unicode_char a b y z)
           | _ \<Rightarrow> None)
          else map_option (\<lambda>ch. (ch, t)) (escape_char x))"

lemma read_escape_shorter: "read_escape s = Some (ch, t) \<Longrightarrow> length t < length s"
  by (auto simp: read_escape_def split: list.splits if_splits)

text \<open>The text up to the closing quote, and what follows it.\<close>

definition read_first :: "char \<Rightarrow> (string \<times> string) option \<Rightarrow> (string \<times> string) option" where
  "read_first c r = map_option (\<lambda>(t, rest). (c # t, rest)) r"

function read_text :: "string \<Rightarrow> (string \<times> string) option" where
  "read_text [] = None"
| "read_text (c # s) =
     (if c = CHR 0x22 then Some ([], s)
      else if c = CHR 0x5C
      then (case read_escape s of None \<Rightarrow> None | Some (ch, t) \<Rightarrow> read_first ch (read_text t))
      else if char_code c < 32 then None
      else read_first c (read_text s))"
  by pat_completeness auto
termination
  by (relation "measure length") (auto dest: read_escape_shorter)

text \<open>An integer; a number that goes on as a floating point number is not read.\<close>

definition leading_digits :: "string \<Rightarrow> string" where
  "leading_digits s = (if starts_with s ''0'' then ''0'' else takeWhile is_digit s)"

definition read_digits :: "string \<Rightarrow> (nat \<times> string) option" where
  "read_digits s =
     (let ds = leading_digits s; rest = drop (length ds) s in
      if ds = [] \<or> starts_with rest ''.'' \<or> starts_with rest ''e'' \<or> starts_with rest ''E''
      then None else Some (nat_of_digits ds, rest))"

definition read_int :: "string \<Rightarrow> (int \<times> string) option" where
  "read_int s =
     (case s of
        [] \<Rightarrow> None
      | c # t \<Rightarrow>
          if c = CHR ''-'' then map_option (\<lambda>(n, rest). (- int n, rest)) (read_digits t)
          else map_option (\<lambda>(n, rest). (int n, rest)) (read_digits s))"

text \<open>A word such as \<open>null\<close>.\<close>

definition read_word :: "string \<Rightarrow> json \<Rightarrow> string \<Rightarrow> (json \<times> string) option" where
  "read_word word v s = (if starts_with s word then Some (v, drop (length word) s) else None)"

text \<open>
  A value at the head of a text with what follows it; elements and members go on from those read
  before. The fuel bounds the nesting and the number of elements: the length of the text is enough.
\<close>

definition next_token :: "string \<Rightarrow> (char \<times> string) option" where
  "next_token s = (case skip_space s of [] \<Rightarrow> None | c # t \<Rightarrow> Some (c, t))"

fun json_value :: "nat \<Rightarrow> string \<Rightarrow> (json \<times> string) option"
and json_elements :: "nat \<Rightarrow> json list \<Rightarrow> string \<Rightarrow> (json \<times> string) option"
and json_members :: "nat \<Rightarrow> json dict \<Rightarrow> string \<Rightarrow> (json \<times> string) option" where
  "json_value 0 s = None"
| "json_value (Suc n) s =
     (case s of
        [] \<Rightarrow> None
      | c # t \<Rightarrow>
          if c = CHR 0x22 then map_option (\<lambda>(r, rest). (JStr r, rest)) (read_text t)
          else if c = CHR ''['' then
            Option.bind (next_token t) (\<lambda>(x, rest).
              if x = CHR '']'' then Some (JArr [], rest) else json_elements n [] (x # rest))
          else if c = CHR ''{'' then
            Option.bind (next_token t) (\<lambda>(x, rest).
              if x = CHR ''}'' then Some (JObj [], rest) else json_members n [] (x # rest))
          else if c = CHR ''n'' then read_word ''null'' JNull s
          else if c = CHR ''t'' then read_word ''true'' (JBool True) s
          else if c = CHR ''f'' then read_word ''false'' (JBool False) s
          else map_option (\<lambda>(i, rest). (JInt i, rest)) (read_int s))"
| "json_elements 0 xs s = None"
| "json_elements (Suc n) xs s =
     Option.bind (json_value n s) (\<lambda>(v, r).
     Option.bind (next_token r) (\<lambda>(c, t).
       if c = CHR '','' then json_elements n (xs @ [v]) (skip_space t)
       else if c = CHR '']'' then Some (JArr (xs @ [v]), t)
       else None))"
| "json_members 0 d s = None"
| "json_members (Suc n) d s =
     (case s of
        [] \<Rightarrow> None
      | q # k \<Rightarrow>
          if q \<noteq> CHR 0x22 then None
          else
            Option.bind (read_text k) (\<lambda>(key, r).
            Option.bind (next_token r) (\<lambda>(c, t).
            if c \<noteq> CHR '':'' then None
            else
              Option.bind (json_value n (skip_space t)) (\<lambda>(v, r').
              Option.bind (next_token r') (\<lambda>(c', t').
              if c' = CHR '','' then json_members n (dict_set key v d) (skip_space t')
              else if c' = CHR ''}'' then Some (JObj (dict_set key v d), t')
              else None)))))"

definition json_loads :: "string \<Rightarrow> json option" where
  "json_loads s =
     (let t = skip_space s in
      case json_value (Suc (length t)) t of
        Some (v, rest) \<Rightarrow> if skip_space rest = [] then Some v else None
      | None \<Rightarrow> None)"

section \<open>Reading back a text\<close>

subsection \<open>Characters and strings\<close>

lemma hex_value_hex_digit: "hex_value (hex_digit k) = Some (k mod 16)"
proof -
  have "k mod 16 \<in> set [0, 1, 2, 3, 4, 5, 6, 7, 8, 9, 10, 11, 12, 13, 14, 15]"
    using pos_mod_bound [of 16 k] pos_mod_sign [of 16 k] by (simp, presburger)
  moreover have "list_all (\<lambda>m. hex_value (''0123456789abcdef'' ! nat m) = Some m)
      [0, 1, 2, 3, 4, 5, 6, 7, 8, 9, 10, 11, 12, 13, 14, 15]"
    by (simp add: hex_value_def char_code_def)
  ultimately show ?thesis unfolding hex_digit_def by (simp only: list_all_iff Ball_def)
qed

lemma char_code_range: "0 \<le> char_code c" "char_code c < 256"
proof -
  have "char_code c = int (of_char c)" by (simp only: char_code_def of_nat_of_char)
  then show "0 \<le> char_code c" and "char_code c < 256"
    using nat_of_char_less_256 [of c] by simp_all
qed

lemma char_of_char_code [simp]: "char_of (char_code c) = c"
  by (simp add: char_code_def)

lemma unicode_char_hex:
  "unicode_char (CHR ''0'') (CHR ''0'') (hex_digit (char_code c div 16)) (hex_digit (char_code c)) = Some c"
proof -
  have "hex_value (CHR ''0'') = Some 0" by (simp add: hex_value_def char_code_def)
  moreover have "char_code c div 16 mod 16 = char_code c div 16"
    using char_code_range [of c] by simp
  moreover have "16 * (char_code c div 16) + char_code c mod 16 = char_code c" by simp
  ultimately show ?thesis by (simp add: unicode_char_def hex_value_hex_digit)
qed

declare read_text.simps [simp del]

lemma read_text_escape:
  assumes "x \<noteq> CHR ''u''" and "escape_char x = Some c"
  shows "read_text (CHR 0x5C # x # t) = read_first c (read_text t)"
  using assms by (subst read_text.simps) (simp add: read_escape_def)

lemma read_text_hex:
  "read_text (CHR 0x5C # ''u00'' @ [hex_digit (char_code c div 16), hex_digit (char_code c)] @ t)
    = read_first c (read_text t)"
  by (subst read_text.simps) (simp add: read_escape_def unicode_char_hex)

lemma read_text_plain:
  "c \<noteq> CHR 0x22 \<Longrightarrow> c \<noteq> CHR 0x5C \<Longrightarrow> \<not> char_code c < 32 \<Longrightarrow>
    read_text (c # t) = read_first c (read_text t)"
  by (subst read_text.simps) simp

lemma esc_char_short:
  "list_all (\<lambda>(c, x). esc_char c = [CHR 0x5C, x] \<and> x \<noteq> CHR ''u'' \<and> escape_char x = Some c)
     [(CHR 0x22, CHR 0x22), (CHR 0x5C, CHR 0x5C), (CHR 0x0A, CHR ''n''), (CHR 0x0D, CHR ''r''),
      (CHR 0x09, CHR ''t''), (CHR 0x08, CHR ''b''), (CHR 0x0C, CHR ''f'')]"
  by (simp add: esc_char_def escape_char_def char_code_def char_of_def Let_def)

lemma read_text_esc_char: "read_text (esc_char c @ t) = read_first c (read_text t)"
proof (cases "c \<in> {CHR 0x22, CHR 0x5C, CHR 0x0A, CHR 0x0D, CHR 0x09, CHR 0x08, CHR 0x0C}")
  case True
  then obtain x where "esc_char c = [CHR 0x5C, x]" "x \<noteq> CHR ''u''" "escape_char x = Some c"
    using esc_char_short by auto
  then show ?thesis by (simp add: read_text_escape)
next
  case False
  have "c = char_of n" if "char_code c = n" for n using that char_of_char_code [of c] by simp
  with False have codes: "char_code c \<notin> {34, 92, 10, 13, 9, 8, 12}" by (auto simp: char_of_def)
  show ?thesis
  proof (cases "char_code c < 32 \<or> 126 < char_code c")
    case True
    with codes have "esc_char c =
        CHR 0x5C # ''u00'' @ [hex_digit (char_code c div 16), hex_digit (char_code c)]"
      by (simp add: esc_char_def char_of_def Let_def)
    with read_text_hex [of c t] show ?thesis by simp
  next
    case ascii: False
    with codes have "esc_char c = [c]" by (simp add: esc_char_def)
    with False ascii show ?thesis by (simp add: read_text_plain)
  qed
qed

lemma read_text_dumps:
  "read_text (concat (map esc_char s) @ CHR 0x22 # rest) = Some (s, rest)"
proof (induction s)
  case Nil
  show ?case by (simp add: read_text.simps)
next
  case (Cons c s)
  have "concat (map esc_char (c # s)) @ CHR 0x22 # rest
    = esc_char c @ (concat (map esc_char s) @ CHR 0x22 # rest)" by simp
  with Cons show ?case by (simp only: read_text_esc_char) (simp add: read_first_def)
qed

lemma dumps_str_quoted: "dumps_str s = CHR 0x22 # concat (map esc_char s) @ [CHR 0x22]"
  by (simp add: dumps_str_def quote_double_def char_of_def)

subsection \<open>Numbers\<close>

definition stops :: "string \<Rightarrow> bool" where
  "stops s \<longleftrightarrow> (case s of [] \<Rightarrow> True | c # t \<Rightarrow> \<not> is_digit c \<and> c \<notin> {CHR ''.'', CHR ''e'', CHR ''E''})"

lemma stops_not_float:
  "stops s \<Longrightarrow> \<not> starts_with s ''.'' \<and> \<not> starts_with s ''e'' \<and> \<not> starts_with s ''E''"
  by (cases s) (simp_all add: stops_def starts_with_def)

lemma read_digits_nat_str: "stops rest \<Longrightarrow> read_digits (nat_str n @ rest) = Some (n, rest)"
proof -
  assume rest: "stops rest"
  obtain c t where ct: "nat_str n = c # t" by (cases "nat_str n") simp_all
  have "takeWhile is_digit (nat_str n @ rest) = nat_str n @ takeWhile is_digit rest"
    using nat_str_digits [of n] by (intro takeWhile_append2) (simp add: list_all_iff)
  moreover have "takeWhile is_digit rest = []"
    using rest by (cases rest) (simp_all add: stops_def)
  moreover have "nat_str n = ''0''" if "starts_with (nat_str n @ rest) ''0''"
    using that hd_nat_str [of n] ct by (simp add: starts_with_def) (simp add: nat_str.simps digit_char_def)
  ultimately have "leading_digits (nat_str n @ rest) = nat_str n" by (auto simp: leading_digits_def)
  then show ?thesis using stops_not_float [OF rest] by (simp add: read_digits_def)
qed

lemma nat_str_not_minus: "nat_str n @ rest = c # t \<Longrightarrow> is_digit c"
  using nat_str_digits [of n] by (cases "nat_str n") auto

lemma read_int_int_str: "stops rest \<Longrightarrow> read_int (int_str i @ rest) = Some (i, rest)"
proof (cases "i < 0")
  case True
  assume "stops rest"
  with True show ?thesis by (simp add: read_int_def int_str_def read_digits_nat_str)
next
  case False
  assume rest: "stops rest"
  obtain c t where ct: "nat_str (nat i) @ rest = c # t" by (cases "nat_str (nat i)") simp_all
  then have "c \<noteq> CHR ''-''" using nat_str_not_minus by (force simp: is_digit_def char_code_def)
  with False ct read_digits_nat_str [OF rest, of "nat i"] show ?thesis
    by (simp add: read_int_def int_str_def)
qed

subsection \<open>Values\<close>

definition blank :: "string \<Rightarrow> bool" where
  "blank s \<longleftrightarrow> list_all json_space s"

definition blank_layout :: "layout \<Rightarrow> bool" where
  "blank_layout l \<longleftrightarrow> blank (la_colon l) \<and> (\<forall>n. blank (la_comma l n) \<and> blank (la_pad l n))"

lemma skip_blank: "blank w \<Longrightarrow> skip_space (w @ s) = skip_space s"
  by (simp add: blank_def skip_space_def list_all_iff)

lemma skip_blank_to: "blank w \<Longrightarrow> \<not> json_space c \<Longrightarrow> next_token (w @ c # s) = Some (c, s)"
  by (simp add: next_token_def skip_blank) (simp add: skip_space_def)

lemma brackets_not_space [simp]:
  "\<not> json_space (CHR '']'')" "\<not> json_space (CHR ''}'')" "\<not> json_space (CHR '','')"
  "\<not> json_space (CHR '':'')" "\<not> json_space (CHR 0x22)" "\<not> json_space (CHR ''['')"
  "\<not> json_space (CHR ''{'')" "\<not> json_space (CHR ''n'')" "\<not> json_space (CHR ''t'')"
  "\<not> json_space (CHR ''f'')" "\<not> json_space (CHR ''-'')"
  by (simp_all add: json_space_def char_code_def)

lemma digit_not_space: "is_digit c \<Longrightarrow> \<not> json_space c"
  by (auto simp: is_digit_def json_space_def)

lemma stops_blank:
  assumes "blank w" and "c \<in> {CHR '','', CHR '']'', CHR ''}''}"
  shows "stops (w @ c # s)"
proof (cases w)
  case Nil
  with assms(2) show ?thesis by (auto simp: stops_def is_digit_def char_code_def)
next
  case (Cons x w')
  with assms(1) have "json_space x" by (simp add: blank_def)
  with Cons show ?thesis by (auto simp: stops_def json_space_def is_digit_def char_code_def)
qed

text \<open>The first character of a value.\<close>

definition opens :: "string \<Rightarrow> bool" where
  "opens s \<longleftrightarrow> (\<exists>c t. s = c # t \<and> \<not> json_space c \<and> c \<noteq> CHR '']'' \<and> c \<noteq> CHR ''}'')"

lemma opens_append: "opens s \<Longrightarrow> opens (s @ t)"
  by (auto simp: opens_def)

lemma opens_dumps_str: "opens (dumps_str s)"
  by (simp add: opens_def dumps_str_quoted)

lemma opens_dumps: "opens (dumps_in l n v)"
proof (cases v)
  case (JInt i)
  obtain c t where ct: "nat_str (nat \<bar>i\<bar>) = c # t" by (cases "nat_str (nat \<bar>i\<bar>)") simp_all
  then have "is_digit c" using nat_str_not_minus [of _ "[]"] by simp
  then have "opens (nat_str (nat \<bar>i\<bar>))"
    using ct by (auto simp: opens_def digit_not_space) (auto simp: is_digit_def char_code_def)
  then show ?thesis using JInt by (cases "i < 0") (auto simp: int_str_def, simp add: opens_def)
qed (auto simp: opens_dumps_str, auto simp: opens_def)

lemma opens_skip: "opens s \<Longrightarrow> skip_space s = s"
  by (auto simp: opens_def skip_space_def)

lemma opens_pad: "opens s \<Longrightarrow> blank w \<Longrightarrow> skip_space (w @ s) = s"
  by (simp add: skip_blank opens_skip)

lemma opens_token:
  assumes "opens s" and "blank w"
  obtains c t where "s = c # t" "c \<noteq> CHR '']''" "c \<noteq> CHR ''}''" "next_token (w @ s) = Some (c, t)"
  using assms opens_pad [OF assms] by (auto simp: opens_def next_token_def)

lemma opens_nonempty: "opens s \<Longrightarrow> s \<noteq> []"
  by (auto simp: opens_def)

text \<open>The reading of one value with enough fuel.\<close>

definition reads :: "json \<Rightarrow> string \<Rightarrow> bool" where
  "reads v s \<longleftrightarrow> (\<forall>k rest. length s \<le> k \<longrightarrow> stops rest \<longrightarrow> json_value k (s @ rest) = Some (v, rest))"

lemma readsD: "reads v s \<Longrightarrow> length s \<le> k \<Longrightarrow> stops rest \<Longrightarrow> json_value k (s @ rest) = Some (v, rest)"
  by (simp add: reads_def)

lemma json_elements_read:
  assumes "xs \<noteq> []" and "blank ws" and "blank pad"
    and "\<And>x. x \<in> set xs \<Longrightarrow> reads x (f x) \<and> opens (f x)"
    and "length (str_join ('','' @ ws) (map f xs)) < k"
  shows "json_elements k acc (str_join ('','' @ ws) (map f xs) @ pad @ '']'' @ rest) =
    Some (JArr (acc @ xs), rest)"
  using assms(1,4,5)
proof (induction xs arbitrary: k acc)
  case (Cons x xs)
  obtain m where k: "k = Suc m" using Cons.prems(3) by (cases k) simp_all
  have x: "reads x (f x)" "opens (f x)" using Cons.prems(2) [of x] by simp_all
  show ?case
  proof (cases "xs = []")
    case True
    have "json_value m (f x @ pad @ CHR '']'' # rest) = Some (x, pad @ CHR '']'' # rest)"
      using Cons.prems(3) k True assms(3) by (intro readsD [OF x(1)] stops_blank) simp_all
    with k True assms(3) show ?thesis by (simp add: skip_blank_to)
  next
    case False
    let ?tail = "str_join ('','' @ ws) (map f xs) @ pad @ '']'' @ rest"
    have len: "length (f x) + 1 + length (str_join ('','' @ ws) (map f xs)) < k"
      using Cons.prems(3) False by simp
    have "json_value m (f x @ CHR '','' # ws @ ?tail) = Some (x, CHR '','' # ws @ ?tail)"
      using len k stops_blank [of "[]" "CHR '',''"] by (intro readsD [OF x(1)]) (simp_all add: blank_def)
    moreover have "opens (str_join ('','' @ ws) (map f xs))"
      using Cons.prems(2) False by (cases xs) (auto intro: opens_append)
    then have "skip_space (ws @ ?tail) = ?tail" using assms(2) by (intro opens_pad opens_append)
    moreover have "next_token (CHR '','' # ws @ ?tail) = Some (CHR '','', ws @ ?tail)"
      by (simp add: next_token_def skip_space_def)
    moreover have "json_elements m (acc @ [x]) ?tail = Some (JArr ((acc @ [x]) @ xs), rest)"
      using Cons.prems(2) False len k by (intro Cons.IH) auto
    ultimately show ?thesis using k False by simp
  qed
qed simp

lemma json_members_read:
  assumes "d \<noteq> []" and "blank ws" and "blank colon" and "blank pad"
    and "\<And>kv. kv \<in> set d \<Longrightarrow> reads (snd kv) (f kv) \<and> opens (f kv)"
    and "length (str_join ('','' @ ws) (map (\<lambda>kv. dumps_str (fst kv) @ '':'' @ colon @ f kv) d)) < k"
  shows "json_members k acc
      (str_join ('','' @ ws) (map (\<lambda>kv. dumps_str (fst kv) @ '':'' @ colon @ f kv) d) @ pad @ ''}'' @ rest) =
    Some (JObj (dict_update acc d), rest)"
  using assms(1,5,6)
proof (induction d arbitrary: k acc)
  case (Cons kv d)
  let ?g = "\<lambda>kv. dumps_str (fst kv) @ '':'' @ colon @ f kv"
  obtain m where k: "k = Suc m" using Cons.prems(3) by (cases k) simp_all
  have kv: "reads (snd kv) (f kv)" "opens (f kv)" using Cons.prems(2) [of kv] by simp_all
  have key: "read_text (concat (map esc_char (fst kv)) @ CHR 0x22 # t) = Some (fst kv, t)" for t
    by (rule read_text_dumps)
  have colon: "next_token (CHR '':'' # t) = Some (CHR '':'', t)" for t
    by (simp add: next_token_def skip_space_def)
  have val: "skip_space (colon @ f kv @ t) = f kv @ t" for t
    using kv(2) assms(3) by (intro opens_pad opens_append)
  show ?case
  proof (cases "d = []")
    case True
    have "json_value m (f kv @ pad @ CHR ''}'' # rest) = Some (snd kv, pad @ CHR ''}'' # rest)"
      using Cons.prems(3) k True assms(4) by (intro readsD [OF kv(1)] stops_blank) simp_all
    with k True assms(4) show ?thesis
      by (simp add: dumps_str_quoted key colon val skip_blank_to)
  next
    case False
    let ?tail = "str_join ('','' @ ws) (map ?g d) @ pad @ ''}'' @ rest"
    have len: "length (f kv) + 1 + length (str_join ('','' @ ws) (map ?g d)) < k"
      using Cons.prems(3) False by simp
    have "json_value m (f kv @ CHR '','' # ws @ ?tail) = Some (snd kv, CHR '','' # ws @ ?tail)"
      using len k stops_blank [of "[]" "CHR '',''"] by (intro readsD [OF kv(1)]) (simp_all add: blank_def)
    moreover have "opens (str_join ('','' @ ws) (map ?g d))"
      using False by (cases d) (auto intro: opens_append opens_dumps_str)
    then have "skip_space (ws @ ?tail) = ?tail" using assms(2) by (intro opens_pad opens_append)
    moreover have "next_token (CHR '','' # ws @ ?tail) = Some (CHR '','', ws @ ?tail)"
      by (simp add: next_token_def skip_space_def)
    moreover have "json_members m (dict_set (fst kv) (snd kv) acc) ?tail =
        Some (JObj (dict_update (dict_set (fst kv) (snd kv) acc) d), rest)"
      using Cons.prems(2) False len k by (intro Cons.IH) auto
    ultimately show ?thesis using k False by (simp add: dumps_str_quoted key colon val)
  qed
qed simp

lemma dict_update_distinct_keys:
  "distinct (map fst (acc @ d)) \<Longrightarrow> dict_update acc d = acc @ d"
proof (induction d arbitrary: acc)
  case (Cons kv d)
  have "dict_set (fst kv) (snd kv) acc = acc @ [kv]"
    using Cons.prems by (induction acc) auto
  with Cons show ?case by simp
qed simp

lemma fuel_Suc: "Suc m \<le> k \<Longrightarrow> \<exists>k'. k = Suc k' \<and> m \<le> k'"
  by (cases k) auto

lemma dumps_reads:
  assumes "blank_layout l"
  shows "json_wf v \<Longrightarrow> reads v (dumps_in l n v)"
proof (induction v arbitrary: n)
  case (JArr xs)
  have ws: "blank (la_pad l n)" "blank (la_pad l (Suc n))" "blank (la_comma l (Suc n))"
    using assms by (simp_all add: blank_layout_def)
  show ?case
  proof (cases "xs = []")
    case True
    then show ?thesis
      by (auto simp: reads_def next_token_def skip_space_def dest!: fuel_Suc)
  next
    case False
    have elems: "reads x (dumps_in l (Suc n) x) \<and> opens (dumps_in l (Suc n) x)" if "x \<in> set xs" for x
      using JArr that by (simp add: opens_dumps list_all_iff)
    have opens: "opens (str_join ('','' @ la_comma l (Suc n)) (map (dumps_in l (Suc n)) xs))"
      using False by (cases xs) (auto intro: opens_append opens_dumps)
    show ?thesis
      unfolding reads_def
    proof (intro allI impI)
      fix k rest assume k: "length (dumps_in l n (JArr xs)) \<le> k"
      then obtain m where m: "k = Suc m" using False by (cases k) simp_all
      let ?body = "str_join ('','' @ la_comma l (Suc n)) (map (dumps_in l (Suc n)) xs)"
      let ?rest = "?body @ la_pad l n @ '']'' @ rest"
      have "json_elements m [] ?rest = Some (JArr ([] @ xs), rest)"
        using k m False by (intro json_elements_read [OF False ws(3,1) elems]) simp_all
      moreover obtain c t where "?rest = c # t" "c \<noteq> CHR '']''" "c \<noteq> CHR ''}''"
          "next_token (la_pad l (Suc n) @ ?rest) = Some (c, t)"
        by (rule opens_token [OF opens_append [OF opens] ws(2)])
      ultimately show "json_value k (dumps_in l n (JArr xs) @ rest) = Some (JArr xs, rest)"
        using m False by simp
    qed
  qed
next
  case (JObj d)
  have ws: "blank (la_pad l n)" "blank (la_pad l (Suc n))" "blank (la_comma l (Suc n))"
      "blank (la_colon l)"
    using assms by (simp_all add: blank_layout_def)
  let ?f = "\<lambda>kv. dumps_in l (Suc n) (snd kv)"
  let ?g = "\<lambda>kv. dumps_str (fst kv) @ '':'' @ la_colon l @ ?f kv"
  show ?case
  proof (cases "d = []")
    case True
    then show ?thesis
      by (auto simp: reads_def next_token_def skip_space_def dest!: fuel_Suc)
  next
    case False
    have elems: "reads (snd kv) (?f kv) \<and> opens (?f kv)" if "kv \<in> set d" for kv
      using JObj.prems JObj.IH [of kv "snd kv" "Suc n"] that
      by (cases kv) (auto simp: opens_dumps list_all_iff)
    have opens: "opens (str_join ('','' @ la_comma l (Suc n)) (map ?g d))"
      using False by (cases d) (auto intro: opens_append opens_dumps_str)
    show ?thesis
      unfolding reads_def
    proof (intro allI impI)
      fix k rest assume k: "length (dumps_in l n (JObj d)) \<le> k"
      then obtain m where m: "k = Suc m" using False by (cases k) simp_all
      let ?rest = "str_join ('','' @ la_comma l (Suc n)) (map ?g d) @ la_pad l n @ ''}'' @ rest"
      have "json_members m [] ?rest = Some (JObj (dict_update [] d), rest)"
        using k m False by (intro json_members_read [OF False ws(3,4,1) elems]) simp_all
      moreover have "dict_update [] d = d" using JObj.prems by (simp add: dict_update_distinct_keys)
      moreover obtain c t where "?rest = c # t" "c \<noteq> CHR '']''" "c \<noteq> CHR ''}''"
          "next_token (la_pad l (Suc n) @ ?rest) = Some (c, t)"
        by (rule opens_token [OF opens_append [OF opens] ws(2)])
      ultimately show "json_value k (dumps_in l n (JObj d) @ rest) = Some (JObj d, rest)"
        using m False by simp
    qed
  qed
next
  case (JInt i)
  obtain c t where ct: "int_str i = c # t" by (cases "int_str i") (auto simp: int_str_def split: if_splits)
  then have "is_digit c \<or> c = CHR ''-''"
    using nat_str_not_minus [of _ "[]"] by (auto simp: int_str_def split: if_splits)
  then have "c \<notin> {CHR 0x22, CHR ''['', CHR ''{'', CHR ''n'', CHR ''t'', CHR ''f''}"
    by (auto simp: is_digit_def char_code_def)
  with ct read_int_int_str [of _ i] show ?case by (auto simp: reads_def dest!: fuel_Suc)
next
  case (JStr s)
  show ?case by (auto simp: reads_def dumps_str_quoted read_text_dumps dest!: fuel_Suc)
qed (auto simp: reads_def read_word_def starts_with_def dest!: fuel_Suc)

lemma layouts_blank: "blank_layout default_layout" "blank_layout indent_layout"
  by (simp_all add: blank_layout_def default_layout_def indent_layout_def blank_def new_line_def
      json_space_def char_code_def list_all_iff char_of_def)

text \<open>A value that is written in any layout is read back as it was.\<close>

lemma loads_dumps_in:
  assumes "blank_layout l" and "json_wf v"
  shows "json_loads (dumps_in l n v) = Some v"
proof -
  have "json_value (Suc (length (dumps_in l n v))) (dumps_in l n v @ []) = Some (v, [])"
    by (rule readsD [OF dumps_reads [OF assms]]) (simp_all add: stops_def)
  then show ?thesis
    by (simp add: json_loads_def opens_skip [OF opens_dumps]) (simp add: skip_space_def)
qed

lemma json_wf_sort_keys: "json_wf v \<Longrightarrow> json_wf (sort_keys v)"
  by (induction v) (auto simp: list_all_iff distinct_map o_def inj_on_def)

lemma loads_dumps_indent: "json_wf v \<Longrightarrow> json_loads (dumps_indent v) = Some (sort_keys v)"
  by (simp add: dumps_indent_def loads_dumps_in layouts_blank json_wf_sort_keys)

section \<open>Texts that are cut off\<close>

text \<open>What is read does not depend on the text behind it, nor on the fuel that is left.\<close>

lemma skip_space_append: "skip_space s = c # t \<Longrightarrow> skip_space (s @ u) = c # t @ u"
  by (induction s) (simp_all add: skip_space_def split: if_splits)

lemma next_token_append: "next_token s = Some (c, t) \<Longrightarrow> next_token (s @ u) = Some (c, t @ u)"
  by (cases "skip_space s") (simp_all add: next_token_def skip_space_append)

lemma read_escape_append: "read_escape s = Some (c, t) \<Longrightarrow> read_escape (s @ u) = Some (c, t @ u)"
  by (auto simp: read_escape_def split: list.splits if_splits)

lemma read_first_Some: "read_first c r = Some (x, t) \<longleftrightarrow> (\<exists>y. x = c # y \<and> r = Some (y, t))"
  by (auto simp: read_first_def)

lemma read_text_append: "read_text s = Some (x, r) \<Longrightarrow> read_text (s @ u) = Some (x, r @ u)"
proof (induction s arbitrary: x rule: read_text.induct)
  case (2 c s)
  from 2(3) show ?case
    unfolding append_Cons read_text.simps(2) [of c s] read_text.simps(2) [of c "s @ u"]
    by (auto simp: read_first_Some read_escape_append 2(1,2) split: option.splits if_splits)
qed (simp add: read_text.simps)

lemma leading_digits_append:
  "length (leading_digits s) < length s \<Longrightarrow> leading_digits (s @ u) = leading_digits s"
  by (cases s) (auto simp: leading_digits_def starts_with_def, metis takeWhile_append1
      takeWhile_eq_all_conv less_irrefl)

lemma read_digits_append:
  assumes "read_digits s = Some (n, r)" and "r \<noteq> []"
  shows "read_digits (s @ u) = Some (n, r @ u)"
proof -
  let ?ds = "leading_digits s"
  have r: "r = drop (length ?ds) s" and n: "n = nat_of_digits ?ds" "?ds \<noteq> []"
    and no: "\<not> starts_with r ''.''" "\<not> starts_with r ''e''" "\<not> starts_with r ''E''"
    using assms(1) by (auto simp: read_digits_def Let_def split: if_splits)
  have short: "length ?ds < length s" using r assms(2) by (metis drop_all not_le)
  have "\<not> starts_with (r @ u) [x]" if "\<not> starts_with r [x]" for x
    using that assms(2) by (cases r) (simp_all add: starts_with_def)
  then show ?thesis
    using n no r short by (simp add: read_digits_def leading_digits_append Let_def)
qed

lemma read_int_append: "read_int s = Some (i, r) \<Longrightarrow> r \<noteq> [] \<Longrightarrow> read_int (s @ u) = Some (i, r @ u)"
  using read_digits_append
  by (fastforce simp: read_int_def split: list.splits if_splits)

lemma read_word_append: "read_word w v s = Some (x, r) \<Longrightarrow> read_word w v (s @ u) = Some (x, r @ u)"
  by (auto simp: read_word_def starts_with_iff prefix_def split: if_splits)

lemmas read_head_append = read_word_append [of w v "x # s" for w v x s, unfolded append_Cons]
  read_int_append [of "x # s" for x s, unfolded append_Cons]

lemma skip_space_append_nonempty: "skip_space s \<noteq> [] \<Longrightarrow> skip_space (s @ u) = skip_space s @ u"
  by (cases "skip_space s") (simp_all add: skip_space_append)

lemma no_value [simp]: "json_value k [] = None"
  by (cases k) simp_all

lemma no_elements [simp]: "json_elements k xs [] = None" "json_members k d [] = None"
  by (cases k, simp_all)+

fun is_int :: "json \<Rightarrow> bool" where
  "is_int (JInt i) = True"
| "is_int _ = False"

lemma json_extends:
  "json_value k s = Some (v, r) \<Longrightarrow> k \<le> m \<Longrightarrow> r \<noteq> [] \<or> \<not> is_int v \<Longrightarrow>
    json_value m (s @ u) = Some (v, r @ u)"
  "json_elements k xs s = Some (v, r) \<Longrightarrow> k \<le> m \<Longrightarrow> json_elements m xs (s @ u) = Some (v, r @ u)"
  "json_members k d s = Some (v, r) \<Longrightarrow> k \<le> m \<Longrightarrow> json_members m d (s @ u) = Some (v, r @ u)"
proof (induction k s and k xs s and k d s arbitrary: v r m and v r m and v r m
    rule: json_value_json_elements_json_members.induct)
  case (2 n s)
  obtain m' where m: "m = Suc m'" "n \<le> m'" using 2(4) by (cases m) simp_all
  obtain c t where s: "s = c # t" using 2(3) by (cases s) simp_all
  show ?case
  proof (cases "c = CHR ''['' \<or> c = CHR ''{''")
    case True
    then obtain x rest where tok: "next_token t = Some (x, rest)"
      using 2(3) unfolding s by (auto simp: bind_eq_Some_conv)
    from True show ?thesis
    proof
      assume c: "c = CHR ''[''"
      have "json_elements m' [] (x # rest @ u) = Some (v, r @ u)"
        if "x \<noteq> CHR '']''" "json_elements n [] (x # rest) = Some (v, r)"
        using 2(1) [OF s _ c tok refl that(1,2) m(2)] c by simp
      then show ?thesis
        using 2(3) next_token_append [OF tok, of u] unfolding m s c
        by (auto simp: tok split: if_splits)
    next
      assume c: "c = CHR ''{''"
      have "json_members m' [] (x # rest @ u) = Some (v, r @ u)"
        if "x \<noteq> CHR ''}''" "json_members n [] (x # rest) = Some (v, r)"
        using 2(2) [OF s _ _ c tok refl that(1,2) m(2)] c by simp
      then show ?thesis
        using 2(3) next_token_append [OF tok, of u] unfolding m s c
        by (auto simp: tok split: if_splits)
    qed
  next
    case False
    then show ?thesis
      using 2(3,5) unfolding m s
      by (auto simp: read_text_append read_head_append split: if_splits)
  qed
next
  case (4 n xs s)
  obtain m' where m: "m = Suc m'" "n \<le> m'" using 4(4) by (cases m) simp_all
  from 4(3) obtain v' r' c t where first: "json_value n s = Some (v', r')" "next_token r' = Some (c, t)"
    and more: "if c = CHR '','' then json_elements n (xs @ [v']) (skip_space t) = Some (v, r)
      else c = CHR '']'' \<and> v = JArr (xs @ [v']) \<and> r = t"
    by (auto simp: bind_eq_Some_conv split: if_splits)
  have "r' \<noteq> []" using first(2) by (auto simp: next_token_def skip_space_def)
  then have "json_value m' (s @ u) = Some (v', r' @ u)" using first(1) m(2) by (intro 4(1)) simp_all
  moreover have "next_token (r' @ u) = Some (c, t @ u)" using first(2) by (rule next_token_append)
  moreover have "json_elements m' (xs @ [v']) (skip_space (t @ u)) = Some (v, r @ u)" if "c = CHR '',''"
  proof -
    from more that have e: "json_elements n (xs @ [v']) (skip_space t) = Some (v, r)" by simp
    then have "skip_space (t @ u) = skip_space t @ u"
      by (intro skip_space_append_nonempty) auto
    with 4(2) [OF first(1) refl first(2) refl that e m(2)] show ?thesis by simp
  qed
  ultimately show ?case using more m(1) by (auto split: if_splits)
next
  case (6 n d s)
  obtain m' where m: "m = Suc m'" "n \<le> m'" using 6(4) by (cases m) simp_all
  obtain q k where s: "s = q # k" using 6(3) by (cases s) simp_all
  from 6(3) obtain key r1 t v' r2 c w where q: "q = CHR 0x22"
    and key: "read_text k = Some (key, r1)" and colon: "next_token r1 = Some (CHR '':'', t)"
    and val: "json_value n (skip_space t) = Some (v', r2)" and sep: "next_token r2 = Some (c, w)"
    and more: "if c = CHR '','' then json_members n (dict_set key v' d) (skip_space w) = Some (v, r)
      else c = CHR ''}'' \<and> v = JObj (dict_set key v' d) \<and> r = w"
    unfolding s by (auto simp: bind_eq_Some_conv split: if_splits)
  have skip: "skip_space (x @ u) = skip_space x @ u" if "skip_space x \<noteq> []" for x
    using that by (rule skip_space_append_nonempty)
  have "r2 \<noteq> []" using sep by (auto simp: next_token_def skip_space_def)
  then have "json_value m' (skip_space t @ u) = Some (v', r2 @ u)"
    using val m(2) 6(1) [OF s _ key refl colon refl] q by auto
  moreover have "skip_space t \<noteq> []" using val by auto
  ultimately have "json_value m' (skip_space (t @ u)) = Some (v', r2 @ u)" by (simp add: skip)
  moreover have "json_members m' (dict_set key v' d) (skip_space (w @ u)) = Some (v, r @ u)"
    if "c = CHR '',''"
  proof -
    from more that have e: "json_members n (dict_set key v' d) (skip_space w) = Some (v, r)" by simp
    then have "skip_space w \<noteq> []" by auto
    with 6(2) [OF s _ key refl colon refl _ val refl sep refl that e m(2)] q show ?thesis
      by (simp add: skip)
  qed
  ultimately show ?case
    using more m(1) q key colon sep unfolding s
    by (auto simp: read_text_append next_token_append split: if_splits)
qed simp_all

lemma not_int_read:
  "json_elements k xs s = Some (v, r) \<Longrightarrow> \<not> is_int v"
  "json_members k d s = Some (v, r) \<Longrightarrow> \<not> is_int v"
proof -
  show "json_elements k xs s = Some (v, r) \<Longrightarrow> \<not> is_int v"
    by (induction k arbitrary: xs s) (auto simp: bind_eq_Some_conv split: if_splits)
  show "json_members k d s = Some (v, r) \<Longrightarrow> \<not> is_int v"
    by (induction k arbitrary: d s) (auto simp: bind_eq_Some_conv split: if_splits list.splits)
qed

text \<open>The text of a mapping or a list from which something was cut off is not read at all.\<close>

lemma cut_text_is_not_read:
  assumes "blank_layout l" and "json_wf v" and "is_obj v \<or> is_arr v" and "k < length (dumps_in l n v)"
  shows "json_loads (take k (dumps_in l n v)) = None"
proof (rule ccontr)
  let ?s = "dumps_in l n v" and ?p = "take k (dumps_in l n v)"
  assume "json_loads ?p \<noteq> None"
  then obtain x r where read: "json_value (Suc (length (skip_space ?p))) (skip_space ?p) = Some (x, r)"
    by (auto simp: json_loads_def Let_def split: option.splits if_splits)
  have "?p \<noteq> []"
  proof
    assume "?p = []"
    then have "skip_space ?p = []" by (simp only: skip_space_def dropWhile.simps)
    with read show False by (simp only: no_value option.simps)
  qed
  moreover have "?s \<noteq> []" "hd ?s = CHR ''['' \<or> hd ?s = CHR ''{''"
    using assms(3) by (cases v; auto)+
  then obtain c t where ct: "?s = c # t" "c = CHR ''['' \<or> c = CHR ''{''"
    by (cases ?s) simp_all
  ultimately obtain p' where p': "?p = c # p'" by (cases k) simp_all
  then have skip: "skip_space ?p = ?p" using ct(2) by (auto simp: skip_space_def)
  have "\<not> is_int x"
    using read ct(2) unfolding skip unfolding p' by (auto simp: bind_eq_Some_conv split: if_splits)
      (auto dest: not_int_read)
  from json_extends(1) [OF read [unfolded skip] _ disjI2 [OF this], of "Suc (length ?s)" "drop k ?s"]
  have "json_value (Suc (length ?s)) (?p @ drop k ?s) = Some (x, r @ drop k ?s)"
    by (simp del: json_value.simps append_take_drop_id)
  moreover have "json_value (Suc (length ?s)) (?s @ []) = Some (v, [])"
    by (rule readsD [OF dumps_reads [OF assms(1,2)]]) (simp_all add: stops_def)
  ultimately show False using assms(4) by (simp del: json_value.simps)
qed

end
