(* ===== verification/TwinCanonical.thy ===== *)
theory TwinCanonical
  imports JsonText PyRegex
begin

text \<open>
  Canonical Kubernetes objects (\<open>namespace_twin/canonicalization.py\<close>): what the cluster adds to
  an object at run time is removed, secrets are replaced, lists whose order says nothing are
  sorted and quantities written as plain numbers. Exponents of decimal numbers are unbounded.
\<close>

section \<open>Quantities\<close>

definition RUNTIME_METADATA_FIELDS :: "string list" where
  "RUNTIME_METADATA_FIELDS =
     [''creationTimestamp'', ''deletionGracePeriodSeconds'', ''deletionTimestamp'', ''generation'',
      ''managedFields'', ''resourceVersion'', ''selfLink'', ''uid'']"

definition ORDER_INSENSITIVE_LIST_KEYS :: "string list dict" where
  "ORDER_INSENSITIVE_LIST_KEYS =
     [(''containers'', [''name'']), (''env'', [''name'']), (''finalizers'', []),
      (''imagePullSecrets'', [''name'']), (''initContainers'', [''name'']),
      (''ports'', [''name'', ''containerPort'', ''port'']), (''rules'', []),
      (''subjects'', [''kind'', ''namespace'', ''name'']),
      (''tolerations'', [''key'', ''operator'', ''effect'', ''value'']),
      (''volumeMounts'', [''name'', ''mountPath'']), (''volumes'', [''name''])]"

definition QUANTITY_PATH_PARTS :: "string list" where
  "QUANTITY_PATH_PARTS = [''limits'', ''requests'', ''capacity'']"

text \<open>A decimal number: a coefficient with a sign, times a power of ten.\<close>

record decimal =
  de_negative :: bool
  de_digits :: nat
  de_exp :: int

definition dec :: "nat \<Rightarrow> int \<Rightarrow> decimal" where
  "dec n k = \<lparr>de_negative = False, de_digits = n, de_exp = k\<rparr>"

definition QUANTITY_SUFFIXES :: "decimal dict" where
  "QUANTITY_SUFFIXES =
     [(''n'', dec 1 (-9)), (''u'', dec 1 (-6)), (''m'', dec 1 (-3)), (''k'', dec 1000 0),
      (''K'', dec 1000 0), (''M'', dec (10 ^ 6) 0), (''G'', dec (10 ^ 9) 0), (''T'', dec (10 ^ 12) 0),
      (''P'', dec (10 ^ 15) 0), (''E'', dec (10 ^ 18) 0), (''Ki'', dec 1024 0),
      (''Mi'', dec (1024 ^ 2) 0), (''Gi'', dec (1024 ^ 3) 0), (''Ti'', dec (1024 ^ 4) 0),
      (''Pi'', dec (1024 ^ 5) 0), (''Ei'', dec (1024 ^ 6) 0)]"

text \<open>The default precision of a decimal context, rounding half to even.\<close>

definition PRECISION :: nat where
  "PRECISION = 28"

definition rounded :: "nat \<Rightarrow> nat \<Rightarrow> nat" where
  "rounded p n =
     (let q = n div p; r = n mod p in
      if p < 2 * r \<or> (2 * r = p \<and> odd q) then q + 1 else q)"

definition dec_fix :: "decimal \<Rightarrow> decimal" where
  "dec_fix d =
     (let len = length (nat_str (de_digits d)) in
      if len \<le> PRECISION then d
      else
        let extra = len - PRECISION; n = rounded (10 ^ extra) (de_digits d) in
        if n = 10 ^ PRECISION
        then d\<lparr>de_digits := 10 ^ (PRECISION - 1), de_exp := de_exp d + int extra + 1\<rparr>
        else d\<lparr>de_digits := n, de_exp := de_exp d + int extra\<rparr>)"

definition dec_times :: "decimal \<Rightarrow> decimal \<Rightarrow> decimal" where
  "dec_times a b = dec_fix
     \<lparr>de_negative = (de_negative a \<noteq> de_negative b), de_digits = de_digits a * de_digits b,
      de_exp = de_exp a + de_exp b\<rparr>"

text \<open>\<open>Decimal.normalize\<close>: no trailing zeros.\<close>

function strip_zeros :: "nat \<Rightarrow> int \<Rightarrow> nat \<times> int" where
  "strip_zeros n k =
     (if n = 0 then (0, 0) else if n mod 10 = 0 then strip_zeros (n div 10) (k + 1) else (n, k))"
  by pat_completeness auto
termination
  by (relation "measure fst") auto

declare strip_zeros.simps [simp del]

definition dec_normalize :: "decimal \<Rightarrow> decimal" where
  "dec_normalize d =
     (let f = dec_fix d; (n, k) = strip_zeros (de_digits f) (de_exp f) in
      f\<lparr>de_digits := n, de_exp := k\<rparr>)"

text \<open>\<open>format(d, "f")\<close>.\<close>

definition place_point :: "string \<Rightarrow> nat \<Rightarrow> string" where
  "place_point s k =
     (let padded = replicate (k + 1 - length s) (CHR ''0'') @ s; whole = length padded - k in
      if k = 0 then s else take whole padded @ ''.'' @ drop whole padded)"

definition dec_format :: "decimal \<Rightarrow> string" where
  "dec_format d =
     (if de_negative d then ''-'' else []) @
     (if 0 \<le> de_exp d
      then nat_str (de_digits d) @ (if de_digits d = 0 then [] else replicate (nat (de_exp d)) (CHR ''0''))
      else place_point (nat_str (de_digits d)) (nat (- de_exp d)))"

text \<open>The decimal number that a text of digits, a sign and a point denotes.\<close>

definition after_point :: "string \<Rightarrow> string" where
  "after_point s = drop 1 (dropWhile (\<lambda>c. c \<noteq> CHR ''.'') s)"

definition dec_of :: "string \<Rightarrow> decimal" where
  "dec_of s = \<lparr>de_negative = starts_with s ''-'', de_digits = nat_of_digits (filter is_digit s),
     de_exp = - int (length (after_point s))\<rparr>"

definition is_alpha :: "char \<Rightarrow> bool" where
  "is_alpha c \<longleftrightarrow> is_upper c \<or> is_lower c"

text \<open>
  \<open>QUANTITY_PATTERN\<close>: a number and up to two letters. The first group is what comes before the
  first letter.
\<close>

definition Opt :: "rx \<Rightarrow> rx" where
  "Opt r = Alt r Eps"

definition QUANTITY_PATTERN :: rx where
  "QUANTITY_PATTERN =
     Cat (Opt (Cls (\<lambda>c. c = CHR ''+'' \<or> c = CHR ''-'')))
       (Cat (Alt (Cat (Cat (Cls is_digit) (Star (Cls is_digit)))
                   (Opt (Cat (Cls (\<lambda>c. c = CHR ''.'')) (Star (Cls is_digit)))))
               (Cat (Cls (\<lambda>c. c = CHR ''.'')) (Cat (Cls is_digit) (Star (Cls is_digit)))))
         (Cat (Opt (Cls is_alpha)) (Opt (Cls is_alpha))))"

definition normalize_quantity :: "string \<Rightarrow> string" where
  "normalize_quantity value =
     (let s = str_strip value in
      if \<not> re_fullmatch QUANTITY_PATTERN s then value
      else
        let num = takeWhile (\<lambda>c. \<not> is_alpha c) s; unit = dropWhile (\<lambda>c. \<not> is_alpha c) s in
        if dict_get QUANTITY_SUFFIXES unit = None \<and> unit \<noteq> [] then value
        else
          let factor = (case dict_get QUANTITY_SUFFIXES unit of None \<Rightarrow> dec 1 0 | Some f \<Rightarrow> f);
              shown = dec_format (dec_normalize (dec_times (dec_of num) factor)) in
          if shown = ''-0'' \<or> shown = [] then ''0'' else shown)"

definition is_quantity_path :: "string list \<Rightarrow> bool" where
  "is_quantity_path path =
     (if path = [] then False
      else if list_ex (\<lambda>part. part \<in> set QUANTITY_PATH_PARTS) path then True
      else last path = ''storage'')"

section \<open>Canonical values\<close>

text \<open>
  The sort key of an element: the members named, if there is one, otherwise the element itself.
  (\<open>default=str\<close> is not needed: every value modelled has a JSON text.)
\<close>

definition list_sort_key :: "string list \<Rightarrow> json \<Rightarrow> string" where
  "list_sort_key keys v =
     (let selected = map (get_or_null (obj_items v)) keys in
      if is_obj v \<and> list_ex (\<lambda>x. x \<noteq> JNull) selected then dumps_default (JArr selected)
      else json_dumps v)"

text \<open>The elements of a list, sorted when its order says nothing.\<close>

definition canonical_list :: "string list \<Rightarrow> json list \<Rightarrow> json list" where
  "canonical_list path items =
     (case dict_get ORDER_INSENSITIVE_LIST_KEYS (if path = [] then [] else last path) of
        None \<Rightarrow> items
      | Some keys \<Rightarrow> sort_key (list_sort_key keys) items)"

function canonical_value :: "json \<Rightarrow> string list \<Rightarrow> json" where
  "canonical_value (JObj d) path =
     JObj (sort_key fst (map (\<lambda>kv. (fst kv, canonical_value (snd kv) (path @ [fst kv]))) d))"
| "canonical_value (JArr xs) path = JArr (canonical_list path (map (\<lambda>x. canonical_value x path) xs))"
| "canonical_value (JStr s) path = JStr (if is_quantity_path path then normalize_quantity s else s)"
| "canonical_value JNull path = JNull"
| "canonical_value (JBool b) path = JBool b"
| "canonical_value (JInt n) path = JInt n"
  by pat_completeness auto
termination
proof (relation "measure (\<lambda>(v, path). size v)")
  fix d :: "json dict" and path x assume "x \<in> set d"
  then have "size (snd x) < Suc (size_list (size_prod (\<lambda>_. 0) size) d)"
    by (induction d) (auto simp: less_Suc_eq_le)
  then show "((snd x, path @ [fst x]), JObj d, path) \<in> measure (\<lambda>(v, path). size v)" by simp
qed (auto simp: less_Suc_eq_le intro: size_list_estimation')

section \<open>Canonical objects\<close>

text \<open>\<open>metadata\<close> without what the cluster adds and without empty annotations and labels.\<close>

definition drop_unless :: "string \<Rightarrow> json dict \<Rightarrow> json dict" where
  "drop_unless k d = (if truthy (get_or_null d k) then d else dict_pop k d)"

definition clean_metadata :: "json dict \<Rightarrow> json dict" where
  "clean_metadata md =
     drop_unless ''labels'' (drop_unless ''annotations''
       (fold dict_pop RUNTIME_METADATA_FIELDS md))"

definition without_runtime :: "json dict \<Rightarrow> json dict" where
  "without_runtime resource =
     (let document = dict_pop ''status'' resource in
      case dict_get document ''metadata'' of
        Some (JObj md) \<Rightarrow> dict_set ''metadata'' (JObj (clean_metadata md)) document
      | _ \<Rightarrow> document)"

definition kind_text :: "json dict \<Rightarrow> string" where
  "kind_text d = py_str (json_or (get_or_null d ''kind'') (JStr []))"

definition redact_field :: "string \<Rightarrow> json dict \<Rightarrow> json dict" where
  "redact_field field document =
     (case dict_get document field of
        Some (JObj vs) \<Rightarrow>
          dict_set field (JObj (map (\<lambda>k. (k, JStr ''<redacted>'')) (sort (dict_keys vs)))) document
      | _ \<Rightarrow> document)"

definition redact_secret :: "json dict \<Rightarrow> json dict" where
  "redact_secret document =
     (if str_lower (kind_text document) = ''secret''
      then redact_field ''stringData'' (redact_field ''data'' document)
      else document)"

definition canonicalize_kubernetes_object :: "json dict \<Rightarrow> json dict" where
  "canonicalize_kubernetes_object resource =
     obj_items (canonical_value (JObj (redact_secret (without_runtime resource))) [])"

definition canonical_json :: "json dict \<Rightarrow> string" where
  "canonical_json resource = json_dumps (JObj (canonicalize_kubernetes_object resource))"

text \<open>\<open>resource_identity\<close>: API version, kind, namespace and name.\<close>

definition metadata_of :: "json dict \<Rightarrow> json dict" where
  "metadata_of resource = obj_items (get_or_null resource ''metadata'')"

definition text_or :: "json \<Rightarrow> string \<Rightarrow> string" where
  "text_or v alt = py_str (json_or v (JStr alt))"

definition resource_identity :: "json dict \<Rightarrow> string option \<Rightarrow> string" where
  "resource_identity resource default_namespace =
     (let metadata = metadata_of resource in
      str_join '':''
        [text_or (get_or_null resource ''apiVersion'') ''unknown'',
         text_or (get_or_null resource ''kind'') ''Unknown'',
         text_or (get_or_null metadata ''namespace'') (opt_or default_namespace []),
         text_or (get_or_null metadata ''name'') ''unknown''])"

section \<open>Quantities are canonical\<close>

subsection \<open>Digits\<close>

lemma nat_str_less: "0 < m \<Longrightarrow> length (nat_str n) \<le> m \<longleftrightarrow> n < 10 ^ m"
proof (induction n arbitrary: m rule: nat_str.induct)
  case (1 n)
  show ?case
  proof (cases "n < 10")
    case True
    then have "n < 10 ^ m" using 1(2) self_le_power [of "10::nat" m] by simp
    with True 1(2) show ?thesis by (subst nat_str.simps) simp
  next
    case False
    show ?thesis
    proof (cases "m = 1")
      case True
      with False show ?thesis by (subst nat_str.simps) simp
    next
      case other: False
      then obtain m' where m: "m = Suc m'" "0 < m'" using 1(2) by (cases m) auto
      have "n < 10 ^ m \<longleftrightarrow> n div 10 < 10 ^ m'"
        by (simp add: m div_less_iff_less_mult mult.commute)
      with False 1(1) [of m'] m show ?thesis by (subst nat_str.simps) simp
    qed
  qed
qed

lemma nat_str_times_10: "0 < n \<Longrightarrow> nat_str (n * 10) = nat_str n @ ''0''"
  by (subst nat_str.simps) (simp add: digit_char_def)

lemma nat_str_shift: "0 < n \<Longrightarrow> nat_str (n * 10 ^ k) = nat_str n @ replicate k (CHR ''0'')"
proof (induction k)
  case (Suc k)
  have "n * 10 ^ Suc k = n * 10 ^ k * 10" by simp
  with Suc show ?case by (simp only: nat_str_times_10) (simp add: nat_str_times_10 replicate_append_same)
qed simp

lemma nat_of_digits_append_zeros:
  "nat_of_digits (s @ replicate k (CHR ''0'')) = nat_of_digits s * 10 ^ k"
  by (induction k) (simp_all add: replicate_append_same [symmetric] nat_of_digits_snoc
      append_assoc [symmetric] digit_value_def char_code_def del: append_assoc)

lemma nat_of_digits_zeros: "nat_of_digits (replicate k (CHR ''0'') @ s) = nat_of_digits s"
  by (induction k) (simp_all add: nat_of_digits_def digit_value_def char_code_def)

subsection \<open>Rounding\<close>

lemma rounded_exact: "0 < p \<Longrightarrow> rounded p (q * p) = q"
  by (simp add: rounded_def)

definition short :: "nat \<Rightarrow> bool" where
  "short n \<longleftrightarrow> n < 10 ^ PRECISION"

lemma short_length: "short n \<longleftrightarrow> length (nat_str n) \<le> PRECISION"
  by (simp add: short_def nat_str_less PRECISION_def)

lemma dec_fix_short: "short (de_digits d) \<Longrightarrow> dec_fix d = d"
  by (simp add: dec_fix_def short_length)

lemma short_dec_fix: "short (de_digits (dec_fix d))"
proof (cases "short (de_digits d)")
  case False
  let ?n = "de_digits d" and ?len = "length (nat_str (de_digits d))"
  let ?extra = "?len - PRECISION"
  have len: "PRECISION < ?len" using False by (simp add: short_length)
  have "?n < 10 ^ ?len" using nat_str_less [of ?len ?n] by simp
  also have "(10::nat) ^ ?len = 10 ^ PRECISION * 10 ^ ?extra"
    using len by (simp add: power_add [symmetric])
  finally have "?n div 10 ^ ?extra < 10 ^ PRECISION" by (simp add: div_less_iff_less_mult)
  then have "rounded (10 ^ ?extra) ?n \<le> 10 ^ PRECISION" by (auto simp: rounded_def Let_def)
  moreover have "(10::nat) ^ (PRECISION - 1) < 10 ^ PRECISION" by (simp add: PRECISION_def)
  ultimately show ?thesis using len by (auto simp: dec_fix_def Let_def short_def)
qed (simp add: dec_fix_short)

lemma strip_zeros_normal: "0 < n \<Longrightarrow> n mod 10 \<noteq> 0 \<Longrightarrow> strip_zeros (n * 10 ^ j) k = (n, k + int j)"
proof (induction j arbitrary: k)
  case (Suc j)
  have "n * 10 ^ Suc j mod 10 = 0" "n * 10 ^ Suc j div 10 = n * 10 ^ j" by simp_all
  with Suc show ?case by (subst strip_zeros.simps) simp
qed (simp add: strip_zeros.simps)

lemma strip_zeros_result:
  "strip_zeros n k = (m, j) \<Longrightarrow> m \<le> n \<and> (if m = 0 then j = 0 else m mod 10 \<noteq> 0)"
proof (induction n k rule: strip_zeros.induct)
  case (1 n k)
  show ?case
  proof (cases "n = 0 \<or> n mod 10 \<noteq> 0")
    case True
    with 1(2) show ?thesis by (subst (asm) strip_zeros.simps) (auto split: if_splits)
  next
    case False
    with 1(2) have "strip_zeros (n div 10) (k + 1) = (m, j)" by (subst (asm) strip_zeros.simps) simp
    then have "m \<le> n div 10 \<and> (if m = 0 then j = 0 else m mod 10 \<noteq> 0)"
      using False by (intro 1(1)) simp_all
    then show ?thesis by (auto intro: order_trans [OF _ div_le_dividend])
  qed
qed

text \<open>Normal decimal numbers: zero with exponent zero, or a short coefficient without trailing zeros.\<close>

definition normal :: "decimal \<Rightarrow> bool" where
  "normal d \<longleftrightarrow> short (de_digits d) \<and> (if de_digits d = 0 then de_exp d = 0 else de_digits d mod 10 \<noteq> 0)"

lemma normal_normalize: "normal (dec_normalize d)"
proof -
  obtain n k where nk: "strip_zeros (de_digits (dec_fix d)) (de_exp (dec_fix d)) = (n, k)" by fastforce
  with strip_zeros_result [OF nk] short_dec_fix [of d] show ?thesis
    by (simp add: dec_normalize_def normal_def short_def Let_def split: if_splits)
qed

lemma dec_eq: "a = b \<longleftrightarrow> de_negative a = de_negative b \<and> de_digits a = de_digits b \<and> de_exp a = (de_exp (b :: decimal))"
  by (cases a, cases b) simp

lemma normalize_written:
  assumes "normal d" and "0 < de_digits d"
  shows "dec_normalize (dec_fix (d\<lparr>de_digits := de_digits d * 10 ^ j, de_exp := de_exp d - int j\<rparr>)) = d"
proof -
  let ?n = "de_digits d" and ?w = "d\<lparr>de_digits := de_digits d * 10 ^ j, de_exp := de_exp d - int j\<rparr>"
  have n: "short ?n" "?n mod 10 \<noteq> 0" using assms by (auto simp: normal_def)
  have finished: "dec_normalize (d\<lparr>de_digits := ?n * 10 ^ i, de_exp := de_exp d - int i\<rparr>) = d"
    if "short (?n * 10 ^ i)" for i
    using that n assms(2) by (simp add: dec_normalize_def dec_fix_short strip_zeros_normal)
  show ?thesis
  proof (cases "short (?n * 10 ^ j)")
    case True
    then show ?thesis by (simp add: dec_fix_short finished)
  next
    case False
    have len: "length (nat_str (?n * 10 ^ j)) = length (nat_str ?n) + j"
      using assms(2) by (simp add: nat_str_shift)
    let ?extra = "length (nat_str ?n) + j - PRECISION"
    have extra: "?extra \<le> j" "0 < ?extra" "PRECISION < length (nat_str ?n) + j"
      using n(1) False len by (simp_all add: short_length)
    have split: "?n * 10 ^ j = ?n * 10 ^ (j - ?extra) * 10 ^ ?extra"
      using extra(1) by (simp add: power_add [symmetric])
    have round: "rounded (10 ^ ?extra) (?n * 10 ^ j) = ?n * 10 ^ (j - ?extra)"
      unfolding split by (rule rounded_exact) simp
    have "length (nat_str (?n * 10 ^ (j - ?extra))) = PRECISION"
      using assms(2) extra by (simp add: nat_str_shift)
    then have short: "short (?n * 10 ^ (j - ?extra))" by (simp add: short_length)
    then have "?n * 10 ^ (j - ?extra) \<noteq> 10 ^ PRECISION" by (simp add: short_def)
    then have "dec_fix ?w = d\<lparr>de_digits := ?n * 10 ^ (j - ?extra), de_exp := de_exp d - int (j - ?extra)\<rparr>"
      using extra len round by (simp add: dec_fix_def Let_def of_nat_diff dec_eq)
    with finished [OF short] show ?thesis by simp
  qed
qed

subsection \<open>Written quantities\<close>

lemma digit_facts: "is_digit c \<Longrightarrow> \<not> is_space c \<and> \<not> is_alpha c \<and> c \<noteq> CHR ''.'' \<and> c \<noteq> CHR ''-''"
  by (auto simp: is_digit_def is_space_def is_alpha_def is_upper_def is_lower_def char_code_def Let_def)

lemma zero_digit [simp]: "is_digit (CHR ''0'')"
  by (simp add: is_digit_def char_code_def)

lemma sign_facts [simp]:
  "\<not> is_digit (CHR ''-'')" "\<not> is_digit (CHR ''.'')" "\<not> is_space (CHR ''-'')" "\<not> is_alpha (CHR ''-'')"
  "\<not> is_alpha (CHR ''.'')" "\<not> is_space (CHR ''.'')"
  by (simp_all add: is_digit_def is_space_def is_alpha_def is_upper_def is_lower_def char_code_def Let_def)

definition digits :: "string \<Rightarrow> bool" where
  "digits s \<longleftrightarrow> s \<noteq> [] \<and> list_all is_digit s"

lemma star_digits: "list_all is_digit s \<Longrightarrow> \<exists>q. (q, t) \<in> set (ends (Star (Cls is_digit)) (p, s @ t))"
proof -
  have "list_all is_digit s \<Longrightarrow> length (s @ t) \<le> n \<Longrightarrow>
      \<exists>q. (q, t) \<in> set (star_ends (ends (Cls is_digit)) n (p, s @ t))" for n
  proof (induction s arbitrary: n p)
    case Nil
    then show ?case by (cases n) auto
  next
    case (Cons c s)
    then obtain m where "n = Suc m" by (cases n) auto
    with Cons show ?case by auto
  qed
  then show "list_all is_digit s \<Longrightarrow> ?thesis" by simp
qed

lemma plus_digits: "digits s \<Longrightarrow>
    \<exists>q. (q, t) \<in> set (ends (Cat (Cls is_digit) (Star (Cls is_digit))) (p, s @ t))"
  using star_digits by (cases s) (auto simp: digits_def simp del: ends.simps(5))

lemma ends_CatI: "x \<in> set (ends a p) \<Longrightarrow> y \<in> set (ends b x) \<Longrightarrow> y \<in> set (ends (Cat a b) p)"
  by auto

lemma ends_AltI: "x \<in> set (ends a p) \<Longrightarrow> x \<in> set (ends (Alt a b) p)"
  by simp

text \<open>A plain number: a sign, digits, and possibly a point with digits behind it.\<close>

definition plain_number :: "string \<Rightarrow> bool" where
  "plain_number s \<longleftrightarrow> (\<exists>sign whole rest. s = sign @ whole @ rest \<and> sign \<in> {[], ''-''} \<and> digits whole \<and>
     (rest = [] \<or> (\<exists>frac. rest = CHR ''.'' # frac \<and> digits frac)))"

lemma plain_number_matches:
  assumes "plain_number s"
  shows "re_fullmatch QUANTITY_PATTERN s"
proof -
  obtain sign whole rest where s: "s = sign @ whole @ rest" "sign \<in> {[], ''-''}" "digits whole"
    and rest: "rest = [] \<or> (\<exists>frac. rest = CHR ''.'' # frac \<and> digits frac)"
    using assms by (auto simp: plain_number_def)
  let ?D = "Cat (Cls is_digit) (Star (Cls is_digit))"
  let ?F = "Opt (Cat (Cls (\<lambda>c. c = CHR ''.'')) (Star (Cls is_digit)))"
  obtain p where p: "(p, whole @ rest) \<in> set (ends (Opt (Cls (\<lambda>c. c = CHR ''+'' \<or> c = CHR ''-''))) (None, s))"
    using s(1,2) by (auto simp: Opt_def)
  obtain q where q: "(q, rest) \<in> set (ends ?D (p, whole @ rest))"
    using plus_digits [OF s(3), of rest p] by blast
  obtain r where r: "(r, []) \<in> set (ends ?F (q, rest))"
  proof -
    from rest consider "rest = []" | frac where "rest = CHR ''.'' # frac" "digits frac" by blast
    then show thesis
    proof cases
      case 1
      then show ?thesis by (intro that [of q]) (simp add: Opt_def)
    next
      case 2
      then obtain r where "(r, []) \<in> set (ends (Star (Cls is_digit)) (Some (CHR ''.''), frac @ []))"
        using star_digits [of frac "[]" "Some (CHR ''.'')"] by (auto simp: digits_def)
      with 2 show ?thesis by (intro that [of r]) (simp add: Opt_def del: ends.simps(5))
    qed
  qed
  have tail: "(r, []) \<in> set (ends (Cat (Opt (Cls is_alpha)) (Opt (Cls is_alpha))) (r, []))"
    by (simp add: Opt_def)
  have "(r, []) \<in> set (ends QUANTITY_PATTERN (None, s))"
    unfolding QUANTITY_PATTERN_def
    by (rule ends_CatI [OF p ends_CatI [OF ends_AltI [OF ends_CatI [OF q r]] tail]])
  then show ?thesis by (force simp: re_fullmatch_def list_ex_iff)
qed

lemma plain_number_facts:
  assumes "plain_number s"
  shows "str_strip s = s" and "takeWhile (\<lambda>c. \<not> is_alpha c) s = s" and "dropWhile (\<lambda>c. \<not> is_alpha c) s = []"
proof -
  obtain sign whole rest where s: "s = sign @ whole @ rest" "sign \<in> {[], ''-''}" "digits whole"
    and rest: "rest = [] \<or> (\<exists>frac. rest = CHR ''.'' # frac \<and> digits frac)"
    using assms by (auto simp: plain_number_def)
  have chars: "\<not> is_alpha c \<and> \<not> is_space c" if "c \<in> set s" for c
  proof -
    from that s rest have "is_digit c \<or> c = CHR ''-'' \<or> c = CHR ''.''"
      by (elim disjE exE) (auto simp: digits_def list_all_iff)
    then show ?thesis using digit_facts [of c] by auto
  qed
  then show "takeWhile (\<lambda>c. \<not> is_alpha c) s = s" "dropWhile (\<lambda>c. \<not> is_alpha c) s = []"
    by (simp_all add: takeWhile_eq_all_conv dropWhile_eq_Nil_conv)
  have same: "dropWhile is_space t = t" if "set t \<subseteq> set s" for t
    using that chars by (cases t) auto
  show "str_strip s = s" by (simp add: str_strip_def same)
qed

text \<open>A normal number is written as a plain number that denotes it, up to trailing zeros.\<close>

definition sign_text :: "decimal \<Rightarrow> string" where
  "sign_text d = (if de_negative d then ''-'' else [])"

lemma starts_with_digits [simp]: "digits s \<Longrightarrow> \<not> starts_with (s @ t) ''-''"
  by (cases s) (auto simp: digits_def starts_with_def dest: digit_facts)

lemma digits_nat_str: "digits (nat_str n)"
  by (simp add: digits_def nat_str_digits)

lemma no_point_list: "list_all is_digit s \<Longrightarrow>
    dropWhile (\<lambda>c. c \<noteq> CHR ''.'') (s @ t) = dropWhile (\<lambda>c. c \<noteq> CHR ''.'') t"
  by (induction s) (auto dest: digit_facts)

lemma no_point: "digits s \<Longrightarrow> dropWhile (\<lambda>c. c \<noteq> CHR ''.'') (s @ t) = dropWhile (\<lambda>c. c \<noteq> CHR ''.'') t"
  by (simp add: digits_def no_point_list)

lemma filter_digits: "digits s \<Longrightarrow> filter is_digit s = s"
  by (simp add: digits_def list_all_iff)

lemma dec_of_text:
  assumes "digits whole"
  shows "dec_of (sign_text d @ whole) =
      \<lparr>de_negative = de_negative d, de_digits = nat_of_digits whole, de_exp = 0\<rparr>"
    and "digits frac \<Longrightarrow> dec_of (sign_text d @ whole @ CHR ''.'' # frac) =
      \<lparr>de_negative = de_negative d, de_digits = nat_of_digits (whole @ frac), de_exp = - int (length frac)\<rparr>"
proof -
  have sign: "starts_with (sign_text d @ whole @ t) ''-'' = de_negative d" for t
    using starts_with_digits [OF assms] by (simp add: sign_text_def) (simp add: starts_with_def)
  have point: "dropWhile (\<lambda>c. c \<noteq> CHR ''.'') (sign_text d @ whole @ t) = dropWhile (\<lambda>c. c \<noteq> CHR ''.'') t" for t
    using assms by (simp add: sign_text_def no_point)
  have filter: "filter is_digit (sign_text d) = []" by (simp add: sign_text_def)
  show "dec_of (sign_text d @ whole) =
      \<lparr>de_negative = de_negative d, de_digits = nat_of_digits whole, de_exp = 0\<rparr>"
    using sign [of "[]"] point [of "[]"] filter_digits [OF assms] filter
    by (simp only: dec_of_def after_point_def append_Nil2 filter_append append_Nil dropWhile.simps) simp
  show "dec_of (sign_text d @ whole @ CHR ''.'' # frac) =
      \<lparr>de_negative = de_negative d, de_digits = nat_of_digits (whole @ frac), de_exp = - int (length frac)\<rparr>"
    if "digits frac"
    using sign point filter that assms by (simp add: dec_of_def after_point_def filter_digits)
qed

lemma place_point_text:
  assumes "0 < k"
  obtains whole frac where "place_point (nat_str n) k = whole @ CHR ''.'' # frac"
    "digits whole" "digits frac" "length frac = k" "nat_of_digits (whole @ frac) = n"
proof -
  define padded where "padded = replicate (k + 1 - length (nat_str n)) (CHR ''0'') @ nat_str n"
  define m where "m = length padded - k"
  have "k + 1 \<le> length padded" by (simp add: padded_def)
  then have m: "0 < m" "m < length padded" "length padded - m = k" using assms by (simp_all add: m_def)
  have "list_all is_digit padded"
    using nat_str_digits [of n] by (auto simp: padded_def list_all_iff)
  then have "digits (take m padded)" "digits (drop m padded)"
    using m by (auto simp: digits_def list_all_iff dest: in_set_takeD in_set_dropD)
  moreover have "place_point (nat_str n) k = take m padded @ CHR ''.'' # drop m padded"
    using assms by (simp add: place_point_def Let_def m_def padded_def)
  moreover have "length (drop m padded) = k" using m by simp
  moreover have "nat_of_digits (take m padded @ drop m padded) = n"
    by (simp only: append_take_drop_id) (simp only: padded_def nat_of_digits_zeros nat_of_digits_nat_str)
  ultimately show thesis by (intro that)
qed

text \<open>What \<open>normalize_quantity\<close> writes is a plain number, and written again it stays the same.\<close>

lemma times_one: "dec_times x (dec (Suc 0) 0) = dec_fix x"
  by (cases x) (simp add: dec_times_def dec_def)

lemma normal_rewritten:
  assumes "normal d"
  shows "plain_number (dec_format d) \<and>
    (0 < de_digits d \<longrightarrow> dec_normalize (dec_times (dec_of (dec_format d)) (dec 1 0)) = d)"
proof (cases "0 \<le> de_exp d")
  case True
  let ?j = "nat (de_exp d)"
  have written: "dec_format d = sign_text d @ nat_str (de_digits d * 10 ^ ?j)"
    using True assms by (cases "de_digits d = 0") (simp_all add: dec_format_def sign_text_def nat_str_shift)
  have "dec_of (dec_format d) = d\<lparr>de_digits := de_digits d * 10 ^ ?j, de_exp := de_exp d - int ?j\<rparr>"
    using True by (simp add: written dec_of_text digits_nat_str dec_eq)
  moreover have "plain_number (dec_format d)"
    unfolding plain_number_def written
    by (intro exI [of _ "sign_text d"] exI [of _ "nat_str (de_digits d * 10 ^ ?j)"] exI [of _ "[]"])
      (simp add: digits_nat_str sign_text_def)
  ultimately show ?thesis using normalize_written [OF assms, of ?j] by (simp add: times_one)
next
  case False
  then have n: "0 < de_digits d"
    using assms by (cases "de_digits d = 0") (simp_all add: normal_def)
  obtain whole frac where point: "place_point (nat_str (de_digits d)) (nat (- de_exp d)) = whole @ CHR ''.'' # frac"
    and parts: "digits whole" "digits frac" "length frac = nat (- de_exp d)" "nat_of_digits (whole @ frac) = de_digits d"
  proof -
    from False have "0 < nat (- de_exp d)" by simp
    then show thesis by (rule place_point_text) (rule that)
  qed
  have written: "dec_format d = sign_text d @ whole @ CHR ''.'' # frac"
    using False point by (simp add: dec_format_def sign_text_def)
  have "dec_of (dec_format d) = d"
    using False parts by (simp add: written dec_of_text dec_eq)
  moreover have "plain_number (dec_format d)"
    unfolding plain_number_def written
    by (intro exI [of _ "sign_text d"] exI [of _ whole] exI [of _ "CHR ''.'' # frac"])
      (simp add: parts sign_text_def)
  ultimately show ?thesis using normalize_written [OF assms n, of 0] by (simp add: times_one)
qed

lemma plain_number_quantity:
  "plain_number s \<Longrightarrow> normalize_quantity s =
    (let shown = dec_format (dec_normalize (dec_times (dec_of s) (dec 1 0))) in
     if shown = ''-0'' \<or> shown = [] then ''0'' else shown)"
  by (simp add: normalize_quantity_def plain_number_matches plain_number_facts QUANTITY_SUFFIXES_def)

lemma normalize_zero: "normalize_quantity ''0'' = ''0''"
proof -
  have "plain_number ''0''"
    unfolding plain_number_def
    by (intro exI [of _ "[]"] exI [of _ "''0''"] exI [of _ "[]"]) (simp add: digits_def)
  moreover have "dec_of ''0'' = dec 0 0"
    by (simp add: dec_of_def dec_def starts_with_def nat_of_digits_def after_point_def digit_value_def
        char_code_def)
  moreover have "dec_normalize (dec 0 0) = dec 0 0"
    by (simp add: dec_normalize_def dec_fix_short short_def PRECISION_def dec_def strip_zeros.simps)
  moreover have "dec_format (dec 0 0) = ''0''"
    by (simp add: dec_format_def dec_def nat_str.simps digit_char_def)
  moreover have "dec_fix (dec 0 0) = dec 0 0"
    by (rule dec_fix_short) (simp add: short_def dec_def)
  ultimately show ?thesis by (simp add: plain_number_quantity times_one)
qed

lemma normalize_quantity_idem: "normalize_quantity (normalize_quantity s) = normalize_quantity s"
proof (cases "normalize_quantity s = s \<or> normalize_quantity s = ''0''")
  case True
  then show ?thesis by (auto simp: normalize_zero)
next
  case False
  then obtain d where shown: "normalize_quantity s = dec_format (dec_normalize d)" "dec_format (dec_normalize d) \<noteq> ''-0''"
      "dec_format (dec_normalize d) \<noteq> ''0''" "dec_format (dec_normalize d) \<noteq> []"
    unfolding normalize_quantity_def Let_def by (auto split: if_splits)
  let ?d = "dec_normalize d"
  note again = normal_rewritten [OF normal_normalize [of d]]
  have "de_digits ?d \<noteq> 0"
  proof
    assume zero: "de_digits ?d = 0"
    then have "de_exp ?d = 0" using normal_normalize [of d] by (simp add: normal_def)
    with zero have "dec_format ?d \<in> {''0'', ''-0''}"
      by (simp add: dec_format_def nat_str.simps digit_char_def)
    with shown show False by blast
  qed
  with again show ?thesis
    using shown by (simp add: plain_number_quantity)
qed

section \<open>Canonical objects are canonical\<close>

lemma sort_key_again: "sort_key f (sort_key f xs) = sort_key f xs"
  by (rule sort_key_id_if_sorted) simp

lemma canonical_list_set [simp]: "set (canonical_list path xs) = set xs"
  by (simp add: canonical_list_def split: option.split)

lemma canonical_list_again: "canonical_list path (canonical_list path xs) = canonical_list path xs"
  by (simp add: canonical_list_def sort_key_again split: option.split)

lemma canonical_value_idem: "canonical_value (canonical_value v path) path = canonical_value v path"
proof (induction v path rule: canonical_value.induct)
  case (1 d path)
  let ?f = "\<lambda>kv. (fst kv, canonical_value (snd kv) (path @ [fst kv]))"
  have "map ?f (sort_key fst (map ?f d)) = sort_key fst (map ?f d)"
    by (rule map_idI) (use 1 in auto)
  then show ?case by (simp add: sort_key_again del: map_eq_conv)
next
  case (2 xs path)
  let ?f = "\<lambda>x. canonical_value x path"
  have "map ?f (canonical_list path (map ?f xs)) = canonical_list path (map ?f xs)"
    by (rule map_idI) (use 2 in auto)
  then show ?case by (simp add: canonical_list_again del: map_eq_conv)
qed (simp_all add: normalize_quantity_idem)

lemma map_of_sorted:
  fixes d :: "('k::linorder \<times> 'v) list"
  shows "map_of (sort_key fst d) k = map_of d k"
proof -
  have "map_of xs k = map_option snd (case filter (\<lambda>x. fst x = k) xs of [] \<Rightarrow> None | x # _ \<Rightarrow> Some x)"
    for xs :: "('k \<times> 'v) list"
    by (induction xs) auto
  then show ?thesis by (simp add: sort_key_stable)
qed

lemma sort_key_empty [simp]: "sort_key f xs = [] \<longleftrightarrow> xs = []"
  by (metis length_0_conv length_sort)

definition canonical_items :: "json dict \<Rightarrow> string list \<Rightarrow> json dict" where
  "canonical_items d path = obj_items (canonical_value (JObj d) path)"

lemma canonical_items_get:
  "dict_get (canonical_items d path) k = map_option (\<lambda>v. canonical_value v (path @ [k])) (dict_get d k)"
proof -
  have "map_of (map (\<lambda>kv. (fst kv, f (fst kv) (snd kv))) d) k = map_option (f k) (map_of d k)" for f :: "string \<Rightarrow> json \<Rightarrow> json"
    by (induction d) auto
  then show ?thesis by (simp add: canonical_items_def map_of_sorted)
qed

lemma canonical_items_sorted: "sorted (dict_keys (canonical_items d path))"
  by (simp add: canonical_items_def)

lemma canonical_items_idem: "canonical_items (canonical_items d path) path = canonical_items d path"
  using canonical_value_idem [of "JObj d" path] by (simp add: canonical_items_def)

lemma canonicalize_items:
  "canonicalize_kubernetes_object r = canonical_items (redact_secret (without_runtime r)) []"
  by (simp add: canonicalize_kubernetes_object_def canonical_items_def)

lemma dict_pop_absent: "dict_get d k = None \<Longrightarrow> dict_pop k d = d"
  by (induction d) (auto split: if_splits)

lemma truthy_canonical: "\<not> is_quantity_path path \<Longrightarrow> truthy (canonical_value v path) = truthy v"
  by (cases v) (simp_all add: canonical_list_def split: option.split)

text \<open>The metadata of a canonical object are clean.\<close>

lemma fold_dict_pop_get:
  "dict_get (fold dict_pop ks d) k = (if k \<in> set ks then None else dict_get d k)"
  by (induction ks arbitrary: d) (auto simp: dict_get_pop)

lemma fold_dict_pop_absent: "\<forall>k \<in> set ks. dict_get d k = None \<Longrightarrow> fold dict_pop ks d = d"
  by (induction ks) (auto simp: dict_pop_absent)

definition stays :: "string \<Rightarrow> json dict \<Rightarrow> bool" where
  "stays k d \<longleftrightarrow> dict_get d k = None \<or> truthy (get_or_null d k)"

lemma drop_unless_stays: "stays k d \<Longrightarrow> drop_unless k d = d"
  by (auto simp: stays_def drop_unless_def dict_pop_absent)

lemma drop_unless_get:
  "dict_get (drop_unless k d) k' = (if k' = k \<and> \<not> truthy (get_or_null d k) then None else dict_get d k')"
  by (simp add: drop_unless_def dict_get_pop)

lemma stays_get: "dict_get d k = dict_get e k \<Longrightarrow> stays k d = stays k e"
  by (simp add: stays_def get_or_null_def)

definition clean :: "json dict \<Rightarrow> bool" where
  "clean md \<longleftrightarrow> (\<forall>k \<in> set RUNTIME_METADATA_FIELDS. dict_get md k = None) \<and>
     stays ''annotations'' md \<and> stays ''labels'' md"

lemma stays_drop_unless: "stays k (drop_unless k d)" "stays k d \<Longrightarrow> stays k (drop_unless k' d)"
  by (auto simp: stays_def drop_unless_def dict_get_pop get_or_null_def)

lemma clean_metadata_clean: "clean (clean_metadata md)"
  by (simp add: clean_def clean_metadata_def stays_drop_unless drop_unless_get fold_dict_pop_get)

lemma clean_stays: "clean md \<Longrightarrow> clean_metadata md = md"
  by (simp add: clean_def clean_metadata_def fold_dict_pop_absent drop_unless_stays)

lemma stays_canonical:
  "\<not> is_quantity_path (path @ [k]) \<Longrightarrow> stays k md \<Longrightarrow> stays k (canonical_items md path)"
  by (auto simp: stays_def get_or_null_def canonical_items_get truthy_canonical split: option.splits)

lemma clean_canonical: "clean md \<Longrightarrow> clean (canonical_items md [''metadata''])"
  by (simp add: clean_def canonical_items_get stays_canonical is_quantity_path_def QUANTITY_PATH_PARTS_def)

definition settled :: "json dict \<Rightarrow> bool" where
  "settled r \<longleftrightarrow> dict_get r ''status'' = None \<and>
     (\<forall>md. dict_get r ''metadata'' = Some (JObj md) \<longrightarrow> clean md)"

lemma settled_stays: "settled r \<Longrightarrow> without_runtime r = r"
  by (auto simp: settled_def without_runtime_def dict_pop_absent clean_stays AList.update_triv
      split: option.split json.split)

lemma settled_without_runtime: "settled (without_runtime r)"
  by (auto simp: settled_def without_runtime_def Let_def dict_simps clean_metadata_clean
      split: option.splits json.splits)

lemma settled_canonical:
  assumes "settled r"
  shows "settled (canonical_items r [])"
proof -
  have "clean md" if v: "canonical_value v [''metadata''] = JObj md" "dict_get r ''metadata'' = Some v" for v md
  proof (cases v)
    case (JObj d)
    with v(1) have "md = canonical_items d [''metadata'']" by (simp add: canonical_items_def)
    with v(2) JObj assms show ?thesis by (simp add: settled_def clean_canonical)
  qed (use v(1) in simp_all)
  with assms show ?thesis by (auto simp: settled_def canonical_items_get)
qed

text \<open>A secret whose values are replaced stays as it is.\<close>

definition redacted :: "json \<Rightarrow> bool" where
  "redacted v \<longleftrightarrow> (case v of JObj d \<Rightarrow> sorted (dict_keys d) \<and> (\<forall>x \<in> set (dict_values d). x = JStr ''<redacted>'')
     | _ \<Rightarrow> True)"

lemma normalize_redacted: "normalize_quantity ''<redacted>'' = ''<redacted>''"
  by (simp add: normalize_quantity_def re_fullmatch_def QUANTITY_PATTERN_def Opt_def is_digit_def
      char_code_def str_strip_def is_space_def)

lemma redact_field_stays:
  assumes "\<And>v. dict_get d k = Some v \<Longrightarrow> redacted v"
  shows "redact_field k d = d"
proof -
  have "map (\<lambda>k. (k, JStr ''<redacted>'')) (sort (dict_keys e)) = e"
    if "redacted (JObj e)" for e
    using that by (simp add: redacted_def sorted_sort_id) (rule map_idI, force)
  with assms show ?thesis
    by (auto simp: redact_field_def AList.update_triv split: option.split json.split)
qed

lemma redact_field_get:
  "dict_get (redact_field f d) k =
    (if k = f then map_option (\<lambda>v. case v of
        JObj vs \<Rightarrow> JObj (map (\<lambda>k. (k, JStr ''<redacted>'')) (sort (dict_keys vs))) | _ \<Rightarrow> v) (dict_get d k)
     else dict_get d k)"
  by (auto simp: redact_field_def dict_get_set split: option.split json.split)

lemma redacted_redact_field: "dict_get (redact_field f d) f = Some v \<Longrightarrow> redacted v"
proof -
  assume "dict_get (redact_field f d) f = Some v"
  then obtain w where "v = (case w of
      JObj vs \<Rightarrow> JObj (map (\<lambda>k. (k, JStr ''<redacted>'')) (sort (dict_keys vs))) | _ \<Rightarrow> w)"
    by (auto simp: redact_field_get)
  then show "redacted v" by (cases w) (auto simp: redacted_def o_def)
qed

lemma redacted_canonical: "redacted v \<Longrightarrow> redacted (canonical_value v path)"
  using canonical_items_sorted
  by (cases v) (auto simp: redacted_def normalize_redacted canonical_items_def)

definition is_secret :: "json dict \<Rightarrow> bool" where
  "is_secret d \<longleftrightarrow> str_lower (kind_text d) = ''secret''"

lemma not_secret_text: "str_lower (CHR ''{'' # s) \<noteq> ''secret''" "str_lower (CHR ''['' # s) \<noteq> ''secret''"
  by (simp_all add: str_lower_def to_lower_def is_upper_def char_code_def)

lemma is_secret_canonical: "is_secret (canonical_items d []) = is_secret d"
proof (cases "dict_get d ''kind''")
  case (Some v)
  show ?thesis
  proof (cases v)
    case (JObj e)
    with Some show ?thesis
      by (simp add: is_secret_def kind_text_def get_or_null_def canonical_items_get json_or_def
          not_secret_text)
  next
    case (JArr xs)
    with Some show ?thesis
      by (simp add: is_secret_def kind_text_def get_or_null_def canonical_items_get json_or_def
          not_secret_text canonical_list_def ORDER_INSENSITIVE_LIST_KEYS_def)
  qed (use Some in \<open>simp_all add: is_secret_def kind_text_def get_or_null_def canonical_items_get
      json_or_def is_quantity_path_def QUANTITY_PATH_PARTS_def\<close>)
qed (simp add: is_secret_def kind_text_def get_or_null_def canonical_items_get)

lemma is_secret_redact: "is_secret (redact_field f d) = is_secret d" if "f \<noteq> ''kind''"
  using that by (simp add: is_secret_def kind_text_def get_or_null_def redact_field_get)

definition covered :: "json dict \<Rightarrow> bool" where
  "covered d \<longleftrightarrow> (is_secret d \<longrightarrow>
     (\<forall>f \<in> {''data'', ''stringData''}. \<forall>v. dict_get d f = Some v \<longrightarrow> redacted v))"

lemma covered_redact_secret: "covered (redact_secret d)"
proof (cases "is_secret d")
  case True
  let ?e = "redact_field ''stringData'' (redact_field ''data'' d)"
  have "redact_secret d = ?e" using True by (simp add: redact_secret_def is_secret_def)
  moreover have "dict_get ?e ''data'' = dict_get (redact_field ''data'' d) ''data''"
    by (subst redact_field_get) simp
  ultimately show ?thesis
    by (auto simp: covered_def dest: redacted_redact_field)
qed (simp add: covered_def redact_secret_def is_secret_def)

lemma covered_canonical: "covered d \<Longrightarrow> covered (canonical_items d [])"
  by (auto simp: covered_def is_secret_canonical canonical_items_get redacted_canonical)

lemma covered_stays: "covered d \<Longrightarrow> redact_secret d = d"
  by (simp add: redact_secret_def covered_def is_secret_def redact_field_stays)

lemma settled_redact_secret: "settled d \<Longrightarrow> settled (redact_secret d)"
  by (simp add: settled_def redact_secret_def redact_field_get)

text \<open>
  C20. A canonical object is its own canonical form: canonicalising it again changes nothing. It has
  neither a status nor what the cluster adds to the metadata, and if it is a secret, its data
  and stringData are replaced, key by key.
\<close>

theorem canonical_object_is_stable:
  "canonicalize_kubernetes_object (canonicalize_kubernetes_object r) = canonicalize_kubernetes_object r \<and>
   settled (canonicalize_kubernetes_object r) \<and> covered (canonicalize_kubernetes_object r)"
proof -
  let ?c = "canonicalize_kubernetes_object r"
  have "settled ?c"
    unfolding canonicalize_items
    by (intro settled_canonical settled_redact_secret settled_without_runtime)
  moreover have "covered ?c"
    unfolding canonicalize_items by (intro covered_canonical covered_redact_secret)
  moreover have "canonicalize_kubernetes_object ?c = canonical_items ?c []"
    using calculation by (subst canonicalize_items) (simp add: settled_stays covered_stays)
  moreover have "canonical_items ?c [] = ?c" by (simp add: canonicalize_items canonical_items_idem)
  ultimately show ?thesis by simp
qed

section \<open>What canonical objects still show\<close>

text \<open>
  The annotation in which kubectl keeps the last applied manifest is not looked at: the data of a
  secret stay readable there.
\<close>

lemma last_applied_secret_is_kept:
  "let r = [(''kind'', JStr ''Secret''),
        (''metadata'', JObj [(''annotations'', JObj
          [(''kubectl.kubernetes.io/last-applied-configuration'', JStr manifest)])]),
        (''data'', JObj [(''password'', JStr value)])] in
    dict_get (canonicalize_kubernetes_object r) ''data'' = Some (JObj [(''password'', JStr ''<redacted>'')]) \<and>
    dict_get (canonicalize_kubernetes_object r) ''metadata'' = Some (JObj [(''annotations'', JObj
      [(''kubectl.kubernetes.io/last-applied-configuration'', JStr manifest)])])"
  by (simp add: Let_def canonicalize_items canonical_items_get)
     (simp add: redact_secret_def without_runtime_def clean_metadata_def drop_unless_def get_or_null_def
       RUNTIME_METADATA_FIELDS_def kind_text_def json_or_def str_lower_def to_lower_def is_upper_def
       char_code_def redact_field_def is_quantity_path_def QUANTITY_PATH_PARTS_def normalize_redacted char_of_def)

text \<open>
  Init containers run one after the other, but their order is taken to say nothing: two workloads
  that differ in it only have the same canonical form.
\<close>

lemma init_container_order_is_lost:
  "canonical_value (JArr [JObj [(''name'', JStr ''b'')], JObj [(''name'', JStr ''a'')]]) [''spec'', ''initContainers''] =
   canonical_value (JArr [JObj [(''name'', JStr ''a'')], JObj [(''name'', JStr ''b'')]]) [''spec'', ''initContainers'']"
  by (simp add: canonical_list_def ORDER_INSENSITIVE_LIST_KEYS_def is_quantity_path_def
      QUANTITY_PATH_PARTS_def list_sort_key_def get_or_null_def dumps_default_def dumps_str_def esc_char_def
      char_code_def quote_double_def default_layout_def char_of_def insort_key_def)

end
