(* ===== verification/TwinDelta.thy ===== *)
theory TwinDelta
  imports TwinCanonical Models
begin

text \<open>
  The release delta (\<open>namespace_twin/delta.py\<close>): the planned resources of a bundle compared with
  the live ones. What Python refuses while it iterates or joins (a number where a list should be)
  is an error of the calculation.
\<close>

section \<open>Results and iteration\<close>

definition sbind :: "'e + 'a \<Rightarrow> ('a \<Rightarrow> 'e + 'b) \<Rightarrow> 'e + 'b" where
  "sbind r f = (case r of Inl e \<Rightarrow> Inl e | Inr x \<Rightarrow> f x)"

lemma sbind_Inr: "sbind r f = Inr y \<longleftrightarrow> (\<exists>x. r = Inr x \<and> f x = Inr y)"
  by (cases r) (simp_all add: sbind_def)

lemma sbind_simps [simp]: "sbind (Inr x) f = f x" "sbind (Inl e) f = Inl e"
  by (simp_all add: sbind_def)

text \<open>\<open>for x in v or []\<close>: the elements of a list, the keys of a mapping, the characters of a text.\<close>

definition py_items :: "json \<Rightarrow> py_error + json list" where
  "py_items v =
     (if \<not> truthy v then Inr []
      else case v of
        JArr xs \<Rightarrow> Inr xs
      | JObj d \<Rightarrow> Inr (map JStr (dict_keys d))
      | JStr s \<Rightarrow> Inr (map (\<lambda>c. JStr [c]) s)
      | _ \<Rightarrow> Inl (TypeError ''object is not iterable''))"

text \<open>\<open>(v or {})\<close> and \<open>d.get(k, {})\<close>, of which a member is read next.\<close>

definition py_dict :: "json \<Rightarrow> py_error + json dict" where
  "py_dict v =
     (case json_or v (JObj []) of JObj d \<Rightarrow> Inr d | _ \<Rightarrow> Inl (AttributeError ''get''))"

definition py_member :: "json dict \<Rightarrow> string \<Rightarrow> py_error + json dict" where
  "py_member d k =
     (case dict_get d k of
        None \<Rightarrow> Inr []
      | Some (JObj x) \<Rightarrow> Inr x
      | Some _ \<Rightarrow> Inl (AttributeError ''get''))"

fun each_item :: "('a \<Rightarrow> 'e + 'b) \<Rightarrow> 'a list \<Rightarrow> 'e + 'b list" where
  "each_item f [] = Inr []"
| "each_item f (x # xs) = sbind (f x) (\<lambda>y. sbind (each_item f xs) (\<lambda>ys. Inr (y # ys)))"

text \<open>The elements of a member, gathered into one list.\<close>

definition gather :: "json \<Rightarrow> (json \<Rightarrow> py_error + 'a list) \<Rightarrow> py_error + 'a list" where
  "gather v f = sbind (py_items v) (\<lambda>xs. sbind (each_item f xs) (\<lambda>ys. Inr (concat ys)))"

text \<open>The hash of a value: of its text with sorted keys and without white space.\<close>

definition plain_hash :: "env \<Rightarrow> json \<Rightarrow> string" where
  "plain_hash e v = env_sha256 e (json_dumps v)"

text \<open>\<open>s.split(sep)\<close> at a character.\<close>

fun split_at :: "char \<Rightarrow> string \<Rightarrow> string \<Rightarrow> string list" where
  "split_at sep acc [] = [rev acc]"
| "split_at sep acc (c # s) = (if c = sep then rev acc # split_at sep [] s else split_at sep (c # acc) s)"

section \<open>Data\<close>

definition CLUSTER_SCOPED_KINDS :: "string list" where
  "CLUSTER_SCOPED_KINDS =
     [''ClusterRole'', ''ClusterRoleBinding'', ''CustomResourceDefinition'', ''Namespace'', ''Node'',
      ''PersistentVolume'', ''StorageClass'']"

definition IMMUTABLE_PATHS :: "string list list dict" where
  "IMMUTABLE_PATHS =
     [(''Deployment'', [[''spec'', ''selector'']]),
      (''StatefulSet'', [[''spec'', ''selector''], [''spec'', ''serviceName'']]),
      (''Service'', [[''spec'', ''clusterIP''], [''spec'', ''clusterIPs''], [''spec'', ''ipFamilies''],
         [''spec'', ''ipFamilyPolicy'']]),
      (''PersistentVolumeClaim'', [[''spec'', ''storageClassName''], [''spec'', ''volumeMode''],
         [''spec'', ''volumeName''], [''spec'', ''dataSource'']])]"

record live_snapshot =
  lv_resources :: "json list"
  lv_available :: bool
  lv_complete_kinds :: "string list"
  lv_evidence_refs :: "string list"
  lv_warning :: "string option"
  lv_helm_inventory :: bool
  lv_installed :: "string list"
  lv_ignored_releases :: "string list"
  lv_ignored_prefixes :: "string list"

text \<open>A planned resource (\<open>_resource_record\<close> of \<open>service.py\<close>) and an explicit deletion of the plan.\<close>

record twin_resource =
  tr_id :: string
  tr_identity :: string
  tr_api_version :: string
  tr_kind :: string
  tr_name :: string
  tr_namespace :: "string option"
  tr_payload :: "json dict"

record explicit_delete =
  ed_phase_id :: string
  ed_step_id :: string
  ed_step_type :: string
  ed_manifest_refs :: "string list"
  ed_commands :: "string list"

record delta_row =
  dr_change_id :: string
  dr_identity :: string
  dr_api_version :: "string option"
  dr_kind :: string
  dr_namespace :: "string option"
  dr_name :: string
  dr_helm_release :: "string option"
  dr_action :: string
  dr_current_summary :: "string option"
  dr_planned_summary :: "string option"
  dr_risk :: string
  dr_reason :: string
  dr_canonical_diff :: string
  dr_evidence_refs :: "string list"
  dr_redacted :: bool

record field_change =
  fc_path :: string
  fc_current :: json
  fc_planned :: json

section \<open>Field changes\<close>

text \<open>
  The comparison descends into mappings only; a list is compared as a whole. (Both sides are
  canonical, where Python's equality is that of the values.)
\<close>

lemma get_or_null_smaller: "size (get_or_null d k) < size (JObj d)"
proof -
  have "size (get_or_null d k) \<le> size_list (size_prod (\<lambda>_. 0) size) d"
    by (induction d) (auto simp: get_or_null_def split: if_splits option.splits)
  then show ?thesis by (simp add: less_Suc_eq_le)
qed

function field_changes :: "json \<Rightarrow> json \<Rightarrow> string list \<Rightarrow> field_change list" where
  "field_changes current planned path =
     (if is_obj current \<and> is_obj planned
      then
        let c = obj_items current; p = obj_items planned in
        concat (map (\<lambda>key. field_changes (get_or_null c key) (get_or_null p key) (path @ [key]))
          (sort (remdups (dict_keys c @ dict_keys p))))
      else if current \<noteq> planned
      then [\<lparr>fc_path = str_join ''.'' path, fc_current = current, fc_planned = planned\<rparr>]
      else [])"
  by pat_completeness auto
termination
proof (relation "measure (\<lambda>(c, p, path). size c)")
  fix current planned :: json and path c p key
  assume "is_obj current \<and> is_obj planned" and "c = obj_items current"
  then show "((get_or_null c key, get_or_null p key, path @ [key]), current, planned, path)
      \<in> measure (\<lambda>(c, p, path). size c)"
    using get_or_null_smaller [of c key] by (cases current) auto
qed simp

declare field_changes.simps [simp del]

definition immutable_conflict :: "string \<Rightarrow> field_change list \<Rightarrow> bool" where
  "immutable_conflict kind changes =
     list_ex (\<lambda>change. list_ex (\<lambda>path.
         take (length path) (split_at (CHR ''.'') [] (fc_path change)) = path)
       (case dict_get IMMUTABLE_PATHS kind of None \<Rightarrow> [] | Some paths \<Rightarrow> paths)) changes"

section \<open>Reading a manifest\<close>

definition pod_spec :: "json dict \<Rightarrow> json dict" where
  "pod_spec resource =
     (let spec = obj_items (get_or_null resource ''spec'');
          template = obj_items (get_or_null spec ''template'') in
      if is_obj (get_or_null template ''spec'') then obj_items (get_or_null template ''spec'') else spec)"

definition all_containers :: "json dict \<Rightarrow> py_error + json list" where
  "all_containers spec =
     sbind (py_items (get_or_null spec ''containers'')) (\<lambda>xs.
     sbind (py_items (get_or_null spec ''initContainers'')) (\<lambda>ys. Inr (xs @ ys)))"

definition privileged_container :: "json \<Rightarrow> bool" where
  "privileged_container container =
     (let context = get_or_null (obj_items container) ''securityContext'' in
      is_obj container \<and> is_obj context \<and>
      (get_or_null (obj_items context) ''privileged'' = JBool True \<or>
       get_or_null (obj_items context) ''allowPrivilegeEscalation'' = JBool True))"

definition helm_release :: "json dict \<Rightarrow> string option" where
  "helm_release resource =
     (let metadata = metadata_of resource;
          annotations = obj_items (get_or_null metadata ''annotations'');
          labels = obj_items (get_or_null metadata ''labels'');
          value = json_or (json_or (get_or_null annotations ''meta.helm.sh/release-name'')
            (get_or_null labels ''app.kubernetes.io/instance'')) (get_or_null labels ''release'') in
      if truthy value then Some (str_strip (py_str value)) else None)"

text \<open>\<open>casefold\<close>, on ASCII.\<close>

definition folded_release :: "json dict \<Rightarrow> string" where
  "folded_release resource = str_lower (opt_or (helm_release resource) [])"

definition ignored_helm_resource :: "json dict \<Rightarrow> string list \<Rightarrow> bool" where
  "ignored_helm_resource resource prefs =
     (let release = folded_release resource in
      release \<noteq> [] \<and> list_ex (\<lambda>p. starts_with release (str_lower p)) prefs)"

definition uninstalled_helm_resource :: "json dict \<Rightarrow> live_snapshot \<Rightarrow> string list \<Rightarrow> bool" where
  "uninstalled_helm_resource resource snapshot planned_installs =
     (let release = folded_release resource in
      lv_helm_inventory snapshot \<and> release \<noteq> [] \<and>
      release \<notin> set (map str_lower (lv_installed snapshot)) \<and>
      release \<notin> set (map str_lower planned_installs))"

definition is_full_manifest :: "json dict \<Rightarrow> bool" where
  "is_full_manifest resource \<longleftrightarrow>
     truthy (get_or_null resource ''apiVersion'') \<and> truthy (get_or_null resource ''kind'') \<and>
     truthy (get_or_null resource ''metadata'')"

section \<open>Risk, reason and summary\<close>

definition sensitive_paths :: "string list" where
  "sensitive_paths =
     [''selector'', ''hostNetwork'', ''hostPID'', ''serviceAccountName'', ''persistentVolumeClaim'']"

definition risk_for :: "string \<Rightarrow> json dict \<Rightarrow> string \<Rightarrow> field_change list \<Rightarrow> py_error + string" where
  "risk_for kind planned action changes =
     (if action = ''unknown'' then Inr ''unknown''
      else if action = ''immutable_conflict'' \<or> kind \<in> set CLUSTER_SCOPED_KINDS \<or> kind = ''Secret''
      then Inr ''critical''
      else if kind \<in> {''PersistentVolumeClaim'', ''Role'', ''RoleBinding'', ''ServiceAccount''}
      then Inr ''high''
      else
        sbind (all_containers (pod_spec planned)) (\<lambda>containers.
        if list_ex privileged_container containers then Inr ''critical''
        else if list_ex (\<lambda>change. list_ex (\<lambda>token. str_contains token (fc_path change)) sensitive_paths) changes
        then Inr ''high''
        else if kind \<in> {''Ingress'', ''Service'', ''NetworkPolicy''} \<or> action = ''explicit_delete''
        then Inr (if action = ''explicit_delete'' then ''high'' else ''medium'')
        else Inr ''low''))"

definition change_reason :: "field_change list \<Rightarrow> string" where
  "change_reason changes =
     ''Canonical intent differs at '' @ str_join '', '' (map fc_path (take 4 changes)) @
     (if 4 < length changes then '' and more'' else []) @ ''.''"

text \<open>\<open>",".join(xs)\<close>: every element must be a text.\<close>

fun join_texts :: "json list \<Rightarrow> py_error + string list" where
  "join_texts [] = Inr []"
| "join_texts (JStr s # xs) = sbind (join_texts xs) (\<lambda>ts. Inr (s # ts))"
| "join_texts (x # xs) = Inl (TypeError ''expected str instance'')"

definition summary_of :: "json dict option \<Rightarrow> py_error + string option" where
  "summary_of resource =
     (case resource of
        None \<Rightarrow> Inr None
      | Some r \<Rightarrow>
          let spec = obj_items (get_or_null r ''spec'');
              parts = [''kind='' @ text_or (get_or_null r ''kind'') ''unknown''] @
                (case dict_get spec ''replicas'' of None \<Rightarrow> [] | Some n \<Rightarrow> [''replicas='' @ py_str n]) in
          sbind (py_items (get_or_null (pod_spec r) ''containers'')) (\<lambda>containers.
          let images = filter truthy (map (\<lambda>c. get_or_null (obj_items c) ''image'') (filter is_obj containers)) in
          sbind (join_texts (take 4 images)) (\<lambda>shown.
          Inr (Some (str_join ''; ''
            (parts @ (if images \<noteq> [] then [''images='' @ str_join '','' shown] else [])))))))"

section \<open>Rows\<close>

text \<open>\<open>list(dict.fromkeys(xs))\<close>.\<close>

definition unique_first :: "'a list \<Rightarrow> 'a list" where
  "unique_first xs = rev (remdups (rev xs))"

definition change_json :: "field_change \<Rightarrow> json" where
  "change_json c = JObj [(''path'', JStr (fc_path c)), (''current'', fc_current c), (''planned'', fc_planned c)]"

definition dict_json :: "json dict option \<Rightarrow> json" where
  "dict_json d = (case d of None \<Rightarrow> JNull | Some x \<Rightarrow> JObj x)"

definition diff_text :: "json dict option \<Rightarrow> json dict option \<Rightarrow> field_change list \<Rightarrow> string" where
  "diff_text current planned changes =
     take 50000 (dumps_indent (JObj
       [(''current'', dict_json current), (''planned'', dict_json planned),
        (''field_changes'', JArr (map change_json changes))]))"

text \<open>The release of a row: for a resource that is not created it must be installed.\<close>

definition row_release :: "live_snapshot \<Rightarrow> string \<Rightarrow> json dict option \<Rightarrow> json dict option \<Rightarrow> string option" where
  "row_release snapshot action current planned =
     (let resource = (case planned of Some (x # d) \<Rightarrow> x # d
            | _ \<Rightarrow> (case current of Some d \<Rightarrow> d | None \<Rightarrow> []));
          release = helm_release resource in
      if lv_helm_inventory snapshot \<and> action \<noteq> ''create'' \<and> release \<notin> Some ` set (lv_installed snapshot)
      then None else release)"

text \<open>The arguments of \<open>_row\<close>.\<close>

record row_args =
  ra_identity :: string
  ra_api_version :: string
  ra_kind :: string
  ra_namespace :: "string option"
  ra_name :: string
  ra_action :: string
  ra_risk :: string
  ra_reason :: string
  ra_current :: "json dict option"
  ra_planned :: "json dict option"
  ra_changes :: "field_change list"
  ra_evidence_refs :: "string list"

definition delta_row_of :: "live_snapshot \<Rightarrow> string \<Rightarrow> row_args \<Rightarrow> py_error + delta_row" where
  "delta_row_of snapshot uuid a =
     sbind (summary_of (ra_current a)) (\<lambda>current_summary.
     sbind (summary_of (ra_planned a)) (\<lambda>planned_summary.
     Inr \<lparr>dr_change_id = ''delta_'' @ uuid, dr_identity = ra_identity a,
       dr_api_version = (if ra_api_version a = [] then None else Some (ra_api_version a)),
       dr_kind = ra_kind a, dr_namespace = ra_namespace a, dr_name = ra_name a,
       dr_helm_release = row_release snapshot (ra_action a) (ra_current a) (ra_planned a),
       dr_action = ra_action a, dr_current_summary = current_summary,
       dr_planned_summary = planned_summary, dr_risk = ra_risk a, dr_reason = ra_reason a,
       dr_canonical_diff = diff_text (ra_current a) (ra_planned a) (ra_changes a),
       dr_evidence_refs = unique_first (filter (\<lambda>r. r \<noteq> []) (ra_evidence_refs a)),
       dr_redacted = True\<rparr>))"

section \<open>The delta\<close>

definition live_map :: "live_snapshot \<Rightarrow> string \<Rightarrow> json dict dict" where
  "live_map snapshot ns =
     dict_update [] (map (\<lambda>item. (resource_identity (obj_items item) (Some ns),
         canonicalize_kubernetes_object (obj_items item)))
       (filter is_obj (lv_resources snapshot)))"

definition resource_manifest :: "twin_resource \<Rightarrow> json dict" where
  "resource_manifest item = obj_items (get_or_null (tr_payload item) ''manifest'')"

definition resource_path :: "twin_resource \<Rightarrow> string" where
  "resource_path item = text_or (get_or_null (tr_payload item) ''path'') []"

definition skipped_resource :: "live_snapshot \<Rightarrow> string list \<Rightarrow> twin_resource \<Rightarrow> bool" where
  "skipped_resource snapshot installs item =
     (ignored_helm_resource (resource_manifest item) (lv_ignored_prefixes snapshot) \<or>
      uninstalled_helm_resource (resource_manifest item) snapshot installs)"

definition row_identity :: "string \<Rightarrow> twin_resource \<Rightarrow> string" where
  "row_identity ns item =
     (if tr_identity item \<noteq> [] then tr_identity item else resource_identity (resource_manifest item) (Some ns))"

definition row_kind :: "twin_resource \<Rightarrow> json dict \<Rightarrow> string" where
  "row_kind item planned =
     (if tr_kind item \<noteq> [] then tr_kind item else text_or (get_or_null planned ''kind'') ''Unknown'')"

text \<open>Action, reason and changes of a planned resource, by what is known of the live one.\<close>

definition classify :: "live_snapshot \<Rightarrow> string \<Rightarrow> json dict option \<Rightarrow> json dict \<Rightarrow>
    string \<times> string \<times> field_change list" where
  "classify snapshot kind current planned =
     (case current of
        None \<Rightarrow>
          if lv_available snapshot \<and> kind \<in> set (lv_complete_kinds snapshot)
          then (''create'',
            ''The resource is declared by the bundle and absent from a complete live-kind snapshot.'', [])
          else (''unknown'', ''Live evidence is unavailable or incomplete for this resource kind.'', [])
      | Some c \<Rightarrow>
          if \<not> is_full_manifest c
          then (''unknown'', ''The live inspector returned summary evidence, not a canonical manifest.'', [])
          else
            let changes = field_changes (JObj c) (JObj planned) [] in
            if changes = [] then (''no_op'', ''Canonical live and planned intent are equivalent.'', [])
            else if immutable_conflict kind changes
            then (''immutable_conflict'', ''The planned change modifies an immutable Kubernetes field.'', changes)
            else (''update'', change_reason changes, changes))"

definition row_name :: "twin_resource \<Rightarrow> json dict \<Rightarrow> py_error + string" where
  "row_name item planned =
     (if tr_name item \<noteq> [] then Inr (tr_name item)
      else case json_or (get_or_null planned ''metadata'') (JObj []) of
        JObj md \<Rightarrow> Inr (text_or (get_or_null md ''name'') ''unknown'')
      | _ \<Rightarrow> Inl (AttributeError ''get''))"

definition planned_row ::
    "live_snapshot \<Rightarrow> string \<Rightarrow> string \<Rightarrow> twin_resource \<Rightarrow> py_error + delta_row" where
  "planned_row snapshot ns uuid item =
     (let identity = row_identity ns item;
          planned = canonicalize_kubernetes_object (resource_manifest item);
          kind = row_kind item planned;
          current = dict_get (live_map snapshot ns) identity;
          (action, reason, changes) = classify snapshot kind current planned in
      sbind (risk_for kind planned action changes) (\<lambda>risk.
      sbind (row_name item planned) (\<lambda>nm.
      delta_row_of snapshot uuid
        \<lparr>ra_identity = identity,
         ra_api_version = (if tr_api_version item \<noteq> [] then tr_api_version item
           else text_or (get_or_null planned ''apiVersion'') []),
         ra_kind = kind, ra_namespace = Some (opt_or (tr_namespace item) ns), ra_name = nm,
         ra_action = action, ra_risk = risk, ra_reason = reason, ra_current = current,
         ra_planned = Some planned, ra_changes = changes,
         ra_evidence_refs = str_or (resource_path item) identity # lv_evidence_refs snapshot\<rparr>)))"

fun planned_rows :: "live_snapshot \<Rightarrow> string \<Rightarrow> string list \<Rightarrow> (nat \<Rightarrow> string) \<Rightarrow> twin_resource list \<Rightarrow>
    delta_row list \<times> twin_resource dict \<Rightarrow> py_error + (delta_row list \<times> twin_resource dict)" where
  "planned_rows snapshot ns installs ids [] (rows, paths) = Inr (rows, paths)"
| "planned_rows snapshot ns installs ids (item # items) (rows, paths) =
     (if skipped_resource snapshot installs item
      then planned_rows snapshot ns installs ids items (rows, paths)
      else
        sbind (planned_row snapshot ns (ids (length rows)) item) (\<lambda>row.
        planned_rows snapshot ns installs ids items
          (rows @ [row], dict_set (resource_path item) item paths)))"

definition delete_row ::
    "live_snapshot \<Rightarrow> string \<Rightarrow> string \<Rightarrow> string \<Rightarrow> twin_resource \<Rightarrow> json dict \<Rightarrow> py_error + delta_row" where
  "delete_row snapshot ns uuid ref item current =
     delta_row_of snapshot uuid
       \<lparr>ra_identity = tr_identity item, ra_api_version = tr_api_version item,
        ra_kind = str_or (tr_kind item) ''Unknown'',
        ra_namespace = Some (opt_or (tr_namespace item) ns),
        ra_name = str_or (tr_name item) ''unknown'', ra_action = ''explicit_delete'',
        ra_risk = ''high'',
        ra_reason = ''The machine plan contains an explicit delete step for this live resource.'',
        ra_current = Some current, ra_planned = None, ra_changes = [], ra_evidence_refs = [ref]\<rparr>"

fun delete_rows :: "live_snapshot \<Rightarrow> string \<Rightarrow> (nat \<Rightarrow> string) \<Rightarrow> twin_resource dict \<Rightarrow> string list \<Rightarrow>
    delta_row list \<Rightarrow> py_error + delta_row list" where
  "delete_rows snapshot ns ids paths [] rows = Inr rows"
| "delete_rows snapshot ns ids paths (ref # refs) rows =
     (case dict_get paths ref of
        None \<Rightarrow> delete_rows snapshot ns ids paths refs rows
      | Some item \<Rightarrow>
          (case dict_get (live_map snapshot ns) (tr_identity item) of
             None \<Rightarrow> delete_rows snapshot ns ids paths refs rows
           | Some current \<Rightarrow>
               sbind (delete_row snapshot ns (ids (length rows)) ref item current) (\<lambda>row.
               delete_rows snapshot ns ids paths refs (rows @ [row]))))"

text \<open>One row for each resource: an explicit deletion stays, otherwise the later row wins.\<close>

definition select_row :: "delta_row \<Rightarrow> delta_row dict \<Rightarrow> delta_row dict" where
  "select_row row selected =
     (case dict_get selected (dr_identity row) of
        Some existing \<Rightarrow>
          if dr_action existing = ''explicit_delete'' then selected
          else dict_set (dr_identity row) row selected
      | None \<Rightarrow> dict_set (dr_identity row) row selected)"

definition row_order :: "delta_row \<Rightarrow> string list" where
  "row_order row = [dr_kind row, opt_or (dr_namespace row) [], dr_name row, dr_action row]"

definition deduplicate :: "delta_row list \<Rightarrow> delta_row list" where
  "deduplicate rows = sort_key row_order (dict_values (fold select_row rows []))"

definition calculate_release_delta ::
    "(nat \<Rightarrow> string) \<Rightarrow> twin_resource list \<Rightarrow> live_snapshot \<Rightarrow> string list \<Rightarrow> string \<Rightarrow> explicit_delete list \<Rightarrow>
      py_error + delta_row list" where
  "calculate_release_delta ids planned snapshot installs ns deletes =
     sbind (planned_rows snapshot ns installs ids planned ([], [])) (\<lambda>(rows, paths).
     sbind (delete_rows snapshot ns ids paths (concat (map ed_manifest_refs deletes)) rows) (\<lambda>all.
     Inr (deduplicate all)))"

section \<open>Equal intent\<close>

text \<open>A value without the members that are null, in mappings at any depth but not inside lists.\<close>

function drop_nulls :: "json \<Rightarrow> json" where
  "drop_nulls (JObj d) =
     JObj (map (\<lambda>kv. (fst kv, drop_nulls (snd kv))) (filter (\<lambda>kv. snd kv \<noteq> JNull) d))"
| "drop_nulls (JArr xs) = JArr xs"
| "drop_nulls (JStr s) = JStr s"
| "drop_nulls JNull = JNull"
| "drop_nulls (JBool b) = JBool b"
| "drop_nulls (JInt n) = JInt n"
  by pat_completeness auto
termination
proof (relation "measure size")
  fix d :: "json dict" and x assume "x \<in> set (filter (\<lambda>kv. snd kv \<noteq> JNull) d)"
  then have "size (snd x) < Suc (size_list (size_prod (\<lambda>_. 0) size) d)"
    by (induction d) (auto simp: less_Suc_eq_le split: if_splits)
  then show "(snd x, JObj d) \<in> measure size" by simp
qed simp

text \<open>Keys sorted and without repetition, in mappings at any depth outside lists.\<close>

fun neat :: "json \<Rightarrow> bool" where
  "neat (JObj d) = (sorted (map fst d) \<and> distinct (map fst d) \<and> list_all (\<lambda>kv. neat (snd kv)) d)"
| "neat v = True"

lemma neat_canonical: "json_wf v \<Longrightarrow> neat (canonical_value v path)"
  by (induction v path rule: canonical_value.induct)
    (auto simp: list_all_iff distinct_map o_def inj_on_def)

lemma drop_nulls_null [simp]: "drop_nulls v = JNull \<longleftrightarrow> v = JNull"
  by (cases v) auto

lemma drop_nulls_obj: "is_obj (drop_nulls v) = is_obj v"
  by (cases v) auto

lemma drop_nulls_leaf: "\<not> is_obj v \<Longrightarrow> drop_nulls v = v"
  by (cases v) auto

lemma neat_get: "neat (JObj d) \<Longrightarrow> neat (get_or_null d k)"
  by (auto simp: get_or_null_def list_all_iff dest!: map_of_SomeD split: option.split)

lemma get_or_null_absent: "k \<notin> set (dict_keys d) \<Longrightarrow> get_or_null d k = JNull"
  by (simp add: get_or_null_def map_of_eq_None_iff [THEN iffD2])

lemma dropped_get:
  "get_or_null (map (\<lambda>kv. (fst kv, drop_nulls (snd kv))) (filter (\<lambda>kv. snd kv \<noteq> JNull) d)) k =
    drop_nulls (get_or_null d k)" if "distinct (map fst d)"
  using that
proof (induction d)
  case (Cons kv d)
  have "get_or_null d k = JNull" if "k = fst kv"
    using Cons.prems that by (intro get_or_null_absent) simp
  with Cons show ?case by (auto simp: get_or_null_def split: if_splits)
qed (simp add: get_or_null_def)

lemma dict_ext:
  assumes "sorted (map fst d)" "distinct (map fst d)" "sorted (map fst e)" "distinct (map fst e)"
    and "\<forall>kv \<in> set d \<union> set e. snd kv \<noteq> JNull" and "\<And>k. get_or_null d k = get_or_null e k"
  shows "d = e"
proof -
  have "map_of d k = map_of e k" for k
    using assms(5) assms(6) [of k]
    by (auto simp: get_or_null_def split: option.splits dest!: map_of_SomeD) force+
  then have "map_of d = map_of e" by blast
  from sort_key_dict_unique [OF assms(2,4) this] assms(1,3) show ?thesis
    by (simp add: sort_key_id_if_sorted)
qed

lemma field_changes_none:
  "neat x \<Longrightarrow> neat y \<Longrightarrow> field_changes x y path = [] \<longleftrightarrow> drop_nulls x = drop_nulls y"
proof (induction x y path rule: field_changes.induct)
  case (1 x y path)
  show ?case
  proof (cases "is_obj x \<and> is_obj y")
    case True
    then obtain d e where xy: "x = JObj d" "y = JObj e" by (cases x; cases y) auto
    let ?g = "\<lambda>d. map (\<lambda>kv. (fst kv, drop_nulls (snd kv))) (filter (\<lambda>kv. snd kv \<noteq> JNull) d)"
    have keys: "distinct (map fst d)" "distinct (map fst e)" "sorted (map fst d)" "sorted (map fst e)"
      using 1(2,3) xy by simp_all
    have neat: "neat (get_or_null d k)" "neat (get_or_null e k)" for k
      using 1(2,3) xy neat_get by auto
    have "field_changes x y path = [] \<longleftrightarrow>
        (\<forall>k \<in> set (dict_keys d @ dict_keys e). drop_nulls (get_or_null d k) = drop_nulls (get_or_null e k))"
      using 1(1) [OF True refl refl, of k for k] neat xy
      by (subst field_changes.simps) simp
    also have "\<dots> \<longleftrightarrow> (\<forall>k. drop_nulls (get_or_null d k) = drop_nulls (get_or_null e k))"
    proof -
      have "drop_nulls (get_or_null d k) = drop_nulls (get_or_null e k)"
        if "k \<notin> set (dict_keys d @ dict_keys e)" for k
        using that get_or_null_absent [of k d] get_or_null_absent [of k e] by simp
      then show ?thesis by blast
    qed
    also have "\<dots> \<longleftrightarrow> (\<forall>k. get_or_null (?g d) k = get_or_null (?g e) k)"
      by (simp add: dropped_get keys)
    also have "\<dots> \<longleftrightarrow> ?g d = ?g e"
    proof
      have sorted: "sorted (map fst (?g xs)) \<and> distinct (map fst (?g xs))"
        if "sorted (map fst xs)" "distinct (map fst xs)" for xs :: "json dict"
        using that by (simp add: o_def sorted_filter distinct_map_filter)
      assume "\<forall>k. get_or_null (?g d) k = get_or_null (?g e) k"
      then show "?g d = ?g e"
        using sorted [OF keys(3,1)] sorted [OF keys(4,2)] by (intro dict_ext) auto
    qed simp
    finally show ?thesis by (simp add: xy)
  next
    case False
    have "drop_nulls x = drop_nulls y \<longleftrightarrow> x = y"
    proof (cases "is_obj x \<or> is_obj y")
      case True
      with False have "is_obj x \<noteq> is_obj y" by blast
      then show ?thesis by (metis drop_nulls_obj)
    qed (simp add: drop_nulls_leaf)
    with False show ?thesis by (subst field_changes.simps) auto
  qed
qed

section \<open>Canonical objects are neat\<close>

lemma json_wf_pop: "json_wf (JObj d) \<Longrightarrow> json_wf (JObj (dict_pop k d))"
  by (auto simp: AList.delete_eq list_all_iff distinct_map_filter)

lemma json_wf_set: "json_wf (JObj d) \<Longrightarrow> json_wf v \<Longrightarrow> json_wf (JObj (dict_set k v d))"
  by (auto simp: list_all_iff simp del: AList.update.simps dest!: dict_set_in)

lemma json_wf_get: "json_wf (JObj d) \<Longrightarrow> dict_get d k = Some v \<Longrightarrow> json_wf v"
  by (auto simp: list_all_iff dest!: map_of_SomeD)

lemma json_wf_fold_pop: "json_wf (JObj d) \<Longrightarrow> json_wf (JObj (fold dict_pop ks d))"
  by (induction ks arbitrary: d) (simp_all add: json_wf_pop del: json_wf.simps)

lemma json_wf_clean: "json_wf (JObj md) \<Longrightarrow> json_wf (JObj (clean_metadata md))"
  by (simp add: clean_metadata_def drop_unless_def json_wf_fold_pop json_wf_pop del: json_wf.simps)

lemma json_wf_without_runtime: "json_wf (JObj r) \<Longrightarrow> json_wf (JObj (without_runtime r))"
proof -
  assume "json_wf (JObj r)"
  then have doc: "json_wf (JObj (dict_pop ''status'' r))" by (rule json_wf_pop)
  show ?thesis
  proof (cases "dict_get (dict_pop ''status'' r) ''metadata''")
    case (Some v)
    with doc have "json_wf v" by (rule json_wf_get)
    with doc Some show ?thesis
      by (cases v) (simp_all add: without_runtime_def json_wf_set json_wf_clean del: json_wf.simps(2))
  qed (use doc in \<open>simp add: without_runtime_def\<close>)
qed

lemma json_wf_redact_field: "json_wf (JObj d) \<Longrightarrow> json_wf (JObj (redact_field f d))"
proof -
  assume d: "json_wf (JObj d)"
  show ?thesis
  proof (cases "dict_get d f")
    case (Some v)
    with d have v: "json_wf v" by (rule json_wf_get)
    show ?thesis
    proof (cases v)
      case (JObj vs)
      with v have "json_wf (JObj (map (\<lambda>k. (k, JStr ''<redacted>'')) (sort (dict_keys vs))))"
        by (simp add: o_def list_all_iff)
      with d Some JObj show ?thesis by (simp add: redact_field_def json_wf_set del: json_wf.simps)
    qed (use d Some in \<open>simp_all add: redact_field_def\<close>)
  qed (use d in \<open>simp add: redact_field_def\<close>)
qed

lemma neat_canonical_object:
  assumes "json_wf (JObj r)"
  shows "neat (JObj (canonicalize_kubernetes_object r))"
proof -
  have "json_wf (JObj (redact_secret (without_runtime r)))"
    using assms by (simp add: redact_secret_def json_wf_redact_field json_wf_without_runtime del: json_wf.simps)
  from neat_canonical [OF this, of "[]"] show ?thesis
    by (simp add: canonicalize_kubernetes_object_def)
qed

section \<open>The rows of a delta\<close>

lemma list_all2_in:
  "list_all2 P xs ys \<Longrightarrow> x \<in> set xs \<Longrightarrow> \<exists>y \<in> set ys. P x y"
  "list_all2 P xs ys \<Longrightarrow> y \<in> set ys \<Longrightarrow> \<exists>x \<in> set xs. P x y"
  by (induction rule: list_all2_induct) auto

lemma delta_row_of_fields:
  assumes "delta_row_of snapshot uuid a = Inr row"
  shows "dr_identity row = ra_identity a" "dr_action row = ra_action a" "dr_kind row = ra_kind a"
    "dr_risk row = ra_risk a"
    "dr_canonical_diff row = diff_text (ra_current a) (ra_planned a) (ra_changes a)"
  using assms by (auto simp: delta_row_of_def sbind_Inr)

lemma planned_row_fields:
  assumes "planned_row snapshot ns uuid item = Inr row"
  shows "dr_identity row = row_identity ns item"
    and "dr_action row = fst (classify snapshot (row_kind item (canonicalize_kubernetes_object (resource_manifest item)))
      (dict_get (live_map snapshot ns) (row_identity ns item))
      (canonicalize_kubernetes_object (resource_manifest item)))"
  using assms by (auto simp: planned_row_def Let_def sbind_Inr split: prod.splits
      dest: delta_row_of_fields)

lemma delete_row_fields:
  "delete_row snapshot ns uuid ref item current = Inr row \<Longrightarrow>
    dr_identity row = tr_identity item \<and> dr_action row = ''explicit_delete''"
  by (auto simp: delete_row_def dest: delta_row_of_fields)

lemma planned_rows_result:
  "planned_rows snapshot ns installs ids items (rows, paths) = Inr (rows', paths') \<Longrightarrow>
    \<exists>fresh. rows' = rows @ fresh \<and>
      list_all2 (\<lambda>item row. \<exists>uuid. planned_row snapshot ns uuid item = Inr row)
        (filter (\<lambda>item. \<not> skipped_resource snapshot installs item) items) fresh \<and>
      (\<forall>ref item. dict_get paths' ref = Some item \<longrightarrow> dict_get paths ref = Some item \<or>
        item \<in> set items \<and> \<not> skipped_resource snapshot installs item \<and> resource_path item = ref)"
proof (induction items arbitrary: rows paths)
  case (Cons item items)
  show ?case
  proof (cases "skipped_resource snapshot installs item")
    case True
    with Cons.prems have "planned_rows snapshot ns installs ids items (rows, paths) = Inr (rows', paths')"
      by simp
    from Cons.IH [OF this] True show ?thesis by auto
  next
    case False
    with Cons.prems obtain row where row: "planned_row snapshot ns (ids (length rows)) item = Inr row"
      and rest: "planned_rows snapshot ns installs ids items
        (rows @ [row], dict_set (resource_path item) item paths) = Inr (rows', paths')"
      by (auto simp: sbind_Inr)
    from Cons.IH [OF rest] obtain fresh where fresh: "rows' = (rows @ [row]) @ fresh"
      "list_all2 (\<lambda>item row. \<exists>uuid. planned_row snapshot ns uuid item = Inr row)
        (filter (\<lambda>item. \<not> skipped_resource snapshot installs item) items) fresh"
      "\<forall>ref it. dict_get paths' ref = Some it \<longrightarrow>
        dict_get (dict_set (resource_path item) item paths) ref = Some it \<or>
        it \<in> set items \<and> \<not> skipped_resource snapshot installs it \<and> resource_path it = ref"
      by blast
    have "dict_get paths' ref = Some it \<longrightarrow> dict_get paths ref = Some it \<or>
        it \<in> set (item # items) \<and> \<not> skipped_resource snapshot installs it \<and> resource_path it = ref" for ref it
      using fresh(3) False by (auto simp: dict_get_set split: if_splits)
    with fresh(1,2) row False show ?thesis by (intro exI [of _ "row # fresh"]) auto
  qed
qed auto

lemma delete_rows_result:
  "delete_rows snapshot ns ids paths refs rows = Inr rows' \<Longrightarrow>
    \<exists>fresh. rows' = rows @ fresh \<and> (\<forall>row \<in> set fresh. \<exists>ref \<in> set refs. \<exists>item current uuid.
      dict_get paths ref = Some item \<and> dict_get (live_map snapshot ns) (tr_identity item) = Some current \<and>
      delete_row snapshot ns uuid ref item current = Inr row)"
proof (induction refs arbitrary: rows)
  case (Cons ref refs)
  show ?case
  proof (cases "\<exists>item current. dict_get paths ref = Some item \<and>
      dict_get (live_map snapshot ns) (tr_identity item) = Some current")
    case True
    then obtain item current where found: "dict_get paths ref = Some item"
      "dict_get (live_map snapshot ns) (tr_identity item) = Some current" by blast
    with Cons.prems obtain row where row: "delete_row snapshot ns (ids (length rows)) ref item current = Inr row"
      and rest: "delete_rows snapshot ns ids paths refs (rows @ [row]) = Inr rows'"
      by (auto simp: sbind_Inr)
    from Cons.IH [OF rest] found row show ?thesis by fastforce
  next
    case False
    with Cons.prems have "delete_rows snapshot ns ids paths refs rows = Inr rows'"
      by (auto split: option.splits)
    from Cons.IH [OF this] show ?thesis by fastforce
  qed
qed simp

text \<open>One row for each identity.\<close>

lemma distinct_map_sort_key: "distinct (map g (sort_key f xs)) = distinct (map g xs)"
  by (simp add: distinct_map)

lemma select_row_get:
  "dict_get (select_row row selected) k =
    (if k = dr_identity row \<and> (\<forall>e. dict_get selected k = Some e \<longrightarrow> dr_action e \<noteq> ''explicit_delete'')
     then Some row else dict_get selected k)"
  by (auto simp: select_row_def dict_get_set split: option.split)

lemma select_row_distinct: "distinct (dict_keys selected) \<Longrightarrow> distinct (dict_keys (select_row row selected))"
  by (simp add: select_row_def split: option.split)

lemma selected_distinct: "distinct (dict_keys selected) \<Longrightarrow> distinct (dict_keys (fold select_row rows selected))"
  by (induction rows arbitrary: selected) (simp_all add: select_row_distinct)

lemma selected_get:
  "(\<forall>k row. dict_get selected k = Some row \<longrightarrow> dr_identity row = k) \<Longrightarrow>
    (dict_get (fold select_row rows selected) k = Some row \<longrightarrow>
       dr_identity row = k \<and> (row \<in> set rows \<or> dict_get selected k = Some row)) \<and>
    (dict_get (fold select_row rows selected) k = None \<longrightarrow>
       k \<notin> dr_identity ` set rows \<and> dict_get selected k = None)"
proof (induction rows arbitrary: selected)
  case (Cons r rows)
  have "\<forall>k row. dict_get (select_row r selected) k = Some row \<longrightarrow> dr_identity row = k"
    using Cons.prems by (auto simp: select_row_get split: if_splits)
  from Cons.IH [OF this] show ?case by (auto simp: select_row_get split: if_splits)
qed auto

lemma deduplicate_result:
  shows "distinct (map dr_identity (deduplicate rows))" and "sorted (map row_order (deduplicate rows))"
    and "set (deduplicate rows) \<subseteq> set rows"
    and "dr_identity ` set (deduplicate rows) = dr_identity ` set rows"
proof -
  let ?sel = "fold select_row rows []"
  have dist: "distinct (dict_keys ?sel)" by (rule selected_distinct) simp
  have get: "dict_get ?sel k = Some row \<Longrightarrow> dr_identity row = k \<and> row \<in> set rows"
    "dict_get ?sel k = None \<Longrightarrow> k \<notin> dr_identity ` set rows" for k row
    using selected_get [of "[]" rows k row] by auto
  have key: "fst x = dr_identity (snd x) \<and> snd x \<in> set rows" if "x \<in> set ?sel" for x
  proof -
    have "dict_get ?sel (fst x) = Some (snd x)"
      using that dist by (intro map_of_is_SomeI) simp_all
    from get(1) [OF this] show ?thesis by simp
  qed
  then have "map dr_identity (dict_values ?sel) = dict_keys ?sel" by simp
  then have "distinct (map dr_identity (dict_values ?sel))" using dist by (simp only:)
  then show "distinct (map dr_identity (deduplicate rows))"
    by (simp only: deduplicate_def distinct_map_sort_key)
  show "sorted (map row_order (deduplicate rows))" by (simp add: deduplicate_def)
  show sub: "set (deduplicate rows) \<subseteq> set rows" using key by (auto simp: deduplicate_def)
  have "dr_identity r \<in> dr_identity ` set (deduplicate rows)" if "r \<in> set rows" for r
  proof -
    have "dict_get ?sel (dr_identity r) \<noteq> None" using get(2) that by blast
    then obtain r' where r': "dict_get ?sel (dr_identity r) = Some r'" by blast
    then have "r' \<in> set (deduplicate rows)"
      by (force simp: deduplicate_def dest!: map_of_SomeD)
    with get(1) [OF r'] show ?thesis by (metis image_eqI)
  qed
  with sub show "dr_identity ` set (deduplicate rows) = dr_identity ` set rows" by blast
qed

section \<open>The delta is exact\<close>

definition same_intent :: "json dict \<Rightarrow> json dict \<Rightarrow> bool" where
  "same_intent c p \<longleftrightarrow> drop_nulls (JObj c) = drop_nulls (JObj p)"

text \<open>The action that a planned resource calls for.\<close>

definition planned_action :: "live_snapshot \<Rightarrow> string \<Rightarrow> twin_resource \<Rightarrow> string" where
  "planned_action snapshot ns item =
     (let planned = canonicalize_kubernetes_object (resource_manifest item); kind = row_kind item planned in
      case dict_get (live_map snapshot ns) (row_identity ns item) of
        None \<Rightarrow> if lv_available snapshot \<and> kind \<in> set (lv_complete_kinds snapshot)
          then ''create'' else ''unknown''
      | Some c \<Rightarrow>
          if \<not> is_full_manifest c then ''unknown''
          else if same_intent c planned then ''no_op''
          else if immutable_conflict kind (field_changes (JObj c) (JObj planned) [])
          then ''immutable_conflict'' else ''update'')"

text \<open>A row is called for by a planned resource, or by an explicit deletion of a live one.\<close>

definition called_for :: "live_snapshot \<Rightarrow> string list \<Rightarrow> string \<Rightarrow> twin_resource list \<Rightarrow> explicit_delete list \<Rightarrow>
    delta_row \<Rightarrow> bool" where
  "called_for snapshot installs ns planned deletes row \<longleftrightarrow>
     (\<exists>item \<in> set planned. \<not> skipped_resource snapshot installs item \<and>
        (dr_identity row = row_identity ns item \<and> dr_action row = planned_action snapshot ns item \<or>
         dr_identity row = tr_identity item \<and> dr_action row = ''explicit_delete'' \<and>
         dict_get (live_map snapshot ns) (tr_identity item) \<noteq> None \<and>
         resource_path item \<in> set (concat (map ed_manifest_refs deletes))))"

lemma live_map_neat:
  assumes "list_all json_wf (lv_resources snapshot)" and "dict_get (live_map snapshot ns) k = Some c"
  shows "neat (JObj c)"
proof -
  have "dict_get (rev (map (\<lambda>item. (resource_identity (obj_items item) (Some ns),
         canonicalize_kubernetes_object (obj_items item))) (filter is_obj (lv_resources snapshot)))) k = Some c"
    using assms(2) by (auto simp: live_map_def dict_get_update split: option.splits)
  then obtain item where "item \<in> set (lv_resources snapshot)" "is_obj item"
    and c: "c = canonicalize_kubernetes_object (obj_items item)"
    by (auto dest!: map_of_SomeD)
  moreover have "item = JObj (obj_items item)" using calculation(2) by (cases item) simp_all
  ultimately have "json_wf (JObj (obj_items item))" using assms(1) by (metis list_all_iff)
  then show ?thesis unfolding c by (rule neat_canonical_object)
qed

lemma classify_action:
  assumes "list_all json_wf (lv_resources snapshot)" and "json_wf (JObj (resource_manifest item))"
    and "planned_row snapshot ns uuid item = Inr row"
  shows "dr_action row = planned_action snapshot ns item"
proof -
  let ?p = "canonicalize_kubernetes_object (resource_manifest item)"
  have "field_changes (JObj c) (JObj ?p) [] = [] \<longleftrightarrow> same_intent c ?p"
    if "dict_get (live_map snapshot ns) (row_identity ns item) = Some c" for c
    using live_map_neat [OF assms(1) that] neat_canonical_object [OF assms(2)]
    by (simp only: field_changes_none same_intent_def)
  then show ?thesis
    using planned_row_fields(2) [OF assms(3)]
    by (simp add: planned_action_def classify_def Let_def split: option.split)
qed

text \<open>
  C10. A release delta that is calculated has one row for each identity, in order. Every planned
  resource that is not left out because of its Helm release has a row, and every row is called
  for: by a planned resource, with the action that follows from the live snapshot (created only
  if its kind was completely captured and it is not there, unchanged exactly if live and planned
  manifest agree up to null members), or by an explicit deletion of a resource that is live.
  What the bundle does not mention is never deleted.
\<close>

theorem delta_is_exact:
  assumes "calculate_release_delta ids planned snapshot installs ns deletes = Inr rows"
    and "list_all json_wf (lv_resources snapshot)"
    and "list_all (\<lambda>item. json_wf (JObj (resource_manifest item))) planned"
  shows "distinct (map dr_identity rows) \<and> sorted (map row_order rows) \<and>
    list_all (called_for snapshot installs ns planned deletes) rows \<and>
    list_all (\<lambda>item. skipped_resource snapshot installs item \<or> row_identity ns item \<in> dr_identity ` set rows) planned"
proof -
  let ?refs = "concat (map ed_manifest_refs deletes)"
  obtain first paths all where first: "planned_rows snapshot ns installs ids planned ([], []) = Inr (first, paths)"
    and all: "delete_rows snapshot ns ids paths ?refs first = Inr all" and rows: "rows = deduplicate all"
    using assms(1) by (auto simp: calculate_release_delta_def sbind_Inr)
  from planned_rows_result [OF first]
  have planned: "list_all2 (\<lambda>item row. \<exists>uuid. planned_row snapshot ns uuid item = Inr row)
      (filter (\<lambda>item. \<not> skipped_resource snapshot installs item) planned) first"
    and paths: "dict_get paths ref = Some item \<Longrightarrow>
      item \<in> set planned \<and> \<not> skipped_resource snapshot installs item \<and> resource_path item = ref" for ref item
    by auto
  from delete_rows_result [OF all] obtain deleted where all_rows: "all = first @ deleted"
    and deleted: "row \<in> set deleted \<Longrightarrow> \<exists>ref \<in> set ?refs. \<exists>item current uuid.
      dict_get paths ref = Some item \<and> dict_get (live_map snapshot ns) (tr_identity item) = Some current \<and>
      delete_row snapshot ns uuid ref item current = Inr row" for row
    by blast
  have "called_for snapshot installs ns planned deletes row" if "row \<in> set first" for row
  proof -
    from planned that obtain item uuid where "item \<in> set planned" "\<not> skipped_resource snapshot installs item"
      and row: "planned_row snapshot ns uuid item = Inr row"
      by (auto dest!: list_all2_in(2))
    with assms(2,3) show ?thesis
      using classify_action [OF _ _ row] planned_row_fields(1) [OF row]
      by (auto simp: called_for_def list_all_iff)
  qed
  moreover have "called_for snapshot installs ns planned deletes row" if "row \<in> set deleted" for row
    using deleted [OF that] paths delete_row_fields by (fastforce simp: called_for_def)
  ultimately have "list_all (called_for snapshot installs ns planned deletes) rows"
    using deduplicate_result(3) [of all] by (auto simp: rows all_rows list_all_iff)
  moreover have "row_identity ns item \<in> dr_identity ` set rows"
    if "item \<in> set planned" "\<not> skipped_resource snapshot installs item" for item
  proof -
    have "item \<in> set (filter (\<lambda>item. \<not> skipped_resource snapshot installs item) planned)" using that by simp
    with planned obtain row uuid where "row \<in> set first" "planned_row snapshot ns uuid item = Inr row"
      by (blast dest: list_all2_in(1))
    then have "row_identity ns item \<in> dr_identity ` set all"
      using planned_row_fields(1) by (force simp: all_rows)
    then show ?thesis by (simp add: rows deduplicate_result(4))
  qed
  ultimately show ?thesis
    using deduplicate_result(1,2) [of all] by (auto simp: rows list_all_iff)
qed

text \<open>A deployment is planned that is not among the deployments captured.\<close>

definition demo_resource :: twin_resource where
  "demo_resource = \<lparr>tr_id = ''r'', tr_identity = ''apps/v1:Deployment:ns:web'', tr_api_version = ''apps/v1'',
     tr_kind = ''Deployment'', tr_name = ''web'', tr_namespace = Some ''ns'',
     tr_payload = [(''path'', JStr ''web.yaml'')]\<rparr>"

definition demo_snapshot :: live_snapshot where
  "demo_snapshot = \<lparr>lv_resources = [], lv_available = True, lv_complete_kinds = [''Deployment''],
     lv_evidence_refs = [], lv_warning = None, lv_helm_inventory = False, lv_installed = [],
     lv_ignored_releases = [], lv_ignored_prefixes = []\<rparr>"

lemma demo_fields [simp]:
  "tr_identity demo_resource = ''apps/v1:Deployment:ns:web''" "tr_kind demo_resource = ''Deployment''"
  "tr_name demo_resource = ''web''" "lv_resources demo_snapshot = []" "lv_available demo_snapshot"
  "lv_complete_kinds demo_snapshot = [''Deployment'']" "\<not> lv_helm_inventory demo_snapshot"
  "lv_ignored_prefixes demo_snapshot = []"
  by (simp_all add: demo_resource_def demo_snapshot_def)

theorem delta_is_exact_witness:
  "\<exists>rows. calculate_release_delta nat_str [demo_resource] demo_snapshot [] ''ns'' [] = Inr rows \<and>
    list_all (called_for demo_snapshot [] ''ns'' [demo_resource] []) rows \<and>
    ''apps/v1:Deployment:ns:web'' \<in> dr_identity ` set rows"
proof -
  have plain: "canonicalize_kubernetes_object [] = []"
    by (simp add: canonicalize_items canonical_items_def redact_secret_def without_runtime_def kind_text_def
        get_or_null_def json_or_def str_lower_def)
  have manifest: "resource_manifest demo_resource = []"
    by (simp add: demo_resource_def resource_manifest_def get_or_null_def)
  have kept: "\<not> skipped_resource demo_snapshot [] demo_resource"
    by (simp add: skipped_resource_def manifest ignored_helm_resource_def uninstalled_helm_resource_def)
  have live: "live_map demo_snapshot ns = []" for ns by (simp add: live_map_def)
  obtain row where "planned_row demo_snapshot ''ns'' (nat_str 0) demo_resource = Inr row"
    by (simp add: planned_row_def manifest plain live classify_def risk_for_def pod_spec_def all_containers_def
        py_items_def get_or_null_def row_name_def delta_row_of_def summary_of_def
        row_kind_def CLUSTER_SCOPED_KINDS_def Let_def)
  with kept obtain rows where rows: "calculate_release_delta nat_str [demo_resource] demo_snapshot [] ''ns'' [] = Inr rows"
    by (simp add: calculate_release_delta_def)
  have "list_all json_wf (lv_resources demo_snapshot)"
    and "list_all (\<lambda>item. json_wf (JObj (resource_manifest item))) [demo_resource]"
    by (simp_all add: manifest)
  from delta_is_exact [OF rows this] kept rows show ?thesis
    by (auto simp: row_identity_def)
qed

end
