(* ===== verification/TwinPolicy.thy ===== *)
theory TwinPolicy
  imports TwinDelta Policy ApiBundles
begin

text \<open>
  The policy twin (\<open>namespace_twin/policy_twin.py\<close>): findings of the policy engine, evidence checks,
  weighted risk rules and the decision they project, first without and then with the authoritative
  dry run. The dictionaries of the code are records here, so the defaults with which the code reads
  a missing member of its own output do not arise; members that never vary (schema version, the
  policy bundle, \<open>model_authority\<close>) are left out, and \<open>detail\<close> and \<open>finding_id\<close>, which repeat
  \<open>message\<close> and \<open>id\<close>, are not stored twice. The changes of a delta are those of \<open>delta.py\<close>, mappings
  throughout.
\<close>

section \<open>Tables\<close>

definition POLICY_VERSION :: string where
  "POLICY_VERSION = ''namespace-twin-policy-2026.07.2''"

definition RISK_RULE_VERSION :: string where
  "RISK_RULE_VERSION = ''namespace-twin-risk-1.2.0''"

definition POLICY_GROUPS :: "string list" where
  "POLICY_GROUPS =
     [''namespace_boundary'', ''cluster_scope'', ''rbac'', ''secret_handling'', ''privileged_host_access'',
      ''pvc_data_safety'', ''resource_quotas'', ''image_policy'', ''approval_policy'',
      ''bundle_dry_run_freshness_integrity'']"

definition RISK_RULES :: "(string \<times> int) list" where
  "RISK_RULES =
     [(''pvc_create_or_explicit_delete'', 30), (''statefulset_change'', 25),
      (''helm_release_upgrade'', 20), (''image_change'', 15), (''configmap_change'', 15),
      (''ingress_change'', 15), (''service_selector_change'', 20), (''large_replica_change'', 10),
      (''missing_rollback_step'', 30), (''inferred_chart_or_value'', 20),
      (''partial_or_stale_live_evidence'', 20), (''previous_similar_failure'', 20),
      (''drift_detected'', 25)]"

definition POLICY_BUNDLE :: json where
  "POLICY_BUNDLE = JObj
     [(''version'', JStr POLICY_VERSION),
      (''engine'', JStr ''existing_phase4_policy_engine''),
      (''risk_rules_version'', JStr RISK_RULE_VERSION),
      (''groups'', JArr (map JStr POLICY_GROUPS)),
      (''evidence_policy'', JObj
        [(''authoritative_dry_run_required_for_green'', JBool True),
         (''required_evidence_unavailable_before_dry_run'', JStr ''amber''),
         (''freshness_threshold_seconds'', JInt 900)]),
      (''decision_precedence'', JArr (map JStr
        [''policy_deny_or_hard_block'', ''authoritative_dry_run_failed'', ''critical_unmitigated_risk'',
         ''approval_required'', ''partial_stale_or_unavailable_evidence'', ''risk_above_green_band'',
         ''otherwise_green'']))]"

text \<open>Hashes, thresholds and levels.\<close>

definition POLICY_BUNDLE_HASH :: "env \<Rightarrow> string" where
  "POLICY_BUNDLE_HASH e = plain_hash e POLICY_BUNDLE"

definition RISK_THRESHOLDS :: "int dict" where
  "RISK_THRESHOLDS =
     [(''green_max'', 30), (''amber_min'', 31), (''amber_max'', 70), (''red_min'', 71), (''red_max'', 90),
      (''critical_min'', 91)]"

definition risk_level :: "int \<Rightarrow> string" where
  "risk_level score =
     (if score \<le> the (dict_get RISK_THRESHOLDS ''green_max'') then ''low''
      else if score \<le> the (dict_get RISK_THRESHOLDS ''amber_max'') then ''medium''
      else if score \<le> the (dict_get RISK_THRESHOLDS ''red_max'') then ''high''
      else ''critical'')"

section \<open>Data\<close>

record policy_finding =
  pf_id :: string
  pf_code :: string
  pf_category :: string
  pf_severity :: string
  pf_effect :: string
  pf_status :: string
  pf_title :: string
  pf_message :: string
  pf_policy_version :: string
  pf_evidence_refs :: "string list"

record contribution =
  ct_axis :: string
  ct_rule :: string
  ct_matched :: bool
  ct_effect :: string
  ct_amount :: int
  ct_weight :: "int option"
  ct_selected :: "bool option"
  ct_reason :: string
  ct_evidence_refs :: "string list"

record evidence_check =
  ek_code :: string
  ek_satisfied :: bool
  ek_summary :: string
  ek_evidence_refs :: "string list"

record policy_axis =
  pax_verdict :: string
  pax_bundle_hash :: string
  pax_hard_blocks :: "string list"
  pax_approvals :: "string list"

record evidence_axis =
  eax_classification :: string
  eax_completeness :: string
  eax_freshness :: string
  eax_captured_at :: "string option"
  eax_age_seconds :: "int option"
  eax_required_count :: nat
  eax_present_count :: nat
  eax_missing :: "string list"
  eax_checks :: "evidence_check list"
  eax_contributions :: "contribution list"

record risk_axis =
  rax_level :: string
  rax_score :: int
  rax_raw_score :: int
  rax_pvc_enabled :: bool
  rax_statefulset_enabled :: bool
  rax_rollback_required :: bool
  rax_contributions :: "contribution list"

record decision_projection =
  dp_level :: string
  dp_label :: string
  dp_preliminary :: bool
  dp_is_final :: bool
  dp_precedence_rule :: string
  dp_summary :: string
  dp_hard_blocks :: "string list"
  dp_approval_required :: bool
  dp_contributions :: "contribution list"
  dp_axes_hash :: "string option"

record policy_twin =
  pt_evaluated_at :: string
  pt_input_hash :: string
  pt_policy :: policy_axis
  pt_evidence :: evidence_axis
  pt_risk :: risk_axis
  pt_decision :: decision_projection
  pt_contributions :: "contribution list"
  pt_findings :: "policy_finding list"
  pt_passed_groups :: "string list"
  pt_fingerprint :: json
  pt_dry_run_job_id :: json
  pt_rollback_required :: bool
  pt_auto_approval :: bool

section \<open>The axes as JSON\<close>

definition texts_json :: "string list \<Rightarrow> json" where
  "texts_json xs = JArr (map JStr xs)"

definition contribution_json :: "contribution \<Rightarrow> json" where
  "contribution_json c = JObj
     ([(''axis'', JStr (ct_axis c)), (''rule'', JStr (ct_rule c)), (''matched'', JBool (ct_matched c)),
       (''effect'', JStr (ct_effect c)), (''contribution'', JInt (ct_amount c))] @
      (case ct_weight c of None \<Rightarrow> [] | Some w \<Rightarrow> [(''weight'', JInt w)]) @
      (case ct_selected c of None \<Rightarrow> [] | Some b \<Rightarrow> [(''selected'', JBool b)]) @
      [(''reason'', JStr (ct_reason c)), (''evidence_refs'', texts_json (ct_evidence_refs c))])"

definition evidence_check_json :: "evidence_check \<Rightarrow> json" where
  "evidence_check_json k = JObj
     [(''code'', JStr (ek_code k)), (''satisfied'', JBool (ek_satisfied k)),
      (''summary'', JStr (ek_summary k)), (''evidence_refs'', texts_json (ek_evidence_refs k))]"

definition policy_axis_json :: "policy_axis \<Rightarrow> json" where
  "policy_axis_json a = JObj
     [(''verdict'', JStr (pax_verdict a)), (''version'', JStr POLICY_VERSION),
      (''bundle_hash'', JStr (pax_bundle_hash a)),
      (''hard_block_count'', JInt (int (length (pax_hard_blocks a)))),
      (''approval_required_count'', JInt (int (length (pax_approvals a)))),
      (''hard_blocks'', texts_json (pax_hard_blocks a)),
      (''approval_requirements'', texts_json (pax_approvals a))]"

definition evidence_axis_json :: "evidence_axis \<Rightarrow> json" where
  "evidence_axis_json a = JObj
     [(''classification'', JStr (eax_classification a)), (''completeness'', JStr (eax_completeness a)),
      (''freshness'', JStr (eax_freshness a)),
      (''captured_at'', case eax_captured_at a of None \<Rightarrow> JNull | Some s \<Rightarrow> JStr s),
      (''age_seconds'', case eax_age_seconds a of None \<Rightarrow> JNull | Some n \<Rightarrow> JInt n),
      (''freshness_threshold_seconds'', JInt 900),
      (''required_count'', JInt (int (eax_required_count a))),
      (''present_count'', JInt (int (eax_present_count a))),
      (''missing'', texts_json (eax_missing a)), (''stale'', JArr []),
      (''checks'', JArr (map evidence_check_json (eax_checks a))),
      (''contributions'', JArr (map contribution_json (eax_contributions a)))]"

definition risk_axis_json :: "risk_axis \<Rightarrow> json" where
  "risk_axis_json a = JObj
     [(''level'', JStr (rax_level a)), (''score'', JInt (rax_score a)),
      (''raw_score'', JInt (rax_raw_score a)), (''rules_version'', JStr RISK_RULE_VERSION),
      (''thresholds'', JObj (map (\<lambda>kv. (fst kv, JInt (snd kv))) RISK_THRESHOLDS)),
      (''feature_toggles'', JObj
        [(''pvc_risk_enabled'', JBool (rax_pvc_enabled a)),
         (''statefulset_risk_enabled'', JBool (rax_statefulset_enabled a)),
         (''rollback_required'', JBool (rax_rollback_required a))]),
      (''contributions'', JArr (map contribution_json (rax_contributions a)))]"

definition decision_json :: "decision_projection \<Rightarrow> json" where
  "decision_json d = JObj
     [(''level'', JStr (dp_level d)), (''label'', JStr (dp_label d)),
      (''preliminary'', JBool (dp_preliminary d)), (''decision_is_final'', JBool (dp_is_final d)),
      (''precedence_rule'', JStr (dp_precedence_rule d)), (''summary'', JStr (dp_summary d)),
      (''hard_blocks'', texts_json (dp_hard_blocks d)),
      (''approval_required'', JBool (dp_approval_required d)), (''model_authority'', JBool False),
      (''contributions'', JArr (map contribution_json (dp_contributions d)))]"

definition axes_hash :: "env \<Rightarrow> policy_axis \<Rightarrow> evidence_axis \<Rightarrow> risk_axis \<Rightarrow> decision_projection \<Rightarrow> string" where
  "axes_hash e p ev r d = plain_hash e (JObj
     [(''policy'', policy_axis_json p), (''evidence'', evidence_axis_json ev),
      (''risk'', risk_axis_json r), (''decision'', decision_json d)])"

section \<open>Findings\<close>

text \<open>\<open>s.title()\<close>: a letter after another one in lower case, any other in upper case.\<close>

definition to_upper :: "char \<Rightarrow> char" where
  "to_upper c = (if is_lower c then char_of (char_code c - 32) else c)"

fun title_from :: "bool \<Rightarrow> string \<Rightarrow> string" where
  "title_from inside [] = []"
| "title_from inside (c # s) =
     (if inside then to_lower c else to_upper c) # title_from (is_upper c \<or> is_lower c) s"

definition str_title :: "string \<Rightarrow> string" where
  "str_title s = title_from False s"

definition named_refs :: "string list \<Rightarrow> string list" where
  "named_refs refs = unique_first (filter (\<lambda>r. r \<noteq> []) refs)"

definition policy_finding_of ::
    "env \<Rightarrow> string \<Rightarrow> string \<Rightarrow> string \<Rightarrow> string \<Rightarrow> string \<Rightarrow> string list \<Rightarrow> policy_finding" where
  "policy_finding_of e code category severity effect message refs =
     \<lparr>pf_id = ''policyfinding_'' @ take 24 (plain_hash e (JObj
        [(''code'', JStr code), (''category'', JStr category), (''message'', JStr message)])),
      pf_code = code, pf_category = category, pf_severity = severity, pf_effect = effect,
      pf_status = ''active'', pf_title = str_title (str_replace ''_'' '' '' code), pf_message = message,
      pf_policy_version = POLICY_VERSION, pf_evidence_refs = named_refs refs\<rparr>"

definition finding_category :: "string \<Rightarrow> string \<Rightarrow> string" where
  "finding_category guardrail code =
     (if guardrail = ''namespace_scope''
      then (if str_contains ''CLUSTER'' code then ''cluster_scope'' else ''namespace_boundary'')
      else case dict_get
          [(''secret_guard'', ''secret_handling''), (''production_data_guard'', ''pvc_data_safety''),
           (''approval_gate'', ''approval_policy''),
           (''dry_run_gate'', ''bundle_dry_run_freshness_integrity''),
           (''limits'', ''resource_quotas'')] guardrail of
        Some g \<Rightarrow> g
      | None \<Rightarrow> ''bundle_dry_run_freshness_integrity'')"

definition policy_findings :: "env \<Rightarrow> policy_block list \<Rightarrow> policy_finding list" where
  "policy_findings e blocks = map (\<lambda>block.
     policy_finding_of e (pb_code block) (finding_category (opt_or (pb_guardrail block) []) (pb_code block))
       (if policy_severity_value (pb_severity block) = ''critical'' then ''critical'' else ''block'')
       ''deny'' (pb_message block) []) blocks"

definition manifest_privileged :: "json dict \<Rightarrow> py_error + bool" where
  "manifest_privileged content =
     (let spec = pod_spec content in
      if get_or_null spec ''hostNetwork'' = JBool True \<or> get_or_null spec ''hostPID'' = JBool True
      then Inr True
      else sbind (all_containers spec) (\<lambda>cs. Inr (list_ex privileged_container cs)))"

fun privileged_findings :: "env \<Rightarrow> loaded_manifest list \<Rightarrow> py_error + policy_finding list" where
  "privileged_findings e [] = Inr []"
| "privileged_findings e (m # ms) =
     sbind (manifest_privileged (lm_content m)) (\<lambda>privileged.
     sbind (privileged_findings e ms) (\<lambda>rest.
     Inr (if privileged
       then policy_finding_of e ''PRIVILEGED_HOST_ACCESS_BLOCKED'' ''privileged_host_access'' ''critical'' ''deny''
         (lm_kind m @ ''/'' @ lm_name m @ '' requests privileged or host access.'') [lm_path m] # rest
       else rest)))"

text \<open>The later finding of the same code and detail replaces the earlier one, in its place.\<close>

definition finding_order :: "policy_finding \<Rightarrow> string list" where
  "finding_order f = [pf_effect f, pf_code f]"

definition dedupe_findings :: "policy_finding list \<Rightarrow> policy_finding list" where
  "dedupe_findings findings =
     sort_key finding_order
       (map snd (fold (\<lambda>f. AList.update (pf_code f, pf_message f) f) findings []))"

definition policy_axis_of :: "env \<Rightarrow> policy_finding list \<Rightarrow> policy_axis" where
  "policy_axis_of e findings =
     (let hard_blocks = filter (\<lambda>f. pf_effect f = ''deny'') findings;
          approvals = filter (\<lambda>f. pf_effect f = ''approval_required'') findings in
      \<lparr>pax_verdict = (if hard_blocks \<noteq> [] then ''deny''
         else if approvals \<noteq> [] then ''approval_required'' else ''allow''),
       pax_bundle_hash = POLICY_BUNDLE_HASH e,
       pax_hard_blocks = map pf_code hard_blocks, pax_approvals = map pf_code approvals\<rparr>)"

definition policy_contributions :: "policy_finding list \<Rightarrow> contribution list" where
  "policy_contributions findings = map (\<lambda>g.
     let matched = filter (\<lambda>f. pf_category f = g) findings in
     \<lparr>ct_axis = ''policy'', ct_rule = g, ct_matched = (matched \<noteq> []),
      ct_effect = (if list_ex (\<lambda>f. pf_effect f = ''deny'') matched then ''deny''
        else if matched \<noteq> [] then ''approval_required'' else ''allow''),
      ct_amount = 0, ct_weight = None, ct_selected = None,
      ct_reason = (if matched \<noteq> [] then str_join ''; '' (map pf_message matched)
        else ''Policy group '' @ g @ '' passed deterministic evaluation.''),
      ct_evidence_refs = unique_first (concat (map pf_evidence_refs matched))\<rparr>) POLICY_GROUPS"

section \<open>Evidence\<close>

definition evidence_check :: "string \<Rightarrow> bool \<Rightarrow> string \<Rightarrow> string list \<Rightarrow> evidence_check" where
  "evidence_check code satisfied summary refs =
     \<lparr>ek_code = code, ek_satisfied = satisfied, ek_summary = summary, ek_evidence_refs = named_refs refs\<rparr>"

definition describes_rollback :: "plan_phase \<Rightarrow> plan_step \<Rightarrow> bool" where
  "describes_rollback phase step =
     (let words = str_lower (pp_id phase @ '' '' @ opt_or (pp_title phase) [] @ '' '' @ ps_id step @ '' '' @
        ps_title step @ '' '' @ ps_type step) in
      ps_rollback_commands step \<noteq> [] \<or>
      list_ex (\<lambda>token. str_contains token words) [''rollback'', ''cleanup'', ''revert''])"

definition has_rollback :: "artifact_bundle \<Rightarrow> bool" where
  "has_rollback bundle =
     list_ex (\<lambda>phase. list_ex (describes_rollback phase) (pp_steps phase)) (mp_phases (ab_plan bundle))"

definition evidence_contributions :: "evidence_check list \<Rightarrow> contribution list" where
  "evidence_contributions checks = map (\<lambda>k.
     \<lparr>ct_axis = ''evidence'', ct_rule = ek_code k, ct_matched = (\<not> ek_satisfied k),
      ct_effect = (if \<not> ek_satisfied k then ''degrade'' else ''satisfied''), ct_amount = 0,
      ct_weight = None, ct_selected = None, ct_reason = ek_summary k,
      ct_evidence_refs = ek_evidence_refs k\<rparr>) checks"

definition missing_checks :: "evidence_check list \<Rightarrow> string list" where
  "missing_checks checks = map ek_code (filter (\<lambda>k. \<not> ek_satisfied k) checks)"

definition completeness_of :: "string list \<Rightarrow> string" where
  "completeness_of missing =
     (if ''bundle_integrity'' \<in> set missing then ''unavailable''
      else if missing = [] then ''complete'' else ''partial'')"

definition initial_checks ::
    "live_snapshot \<Rightarrow> json dict \<Rightarrow> json dict \<Rightarrow> artifact_bundle \<Rightarrow> bool \<Rightarrow> py_error + evidence_check list" where
  "initial_checks snapshot provenance graph_summary bundle rollback_required =
     sbind (py_int (json_or (json_or (get_or_null graph_summary ''missing_nodes'')
       (get_or_null graph_summary ''missing'')) (JInt 0))) (\<lambda>missing_nodes.
     Inr
       [evidence_check ''bundle_integrity'' (truthy (get_or_null provenance ''artifact_index_present''))
          ''Artifact index and referenced bundle files were verified.'' [''artifact-index.json''],
        evidence_check ''live_namespace_snapshot'' (lv_available snapshot)
          (opt_or (lv_warning snapshot) ''Namespace-scoped live evidence was collected.'')
          (lv_evidence_refs snapshot),
        evidence_check ''dependency_integrity'' (missing_nodes = 0)
          ''Dependency graph contains no missing nodes.'' [''namespace-twin-dependency-graph''],
        evidence_check ''rollback_evidence'' (has_rollback bundle \<or> \<not> rollback_required)
          (if has_rollback bundle then ''The machine plan includes a rollback or cleanup step.''
           else if \<not> rollback_required
           then ''Rollback evidence is not applicable under the configured demo profile.''
           else ''The machine plan does not include a rollback or cleanup step.'')
          (if rollback_required then [''machine_execution_plan.yaml''] else []),
        evidence_check ''authoritative_dry_run'' False
          ''Authoritative dry-run evidence is not attached until Slice 5E.'' []])"

definition evidence_axis_of :: "env \<Rightarrow> live_snapshot \<Rightarrow> evidence_check list \<Rightarrow> instant \<Rightarrow> evidence_axis" where
  "evidence_axis_of e snapshot checks now =
     (let missing = missing_checks checks;
          freshness = (if lv_available snapshot then ''fresh'' else ''unavailable'') in
      \<lparr>eax_classification = (if freshness = ''stale'' then ''stale'' else completeness_of missing),
       eax_completeness = completeness_of missing, eax_freshness = freshness,
       eax_captured_at = (if lv_available snapshot then Some (env_isoformat e now) else None),
       eax_age_seconds = (if lv_available snapshot then Some 0 else None),
       eax_required_count = length checks, eax_present_count = length checks - length missing,
       eax_missing = missing, eax_checks = checks,
       eax_contributions = evidence_contributions checks\<rparr>)"

section \<open>Risk\<close>

text \<open>The field changes of a row, read back from its diff (\<open>_diff\<close>).\<close>

definition row_changes :: "delta_row \<Rightarrow> json list" where
  "row_changes row =
     (case json_loads (str_or (dr_canonical_diff row) ''{}'') of
        Some (JObj d) \<Rightarrow> arr_items (get_or_null d ''field_changes'')
      | _ \<Rightarrow> [])"

definition change_path :: "json \<Rightarrow> string" where
  "change_path change = text_or (get_or_null (obj_items change) ''path'') []"

definition large_replica_change :: "json list \<Rightarrow> bool" where
  "large_replica_change changes = list_ex (\<lambda>change.
     ends_with (change_path change) ''spec.replicas'' \<and>
     (case (py_int (json_or (get_or_null (obj_items change) ''planned'') (JInt 0)),
            py_int (json_or (get_or_null (obj_items change) ''current'') (JInt 0))) of
        (Inr planned, Inr current) \<Rightarrow> 3 \<le> \<bar>planned - current\<bar>
      | _ \<Rightarrow> False)) changes"

definition is_inferred_provenance :: "json dict option \<Rightarrow> bool" where
  "is_inferred_provenance inference =
     (case inference of
        None \<Rightarrow> False
      | Some d \<Rightarrow> d \<noteq> [] \<and>
          str_lower (str_strip (text_or (get_or_null d ''label'') []))
            \<notin> {''observed'', ''verified'', ''authoritative'', ''explicit''})"

definition is_helm_change :: "plan_step \<Rightarrow> bool" where
  "is_helm_change step =
     (let words = str_lower (str_join '' ''
            (map (\<lambda>c. pcm_kind c @ '' '' @ pcm_text c) (ps_commands step))) in
      str_lower (str_strip (ps_type step))
        \<in> {''helm_install'', ''helm_upgrade'', ''helm_uninstall'', ''helm_delete''} \<or>
      list_ex (\<lambda>token. str_contains token words)
        [''helm install '', ''helm upgrade '', ''helm uninstall '', ''helm delete ''])"

definition rendered_release :: "twin_resource \<Rightarrow> py_error + string option" where
  "rendered_release item =
     (if get_or_null (tr_payload item) ''source'' \<noteq> JStr ''helm_rendered_manifest'' then Inr None
      else
        sbind (py_dict (get_or_null (tr_payload item) ''manifest'')) (\<lambda>manifest.
        sbind (py_dict (get_or_null manifest ''metadata'')) (\<lambda>metadata.
        sbind (py_dict (get_or_null metadata ''annotations'')) (\<lambda>annotations.
        let annotated = get_or_null annotations ''meta.helm.sh/release-name'' in
        if truthy annotated then Inr (Some (str_lower (py_str annotated)))
        else
          sbind (py_dict (get_or_null metadata ''labels'')) (\<lambda>labels.
          let labelled = get_or_null labels ''app.kubernetes.io/instance'' in
          Inr (if truthy labelled then Some (str_lower (py_str labelled)) else None))))))"

fun rendered_releases :: "twin_resource list \<Rightarrow> py_error + string list" where
  "rendered_releases [] = Inr []"
| "rendered_releases (res # rest) =
     sbind (rendered_release res) (\<lambda>release.
     sbind (rendered_releases rest) (\<lambda>later.
     Inr (case release of None \<Rightarrow> later | Some r \<Rightarrow> r # later)))"

definition has_inferred_helm_change ::
    "delta_row list \<Rightarrow> artifact_bundle \<Rightarrow> twin_resource list \<Rightarrow> py_error + bool" where
  "has_inferred_helm_change active bundle planned =
     (let changed = map (\<lambda>row. str_lower (opt_or (dr_helm_release row) []))
            (filter (\<lambda>row. opt_truthy (dr_helm_release row)) active);
          inferred = filter (\<lambda>step. is_inferred_provenance (ps_inference step) \<and> is_helm_change step)
            (concat (map pp_steps (mp_phases (ab_plan bundle)))) in
      if changed = [] \<or> inferred = [] then Inr False
      else
        sbind (rendered_releases planned) (\<lambda>rendered.
        Inr (\<not> (ab_values bundle \<noteq> [] \<and> list_all (\<lambda>step. ps_values_refs step \<noteq> []) inferred \<and>
              set changed \<inter> set rendered \<noteq> {}))))"

definition risk_reason :: "string \<Rightarrow> bool \<Rightarrow> string" where
  "risk_reason rule matched =
     (if matched then ''Risk rule '' @ rule @ '' contributed its configured weight.''
      else ''Risk rule '' @ rule @ '' did not match the current facts.'')"

definition degraded :: "string \<Rightarrow> bool" where
  "degraded classification \<longleftrightarrow> classification \<in> {''partial'', ''stale'', ''unavailable''}"

definition evidence_names :: "string list \<Rightarrow> string list" where
  "evidence_names missing = map (\<lambda>item. ''evidence:'' @ item) missing"

definition risk_evidence :: "string \<Rightarrow> delta_row list \<Rightarrow> evidence_axis \<Rightarrow> string list" where
  "risk_evidence rule rows evidence =
     (if rule = ''partial_or_stale_live_evidence'' then evidence_names (eax_missing evidence)
      else take 30 (unique_first (concat (map dr_evidence_refs rows))))"

definition active_rows :: "delta_row list \<Rightarrow> delta_row list" where
  "active_rows deltas = filter (\<lambda>row. dr_action row \<noteq> ''no_op'') deltas"

text \<open>The facts the rules refer to; nothing sets the last two.\<close>

definition risk_facts ::
    "delta_row list \<Rightarrow> artifact_bundle \<Rightarrow> twin_resource list \<Rightarrow> explicit_delete list \<Rightarrow> evidence_axis \<Rightarrow>
      bool \<Rightarrow> bool \<Rightarrow> bool \<Rightarrow> py_error + bool dict" where
  "risk_facts active bundle planned deletes evidence pvc_enabled statefulset_enabled rollback_required =
     sbind (has_inferred_helm_change active bundle planned) (\<lambda>inferred.
     Inr
       [(''pvc_create_or_explicit_delete'', pvc_enabled \<and> (deletes \<noteq> [] \<or>
           list_ex (\<lambda>row. dr_kind row = ''PersistentVolumeClaim'' \<and> dr_action row = ''create'') active)),
        (''statefulset_change'', statefulset_enabled \<and>
           list_ex (\<lambda>row. dr_kind row = ''StatefulSet'') active),
        (''helm_release_upgrade'',
           list_ex (\<lambda>row. opt_truthy (dr_helm_release row) \<and> dr_action row = ''update'') active),
        (''image_change'',
           list_ex (\<lambda>row. list_ex (\<lambda>c. ends_with (change_path c) ''image'') (row_changes row)) active),
        (''configmap_change'', list_ex (\<lambda>row. dr_kind row = ''ConfigMap'') active),
        (''ingress_change'', list_ex (\<lambda>row. dr_kind row = ''Ingress'') active),
        (''service_selector_change'',
           list_ex (\<lambda>row. dr_kind row = ''Service'' \<and>
             list_ex (\<lambda>c. str_contains ''spec.selector'' (change_path c)) (row_changes row)) active),
        (''large_replica_change'', list_ex (\<lambda>row. large_replica_change (row_changes row)) active),
        (''missing_rollback_step'',
           rollback_required \<and> (active \<noteq> [] \<or> deletes \<noteq> []) \<and> \<not> has_rollback bundle),
        (''inferred_chart_or_value'', inferred),
        (''partial_or_stale_live_evidence'', degraded (eax_classification evidence)),
        (''previous_similar_failure'', False),
        (''drift_detected'', False)])"

definition risk_contribution ::
    "bool dict \<Rightarrow> delta_row list \<Rightarrow> evidence_axis \<Rightarrow> bool \<Rightarrow> bool \<Rightarrow> string \<times> int \<Rightarrow> contribution" where
  "risk_contribution facts active evidence pvc_enabled statefulset_enabled rule_weight =
     (let rule = fst rule_weight; weight = snd rule_weight; matched = (dict_get facts rule = Some True) in
      \<lparr>ct_axis = ''risk'', ct_rule = rule, ct_matched = matched,
       ct_effect = (if matched then ''increase'' else ''none''),
       ct_amount = (if matched then weight else 0), ct_weight = Some weight, ct_selected = None,
       ct_reason = (if rule = ''statefulset_change'' \<and> \<not> statefulset_enabled
         then ''StatefulSet risk evaluation is disabled by configuration for this MVP.''
         else if rule = ''pvc_create_or_explicit_delete'' \<and> \<not> pvc_enabled
         then ''PVC risk evaluation is disabled by configuration for this MVP.''
         else risk_reason rule matched),
       ct_evidence_refs = risk_evidence rule active evidence\<rparr>)"

definition raw_score_of :: "contribution list \<Rightarrow> int" where
  "raw_score_of contributions = sum_list (map ct_amount contributions)"

definition risk_axis_of ::
    "delta_row list \<Rightarrow> artifact_bundle \<Rightarrow> twin_resource list \<Rightarrow> explicit_delete list \<Rightarrow> evidence_axis \<Rightarrow>
      bool \<Rightarrow> bool \<Rightarrow> bool \<Rightarrow> py_error + risk_axis" where
  "risk_axis_of deltas bundle planned deletes evidence pvc_enabled statefulset_enabled rollback_required =
     (let active = active_rows deltas in
      sbind (risk_facts active bundle planned deletes evidence pvc_enabled statefulset_enabled
        rollback_required) (\<lambda>facts.
      let contributions = map (risk_contribution facts active evidence pvc_enabled statefulset_enabled)
            RISK_RULES;
          raw = raw_score_of contributions; score = min raw 100 in
      Inr \<lparr>rax_level = risk_level score, rax_score = score, rax_raw_score = raw,
        rax_pvc_enabled = pvc_enabled, rax_statefulset_enabled = statefulset_enabled,
        rax_rollback_required = rollback_required, rax_contributions = contributions\<rparr>))"

section \<open>The decision\<close>

definition decision_summary :: "string \<Rightarrow> string \<Rightarrow> string" where
  "decision_summary level rule =
     (if level = ''red'' then ''Red preliminary projection selected by precedence rule '' @ rule @ ''.''
      else if level = ''amber''
      then ''Amber preliminary projection selected by precedence rule '' @ rule @ ''.''
      else if level = ''green''
      then ''Green preliminary projection; authoritative dry-run is still required to finalize.''
      else ''Decision contribution '' @ rule @ '' evaluated.'')"

definition decision_rules ::
    "policy_axis \<Rightarrow> evidence_axis \<Rightarrow> risk_axis \<Rightarrow> bool \<Rightarrow> (string \<times> bool \<times> string) list" where
  "decision_rules policy evidence risk dry_run_failed =
     [(''policy_deny_or_hard_block'', pax_verdict policy = ''deny'', ''red''),
      (''authoritative_dry_run_failed'', dry_run_failed, ''red''),
      (''critical_unmitigated_risk'', 71 \<le> rax_score risk, ''red''),
      (''approval_required'', pax_verdict policy = ''approval_required'', ''amber''),
      (''partial_stale_or_unavailable_evidence'', degraded (eax_classification evidence), ''amber''),
      (''risk_above_green_band'', 31 \<le> rax_score risk, ''amber''),
      (''otherwise_green'', True, ''green'')]"

definition decision_projection_of ::
    "policy_axis \<Rightarrow> evidence_axis \<Rightarrow> risk_axis \<Rightarrow> bool \<Rightarrow> decision_projection" where
  "decision_projection_of policy evidence risk dry_run_failed =
     (let rules = decision_rules policy evidence risk dry_run_failed;
          (selected, _, level) = hd (filter (\<lambda>(_, matched, _). matched) rules) in
      \<lparr>dp_level = level, dp_label = str_title level, dp_preliminary = True, dp_is_final = False,
       dp_precedence_rule = selected, dp_summary = decision_summary level selected,
       dp_hard_blocks = pax_hard_blocks policy,
       dp_approval_required = (pax_verdict policy = ''approval_required''),
       dp_contributions = map (\<lambda>(rule, matched, effect).
         \<lparr>ct_axis = ''decision'', ct_rule = rule, ct_matched = matched, ct_effect = effect, ct_amount = 0,
          ct_weight = None, ct_selected = Some (rule = selected),
          ct_reason = decision_summary effect rule, ct_evidence_refs = []\<rparr>) rules,
       dp_axes_hash = None\<rparr>)"

section \<open>Evaluation\<close>

text \<open>The arguments of \<open>evaluate_policy_twin\<close>.\<close>

record twin_inputs =
  ti_bundle :: artifact_bundle
  ti_planned :: "twin_resource list"
  ti_deltas :: "delta_row list"
  ti_snapshot :: live_snapshot
  ti_provenance :: "json dict"
  ti_graph_summary :: "json dict"
  ti_deletes :: "explicit_delete list"
  ti_input_hash :: string
  ti_target :: string
  ti_pvc_enabled :: bool
  ti_statefulset_enabled :: bool
  ti_rollback_required :: bool
  ti_auto_approval :: bool

definition manifest_ref :: "loaded_manifest \<Rightarrow> resource_ref" where
  "manifest_ref m =
     \<lparr>rr_api_version = Some (lm_api_version m), rr_kind = Some (lm_kind m),
      rr_namespace = lm_namespace m, rr_name = Some (lm_name m), rr_file_path = Some (lm_path m),
      rr_helm_release_name = None\<rparr>"

definition mutating_command :: "artifact_bundle \<Rightarrow> string option" where
  "mutating_command bundle =
     (let joined = str_join ''\<newline>'' (map pcm_text (filter (\<lambda>c. pcm_mutating c = Some True)
        (concat (map ps_commands (concat (map pp_steps (mp_phases (ab_plan bundle)))))))) in
      if joined = [] then None else Some joined)"

definition twin_policy_context :: "twin_inputs \<Rightarrow> instant \<Rightarrow> policy_context" where
  "twin_policy_context i now =
     \<lparr>pc_job_id = ''namespace-twin-policy-'' @ take 16 (ti_input_hash i), pc_target = ti_target i,
      pc_mutating = False, pc_phase_id = None, pc_step_id = None,
      pc_command = mutating_command (ti_bundle i), pc_command_metadata = [],
      pc_resource_refs = map manifest_ref (ab_manifests (ti_bundle i)),
      pc_manifests = map lm_content (ab_manifests (ti_bundle i)),
      pc_values_files = map lv_content (ab_values (ti_bundle i)),
      pc_instructions = [], pc_logs = [], pc_outputs = [], pc_approvals = [],
      pc_dry_run_satisfied = False, pc_idempotency = None, pc_request_payload = None,
      pc_timeout = None, pc_retries = 0, pc_audit_written = False, pc_now = now\<rparr>"

definition approval_findings :: "env \<Rightarrow> twin_inputs \<Rightarrow> policy_finding list" where
  "approval_findings e i =
     (if ec_human_approval_before_mutation (mp_executor_contract (ab_plan (ti_bundle i))) \<and>
         \<not> ti_auto_approval i
      then [policy_finding_of e ''HUMAN_APPROVAL_REQUIRED'' ''approval_policy'' ''review'' ''approval_required''
        ''The machine execution plan requires human approval before mutation.''
        [''machine_execution_plan.yaml#executor_contract'']] else []) @
     (if ti_deletes i \<noteq> []
      then [policy_finding_of e ''EXPLICIT_DELETE_APPROVAL_REQUIRED'' ''pvc_data_safety'' ''review''
        ''approval_required''
        (nat_str (length (ti_deletes i)) @ '' explicit delete step(s) require bounded approval.'')
        (concat (map ed_manifest_refs (ti_deletes i)))] else [])"

definition evaluate_policy_twin :: "env \<Rightarrow> instant \<Rightarrow> twin_inputs \<Rightarrow> py_error + policy_twin" where
  "evaluate_policy_twin e now i =
     sbind (evaluate_policy e (twin_policy_context i now) None) (\<lambda>decision.
     sbind (privileged_findings e (ab_manifests (ti_bundle i))) (\<lambda>privileged.
     sbind (initial_checks (ti_snapshot i) (ti_provenance i) (ti_graph_summary i) (ti_bundle i)
       (ti_rollback_required i)) (\<lambda>checks.
     let findings = dedupe_findings
           (policy_findings e (pd_blocks decision) @ privileged @ approval_findings e i);
         evidence = evidence_axis_of e (ti_snapshot i) checks now in
     sbind (risk_axis_of (ti_deltas i) (ti_bundle i) (ti_planned i) (ti_deletes i) evidence
       (ti_pvc_enabled i) (ti_statefulset_enabled i) (ti_rollback_required i)) (\<lambda>risk.
     let policy = policy_axis_of e findings;
         projection = decision_projection_of policy evidence risk False in
     Inr \<lparr>pt_evaluated_at = env_isoformat e now, pt_input_hash = ti_input_hash i, pt_policy = policy,
       pt_evidence = evidence, pt_risk = risk,
       pt_decision = projection\<lparr>dp_axes_hash := Some (axes_hash e policy evidence risk projection)\<rparr>,
       pt_contributions = policy_contributions findings @ eax_contributions evidence @
         rax_contributions risk @ dp_contributions projection,
       pt_findings = findings,
       pt_passed_groups = filter (\<lambda>g. \<not> list_ex (\<lambda>f. pf_category f = g) findings) POLICY_GROUPS,
       pt_fingerprint = (case pd_fingerprint decision of None \<Rightarrow> JNull | Some s \<Rightarrow> JStr s),
       pt_dry_run_job_id = JNull, pt_rollback_required = ti_rollback_required i,
       pt_auto_approval = ti_auto_approval i\<rparr>))))"

section \<open>The final evaluation\<close>

text \<open>A loop that replaces the first element of a kind and stops.\<close>

fun update_first :: "('a \<Rightarrow> bool) \<Rightarrow> ('a \<Rightarrow> 'a) \<Rightarrow> 'a list \<Rightarrow> 'a list" where
  "update_first p f [] = []"
| "update_first p f (x # xs) = (if p x then f x # xs else x # update_first p f xs)"

definition dry_run_status :: "json dict \<Rightarrow> string" where
  "dry_run_status evidence = str_lower (text_or (get_or_null evidence ''status'') ''partial'')"

definition dry_run_check :: "json dict \<Rightarrow> evidence_check" where
  "dry_run_check evidence =
     evidence_check ''authoritative_dry_run'' (dry_run_status evidence = ''passed'')
       (if dry_run_status evidence = ''passed''
        then ''Authoritative dry-run evidence completed successfully and was verified.''
        else ''Authoritative dry-run evidence completed with status '' @ dry_run_status evidence @ ''.'')
       (map py_str (filter truthy
         [get_or_null evidence ''dry_run_job_id'', get_or_null evidence ''command_fingerprint_hash'']))"

definition final_checks :: "evidence_check list \<Rightarrow> evidence_check \<Rightarrow> evidence_check list" where
  "final_checks checks replacement =
     (if list_ex (\<lambda>k. ek_code k = ''authoritative_dry_run'') checks
      then update_first (\<lambda>k. ek_code k = ''authoritative_dry_run'') (\<lambda>_. replacement) checks
      else checks @ [replacement])"

definition final_evidence :: "evidence_axis \<Rightarrow> json dict \<Rightarrow> evidence_axis" where
  "final_evidence axis dry_run =
     (let checks = final_checks (eax_checks axis) (dry_run_check dry_run);
          missing = missing_checks checks;
          freshness = str_or (eax_freshness axis) ''unavailable'' in
      axis\<lparr>eax_classification := (if freshness = ''stale'' then ''stale'' else completeness_of missing),
           eax_completeness := completeness_of missing, eax_required_count := length checks,
           eax_present_count := length checks - length missing, eax_missing := missing,
           eax_checks := checks, eax_contributions := evidence_contributions checks\<rparr>)"

definition final_contribution :: "evidence_axis \<Rightarrow> contribution \<Rightarrow> contribution" where
  "final_contribution evidence c =
     (let matched = degraded (eax_classification evidence);
          weight = (case ct_weight c of Some w \<Rightarrow> if w = 0 then 20 else w | None \<Rightarrow> 20) in
      c\<lparr>ct_matched := matched, ct_effect := (if matched then ''increase'' else ''none''),
        ct_amount := (if matched then weight else 0),
        ct_reason := risk_reason ''partial_or_stale_live_evidence'' matched,
        ct_evidence_refs := evidence_names (eax_missing evidence)\<rparr>)"

definition final_risk :: "risk_axis \<Rightarrow> evidence_axis \<Rightarrow> risk_axis" where
  "final_risk axis evidence =
     (let contributions = update_first (\<lambda>c. ct_rule c = ''partial_or_stale_live_evidence'')
            (final_contribution evidence) (rax_contributions axis);
          raw = raw_score_of contributions; score = min raw 100 in
      axis\<lparr>rax_level := risk_level score, rax_score := score, rax_raw_score := raw,
           rax_contributions := contributions\<rparr>)"

definition finalize_policy_twin :: "env \<Rightarrow> instant \<Rightarrow> policy_twin \<Rightarrow> json dict \<Rightarrow> policy_twin" where
  "finalize_policy_twin e now twin dry_run =
     (let evidence = final_evidence (pt_evidence twin) dry_run;
          risk = final_risk (pt_risk twin) evidence;
          policy = pt_policy twin;
          projection = (decision_projection_of policy evidence risk (dry_run_status dry_run \<noteq> ''passed''))
            \<lparr>dp_preliminary := False, dp_is_final := True\<rparr> in
      twin\<lparr>pt_evaluated_at := env_isoformat e now, pt_evidence := evidence, pt_risk := risk,
        pt_decision := projection\<lparr>dp_axes_hash := Some (axes_hash e policy evidence risk projection)\<rparr>,
        pt_contributions := policy_contributions (pt_findings twin) @ eax_contributions evidence @
          rax_contributions risk @ dp_contributions projection,
        pt_dry_run_job_id := get_or_null dry_run ''dry_run_job_id'',
        pt_fingerprint := json_or (get_or_null dry_run ''command_fingerprint_hash'') (pt_fingerprint twin)\<rparr>)"

section \<open>What the decision says\<close>

lemma decision_level:
  "dp_level (decision_projection_of policy evidence risk failed) = ''red'' \<longleftrightarrow>
     pax_verdict policy = ''deny'' \<or> failed \<or> 71 \<le> rax_score risk"
  "dp_level (decision_projection_of policy evidence risk failed) = ''green'' \<longleftrightarrow>
     pax_verdict policy \<noteq> ''deny'' \<and> \<not> failed \<and> pax_verdict policy \<noteq> ''approval_required'' \<and>
     \<not> degraded (eax_classification evidence) \<and> rax_score risk \<le> 30"
  by (auto simp: decision_projection_of_def decision_rules_def)

lemma decision_flags [simp]:
  "dp_preliminary (decision_projection_of policy evidence risk failed)"
  "\<not> dp_is_final (decision_projection_of policy evidence risk failed)"
  by (simp_all add: decision_projection_of_def Let_def case_prod_beta)

lemma degraded_completeness: "degraded (completeness_of missing) \<longleftrightarrow> missing \<noteq> []"
  by (auto simp: degraded_def completeness_of_def)

lemma missing_checks_none: "missing_checks checks = [] \<longleftrightarrow> list_all ek_satisfied checks"
  by (auto simp: missing_checks_def filter_empty_conv list_all_iff)

lemma verdict_cases:
  "pax_verdict (policy_axis_of e fs) = ''deny'' \<longleftrightarrow> (\<exists>f \<in> set fs. pf_effect f = ''deny'')"
  "pax_verdict (policy_axis_of e fs) = ''approval_required'' \<longleftrightarrow>
     (\<forall>f \<in> set fs. pf_effect f \<noteq> ''deny'') \<and> (\<exists>f \<in> set fs. pf_effect f = ''approval_required'')"
  "pax_verdict (policy_axis_of e fs) \<in> {''deny'', ''approval_required'', ''allow''}"
  by (auto simp: policy_axis_of_def Let_def filter_empty_conv)

text \<open>What is kept of the findings: for each code and detail one of them, the last.\<close>

lemma dedupe_lookup:
  "map_of (fold (\<lambda>x. AList.update (k x) x) xs []) key = map_of (rev (map (\<lambda>x. (k x, x)) xs)) key"
  by (induction xs rule: rev_induct) (simp_all add: AList.update_conv)

lemma dedupe_distinct: "distinct (map fst (fold (\<lambda>x. AList.update (k x) x) xs []))"
  by (induction xs rule: rev_induct) (simp_all add: AList.distinct_update)

lemma dedupe_findings_in:
  "f \<in> set (dedupe_findings fs) \<longleftrightarrow>
     map_of (rev (map (\<lambda>f. ((pf_code f, pf_message f), f)) fs)) (pf_code f, pf_message f) = Some f"
proof -
  let ?d = "fold (\<lambda>f. AList.update (pf_code f, pf_message f) f) fs []"
  have "f \<in> set (dedupe_findings fs) \<longleftrightarrow> (\<exists>key. (key, f) \<in> set ?d)"
    by (force simp: dedupe_findings_def)
  also have "\<dots> \<longleftrightarrow> (\<exists>key. map_of (rev (map (\<lambda>f. ((pf_code f, pf_message f), f)) fs)) key = Some f)"
    by (simp add: map_of_eq_Some_iff [OF dedupe_distinct, symmetric] dedupe_lookup)
  also have "\<dots> \<longleftrightarrow> map_of (rev (map (\<lambda>f. ((pf_code f, pf_message f), f)) fs)) (pf_code f, pf_message f) = Some f"
  proof
    assume "\<exists>key. map_of (rev (map (\<lambda>f. ((pf_code f, pf_message f), f)) fs)) key = Some f"
    then obtain key where key: "map_of (rev (map (\<lambda>f. ((pf_code f, pf_message f), f)) fs)) key = Some f" ..
    then have "key = (pf_code f, pf_message f)" by (auto dest!: map_of_SomeD)
    with key show "map_of (rev (map (\<lambda>f. ((pf_code f, pf_message f), f)) fs)) (pf_code f, pf_message f) = Some f"
      by simp
  qed blast
  finally show ?thesis .
qed

lemma dedupe_findings_sub: "set (dedupe_findings fs) \<subseteq> set fs"
  by (auto simp: dedupe_findings_in dest!: map_of_SomeD)

lemma dedupe_findings_kept:
  assumes "f \<in> set fs"
  obtains g where "g \<in> set (dedupe_findings fs)" "pf_code g = pf_code f" "pf_message g = pf_message f"
proof -
  let ?m = "map_of (rev (map (\<lambda>f. ((pf_code f, pf_message f), f)) fs)) (pf_code f, pf_message f)"
  have "?m \<noteq> None" using assms by (auto simp: map_of_eq_None_iff rev_map [symmetric] image_image)
  then obtain g where g: "?m = Some g" by blast
  then have key: "(pf_code g, pf_message g) = (pf_code f, pf_message f)"
    by (auto dest!: map_of_SomeD)
  with g have "g \<in> set (dedupe_findings fs)" by (simp add: dedupe_findings_in)
  with key that show thesis by simp
qed

section \<open>The preliminary evaluation\<close>

text \<open>The codes the policy engine blocks a twin with; those of the required approvals are others.\<close>

definition twin_block_codes :: "string list" where
  "twin_block_codes =
     [''CLUSTER_SCOPED_RESOURCE_BLOCKED'', ''RESOURCE_NAMESPACE_OUT_OF_SCOPE'', ''SECRET_VALUES_BLOCKED'',
      ''PRODUCTION_DATA_COPY_BLOCKED'', ''PVC_DATA_COPY_BLOCKED'']"

lemma mk_block_code [simp]: "pb_code (mk_block code detail severity guardrail) = code"
  by (simp add: mk_block_def)

lemma scope_codes:
  "manifests_scope_blocks ms target = Inr bs \<Longrightarrow> b \<in> set bs \<Longrightarrow> pb_code b \<in> set twin_block_codes"
  by (induction ms target arbitrary: bs rule: manifests_scope_blocks.induct)
    (auto simp: manifest_scope_blocks_def Let_def scope_block_def twin_block_codes_def
      split: sum.splits if_splits)

lemma resource_codes: "b \<in> set (resource_scope_blocks r target) \<Longrightarrow> pb_code b \<in> set twin_block_codes"
  by (auto simp: resource_scope_blocks_def scope_block_def twin_block_codes_def split: option.splits if_splits)

lemma secret_codes: "b \<in> set (secret_blocks_from n ps) \<Longrightarrow> pb_code b = ''SECRET_VALUES_BLOCKED''"
  by (induction ps arbitrary: n) (auto simp: Let_def secret_block_def split: if_splits)

lemma dedupe_from_sub: "set (dedupe_from seen bs) \<subseteq> set bs"
  by (induction bs arbitrary: seen) (auto simp: Let_def)

lemma engine_codes:
  assumes "evaluate_policy e (twin_policy_context i now) None = Inr d" and "b \<in> set (pd_blocks d)"
  shows "pb_code b \<in> set twin_block_codes"
proof -
  let ?c = "twin_policy_context i now"
  obtain scope where scope: "namespace_scope_blocks (pc_target ?c) (pc_resource_refs ?c) (pc_manifests ?c) = Inr scope"
    and blocks: "pd_blocks d = scope @ secret_blocks (context_payloads ?c) @
      production_data_blocks (pc_command ?c) (pc_manifests ?c)"
    using assms(1)
    by (auto simp: evaluate_policy_def Let_def twin_policy_context_def dry_run_blocks_def approval_blocks_def
        idempotency_blocks_def limit_blocks_def audit_blocks_def default_limits_def split: sum.splits)
  obtain bs where bs: "manifests_scope_blocks (pc_manifests ?c) (pc_target ?c) = Inr bs"
    and "scope = concat (map (\<lambda>r. resource_scope_blocks r (pc_target ?c)) (pc_resource_refs ?c)) @ bs"
    using scope by (auto simp: namespace_scope_blocks_def split: sum.splits)
  then have "pb_code b \<in> set twin_block_codes" if "b \<in> set scope"
    using that scope_codes [OF bs, of b] resource_codes by auto
  moreover have "pb_code b \<in> set twin_block_codes" if "b \<in> set (secret_blocks ps)" for ps
    using that secret_codes [of b 0 ps] dedupe_from_sub [of "[]" "secret_blocks_from 0 ps"]
    by (auto simp: secret_blocks_def dedupe_def twin_block_codes_def)
  moreover have "pb_code b \<in> set twin_block_codes" if "b \<in> set (production_data_blocks c ms)" for c ms
    using that by (auto simp: production_data_blocks_def production_block_def Let_def
        twin_block_codes_def split: if_splits)
  ultimately show ?thesis using assms(2) blocks by auto
qed

lemma finding_fields [simp]:
  "pf_code (policy_finding_of e code category severity effect message refs) = code"
  "pf_category (policy_finding_of e code category severity effect message refs) = category"
  "pf_effect (policy_finding_of e code category severity effect message refs) = effect"
  "pf_message (policy_finding_of e code category severity effect message refs) = message"
  by (simp_all add: policy_finding_of_def)

lemma privileged_findings_result:
  "privileged_findings e ms = Inr fs \<Longrightarrow>
     fs \<noteq> [] = list_ex (\<lambda>m. manifest_privileged (lm_content m) = Inr True) ms \<and>
     (\<forall>f \<in> set fs. pf_effect f = ''deny'' \<and> pf_code f = ''PRIVILEGED_HOST_ACCESS_BLOCKED'')"
proof (induction ms arbitrary: fs)
  case (Cons m ms)
  then obtain p rest where "manifest_privileged (lm_content m) = Inr p" and "privileged_findings e ms = Inr rest"
    by (auto simp: sbind_Inr)
  with Cons.IH [of rest] Cons.prems show ?case by (cases p) auto
qed simp

lemma evaluated_twin:
  assumes "evaluate_policy_twin e now i = Inr t"
  obtains d privileged checks where
    "evaluate_policy e (twin_policy_context i now) None = Inr d"
    "privileged_findings e (ab_manifests (ti_bundle i)) = Inr privileged"
    "initial_checks (ti_snapshot i) (ti_provenance i) (ti_graph_summary i) (ti_bundle i)
      (ti_rollback_required i) = Inr checks"
    "pt_findings t = dedupe_findings (policy_findings e (pd_blocks d) @ privileged @ approval_findings e i)"
    "pt_policy t = policy_axis_of e (pt_findings t)"
    "pt_evidence t = evidence_axis_of e (ti_snapshot i) checks now"
    "risk_axis_of (ti_deltas i) (ti_bundle i) (ti_planned i) (ti_deletes i) (pt_evidence t)
      (ti_pvc_enabled i) (ti_statefulset_enabled i) (ti_rollback_required i) = Inr (pt_risk t)"
    "\<exists>h. pt_decision t = (decision_projection_of (pt_policy t) (pt_evidence t) (pt_risk t) False)\<lparr>dp_axes_hash := h\<rparr>"
proof -
  obtain d where d: "evaluate_policy e (twin_policy_context i now) None = Inr d"
    using assms by (auto simp: evaluate_policy_twin_def sbind_Inr)
  moreover obtain privileged where p: "privileged_findings e (ab_manifests (ti_bundle i)) = Inr privileged"
    using assms d by (auto simp: evaluate_policy_twin_def sbind_Inr)
  moreover obtain checks where c: "initial_checks (ti_snapshot i) (ti_provenance i) (ti_graph_summary i)
      (ti_bundle i) (ti_rollback_required i) = Inr checks"
    using assms d p by (auto simp: evaluate_policy_twin_def sbind_Inr)
  moreover obtain risk where "risk_axis_of (ti_deltas i) (ti_bundle i) (ti_planned i) (ti_deletes i)
      (evidence_axis_of e (ti_snapshot i) checks now) (ti_pvc_enabled i) (ti_statefulset_enabled i)
      (ti_rollback_required i) = Inr risk"
    using assms d p c by (auto simp: evaluate_policy_twin_def sbind_Inr Let_def)
  ultimately show thesis
    using assms by (intro that [of d privileged checks]) (auto simp: evaluate_policy_twin_def Let_def)
qed

lemma verdict_of_twin:
  assumes "evaluate_policy e (twin_policy_context i now) None = Inr d"
    and "privileged_findings e ms = Inr privileged"
    and fs: "fs = policy_findings e (pd_blocks d) @ privileged @ approval_findings e i"
  shows "pax_verdict (policy_axis_of e (dedupe_findings fs)) = ''deny'' \<longleftrightarrow>
      pd_blocks d \<noteq> [] \<or> privileged \<noteq> []"
    and "pax_verdict (policy_axis_of e (dedupe_findings fs)) = ''approval_required'' \<longleftrightarrow>
      pd_blocks d = [] \<and> privileged = [] \<and> approval_findings e i \<noteq> []"
proof -
  have codes: "pb_code b \<noteq> ''HUMAN_APPROVAL_REQUIRED'' \<and> pb_code b \<noteq> ''EXPLICIT_DELETE_APPROVAL_REQUIRED''"
    if "b \<in> set (pd_blocks d)" for b
    using engine_codes [OF assms(1) that] by (auto simp: twin_block_codes_def)
  let ?deny = "\<lambda>f. pf_code f \<noteq> ''HUMAN_APPROVAL_REQUIRED'' \<and> pf_code f \<noteq> ''EXPLICIT_DELETE_APPROVAL_REQUIRED''"
  have effect: "pf_effect f = (if ?deny f then ''deny'' else ''approval_required'')" if f: "f \<in> set fs" for f
  proof -
    consider "f \<in> set (policy_findings e (pd_blocks d))"
      | "f \<in> set privileged" | "f \<in> set (approval_findings e i)"
      using f unfolding fs by auto
    then show ?thesis
    proof cases
      case 1
      then obtain b where "b \<in> set (pd_blocks d)" "pf_code f = pb_code b" "pf_effect f = ''deny''"
        by (auto simp: policy_findings_def)
      with codes show ?thesis by simp
    next
      case 2
      with privileged_findings_result [OF assms(2)] show ?thesis by simp
    next
      case 3
      then show ?thesis by (auto simp: approval_findings_def split: if_splits)
    qed
  qed
  have kept: "(\<exists>f \<in> set (dedupe_findings fs). pf_effect f = x) \<longleftrightarrow> (\<exists>f \<in> set fs. pf_effect f = x)" for x
  proof
    assume "\<exists>f \<in> set fs. pf_effect f = x"
    then obtain f where f: "f \<in> set fs" "pf_effect f = x" by blast
    obtain g where "g \<in> set (dedupe_findings fs)" "pf_code g = pf_code f"
      by (rule dedupe_findings_kept [OF f(1)])
    with f dedupe_findings_sub [of fs] effect [of f] effect [of g]
    show "\<exists>f \<in> set (dedupe_findings fs). pf_effect f = x" by auto
  qed (use dedupe_findings_sub in blast)
  have deny: "(\<exists>f \<in> set fs. pf_effect f = ''deny'') \<longleftrightarrow> pd_blocks d \<noteq> [] \<or> privileged \<noteq> []"
    using privileged_findings_result [OF assms(2)]
    by (cases privileged; cases "pd_blocks d") (auto simp: fs policy_findings_def approval_findings_def)
  have approval: "(\<exists>f \<in> set fs. pf_effect f = ''approval_required'') \<longleftrightarrow> approval_findings e i \<noteq> []"
    using privileged_findings_result [OF assms(2)]
    by (auto simp: fs policy_findings_def approval_findings_def)
  show "pax_verdict (policy_axis_of e (dedupe_findings fs)) = ''deny'' \<longleftrightarrow>
      pd_blocks d \<noteq> [] \<or> privileged \<noteq> []"
    by (simp add: verdict_cases kept deny)
  then show "pax_verdict (policy_axis_of e (dedupe_findings fs)) = ''approval_required'' \<longleftrightarrow>
      pd_blocks d = [] \<and> privileged = [] \<and> approval_findings e i \<noteq> []"
    using kept [of "''deny''"] kept [of "''approval_required''"] deny approval
    by (simp add: verdict_cases) blast
qed

lemma approval_findings_none:
  "approval_findings e i \<noteq> [] \<longleftrightarrow>
     ec_human_approval_before_mutation (mp_executor_contract (ab_plan (ti_bundle i))) \<and> \<not> ti_auto_approval i \<or>
     ti_deletes i \<noteq> []"
  by (auto simp: approval_findings_def)

text \<open>
  C9. Before the dry run a twin is never green. The verdict is exactly what the engine, the manifests
  and the plan call for: deny when the policy engine blocks something or a manifest asks for
  privileged or host access, otherwise approval when the plan requires a human approval that is not
  given automatically or something is deleted explicitly, otherwise allow; the level is red exactly
  when the verdict is deny or the risk score is above 70.
\<close>

theorem preliminary_twin_is_exact:
  assumes "evaluate_policy_twin e now i = Inr t"
  shows "dp_preliminary (pt_decision t) \<and> \<not> dp_is_final (pt_decision t) \<and>
    dp_level (pt_decision t) \<noteq> ''green'' \<and>
    (dp_level (pt_decision t) = ''red'' \<longleftrightarrow> pax_verdict (pt_policy t) = ''deny'' \<or> 71 \<le> rax_score (pt_risk t)) \<and>
    (pax_verdict (pt_policy t) = ''deny'' \<longleftrightarrow>
      (\<exists>d. evaluate_policy e (twin_policy_context i now) None = Inr d \<and> pd_blocks d \<noteq> []) \<or>
      list_ex (\<lambda>m. manifest_privileged (lm_content m) = Inr True) (ab_manifests (ti_bundle i))) \<and>
    (pax_verdict (pt_policy t) = ''approval_required'' \<longleftrightarrow>
      pax_verdict (pt_policy t) \<noteq> ''deny'' \<and>
      (ec_human_approval_before_mutation (mp_executor_contract (ab_plan (ti_bundle i))) \<and>
         \<not> ti_auto_approval i \<or> ti_deletes i \<noteq> []))"
proof -
  from assms obtain d privileged checks where
    d: "evaluate_policy e (twin_policy_context i now) None = Inr d" and
    p: "privileged_findings e (ab_manifests (ti_bundle i)) = Inr privileged" and
    c: "initial_checks (ti_snapshot i) (ti_provenance i) (ti_graph_summary i) (ti_bundle i)
      (ti_rollback_required i) = Inr checks" and
    f: "pt_findings t = dedupe_findings (policy_findings e (pd_blocks d) @ privileged @ approval_findings e i)"
      "pt_policy t = policy_axis_of e (pt_findings t)" and
    ev: "pt_evidence t = evidence_axis_of e (ti_snapshot i) checks now" and
    h: "\<exists>h. pt_decision t =
      (decision_projection_of (pt_policy t) (pt_evidence t) (pt_risk t) False)\<lparr>dp_axes_hash := h\<rparr>"
    by (rule evaluated_twin)
  from h obtain h where dec: "pt_decision t =
      (decision_projection_of (pt_policy t) (pt_evidence t) (pt_risk t) False)\<lparr>dp_axes_hash := h\<rparr>" ..
  have "\<not> list_all ek_satisfied checks"
    using c by (auto simp: initial_checks_def sbind_Inr evidence_check_def)
  then have "degraded (eax_classification (pt_evidence t))"
    using missing_checks_none [of checks] degraded_completeness [of "missing_checks checks"]
    by (simp add: ev evidence_axis_of_def Let_def)
  then have level: "dp_level (pt_decision t) \<noteq> ''green''"
    "dp_level (pt_decision t) = ''red'' \<longleftrightarrow> pax_verdict (pt_policy t) = ''deny'' \<or> 71 \<le> rax_score (pt_risk t)"
    by (simp_all add: dec decision_level)
  have "dp_preliminary (pt_decision t)" "\<not> dp_is_final (pt_decision t)" by (simp_all add: dec)
  with level verdict_of_twin [OF d p refl, folded f(1), folded f(2)] privileged_findings_result [OF p] d
  show ?thesis by (auto simp: approval_findings_none)
qed

section \<open>The final evaluation\<close>

lemma risk_contribution_fields [simp]:
  "ct_rule (risk_contribution facts rows ev pvc st rw) = fst rw"
  "ct_weight (risk_contribution facts rows ev pvc st rw) = Some (snd rw)"
  "ct_amount (risk_contribution facts rows ev pvc st rw) =
     (if dict_get facts (fst rw) = Some True then snd rw else 0)"
  by (simp_all add: risk_contribution_def Let_def)

lemma final_contribution_amount [simp]:
  "ct_weight c = Some 20 \<Longrightarrow> ct_amount (final_contribution ev c) = (if degraded (eax_classification ev) then 20 else 0)"
  by (simp add: final_contribution_def Let_def)

lemma risk_facts_evidence:
  assumes "risk_facts active bundle planned deletes ev pvc st rollback = Inr facts"
  shows "dict_get facts ''partial_or_stale_live_evidence'' = Some (degraded (eax_classification ev))"
proof -
  from assms obtain inferred where "has_inferred_helm_change active bundle planned = Inr inferred"
    unfolding risk_facts_def sbind_Inr by blast
  with assms show ?thesis
    unfolding risk_facts_def by (simp only: sbind_simps sum.inject) (erule subst, simp)
qed

lemma risk_axis_result:
  assumes "risk_axis_of deltas bundle planned deletes ev pvc st rollback = Inr r"
  obtains facts where
    "rax_contributions r = map (risk_contribution facts (active_rows deltas) ev pvc st) RISK_RULES"
    "dict_get facts ''partial_or_stale_live_evidence'' = Some (degraded (eax_classification ev))"
    "rax_raw_score r = raw_score_of (rax_contributions r)" "rax_score r = min (rax_raw_score r) 100"
proof -
  from assms obtain facts where
    "risk_facts (active_rows deltas) bundle planned deletes ev pvc st rollback = Inr facts"
    unfolding risk_axis_of_def Let_def sbind_Inr by blast
  with assms show thesis
    by (intro that [of facts] risk_facts_evidence) (auto simp: risk_axis_of_def Let_def)
qed

lemma final_raw_score:
  assumes "risk_axis_of deltas bundle planned deletes ev pvc st rollback = Inr r"
    and "degraded (eax_classification ev)"
  shows "rax_raw_score (final_risk r ev') = rax_raw_score r - (if degraded (eax_classification ev') then 0 else 20)"
    and "rax_score (final_risk r ev') = min (rax_raw_score (final_risk r ev')) 100"
proof -
  obtain facts where
    r: "rax_contributions r = map (risk_contribution facts (active_rows deltas) ev pvc st) RISK_RULES"
      "rax_raw_score r = raw_score_of (rax_contributions r)"
    and "dict_get facts ''partial_or_stale_live_evidence'' = Some (degraded (eax_classification ev))"
    using assms(1) by (rule risk_axis_result)
  then have facts: "dict_get facts ''partial_or_stale_live_evidence'' = Some True" by (simp add: assms(2))
  let ?after = "update_first (\<lambda>c. ct_rule c = ''partial_or_stale_live_evidence'') (final_contribution ev')
      (rax_contributions r)"
  have "map ct_amount ?after = map (\<lambda>rw. if fst rw = ''partial_or_stale_live_evidence''
      then (if degraded (eax_classification ev') then 20 else 0)
      else (if dict_get facts (fst rw) = Some True then snd rw else 0)) RISK_RULES"
    by (simp add: r(1) RISK_RULES_def)
  moreover have "map ct_amount (rax_contributions r) =
      map (\<lambda>rw. if dict_get facts (fst rw) = Some True then snd rw else 0) RISK_RULES"
    by (simp add: r(1))
  ultimately have "raw_score_of ?after = raw_score_of (rax_contributions r) - (if degraded (eax_classification ev') then 0 else 20)"
    by (simp add: raw_score_of_def RISK_RULES_def facts)
  then show "rax_raw_score (final_risk r ev') = rax_raw_score r - (if degraded (eax_classification ev') then 0 else 20)"
    by (simp add: final_risk_def Let_def r(2))
  show "rax_score (final_risk r ev') = min (rax_raw_score (final_risk r ev')) 100"
    by (simp add: final_risk_def Let_def)
qed

lemma evidence_check_fields [simp]:
  "ek_code (evidence_check code satisfied summary refs) = code"
  "ek_satisfied (evidence_check code satisfied summary refs) = satisfied"
  by (simp_all add: evidence_check_def)

text \<open>All evidence but the dry run is there.\<close>

definition other_evidence :: "evidence_axis \<Rightarrow> bool" where
  "other_evidence axis \<longleftrightarrow>
     list_all (\<lambda>k. ek_code k = ''authoritative_dry_run'' \<or> ek_satisfied k) (eax_checks axis)"

lemma final_evidence_degraded:
  assumes "initial_checks snapshot provenance graph bundle required = Inr checks"
    and ev: "ev = evidence_axis_of e snapshot checks now"
  shows "degraded (eax_classification (final_evidence ev dry_run)) \<longleftrightarrow>
    \<not> (dry_run_status dry_run = ''passed'' \<and> other_evidence ev)"
proof -
  have checks: "eax_checks ev = checks" and fresh: "eax_freshness ev \<noteq> ''stale'' \<and> eax_freshness ev \<noteq> []"
    by (simp_all add: ev evidence_axis_of_def Let_def)
  have "degraded (eax_classification (final_evidence ev dry_run)) \<longleftrightarrow>
      missing_checks (final_checks checks (dry_run_check dry_run)) \<noteq> []"
    using fresh by (simp add: final_evidence_def Let_def str_or_def checks degraded_completeness)
  also have "\<dots> \<longleftrightarrow> \<not> (dry_run_status dry_run = ''passed'' \<and> other_evidence ev)"
    using assms(1) by (auto simp: missing_checks_none other_evidence_def checks initial_checks_def sbind_Inr
        final_checks_def dry_run_check_def)
  finally show ?thesis .
qed

text \<open>
  C7. With the dry run attached the decision is final. It is green exactly when the verdict is allow,
  the dry run passed, every other check was satisfied before and the preliminary score, from which the
  20 points for incomplete evidence then go away, is at most 50; it is red exactly when the verdict
  is deny, the dry run did not pass or the score that remains is above 70.
\<close>

theorem green_needs_a_passed_dry_run:
  assumes "evaluate_policy_twin e now i = Inr t"
    and final: "f = finalize_policy_twin e later t dry_run"
  shows "dp_is_final (pt_decision f) \<and> \<not> dp_preliminary (pt_decision f) \<and>
    (dp_level (pt_decision f) = ''green'' \<longleftrightarrow>
      pax_verdict (pt_policy t) = ''allow'' \<and> dry_run_status dry_run = ''passed'' \<and>
      other_evidence (pt_evidence t) \<and> rax_raw_score (pt_risk t) \<le> 50) \<and>
    (dp_level (pt_decision f) = ''red'' \<longleftrightarrow>
      pax_verdict (pt_policy t) = ''deny'' \<or> dry_run_status dry_run \<noteq> ''passed'' \<or>
      (if other_evidence (pt_evidence t) then 91 else 71) \<le> rax_raw_score (pt_risk t))"
proof -
  from assms obtain d privileged checks where
    c: "initial_checks (ti_snapshot i) (ti_provenance i) (ti_graph_summary i) (ti_bundle i)
      (ti_rollback_required i) = Inr checks" and
    policy: "pt_policy t = policy_axis_of e (pt_findings t)" and
    ev: "pt_evidence t = evidence_axis_of e (ti_snapshot i) checks now" and
    risk: "risk_axis_of (ti_deltas i) (ti_bundle i) (ti_planned i) (ti_deletes i) (pt_evidence t)
      (ti_pvc_enabled i) (ti_statefulset_enabled i) (ti_rollback_required i) = Inr (pt_risk t)"
    by (elim evaluated_twin)
  let ?ev = "final_evidence (pt_evidence t) dry_run"
  let ?p = "decision_projection_of (pt_policy t) ?ev (final_risk (pt_risk t) ?ev) (dry_run_status dry_run \<noteq> ''passed'')"
  have "\<not> list_all ek_satisfied checks"
    using c by (auto simp: initial_checks_def sbind_Inr)
  then have "degraded (eax_classification (pt_evidence t))"
    by (simp add: ev evidence_axis_of_def Let_def degraded_completeness missing_checks_none)
  note raw = final_raw_score [OF risk this, of ?ev]
  note degr = final_evidence_degraded [OF c ev, of dry_run]
  have allow: "pax_verdict (pt_policy t) = ''allow'' \<longleftrightarrow>
      pax_verdict (pt_policy t) \<noteq> ''deny'' \<and> pax_verdict (pt_policy t) \<noteq> ''approval_required''"
    using verdict_cases(3) [of e "pt_findings t"] by (auto simp: policy)
  have "dp_level (pt_decision f) = dp_level ?p" "dp_is_final (pt_decision f)" "\<not> dp_preliminary (pt_decision f)"
    by (simp_all add: final finalize_policy_twin_def Let_def)
  then show ?thesis
    using decision_level [of "pt_policy t" ?ev "final_risk (pt_risk t) ?ev" "dry_run_status dry_run \<noteq> ''passed''"]
      degr raw allow by auto
qed

section \<open>What the risk rules do not see\<close>

text \<open>
  The comparison does not descend into lists, so a change of the images of a workload is reported at
  the path of the list, which does not end in the word the rule looks for.
\<close>

lemma field_changes_member:
  "field_changes (JObj [(k, x)]) (JObj [(k, y)]) path = field_changes x y (path @ [k])"
  by (subst field_changes.simps) (simp add: get_or_null_def)

lemma field_changes_lists:
  "xs \<noteq> ys \<Longrightarrow> field_changes (JArr xs) (JArr ys) path =
     [\<lparr>fc_path = str_join ''.'' path, fc_current = JArr xs, fc_planned = JArr ys\<rparr>]"
  by (subst field_changes.simps) simp

lemma image_change_is_not_seen:
  assumes "xs \<noteq> ys"
  shows "map fc_path (field_changes
      (JObj [(''spec'', JObj [(''template'', JObj [(''spec'', JObj [(''containers'', JArr xs)])])])])
      (JObj [(''spec'', JObj [(''template'', JObj [(''spec'', JObj [(''containers'', JArr ys)])])])]) []) =
    [''spec.template.spec.containers''] \<and> \<not> ends_with ''spec.template.spec.containers'' ''image''"
  using assms by (simp add: field_changes_member field_changes_lists ends_with_def starts_with_def)

text \<open>The text of a difference is cut at 50,000 characters; what is cut cannot be read back.\<close>

lemma long_diff_carries_no_risk:
  assumes "json_wf (JObj [(''current'', dict_json current), (''planned'', dict_json planned),
      (''field_changes'', JArr (map change_json changes))])"
    and "50000 < length (dumps_indent (JObj [(''current'', dict_json current), (''planned'', dict_json planned),
      (''field_changes'', JArr (map change_json changes))]))"
    and "dr_canonical_diff row = diff_text current planned changes"
  shows "row_changes row = []"
proof -
  let ?v = "JObj [(''current'', dict_json current), (''planned'', dict_json planned),
      (''field_changes'', JArr (map change_json changes))]"
  have "json_wf (sort_keys ?v)" using assms(1) by (rule json_wf_sort_keys)
  then have "json_loads (take 50000 (dumps_in indent_layout 0 (sort_keys ?v))) = None"
    using assms(2) by (intro cut_text_is_not_read layouts_blank)
      (simp_all add: dumps_indent_def del: json_wf.simps)
  moreover have "diff_text current planned changes \<noteq> []"
    using assms(2) by (auto simp: diff_text_def)
  ultimately show ?thesis
    by (simp add: row_changes_def assms(3) str_or_def diff_text_def dumps_indent_def)
qed

section \<open>A bundle without resources\<close>

definition demo_inputs :: twin_inputs where
  "demo_inputs = \<lparr>ti_bundle = \<lparr>ab_root_path = ''/b'', ab_root = [], ab_source = demo_source,
       ab_target_namespace = ''ns'', ab_plan = demo_plan [], ab_human_mop = None, ab_notes = None,
       ab_artifact = None, ab_index = None, ab_index_root = [], ab_response = None, ab_manifests = [],
       ab_values = []\<rparr>,
     ti_planned = [], ti_deltas = [], ti_snapshot = demo_snapshot,
     ti_provenance = [(''artifact_index_present'', JBool True)], ti_graph_summary = [], ti_deletes = [],
     ti_input_hash = ''h'', ti_target = ''ns'', ti_pvc_enabled = False, ti_statefulset_enabled = False,
     ti_rollback_required = False, ti_auto_approval = True\<rparr>"

lemma demo_inputs_fields [simp]:
  "ab_manifests (ti_bundle demo_inputs) = []" "ab_values (ti_bundle demo_inputs) = []"
  "mp_phases (ab_plan (ti_bundle demo_inputs)) = []" "ti_deltas demo_inputs = []"
  "ti_planned demo_inputs = []" "ti_deletes demo_inputs = []" "ti_snapshot demo_inputs = demo_snapshot"
  "ti_provenance demo_inputs = [(''artifact_index_present'', JBool True)]" "ti_graph_summary demo_inputs = []"
  "\<not> ti_rollback_required demo_inputs" "ti_auto_approval demo_inputs"
  "\<not> ti_pvc_enabled demo_inputs" "\<not> ti_statefulset_enabled demo_inputs"
  by (simp_all add: demo_inputs_def demo_plan_def)

lemma demo_decision:
  "evaluate_policy demo_env (twin_policy_context demo_inputs 0) None =
     Inr \<lparr>pd_allowed = True, pd_blocks = [], pd_fingerprint = None\<rparr>"
proof -
  have "\<not> re_search DATA_COPY_PATTERN []" by code_simp
  then show ?thesis
    by (simp add: evaluate_policy_def twin_policy_context_def mutating_command_def namespace_scope_blocks_def
        secret_blocks_def dedupe_def context_payloads_def production_data_blocks_def dry_run_blocks_def
        approval_blocks_def idempotency_blocks_def limit_blocks_def audit_blocks_def default_limits_def
        context_fingerprint_def opt_or_def)
qed

lemma demo_facts:
  assumes "degraded (eax_classification ev)"
  shows "risk_facts [] bundle [] [] ev False False False =
    Inr (map (\<lambda>rw. (fst rw, fst rw = ''partial_or_stale_live_evidence'')) RISK_RULES)"
  using assms by (simp add: risk_facts_def has_inferred_helm_change_def RISK_RULES_def)

lemma demo_amounts:
  "raw_score_of (map (risk_contribution (map (\<lambda>rw. (fst rw, fst rw = ''partial_or_stale_live_evidence'')) RISK_RULES)
     rows ev pvc st) RISK_RULES) = 20"
  by (simp add: raw_score_of_def RISK_RULES_def)

lemma demo_inputs_evaluated:
  obtains t where "evaluate_policy_twin demo_env 0 demo_inputs = Inr t"
    "pax_verdict (pt_policy t) = ''allow''" "other_evidence (pt_evidence t)" "rax_raw_score (pt_risk t) = 20"
proof -
  obtain checks where c: "initial_checks demo_snapshot [(''artifact_index_present'', JBool True)] []
      (ti_bundle demo_inputs) False = Inr checks"
    and other: "list_all (\<lambda>k. ek_code k = ''authoritative_dry_run'' \<or> ek_satisfied k) checks"
    and missing: "missing_checks checks \<noteq> []"
    by (simp add: initial_checks_def get_or_null_def json_or_def py_int_def missing_checks_def)
  let ?ev = "evidence_axis_of demo_env demo_snapshot checks 0"
  have ev: "eax_checks ?ev = checks" "degraded (eax_classification ?ev)"
    using missing by (simp_all add: evidence_axis_of_def Let_def degraded_completeness)
  obtain r where r: "risk_axis_of [] (ti_bundle demo_inputs) [] [] ?ev False False False = Inr r"
    and score: "rax_raw_score r = 20"
    by (simp add: risk_axis_of_def demo_facts [OF ev(2)] active_rows_def demo_amounts)
  have fs: "approval_findings demo_env demo_inputs = []" by (simp add: approval_findings_def)
  obtain t where "evaluate_policy_twin demo_env 0 demo_inputs = Inr t"
    "pt_policy t = policy_axis_of demo_env []" "pt_evidence t = ?ev" "pt_risk t = r"
    by (simp add: evaluate_policy_twin_def demo_decision c r fs policy_findings_def dedupe_findings_def Let_def)
  with that [of t] other ev score show thesis
    by (simp add: other_evidence_def policy_axis_of_def)
qed

theorem preliminary_twin_is_exact_witness:
  "\<exists>t. evaluate_policy_twin demo_env 0 demo_inputs = Inr t \<and> pax_verdict (pt_policy t) = ''allow'' \<and>
     dp_level (pt_decision t) \<noteq> ''green''"
proof (rule demo_inputs_evaluated)
  fix t assume "evaluate_policy_twin demo_env 0 demo_inputs = Inr t" "pax_verdict (pt_policy t) = ''allow''"
  with preliminary_twin_is_exact [of demo_env 0 demo_inputs t] show ?thesis by blast
qed

theorem green_needs_a_passed_dry_run_witness:
  "\<exists>t. evaluate_policy_twin demo_env 0 demo_inputs = Inr t \<and>
     dp_level (pt_decision (finalize_policy_twin demo_env 0 t [(''status'', JStr ''passed'')])) = ''green'' \<and>
     dp_level (pt_decision (finalize_policy_twin demo_env 0 t [(''status'', JStr ''failed'')])) = ''red''"
proof (rule demo_inputs_evaluated)
  fix t assume t: "evaluate_policy_twin demo_env 0 demo_inputs = Inr t"
    and "pax_verdict (pt_policy t) = ''allow''" "other_evidence (pt_evidence t)" "rax_raw_score (pt_risk t) = 20"
  moreover have "dry_run_status [(''status'', JStr ''passed'')] = ''passed''"
    "dry_run_status [(''status'', JStr ''failed'')] \<noteq> ''passed''"
    by code_simp+
  ultimately show ?thesis
    using green_needs_a_passed_dry_run [OF t refl, of 0 "[(''status'', JStr ''passed'')]"]
      green_needs_a_passed_dry_run [OF t refl, of 0 "[(''status'', JStr ''failed'')]"] by simp
qed

end
