(* ===== verification/TwinGraph.thy ===== *)
theory TwinGraph
  imports TwinDelta Artifacts Idempotency
begin

text \<open>
  The dependency graph of a twin (\<open>namespace_twin/dependency_graph.py\<close>). The closures of
  \<open>build_dependency_graph\<close> are programs over the graph built so far; its two indexes over the nodes
  and over the edges seen (\<open>by_identity\<close>, \<open>seen_edges\<close>) are read off the lists they index. The order
  in which Python iterates a set of texts, which differs between runs, is a parameter.
\<close>

section \<open>Tables\<close>

definition WORKLOAD_KINDS :: "string list" where
  "WORKLOAD_KINDS = [''CronJob'', ''DaemonSet'', ''Deployment'', ''Job'', ''Pod'', ''StatefulSet'']"

definition CLUSTER_SCOPED_KINDS :: "string list" where
  "CLUSTER_SCOPED_KINDS = [''ClusterRole'', ''CustomResourceDefinition'', ''Namespace'']"

definition EDGE_TYPES :: "string list" where
  "EDGE_TYPES =
     [''configmap_ref'', ''crd_owns_custom_resource'', ''helm_owns_resource'', ''owner_reference'',
      ''plan_applies'', ''plan_depends_on'', ''pvc_ref'', ''rbac_role_ref'', ''rbac_subject'',
      ''route_backend'', ''secret_name_ref'', ''selector_matches'', ''service_account_ref'']"

text \<open>The API groups that no custom resource definition provides.\<close>

definition BUILTIN_GROUPS :: "string list" where
  "BUILTIN_GROUPS =
     [''admissionregistration.k8s.io'', ''apiextensions.k8s.io'', ''apps'', ''authentication.k8s.io'',
      ''authorization.k8s.io'', ''autoscaling'', ''batch'', ''certificates.k8s.io'',
      ''coordination.k8s.io'', ''discovery.k8s.io'', ''events.k8s.io'', ''flowcontrol.apiserver.k8s.io'',
      ''networking.k8s.io'', ''reference.esda'', ''node.k8s.io'', ''policy'', ''rbac.authorization.k8s.io'',
      ''scheduling.k8s.io'', ''storage.k8s.io'']"

section \<open>Data\<close>

record twin_edge =
  te_id :: string
  te_source :: string
  te_target :: string
  te_type :: string
  te_confidence :: string
  te_evidence_refs :: "string list"

record graph_finding =
  gf_id :: string
  gf_code :: string
  gf_severity :: string
  gf_status :: string
  gf_message :: string
  gf_evidence_refs :: "string list"

type_synonym node_key = "string \<times> string option \<times> string"

record graph_state =
  gs_nodes :: "twin_resource list"
  gs_keys :: "(node_key \<times> twin_resource list) list"
  gs_edges :: "twin_edge list"
  gs_draws :: nat

type_synonym 'a graph = "(graph_state, py_error, 'a) prog"

definition stable_node_id :: "env \<Rightarrow> string \<Rightarrow> string" where
  "stable_node_id e identity = ''node_'' @ take 24 (env_sha256 e identity)"

definition stable_edge_id :: "env \<Rightarrow> string \<Rightarrow> string \<Rightarrow> string \<Rightarrow> string" where
  "stable_edge_id e source target edge_type =
     ''edge_'' @ take 24 (env_sha256 e (source @ [CHR 0x00] @ edge_type @ [CHR 0x00] @ target))"

section \<open>Reading values\<close>

definition mapping_value :: "json \<Rightarrow> string \<Rightarrow> string option" where
  "mapping_value v key =
     (let item = get_or_null (obj_items v) key in
      if is_obj v \<and> truthy item then Some (py_str item) else None)"

definition named :: "string \<Rightarrow> string option \<Rightarrow> (string \<times> string) list" where
  "named kind value = (if opt_truthy value then [(kind, the value)] else [])"

definition node_status :: "twin_resource \<Rightarrow> string" where
  "node_status node = text_or (get_or_null (tr_payload node) ''status'') ''present''"

definition node_risk :: "string \<Rightarrow> string \<Rightarrow> string" where
  "node_risk kind status =
     (if status = ''uncertain'' then ''medium''
      else if status = ''missing'' \<and> kind \<in> {''CustomResourceDefinition'', ''Secret'', ''Service'',
        ''ServiceAccount'', ''ClusterRole'', ''Role''} then ''high''
      else if status = ''missing'' then ''medium''
      else if kind \<in> {''ClusterRole'', ''CustomResourceDefinition'', ''Secret''} then ''medium''
      else ''low'')"

definition node_manifest :: "twin_resource \<Rightarrow> json" where
  "node_manifest node = json_or (get_or_null (tr_payload node) ''manifest'') (JObj [])"

definition node_path :: "twin_resource \<Rightarrow> string" where
  "node_path node = text_or (get_or_null (tr_payload node) ''path'') ''bundle''"

definition is_synthetic :: "twin_resource \<Rightarrow> bool" where
  "is_synthetic node \<longleftrightarrow> get_or_null (tr_payload node) ''synthetic'' = JBool True"

text \<open>\<open>sorted({str(x) for x in refs if str(x).strip()}) or ["bundle"]\<close>\<close>

definition evidence_of :: "string list \<Rightarrow> string list" where
  "evidence_of refs =
     (let named = sort (remdups (filter (\<lambda>r. str_strip r \<noteq> []) refs)) in
      if named = [] then [''bundle''] else named)"

section \<open>The nodes of the plan\<close>

definition set_default :: "string \<Rightarrow> 'v \<Rightarrow> 'v dict \<Rightarrow> 'v dict" where
  "set_default k v d = (if dict_has d k then d else dict_set k v d)"

definition prepare_node :: "env \<Rightarrow> twin_resource \<Rightarrow> twin_resource" where
  "prepare_node e node =
     (let p1 = set_default ''source'' (JStr ''rendered_manifest'') (tr_payload node);
          p2 = set_default ''status'' (JStr ''present'') p1;
          p3 = set_default ''risk'' (JStr (node_risk (tr_kind node) ''present'')) p2;
          p4 = set_default ''evidence_refs''
            (JArr [JStr (text_or (get_or_null p3 ''path'') ''bundle'')]) p3 in
      node\<lparr>tr_payload := dict_set ''node_id'' (JStr (stable_node_id e (tr_identity node))) p4\<rparr>)"

definition key_of :: "twin_resource \<Rightarrow> node_key" where
  "key_of node = (tr_kind node, tr_namespace node, tr_name node)"

text \<open>\<open>d.setdefault(k, []).append(v)\<close>\<close>

definition append_at :: "'k \<Rightarrow> 'v \<Rightarrow> ('k \<times> 'v list) list \<Rightarrow> ('k \<times> 'v list) list" where
  "append_at k v d = AList.update k ((case map_of d k of None \<Rightarrow> [] | Some vs \<Rightarrow> vs) @ [v]) d"

definition slashed :: "string \<Rightarrow> string" where
  "slashed s = str_replace [CHR 0x5C] ''/'' s"

definition index_path :: "twin_resource \<Rightarrow> string list dict \<Rightarrow> string list dict" where
  "index_path node paths =
     (let path = slashed (text_or (get_or_null (tr_payload node) ''path'') []) in
      if path \<noteq> [] then append_at path (tr_identity node) paths else paths)"

definition initial_state :: "twin_resource list \<Rightarrow> graph_state" where
  "initial_state nodes =
     \<lparr>gs_nodes = nodes, gs_keys = fold (\<lambda>n. append_at (key_of n) n) nodes [], gs_edges = [], gs_draws = 0\<rparr>"

section \<open>Adding nodes and edges\<close>

definition draw_id :: "env \<Rightarrow> string \<Rightarrow> string graph" where
  "draw_id e label = (\<lambda>s. (Inr (label @ env_uuid e (gs_draws s)), s\<lparr>gs_draws := Suc (gs_draws s)\<rparr>))"

definition optional_text :: "string option \<Rightarrow> json" where
  "optional_text x = (case x of None \<Rightarrow> JNull | Some s \<Rightarrow> JStr s)"

definition reference_identity :: "string \<Rightarrow> string \<Rightarrow> string option \<Rightarrow> string" where
  "reference_identity kind name ns =
     str_join '':'' [''reference.esda/v1'', kind, opt_or ns ''_cluster'', name]"

definition synthetic_node ::
    "env \<Rightarrow> string \<Rightarrow> string \<Rightarrow> string \<Rightarrow> string option \<Rightarrow> string \<Rightarrow> string \<Rightarrow> string list \<Rightarrow> json dict \<Rightarrow> twin_resource" where
  "synthetic_node e rid kind name ns status source refs details =
     (let identity = reference_identity kind name ns in
      \<lparr>tr_id = rid, tr_identity = identity, tr_api_version = ''reference.esda/v1'', tr_kind = kind,
       tr_name = name, tr_namespace = ns,
       tr_payload =
         [(''node_id'', JStr (stable_node_id e identity)), (''source'', JStr source),
          (''status'', JStr status), (''risk'', JStr (node_risk kind status)), (''synthetic'', JBool True),
          (''evidence_refs'', JArr (map JStr (evidence_of refs))), (''details'', JObj details)]\<rparr>)"

definition add_node :: "twin_resource \<Rightarrow> graph_state \<Rightarrow> graph_state" where
  "add_node node s =
     s\<lparr>gs_nodes := gs_nodes s @ [node], gs_keys := append_at (key_of node) node (gs_keys s)\<rparr>"

definition add_synthetic ::
    "env \<Rightarrow> string \<Rightarrow> string \<Rightarrow> string option \<Rightarrow> string \<Rightarrow> string \<Rightarrow> string list \<Rightarrow> json dict \<Rightarrow> string graph" where
  "add_synthetic e kind name ns status source refs details =
     (let identity = reference_identity kind name ns in
      bind (gets (\<lambda>s. identity \<in> tr_identity ` set (gs_nodes s))) (\<lambda>known.
      if known then ret identity
      else
        bind (draw_id e ''twinres_'') (\<lambda>rid.
        seqp (modify (add_node (synthetic_node e rid kind name ns status source refs details)))
        (ret identity))))"

text \<open>\<open>by_key.get(key, [])\<close>\<close>

definition nodes_at :: "graph_state \<Rightarrow> node_key \<Rightarrow> twin_resource list" where
  "nodes_at s key = (case map_of (gs_keys s) key of None \<Rightarrow> [] | Some vs \<Rightarrow> vs)"

definition candidates :: "string \<Rightarrow> string \<Rightarrow> string option \<Rightarrow> graph_state \<Rightarrow> twin_resource list" where
  "candidates kind name ns s =
     (let found = nodes_at s (kind, ns, name) in
      if found = [] \<and> kind \<in> set CLUSTER_SCOPED_KINDS then nodes_at s (kind, None, name) else found)"

definition resolve :: "env \<Rightarrow> string \<Rightarrow> string \<Rightarrow> string option \<Rightarrow> string list \<Rightarrow> (string \<times> string) graph" where
  "resolve e kind name ns refs =
     bind (gets (candidates kind name ns)) (\<lambda>found.
     if length found = 1 then ret (tr_identity (hd found), ''deterministic'')
     else if 1 < length found then
       bind (add_synthetic e kind name ns ''uncertain'' ''ambiguous_reference'' refs
         [(''candidate_identities'', JArr (map JStr (sort (map tr_identity found))))])
         (\<lambda>identity. ret (identity, ''uncertain''))
     else if kind = ''ServiceAccount'' \<and> name = ''default'' \<and> opt_truthy ns then
       bind (add_synthetic e kind name ns ''present'' ''kubernetes_namespace_default'' refs
         [(''provided_by'', JStr ''kubernetes_namespace'')])
         (\<lambda>identity. ret (identity, ''deterministic''))
     else
       bind (add_synthetic e kind name ns ''missing'' ''unresolved_reference'' refs [])
         (\<lambda>identity. ret (identity, ''deterministic'')))"

definition signature :: "twin_edge \<Rightarrow> string \<times> string \<times> string" where
  "signature edge = (te_source edge, te_target edge, te_type edge)"

definition add_edge :: "env \<Rightarrow> string \<Rightarrow> string \<Rightarrow> string \<Rightarrow> string \<Rightarrow> string list \<Rightarrow> unit graph" where
  "add_edge e source target edge_type confidence refs =
     bind (gets (\<lambda>s. (source, target, edge_type) \<in> signature ` set (gs_edges s))) (\<lambda>seen.
     if edge_type \<notin> set EDGE_TYPES \<or> source = target \<or> seen then ret ()
     else
       bind (draw_id e ''twinedge_'') (\<lambda>eid.
       modify (\<lambda>s. s\<lparr>gs_edges := gs_edges s @
         [\<lparr>te_id = eid, te_source = source, te_target = target, te_type = edge_type,
           te_confidence = confidence, te_evidence_refs = evidence_of refs\<rparr>]\<rparr>)))"

section \<open>References of a manifest\<close>

definition volume_references :: "json \<Rightarrow> py_error + (string \<times> string) list" where
  "volume_references volume =
     (if \<not> is_obj volume then Inr []
      else
        let d = obj_items volume; projected = get_or_null d ''projected'' in
        sbind (gather (if is_obj projected then get_or_null (obj_items projected) ''sources'' else JNull)
          (\<lambda>source. Inr (
            if \<not> is_obj source then []
            else named ''ConfigMap'' (mapping_value (get_or_null (obj_items source) ''configMap'') ''name'') @
              named ''Secret'' (mapping_value (get_or_null (obj_items source) ''secret'') ''name''))))
        (\<lambda>sources. Inr (
          named ''ConfigMap'' (mapping_value (get_or_null d ''configMap'') ''name'') @
          named ''Secret'' (mapping_value (get_or_null d ''secret'') ''secretName'') @
          named ''PersistentVolumeClaim'' (mapping_value (get_or_null d ''persistentVolumeClaim'') ''claimName'') @
          sources)))"

definition container_references :: "json \<Rightarrow> py_error + (string \<times> string) list" where
  "container_references container =
     (if \<not> is_obj container then Inr []
      else
        let d = obj_items container in
        sbind (gather (get_or_null d ''envFrom'') (\<lambda>env_from. Inr (
          if \<not> is_obj env_from then []
          else named ''ConfigMap'' (mapping_value (get_or_null (obj_items env_from) ''configMapRef'') ''name'') @
            named ''Secret'' (mapping_value (get_or_null (obj_items env_from) ''secretRef'') ''name''))))
        (\<lambda>from_refs.
        sbind (gather (get_or_null d ''env'') (\<lambda>env. Inr (
          let value_from = get_or_null (obj_items env) ''valueFrom'' in
          named ''ConfigMap'' (mapping_value (get_or_null (obj_items value_from) ''configMapKeyRef'') ''name'') @
          named ''Secret'' (mapping_value (get_or_null (obj_items value_from) ''secretKeyRef'') ''name''))))
        (\<lambda>env_refs. Inr (from_refs @ env_refs))))"

text \<open>The specification of the pods of a workload, as far as it is one.\<close>

definition workload_pod_spec :: "string \<Rightarrow> json dict \<Rightarrow> py_error + json" where
  "workload_pod_spec kind manifest =
     (if kind = ''Pod'' then Inr (json_or (get_or_null manifest ''spec'') (JObj []))
      else
        sbind (py_dict (get_or_null manifest ''spec'')) (\<lambda>spec.
        if kind = ''CronJob'' then
          sbind (py_dict (get_or_null spec ''jobTemplate'')) (\<lambda>job.
          sbind (py_member job ''spec'') (\<lambda>job_spec.
          sbind (py_member job_spec ''template'') (\<lambda>template. Inr (get_or_null template ''spec''))))
        else
          sbind (py_dict (get_or_null spec ''template'')) (\<lambda>template. Inr (get_or_null template ''spec''))))"

definition workload_references :: "string \<Rightarrow> json dict \<Rightarrow> py_error + (string \<times> string) list" where
  "workload_references kind manifest =
     (if kind \<notin> set WORKLOAD_KINDS then Inr []
      else
        sbind (workload_pod_spec kind manifest) (\<lambda>pod_spec.
        if \<not> is_obj pod_spec then Inr []
        else
          let d = obj_items pod_spec; account = get_or_null d ''serviceAccountName'' in
          sbind (gather (get_or_null d ''imagePullSecrets'') (\<lambda>item.
            Inr (named ''Secret'' (mapping_value item ''name'')))) (\<lambda>pull_secrets.
          sbind (gather (get_or_null d ''volumes'') volume_references) (\<lambda>volumes.
          sbind (py_items (get_or_null d ''initContainers'')) (\<lambda>inits.
          sbind (py_items (get_or_null d ''containers'')) (\<lambda>containers.
          sbind (each_item container_references (inits @ containers)) (\<lambda>refs.
          Inr (sort_key (\<lambda>(kind, name). [kind, name]) (remdups (
            (if truthy account then [(''ServiceAccount'', py_str account)] else []) @
            pull_secrets @ volumes @ concat refs))))))))))"

definition ingress_backends :: "json dict \<Rightarrow> py_error + string list" where
  "ingress_backends manifest =
     sbind (py_dict (get_or_null manifest ''spec'')) (\<lambda>spec.
     let first = json_or (json_or (get_or_null spec ''defaultBackend'') (get_or_null spec ''backend'')) (JObj []) in
     sbind (gather (get_or_null spec ''rules'') (\<lambda>rule.
       sbind (py_dict rule) (\<lambda>r.
       sbind (py_dict (get_or_null r ''http'')) (\<lambda>http.
       gather (get_or_null http ''paths'') (\<lambda>path.
         sbind (py_dict path) (\<lambda>p. Inr [json_or (get_or_null p ''backend'') (JObj [])])))))) (\<lambda>backends.
     sbind (each_item (\<lambda>backend.
       if \<not> is_obj backend then Inr []
       else
         sbind (py_dict (get_or_null (obj_items backend) ''service'')) (\<lambda>service.
         let name = json_or (get_or_null service ''name'') (get_or_null (obj_items backend) ''serviceName'') in
         Inr (if truthy name then [py_str name] else []))) (first # backends)) (\<lambda>names.
     Inr (sort (remdups (concat names))))))"

definition metadata_release :: "json dict \<Rightarrow> py_error + string option" where
  "metadata_release metadata =
     sbind (py_dict (get_or_null metadata ''annotations'')) (\<lambda>annotations.
     let annotated = get_or_null annotations ''meta.helm.sh/release-name'' in
     if truthy annotated then Inr (Some (py_str annotated))
     else
       sbind (py_dict (get_or_null metadata ''labels'')) (\<lambda>labels.
       let labelled = get_or_null labels ''app.kubernetes.io/instance'' in
       Inr (if truthy labelled then Some (py_str labelled) else None)))"

definition pod_template_labels :: "string \<Rightarrow> json \<Rightarrow> py_error + string dict" where
  "pod_template_labels kind manifest =
     sbind (py_dict manifest) (\<lambda>m.
     sbind (if kind = ''Pod'' then
         sbind (py_dict (get_or_null m ''metadata'')) (\<lambda>metadata. Inr metadata)
       else if kind = ''CronJob'' then
         sbind (py_dict (get_or_null m ''spec'')) (\<lambda>spec.
         sbind (py_dict (get_or_null spec ''jobTemplate'')) (\<lambda>job.
         sbind (py_dict (get_or_null job ''spec'')) (\<lambda>job_spec.
         sbind (py_dict (get_or_null job_spec ''template'')) (\<lambda>template.
         py_member template ''metadata''))))
       else
         sbind (py_dict (get_or_null m ''spec'')) (\<lambda>spec.
         sbind (py_dict (get_or_null spec ''template'')) (\<lambda>template.
         py_dict (get_or_null template ''metadata''))))
     (\<lambda>metadata. Inr (map (\<lambda>kv. (fst kv, py_str (snd kv)))
       (obj_items (get_or_null metadata ''labels'')))))"

definition selector_name :: "env \<Rightarrow> json dict \<Rightarrow> string" where
  "selector_name e selector =
     ''selector-'' @ take 10 (env_sha256 e (str_join '',''
       (map (\<lambda>key. key @ ''='' @ py_str (get_or_null selector key)) (sort (dict_keys selector)))))"

section \<open>The edges of the resources\<close>

definition reference_edge :: "string \<Rightarrow> string" where
  "reference_edge kind =
     (if kind = ''ConfigMap'' then ''configmap_ref''
      else if kind = ''Secret'' then ''secret_name_ref''
      else if kind = ''PersistentVolumeClaim'' then ''pvc_ref''
      else ''service_account_ref'')"

text \<open>\<open>content.get(k) or content.get("spec", {}).get(k)\<close>\<close>

definition own_or_spec :: "json dict \<Rightarrow> string \<Rightarrow> py_error + json" where
  "own_or_spec content k =
     (if truthy (get_or_null content k) then Inr (get_or_null content k)
      else sbind (py_member content ''spec'') (\<lambda>spec. Inr (get_or_null spec k)))"

definition owner_edges :: "env \<Rightarrow> twin_resource \<Rightarrow> string list \<Rightarrow> json dict \<Rightarrow> unit graph" where
  "owner_edges e node refs metadata =
     bind (lift_result (py_items (get_or_null metadata ''ownerReferences''))) (\<lambda>owners.
     for_each (\<lambda>owner.
       let d = obj_items owner; kind = get_or_null d ''kind''; name = get_or_null d ''name'' in
       if \<not> is_obj owner \<or> \<not> truthy kind \<or> \<not> truthy name then ret ()
       else
         bind (resolve e (py_str kind) (py_str name) (tr_namespace node) refs) (\<lambda>(owner_id, confidence).
         add_edge e owner_id (tr_identity node) ''owner_reference'' confidence refs)) owners)"

definition release_edge :: "env \<Rightarrow> twin_resource \<Rightarrow> string list \<Rightarrow> json dict \<Rightarrow> unit graph" where
  "release_edge e node refs metadata =
     bind (lift_result (metadata_release metadata)) (\<lambda>release.
     if \<not> opt_truthy release then ret ()
     else
       bind (add_synthetic e ''HelmRelease'' (the release) (tr_namespace node) ''present'' ''helm_metadata''
         refs []) (\<lambda>helm_id.
       add_edge e helm_id (tr_identity node) ''helm_owns_resource'' ''deterministic'' refs))"

definition workload_edges :: "env \<Rightarrow> twin_resource \<Rightarrow> string list \<Rightarrow> json dict \<Rightarrow> unit graph" where
  "workload_edges e node refs content =
     bind (lift_result (workload_references (tr_kind node) content)) (\<lambda>names.
     for_each (\<lambda>(kind, name).
       bind (resolve e kind name (tr_namespace node) refs) (\<lambda>(ref_id, confidence).
       add_edge e ref_id (tr_identity node) (reference_edge kind) confidence refs)) names)"

definition ingress_edges :: "env \<Rightarrow> twin_resource \<Rightarrow> string list \<Rightarrow> json dict \<Rightarrow> unit graph" where
  "ingress_edges e node refs content =
     (if tr_kind node \<noteq> ''Ingress'' then ret ()
      else
        bind (lift_result (ingress_backends content)) (\<lambda>names.
        for_each (\<lambda>name.
          bind (resolve e ''Service'' name (tr_namespace node) refs) (\<lambda>(service_id, confidence).
          add_edge e (tr_identity node) service_id ''route_backend'' confidence refs)) names))"

definition role_edge :: "env \<Rightarrow> twin_resource \<Rightarrow> string list \<Rightarrow> json dict \<Rightarrow> unit graph" where
  "role_edge e node refs content =
     bind (lift_result (own_or_spec content ''roleRef'')) (\<lambda>role_ref.
     let d = obj_items role_ref; kind = get_or_null d ''kind''; name = get_or_null d ''name'' in
     if \<not> is_obj role_ref \<or> \<not> truthy kind \<or> \<not> truthy name then ret ()
     else
       bind (resolve e (py_str kind) (py_str name)
         (if py_str kind = ''ClusterRole'' then None else tr_namespace node) refs)
         (\<lambda>(role_id, confidence).
       add_edge e role_id (tr_identity node) ''rbac_role_ref'' confidence refs))"

definition subject_edges :: "env \<Rightarrow> twin_resource \<Rightarrow> string list \<Rightarrow> json dict \<Rightarrow> unit graph" where
  "subject_edges e node refs content =
     bind (lift_result (sbind (own_or_spec content ''subjects'') py_items)) (\<lambda>subjects.
     for_each (\<lambda>subject.
       let d = obj_items subject; name = get_or_null d ''name'' in
       if \<not> is_obj subject \<or> get_or_null d ''kind'' \<noteq> JStr ''ServiceAccount'' \<or> \<not> truthy name then ret ()
       else
         bind (resolve e ''ServiceAccount'' (py_str name)
           (Some (py_str (json_or (get_or_null d ''namespace'') (optional_text (tr_namespace node))))) refs)
           (\<lambda>(subject_id, confidence).
         add_edge e (tr_identity node) subject_id ''rbac_subject'' confidence refs)) subjects)"

text \<open>The references a node is quoted with: its evidence, or its path.\<close>

definition path_refs :: "twin_resource \<Rightarrow> py_error + string list" where
  "path_refs node =
     sbind (py_items (json_or (get_or_null (tr_payload node) ''evidence_refs'')
       (JArr [json_or (get_or_null (tr_payload node) ''path'') (JStr ''bundle'')]))) (\<lambda>refs.
     Inr (map py_str refs))"

definition resource_edges :: "env \<Rightarrow> twin_resource \<Rightarrow> unit graph" where
  "resource_edges e node =
     (if is_synthetic node \<or> \<not> is_obj (node_manifest node) then ret ()
      else
        let content = obj_items (node_manifest node) in
        bind (lift_result (path_refs node)) (\<lambda>refs.
        bind (lift_result (py_dict (get_or_null content ''metadata''))) (\<lambda>metadata.
        seqp (owner_edges e node refs metadata)
        (seqp (release_edge e node refs metadata)
        (seqp (workload_edges e node refs content)
        (seqp (ingress_edges e node refs content)
        (if tr_kind node \<noteq> ''RoleBinding'' then ret ()
         else seqp (role_edge e node refs content) (subject_edges e node refs content))))))))"

section \<open>Selectors, custom resources and the plan\<close>

definition workloads_of :: "twin_resource list \<Rightarrow> py_error + (twin_resource \<times> string dict) list" where
  "workloads_of nodes =
     each_item (\<lambda>node. sbind (pod_template_labels (tr_kind node) (node_manifest node))
         (\<lambda>labels. Inr (node, labels)))
       (filter (\<lambda>node. tr_kind node \<in> set WORKLOAD_KINDS) nodes)"

definition selector_of :: "twin_resource \<Rightarrow> py_error + json dict" where
  "selector_of service =
     sbind (py_dict (node_manifest service)) (\<lambda>manifest.
     sbind (py_dict (get_or_null manifest ''spec'')) (\<lambda>spec.
     Inr (obj_items (get_or_null spec ''selector''))))"

text \<open>\<open>str(labels.get(key)) == str(value)\<close> for every entry of the selector.\<close>

definition selects :: "json dict \<Rightarrow> string dict \<Rightarrow> bool" where
  "selects selector labels =
     list_all (\<lambda>kv. (case dict_get labels (fst kv) of None \<Rightarrow> ''None'' | Some v \<Rightarrow> v) = py_str (snd kv)) selector"

definition selector_edges_of ::
    "env \<Rightarrow> string \<Rightarrow> (twin_resource \<times> string dict) list \<Rightarrow> string option \<Rightarrow> twin_resource \<Rightarrow> unit graph" where
  "selector_edges_of e target workloads ns service =
     bind (lift_result (selector_of service)) (\<lambda>selector.
     if selector = [] then ret ()
     else
       let matches = map fst (filter (\<lambda>(node, labels).
             tr_namespace node = Some (opt_or ns target) \<and> selects selector labels) workloads);
           refs = [node_path service] in
       if matches = [] then
         bind (add_synthetic e ''SelectorTarget'' (selector_name e selector) ns ''missing''
           ''unmatched_service_selector'' refs [(''selector'', JObj selector)]) (\<lambda>missing.
         add_edge e (tr_identity service) missing ''selector_matches'' ''deterministic'' refs)
       else
         for_each (\<lambda>node. add_edge e (tr_identity service) (tr_identity node) ''selector_matches''
           ''deterministic'' refs) matches)"

definition add_selector_edges :: "env \<Rightarrow> string \<Rightarrow> unit graph" where
  "add_selector_edges e target =
     bind (gets gs_nodes) (\<lambda>nodes.
     bind (lift_result (workloads_of nodes)) (\<lambda>workloads.
     bind (gets gs_keys) (\<lambda>keys.
     for_each (\<lambda>((kind, ns, _), services).
       if kind \<noteq> ''Service'' then ret ()
       else for_each (selector_edges_of e target workloads ns) services) keys)))"

definition custom_definition :: "twin_resource \<Rightarrow> py_error + ((string \<times> string) \<times> string) list" where
  "custom_definition node =
     (if is_synthetic node \<or> tr_kind node \<noteq> ''CustomResourceDefinition'' then Inr []
      else
        sbind (py_dict (node_manifest node)) (\<lambda>manifest.
        sbind (py_dict (get_or_null manifest ''spec'')) (\<lambda>spec.
        let grp = get_or_null spec ''group'' in
        if \<not> truthy grp then Inr []
        else
          sbind (py_dict (get_or_null spec ''names'')) (\<lambda>names.
          let kind = get_or_null names ''kind'' in
          Inr (if truthy kind then [((py_str grp, py_str kind), tr_identity node)] else [])))))"

definition api_group :: "string \<Rightarrow> string" where
  "api_group api_version =
     (if CHR ''/'' \<in> set api_version then takeWhile (\<lambda>c. c \<noteq> CHR ''/'') api_version else [])"

definition crd_edge :: "env \<Rightarrow> ((string \<times> string) \<times> string) list \<Rightarrow> twin_resource \<Rightarrow> unit graph" where
  "crd_edge e definitions node =
     (let grp = api_group (tr_api_version node); refs = [node_path node] in
      if grp = [] \<or> grp \<in> set BUILTIN_GROUPS then ret ()
      else
        bind (case map_of (rev definitions) (grp, tr_kind node) of
            Some (c # d) \<Rightarrow> ret (c # d, ''deterministic'')
          | _ \<Rightarrow> resolve e ''CustomResourceDefinition'' (str_lower (tr_kind node) @ ''s.'' @ grp) None refs)
          (\<lambda>(crd, confidence).
        add_edge e crd (tr_identity node) ''crd_owns_custom_resource'' confidence refs))"

definition add_crd_edges :: "env \<Rightarrow> unit graph" where
  "add_crd_edges e =
     bind (gets gs_nodes) (\<lambda>nodes.
     bind (lift_result (each_item custom_definition nodes)) (\<lambda>definitions.
     for_each (crd_edge e (concat definitions)) nodes))"

definition plan_ref :: string where
  "plan_ref = ''machine_execution_plan.yaml''"

fun add_phases :: "env \<Rightarrow> string \<Rightarrow> plan_phase list \<Rightarrow> string dict \<Rightarrow> string dict graph" where
  "add_phases e target [] ids = ret ids"
| "add_phases e target (phase # phases) ids =
     bind (add_synthetic e ''PlanPhase'' (pp_id phase) (Some target) ''present'' ''machine_execution_plan''
       [plan_ref] [(''title'', optional_text (pp_title phase)), (''objective'', JStr (pp_objective phase))])
     (\<lambda>identity. add_phases e target phases (dict_set (pp_id phase) identity ids))"

definition dependency_edge :: "env \<Rightarrow> string \<Rightarrow> string dict \<Rightarrow> string \<Rightarrow> string \<Rightarrow> unit graph" where
  "dependency_edge e target ids current dependency =
     bind (case dict_get ids dependency of
         Some (c # d) \<Rightarrow> ret (c # d)
       | _ \<Rightarrow> add_synthetic e ''PlanPhase'' dependency (Some target) ''missing''
           ''unresolved_plan_dependency'' [plan_ref] []) (\<lambda>dependency_id.
     add_edge e dependency_id current ''plan_depends_on'' ''deterministic'' [plan_ref])"

definition manifest_edges :: "env \<Rightarrow> string \<Rightarrow> string list dict \<Rightarrow> string list \<Rightarrow> string \<Rightarrow> string \<Rightarrow> unit graph" where
  "manifest_edges e target paths ignored current ref =
     (let normalized = slashed ref in
      if normalized \<in> set ignored then ret ()
      else
        bind (case dict_get paths normalized of
            Some (i # is) \<Rightarrow> ret (i # is)
          | _ \<Rightarrow> bind (add_synthetic e ''ManifestArtifact'' normalized (Some target) ''missing''
              ''unresolved_plan_manifest'' [plan_ref, normalized] []) (\<lambda>missing. ret [missing]))
          (for_each (\<lambda>identity. add_edge e current identity ''plan_applies'' ''deterministic''
            [plan_ref, normalized])))"

definition phase_edges ::
    "env \<Rightarrow> string \<Rightarrow> string list dict \<Rightarrow> string list \<Rightarrow> string list dict \<Rightarrow> string dict \<Rightarrow> plan_phase \<Rightarrow> unit graph" where
  "phase_edges e target paths ignored dependencies ids phase =
     (case dict_get ids (pp_id phase) of
        None \<Rightarrow> raise_err (KeyError (pp_id phase))
      | Some current \<Rightarrow>
          seqp (for_each (dependency_edge e target ids current)
              (sort (remdups (pp_depends_on phase @
                (case dict_get dependencies (pp_id phase) of None \<Rightarrow> [] | Some ds \<Rightarrow> ds)))))
          (for_each (\<lambda>step. for_each (manifest_edges e target paths ignored current)
              (ps_manifest_refs step)) (pp_steps phase)))"

definition add_plan_edges ::
    "env \<Rightarrow> artifact_bundle \<Rightarrow> string list dict \<Rightarrow> string list \<Rightarrow> unit graph" where
  "add_plan_edges e bundle paths ignored =
     (let plan = ab_plan bundle; target = ab_target_namespace bundle;
          dependencies = dict_update [] (map (\<lambda>en. (ge_phase_id en, ge_depends_on en))
            (mp_dependency_graph plan)) in
      bind (add_phases e target (mp_phases plan) []) (\<lambda>ids.
      for_each (phase_edges e target paths ignored dependencies ids) (mp_phases plan)))"

section \<open>Cycles\<close>

text \<open>
  The depth-first search: \<open>open\<close> holds the nodes of state 1, \<open>done\<close> those of state 2. An edge back to
  a node of state 1 counts as a cycle.
\<close>

type_synonym adjacency = "string list dict"

function visit_targets ::
    "adjacency \<Rightarrow> string list \<Rightarrow> string list \<Rightarrow> nat \<Rightarrow> string list \<Rightarrow> string list \<times> nat" where
  "visit_targets g stack finished cycles [] = (finished, cycles)"
| "visit_targets g stack finished cycles (t # ts) =
     (if t \<in> set stack then visit_targets g stack finished (Suc cycles) ts
      else if t \<in> set finished then visit_targets g stack finished cycles ts
      else
        case dict_get g t of
          None \<Rightarrow> visit_targets g stack (t # finished) cycles ts
        | Some targets \<Rightarrow>
            (case visit_targets g (t # stack) finished cycles targets of
               (inner, n) \<Rightarrow> visit_targets g stack (t # inner) n ts))"
  by pat_completeness auto
termination
proof (relation "inv_image (less_than <*lex*> less_than)
    (\<lambda>(g, stack, finished, cycles, ts). (card (graph_nodes g - set stack), length ts))")
  fix g :: adjacency and stack finished cycles t ts targets
  assume "t \<notin> set stack" and "dict_get g t = Some targets"
  then have "card (graph_nodes g - set (t # stack)) < card (graph_nodes g - set stack)"
    by (intro psubset_card_mono) (auto dest: dict_get_node)
  then show "((g, t # stack, finished, cycles, targets), g, stack, finished, cycles, t # ts)
      \<in> inv_image (less_than <*lex*> less_than)
        (\<lambda>(g, stack, finished, cycles, ts). (card (graph_nodes g - set stack), length ts))"
    by simp
qed (simp_all add: wf_inv_image wf_lex_prod)

definition adjacency_of :: "(string list \<Rightarrow> string list) \<Rightarrow> twin_resource list \<Rightarrow> twin_edge list \<Rightarrow> adjacency" where
  "adjacency_of set_order nodes es =
     (let identities = remdups (map tr_identity nodes) in
      map (\<lambda>i. (i, set_order (remdups (map te_target (filter (\<lambda>edge.
        te_source edge = i \<and> te_target edge \<in> set identities) es))))) identities)"

definition cycle_count :: "(string list \<Rightarrow> string list) \<Rightarrow> twin_resource list \<Rightarrow> twin_edge list \<Rightarrow> nat" where
  "cycle_count set_order nodes es =
     snd (visit_targets (adjacency_of set_order nodes es) [] [] 0
       (sort (remdups (map tr_identity nodes))))"

section \<open>Findings and the graph\<close>

definition dependency_finding :: "twin_resource \<Rightarrow> string \<Rightarrow> graph_finding" where
  "dependency_finding node ident =
     (let status = node_status node in
      \<lparr>gf_id = ''twinfinding_'' @ ident,
       gf_code = (if status = ''missing'' then ''MISSING_DEPENDENCY'' else ''UNCERTAIN_DEPENDENCY''),
       gf_severity = ''review'', gf_status = ''provisional'',
       gf_message = tr_kind node @ '' '' @ tr_name node @ '' is '' @ status @
         '' in the planned dependency graph.'',
       gf_evidence_refs = map py_str (arr_items (json_or (get_or_null (tr_payload node) ''evidence_refs'')
         (JArr [JStr ''bundle''])))\<rparr>)"

definition cycle_finding :: "string \<Rightarrow> graph_finding" where
  "cycle_finding ident =
     \<lparr>gf_id = ''twinfinding_'' @ ident, gf_code = ''DEPENDENCY_CYCLE'', gf_severity = ''review'',
      gf_status = ''provisional'',
      gf_message = ''One or more directed dependency cycles require operator review.'',
      gf_evidence_refs = [''machine_execution_plan.yaml'', ''rendered-manifests'']\<rparr>"

definition unresolved :: "twin_resource \<Rightarrow> bool" where
  "unresolved node \<longleftrightarrow> node_status node \<in> {''missing'', ''uncertain''}"

definition graph_findings ::
    "env \<Rightarrow> (string list \<Rightarrow> string list) \<Rightarrow> graph_state \<Rightarrow> graph_finding list" where
  "graph_findings e set_order s =
     (let open_nodes = filter unresolved (gs_nodes s);
          first = gs_draws s in
      map (\<lambda>(n, node). dependency_finding node (env_uuid e (first + n))) (enumerate 0 open_nodes) @
      (if cycle_count set_order (gs_nodes s) (gs_edges s) \<noteq> 0
       then [cycle_finding (env_uuid e (first + length open_nodes))] else []))"

definition graph_summary ::
    "(string list \<Rightarrow> string list) \<Rightarrow> twin_resource list \<Rightarrow> twin_edge list \<Rightarrow> graph_finding list \<Rightarrow> nat dict" where
  "graph_summary set_order nodes es findings =
     (let statuses = map node_status nodes in
      [(''nodes'', length nodes), (''edges'', length es),
       (''present'', count_list statuses ''present''), (''missing'', count_list statuses ''missing''),
       (''uncertain'', count_list statuses ''uncertain''), (''cycles'', cycle_count set_order nodes es),
       (''findings'', length findings)])"

definition graph_program ::
    "env \<Rightarrow> artifact_bundle \<Rightarrow> twin_resource list \<Rightarrow> string list \<Rightarrow> unit graph" where
  "graph_program e bundle nodes ignored =
     seqp (for_each (resource_edges e) nodes)
     (seqp (add_selector_edges e (ab_target_namespace bundle))
     (seqp (add_crd_edges e)
     (add_plan_edges e bundle (fold index_path nodes []) ignored)))"

definition build_dependency_graph ::
    "env \<Rightarrow> (string list \<Rightarrow> string list) \<Rightarrow> artifact_bundle \<Rightarrow> twin_resource list \<Rightarrow> string list \<Rightarrow>
      py_error + (twin_resource list \<times> twin_edge list \<times> graph_finding list \<times> nat dict)" where
  "build_dependency_graph e set_order bundle resources ignored =
     (let nodes = map (prepare_node e) resources in
      case graph_program e bundle nodes ignored (initial_state nodes) of
        (Inl err, _) \<Rightarrow> Inl err
      | (Inr _, s) \<Rightarrow>
          let findings = graph_findings e set_order s in
          Inr (gs_nodes s, gs_edges s, findings,
            graph_summary set_order (gs_nodes s) (gs_edges s) findings))"

section \<open>What the search decides\<close>

lemma visit_targets_mono: "visit_targets g stack fin c ts = (fin', c') \<Longrightarrow> c \<le> c'"
proof (induction g stack fin c ts arbitrary: fin' c' rule: visit_targets.induct)
  case (2 g stack fin c t ts)
  then show ?case by (fastforce split: if_splits option.splits prod.splits dest: Suc_leD)
qed simp

lemma visit_targets_order:
  "visit_targets g stack fin c ts = (fin', c) \<Longrightarrow> topological g fin \<Longrightarrow> set fin \<inter> set stack = {} \<Longrightarrow>
    set ts \<subseteq> graph_nodes g \<Longrightarrow> snd ` edges g \<subseteq> graph_nodes g \<Longrightarrow>
    topological g fin' \<and> set ts \<union> set fin \<subseteq> set fin' \<and> set fin' \<inter> set stack = {}"
proof (induction g stack fin c ts arbitrary: fin' rule: visit_targets.induct)
  case (2 g stack fin c t ts)
  consider "t \<in> set stack" | "t \<notin> set stack" "t \<in> set fin" | "t \<notin> set stack" "t \<notin> set fin" by blast
  then show ?case
  proof cases
    case 1
    with "2.prems"(1) have "visit_targets g stack fin (Suc c) ts = (fin', c)" by simp
    from visit_targets_mono [OF this] show ?thesis by simp
  next
    case 2
    with "2.IH"(2) [OF 2, of fin'] "2.prems" show ?thesis by auto
  next
    case 3
    from "2.prems"(4) obtain ds where ds: "dict_get g t = Some ds"
      by (auto simp: graph_nodes_def dest: weak_map_of_SomeI)
    obtain inner k where inner: "visit_targets g (t # stack) fin c ds = (inner, k)" by force
    with "2.prems"(1) 3 ds have rest: "visit_targets g stack (t # inner) k ts = (fin', c)" by simp
    from visit_targets_mono [OF inner] visit_targets_mono [OF rest] have k: "k = c" by simp
    have "set ds \<subseteq> graph_nodes g" using edges_get [OF ds] "2.prems"(5) by force
    with "2.IH"(4) [OF 3 ds, of inner] inner k "2.prems"(2,3,5) 3
    have i: "topological g inner \<and> set ds \<union> set fin \<subseteq> set inner \<and> set inner \<inter> set (t # stack) = {}" by auto
    with ds 3 have "topological g (t # inner)" "set (t # inner) \<inter> set stack = {}" by auto
    with "2.IH"(5) [OF 3 ds inner [symmetric], of fin'] rest "2.prems"(4,5) k i show ?thesis by auto
  qed
qed simp

lemma visit_targets_cycle:
  "visit_targets g stack fin c ts = (fin', c') \<Longrightarrow> c' \<noteq> c \<Longrightarrow>
    (\<And>t m. t \<in> set stack \<Longrightarrow> m \<in> set ts \<Longrightarrow> (t, m) \<in> (edges g)\<^sup>+) \<Longrightarrow> \<not> acyclic (edges g)"
proof (induction g stack fin c ts arbitrary: fin' c' rule: visit_targets.induct)
  case (2 g stack fin c t ts)
  consider "t \<in> set stack" | "t \<notin> set stack" "t \<in> set fin" | "t \<notin> set stack" "t \<notin> set fin" by blast
  then show ?case
  proof cases
    case 1
    with "2.prems"(3) show ?thesis by (auto simp: acyclic_def)
  next
    case 2
    with "2.IH"(2) [OF 2, of fin' c'] "2.prems" show ?thesis by auto
  next
    case 3
    show ?thesis
    proof (cases "dict_get g t")
      case None
      with "2.IH"(3) [OF 3 None, of fin' c'] "2.prems" 3 show ?thesis by auto
    next
      case (Some ds)
      obtain inner k where inner: "visit_targets g (t # stack) fin c ds = (inner, k)" by force
      show ?thesis
      proof (cases "k = c")
        case True
        with 3 Some inner "2.IH"(5) [OF 3 Some inner [symmetric], of fin' c'] "2.prems"
        show ?thesis by auto
      next
        case False
        have "(a, b) \<in> (edges g)\<^sup>+" if "a \<in> set (t # stack)" "b \<in> set ds" for a b
          using that "2.prems"(3) [of a t] edges_get [OF Some that(2)]
          by (auto intro: trancl_into_trancl)
        with "2.IH"(4) [OF 3 Some, of inner k] inner False show ?thesis by auto
      qed
    qed
  qed
qed simp

text \<open>The links between nodes.\<close>

definition links :: "twin_edge list \<Rightarrow> (string \<times> string) set" where
  "links es = (\<lambda>edge. (te_source edge, te_target edge)) ` set es"

definition edge_ok :: "string set \<Rightarrow> twin_edge \<Rightarrow> bool" where
  "edge_ok ids edge \<longleftrightarrow>
     te_source edge \<in> ids \<and> te_target edge \<in> ids \<and> te_source edge \<noteq> te_target edge \<and>
     te_type edge \<in> set EDGE_TYPES \<and> te_evidence_refs edge \<noteq> []"

lemma adjacency_edges:
  assumes "\<And>xs. set (set_order xs) = set xs" and "list_all (edge_ok (tr_identity ` set nodes)) es"
  shows "edges (adjacency_of set_order nodes es) = links es"
    and "graph_nodes (adjacency_of set_order nodes es) = tr_identity ` set nodes"
proof -
  have lookup: "dict_get (adjacency_of set_order nodes es) a = (if a \<in> tr_identity ` set nodes
      then Some (set_order (remdups (map te_target (filter (\<lambda>edge.
        te_source edge = a \<and> te_target edge \<in> tr_identity ` set nodes) es)))) else None)" for a
    by (simp add: adjacency_of_def Let_def map_of_map_restrict restrict_map_def)
  show "edges (adjacency_of set_order nodes es) = links es"
  proof -
    have "(a, b) \<in> edges (adjacency_of set_order nodes es) \<longleftrightarrow>
        a \<in> tr_identity ` set nodes \<and> (\<exists>edge \<in> set es. te_source edge = a \<and>
          te_target edge \<in> tr_identity ` set nodes \<and> te_target edge = b)" for a b
      by (auto simp: edges_def lookup assms(1))
    moreover have "(a, b) \<in> links es \<longleftrightarrow> (\<exists>edge \<in> set es. te_source edge = a \<and> te_target edge = b)" for a b
      by (auto simp: links_def)
    moreover have "te_source edge \<in> tr_identity ` set nodes \<and> te_target edge \<in> tr_identity ` set nodes"
      if "edge \<in> set es" for edge
      using assms(2) that by (simp add: list_all_iff edge_ok_def)
    ultimately have "p \<in> edges (adjacency_of set_order nodes es) \<longleftrightarrow> p \<in> links es" for p
      by (cases p) auto
    then show ?thesis by blast
  qed
  show "graph_nodes (adjacency_of set_order nodes es) = tr_identity ` set nodes"
    by (simp add: graph_nodes_def adjacency_of_def Let_def comp_def)
qed

lemma cycle_count_iff:
  assumes "\<And>xs. set (set_order xs) = set xs" and "list_all (edge_ok (tr_identity ` set nodes)) es"
  shows "cycle_count set_order nodes es = 0 \<longleftrightarrow> acyclic (links es)"
proof -
  let ?g = "adjacency_of set_order nodes es" and ?ids = "sort (remdups (map tr_identity nodes))"
  note g = adjacency_edges [OF assms]
  have known: "set ?ids \<subseteq> graph_nodes ?g" "snd ` edges ?g \<subseteq> graph_nodes ?g"
    using assms(2) by (auto simp: g links_def list_all_iff edge_ok_def)
  obtain fin c where r: "visit_targets ?g [] [] 0 ?ids = (fin, c)" by force
  show ?thesis
  proof (cases "c = 0")
    case True
    with visit_targets_order [of ?g "[]" "[]" 0 ?ids fin] r known
    have topo: "topological ?g fin" and all: "set ?ids \<subseteq> set fin" by auto
    have "edges ?g \<subseteq> {(a, b) \<in> edges ?g. a \<in> set fin}"
      using assms(2) all by (auto simp: g links_def list_all_iff edge_ok_def)
    with topological_acyclic [OF topo] have "acyclic (edges ?g)" by (rule acyclic_subset)
    with True r show ?thesis by (simp add: cycle_count_def g)
  next
    case False
    with visit_targets_cycle [of ?g "[]" "[]" 0 ?ids fin c] r show ?thesis
      by (simp add: cycle_count_def g)
  qed
qed

section \<open>Graphs under construction\<close>

text \<open>
  What holds at every moment: the nodes are the given ones and synthetic ones after them, no identity
  twice; the index holds nodes; edges join different nodes, no edge twice. \<open>C\<close> are identities known
  to be nodes.
\<close>

definition identities :: "graph_state \<Rightarrow> string set" where
  "identities s = tr_identity ` set (gs_nodes s)"

definition good :: "twin_resource list \<Rightarrow> string set \<Rightarrow> graph_state \<Rightarrow> bool" where
  "good given C s \<longleftrightarrow>
     (\<exists>extra. gs_nodes s = given @ extra \<and> list_all is_synthetic extra) \<and>
     distinct (map tr_identity (gs_nodes s)) \<and> C \<subseteq> identities s \<and>
     (\<forall>k ns. (k, ns) \<in> set (gs_keys s) \<longrightarrow> tr_identity ` set ns \<subseteq> identities s) \<and>
     list_all (edge_ok (identities s)) (gs_edges s) \<and> distinct (map signature (gs_edges s))"

text \<open>\<open>yields given C m D\<close>: from a graph with the nodes \<open>C\<close>, the program leads to one with the nodes \<open>D\<close>.\<close>

definition yields :: "twin_resource list \<Rightarrow> string set \<Rightarrow> 'a graph \<Rightarrow> ('a \<Rightarrow> string set) \<Rightarrow> bool" where
  "yields given C m D \<longleftrightarrow> (\<forall>s x t. good given C s \<longrightarrow> m s = (Inr x, t) \<longrightarrow> good given (D x) t)"

lemma good_mono: "good given C s \<Longrightarrow> D \<subseteq> C \<Longrightarrow> good given D s"
  by (auto simp: good_def)

lemma yields_ret: "D x \<subseteq> C \<Longrightarrow> yields given C (ret x) D"
  by (auto simp: yields_def ret_def intro: good_mono)

lemma yields_raise: "yields given C (raise_err err) D"
  by (simp add: yields_def raise_err_def)

lemma yields_gets: "(\<And>s. good given C s \<Longrightarrow> good given (D (f s)) s) \<Longrightarrow> yields given C (gets f) D"
  by (simp add: yields_def gets_def)

lemma yields_bind: "yields given C m D \<Longrightarrow> (\<And>x. yields given (D x) (f x) E) \<Longrightarrow> yields given C (bind m f) E"
  unfolding yields_def bind_Inr by blast

lemma yields_seqp: "yields given C m (\<lambda>_. D) \<Longrightarrow> yields given D n E \<Longrightarrow> yields given C (seqp m n) E"
  unfolding seqp_def by (rule yields_bind)

lemma yields_lift: "(\<And>x. r = Inr x \<Longrightarrow> yields given C (f x) E) \<Longrightarrow> yields given C (bind (lift_result r) f) E"
  unfolding yields_def bind_Inr lift_result_def by auto

lemma yields_for_each:
  "(\<And>x. x \<in> set xs \<Longrightarrow> yields given C (f x) (\<lambda>_. C)) \<Longrightarrow> yields given C (for_each f xs) (\<lambda>_. C)"
  by (induction xs) (auto intro: yields_ret yields_seqp)

lemma yields_weaken:
  assumes "yields given C m D" and "\<And>x. E x \<subseteq> D x"
  shows "yields given C m E"
  unfolding yields_def
proof (intro allI impI)
  fix s x t assume "good given C s" and "m s = (Inr x, t)"
  with assms(1) have "good given (D x) t" by (auto simp: yields_def)
  then show "good given (E x) t" by (rule good_mono) (rule assms(2))
qed

lemma append_at_in:
  "(k', vs) \<in> set (append_at k v d) \<Longrightarrow> x \<in> set vs \<Longrightarrow> x = v \<or> (\<exists>k ws. (k, ws) \<in> set d \<and> x \<in> set ws)"
proof (induction d)
  case Nil
  then show ?case by (simp add: append_at_def)
next
  case (Cons kv d)
  show ?case
  proof (cases "fst kv = k")
    case True
    with Cons.prems show ?thesis by (cases kv) (force simp: append_at_def)
  next
    case False
    with Cons.prems have "(k', vs) = kv \<or> (k', vs) \<in> set (append_at k v d)"
      by (cases kv) (auto simp: append_at_def)
    with Cons.IH Cons.prems(2) show ?thesis by (metis list.set_intros)
  qed
qed

text \<open>The steps that change the graph.\<close>

lemma good_draw: "good given C (s\<lparr>gs_draws := n\<rparr>) = good given C s"
  by (simp add: good_def identities_def)

lemma yields_draw: "yields given C (draw_id e label) (\<lambda>_. C)"
  by (auto simp: yields_def draw_id_def good_draw)

lemma edge_ok_mono: "edge_ok I edge \<Longrightarrow> I \<subseteq> J \<Longrightarrow> edge_ok J edge"
  by (auto simp: edge_ok_def)

lemma good_add_node:
  assumes "good given C s" and "tr_identity node \<notin> identities s" and "is_synthetic node"
  shows "good given (insert (tr_identity node) C) (add_node node s)"
proof -
  have ids: "identities (add_node node s) = insert (tr_identity node) (identities s)"
    by (simp add: identities_def add_node_def)
  have keys: "tr_identity ` set ns \<subseteq> identities (add_node node s)" if "(k, ns) \<in> set (gs_keys (add_node node s))" for k ns
  proof
    fix i assume "i \<in> tr_identity ` set ns"
    then obtain n where n: "n \<in> set ns" "i = tr_identity n" by blast
    from that have "(k, ns) \<in> set (append_at (key_of node) node (gs_keys s))" by (simp add: add_node_def)
    from append_at_in [OF this n(1)] assms(1) n(2) show "i \<in> identities (add_node node s)"
      unfolding ids good_def by blast
  qed
  from assms(1) obtain extra where "gs_nodes s = given @ extra" "list_all is_synthetic extra"
    by (auto simp: good_def)
  with assms(3) have "\<exists>extra. gs_nodes (add_node node s) = given @ extra \<and> list_all is_synthetic extra"
    by (intro exI [of _ "extra @ [node]"]) (simp add: add_node_def)
  moreover have "list_all (edge_ok (identities (add_node node s))) (gs_edges (add_node node s))"
    using assms(1) by (auto simp: good_def list_all_iff add_node_def ids [unfolded add_node_def] intro: edge_ok_mono)
  moreover have "distinct (map tr_identity (gs_nodes (add_node node s)))"
    using assms(1,2) by (auto simp: good_def add_node_def identities_def)
  ultimately show ?thesis
    using assms(1) keys by (auto simp: good_def ids) (simp add: add_node_def)
qed

lemma synthetic_node_fields [simp]:
  "tr_identity (synthetic_node e rid kind name ns status source refs details) = reference_identity kind name ns"
  "is_synthetic (synthetic_node e rid kind name ns status source refs details)"
  by (simp_all add: synthetic_node_def Let_def is_synthetic_def get_or_null_def)

lemma yields_add_synthetic:
  "yields given C (add_synthetic e kind name ns status source refs details) (\<lambda>i. insert i C)"
  unfolding yields_def
proof (intro allI impI)
  fix s i t
  assume good: "good given C s" and run: "add_synthetic e kind name ns status source refs details s = (Inr i, t)"
  let ?i = "reference_identity kind name ns"
  show "good given (insert i C) t"
  proof (cases "?i \<in> identities s")
    case True
    with run have "t = s" "i = ?i" by (simp_all add: add_synthetic_def prog_defs identities_def Let_def)
    with good True show ?thesis by (simp add: good_def)
  next
    case False
    let ?u = "s\<lparr>gs_draws := Suc (gs_draws s)\<rparr>"
    from False run obtain rid where t: "t = add_node (synthetic_node e rid kind name ns status source refs details) ?u"
      and i: "i = ?i"
      by (auto simp: add_synthetic_def prog_defs identities_def Let_def draw_id_def)
    have "good given (insert ?i C) t"
      using good_add_node [of given C ?u "synthetic_node e rid kind name ns status source refs details"] good False
      by (simp add: t good_draw identities_def)
    with i show ?thesis by simp
  qed
qed

lemma yields_add_edge:
  assumes "a \<in> C" and "b \<in> C"
  shows "yields given C (add_edge e a b edge_type confidence refs) (\<lambda>_. C)"
  unfolding yields_def
proof (intro allI impI)
  fix s x t
  assume good: "good given C s" and run: "add_edge e a b edge_type confidence refs s = (Inr x, t)"
  let ?seen = "(a, b, edge_type) \<in> signature ` set (gs_edges s)"
  show "good given C t"
  proof (cases "edge_type \<notin> set EDGE_TYPES \<or> a = b \<or> ?seen")
    case True
    with run have "t = s" by (simp add: add_edge_def prog_defs split: if_splits)
    with good show ?thesis by simp
  next
    case False
    with run obtain eid where t: "t = s\<lparr>gs_draws := Suc (gs_draws s), gs_edges := gs_edges s @
        [\<lparr>te_id = eid, te_source = a, te_target = b, te_type = edge_type, te_confidence = confidence,
          te_evidence_refs = evidence_of refs\<rparr>]\<rparr>"
      by (auto simp: add_edge_def prog_defs draw_id_def)
    have "evidence_of refs \<noteq> []" by (simp add: evidence_of_def Let_def)
    with False good assms show ?thesis
      by (auto simp: t good_def identities_def edge_ok_def list_all_iff signature_def)
  qed
qed

lemma nodes_at_in: "good given C s \<Longrightarrow> n \<in> set (nodes_at s key) \<Longrightarrow> tr_identity n \<in> identities s"
proof -
  assume good: "good given C s" and n: "n \<in> set (nodes_at s key)"
  then obtain vs where vs: "map_of (gs_keys s) key = Some vs" "n \<in> set vs"
    by (cases "map_of (gs_keys s) key") (auto simp: nodes_at_def)
  then have "(key, vs) \<in> set (gs_keys s)" by (auto dest: map_of_SomeD)
  with vs good show ?thesis unfolding good_def by blast
qed

lemma good_union: "good given C s \<Longrightarrow> D \<subseteq> identities s \<Longrightarrow> good given (C \<union> D) s"
  by (simp add: good_def)

lemma yields_candidates:
  "yields given C (gets (candidates kind name ns)) (\<lambda>found. C \<union> tr_identity ` set found)"
proof (rule yields_gets)
  fix s assume good: "good given C s"
  then have "tr_identity ` set (candidates kind name ns s) \<subseteq> identities s"
    by (auto simp: candidates_def Let_def intro: nodes_at_in)
  with good show "good given (C \<union> tr_identity ` set (candidates kind name ns s)) s" by (rule good_union)
qed

lemma yields_resolve: "yields given C (resolve e kind name ns refs) (\<lambda>r. insert (fst r) C)"
  unfolding resolve_def
proof (rule yields_bind [OF yields_candidates])
  fix found :: "twin_resource list"
  have found: "tr_identity (hd found) \<in> tr_identity ` set found" if "length found = 1"
    using that by (cases found) auto
  show "yields given (C \<union> tr_identity ` set found)
      (if length found = 1 then ret (tr_identity (hd found), ''deterministic'')
       else if 1 < length found
       then bind (add_synthetic e kind name ns ''uncertain'' ''ambiguous_reference'' refs
         [(''candidate_identities'', JArr (map JStr (sort (map tr_identity found))))])
         (\<lambda>identity. ret (identity, ''uncertain''))
       else if kind = ''ServiceAccount'' \<and> name = ''default'' \<and> opt_truthy ns
       then bind (add_synthetic e kind name ns ''present'' ''kubernetes_namespace_default'' refs
         [(''provided_by'', JStr ''kubernetes_namespace'')])
         (\<lambda>identity. ret (identity, ''deterministic''))
       else bind (add_synthetic e kind name ns ''missing'' ''unresolved_reference'' refs [])
         (\<lambda>identity. ret (identity, ''deterministic''))) (\<lambda>r. insert (fst r) C)"
    using found by (auto intro!: yields_ret yields_bind [OF yields_add_synthetic])
qed

subsection \<open>Every part of the construction\<close>

named_theorems yields_intros \<open>introduction rules for programs that build the graph\<close>

lemma yields_edge [yields_intros]:
  "a \<in> B \<Longrightarrow> b \<in> B \<Longrightarrow> C \<subseteq> B \<Longrightarrow> yields given B (add_edge e a b edge_type confidence refs) (\<lambda>_. C)"
  by (rule yields_weaken [OF yields_add_edge])

lemma yields_reference [yields_intros]:
  "(\<And>i c. yields given (insert i C) (f i c) E) \<Longrightarrow>
    yields given C (bind (resolve e kind name ns refs) (\<lambda>(i, c). f i c)) E"
  by (rule yields_bind [OF yields_resolve]) (auto split: prod.split)

lemma yields_synthetic [yields_intros]:
  "(\<And>i. yields given (insert i C) (f i) E) \<Longrightarrow>
    yields given C (bind (add_synthetic e kind name ns status source refs details) f) E"
  by (rule yields_bind [OF yields_add_synthetic])

lemma yields_if [yields_intros]:
  "(b \<Longrightarrow> yields given C m E) \<Longrightarrow> (\<not> b \<Longrightarrow> yields given C n E) \<Longrightarrow> yields given C (if b then m else n) E"
  by simp

lemma yields_unit [yields_intros]: "yields given C (ret x) (\<lambda>_. C)"
  by (simp add: yields_ret)

lemma yields_then [yields_intros]:
  "yields given C m (\<lambda>_. C) \<Longrightarrow> yields given C n E \<Longrightarrow> yields given C (seqp m n) E"
  by (rule yields_seqp)

declare yields_lift [yields_intros] yields_for_each [yields_intros] yields_raise [yields_intros]

lemma yields_owner_edges:
  "tr_identity node \<in> C \<Longrightarrow> yields given C (owner_edges e node refs metadata) (\<lambda>_. C)"
  unfolding owner_edges_def Let_def by (intro yields_intros) auto

lemma yields_release_edge:
  "tr_identity node \<in> C \<Longrightarrow> yields given C (release_edge e node refs metadata) (\<lambda>_. C)"
  unfolding release_edge_def by (intro yields_intros) auto

lemma yields_workload_edges:
  "tr_identity node \<in> C \<Longrightarrow> yields given C (workload_edges e node refs content) (\<lambda>_. C)"
  unfolding workload_edges_def by (intro yields_intros) (auto intro!: yields_intros)

lemma yields_ingress_edges:
  "tr_identity node \<in> C \<Longrightarrow> yields given C (ingress_edges e node refs content) (\<lambda>_. C)"
  unfolding ingress_edges_def by (intro yields_intros) auto

lemma yields_role_edge:
  "tr_identity node \<in> C \<Longrightarrow> yields given C (role_edge e node refs content) (\<lambda>_. C)"
  unfolding role_edge_def Let_def by (intro yields_intros) auto

lemma yields_subject_edges:
  "tr_identity node \<in> C \<Longrightarrow> yields given C (subject_edges e node refs content) (\<lambda>_. C)"
  unfolding subject_edges_def Let_def by (intro yields_intros) auto

lemma yields_resource_edges:
  "tr_identity node \<in> C \<Longrightarrow> yields given C (resource_edges e node) (\<lambda>_. C)"
  unfolding resource_edges_def Let_def
  by (intro yields_intros yields_owner_edges yields_release_edge yields_workload_edges
      yields_ingress_edges yields_role_edge yields_subject_edges)

lemma yields_nodes [yields_intros]:
  "(\<And>nodes. yields given (C \<union> tr_identity ` set nodes) (f nodes) E) \<Longrightarrow> yields given C (bind (gets gs_nodes) f) E"
  by (rule yields_bind [OF yields_gets, where D = "\<lambda>nodes. C \<union> tr_identity ` set nodes"])
    (auto intro!: good_union simp: identities_def)

lemma yields_keys [yields_intros]:
  "(\<And>keys. yields given (C \<union> {i. \<exists>k ns. (k, ns) \<in> set keys \<and> i \<in> tr_identity ` set ns}) (f keys) E) \<Longrightarrow>
    yields given C (bind (gets gs_keys) f) E"
  by (rule yields_bind [OF yields_gets, where
        D = "\<lambda>keys. C \<union> {i. \<exists>k ns. (k, ns) \<in> set keys \<and> i \<in> tr_identity ` set ns}"])
    (rule good_union, assumption, unfold good_def, blast, blast)

lemma each_item_in:
  "each_item f xs = Inr ys \<Longrightarrow> y \<in> set ys \<Longrightarrow> \<exists>x \<in> set xs. f x = Inr y"
  by (induction xs arbitrary: ys) (auto simp: sbind_Inr)

lemma workloads_of_in: "workloads_of nodes = Inr ws \<Longrightarrow> (node, labels) \<in> set ws \<Longrightarrow> node \<in> set nodes"
  by (auto simp: workloads_of_def sbind_Inr dest!: each_item_in)

lemma yields_selector_edges_of:
  assumes "tr_identity service \<in> C" and "fst ` set workloads \<subseteq> nodes" and "tr_identity ` nodes \<subseteq> C"
  shows "yields given C (selector_edges_of e target workloads ns service) (\<lambda>_. C)"
  unfolding selector_edges_of_def Let_def
  using assms by (intro yields_intros) auto

lemma yields_add_selector_edges: "yields given C (add_selector_edges e target) (\<lambda>_. C)"
  unfolding add_selector_edges_def
proof (intro yields_nodes yields_lift yields_keys)
  fix nodes workloads and keys :: "(node_key \<times> twin_resource list) list"
  assume w: "workloads_of nodes = Inr workloads"
  let ?keyed = "{i. \<exists>k ns. (k, ns) \<in> set keys \<and> i \<in> tr_identity ` set ns}"
  let ?C = "C \<union> tr_identity ` set nodes \<union> ?keyed"
  have sub: "fst ` set workloads \<subseteq> set nodes" using workloads_of_in [OF w] by auto
  have "yields given ?C (case x of ((kind, ns, _), services) \<Rightarrow>
      if kind \<noteq> ''Service'' then ret () else for_each (selector_edges_of e target workloads ns) services) (\<lambda>_. ?C)"
    if "x \<in> set keys" for x
  proof -
    obtain kind ns name services where x: "x = ((kind, ns, name), services)" by (cases x) auto
    have "tr_identity n \<in> ?C" if "n \<in> set services" for n
      using that \<open>x \<in> set keys\<close> x by blast
    then show ?thesis
      unfolding x using sub by (simp, intro yields_intros yields_selector_edges_of conjI impI) auto
  qed
  then show "yields given ?C (for_each (\<lambda>((kind, ns, _), services).
      if kind \<noteq> ''Service'' then ret () else for_each (selector_edges_of e target workloads ns) services) keys) (\<lambda>_. C)"
    by (intro yields_weaken [OF yields_for_each]) auto
qed

lemma custom_definition_in:
  "custom_definition node = Inr ds \<Longrightarrow> d \<in> set ds \<Longrightarrow> snd d = tr_identity node"
  by (auto simp: custom_definition_def sbind_Inr Let_def split: if_splits)

lemma yields_crd_edge:
  assumes "snd ` set definitions \<subseteq> C" and "tr_identity node \<in> C"
  shows "yields given C (crd_edge e definitions node) (\<lambda>_. C)"
proof -
  have rest: "yields given (insert i C) (add_edge e i (tr_identity node) t c refs) (\<lambda>_. C)" for i t c refs
    using assms(2) by (intro yields_intros) auto
  show ?thesis
  proof (cases "map_of (rev definitions) (api_group (tr_api_version node), tr_kind node)")
    case None
    then show ?thesis
      unfolding crd_edge_def Let_def by (simp, intro conjI impI yields_unit yields_reference rest)
  next
    case (Some i)
    then have i: "i \<in> C" using assms(1) by (force dest: map_of_SomeD)
    have known: "yields given C (bind (ret (i, ''deterministic'')) (\<lambda>(crd, confidence).
        add_edge e crd (tr_identity node) ''crd_owns_custom_resource'' confidence refs)) (\<lambda>_. C)" for refs
      using i assms(2) by (intro yields_bind [OF yields_ret, where D = "\<lambda>r. insert (fst r) C"])
        (auto split: prod.split intro: yields_intros)
    show ?thesis
    proof (cases i)
      case Nil
      with Some show ?thesis
        unfolding crd_edge_def Let_def by (simp, intro conjI impI yields_unit yields_reference rest)
    next
      case (Cons c d)
      with Some known show ?thesis
        unfolding crd_edge_def Let_def by (simp, intro conjI impI yields_unit)
    qed
  qed
qed

lemma yields_add_crd_edges: "yields given C (add_crd_edges e) (\<lambda>_. C)"
  unfolding add_crd_edges_def
proof (intro yields_nodes yields_lift)
  fix nodes definitions
  assume d: "each_item custom_definition nodes = Inr definitions"
  let ?C = "C \<union> tr_identity ` set nodes"
  have "snd ` set (concat definitions) \<subseteq> ?C"
    using each_item_in [OF d] custom_definition_in by fastforce
  then show "yields given ?C (for_each (crd_edge e (concat definitions)) nodes) (\<lambda>_. C)"
    by (intro yields_weaken [OF yields_for_each] yields_crd_edge) auto
qed

lemma yields_add_phases:
  "snd ` set ids \<subseteq> C \<Longrightarrow> yields given C (add_phases e target phases ids) (\<lambda>out. C \<union> snd ` set out)"
proof (induction phases arbitrary: ids C)
  case Nil
  then show ?case by (auto intro: yields_ret)
next
  case (Cons phase phases)
  have "yields given (insert i C) (add_phases e target phases (dict_set (pp_id phase) i ids)) (\<lambda>out. C \<union> snd ` set out)" for i
  proof -
    have "snd ` set (dict_set (pp_id phase) i ids) \<subseteq> insert i C"
      using Cons.prems by (auto dest!: dict_set_in)
    from Cons.IH [OF this] show ?thesis by (rule yields_weaken) auto
  qed
  then show ?case by (simp, intro yields_synthetic)
qed

lemma yields_dependency_edge:
  assumes "snd ` set ids \<subseteq> C" and "current \<in> C"
  shows "yields given C (dependency_edge e target ids current dependency) (\<lambda>_. C)"
proof -
  have rest: "yields given (insert i C) (add_edge e i current t c refs) (\<lambda>_. C)" for i t c refs
    using assms(2) by (intro yields_intros) auto
  have "yields given C (case dict_get ids dependency of
         Some (c # d) \<Rightarrow> ret (c # d)
       | _ \<Rightarrow> add_synthetic e ''PlanPhase'' dependency (Some target) ''missing''
           ''unresolved_plan_dependency'' [plan_ref] []) (\<lambda>i. insert i C)"
    using assms(1)
    by (auto split: option.split list.split intro!: yields_ret yields_add_synthetic dest!: map_of_SomeD)
  then show ?thesis
    unfolding dependency_edge_def by (rule yields_bind) (rule rest)
qed

lemma yields_manifest_edges:
  assumes "\<And>path is. dict_get paths path = Some is \<Longrightarrow> set is \<subseteq> C" and "current \<in> C"
  shows "yields given C (manifest_edges e target paths ignored current ref) (\<lambda>_. C)"
proof -
  have first: "yields given C (case dict_get paths path of
            Some (i # is) \<Rightarrow> ret (i # is)
          | _ \<Rightarrow> bind (add_synthetic e ''ManifestArtifact'' path (Some target) ''missing''
              ''unresolved_plan_manifest'' [plan_ref, path] []) (\<lambda>missing. ret [missing])) (\<lambda>is. set is \<union> C)"
    for path
    using assms(1) [of path]
    by (auto split: option.split list.split intro!: yields_ret yields_bind [OF yields_add_synthetic])
  show ?thesis
    unfolding manifest_edges_def Let_def
    by (intro yields_if yields_unit yields_bind [OF first] yields_weaken [OF yields_for_each] yields_edge)
      (use assms(2) in auto)
qed

lemma yields_phase_edges:
  assumes "\<And>path is. dict_get paths path = Some is \<Longrightarrow> set is \<subseteq> C" and "snd ` set ids \<subseteq> C"
  shows "yields given C (phase_edges e target paths ignored dependencies ids phase) (\<lambda>_. C)"
proof (cases "dict_get ids (pp_id phase)")
  case None
  then show ?thesis by (simp add: phase_edges_def yields_raise)
next
  case (Some current)
  then have "current \<in> C" using assms(2) by (force dest: map_of_SomeD)
  with Some assms show ?thesis
    by (simp add: phase_edges_def)
      (intro yields_then yields_for_each yields_dependency_edge yields_manifest_edges; assumption)
qed

lemma yields_add_plan_edges:
  assumes "\<And>path is. dict_get paths path = Some is \<Longrightarrow> set is \<subseteq> C"
  shows "yields given C (add_plan_edges e bundle paths ignored) (\<lambda>_. C)"
  unfolding add_plan_edges_def Let_def
proof (rule yields_bind [OF yields_add_phases])
  fix ids :: "string dict"
  show "yields given (C \<union> snd ` set ids) (for_each (phase_edges e (ab_target_namespace bundle) paths ignored
      (dict_update [] (map (\<lambda>en. (ge_phase_id en, ge_depends_on en)) (mp_dependency_graph (ab_plan bundle)))) ids)
      (mp_phases (ab_plan bundle))) (\<lambda>_. C)"
    by (rule yields_weaken [OF yields_for_each [OF yields_phase_edges]]) (use assms in auto)
qed simp

lemma index_path_in:
  "dict_get (fold index_path nodes paths) path = Some is \<Longrightarrow>
    set is \<subseteq> tr_identity ` set nodes \<union> {i. \<exists>p js. dict_get paths p = Some js \<and> i \<in> set js}"
proof (induction nodes arbitrary: paths)
  case (Cons node nodes)
  have step: "dict_get (index_path node paths) p = Some js \<Longrightarrow>
      set js \<subseteq> insert (tr_identity node) {i. \<exists>p js. dict_get paths p = Some js \<and> i \<in> set js}" for p js
    by (auto simp: index_path_def Let_def append_at_def dict_simps split: if_splits option.splits) blast
  have a: "set is \<subseteq> tr_identity ` set nodes \<union> {i. \<exists>p js. dict_get (index_path node paths) p = Some js \<and> i \<in> set js}"
    using Cons by simp
  have b: "{i. \<exists>p js. dict_get (index_path node paths) p = Some js \<and> i \<in> set js} \<subseteq>
      insert (tr_identity node) {i. \<exists>p js. dict_get paths p = Some js \<and> i \<in> set js}"
    using step by blast
  show ?case using order_trans [OF a Un_mono [OF order.refl b]] by simp
qed auto

lemma yields_graph_program:
  assumes "tr_identity ` set nodes \<subseteq> C"
  shows "yields given C (graph_program e bundle nodes ignored) (\<lambda>_. C)"
  unfolding graph_program_def
proof (intro yields_then yields_for_each yields_resource_edges yields_add_selector_edges yields_add_crd_edges
    yields_add_plan_edges)
  fix path found assume "dict_get (fold index_path nodes []) path = Some found"
  from index_path_in [OF this] assms show "set found \<subseteq> C" by auto
qed (use assms in auto)

lemma good_initial:
  assumes "distinct (map tr_identity nodes)"
  shows "good nodes (tr_identity ` set nodes) (initial_state nodes)"
proof -
  have "\<forall>k ns. (k, ns) \<in> set (fold (\<lambda>n. append_at (key_of n) n) xs d) \<longrightarrow> set ns \<subseteq> N"
    if "set xs \<subseteq> N" "\<forall>k ns. (k, ns) \<in> set d \<longrightarrow> set ns \<subseteq> N"
    for xs N and d :: "(node_key \<times> twin_resource list) list"
    using that
  proof (induction xs arbitrary: d)
    case (Cons x xs)
    have "\<forall>k ns. (k, ns) \<in> set (append_at (key_of x) x d) \<longrightarrow> set ns \<subseteq> N"
    proof (intro allI impI subsetI)
      fix k ns n assume "(k, ns) \<in> set (append_at (key_of x) x d)" and "n \<in> set ns"
      from append_at_in [OF this] Cons.prems show "n \<in> N"
        by (metis list.set_intros(1) subsetD)
    qed
    with Cons show ?case by simp
  qed simp
  from this [of nodes "set nodes" "[]"] assms show ?thesis
    by (simp add: good_def initial_state_def identities_def image_mono)
qed

lemma prepared_identity [simp]: "tr_identity (prepare_node e node) = tr_identity node"
  by (simp add: prepare_node_def Let_def)

lemma build_result:
  assumes "build_dependency_graph e set_order bundle resources ignored = Inr (nodes, es, findings, summary)"
  obtains s where
    "graph_program e bundle (map (prepare_node e) resources) ignored
      (initial_state (map (prepare_node e) resources)) = (Inr (), s)"
    "nodes = gs_nodes s" "es = gs_edges s" "findings = graph_findings e set_order s"
    "summary = graph_summary set_order nodes es findings"
  using assms by (auto simp: build_dependency_graph_def Let_def split: prod.splits sum.splits)

lemma built_graph:
  assumes "build_dependency_graph e set_order bundle resources ignored = Inr (nodes, es, findings, summary)"
    and "distinct (map tr_identity resources)"
  obtains extra where "nodes = map (prepare_node e) resources @ extra" "list_all is_synthetic extra"
    "distinct (map tr_identity nodes)" "list_all (edge_ok (tr_identity ` set nodes)) es"
    "distinct (map signature es)"
proof -
  let ?given = "map (prepare_node e) resources"
  obtain s where run: "graph_program e bundle ?given ignored (initial_state ?given) = (Inr (), s)"
    and out: "nodes = gs_nodes s" "es = gs_edges s"
    by (rule build_result [OF assms(1)])
  have "good ?given (tr_identity ` set ?given) (initial_state ?given)"
    using assms(2) by (intro good_initial) (simp add: comp_def)
  with yields_graph_program [OF order.refl, of ?given ?given e "bundle" ignored] run
  have "good ?given (tr_identity ` set ?given) s" by (auto simp: yields_def)
  then show thesis by (auto simp: good_def out identities_def intro: that)
qed

text \<open>
  C18. The graph of a plan whose resources have different identities consists of those resources, in
  their order, and of synthetic nodes for what they refer to, no identity twice; every edge joins two
  different nodes of the graph, has one of the declared types and quotes its evidence, and no edge is
  there twice.
\<close>

theorem dependency_graph_is_well_formed:
  assumes "build_dependency_graph e set_order bundle resources ignored = Inr (nodes, es, findings, summary)"
    and "distinct (map tr_identity resources)"
  shows "(\<exists>extra. nodes = map (prepare_node e) resources @ extra \<and> list_all is_synthetic extra) \<and>
    distinct (map tr_identity nodes) \<and> list_all (edge_ok (tr_identity ` set nodes)) es \<and>
    distinct (map signature es)"
  using built_graph [OF assms] by blast

text \<open>
  C16. In whatever order Python iterates its sets, the graph has a finding of a cycle exactly when its
  edges contain one, and the summary then counts at least one; the other findings are, one by one,
  the nodes that are missing or uncertain.
\<close>

theorem graph_findings_are_exact:
  assumes "build_dependency_graph e set_order bundle resources ignored = Inr (nodes, es, findings, summary)"
    and "distinct (map tr_identity resources)" and "\<And>xs. set (set_order xs) = set xs"
  shows "((\<exists>f \<in> set findings. gf_code f = ''DEPENDENCY_CYCLE'') \<longleftrightarrow> \<not> acyclic (links es)) \<and>
    (dict_get summary ''cycles'' = Some 0 \<longleftrightarrow> acyclic (links es)) \<and>
    map (\<lambda>f. (gf_code f, gf_message f)) (filter (\<lambda>f. gf_code f \<noteq> ''DEPENDENCY_CYCLE'') findings) =
      map (\<lambda>n. (if node_status n = ''missing'' then ''MISSING_DEPENDENCY'' else ''UNCERTAIN_DEPENDENCY'',
        tr_kind n @ '' '' @ tr_name n @ '' is '' @ node_status n @ '' in the planned dependency graph.''))
      (filter unresolved nodes)"
proof -
  obtain s where out: "nodes = gs_nodes s" "es = gs_edges s" "findings = graph_findings e set_order s"
    "summary = graph_summary set_order nodes es findings"
    by (rule build_result [OF assms(1)])
  have ok: "list_all (edge_ok (tr_identity ` set nodes)) es"
    by (rule built_graph [OF assms(1,2)])
  have cycles: "cycle_count set_order nodes es = 0 \<longleftrightarrow> acyclic (links es)"
    by (rule cycle_count_iff [OF assms(3) ok])
  let ?dependency = "map (\<lambda>(n, node). dependency_finding node (env_uuid e (gs_draws s + n)))
      (enumerate 0 (filter unresolved nodes))"
  have findings: "findings = ?dependency @ (if cycle_count set_order nodes es \<noteq> 0
      then [cycle_finding (env_uuid e (gs_draws s + length (filter unresolved nodes)))] else [])"
    by (simp add: out graph_findings_def Let_def)
  have codes: "gf_code (dependency_finding n i) \<noteq> ''DEPENDENCY_CYCLE''" for n i
    by (simp add: dependency_finding_def Let_def)
  have cycle: "gf_code (cycle_finding i) = ''DEPENDENCY_CYCLE''" for i by (simp add: cycle_finding_def)
  have kept: "filter (\<lambda>f. gf_code f \<noteq> ''DEPENDENCY_CYCLE'') findings = ?dependency"
    by (auto simp: findings codes cycle filter_id_conv)
  have "(\<exists>f \<in> set findings. gf_code f = ''DEPENDENCY_CYCLE'') \<longleftrightarrow> \<not> acyclic (links es)"
    using cycles by (auto simp: findings codes cycle)
  moreover have "dict_get summary ''cycles'' = Some 0 \<longleftrightarrow> acyclic (links es)"
    using cycles by (simp add: out(4) graph_summary_def Let_def)
  moreover have "map (\<lambda>f. (gf_code f, gf_message f)) ?dependency =
      map (\<lambda>n. (if node_status n = ''missing'' then ''MISSING_DEPENDENCY'' else ''UNCERTAIN_DEPENDENCY'',
        tr_kind n @ '' '' @ tr_name n @ '' is '' @ node_status n @ '' in the planned dependency graph.''))
      (filter unresolved nodes)"
    by (intro nth_equalityI) (simp_all add: dependency_finding_def Let_def nth_enumerate_eq)
  ultimately show ?thesis by (simp only: kept)
qed

text \<open>How many cycles are counted depends on the order in which a set is iterated.\<close>

lemma cycle_count_depends_on_the_order:
  "snd (visit_targets [(''a'', [''x'', ''y'']), (''x'', [''y'']), (''y'', [''x'', ''z'']), (''z'', [''x''])]
     [] [] 0 [''a'', ''x'', ''y'', ''z'']) = 2"
  "snd (visit_targets [(''a'', [''y'', ''x'']), (''x'', [''y'']), (''y'', [''x'', ''z'']), (''z'', [''x''])]
     [] [] 0 [''a'', ''x'', ''y'', ''z'']) = 1"
  by simp_all

text \<open>A plan of two phases that wait for each other, one of them also for a phase that is not there.\<close>

definition demo_graph_bundle :: artifact_bundle where
  "demo_graph_bundle =
     \<lparr>ab_root_path = ''/b'', ab_root = [], ab_source = demo_source, ab_target_namespace = ''ns'',
      ab_plan = demo_plan [(''p'', [''q'', ''r'']), (''q'', [''p''])], ab_human_mop = None, ab_notes = None,
      ab_artifact = None, ab_index = None, ab_index_root = [], ab_response = None, ab_manifests = [],
      ab_values = []\<rparr>"

lemma demo_graph_built:
  "case build_dependency_graph demo_env (\<lambda>xs. xs) demo_graph_bundle [] [] of
     Inl err \<Rightarrow> False
   | Inr (nodes, es, findings, summary) \<Rightarrow> map tr_name nodes = [''p'', ''q'', ''r''] \<and>
       map gf_code findings = [''MISSING_DEPENDENCY'', ''DEPENDENCY_CYCLE'']"
  by code_simp

theorem dependency_graph_is_well_formed_witness:
  "\<exists>nodes es findings summary.
     build_dependency_graph demo_env (\<lambda>xs. xs) demo_graph_bundle [] [] = Inr (nodes, es, findings, summary) \<and>
     map tr_name nodes = [''p'', ''q'', ''r''] \<and> list_all (edge_ok (tr_identity ` set nodes)) es"
proof -
  obtain nodes es findings summary where
    b: "build_dependency_graph demo_env (\<lambda>xs. xs) demo_graph_bundle [] [] = Inr (nodes, es, findings, summary)"
    and nodes: "map tr_name nodes = [''p'', ''q'', ''r'']"
    using demo_graph_built by (auto split: sum.splits prod.splits)
  have "distinct (map tr_identity ([] :: twin_resource list))" by simp
  from dependency_graph_is_well_formed [OF b this]
  have "list_all (edge_ok (tr_identity ` set nodes)) es" by (elim conjE)
  with b nodes show ?thesis
    by (intro exI [of _ nodes] exI [of _ es] exI [of _ findings] exI [of _ summary] conjI)
qed

theorem graph_findings_are_exact_witness:
  "\<exists>nodes es findings summary.
     build_dependency_graph demo_env (\<lambda>xs. xs) demo_graph_bundle [] [] = Inr (nodes, es, findings, summary) \<and>
     map gf_code findings = [''MISSING_DEPENDENCY'', ''DEPENDENCY_CYCLE''] \<and> \<not> acyclic (links es)"
proof -
  obtain nodes es findings summary where
    b: "build_dependency_graph demo_env (\<lambda>xs. xs) demo_graph_bundle [] [] = Inr (nodes, es, findings, summary)"
    and codes: "map gf_code findings = [''MISSING_DEPENDENCY'', ''DEPENDENCY_CYCLE'']"
    using demo_graph_built by (auto split: sum.splits prod.splits)
  have "''DEPENDENCY_CYCLE'' \<in> set (map gf_code findings)" by (simp add: codes)
  then have cycle: "\<exists>f \<in> set findings. gf_code f = ''DEPENDENCY_CYCLE''" by auto
  have "distinct (map tr_identity ([] :: twin_resource list))" by simp
  from graph_findings_are_exact [OF b this refl]
  have "(\<exists>f \<in> set findings. gf_code f = ''DEPENDENCY_CYCLE'') \<longleftrightarrow> \<not> acyclic (links es)" by (elim conjE)
  with cycle have "\<not> acyclic (links es)" by simp
  with b codes show ?thesis
    by (intro exI [of _ nodes] exI [of _ es] exI [of _ findings] exI [of _ summary] conjI)
qed

end
