(* ===== verification/TwinStore.thy ===== *)
theory TwinStore
  imports TwinGraph Redaction
begin

text \<open>
  The store of namespace twins (\<open>namespace_twin/persistence.py\<close> with the tables and the lifecycle of
  \<open>namespace_twin/models.py\<close>): runs, events, resources, edges, findings, deltas and decisions, and the
  transactions over them. A transaction that raises leaves the tables as they were. Column
  widths are not enforced (SQLite, the default).
\<close>

section \<open>Lifecycle\<close>

definition ACTIVE_STATES :: "string list" where
  "ACTIVE_STATES =
     [''requested'', ''generating'', ''awaiting_dry_run'', ''dry_run_evidence_attached'',
      ''decision_calculating'']"

definition TERMINAL_STATES :: "string list" where
  "TERMINAL_STATES =
     [''green'', ''amber'', ''red'', ''failed'', ''cancelled'', ''superseded'', ''expired'']"

definition ALLOWED_TRANSITIONS :: "string list dict" where
  "ALLOWED_TRANSITIONS =
     [(''requested'', [''generating'', ''failed'', ''cancelled'', ''superseded'', ''expired'']),
      (''generating'', [''awaiting_dry_run'', ''failed'', ''cancelled'', ''superseded'', ''expired'']),
      (''awaiting_dry_run'', [''dry_run_evidence_attached'', ''decision_calculating'', ''failed'',
         ''cancelled'', ''superseded'', ''expired'']),
      (''dry_run_evidence_attached'', [''decision_calculating'', ''failed'', ''cancelled'', ''superseded'',
         ''expired'']),
      (''decision_calculating'', TERMINAL_STATES)]"

definition allowed :: "string \<Rightarrow> string \<Rightarrow> bool" where
  "allowed current target \<longleftrightarrow>
     target \<in> set (case dict_get ALLOWED_TRANSITIONS current of None \<Rightarrow> [] | Some ts \<Rightarrow> ts)"

section \<open>Tables\<close>

record twin_run =
  tw_id :: string
  tw_actor :: string
  tw_key :: string
  tw_display_name :: string
  tw_status :: string
  tw_decision :: string
  tw_version :: nat
  tw_final :: bool
  tw_source_type :: string
  tw_source_value :: string
  tw_source_namespace :: "string option"
  tw_cluster :: string
  tw_namespace :: string
  tw_bundle_name :: string
  tw_bundle_hash :: string
  tw_release :: "string option"
  tw_input_hash :: string
  tw_report_hash :: "string option"
  tw_policy_version :: string
  tw_risk_version :: string
  tw_facts :: "json dict"
  tw_actions :: "json list"
  tw_row_version :: nat
  tw_created :: instant
  tw_updated :: instant
  tw_completed :: "instant option"
  tw_expires :: "instant option"
  tw_superseded_by :: "string option"

record twin_event =
  tv_id :: string
  tv_twin :: string
  tv_sequence :: nat
  tv_type :: string
  tv_message :: string
  tv_payload :: "json dict"
  tv_created :: instant

record twin_decision =
  td_id :: string
  td_twin :: string
  td_version :: nat
  td_decision :: string
  td_input_hash :: string
  td_report_hash :: string
  td_policy_version :: string
  td_risk_version :: string
  td_facts :: "json dict"
  td_created :: instant

text \<open>The rows that belong to a twin are kept with its identifier; draws and ticks count uses of
  \<open>uuid4\<close> and of the clock.\<close>

record twin_db =
  db_runs :: "twin_run list"
  db_events :: "twin_event list"
  db_decisions :: "twin_decision list"
  db_resources :: "(string \<times> twin_resource) list"
  db_edges :: "(string \<times> twin_edge) list"
  db_findings :: "(string \<times> graph_finding) list"
  db_deltas :: "(string \<times> delta_row) list"
  db_draws :: nat
  db_ticks :: nat

definition empty_db :: twin_db where
  "empty_db = \<lparr>db_runs = [], db_events = [], db_decisions = [], db_resources = [], db_edges = [],
     db_findings = [], db_deltas = [], db_draws = 0, db_ticks = 0\<rparr>"

datatype store_error =
    StoreError string string nat
  | IntegrityError string
  | MissingKey string

type_synonym 'a store = "(twin_db, store_error, 'a) prog"

definition not_found :: "string \<Rightarrow> store_error" where
  "not_found twin = StoreError ''twin_not_found'' (''Namespace twin '' @ twin @ '' was not found.'') 404"

section \<open>Transactions\<close>

text \<open>\<open>with self.sessions.begin()\<close>: an error undoes what was done, apart from the draws.\<close>

definition atomic :: "'a store \<Rightarrow> 'a store" where
  "atomic m = (\<lambda>s. case m s of
     (Inl err, t) \<Rightarrow> (Inl err, s\<lparr>db_draws := db_draws t, db_ticks := db_ticks t\<rparr>)
   | (Inr x, t) \<Rightarrow> (Inr x, t))"

definition clock :: "env \<Rightarrow> instant store" where
  "clock e = (\<lambda>s. (Inr (env_clock e (db_ticks s)), s\<lparr>db_ticks := Suc (db_ticks s)\<rparr>))"

definition fresh_id :: "env \<Rightarrow> string \<Rightarrow> string store" where
  "fresh_id e label = (\<lambda>s. (Inr (label @ env_uuid e (db_draws s)), s\<lparr>db_draws := Suc (db_draws s)\<rparr>))"

definition find_run :: "string \<Rightarrow> twin_db \<Rightarrow> twin_run option" where
  "find_run twin db = find (\<lambda>r. tw_id r = twin) (db_runs db)"

definition fetch :: "string \<Rightarrow> twin_run store" where
  "fetch twin = bind (gets (find_run twin)) (\<lambda>row.
     case row of None \<Rightarrow> raise_err (not_found twin) | Some r \<Rightarrow> ret r)"

definition save_run :: "twin_run \<Rightarrow> twin_db \<Rightarrow> twin_db" where
  "save_run row db = db\<lparr>db_runs := map (\<lambda>r. if tw_id r = tw_id row then row else r) (db_runs db)\<rparr>"

definition events_of :: "string \<Rightarrow> twin_db \<Rightarrow> twin_event list" where
  "events_of twin db = filter (\<lambda>ev. tv_twin ev = twin) (db_events db)"

definition last_sequence :: "string \<Rightarrow> twin_db \<Rightarrow> nat" where
  "last_sequence twin db = foldr max (map tv_sequence (events_of twin db)) 0"

definition redact_facts :: "json dict \<Rightarrow> json dict" where
  "redact_facts d = obj_items (redact_value (JObj d))"

definition append_event_in_session ::
    "env \<Rightarrow> string \<Rightarrow> string \<Rightarrow> string \<Rightarrow> json dict \<Rightarrow> twin_event store" where
  "append_event_in_session e twin event_type message payload =
     bind (gets (last_sequence twin)) (\<lambda>n.
     bind (fresh_id e ''twinevt_'') (\<lambda>eid.
     bind (clock e) (\<lambda>now.
     let event = \<lparr>tv_id = eid, tv_twin = twin, tv_sequence = n + 1, tv_type = event_type,
           tv_message = py_str (redact_value (JStr message)), tv_payload = redact_facts payload,
           tv_created = now\<rparr> in
     seqp (modify (\<lambda>s. s\<lparr>db_events := db_events s @ [event]\<rparr>)) (ret event))))"

text \<open>Saving a row and appending the event that says so, the end of every transaction.\<close>

definition save_with_event ::
    "env \<Rightarrow> twin_run \<Rightarrow> string \<Rightarrow> string \<Rightarrow> json dict \<Rightarrow> twin_run store" where
  "save_with_event e row event_type message payload =
     seqp (modify (save_run row))
       (bind (append_event_in_session e (tw_id row) event_type message payload) (\<lambda>_. ret row))"

section \<open>Creation\<close>

text \<open>The unique columns of the rows that come with a run.\<close>

definition children_unique ::
    "twin_db \<Rightarrow> twin_resource list \<Rightarrow> twin_edge list \<Rightarrow> graph_finding list \<Rightarrow> delta_row list \<Rightarrow> bool" where
  "children_unique db resources es findings deltas \<longleftrightarrow>
     distinct (map tr_identity resources) \<and>
     distinct (map tr_id resources @ map (\<lambda>p. tr_id (snd p)) (db_resources db)) \<and>
     distinct (map signature es) \<and> distinct (map te_id es @ map (\<lambda>p. te_id (snd p)) (db_edges db)) \<and>
     distinct (map gf_id findings @ map (\<lambda>p. gf_id (snd p)) (db_findings db)) \<and>
     distinct (map dr_change_id deltas @ map (\<lambda>p. dr_change_id (snd p)) (db_deltas db))"

definition same_request :: "twin_run \<Rightarrow> twin_run \<Rightarrow> bool" where
  "same_request values r \<longleftrightarrow>
     tw_actor r = tw_actor values \<and> tw_namespace r = tw_namespace values \<and> tw_key r = tw_key values"

definition optional :: "('a \<Rightarrow> json) \<Rightarrow> 'a option \<Rightarrow> json" where
  "optional f x = (case x of None \<Rightarrow> JNull | Some y \<Rightarrow> f y)"

definition create_run ::
    "env \<Rightarrow> twin_run \<Rightarrow> twin_resource list \<Rightarrow> twin_edge list \<Rightarrow> graph_finding list \<Rightarrow> delta_row list \<Rightarrow>
      (twin_run \<times> bool) store" where
  "create_run e values resources es findings deltas = atomic
     (bind (gets (\<lambda>db. find (same_request values) (db_runs db))) (\<lambda>existing.
      case existing of
        Some row \<Rightarrow> ret (row, False)
      | None \<Rightarrow>
          bind (gets (\<lambda>db. find_run (tw_id values) db \<noteq> None)) (\<lambda>taken.
          if taken
          then raise_err (StoreError ''idempotency_conflict''
            ''A twin already exists for this actor, target, and idempotency key.'' 409)
          else
            bind (gets (\<lambda>db. children_unique db resources es findings deltas)) (\<lambda>ok.
            if \<not> ok then raise_err (IntegrityError ''UNIQUE constraint failed'')
            else
              seqp (modify (\<lambda>db. db\<lparr>db_runs := db_runs db @ [values],
                db_resources := db_resources db @ map (Pair (tw_id values)) resources,
                db_edges := db_edges db @ map (Pair (tw_id values)) es,
                db_findings := db_findings db @ map (Pair (tw_id values)) findings,
                db_deltas := db_deltas db @ map (Pair (tw_id values)) deltas\<rparr>))
              (bind (append_event_in_session e (tw_id values) ''twin_requested''
                ''Namespace twin generation requested.''
                [(''lifecycle_status'', JStr (tw_status values)), (''input_hash'', JStr (tw_input_hash values)),
                 (''policy_version'', JStr (tw_policy_version values)),
                 (''risk_rule_version'', JStr (tw_risk_version values))])
              (\<lambda>_. ret (values, True)))))))"

section \<open>Lifecycle operations\<close>

definition moved :: "twin_run \<Rightarrow> string \<Rightarrow> instant \<Rightarrow> twin_run" where
  "moved row target now =
     row\<lparr>tw_status := target, tw_updated := now, tw_row_version := tw_row_version row + 1,
         tw_completed := (if target \<in> set TERMINAL_STATES then Some now else tw_completed row)\<rparr>"

definition transition :: "env \<Rightarrow> string \<Rightarrow> string \<Rightarrow> string \<Rightarrow> json dict \<Rightarrow> twin_run store" where
  "transition e twin target message payload = atomic
     (bind (fetch twin) (\<lambda>row.
      if tw_status row = target then ret row
      else if tw_status row \<in> set TERMINAL_STATES \<or> \<not> allowed (tw_status row) target
      then raise_err (StoreError ''invalid_lifecycle_transition''
        (''Namespace twin cannot transition from '' @ tw_status row @ '' to '' @ target @ ''.'') 409)
      else
        bind (clock e) (\<lambda>now.
        save_with_event e (moved row target now) ''lifecycle_transitioned'' message
          (dict_update [(''from_state'', JStr (tw_status row)), (''to_state'', JStr target)] payload))))"

definition cancel :: "env \<Rightarrow> string \<Rightarrow> string \<Rightarrow> twin_run store" where
  "cancel e twin actor =
     bind (fetch twin) (\<lambda>row.
     if tw_status row = ''cancelled'' then ret row
     else if tw_status row \<notin> set ACTIVE_STATES
     then raise_err (StoreError ''twin_not_cancellable''
       ''Only a non-terminal namespace twin can be cancelled.'' 409)
     else transition e twin ''cancelled'' ''Namespace twin generation cancelled.''
       [(''actor_id'', JStr actor)])"

definition append_event :: "env \<Rightarrow> string \<Rightarrow> string \<Rightarrow> string \<Rightarrow> json dict \<Rightarrow> twin_event store" where
  "append_event e twin event_type message payload = atomic
     (bind (fetch twin) (\<lambda>_. append_event_in_session e twin event_type message payload))"

definition supersede :: "env \<Rightarrow> string \<Rightarrow> string \<Rightarrow> twin_run store" where
  "supersede e twin successor = atomic
     (bind (fetch twin) (\<lambda>row.
      if tw_status row = ''superseded'' \<and> tw_superseded_by row = Some successor then ret row
      else if tw_status row \<notin> set ACTIVE_STATES
      then raise_err (StoreError ''terminal_twin_not_supersedable''
        ''Only a non-terminal provisional twin can be superseded in Phase 4.'' 409)
      else
        bind (clock e) (\<lambda>now.
        save_with_event e ((moved row ''superseded'' now)\<lparr>tw_superseded_by := Some successor\<rparr>)
          ''twin_superseded'' ''Namespace twin was superseded by a newer generation.''
          [(''from_state'', JStr (tw_status row)), (''to_state'', JStr ''superseded''),
           (''superseded_by'', JStr successor)])))"

definition decision_row :: "twin_run \<Rightarrow> string \<Rightarrow> string \<Rightarrow> json dict \<Rightarrow> string \<Rightarrow> instant \<Rightarrow> twin_decision" where
  "decision_row row decision report facts did now =
     \<lparr>td_id = did, td_twin = tw_id row, td_version = tw_version row, td_decision = decision,
      td_input_hash = tw_input_hash row, td_report_hash = report,
      td_policy_version = tw_policy_version row, td_risk_version = tw_risk_version row,
      td_facts = redact_facts facts, td_created = now\<rparr>"

definition with_decision :: "twin_run \<Rightarrow> string \<Rightarrow> string \<Rightarrow> json dict \<Rightarrow> instant \<Rightarrow> twin_run" where
  "with_decision row decision report facts now =
     row\<lparr>tw_facts := redact_facts facts, tw_decision := decision, tw_final := True,
         tw_report_hash := Some report, tw_status := decision, tw_completed := Some now,
         tw_updated := now, tw_row_version := tw_row_version row + 1\<rparr>"

definition insert_decision :: "twin_decision \<Rightarrow> unit store" where
  "insert_decision d =
     bind (gets (\<lambda>db. (td_twin d, td_version d) \<in> (\<lambda>d. (td_twin d, td_version d)) ` set (db_decisions db)))
       (\<lambda>taken.
     if taken then raise_err (IntegrityError ''UNIQUE constraint failed'')
     else modify (\<lambda>db. db\<lparr>db_decisions := db_decisions db @ [d]\<rparr>))"

definition save_decision :: "env \<Rightarrow> twin_run \<Rightarrow> string \<Rightarrow> string \<Rightarrow> json dict \<Rightarrow> twin_run store" where
  "save_decision e row decision report facts =
     bind (clock e) (\<lambda>now.
     bind (fresh_id e ''decision_'') (\<lambda>did.
     seqp (insert_decision (decision_row row decision report facts did now))
     (save_with_event e (with_decision row decision report facts now)
       ''terminal_decision_persisted'' ''Immutable namespace twin decision persisted.''
       [(''decision'', JStr decision), (''decision_version'', JInt (int (tw_version row))),
        (''report_hash'', JStr report)])))"

definition persist_terminal_decision :: "env \<Rightarrow> string \<Rightarrow> string \<Rightarrow> string \<Rightarrow> json dict \<Rightarrow> twin_run store" where
  "persist_terminal_decision e twin decision report facts =
     (if decision \<notin> {''green'', ''amber'', ''red''}
      then raise_err (StoreError ''invalid_decision'' ''Decision must be green, amber, or red.'' 409)
      else atomic
        (bind (fetch twin) (\<lambda>row.
         if tw_final row
         then raise_err (StoreError ''terminal_decision_immutable''
           ''A terminal decision version cannot be modified.'' 409)
         else if tw_status row \<noteq> ''decision_calculating''
         then raise_err (StoreError ''invalid_lifecycle_transition''
           ''A terminal decision requires decision_calculating state.'' 409)
         else save_decision e row decision report facts)))"

section \<open>Facts\<close>

definition with_facts :: "twin_run \<Rightarrow> json dict \<Rightarrow> instant \<Rightarrow> twin_run" where
  "with_facts row facts now =
     row\<lparr>tw_facts := facts, tw_updated := now, tw_row_version := tw_row_version row + 1\<rparr>"

definition merge_facts :: "env \<Rightarrow> string \<Rightarrow> json dict \<Rightarrow> string \<Rightarrow> string \<Rightarrow> json dict \<Rightarrow> twin_run store" where
  "merge_facts e twin facts event_type message payload = atomic
     (bind (fetch twin) (\<lambda>row.
      if tw_final row \<or> tw_status row \<in> set TERMINAL_STATES
      then raise_err (StoreError ''terminal_twin_immutable''
        ''Authoritative evidence cannot modify a terminal namespace twin.'' 409)
      else
        bind (clock e) (\<lambda>now.
        save_with_event e (with_facts row (dict_update (tw_facts row) (redact_facts facts)) now)
          event_type message payload)))"

text \<open>The members of an assessment that its module writes as mappings are mappings.\<close>

definition sub_get :: "json dict \<Rightarrow> string \<Rightarrow> string \<Rightarrow> json" where
  "sub_get d k field = get_or_null (obj_items (get_or_null d k)) field"

definition with_mode :: "string \<Rightarrow> json dict \<Rightarrow> json dict" where
  "with_mode mode facts =
     dict_set ''module_modes'' (JObj (dict_set mode (JStr ''real_core'')
       (obj_items (get_or_null facts ''module_modes'')))) facts"

definition execution_id_of :: "json \<Rightarrow> string" where
  "execution_id_of link = text_or (get_or_null (obj_items link) ''execution_id'') []"

text \<open>The link of the same execution is extended, otherwise the link is appended.\<close>

fun put_link :: "string \<Rightarrow> json dict \<Rightarrow> json list \<Rightarrow> json list" where
  "put_link ident sanitized [] = [JObj sanitized]"
| "put_link ident sanitized (link # rest) =
     (if execution_id_of link = ident then JObj (dict_update (obj_items link) sanitized) # rest
      else link # put_link ident sanitized rest)"

definition record_execution_link :: "env \<Rightarrow> string \<Rightarrow> json dict \<Rightarrow> string \<Rightarrow> twin_run store" where
  "record_execution_link e twin link actor = atomic
     (bind (fetch twin) (\<lambda>row.
      let ident = text_or (get_or_null link ''execution_id'') [];
          sanitized = redact_facts (dict_set ''linked_by'' (JStr actor) link);
          linked_list = put_link ident sanitized (arr_items (get_or_null (tw_facts row) ''execution_links'')) in
      bind (clock e) (\<lambda>linked.
      bind (clock e) (\<lambda>now.
      save_with_event e
        (with_facts row (dict_update (tw_facts row)
          [(''execution_links'', JArr linked_list), (''execution_id'', JStr ident),
           (''execution_status'', get_or_null sanitized ''execution_status''),
           (''approval_id'', get_or_null sanitized ''approval_id''),
           (''approval_status'', get_or_null sanitized ''approval_status''),
           (''latest_execution_linked_at'', JStr (env_isoformat e linked))]) now)
        ''execution_linked'' ''Bundle execution outcome linked to the immutable Namespace Twin decision.''
        [(''execution_id'', JStr ident), (''execution_status'', get_or_null sanitized ''execution_status''),
         (''validation_status'', get_or_null sanitized ''validation_status''),
         (''gate_hash'', get_or_null sanitized ''gate_hash''), (''actor_id'', JStr actor)]))))"

definition drift_facts :: "twin_run \<Rightarrow> json dict \<Rightarrow> bool \<Rightarrow> json dict" where
  "drift_facts row assessment material =
     (let merged = with_mode ''drift'' (dict_set ''drift_twin'' (JObj (redact_facts assessment)) (tw_facts row)) in
      if material
      then dict_update merged
        [(''decision_invalidated_by_drift'', JBool True),
         (''prior_decision'', JObj
           [(''decision'', JStr (tw_decision row)), (''decision_version'', JInt (int (tw_version row))),
            (''decision_is_final'', JBool (tw_final row)),
            (''report_hash'', optional JStr (tw_report_hash row))])]
      else merged)"

definition is_material :: "json dict \<Rightarrow> bool" where
  "is_material assessment = truthy (get_or_null assessment ''material'')"

definition drift_supersedes :: "twin_run \<Rightarrow> json dict \<Rightarrow> bool" where
  "drift_supersedes row assessment \<longleftrightarrow> is_material assessment \<and> tw_status row \<noteq> ''superseded''"

definition drifted_run :: "twin_run \<Rightarrow> json dict \<Rightarrow> instant \<Rightarrow> twin_run" where
  "drifted_run row assessment now =
     (let changed = with_facts row (drift_facts row assessment (is_material assessment)) now in
      if drift_supersedes row assessment
      then changed\<lparr>tw_status := ''superseded'', tw_completed := Some now,
        tw_superseded_by := Some (''drift:'' @
          take 24 (text_or (sub_get assessment ''current_capture'' ''hash'') []))\<rparr>
      else changed)"

definition record_drift :: "env \<Rightarrow> string \<Rightarrow> json dict \<Rightarrow> string \<Rightarrow> twin_run store" where
  "record_drift e twin assessment actor = atomic
     (bind (fetch twin) (\<lambda>row.
      bind (clock e) (\<lambda>now.
      bind (save_with_event e (drifted_run row assessment now) ''drift_refreshed''
        ''Read-only Namespace Drift Twin evidence refreshed.''
        [(''actor_id'', JStr actor), (''status'', get_or_null assessment ''status''),
         (''material'', JBool (is_material assessment)),
         (''change_count'', JInt (int (length (arr_items (get_or_null assessment ''changes''))))),
         (''rules_version'', get_or_null assessment ''rules_version'')]) (\<lambda>saved.
      if drift_supersedes row assessment
      then bind (append_event_in_session e twin ''decision_superseded_by_drift''
        ''Material drift superseded prior execution eligibility.''
        [(''from_state'', JStr (tw_status row)), (''to_state'', JStr ''superseded''),
         (''drift_status'', get_or_null assessment ''status''),
         (''current_hash'', sub_get assessment ''current_capture'' ''hash'')]) (\<lambda>_. ret saved)
      else ret saved))))"

definition record_runtime_behavior :: "env \<Rightarrow> string \<Rightarrow> json dict \<Rightarrow> string \<Rightarrow> twin_run store" where
  "record_runtime_behavior e twin assessment actor = atomic
     (bind (fetch twin) (\<lambda>row.
      bind (clock e) (\<lambda>now.
      save_with_event e
        (with_facts row (with_mode ''runtime-behavior'' (dict_update (tw_facts row)
          [(''runtime_behavior_twin'', JObj (redact_facts assessment)),
           (''runtime_execution_effect'',
             JStr (text_or (get_or_null assessment ''execution_effect'') ''require_review''))])) now)
        ''runtime_behavior_refreshed'' ''Read-only Runtime Behavior Twin evidence refreshed.''
        [(''actor_id'', JStr actor), (''risk'', get_or_null assessment ''risk''),
         (''health'', sub_get assessment ''current_health'' ''status''),
         (''execution_effect'', get_or_null assessment ''execution_effect''),
         (''rules_version'', get_or_null assessment ''rules_version''),
         (''model_authority'', JBool False)])))"

definition record_release_note_validation :: "env \<Rightarrow> string \<Rightarrow> json dict \<Rightarrow> string \<Rightarrow> twin_run store" where
  "record_release_note_validation e twin validation actor = atomic
     (bind (fetch twin) (\<lambda>row.
      bind (clock e) (\<lambda>now.
      save_with_event e
        (with_facts row (with_mode ''release-note-validation'' (dict_set ''release_note_validation''
          (JObj (redact_facts validation)) (tw_facts row))) now)
        ''release_note_validation_completed'' ''Deterministic Release Note Validation Twin completed.''
        [(''actor_id'', JStr actor), (''artifact_id'', get_or_null validation ''release_note_artifact_id''),
         (''artifact_hash'', get_or_null validation ''release_note_artifact_hash''),
         (''status'', get_or_null validation ''status''),
         (''claim_counts'', json_or (get_or_null validation ''claim_counts'') (JObj [])),
         (''prompt_hash'', sub_get validation ''extraction'' ''prompt_hash''),
         (''input_hash'', sub_get validation ''extraction'' ''input_hash''),
         (''model_authority'', JBool False), (''execution_eligibility_effect'', JStr ''none'')])))"

definition record_mop_replay :: "env \<Rightarrow> string \<Rightarrow> json dict \<Rightarrow> string \<Rightarrow> twin_run store" where
  "record_mop_replay e twin replay actor = atomic
     (bind (fetch twin) (\<lambda>row.
      case dict_get replay ''synthetic_secret_strategy'' of
        None \<Rightarrow> raise_err (MissingKey ''synthetic_secret_strategy'')
      | Some strategy \<Rightarrow>
          bind (clock e) (\<lambda>now.
          save_with_event e
            (with_facts row (with_mode ''mop-replay'' (dict_set ''mop_replay_twin''
              (JObj (dict_update (redact_facts replay)
                [(''production_secret_values_copied'', JBool False), (''production_data_copied'', JBool False),
                 (''synthetic_secret_strategy'', strategy)])) (tw_facts row))) now)
            ''mop_replay_recorded'' ''Approved isolated MoP Replay Twin evidence recorded.''
            [(''actor_id'', JStr actor), (''replay_id'', get_or_null replay ''replay_id''),
             (''status'', get_or_null replay ''status''), (''isolation'', get_or_null replay ''isolation''),
             (''cleanup_status'', get_or_null replay ''cleanup_status''),
             (''replay_hash'', get_or_null replay ''replay_hash''), (''model_authority'', JBool False),
             (''execution_eligibility_effect'', JStr ''none'')])))"

section \<open>Recovery and expiry\<close>

definition active_ids :: "twin_db \<Rightarrow> string list" where
  "active_ids db = map tw_id (filter (\<lambda>r. tw_status r \<in> set ACTIVE_STATES) (db_runs db))"

definition recover_non_terminal :: "env \<Rightarrow> string list store" where
  "recover_non_terminal e =
     bind (gets active_ids) (\<lambda>ids.
     seqp (for_each (\<lambda>twin. bind (append_event e twin ''twin_recovered''
         ''Non-terminal namespace twin restored after service restart.'' [(''recovered'', JBool True)])
         (\<lambda>_. ret ())) ids)
     (ret ids))"

definition due :: "instant \<Rightarrow> twin_run \<Rightarrow> bool" where
  "due now r \<longleftrightarrow> tw_status r \<in> set ACTIVE_STATES \<and> (case tw_expires r of None \<Rightarrow> False | Some t \<Rightarrow> t \<le> now)"

definition expire_due :: "env \<Rightarrow> instant option \<Rightarrow> string list store" where
  "expire_due e given =
     bind (case given of None \<Rightarrow> clock e | Some t \<Rightarrow> ret t) (\<lambda>now.
     bind (gets (\<lambda>db. map tw_id (filter (due now) (db_runs db)))) (\<lambda>ids.
     seqp (for_each (\<lambda>twin. bind (transition e twin ''expired''
         ''Namespace twin generation expired before a final decision.'' []) (\<lambda>_. ret ())) ids)
     (ret ids)))"

section \<open>Any operation\<close>

datatype store_op =
    Create twin_run "twin_resource list" "twin_edge list" "graph_finding list" "delta_row list"
  | Transition string string string "json dict"
  | Cancel string string
  | Append_event string string string "json dict"
  | Merge_facts string "json dict" string string "json dict"
  | Link_execution string "json dict" string
  | Drift string "json dict" string
  | Runtime string "json dict" string
  | Release_note string "json dict" string
  | Replay string "json dict" string
  | Recover
  | Expire "instant option"
  | Supersede string string
  | Decide string string string "json dict"

definition ignore :: "'a store \<Rightarrow> unit store" where
  "ignore m = bind m (\<lambda>_. ret ())"

fun apply_op :: "env \<Rightarrow> store_op \<Rightarrow> unit store" where
  "apply_op e (Create values resources es findings deltas) =
     ignore (create_run e values resources es findings deltas)"
| "apply_op e (Transition twin target message payload) = ignore (transition e twin target message payload)"
| "apply_op e (Cancel twin actor) = ignore (cancel e twin actor)"
| "apply_op e (Append_event twin event_type message payload) =
     ignore (append_event e twin event_type message payload)"
| "apply_op e (Merge_facts twin facts event_type message payload) =
     ignore (merge_facts e twin facts event_type message payload)"
| "apply_op e (Link_execution twin link actor) = ignore (record_execution_link e twin link actor)"
| "apply_op e (Drift twin assessment actor) = ignore (record_drift e twin assessment actor)"
| "apply_op e (Runtime twin assessment actor) = ignore (record_runtime_behavior e twin assessment actor)"
| "apply_op e (Release_note twin validation actor) =
     ignore (record_release_note_validation e twin validation actor)"
| "apply_op e (Replay twin replay actor) = ignore (record_mop_replay e twin replay actor)"
| "apply_op e Recover = ignore (recover_non_terminal e)"
| "apply_op e (Expire now) = ignore (expire_due e now)"
| "apply_op e (Supersede twin successor) = ignore (supersede e twin successor)"
| "apply_op e (Decide twin decision report facts) = ignore (persist_terminal_decision e twin decision report facts)"

text \<open>A history: the operations one after the other, whether they succeed or not.\<close>

definition run_ops :: "env \<Rightarrow> store_op list \<Rightarrow> twin_db \<Rightarrow> twin_db" where
  "run_ops e ops db = fold (\<lambda>op s. snd (apply_op e op s)) ops db"

section \<open>What the tables keep\<close>

text \<open>A final run has exactly one decision row, with its decision; another run has none.\<close>

definition decisions_of :: "string \<Rightarrow> twin_db \<Rightarrow> twin_decision list" where
  "decisions_of twin db = filter (\<lambda>d. td_twin d = twin) (db_decisions db)"

definition decided :: "twin_run \<Rightarrow> twin_decision \<Rightarrow> bool" where
  "decided r d \<longleftrightarrow> td_decision d = tw_decision r \<and> td_version d = tw_version r \<and>
     Some (td_report_hash d) = tw_report_hash r \<and> td_input_hash d = tw_input_hash r \<and>
     tw_decision r \<in> {''green'', ''amber'', ''red''} \<and> tw_status r \<in> {tw_decision r, ''superseded''}"

definition decision_ok :: "twin_db \<Rightarrow> twin_run \<Rightarrow> bool" where
  "decision_ok db r \<longleftrightarrow>
     (if tw_final r then \<exists>d. decisions_of (tw_id r) db = [d] \<and> decided r d
      else decisions_of (tw_id r) db = [] \<and> tw_decision r = ''pending'')"

definition request_of :: "twin_run \<Rightarrow> string \<times> string \<times> string" where
  "request_of r = (tw_actor r, tw_namespace r, tw_key r)"

definition numbered :: "twin_db \<Rightarrow> bool" where
  "numbered db \<longleftrightarrow> (\<forall>twin. map tv_sequence (events_of twin db) = [1..<Suc (length (events_of twin db))])"

definition store_ok :: "twin_db \<Rightarrow> bool" where
  "store_ok db \<longleftrightarrow>
     distinct (map tw_id (db_runs db)) \<and> distinct (map request_of (db_runs db)) \<and>
     numbered db \<and> tv_twin ` set (db_events db) \<subseteq> tw_id ` set (db_runs db) \<and>
     td_twin ` set (db_decisions db) \<subseteq> tw_id ` set (db_runs db) \<and>
     list_all (decision_ok db) (db_runs db)"

lemma store_okI:
  "distinct (map tw_id (db_runs db)) \<Longrightarrow> distinct (map request_of (db_runs db)) \<Longrightarrow> numbered db \<Longrightarrow>
    tv_twin ` set (db_events db) \<subseteq> tw_id ` set (db_runs db) \<Longrightarrow>
    td_twin ` set (db_decisions db) \<subseteq> tw_id ` set (db_runs db) \<Longrightarrow>
    list_all (decision_ok db) (db_runs db) \<Longrightarrow> store_ok db"
  by (simp add: store_ok_def)

lemma store_okD:
  assumes "store_ok db"
  shows "distinct (map tw_id (db_runs db))" "distinct (map request_of (db_runs db))" "numbered db"
    "tv_twin ` set (db_events db) \<subseteq> tw_id ` set (db_runs db)"
    "td_twin ` set (db_decisions db) \<subseteq> tw_id ` set (db_runs db)"
    "list_all (decision_ok db) (db_runs db)"
  using assms by (simp_all add: store_ok_def)

text \<open>The steps of the lifecycle: those of the table, with drift also the one to superseded.\<close>

definition life :: "bool \<Rightarrow> (string \<times> string) set" where
  "life drift = {(a, b). allowed a b \<or> drift \<and> b = ''superseded''}"

text \<open>How a run may change: its identity stays, a decision once final stays, its state moves on.\<close>

definition row_next :: "bool \<Rightarrow> twin_run \<Rightarrow> twin_run \<Rightarrow> bool" where
  "row_next drift r r' \<longleftrightarrow>
     tw_id r' = tw_id r \<and> request_of r' = request_of r \<and> tw_input_hash r' = tw_input_hash r \<and>
     (tw_final r \<longrightarrow> tw_final r' \<and> tw_decision r' = tw_decision r \<and> tw_version r' = tw_version r \<and>
        tw_report_hash r' = tw_report_hash r) \<and>
     (tw_status r, tw_status r') \<in> (life drift)\<^sup>* \<and> tw_row_version r \<le> tw_row_version r'"

definition extends :: "'a list \<Rightarrow> 'a list \<Rightarrow> bool" where
  "extends xs ys \<longleftrightarrow> (\<exists>zs. ys = xs @ zs)"

definition evolves :: "bool \<Rightarrow> twin_db \<Rightarrow> twin_db \<Rightarrow> bool" where
  "evolves drift s t \<longleftrightarrow>
     (\<forall>r \<in> set (db_runs s). \<exists>r' \<in> set (db_runs t). row_next drift r r') \<and>
     extends (db_events s) (db_events t) \<and> extends (db_decisions s) (db_decisions t) \<and>
     extends (db_resources s) (db_resources t) \<and> extends (db_edges s) (db_edges t) \<and>
     extends (db_findings s) (db_findings t) \<and> extends (db_deltas s) (db_deltas t)"

definition store_next :: "bool \<Rightarrow> twin_db \<Rightarrow> twin_db \<Rightarrow> bool" where
  "store_next drift s t \<longleftrightarrow> (store_ok s \<longrightarrow> store_ok t \<and> evolves drift s t)"

lemma extends_refl [simp]: "extends xs xs" by (simp add: extends_def)

lemma extends_append [simp]: "extends xs (xs @ ys)" by (simp add: extends_def)

lemma extends_trans: "extends xs ys \<Longrightarrow> extends ys zs \<Longrightarrow> extends xs zs"
  by (auto simp: extends_def)

lemma row_next_refl [simp]: "row_next drift r r" by (simp add: row_next_def)

lemma row_next_trans: "row_next drift r s \<Longrightarrow> row_next drift s t \<Longrightarrow> row_next drift r t"
  unfolding row_next_def by (auto intro: rtrancl_trans)

lemma evolves_refl: "evolves drift s s"
  by (auto simp: evolves_def intro: row_next_refl)

lemma evolves_trans: "evolves drift s t \<Longrightarrow> evolves drift t u \<Longrightarrow> evolves drift s u"
  unfolding evolves_def by (meson extends_trans row_next_trans)

interpretation store_next: step_relation "store_next drift" for drift
  by unfold_locales (auto simp: store_next_def evolves_refl intro: evolves_trans)

text \<open>Draws and ticks are not part of the tables.\<close>

lemma store_next_counters:
  "store_next drift s (s\<lparr>db_draws := m, db_ticks := n\<rparr>)"
proof -
  have "store_ok (s\<lparr>db_draws := m, db_ticks := n\<rparr>) = store_ok s"
    by (simp add: store_ok_def numbered_def events_of_def decision_ok_def [abs_def] decisions_of_def)
  moreover have "evolves drift s (s\<lparr>db_draws := m, db_ticks := n\<rparr>)"
    by (auto simp: evolves_def intro: row_next_refl)
  ultimately show ?thesis by (simp add: store_next_def)
qed

lemma moves_atomic: "moves (store_next drift) m \<Longrightarrow> moves (store_next drift) (atomic m)"
  unfolding moves_def
proof
  fix s assume "\<forall>s. store_next drift s (snd (m s))"
  then have m: "store_next drift s (snd (m s))" ..
  show "store_next drift s (snd (atomic m s))"
  proof (cases "m s")
    case (Pair r t)
    with m show ?thesis
      by (cases r) (simp_all add: atomic_def store_next_counters del: twin_db.update_convs)
  qed
qed

lemma moves_fetch:
  assumes "\<And>row s. find_run twin s = Some row \<Longrightarrow> store_next drift s (snd (f row s))"
  shows "moves (store_next drift) (bind (fetch twin) f)"
  unfolding moves_def
proof
  fix s show "store_next drift s (snd (bind (fetch twin) f s))"
    using assms [of s] store_next.refl [of drift s]
    by (cases "find_run twin s") (simp_all add: fetch_def prog_defs)
qed

lemma find_run_Some: "find_run twin s = Some row \<Longrightarrow> row \<in> set (db_runs s) \<and> tw_id row = twin"
  by (auto simp: find_run_def find_Some_iff)

text \<open>The state after a row was saved with its event.\<close>

lemma save_with_event_result:
  obtains ev m n where
    "save_with_event e row event_type message payload s =
      (Inr row, (save_run row s)\<lparr>db_events := db_events s @ [ev], db_draws := m, db_ticks := n\<rparr>)"
    "tv_twin ev = tw_id row" "tv_sequence ev = last_sequence (tw_id row) s + 1"
proof -
  have "last_sequence twin (save_run row s) = last_sequence twin s" for twin
    by (simp add: last_sequence_def events_of_def save_run_def)
  then show thesis
    by (intro that [where ev = "\<lparr>tv_id = ''twinevt_'' @ env_uuid e (db_draws s), tv_twin = tw_id row,
          tv_sequence = last_sequence (tw_id row) s + 1, tv_type = event_type,
          tv_message = py_str (redact_value (JStr message)), tv_payload = redact_facts payload,
          tv_created = env_clock e (db_ticks s)\<rparr>"
          and m = "Suc (db_draws s)" and n = "Suc (db_ticks s)"])
      (simp_all add: save_with_event_def append_event_in_session_def prog_defs fresh_id_def
        clock_def save_run_def Let_def)
qed

lemma foldr_max: "foldr max [1..<Suc n] 0 = n"
proof -
  have "foldr max [i..<Suc n] 0 = (if i \<le> n then n else 0)" for i
  proof (induction "Suc n - i" arbitrary: i)
    case (Suc k)
    then have "i \<le> n" by simp
    then have "[i..<Suc n] = i # [Suc i..<Suc n]" by (simp add: upt_conv_Cons)
    with Suc.hyps(1) [of "Suc i"] Suc.hyps(2) \<open>i \<le> n\<close> show ?case by auto
  qed simp
  from this [of 1] show ?thesis by auto
qed

lemma last_sequence_numbered: "numbered s \<Longrightarrow> last_sequence twin s = length (events_of twin s)"
  by (simp only: numbered_def last_sequence_def foldr_max)

lemma numbered_append:
  assumes "numbered s" and "tv_sequence ev = last_sequence (tv_twin ev) s + 1"
    and "db_events t = db_events s @ [ev]"
  shows "numbered t"
  unfolding numbered_def
proof
  fix twin
  have "events_of twin t = events_of twin s @ (if tv_twin ev = twin then [ev] else [])"
    by (simp add: events_of_def assms(3))
  then show "map tv_sequence (events_of twin t) = [1..<Suc (length (events_of twin t))]"
    using assms(1,2) last_sequence_numbered [OF assms(1), of twin]
    by (auto simp: numbered_def)
qed

text \<open>What an event does, and a row saved with one.\<close>

lemma event_keeps:
  assumes ok: "store_ok s" and ev: "tv_sequence ev = last_sequence (tv_twin ev) s + 1"
    "tv_twin ev \<in> tw_id ` set (db_runs s)"
    and t: "db_runs t = db_runs s" "db_events t = db_events s @ [ev]" "db_decisions t = db_decisions s"
      "db_resources t = db_resources s" "db_edges t = db_edges s" "db_findings t = db_findings s"
      "db_deltas t = db_deltas s"
  shows "store_ok t \<and> evolves drift s t"
proof -
  have "numbered t" by (rule numbered_append [OF store_okD(3) [OF ok] ev(1) t(2)])
  moreover have "decision_ok t = decision_ok s"
    by (simp add: decision_ok_def [abs_def] decisions_of_def t(3))
  moreover have "tv_twin ` set (db_events t) \<subseteq> tw_id ` set (db_runs t)"
    using store_okD(4) [OF ok] ev(2) by (simp only: t) simp
  ultimately have "store_ok t"
    using store_okD [OF ok] by (intro store_okI) (simp_all only: t)
  moreover have "evolves drift s t"
    by (auto simp: evolves_def t intro: row_next_refl)
  ultimately show ?thesis ..
qed

text \<open>A row that is changed without touching its decision.\<close>

definition row_kept :: "bool \<Rightarrow> twin_run \<Rightarrow> twin_run \<Rightarrow> bool" where
  "row_kept drift r r' \<longleftrightarrow>
     row_next drift r r' \<and> tw_final r' = tw_final r \<and> tw_decision r' = tw_decision r \<and>
     tw_version r' = tw_version r \<and> tw_report_hash r' = tw_report_hash r \<and>
     (tw_final r \<longrightarrow> tw_status r' \<in> {tw_status r, ''superseded''})"

lemma row_kept_decision: "row_kept drift r r' \<Longrightarrow> decision_ok s r \<Longrightarrow> decision_ok s r'"
  by (auto simp: row_kept_def row_next_def decision_ok_def decided_def)

lemma save_keeps:
  assumes ok: "store_ok s" and row: "find_run twin s = Some row" and row': "row_kept drift row row'"
    and ev: "tv_sequence ev = last_sequence twin s + 1" "tv_twin ev = twin"
  shows "store_ok ((save_run row' s)\<lparr>db_events := db_events s @ [ev], db_draws := m, db_ticks := n\<rparr>) \<and>
    evolves drift s ((save_run row' s)\<lparr>db_events := db_events s @ [ev], db_draws := m, db_ticks := n\<rparr>)"
proof -
  let ?t = "(save_run row' s)\<lparr>db_events := db_events s @ [ev], db_draws := m, db_ticks := n\<rparr>"
  let ?f = "\<lambda>r. if tw_id r = tw_id row' then row' else r"
  have r: "row \<in> set (db_runs s)" "tw_id row = twin" using find_run_Some [OF row] by simp_all
  have ids: "tw_id row' = twin" "request_of row' = request_of row"
    using row' r by (simp_all add: row_kept_def row_next_def)
  have same: "r = row" if "r \<in> set (db_runs s)" "tw_id r = twin" for r
    using ok that r by (auto simp: store_ok_def distinct_map inj_on_def)
  have runs: "db_runs ?t = map ?f (db_runs s)" by (simp add: save_run_def)
  have "map tw_id (map ?f (db_runs s)) = map tw_id (db_runs s)"
    by (simp add: ids)
  moreover have "map request_of (map ?f (db_runs s)) = map request_of (db_runs s)"
    using same by (auto simp: ids)
  moreover have "numbered ?t"
    using ev by (intro numbered_append [OF store_okD(3) [OF ok], of ev ?t]) simp_all
  moreover have "list_all (decision_ok ?t) (map ?f (db_runs s))"
  proof -
    have "decision_ok ?t = decision_ok s"
      by (simp add: decision_ok_def [abs_def] decisions_of_def save_run_def)
    moreover have "decision_ok s (?f r)" if "r \<in> set (db_runs s)" for r
      using that ok row_kept_decision [OF row'] same [OF that] by (auto simp: store_ok_def list_all_iff ids)
    ultimately show ?thesis by (simp only: list_all_iff set_map ball_simps) blast
  qed
  moreover have image: "tw_id ` set (map ?f (db_runs s)) = tw_id ` set (db_runs s)"
    unfolding set_map [symmetric] calculation(1) ..
  moreover have "tv_twin ` set (db_events ?t) \<subseteq> tw_id ` set (map ?f (db_runs s))"
    unfolding image using store_okD(4) [OF ok] r ev(2) by (simp add: image_subset_iff) blast
  moreover have "td_twin ` set (db_decisions ?t) \<subseteq> tw_id ` set (map ?f (db_runs s))"
    unfolding image using store_okD(5) [OF ok] by (simp add: save_run_def)
  ultimately have "store_ok ?t"
    using store_okD(1,2) [OF ok] by (intro store_okI) (simp_all only: runs)
  moreover have "\<exists>r' \<in> set (map ?f (db_runs s)). row_next drift r r'" if "r \<in> set (db_runs s)" for r
    using that same [OF that] row' by (intro bexI [of _ "?f r"]) (auto simp: row_kept_def ids)
  then have "evolves drift s ?t"
    unfolding evolves_def runs by (simp add: save_run_def)
  ultimately show ?thesis ..
qed

lemma save_with_event_next:
  assumes "find_run twin s = Some row" and "row_kept drift row row'"
    and "db_runs u = db_runs s" "db_events u = db_events s" "db_decisions u = db_decisions s"
      "db_resources u = db_resources s" "db_edges u = db_edges s" "db_findings u = db_findings s"
      "db_deltas u = db_deltas s"
  shows "store_next drift s (snd (save_with_event e row' event_type message payload u))"
proof -
  have twin: "tw_id row' = twin"
    using assms(2) find_run_Some [OF assms(1)] by (simp add: row_kept_def row_next_def)
  obtain ev m n where r: "save_with_event e row' event_type message payload u =
      (Inr row', (save_run row' u)\<lparr>db_events := db_events u @ [ev], db_draws := m, db_ticks := n\<rparr>)"
    "tv_twin ev = tw_id row'" "tv_sequence ev = last_sequence (tw_id row') u + 1"
    by (rule save_with_event_result)
  have u: "u = s\<lparr>db_draws := db_draws u, db_ticks := db_ticks u\<rparr>"
    using assms(3-9) by simp
  have "last_sequence twin u = last_sequence twin s"
    by (simp add: last_sequence_def events_of_def assms(4))
  moreover have "(save_run row' u)\<lparr>db_events := db_events u @ [ev], db_draws := m, db_ticks := n\<rparr> =
      (save_run row' s)\<lparr>db_events := db_events s @ [ev], db_draws := m, db_ticks := n\<rparr>"
    using assms(3-9) by (simp add: save_run_def)
  ultimately show ?thesis
    using save_keeps [OF _ assms(1,2), where ev = ev and m = m and n = n] r twin by (simp add: store_next_def)
qed

lemma row_kept_facts [simp]: "row_kept drift row (with_facts row facts now)"
  by (simp add: row_kept_def row_next_def with_facts_def request_of_def)

lemma final_is_terminal: "decision_ok s r \<Longrightarrow> tw_final r \<Longrightarrow> tw_status r \<in> set TERMINAL_STATES"
  by (auto simp: decision_ok_def decided_def TERMINAL_STATES_def)

lemma row_kept_moved:
  assumes "allowed (tw_status row) target" and "\<not> tw_final row"
  shows "row_kept drift row (moved row target now)"
    and "row_kept drift row ((moved row target now)\<lparr>tw_superseded_by := b\<rparr>)"
  using assms by (auto simp: row_kept_def row_next_def moved_def request_of_def life_def)

section \<open>Every operation\<close>

lemma run_facts:
  assumes "find_run twin s = Some row"
  shows "store_next drift s (snd (bind (clock e) (\<lambda>now. save_with_event e (with_facts row (facts now) now)
      event_type message payload) s))"
proof -
  let ?u = "s\<lparr>db_ticks := Suc (db_ticks s)\<rparr>"
  have "store_next drift s (snd (save_with_event e (with_facts row (facts (env_clock e (db_ticks s)))
      (env_clock e (db_ticks s))) event_type message payload ?u))"
    by (rule save_with_event_next [OF assms row_kept_facts]) simp_all
  then show ?thesis by (simp add: bind_def clock_def)
qed

lemma stays: "store_next drift s s" by (rule store_next.refl)

lemma moves_transitioned: "moves (store_next drift) (transition e twin target message payload)"
  unfolding transition_def
proof (intro moves_atomic moves_fetch)
  fix row s assume row: "find_run twin s = Some row"
  let ?m = "\<lambda>row. if tw_status row = target then ret row
      else if tw_status row \<in> set TERMINAL_STATES \<or> \<not> allowed (tw_status row) target
      then raise_err (StoreError ''invalid_lifecycle_transition''
        (''Namespace twin cannot transition from '' @ tw_status row @ '' to '' @ target @ ''.'') 409)
      else bind (clock e) (\<lambda>now.
        save_with_event e (moved row target now) ''lifecycle_transitioned'' message
          (dict_update [(''from_state'', JStr (tw_status row)), (''to_state'', JStr target)] payload))"
  show "store_next drift s (snd (?m row s))"
  proof (cases "store_ok s \<and> tw_status row \<notin> set TERMINAL_STATES \<and> allowed (tw_status row) target \<and>
      tw_status row \<noteq> target")
    case True
    then have "\<not> tw_final row"
      using find_run_Some [OF row] final_is_terminal [of s row] by (auto simp: store_ok_def list_all_iff)
    with True have kept: "row_kept drift row (moved row target (env_clock e (db_ticks s)))"
      by (intro row_kept_moved) simp_all
    have "store_next drift s (snd (save_with_event e (moved row target (env_clock e (db_ticks s)))
        ''lifecycle_transitioned'' message
        (dict_update [(''from_state'', JStr (tw_status row)), (''to_state'', JStr target)] payload)
        (s\<lparr>db_ticks := Suc (db_ticks s)\<rparr>)))"
      by (rule save_with_event_next [OF row kept]) simp_all
    with True show ?thesis by (simp add: bind_def clock_def)
  next
    case False
    then show ?thesis by (cases "store_ok s") (auto simp: prog_defs stays store_next_def evolves_refl)
  qed
qed

lemma moves_append_event_in_session:
  assumes "find_run twin s \<noteq> None" and "db_runs u = db_runs s" "db_events u = db_events s"
    "db_decisions u = db_decisions s" "db_resources u = db_resources s" "db_edges u = db_edges s"
    "db_findings u = db_findings s" "db_deltas u = db_deltas s"
  shows "store_next drift s (snd (append_event_in_session e twin event_type message payload u))"
proof -
  let ?ev = "\<lparr>tv_id = ''twinevt_'' @ env_uuid e (db_draws u), tv_twin = twin,
          tv_sequence = last_sequence twin u + 1, tv_type = event_type,
          tv_message = py_str (redact_value (JStr message)), tv_payload = redact_facts payload,
          tv_created = env_clock e (db_ticks u)\<rparr>"
  have run: "snd (append_event_in_session e twin event_type message payload u) =
      u\<lparr>db_events := db_events u @ [?ev], db_draws := Suc (db_draws u), db_ticks := Suc (db_ticks u)\<rparr>"
    by (simp add: append_event_in_session_def prog_defs fresh_id_def clock_def Let_def)
  have "last_sequence twin u = last_sequence twin s"
    by (simp add: last_sequence_def events_of_def assms(3))
  moreover have "twin \<in> tw_id ` set (db_runs s)"
    using assms(1) find_run_Some [of twin s] by force
  ultimately show ?thesis
    unfolding run store_next_def using assms(2-) by (intro impI event_keeps [of s ?ev]) simp_all
qed

lemma moves_append_event: "moves (store_next drift) (append_event e twin event_type message payload)"
  unfolding append_event_def
  by (intro moves_atomic moves_fetch moves_append_event_in_session) simp_all

lemma moves_cancel: "moves (store_next drift) (cancel e twin actor)"
  unfolding cancel_def
proof (rule moves_fetch)
  fix row s
  show "store_next drift s (snd ((if tw_status row = ''cancelled'' then ret row
     else if tw_status row \<notin> set ACTIVE_STATES
     then raise_err (StoreError ''twin_not_cancellable''
       ''Only a non-terminal namespace twin can be cancelled.'' 409)
     else transition e twin ''cancelled'' ''Namespace twin generation cancelled.''
       [(''actor_id'', JStr actor)]) s))"
    using movesD [OF moves_transitioned] by (simp add: ret_def raise_err_def stays)
qed

lemma active_not_terminal: "a \<in> set ACTIVE_STATES \<Longrightarrow> a \<notin> set TERMINAL_STATES \<and> allowed a ''superseded''"
  by (auto simp: ACTIVE_STATES_def TERMINAL_STATES_def allowed_def ALLOWED_TRANSITIONS_def)

lemma moves_supersede: "moves (store_next drift) (supersede e twin successor)"
  unfolding supersede_def
proof (intro moves_atomic moves_fetch)
  fix row s assume row: "find_run twin s = Some row"
  let ?row' = "(moved row ''superseded'' (env_clock e (db_ticks s)))\<lparr>tw_superseded_by := Some successor\<rparr>"
  let ?payload = "[(''from_state'', JStr (tw_status row)), (''to_state'', JStr ''superseded''),
           (''superseded_by'', JStr successor)]"
  let ?m = "if tw_status row = ''superseded'' \<and> tw_superseded_by row = Some successor then ret row
      else if tw_status row \<notin> set ACTIVE_STATES
      then raise_err (StoreError ''terminal_twin_not_supersedable''
        ''Only a non-terminal provisional twin can be superseded in Phase 4.'' 409)
      else
        bind (clock e) (\<lambda>now.
        save_with_event e ((moved row ''superseded'' now)\<lparr>tw_superseded_by := Some successor\<rparr>)
          ''twin_superseded'' ''Namespace twin was superseded by a newer generation.'' ?payload)"
  show "store_next drift s (snd (?m s))"
  proof (cases "store_ok s \<and> tw_status row \<in> set ACTIVE_STATES")
    case True
    then have active: "tw_status row \<notin> set TERMINAL_STATES" "allowed (tw_status row) ''superseded''"
      using active_not_terminal by blast+
    then have "\<not> tw_final row"
      using True find_run_Some [OF row] final_is_terminal [of s row] by (auto simp: store_ok_def list_all_iff)
    then have kept: "row_kept drift row ?row'" using active by (intro row_kept_moved)
    have "store_next drift s (snd (save_with_event e ?row' ''twin_superseded''
        ''Namespace twin was superseded by a newer generation.'' ?payload (s\<lparr>db_ticks := Suc (db_ticks s)\<rparr>)))"
      by (rule save_with_event_next [OF row kept]) simp_all
    then show ?thesis using active(1) by (auto simp: bind_def clock_def ret_def raise_err_def stays)
  next
    case False
    then show ?thesis by (cases "store_ok s") (auto simp: prog_defs stays store_next_def evolves_refl)
  qed
qed

lemma moves_merge_facts: "moves (store_next drift) (merge_facts e twin facts event_type message payload)"
  unfolding merge_facts_def
  by (intro moves_atomic moves_fetch)
    (auto simp: raise_err_def stays intro: run_facts [where facts = "\<lambda>_. dict_update x (redact_facts facts)" for x])

lemma moves_runtime: "moves (store_next drift) (record_runtime_behavior e twin assessment actor)"
  unfolding record_runtime_behavior_def by (intro moves_atomic moves_fetch run_facts)

lemma moves_release_note: "moves (store_next drift) (record_release_note_validation e twin validation actor)"
  unfolding record_release_note_validation_def by (intro moves_atomic moves_fetch run_facts)

lemma moves_replay: "moves (store_next drift) (record_mop_replay e twin replay actor)"
  unfolding record_mop_replay_def
  by (intro moves_atomic moves_fetch) (auto simp: raise_err_def stays split: option.split intro: run_facts)

lemma run_linked_facts:
  assumes "find_run twin s = Some row"
  shows "store_next drift s (snd (bind (clock e) (\<lambda>linked. bind (clock e) (\<lambda>now.
      save_with_event e (with_facts row (facts linked) now) event_type message payload)) s))"
proof -
  let ?u = "s\<lparr>db_ticks := Suc (Suc (db_ticks s))\<rparr>"
  have "store_next drift s (snd (save_with_event e (with_facts row (facts (env_clock e (db_ticks s)))
      (env_clock e (Suc (db_ticks s)))) event_type message payload ?u))"
    by (rule save_with_event_next [OF assms row_kept_facts]) simp_all
  then show ?thesis by (simp add: bind_def clock_def)
qed

lemma moves_link: "moves (store_next drift) (record_execution_link e twin link actor)"
  unfolding record_execution_link_def Let_def by (intro moves_atomic moves_fetch run_linked_facts)

lemma clock_bind: "bind (clock e) f s = f (env_clock e (db_ticks s)) (s\<lparr>db_ticks := Suc (db_ticks s)\<rparr>)"
  by (simp add: bind_def clock_def)

text \<open>A save that is followed by more.\<close>

lemma saved_then:
  assumes "find_run twin s = Some row" and "row_kept drift row row'"
    and "\<And>t. find_run twin t \<noteq> None \<Longrightarrow> store_next drift t (snd (g row' t))"
  shows "store_next drift s (snd (bind (save_with_event e row' event_type message payload) g
      (s\<lparr>db_ticks := n\<rparr>)))"
proof -
  let ?u = "s\<lparr>db_ticks := n\<rparr>"
  obtain ev k m where r: "save_with_event e row' event_type message payload ?u =
      (Inr row', (save_run row' ?u)\<lparr>db_events := db_events ?u @ [ev], db_draws := k, db_ticks := m\<rparr>)"
    by (rule save_with_event_result)
  let ?t = "snd (save_with_event e row' event_type message payload ?u)"
  have one: "store_next drift s ?t"
    by (rule save_with_event_next [OF assms(1,2)]) simp_all
  have "tw_id row' = twin"
    using assms(2) find_run_Some [OF assms(1)] by (simp add: row_kept_def row_next_def)
  then have "find_run twin ?t \<noteq> None"
    using find_run_Some [OF assms(1)] by (auto simp: r find_run_def find_None_iff save_run_def)
  then have "store_next drift ?t (snd (g row' ?t))" by (rule assms(3))
  with one have "store_next drift s (snd (g row' ?t))" by (rule store_next.trans)
  then show ?thesis by (simp add: bind_def r)
qed

lemma row_kept_drifted:
  "drift \<or> \<not> is_material assessment \<Longrightarrow> row_kept drift row (drifted_run row assessment now)"
  by (auto simp: row_kept_def row_next_def drifted_run_def with_facts_def request_of_def life_def
      drift_supersedes_def Let_def)

lemma moves_drift:
  assumes "drift \<or> \<not> is_material assessment"
  shows "moves (store_next drift) (record_drift e twin assessment actor)"
  unfolding record_drift_def
proof (intro moves_atomic moves_fetch)
  fix row s assume row: "find_run twin s = Some row"
  have second: "store_next drift t (snd ((if drift_supersedes row assessment
      then bind (append_event_in_session e twin event_type message payload) (\<lambda>_. ret saved) else ret saved) t))"
    if "find_run twin t \<noteq> None" for t saved event_type message payload
  proof -
    have "snd (bind (append_event_in_session e twin event_type message payload) (\<lambda>_. ret saved) t) =
        snd (append_event_in_session e twin event_type message payload t)"
      by (simp add: append_event_in_session_def prog_defs fresh_id_def clock_def Let_def)
    then show ?thesis
      using moves_append_event_in_session [OF that, of t] by (simp add: ret_def stays)
  qed
  have "store_next drift s (snd (bind (save_with_event e (drifted_run row assessment now) ty ms pl) (\<lambda>saved.
      if drift_supersedes row assessment
      then bind (append_event_in_session e twin event_type message payload) (\<lambda>_. ret saved) else ret saved)
      (s\<lparr>db_ticks := n\<rparr>)))" for now ty ms pl event_type message payload n
    by (rule saved_then [OF row row_kept_drifted [OF assms] second])
  then show "store_next drift s (snd (bind (clock e) (\<lambda>now. bind (save_with_event e (drifted_run row assessment now)
      ty ms pl) (\<lambda>saved.
      if drift_supersedes row assessment
      then bind (append_event_in_session e twin event_type message payload) (\<lambda>_. ret saved) else ret saved)) s))"
    for ty ms pl event_type message payload
    by (simp add: clock_bind)
qed

lemma moves_ignore: "moves (store_next drift) m \<Longrightarrow> moves (store_next drift) (ignore m)"
  unfolding ignore_def by (intro store_next.moves_bind store_next.moves_ret)

lemma moves_recovered: "moves (store_next drift) (recover_non_terminal e)"
  unfolding recover_non_terminal_def
  by (intro step_intros moves_append_event)

lemma moves_clock: "moves (store_next drift) (clock e)"
  unfolding moves_def
proof
  fix s show "store_next drift s (snd (clock e s))"
    using store_next_counters [where drift = drift and s = s and m = "db_draws s" and n = "Suc (db_ticks s)"]
    by (simp add: clock_def)
qed

lemma moves_expire: "moves (store_next drift) (expire_due e now)"
  unfolding expire_due_def by (intro step_intros moves_transitioned moves_clock)

text \<open>A new run starts without a decision.\<close>

definition starts_pending :: "twin_run \<Rightarrow> bool" where
  "starts_pending values \<longleftrightarrow> \<not> tw_final values \<and> tw_decision values = ''pending''"

lemma events_of_unknown: "store_ok s \<Longrightarrow> twin \<notin> tw_id ` set (db_runs s) \<Longrightarrow> events_of twin s = []"
  by (auto simp: events_of_def filter_empty_conv dest!: store_okD(4))

lemma decisions_of_unknown: "store_ok s \<Longrightarrow> twin \<notin> tw_id ` set (db_runs s) \<Longrightarrow> decisions_of twin s = []"
  by (auto simp: decisions_of_def filter_empty_conv dest!: store_okD(5))

lemma created_run:
  assumes ok: "store_ok s" and new: "tw_id values \<notin> tw_id ` set (db_runs s)"
    "request_of values \<notin> request_of ` set (db_runs s)" and pending: "starts_pending values"
    and ev: "tv_twin ev = tw_id values" "tv_sequence ev = 1"
    and t: "db_runs t = db_runs s @ [values]" "db_events t = db_events s @ [ev]"
      "db_decisions t = db_decisions s" "extends (db_resources s) (db_resources t)"
      "extends (db_edges s) (db_edges t)" "extends (db_findings s) (db_findings t)"
      "extends (db_deltas s) (db_deltas t)"
  shows "store_ok t \<and> evolves drift s t"
proof -
  have "last_sequence (tw_id values) s = 0"
    by (simp add: last_sequence_def events_of_unknown [OF ok new(1)])
  then have "numbered t"
    using ev t(2) by (intro numbered_append [OF store_okD(3) [OF ok], of ev t]) simp_all
  moreover have "distinct (map tw_id (db_runs t))" "distinct (map request_of (db_runs t))"
    using store_okD(1,2) [OF ok] new by (simp_all add: t(1))
  moreover have "tv_twin ` set (db_events t) \<subseteq> tw_id ` set (db_runs t)"
    using store_okD(4) [OF ok] ev(1) by (auto simp: t(1,2))
  moreover have "td_twin ` set (db_decisions t) \<subseteq> tw_id ` set (db_runs t)"
    using store_okD(5) [OF ok] by (auto simp: t(1,3))
  moreover have "list_all (decision_ok t) (db_runs t)"
  proof -
    have "decision_ok t = decision_ok s" by (simp add: decision_ok_def [abs_def] decisions_of_def t(3))
    moreover have "decision_ok s values"
      using pending decisions_of_unknown [OF ok new(1)] by (simp add: decision_ok_def starts_pending_def)
    ultimately show ?thesis using store_okD(6) [OF ok] by (simp add: t(1))
  qed
  ultimately have "store_ok t" by (intro store_okI)
  moreover have "evolves drift s t"
    using t by (auto simp: evolves_def intro: row_next_refl)
  ultimately show ?thesis ..
qed

lemma moves_created:
  assumes "starts_pending values"
  shows "moves (store_next drift) (create_run e values resources es findings deltas)"
  unfolding create_run_def
proof (rule moves_atomic, unfold moves_def, rule allI)
  fix s
  let ?add = "\<lambda>db. db\<lparr>db_runs := db_runs db @ [values],
                db_resources := db_resources db @ map (Pair (tw_id values)) resources,
                db_edges := db_edges db @ map (Pair (tw_id values)) es,
                db_findings := db_findings db @ map (Pair (tw_id values)) findings,
                db_deltas := db_deltas db @ map (Pair (tw_id values)) deltas\<rparr>"
  let ?append = "append_event_in_session e (tw_id values) ''twin_requested''
                ''Namespace twin generation requested.''
                [(''lifecycle_status'', JStr (tw_status values)), (''input_hash'', JStr (tw_input_hash values)),
                 (''policy_version'', JStr (tw_policy_version values)),
                 (''risk_rule_version'', JStr (tw_risk_version values))]"
  let ?m = "bind (gets (\<lambda>db. find (same_request values) (db_runs db))) (\<lambda>existing.
      case existing of
        Some row \<Rightarrow> ret (row, False)
      | None \<Rightarrow>
          bind (gets (\<lambda>db. find_run (tw_id values) db \<noteq> None)) (\<lambda>taken.
          if taken
          then raise_err (StoreError ''idempotency_conflict''
            ''A twin already exists for this actor, target, and idempotency key.'' 409)
          else
            bind (gets (\<lambda>db. children_unique db resources es findings deltas)) (\<lambda>ok.
            if \<not> ok then raise_err (IntegrityError ''UNIQUE constraint failed'')
            else seqp (modify ?add) (bind ?append (\<lambda>_. ret (values, True))))))"
  show "store_next drift s (snd (?m s))"
  proof (cases "find (same_request values) (db_runs s) = None \<and> find_run (tw_id values) s = None \<and>
      children_unique s resources es findings deltas")
    case True
    let ?t = "snd (?m s)"
    have t: "?t = snd (?append (?add s))"
      using True by (simp add: prog_defs append_event_in_session_def fresh_id_def clock_def Let_def)
    have new: "tw_id values \<notin> tw_id ` set (db_runs s)" "request_of values \<notin> request_of ` set (db_runs s)"
      using True by (auto simp: find_run_def find_None_iff same_request_def request_of_def)
    obtain ev where ev: "tv_twin ev = tw_id values" "tv_sequence ev = last_sequence (tw_id values) s + 1"
      "db_events ?t = db_events s @ [ev]"
    proof
      show "db_events ?t = db_events s @ [\<lparr>tv_id = ''twinevt_'' @ env_uuid e (db_draws s), tv_twin = tw_id values,
          tv_sequence = last_sequence (tw_id values) s + 1, tv_type = ''twin_requested'',
          tv_message = py_str (redact_value (JStr ''Namespace twin generation requested.'')),
          tv_payload = redact_facts
            [(''lifecycle_status'', JStr (tw_status values)), (''input_hash'', JStr (tw_input_hash values)),
             (''policy_version'', JStr (tw_policy_version values)),
             (''risk_rule_version'', JStr (tw_risk_version values))],
          tv_created = env_clock e (db_ticks s)\<rparr>]"
        unfolding t by (simp add: append_event_in_session_def prog_defs fresh_id_def clock_def Let_def
            last_sequence_def events_of_def del: redact_value.simps)
    qed simp_all
    have tables: "db_runs ?t = db_runs s @ [values]" "db_decisions ?t = db_decisions s"
      "extends (db_resources s) (db_resources ?t)" "extends (db_edges s) (db_edges ?t)"
      "extends (db_findings s) (db_findings ?t)" "extends (db_deltas s) (db_deltas ?t)"
      unfolding t by (simp_all add: append_event_in_session_def prog_defs fresh_id_def clock_def Let_def)
    show ?thesis
      unfolding store_next_def
    proof
      assume ok: "store_ok s"
      have "last_sequence (tw_id values) s = 0"
        by (simp add: last_sequence_def events_of_unknown [OF ok new(1)])
      with ev(2) have "tv_sequence ev = 1" by simp
      from created_run [OF ok new assms ev(1) this tables(1) ev(3) tables(2-)]
      show "store_ok ?t \<and> evolves drift s ?t" .
    qed
  next
    case False
    then have "snd (?m s) = s" by (auto simp: prog_defs split: option.split)
    then show ?thesis by (simp only: stays)
  qed
qed

lemma decided_run:
  assumes ok: "store_ok s" and row: "find_run twin s = Some row" and open_row: "\<not> tw_final row"
    and row': "row_next drift row row'" "tw_final row'" and d: "decided row' d" "td_twin d = twin"
    and ev: "tv_sequence ev = last_sequence twin s + 1" "tv_twin ev = twin"
    and t: "db_runs t = map (\<lambda>r. if tw_id r = twin then row' else r) (db_runs s)"
      "db_events t = db_events s @ [ev]" "db_decisions t = db_decisions s @ [d]"
      "db_resources t = db_resources s" "db_edges t = db_edges s" "db_findings t = db_findings s"
      "db_deltas t = db_deltas s"
  shows "store_ok t \<and> evolves drift s t"
proof -
  let ?f = "\<lambda>r. if tw_id r = twin then row' else r"
  have r: "row \<in> set (db_runs s)" "tw_id row = twin" using find_run_Some [OF row] by simp_all
  have ids: "tw_id row' = twin" "request_of row' = request_of row"
    using row' r by (simp_all add: row_next_def)
  have same: "r = row" if "r \<in> set (db_runs s)" "tw_id r = twin" for r
    using ok that r by (auto simp: store_ok_def distinct_map inj_on_def)
  have none: "decisions_of twin s = []"
    using store_okD(6) [OF ok] r open_row by (auto simp: list_all_iff decision_ok_def)
  have "map tw_id (map ?f (db_runs s)) = map tw_id (db_runs s)" by (simp add: ids)
  moreover have "map request_of (map ?f (db_runs s)) = map request_of (db_runs s)"
    using same by (auto simp: ids)
  moreover have "numbered t"
    using ev t(2) by (intro numbered_append [OF store_okD(3) [OF ok], of ev t]) simp_all
  moreover have "list_all (decision_ok t) (map ?f (db_runs s))"
  proof -
    have other: "decision_ok t r" if "r \<in> set (db_runs s)" "tw_id r \<noteq> twin" for r
    proof -
      have "decisions_of (tw_id r) t = decisions_of (tw_id r) s"
        using that(2) d(2) by (simp add: decisions_of_def t(3))
      with store_okD(6) [OF ok] that(1) show ?thesis
        by (simp add: decision_ok_def list_all_iff)
    qed
    have "decisions_of twin t = [d]" using none d(2) by (simp add: decisions_of_def t(3))
    with row'(2) d(1) have "decision_ok t row'" by (simp add: decision_ok_def ids)
    with other show ?thesis unfolding list_all_iff set_map ball_simps by simp
  qed
  moreover have image: "tw_id ` set (map ?f (db_runs s)) = tw_id ` set (db_runs s)"
    unfolding set_map [symmetric] calculation(1) ..
  moreover have "tv_twin ` set (db_events t) \<subseteq> tw_id ` set (map ?f (db_runs s))"
    unfolding image using store_okD(4) [OF ok] r ev(2) by (simp add: t(2) image_subset_iff) blast
  moreover have "td_twin ` set (db_decisions t) \<subseteq> tw_id ` set (map ?f (db_runs s))"
    unfolding image using store_okD(5) [OF ok] r d(2) by (simp add: t(3) image_subset_iff) blast
  ultimately have "store_ok t"
    using store_okD(1,2) [OF ok] by (intro store_okI) (simp_all only: t(1))
  moreover have "\<exists>r' \<in> set (map ?f (db_runs s)). row_next drift r r'" if "r \<in> set (db_runs s)" for r
    using that same [OF that] row' by (intro bexI [of _ "?f r"]) auto
  then have "evolves drift s t"
    unfolding evolves_def t(1) by (simp add: t(2-))
  ultimately show ?thesis ..
qed

text \<open>The run with its decision, and the decision row.\<close>

lemma decision_saved:
  assumes "save_with_event e row' event_type message payload u = (r, t)"
  obtains ev where "db_runs t = map (\<lambda>r. if tw_id r = tw_id row' then row' else r) (db_runs u)"
    "db_events t = db_events u @ [ev]" "tv_twin ev = tw_id row'"
    "tv_sequence ev = last_sequence (tw_id row') u + 1" "db_decisions t = db_decisions u"
    "db_resources t = db_resources u" "db_edges t = db_edges u" "db_findings t = db_findings u"
    "db_deltas t = db_deltas u"
proof -
  obtain ev m n where r: "save_with_event e row' event_type message payload u =
      (Inr row', (save_run row' u)\<lparr>db_events := db_events u @ [ev], db_draws := m, db_ticks := n\<rparr>)"
    "tv_twin ev = tw_id row'" "tv_sequence ev = last_sequence (tw_id row') u + 1"
    by (rule save_with_event_result)
  then have "t = (save_run row' u)\<lparr>db_events := db_events u @ [ev], db_draws := m, db_ticks := n\<rparr>"
    using assms by simp
  then show thesis by (intro that [OF _ _ r(2,3)]) (simp_all add: save_run_def)
qed

lemma fresh_bind:
  "bind (fresh_id e label) f s = f (label @ env_uuid e (db_draws s)) (s\<lparr>db_draws := Suc (db_draws s)\<rparr>)"
  by (simp add: bind_def fresh_id_def)

lemma insert_free:
  "(td_twin d, td_version d) \<notin> (\<lambda>d. (td_twin d, td_version d)) ` set (db_decisions s) \<Longrightarrow>
    insert_decision d s = (Inr (), s\<lparr>db_decisions := db_decisions s @ [d]\<rparr>)"
  by (simp add: insert_decision_def prog_defs)

lemma save_decision_next:
  assumes row: "find_run twin s = Some row" and open_row: "\<not> tw_final row"
    and calculating: "tw_status row = ''decision_calculating''"
    and known: "decision \<in> {''green'', ''amber'', ''red''}"
  shows "store_next drift s (snd (save_decision e row decision report facts s))"
  unfolding store_next_def
proof
  assume ok: "store_ok s"
  let ?now = "env_clock e (db_ticks s)" and ?did = "''decision_'' @ env_uuid e (db_draws s)"
  let ?d = "decision_row row decision report facts ?did ?now"
  let ?row' = "with_decision row decision report facts ?now"
  let ?u = "s\<lparr>db_ticks := Suc (db_ticks s), db_draws := Suc (db_draws s), db_decisions := db_decisions s @ [?d]\<rparr>"
  have r: "row \<in> set (db_runs s)" "tw_id row = twin" using find_run_Some [OF row] by simp_all
  have "decisions_of twin s = []"
    using store_okD(6) [OF ok] r open_row by (auto simp: list_all_iff decision_ok_def)
  then have "\<forall>d \<in> set (db_decisions s). td_twin d \<noteq> twin" by (auto simp: decisions_of_def filter_empty_conv)
  then have free: "(td_twin ?d, td_version ?d) \<notin> (\<lambda>d. (td_twin d, td_version d)) ` set (db_decisions s)"
    by (auto simp: decision_row_def r)
  obtain x t where saved: "save_with_event e ?row' ''terminal_decision_persisted''
      ''Immutable namespace twin decision persisted.''
      [(''decision'', JStr decision), (''decision_version'', JInt (int (tw_version row))),
        (''report_hash'', JStr report)] ?u = (x, t)" by force
  then have result: "snd (save_decision e row decision report facts s) = t"
    using insert_free [of ?d "s\<lparr>db_ticks := Suc (db_ticks s), db_draws := Suc (db_draws s)\<rparr>"] free
    by (simp add: save_decision_def clock_bind fresh_bind seqp_def bind_def [of "insert_decision d" for d])
  from saved obtain ev where t: "db_runs t = map (\<lambda>r. if tw_id r = tw_id ?row' then ?row' else r) (db_runs ?u)"
    "db_events t = db_events ?u @ [ev]" "tv_twin ev = tw_id ?row'"
    "tv_sequence ev = last_sequence (tw_id ?row') ?u + 1" "db_decisions t = db_decisions ?u"
    "db_resources t = db_resources ?u" "db_edges t = db_edges ?u" "db_findings t = db_findings ?u"
    "db_deltas t = db_deltas ?u"
    by (rule decision_saved)
  have steps: "row_next drift row ?row'"
    using known open_row calculating
    by (auto simp: row_next_def request_of_def life_def allowed_def ALLOWED_TRANSITIONS_def
        TERMINAL_STATES_def with_decision_def)
  have d: "decided ?row' ?d" "td_twin ?d = twin"
    using known by (auto simp: decided_def with_decision_def decision_row_def r)
  have id: "tw_id ?row' = twin" and final: "tw_final ?row'" by (simp_all add: with_decision_def r)
  have "store_ok t \<and> evolves drift s t"
    by (rule decided_run [OF ok row open_row steps final d, of ev])
      (simp_all add: t id last_sequence_def events_of_def)
  then show "store_ok (snd (save_decision e row decision report facts s)) \<and>
      evolves drift s (snd (save_decision e row decision report facts s))"
    by (simp only: result)
qed

lemma moves_decide: "moves (store_next drift) (persist_terminal_decision e twin decision report facts)"
proof (cases "decision \<in> {''green'', ''amber'', ''red''}")
  case True
  have "moves (store_next drift) (bind (fetch twin) (\<lambda>row.
      if tw_final row then raise_err err
      else if tw_status row \<noteq> ''decision_calculating'' then raise_err err'
      else save_decision e row decision report facts))" for err err'
    by (rule moves_fetch) (use True save_decision_next in \<open>auto simp: raise_err_def stays\<close>)
  then show ?thesis
    using True by (simp only: persist_terminal_decision_def not_not if_False simp_thms moves_atomic)
next
  case False
  then show ?thesis by (simp add: persist_terminal_decision_def store_next.moves_raise)
qed

section \<open>Histories\<close>

fun op_ok :: "store_op \<Rightarrow> bool" where
  "op_ok (Create values resources es findings deltas) = starts_pending values"
| "op_ok _ = True"

text \<open>Operations other than the record of a material drift.\<close>

fun calm :: "store_op \<Rightarrow> bool" where
  "calm (Drift twin assessment actor) = (\<not> is_material assessment)"
| "calm _ = True"

lemma moves_op: "op_ok op \<Longrightarrow> drift \<or> calm op \<Longrightarrow> moves (store_next drift) (apply_op e op)"
  by (cases op) (simp_all add: moves_ignore moves_created moves_transitioned moves_cancel moves_append_event
      moves_merge_facts moves_link moves_drift moves_runtime moves_release_note moves_replay moves_recovered
      moves_expire moves_supersede moves_decide)

lemma history_next:
  assumes "list_all op_ok ops" and "drift \<or> list_all calm ops"
  shows "store_next drift s (run_ops e ops s)"
  using assms
proof (induction ops arbitrary: s)
  case (Cons op ops)
  have "store_next drift s (snd (apply_op e op s))"
    by (rule movesD [OF moves_op]) (use Cons.prems in auto)
  moreover have "store_next drift (snd (apply_op e op s)) (run_ops e ops (snd (apply_op e op s)))"
    by (rule Cons.IH) (use Cons.prems in auto)
  ultimately have "store_next drift s (run_ops e ops (snd (apply_op e op s)))"
    by (rule store_next.trans)
  then show ?case by (simp add: run_ops_def)
qed (simp add: run_ops_def stays)

lemma empty_ok: "store_ok empty_db"
  by (simp add: store_ok_def empty_db_def numbered_def events_of_def)

lemma history_ok: "list_all op_ok ops \<Longrightarrow> store_ok (run_ops e ops empty_db)"
  using history_next [of ops True empty_db e] empty_ok by (simp add: store_next_def)

lemma history_splits: "run_ops e (xs @ ys) s = run_ops e ys (run_ops e xs s)"
  by (simp add: run_ops_def)

lemma history_goes_on:
  assumes "list_all op_ok (before @ after)" and "drift \<or> list_all calm after"
  shows "evolves drift (run_ops e before empty_db) (run_ops e (before @ after) empty_db)"
  using history_next [of after drift "run_ops e before empty_db" e] history_ok [of before e] assms
  by (simp add: store_next_def history_splits)

text \<open>
  C8. A final decision stays. Whatever is done to the store after a twin was decided, the twin is still
  there with the same decision, version and report hash, it is still final and its state is that
  decision or superseded; its one decision record is still the only one and unchanged.
\<close>

theorem final_decision_is_immutable:
  assumes "list_all op_ok (before @ after)" and "r \<in> set (db_runs (run_ops e before empty_db))"
    and "tw_final r"
  shows "\<exists>r' \<in> set (db_runs (run_ops e (before @ after) empty_db)).
    tw_id r' = tw_id r \<and> tw_final r' \<and> tw_decision r' = tw_decision r \<and> tw_version r' = tw_version r \<and>
    tw_report_hash r' = tw_report_hash r \<and> tw_status r' \<in> {tw_decision r, ''superseded''} \<and>
    (\<exists>d. decisions_of (tw_id r) (run_ops e before empty_db) = [d] \<and>
      decisions_of (tw_id r) (run_ops e (before @ after) empty_db) = [d] \<and> td_decision d = tw_decision r)"
proof -
  let ?s = "run_ops e before empty_db" and ?t = "run_ops e (before @ after) empty_db"
  have step: "evolves True ?s ?t" using assms(1) by (intro history_goes_on) simp_all
  have ok: "store_ok ?s" "store_ok ?t" using assms(1) history_ok by auto
  obtain r' where r': "r' \<in> set (db_runs ?t)" "row_next True r r'"
    using step assms(2) by (auto simp: evolves_def)
  have "decision_ok ?s r" using store_okD(6) [OF ok(1)] assms(2) by (simp add: list_all_iff)
  then obtain d where d: "decisions_of (tw_id r) ?s = [d]" "decided r d"
    using assms(3) by (auto simp: decision_ok_def)
  have same: "tw_id r' = tw_id r" "tw_final r'" using r'(2) assms(3) by (simp_all add: row_next_def)
  have "decision_ok ?t r'" using store_okD(6) [OF ok(2)] r'(1) by (simp add: list_all_iff)
  then obtain d' where d': "decisions_of (tw_id r) ?t = [d']" "decided r' d'"
    using same by (auto simp: decision_ok_def)
  have "extends (db_decisions ?s) (db_decisions ?t)" using step by (simp add: evolves_def)
  then have "extends (decisions_of (tw_id r) ?s) (decisions_of (tw_id r) ?t)"
    by (auto simp: extends_def decisions_of_def)
  with d(1) d'(1) have "d' = d" by (auto simp: extends_def)
  with r' d d' assms(3) show ?thesis
    by (intro bexI [OF _ r'(1)]) (auto simp: row_next_def decided_def)
qed

lemma terminal_stops: "a \<in> set TERMINAL_STATES \<Longrightarrow> \<not> allowed a b"
  by (auto simp: TERMINAL_STATES_def allowed_def ALLOWED_TRANSITIONS_def)


text \<open>
  The events of every twin are numbered 1, 2, 3 and so on without a gap, in whatever order the
  operations on the twins come, and no event is lost or changed later.
\<close>

theorem twin_events_are_numbered:
  assumes "list_all op_ok (before @ after)"
  shows "map tv_sequence (events_of twin (run_ops e before empty_db)) =
      [1..<Suc (length (events_of twin (run_ops e before empty_db)))] \<and>
    (\<exists>later. events_of twin (run_ops e (before @ after) empty_db) =
      events_of twin (run_ops e before empty_db) @ later)"
proof -
  let ?s = "run_ops e before empty_db" and ?t = "run_ops e (before @ after) empty_db"
  have "store_ok ?s" using assms history_ok by auto
  moreover have "extends (db_events ?s) (db_events ?t)"
    using history_goes_on [of before after True e] assms by (simp add: evolves_def)
  then have "\<exists>later. events_of twin ?t = events_of twin ?s @ later"
    by (auto simp: extends_def events_of_def)
  ultimately show ?thesis by (simp add: store_ok_def numbered_def)
qed

text \<open>
  A request for a twin that is repeated, by the same actor for the same namespace with the same
  idempotency key, is answered with the twin that is there, whatever happened to it since, and
  changes nothing, whatever else the repetition brings along.
\<close>

theorem twin_creation_is_idempotent:
  assumes "list_all op_ok ops" and "r \<in> set (db_runs (run_ops e ops empty_db))"
    and "same_request values r"
  shows "create_run e values resources es findings deltas (run_ops e ops empty_db) =
    (Inr (r, False), run_ops e ops empty_db)"
proof -
  let ?s = "run_ops e ops empty_db"
  have "distinct (map request_of (db_runs ?s))" using history_ok [OF assms(1)] by (rule store_okD)
  then have "x = r" if "x \<in> set (db_runs ?s)" "same_request values x" for x
    using that assms(2,3) by (auto simp: distinct_map inj_on_def same_request_def request_of_def)
  moreover obtain x where "find (same_request values) (db_runs ?s) = Some x"
    using assms(2,3) by (cases "find (same_request values) (db_runs ?s)") (auto simp: find_None_iff)
  moreover from this have "x \<in> set (db_runs ?s)" "same_request values x" by (auto simp: find_Some_iff)
  ultimately have "find (same_request values) (db_runs ?s) = Some r" by blast
  then show ?thesis by (simp add: create_run_def atomic_def prog_defs)
qed

section \<open>A store with one twin\<close>

definition demo_run :: twin_run where
  "demo_run =
     \<lparr>tw_id = ''t'', tw_actor = ''a'', tw_key = ''k'', tw_display_name = ''d'', tw_status = ''requested'',
      tw_decision = ''pending'', tw_version = 1, tw_final = False, tw_source_type = ''local_path'',
      tw_source_value = ''/b'', tw_source_namespace = None, tw_cluster = ''c'', tw_namespace = ''ns'',
      tw_bundle_name = ''b'', tw_bundle_hash = ''h'', tw_release = None, tw_input_hash = ''i'',
      tw_report_hash = None, tw_policy_version = ''p'', tw_risk_version = ''r'', tw_facts = [],
      tw_actions = [], tw_row_version = 1, tw_created = 0, tw_updated = 0, tw_completed = None,
      tw_expires = None, tw_superseded_by = None\<rparr>"

text \<open>The twin is created and decided.\<close>

definition demo_before :: "store_op list" where
  "demo_before =
     [Create demo_run [] [] [] [],
      Transition ''t'' ''generating'' [] [], Transition ''t'' ''awaiting_dry_run'' [] [],
      Transition ''t'' ''decision_calculating'' [] [], Decide ''t'' ''amber'' ''report'' []]"

text \<open>Then its namespace drifts, and it is to be decided again.\<close>

definition demo_after :: "store_op list" where
  "demo_after =
     [Drift ''t'' [(''material'', JBool True)] ''a'', Decide ''t'' ''green'' ''other'' [],
      Cancel ''t'' ''a'']"

definition short_env :: env where
  "short_env = demo_env\<lparr>env_clock := (\<lambda>n. 0), env_uuid := (\<lambda>n. [])\<rparr>"

lemmas demo_evaluation = run_ops_def demo_before_def demo_after_def ignore_def create_run_def
  transition_def persist_terminal_decision_def save_decision_def insert_decision_def with_decision_def
  decision_row_def record_drift_def record_execution_link_def drifted_run_def drift_supersedes_def
  is_material_def cancel_def atomic_def prog_defs fetch_def empty_db_def find_run_def same_request_def
  children_unique_def save_with_event_def append_event_in_session_def fresh_id_def clock_def save_run_def
  moved_def with_facts_def last_sequence_def events_of_def allowed_def ALLOWED_TRANSITIONS_def
  TERMINAL_STATES_def ACTIVE_STATES_def demo_run_def get_or_null_def Let_def

lemma demo_before_states:
  "map (\<lambda>r. (tw_id r, tw_status r, tw_final r)) (db_runs (run_ops short_env demo_before empty_db)) =
     [(''t'', ''amber'', True)]"
  by (simp add: demo_evaluation)

lemma demo_after_states:
  "map (\<lambda>r. (tw_id r, tw_status r, tw_decision r))
     (db_runs (run_ops short_env (demo_before @ demo_after) empty_db)) = [(''t'', ''superseded'', ''amber'')]"
  by (simp add: demo_evaluation)

lemma demo_ops_ok:
  "list_all op_ok (demo_before @ demo_after)" "list_all op_ok demo_before" "list_all calm []"
  by (simp_all add: demo_before_def demo_after_def starts_pending_def demo_run_def)

lemma demo_decided:
  obtains r where "r \<in> set (db_runs (run_ops short_env demo_before empty_db))" "tw_id r = ''t''"
    "tw_status r = ''amber''" "tw_final r"
  using demo_before_states by (cases "db_runs (run_ops short_env demo_before empty_db)") auto

theorem final_decision_is_immutable_witness:
  "\<exists>r \<in> set (db_runs (run_ops short_env demo_before empty_db)). tw_final r \<and>
     (\<exists>r' \<in> set (db_runs (run_ops short_env (demo_before @ demo_after) empty_db)).
        tw_id r' = tw_id r \<and> tw_decision r' = tw_decision r)"
proof -
  obtain r where r: "r \<in> set (db_runs (run_ops short_env demo_before empty_db))" "tw_final r"
    by (rule demo_decided)
  from final_decision_is_immutable [OF demo_ops_ok(1) r] r show ?thesis by blast
qed


theorem twin_events_are_numbered_witness:
  "map tv_sequence (events_of ''t'' (run_ops short_env demo_before empty_db)) =
     [1..<Suc (length (events_of ''t'' (run_ops short_env demo_before empty_db)))]"
  using twin_events_are_numbered [OF demo_ops_ok(1), of "''t''" short_env] by (rule conjunct1)

theorem twin_creation_is_idempotent_witness:
  "\<exists>r \<in> set (db_runs (run_ops short_env [Create demo_run [] [] [] []] empty_db)).
     create_run short_env (demo_run\<lparr>tw_id := ''u'', tw_bundle_hash := ''other''\<rparr>) [] [] [] []
       (run_ops short_env [Create demo_run [] [] [] []] empty_db) =
     (Inr (r, False), run_ops short_env [Create demo_run [] [] [] []] empty_db)"
proof -
  have "list_all op_ok [Create demo_run [] [] [] []]" by (simp add: starts_pending_def demo_run_def)
  moreover have "demo_run \<in> set (db_runs (run_ops short_env [Create demo_run [] [] [] []] empty_db))"
    by (simp add: run_ops_def ignore_def create_run_def atomic_def prog_defs empty_db_def find_run_def
        children_unique_def append_event_in_session_def fresh_id_def clock_def Let_def)
  moreover have "same_request (demo_run\<lparr>tw_id := ''u'', tw_bundle_hash := ''other''\<rparr>) demo_run"
    by (simp add: same_request_def)
  ultimately show ?thesis using twin_creation_is_idempotent by blast
qed

section \<open>What the store does not guard\<close>

text \<open>
  Facts of a decided twin still change: linking an execution, or recording any of the later analyses,
  does not look at the state of the run. And a transition, unlike a decision, may put a twin that is
  being calculated into the state green with no decision and no decision record.
\<close>

lemma facts_of_a_decided_twin_change:
  "map (\<lambda>r. (tw_status r, tw_final r, dict_get (tw_facts r) ''execution_id''))
     (db_runs (run_ops short_env (demo_before @ [Link_execution ''t'' [(''execution_id'', JStr ''x'')] ''a'']) empty_db)) =
   [(''amber'', True, Some (JStr ''x''))]"
  by (simp add: demo_evaluation dict_simps text_or_def json_or_def)

lemma green_without_a_decision:
  "map (\<lambda>r. (tw_status r, tw_final r, tw_decision r))
     (db_runs (run_ops short_env (butlast demo_before @ [Transition ''t'' ''green'' [] []]) empty_db)) =
   [(''green'', False, ''pending'')]"
  by (simp add: demo_evaluation)

section \<open>How often a twin can change its state\<close>

text \<open>The states that are still ahead, also with the one step that drift adds to the table.\<close>

definition states_ahead :: "string option \<Rightarrow> nat" where
  "states_ahead status =
     (if status = None then 7
      else if status = Some ''superseded'' then 0
      else case dict_get [(''requested'', 6), (''generating'', 5), (''awaiting_dry_run'', 4),
          (''dry_run_evidence_attached'', 3), (''decision_calculating'', 2)] (the status) of
        None \<Rightarrow> 1 | Some n \<Rightarrow> n)"

definition status_in :: "string \<Rightarrow> twin_db \<Rightarrow> string option" where
  "status_in twin db = map_option tw_status (find_run twin db)"

definition statuses :: "env \<Rightarrow> store_op list \<Rightarrow> string \<Rightarrow> string option list" where
  "statuses e ops twin = map (\<lambda>n. status_in twin (run_ops e (take n ops) empty_db)) [0..<Suc (length ops)]"

lemma states_ahead_bound: "states_ahead status \<le> 7"
  by (simp add: states_ahead_def)

lemma table_goes_down:
  "list_all (\<lambda>(a, bs). list_all (\<lambda>b. states_ahead (Some b) < states_ahead (Some a)) bs) ALLOWED_TRANSITIONS"
  by code_simp

lemma allowed_goes_down:
  assumes "allowed a b"
  shows "states_ahead (Some b) < states_ahead (Some a)"
proof -
  from assms obtain bs where "(a, bs) \<in> set ALLOWED_TRANSITIONS" "b \<in> set bs"
    by (cases "dict_get ALLOWED_TRANSITIONS a") (auto simp: allowed_def dest: map_of_SomeD)
  with table_goes_down show ?thesis by (force simp: list_all_iff)
qed

lemma life_goes_down: "(a, b) \<in> life drift \<Longrightarrow> a = b \<or> states_ahead (Some b) < states_ahead (Some a)"
  by (auto simp: life_def dest: allowed_goes_down) (auto simp: states_ahead_def split: option.splits if_splits)

lemma life_path_goes_down:
  "(a, b) \<in> (life drift)\<^sup>* \<Longrightarrow> a = b \<or> states_ahead (Some b) < states_ahead (Some a)"
  by (induction rule: rtrancl_induct) (auto dest: life_goes_down)

lemma remdups_adj_descending:
  assumes "\<And>n. Suc n < length xs \<Longrightarrow> xs ! n = xs ! Suc n \<or> f (xs ! Suc n) < (f (xs ! n) :: nat)"
    and "xs \<noteq> []"
  shows "length (remdups_adj xs) \<le> Suc (f (hd xs))"
  using assms
proof (induction xs rule: remdups_adj.induct)
  case (3 x y xs)
  have desc: "Suc n < length (y # xs) \<Longrightarrow> (y # xs) ! n = (y # xs) ! Suc n \<or> f ((y # xs) ! Suc n) < f ((y # xs) ! n)" for n
    using "3.prems"(1) [of "Suc n"] by simp
  have "x = y \<or> f y < f x" using "3.prems"(1) [of 0] by simp
  moreover have "length (remdups_adj (y # xs)) \<le> Suc (f y)"
    using "3.IH" desc by (cases "x = y") auto
  ultimately show ?case by (cases "x = y") auto
qed simp_all

lemma find_run_stored: "store_ok s \<Longrightarrow> r \<in> set (db_runs s) \<Longrightarrow> find_run (tw_id r) s = Some r"
  by (cases "find_run (tw_id r) s")
    (auto simp: store_ok_def find_run_def find_None_iff find_Some_iff distinct_map dest!: inj_onD)

lemma status_step:
  fixes e :: env
  assumes "list_all op_ok (before @ [op])"
  defines "s \<equiv> run_ops e before empty_db" and "t \<equiv> run_ops e (before @ [op]) empty_db"
  shows "status_in twin s = status_in twin t \<or> states_ahead (status_in twin t) < states_ahead (status_in twin s)"
proof (cases "find_run twin s")
  case None
  then show ?thesis
    by (cases "find_run twin t") (auto simp: status_in_def states_ahead_def split: option.splits)
next
  case (Some r)
  have ok: "store_ok t" unfolding t_def using assms(1) by (rule history_ok)
  have "evolves True s t" unfolding s_def t_def using assms(1) by (intro history_goes_on) simp_all
  moreover have r: "r \<in> set (db_runs s)" "tw_id r = twin" using find_run_Some [OF Some] by auto
  ultimately obtain r' where r': "r' \<in> set (db_runs t)" "row_next True r r'" by (auto simp: evolves_def)
  have "find_run twin t = Some r'"
    using find_run_stored [OF ok r'(1)] r'(2) r(2) by (simp add: row_next_def)
  then show ?thesis
    using life_path_goes_down [of "tw_status r" "tw_status r'" True] r'(2) Some
    by (auto simp: status_in_def row_next_def)
qed

text \<open>
  C19. Every twin settles: whatever operations come, in whatever order and however many, a twin passes
  through at most eight states, the one before its creation and a supersession by drift included; so only
  finitely many of the operations change its state.
\<close>

theorem every_twin_settles:
  assumes "list_all op_ok ops"
  shows "length (remdups_adj (statuses e ops twin)) \<le> 8"
proof -
  let ?xs = "statuses e ops twin"
  have "?xs ! n = ?xs ! Suc n \<or> states_ahead (?xs ! Suc n) < states_ahead (?xs ! n)"
    if n: "Suc n < length ?xs" for n
  proof -
    from n have "take (Suc n) ops = take n ops @ [ops ! n]" by (simp add: statuses_def take_Suc_conv_app_nth)
    moreover from this have "list_all op_ok (take n ops @ [ops ! n])"
      using assms by (metis list_all_append append_take_drop_id)
    ultimately show ?thesis
      using status_step [of "take n ops" "ops ! n" twin e] n by (simp add: statuses_def del: upt_Suc)
  qed
  moreover have "?xs \<noteq> []" by (simp add: statuses_def del: upt_Suc)
  ultimately have "length (remdups_adj ?xs) \<le> Suc (states_ahead (hd ?xs))"
    by (rule remdups_adj_descending)
  also have "\<dots> \<le> 8" using states_ahead_bound [of "hd ?xs"] by simp
  finally show ?thesis .
qed

theorem every_twin_settles_witness:
  "length (remdups_adj (statuses short_env (demo_before @ demo_after) ''t'')) \<le> 8 \<and>
     status_in ''t'' (run_ops short_env (demo_before @ demo_after) empty_db) = Some ''superseded''"
proof
  show "length (remdups_adj (statuses short_env (demo_before @ demo_after) ''t'')) \<le> 8"
    by (rule every_twin_settles [OF demo_ops_ok(1)])
  show "status_in ''t'' (run_ops short_env (demo_before @ demo_after) empty_db) = Some ''superseded''"
    using demo_after_states by (auto simp: status_in_def find_run_def map_eq_Cons_conv)
qed
end
