(* ===== verification/TwinDrift.thy ===== *)
theory TwinDrift
  imports TwinGraph TwinStore
begin

text \<open>
  The drift twin (\<open>namespace_twin/drift_twin.py\<close>): the resources of a namespace captured as a
  baseline, compared with a later capture. A baseline that is read back from the tables is the
  capture that was stored; instants stand for their ISO texts, which \<open>env_isoformat\<close> writes.
\<close>

section \<open>Constants\<close>

definition DRIFT_RULES_VERSION :: string where
  "DRIFT_RULES_VERSION = ''namespace-twin-drift-1.0.0''"

definition DEFAULT_FRESHNESS_THRESHOLD_SECONDS :: int where
  "DEFAULT_FRESHNESS_THRESHOLD_SECONDS = 900"

definition DRIFT_CLUSTER_KINDS :: "string list" where
  "DRIFT_CLUSTER_KINDS =
     [''ClusterRole'', ''ClusterRoleBinding'', ''CustomResourceDefinition'', ''Namespace'', ''Node'',
      ''PersistentVolume'', ''StorageClass'', ''MutatingWebhookConfiguration'',
      ''ValidatingWebhookConfiguration'']"

definition DRIFT_WORKLOAD_KINDS :: "string list" where
  "DRIFT_WORKLOAD_KINDS = [''Deployment'', ''StatefulSet'', ''DaemonSet'', ''Job'', ''CronJob'', ''Pod'']"

definition SAFETY_KEYS :: "string list" where
  "SAFETY_KEYS =
     [''hostNetwork'', ''hostPID'', ''hostIPC'', ''hostPath'', ''privileged'', ''runAsUser'', ''runAsNonRoot'',
      ''serviceAccountName'', ''allowPrivilegeEscalation'', ''capabilities'']"

definition DRIFT_LEVEL :: "nat dict" where
  "DRIFT_LEVEL = [(''none'', 0), (''minor'', 1), (''major'', 2), (''critical'', 3), (''unknown'', 4)]"

definition level_of :: "string \<Rightarrow> nat" where
  "level_of s = the (dict_get DRIFT_LEVEL s)"

section \<open>Data\<close>

record drift_resource =
  dw_identity :: string
  dw_api_version :: json
  dw_kind :: json
  dw_namespace :: json
  dw_name :: json
  dw_canonical :: "json dict"
  dw_canonical_hash :: string
  dw_health :: "json dict"
  dw_health_hash :: string
  dw_safety_hash :: string
  dw_helm_release :: json
  dw_helm_revision :: "string option"

record drift_capture =
  cap_at :: instant
  cap_hash :: string
  cap_available :: bool
  cap_complete_kinds :: "string list"
  cap_resources :: "drift_resource dict"
  cap_evidence_refs :: "string list"
  cap_warning :: "string option"
  cap_threshold :: int

record drift_axes =
  dx_spec :: bool
  dx_policy_boundary :: bool
  dx_target :: bool
  dx_helm_revision :: bool
  dx_safety_control :: bool
  dx_manual_patch :: bool

record drift_change =
  dg_id :: string
  dg_identity :: string
  dg_kind :: string
  dg_namespace :: "string option"
  dg_name :: json
  dg_type :: string
  dg_classification :: string
  dg_summary :: string
  dg_axes :: drift_axes
  dg_before :: "string option"
  dg_after :: "string option"
  dg_evidence :: json

record drift_assessment =
  da_status :: string
  da_baseline :: drift_capture
  da_current :: drift_capture
  da_freshness :: string
  da_age :: int
  da_changes :: "drift_change list"
  da_counts :: "int dict"
  da_helm_drift :: bool
  da_manual :: "string list"
  da_health :: "string list"
  da_material :: bool
  da_disabled :: bool
  da_invalidated :: bool
  da_summary :: string
  da_evidence_refs :: "string list"

section \<open>Resources of a capture\<close>

text \<open>\<open>a or b or c\<close>\<close>

definition first_of :: "json list \<Rightarrow> json" where
  "first_of vs = (case vs of [] \<Rightarrow> JNull | v # rest \<Rightarrow> foldl json_or v rest)"

definition health_signature :: "json dict \<Rightarrow> json dict \<Rightarrow> json dict" where
  "health_signature resource summary =
     (let status = obj_items (get_or_null resource ''status'') in
      [(''phase'', first_of [get_or_null status ''phase'', get_or_null summary ''phase'',
          get_or_null summary ''status'']),
       (''ready'', first_of [get_or_null summary ''ready'', get_or_null summary ''ready_replicas'',
          get_or_null status ''readyReplicas'']),
       (''replicas'', first_of [get_or_null summary ''replicas'', get_or_null status ''replicas'']),
       (''restarts'', first_of [get_or_null summary ''restarts'', get_or_null summary ''restart_count''])])"

definition is_void :: "json \<Rightarrow> bool" where
  "is_void v \<longleftrightarrow> v \<in> {JObj [], JArr [], JNull}"

function extract_safety :: "json \<Rightarrow> json" where
  "extract_safety (JObj d) =
     JObj (concat (map (\<lambda>kv.
       if fst kv \<in> set SAFETY_KEYS then [kv]
       else let nested = extract_safety (snd kv) in if is_void nested then [] else [(fst kv, nested)]) d))"
| "extract_safety (JArr xs) = JArr (filter (\<lambda>v. \<not> is_void v) (map extract_safety xs))"
| "extract_safety (JStr s) = JNull"
| "extract_safety JNull = JNull"
| "extract_safety (JBool b) = JNull"
| "extract_safety (JInt n) = JNull"
  by pat_completeness auto
termination
proof (relation "measure size")
  fix d :: "json dict" and x assume "x \<in> set d"
  then have "size (snd x) < Suc (size_list (size_prod (\<lambda>_. 0) size) d)"
    by (induction d) (auto simp: less_Suc_eq_le)
  then show "(snd x, JObj d) \<in> measure size" by simp
qed (auto simp: less_Suc_eq_le intro: size_list_estimation')

definition drift_resource_of :: "env \<Rightarrow> string \<Rightarrow> json \<Rightarrow> py_error + drift_resource" where
  "drift_resource_of e ns v =
     (case v of
        JObj resource \<Rightarrow>
          (let canonical = canonicalize_kubernetes_object (dict_pop ''summary'' resource);
               metadata = metadata_of resource;
               summary = obj_items (get_or_null resource ''summary'');
               health = health_signature resource summary in
           sbind (py_dict (get_or_null metadata ''annotations'')) (\<lambda>annotations.
           let released = get_or_null annotations ''meta.helm.sh/release-name'' in
           sbind (if truthy released then Inr released
             else sbind (py_dict (get_or_null metadata ''labels'')) (\<lambda>labels.
               Inr (first_of [get_or_null labels ''app.kubernetes.io/instance'', get_or_null summary ''release''])))
             (\<lambda>release.
           let revision = first_of [get_or_null annotations ''meta.helm.sh/release-revision'',
                 get_or_null summary ''revision'', get_or_null summary ''helm_revision''] in
           Inr \<lparr>dw_identity = resource_identity resource (Some ns),
             dw_api_version = get_or_null resource ''apiVersion'', dw_kind = get_or_null resource ''kind'',
             dw_namespace = json_or (get_or_null metadata ''namespace'') (JStr ns),
             dw_name = get_or_null metadata ''name'', dw_canonical = canonical,
             dw_canonical_hash = plain_hash e (JObj canonical), dw_health = health,
             dw_health_hash = plain_hash e (JObj health),
             dw_safety_hash = plain_hash e (extract_safety (JObj canonical)),
             dw_helm_release = release,
             dw_helm_revision = (if revision = JNull then None else Some (py_str revision))\<rparr>)))
      | _ \<Rightarrow> Inl (AttributeError ''pop''))"

definition resource_map :: "env \<Rightarrow> string \<Rightarrow> json list \<Rightarrow> py_error + drift_resource dict" where
  "resource_map e ns resources =
     sbind (each_item (drift_resource_of e ns) resources) (\<lambda>rows.
     Inr (fold (\<lambda>row. dict_set (dw_identity row) row) rows []))"

definition drift_resource_json :: "drift_resource \<Rightarrow> json" where
  "drift_resource_json r = JObj
     [(''resource_identity'', JStr (dw_identity r)), (''api_version'', dw_api_version r),
      (''kind'', dw_kind r), (''namespace'', dw_namespace r), (''name'', dw_name r),
      (''canonical'', JObj (dw_canonical r)), (''canonical_hash'', JStr (dw_canonical_hash r)),
      (''health'', JObj (dw_health r)), (''health_hash'', JStr (dw_health_hash r)),
      (''safety_hash'', JStr (dw_safety_hash r)), (''helm_release'', dw_helm_release r),
      (''helm_revision'', optional JStr (dw_helm_revision r)), (''redacted'', JBool True)]"

definition resources_json :: "drift_resource dict \<Rightarrow> json" where
  "resources_json rows = JObj (map (\<lambda>(k, r). (k, drift_resource_json r)) rows)"

definition capture_baseline :: "env \<Rightarrow> live_snapshot \<Rightarrow> instant \<Rightarrow> string \<Rightarrow> int \<Rightarrow> py_error + drift_capture" where
  "capture_baseline e snapshot captured ns threshold =
     sbind (resource_map e ns (lv_resources snapshot)) (\<lambda>rows.
     Inr \<lparr>cap_at = captured, cap_hash = plain_hash e (resources_json rows),
       cap_available = lv_available snapshot,
       cap_complete_kinds = sort (remdups (lv_complete_kinds snapshot)), cap_resources = rows,
       cap_evidence_refs = lv_evidence_refs snapshot, cap_warning = lv_warning snapshot,
       cap_threshold = max 1 threshold\<rparr>)"

section \<open>Changes\<close>

definition drift_axes_of ::
    "drift_resource option \<Rightarrow> drift_resource option \<Rightarrow> string \<Rightarrow> string \<Rightarrow> string \<Rightarrow> json \<Rightarrow> string \<Rightarrow> drift_axes" where
  "drift_axes_of old new kind namespace change_type release target =
     \<lparr>dx_spec = change_type \<in> {''created'', ''updated'', ''deleted''},
      dx_policy_boundary = kind \<in> set DRIFT_CLUSTER_KINDS \<or> namespace \<notin> {[], target} \<or> kind = ''Secret'',
      dx_target = namespace \<notin> {[], target},
      dx_helm_revision = (case (old, new) of
        (Some a, Some b) \<Rightarrow> dw_helm_revision a \<noteq> dw_helm_revision b | _ \<Rightarrow> False),
      dx_safety_control = ((case (old, new) of
        (Some a, Some b) \<Rightarrow> dw_safety_hash a \<noteq> dw_safety_hash b | _ \<Rightarrow> False) \<or>
        kind \<in> {''Role'', ''RoleBinding'', ''ClusterRole'', ''ClusterRoleBinding''}),
      dx_manual_patch = (change_type \<in> {''created'', ''updated''} \<and> \<not> truthy release)\<rparr>"

definition classification_of :: "drift_axes \<Rightarrow> string \<Rightarrow> string \<Rightarrow> string" where
  "classification_of axes change_type kind =
     (if dx_policy_boundary axes \<or> dx_target axes \<or> dx_safety_control axes then ''critical''
      else if change_type = ''deleted'' \<or> dx_helm_revision axes \<or> kind \<in> set DRIFT_WORKLOAD_KINDS then ''major''
      else ''minor'')"

definition sample_of :: "drift_resource option \<Rightarrow> drift_resource option \<Rightarrow> (drift_resource \<Rightarrow> json) \<Rightarrow> json" where
  "sample_of old new field =
     (case new of Some r \<Rightarrow> field r | None \<Rightarrow> (case old of Some r \<Rightarrow> field r | None \<Rightarrow> JNull))"

definition drift_change_of ::
    "env \<Rightarrow> string \<Rightarrow> drift_resource option \<Rightarrow> drift_resource option \<Rightarrow> string \<Rightarrow> string \<Rightarrow> instant \<Rightarrow> drift_change" where
  "drift_change_of e identity old new change_type target captured =
     (let kind = text_or (sample_of old new dw_kind) ''Unknown'';
          namespace = text_or (sample_of old new dw_namespace) [];
          axes = drift_axes_of old new kind namespace change_type (sample_of old new dw_helm_release) target;
          digest = take 24 (env_sha256 e (identity @ '':'' @ change_type)) in
      \<lparr>dg_id = ''drift_'' @ digest, dg_identity = identity, dg_kind = kind,
       dg_namespace = (if namespace = [] then None else Some namespace),
       dg_name = sample_of old new dw_name,
       dg_type = (if dx_helm_revision axes then ''helm_revision'' else change_type),
       dg_classification = classification_of axes change_type kind,
       dg_summary = kind @ ''/'' @ text_or (sample_of old new dw_name) ''unknown'' @ '' was '' @
         str_replace ''_'' '' '' change_type @ ''.'',
       dg_axes = axes, dg_before = map_option dw_canonical_hash old,
       dg_after = map_option dw_canonical_hash new,
       dg_evidence = JArr [JObj
         [(''evidence_id'', JStr (''evidence_'' @ digest)), (''source_type'', JStr ''live_snapshot''),
          (''summary'', JStr (''Read-only drift comparison for '' @ identity @ ''.'')),
          (''captured_at'', JStr (env_isoformat e captured)), (''redacted'', JBool True)]]\<rparr>)"

text \<open>What became of a resource: the kind of its change, if there is one.\<close>

definition change_kind :: "drift_resource option \<Rightarrow> drift_resource option \<Rightarrow> string option" where
  "change_kind old new =
     (case (old, new) of
        (None, _) \<Rightarrow> Some ''created''
      | (Some a, None) \<Rightarrow> Some ''deleted''
      | (Some a, Some b) \<Rightarrow>
          if dw_canonical_hash a \<noteq> dw_canonical_hash b then Some ''updated''
          else if dw_health_hash a \<noteq> dw_health_hash b then Some ''status_only''
          else None)"

definition drift_changes :: "env \<Rightarrow> drift_capture \<Rightarrow> drift_capture \<Rightarrow> string \<Rightarrow> drift_change list" where
  "drift_changes e baseline current target =
     concat (map (\<lambda>identity.
       let old = dict_get (cap_resources baseline) identity; new = dict_get (cap_resources current) identity in
       case change_kind old new of
         None \<Rightarrow> []
       | Some change_type \<Rightarrow> [drift_change_of e identity old new change_type target (cap_at current)])
     (sort (remdups (dict_keys (cap_resources baseline) @ dict_keys (cap_resources current)))))"

section \<open>The assessment\<close>

definition drift_summary :: "string \<Rightarrow> nat \<Rightarrow> bool \<Rightarrow> string" where
  "drift_summary status changed invalidated =
     (if status = ''none'' then ''No drift was detected against the persisted namespace baseline.''
      else if status = ''unknown''
      then ''Drift could not be determined from complete read-only snapshot evidence.''
      else ''Detected '' @ nat_str changed @ '' changed resource(s); overall drift is '' @ status @ ''.'' @
        (if invalidated then '' The prior execution decision is superseded.'' else []))"

definition level_count :: "drift_change list \<Rightarrow> string \<Rightarrow> int" where
  "level_count changes level = int (length (filter (\<lambda>c. dg_classification c = level) changes))"

definition drift_assessment_of ::
    "drift_capture \<Rightarrow> drift_capture \<Rightarrow> drift_change list \<Rightarrow> string \<Rightarrow> string \<Rightarrow> int \<Rightarrow> bool \<Rightarrow> drift_assessment" where
  "drift_assessment_of baseline current changes status freshness age invalidated =
     (let material = status \<in> {''major'', ''critical''} in
      \<lparr>da_status = status, da_baseline = baseline, da_current = current, da_freshness = freshness,
       da_age = age, da_changes = changes,
       da_counts = (''total'', int (length changes)) #
         map (\<lambda>level. (level, level_count changes level)) [''minor'', ''major'', ''critical'', ''unknown''],
       da_helm_drift = list_ex (\<lambda>c. dx_helm_revision (dg_axes c)) changes,
       da_manual = map dg_identity (filter (\<lambda>c. dx_manual_patch (dg_axes c)) changes),
       da_health = map dg_summary (filter (\<lambda>c. dg_type c = ''status_only'') changes),
       da_material = material, da_disabled = (material \<or> status = ''unknown'' \<or> freshness = ''stale''),
       da_invalidated = invalidated, da_summary = drift_summary status (length changes) invalidated,
       da_evidence_refs = sort (remdups (cap_evidence_refs baseline @ cap_evidence_refs current))\<rparr>)"

definition initial_drift_assessment :: "drift_capture \<Rightarrow> drift_assessment" where
  "initial_drift_assessment baseline =
     drift_assessment_of baseline baseline [] (if cap_available baseline then ''none'' else ''unknown'')
       ''fresh'' 0 False"

text \<open>The worst level among the changes.\<close>

definition worst_level :: "drift_change list \<Rightarrow> string" where
  "worst_level changes =
     foldl (\<lambda>status c. if level_of status < level_of (dg_classification c) then dg_classification c else status)
       ''none'' changes"

definition drift_age :: "drift_capture \<Rightarrow> drift_capture \<Rightarrow> int" where
  "drift_age baseline current = max 0 ((cap_at current - cap_at baseline) div seconds 1)"

definition threshold_of :: "drift_capture \<Rightarrow> int" where
  "threshold_of baseline =
     (if cap_threshold baseline = 0 then DEFAULT_FRESHNESS_THRESHOLD_SECONDS else cap_threshold baseline)"

definition freshness_of :: "drift_capture \<Rightarrow> drift_capture \<Rightarrow> string" where
  "freshness_of baseline current =
     (if threshold_of baseline < drift_age baseline current then ''stale'' else ''fresh'')"

definition assess_drift ::
    "env \<Rightarrow> drift_capture \<Rightarrow> live_snapshot \<Rightarrow> instant \<Rightarrow> string \<Rightarrow> py_error + drift_assessment" where
  "assess_drift e baseline snapshot captured target =
     sbind (capture_baseline e snapshot captured target (threshold_of baseline)) (\<lambda>current.
     let age = drift_age baseline current; freshness = freshness_of baseline current in
     if \<not> cap_available baseline \<or> \<not> cap_available current
     then Inr (drift_assessment_of baseline current [] ''unknown'' freshness age False)
     else
       let changes = drift_changes e baseline current target;
           worst = worst_level changes;
           status = (if freshness = ''stale'' \<and> worst = ''none'' then ''minor'' else worst) in
       Inr (drift_assessment_of baseline current changes status freshness age
         (status \<in> {''major'', ''critical''})))"

text \<open>The assessment as it is stored.\<close>

definition capture_json :: "env \<Rightarrow> drift_capture \<Rightarrow> json dict" where
  "capture_json e c =
     [(''captured_at'', JStr (env_isoformat e (cap_at c))), (''hash'', JStr (cap_hash c)),
      (''available'', JBool (cap_available c)), (''resource_count'', JInt (int (length (cap_resources c)))),
      (''complete_kinds'', JArr (map JStr (cap_complete_kinds c))), (''warning'', optional JStr (cap_warning c))]"

definition drift_axes_json :: "drift_axes \<Rightarrow> json" where
  "drift_axes_json x = JObj
     [(''spec'', JBool (dx_spec x)), (''policy_boundary'', JBool (dx_policy_boundary x)),
      (''target'', JBool (dx_target x)), (''helm_revision'', JBool (dx_helm_revision x)),
      (''safety_control'', JBool (dx_safety_control x)), (''manual_patch'', JBool (dx_manual_patch x))]"

definition drift_change_json :: "drift_change \<Rightarrow> json" where
  "drift_change_json c = JObj
     [(''change_id'', JStr (dg_id c)), (''resource_identity'', JStr (dg_identity c)),
      (''kind'', JStr (dg_kind c)), (''namespace'', optional JStr (dg_namespace c)), (''name'', dg_name c),
      (''change_type'', JStr (dg_type c)), (''classification'', JStr (dg_classification c)),
      (''summary'', JStr (dg_summary c)), (''axes'', drift_axes_json (dg_axes c)),
      (''before_hash'', optional JStr (dg_before c)), (''after_hash'', optional JStr (dg_after c)),
      (''evidence_refs'', dg_evidence c)]"

definition drift_assessment_json :: "env \<Rightarrow> drift_assessment \<Rightarrow> json dict" where
  "drift_assessment_json e a =
     [(''status'', JStr (da_status a)),
      (''snapshot'', JObj (take 2 (capture_json e (da_baseline a)))),
      (''baseline'', JObj (capture_json e (da_baseline a))),
      (''current_capture'', JObj (capture_json e (da_current a))),
      (''freshness_threshold_seconds'', JInt (threshold_of (da_baseline a))),
      (''freshness'', JObj [(''status'', JStr (da_freshness a)), (''age_seconds'', JInt (da_age a))]),
      (''changes'', JArr (map drift_change_json (da_changes a))),
      (''change_counts'', JObj (map (\<lambda>(k, n). (k, JInt n)) (da_counts a))),
      (''helm_revision_drift'', JBool (da_helm_drift a)),
      (''manual_patch_indicators'', JArr (map JStr (da_manual a))),
      (''health_changes'', JArr (map JStr (da_health a))),
      (''material'', JBool (da_material a)), (''execution_disabled'', JBool (da_disabled a)),
      (''decision_invalidated'', JBool (da_invalidated a)),
      (''rules_version'', JStr DRIFT_RULES_VERSION), (''model_authority'', JBool False),
      (''summary'', JStr (da_summary a)),
      (''evidence_refs'', JArr (map JStr (da_evidence_refs a)))]"

section \<open>Exactness\<close>

lemma change_class: "dg_classification (drift_change_of e i old new t ns now) \<in> {''critical'', ''major'', ''minor''}"
  by (simp add: drift_change_of_def Let_def classification_of_def)

lemma worst_level_cases:
  assumes "list_all (\<lambda>c. dg_classification c \<in> {''critical'', ''major'', ''minor''}) cs"
  shows "worst_level cs =
    (if list_ex (\<lambda>c. dg_classification c = ''critical'') cs then ''critical''
     else if list_ex (\<lambda>c. dg_classification c = ''major'') cs then ''major''
     else if cs = [] then ''none'' else ''minor'')"
  using assms
  by (induction cs rule: rev_induct) (auto simp: worst_level_def level_of_def DRIFT_LEVEL_def)

text \<open>What a comparison looks at in a resource.\<close>

definition fingerprints :: "drift_resource \<Rightarrow> string \<times> string" where
  "fingerprints r = (dw_canonical_hash r, dw_health_hash r)"

lemma change_kind_None:
  "change_kind old new = None \<longleftrightarrow> old \<noteq> None \<and> map_option fingerprints old = map_option fingerprints new"
  by (auto simp: change_kind_def fingerprints_def split: option.splits)

lemma changes_identities:
  "map dg_identity (drift_changes e baseline current ns) =
     filter (\<lambda>i. map_option fingerprints (dict_get (cap_resources baseline) i) \<noteq>
         map_option fingerprints (dict_get (cap_resources current) i))
       (sort (remdups (dict_keys (cap_resources baseline) @ dict_keys (cap_resources current))))"
proof -
  let ?keys = "sort (remdups (dict_keys (cap_resources baseline) @ dict_keys (cap_resources current)))"
  let ?old = "dict_get (cap_resources baseline)" and ?new = "dict_get (cap_resources current)"
  have differs: "change_kind (?old i) (?new i) \<noteq> None \<longleftrightarrow>
      map_option fingerprints (?old i) \<noteq> map_option fingerprints (?new i)" if "i \<in> set ?keys" for i
  proof -
    have "?old i \<noteq> None \<or> ?new i \<noteq> None"
      using that by (auto simp: map_of_eq_None_iff)
    then show ?thesis by (auto simp: change_kind_None)
  qed
  have "map dg_identity (concat (map (\<lambda>identity.
        let old = ?old identity; new = ?new identity in
        case change_kind old new of
          None \<Rightarrow> []
        | Some t \<Rightarrow> [drift_change_of e identity old new t ns (cap_at current)]) keys)) =
      filter (\<lambda>i. change_kind (?old i) (?new i) \<noteq> None) keys" for keys
    by (induction keys) (auto simp: Let_def drift_change_of_def split: option.splits)
  then have "map dg_identity (drift_changes e baseline current ns) =
      filter (\<lambda>i. change_kind (?old i) (?new i) \<noteq> None) ?keys"
    unfolding drift_changes_def .
  also have "\<dots> = filter (\<lambda>i. map_option fingerprints (?old i) \<noteq> map_option fingerprints (?new i)) ?keys"
    by (rule filter_cong [OF refl differs])
  finally show ?thesis .
qed

lemma changes_classes:
  "list_all (\<lambda>c. dg_classification c \<in> {''critical'', ''major'', ''minor''}) (drift_changes e baseline current ns)"
  unfolding list_all_iff
proof
  fix c assume "c \<in> set (drift_changes e baseline current ns)"
  then obtain i old new t now where "c = drift_change_of e i old new t ns now"
    by (auto simp: drift_changes_def Let_def split: option.splits)
  then show "dg_classification c \<in> {''critical'', ''major'', ''minor''}" by (simp only: change_class)
qed

definition is_material_change :: "drift_change \<Rightarrow> bool" where
  "is_material_change c \<longleftrightarrow> dg_classification c \<in> {''major'', ''critical''}"

lemma worst_material:
  assumes "list_all (\<lambda>c. dg_classification c \<in> {''critical'', ''major'', ''minor''}) cs"
  shows "worst_level cs \<in> {''major'', ''critical''} \<longleftrightarrow> list_ex is_material_change cs"
    and "worst_level cs = ''none'' \<longleftrightarrow> cs = []"
    and "worst_level cs \<noteq> ''unknown''"
  by (simp_all add: worst_level_cases [OF assms]) (auto simp: list_ex_iff is_material_change_def)

lemma assessed:
  assumes "assess_drift e baseline snapshot now ns = Inr a"
  obtains current where "capture_baseline e snapshot now ns (threshold_of baseline) = Inr current"
    and "da_current a = current" and "da_baseline a = baseline"
    and "da_freshness a = freshness_of baseline current" and "cap_available current = lv_available snapshot"
    and "\<not> (cap_available baseline \<and> lv_available snapshot) \<Longrightarrow>
      da_status a = ''unknown'' \<and> da_changes a = [] \<and> \<not> da_material a \<and> \<not> da_invalidated a \<and> da_disabled a"
    and "cap_available baseline \<and> lv_available snapshot \<Longrightarrow>
      da_changes a = drift_changes e baseline current ns \<and>
      da_status a = (if freshness_of baseline current = ''stale'' \<and> worst_level (da_changes a) = ''none''
        then ''minor'' else worst_level (da_changes a)) \<and>
      da_material a = (da_status a \<in> {''major'', ''critical''}) \<and> da_invalidated a = da_material a \<and>
      da_disabled a = (da_material a \<or> da_status a = ''unknown'' \<or> freshness_of baseline current = ''stale'')"
proof -
  from assms obtain current where current: "capture_baseline e snapshot now ns (threshold_of baseline) = Inr current"
    by (auto simp: assess_drift_def sbind_Inr)
  then have available: "cap_available current = lv_available snapshot"
    by (auto simp: capture_baseline_def sbind_Inr)
  show thesis
  proof (cases "cap_available baseline \<and> lv_available snapshot")
    case True
    let ?changes = "drift_changes e baseline current ns"
    let ?status = "if freshness_of baseline current = ''stale'' \<and> worst_level ?changes = ''none''
      then ''minor'' else worst_level ?changes"
    have a: "a = drift_assessment_of baseline current ?changes ?status (freshness_of baseline current)
        (drift_age baseline current) (?status \<in> {''major'', ''critical''})"
      using assms True by (simp add: assess_drift_def current available Let_def del: if_split_asm)
    show thesis
      by (rule that [OF current])
        (use True in \<open>simp_all add: a drift_assessment_of_def Let_def available del: insert_iff\<close>)
  next
    case False
    then have a: "a = drift_assessment_of baseline current [] ''unknown'' (freshness_of baseline current)
        (drift_age baseline current) False"
      using assms by (auto simp: assess_drift_def current available Let_def)
    show thesis
      by (rule that [OF current])
        (use False in \<open>simp_all add: a drift_assessment_of_def Let_def available\<close>)
  qed
qed

text \<open>
  C11. A drift assessment says unknown, with nothing invalidated and execution disabled, exactly when the
  baseline or the later capture is unavailable. Otherwise its changes are, in order, the identities whose
  canonical form or health differs between both captures or that only one of them has; the decision
  is invalidated exactly when one of the changes is major or critical, there is no drift exactly
  when nothing changed and the baseline is fresh, and execution is disabled exactly for an
  invalidated decision or a stale baseline.
\<close>

theorem drift_is_exact:
  assumes "assess_drift e baseline snapshot now ns = Inr a"
  shows "(da_status a = ''unknown'' \<longleftrightarrow> \<not> (cap_available baseline \<and> lv_available snapshot)) \<and>
    (if cap_available baseline \<and> lv_available snapshot
     then map dg_identity (da_changes a) =
         filter (\<lambda>i. map_option fingerprints (dict_get (cap_resources baseline) i) \<noteq>
             map_option fingerprints (dict_get (cap_resources (da_current a)) i))
           (sort (remdups (dict_keys (cap_resources baseline) @ dict_keys (cap_resources (da_current a))))) \<and>
       (da_invalidated a \<longleftrightarrow> list_ex is_material_change (da_changes a)) \<and>
       (da_status a = ''none'' \<longleftrightarrow> da_changes a = [] \<and> da_freshness a \<noteq> ''stale'') \<and>
       (da_disabled a \<longleftrightarrow> da_invalidated a \<or> da_freshness a = ''stale'')
     else da_changes a = [] \<and> \<not> da_invalidated a \<and> da_disabled a)"
proof (cases "cap_available baseline \<and> lv_available snapshot")
  case True
  from assms obtain current where a: "da_current a = current" "da_freshness a = freshness_of baseline current"
    "da_changes a = drift_changes e baseline current ns"
    "da_status a = (if freshness_of baseline current = ''stale'' \<and> worst_level (da_changes a) = ''none''
        then ''minor'' else worst_level (da_changes a))"
    "da_material a = (da_status a \<in> {''major'', ''critical''})" "da_invalidated a = da_material a"
    "da_disabled a = (da_material a \<or> da_status a = ''unknown'' \<or> freshness_of baseline current = ''stale'')"
    using True by (elim assessed) blast
  note worst = worst_material [OF changes_classes [of e baseline current ns]]
  have unknown: "da_status a \<noteq> ''unknown''" using worst(3) by (simp add: a)
  have material: "da_material a \<longleftrightarrow> list_ex is_material_change (da_changes a)"
    using worst(1) by (auto simp: a)
  have none: "da_status a = ''none'' \<longleftrightarrow> da_changes a = [] \<and> da_freshness a \<noteq> ''stale''"
    using worst(2) by (auto simp: a)
  show ?thesis using True unknown material none changes_identities [of e baseline current ns]
    by (simp add: a(1,2,6,7) del: a(3)) (simp add: a(3))
next
  case False
  then show ?thesis using assms by (elim assessed) auto
qed

section \<open>Recording an assessment\<close>

lemma stored_material: "is_material (drift_assessment_json e a) = da_material a"
  by (simp add: is_material_def drift_assessment_json_def get_or_null_def)

lemma event_appended: "\<exists>ev t. append_event_in_session e twin event_type message payload s = (Inr ev, t)"
  by (simp add: append_event_in_session_def prog_defs fresh_id_def clock_def Let_def)

lemma drift_recorded:
  assumes "find_run twin db = Some row"
  obtains db' where "record_drift e twin assessment actor db =
    (Inr (drifted_run row assessment (env_clock e (db_ticks db))), db')"
proof -
  let ?saved = "save_with_event e (drifted_run row assessment (env_clock e (db_ticks db))) ''drift_refreshed''
        ''Read-only Namespace Drift Twin evidence refreshed.''
        [(''actor_id'', JStr actor), (''status'', get_or_null assessment ''status''),
         (''material'', JBool (is_material assessment)),
         (''change_count'', JInt (int (length (arr_items (get_or_null assessment ''changes''))))),
         (''rules_version'', get_or_null assessment ''rules_version'')] (db\<lparr>db_ticks := Suc (db_ticks db)\<rparr>)"
  obtain t where t: "?saved = (Inr (drifted_run row assessment (env_clock e (db_ticks db))), t)"
    by (rule save_with_event_result)
  obtain ev u where "append_event_in_session e twin ''decision_superseded_by_drift''
        ''Material drift superseded prior execution eligibility.''
        [(''from_state'', JStr (tw_status row)), (''to_state'', JStr ''superseded''),
         (''drift_status'', get_or_null assessment ''status''),
         (''current_hash'', sub_get assessment ''current_capture'' ''hash'')] t = (Inr ev, u)"
    using event_appended by blast
  with t assms have "fst (record_drift e twin assessment actor db) =
      Inr (drifted_run row assessment (env_clock e (db_ticks db)))"
    by (auto simp: record_drift_def atomic_def fetch_def prog_defs clock_def)
  then show thesis by (cases "record_drift e twin assessment actor db") (auto intro: that)
qed

text \<open>
  C12. Recording an assessment takes a twin out of use exactly when the decision is invalidated: its
  state becomes superseded if one of the changes is major or critical, and otherwise stays what it
  was. The decision itself, its version and report hash are never touched.
\<close>

theorem material_drift_supersedes:
  assumes "assess_drift e baseline snapshot now ns = Inr a"
    and "find_run twin db = Some row"
    and "record_drift e twin (drift_assessment_json e a) actor db = (Inr row', db')"
  shows "tw_status row' = (if list_ex is_material_change (da_changes a) then ''superseded'' else tw_status row) \<and>
    tw_id row' = twin \<and> tw_decision row' = tw_decision row \<and> tw_final row' = tw_final row \<and>
    tw_version row' = tw_version row \<and> tw_report_hash row' = tw_report_hash row"
proof -
  obtain at where row': "row' = drifted_run row (drift_assessment_json e a) at"
    using drift_recorded [OF assms(2), of e "drift_assessment_json e a" actor] assms(3) by auto
  have "da_material a \<longleftrightarrow> list_ex is_material_change (da_changes a)"
  proof (cases "cap_available baseline \<and> lv_available snapshot")
    case True
    from assms(1) obtain current where "da_changes a = drift_changes e baseline current ns"
      "da_status a = (if freshness_of baseline current = ''stale'' \<and> worst_level (da_changes a) = ''none''
        then ''minor'' else worst_level (da_changes a))"
      "da_material a = (da_status a \<in> {''major'', ''critical''})"
      using True by (elim assessed) blast
    with worst_material(1) [OF changes_classes [of e baseline current ns]] show ?thesis by auto
  next
    case False
    with assms(1) show ?thesis by (elim assessed) auto
  qed
  moreover have "tw_id row = twin" using assms(2) by (simp add: find_run_def find_Some_iff) auto
  ultimately show ?thesis
    by (auto simp: row' drifted_run_def drift_supersedes_def stored_material with_facts_def Let_def)
qed

section \<open>What counts as drift\<close>

text \<open>
  A capture that leaves a kind out, because it could not be listed, is compared as if every resource
  of that kind had been deleted: the decision is superseded. And a pod that restarts, or a
  deployment with one replica not ready, is a major change although its manifest is the same.
\<close>

definition demo_row :: drift_resource where
  "demo_row = \<lparr>dw_identity = ''v1:ConfigMap:ns:c'', dw_api_version = JStr ''v1'', dw_kind = JStr ''ConfigMap'',
     dw_namespace = JStr ''ns'', dw_name = JStr ''c'', dw_canonical = [], dw_canonical_hash = ''h'',
     dw_health = [], dw_health_hash = ''h'', dw_safety_hash = ''h'', dw_helm_release = JNull,
     dw_helm_revision = None\<rparr>"

definition demo_baseline :: drift_capture where
  "demo_baseline = \<lparr>cap_at = 0, cap_hash = ''h'', cap_available = True, cap_complete_kinds = [''ConfigMap''],
     cap_resources = [(''v1:ConfigMap:ns:c'', demo_row)], cap_evidence_refs = [], cap_warning = None,
     cap_threshold = 900\<rparr>"

definition demo_incomplete :: live_snapshot where
  "demo_incomplete = demo_snapshot\<lparr>lv_complete_kinds := []\<rparr>"

lemma incomplete_capture_is_deletion:
  "\<exists>a. assess_drift demo_env demo_baseline demo_incomplete 1 ''ns'' = Inr a \<and> da_invalidated a \<and>
     map dg_type (da_changes a) = [''deleted''] \<and> list_ex is_material_change (da_changes a)"
proof -
  have current: "\<exists>c. capture_baseline demo_env demo_incomplete 1 ''ns'' 900 = Inr c \<and> cap_resources c = [] \<and>
      cap_available c \<and> cap_at c = 1"
    by (simp add: capture_baseline_def demo_incomplete_def demo_snapshot_def resource_map_def)
  then obtain c where c: "capture_baseline demo_env demo_incomplete 1 ''ns'' 900 = Inr c"
    "cap_resources c = []" "cap_available c" by blast
  have "drift_changes demo_env demo_baseline c ''ns'' =
      [drift_change_of demo_env ''v1:ConfigMap:ns:c'' (Some demo_row) None ''deleted'' ''ns'' (cap_at c)]"
    by (simp add: drift_changes_def demo_baseline_def c change_kind_def)
  moreover have "dg_classification (drift_change_of demo_env ''v1:ConfigMap:ns:c'' (Some demo_row) None
      ''deleted'' ''ns'' (cap_at c)) = ''major''"
    "dg_type (drift_change_of demo_env ''v1:ConfigMap:ns:c'' (Some demo_row) None ''deleted'' ''ns'' (cap_at c)) =
      ''deleted''"
    by (simp_all add: drift_change_of_def Let_def sample_of_def demo_row_def text_or_def json_or_def
        drift_axes_of_def classification_of_def DRIFT_CLUSTER_KINDS_def)
  ultimately show ?thesis
    using c
    by (simp add: assess_drift_def threshold_of_def demo_baseline_def Let_def drift_assessment_of_def
        worst_level_def level_of_def DRIFT_LEVEL_def is_material_change_def)
qed

lemma health_change_is_major:
  "dw_kind r = JStr ''Pod'' \<Longrightarrow> dw_namespace r = JStr ns \<Longrightarrow>
    dg_classification (drift_change_of e i (Some r) (Some (r\<lparr>dw_health_hash := h\<rparr>)) ''status_only'' ns now) = ''major''"
  by (simp add: drift_change_of_def Let_def sample_of_def text_or_def json_or_def drift_axes_of_def
      classification_of_def DRIFT_CLUSTER_KINDS_def DRIFT_WORKLOAD_KINDS_def)

theorem drift_is_exact_witness:
  "\<exists>a. assess_drift demo_env demo_baseline demo_incomplete 1 ''ns'' = Inr a \<and> da_disabled a \<and>
     map dg_identity (da_changes a) = [''v1:ConfigMap:ns:c'']"
proof -
  obtain a where a: "assess_drift demo_env demo_baseline demo_incomplete 1 ''ns'' = Inr a" "da_invalidated a"
    using incomplete_capture_is_deletion by blast
  have "cap_available demo_baseline \<and> lv_available demo_incomplete"
    by (simp add: demo_baseline_def demo_incomplete_def demo_snapshot_def)
  moreover have "cap_resources (da_current a) = []"
    using a(1) by (auto simp: assess_drift_def sbind_Inr Let_def drift_assessment_of_def capture_baseline_def
        demo_incomplete_def demo_snapshot_def resource_map_def split: if_splits)
  ultimately show ?thesis
    using drift_is_exact [OF a(1)] a by (auto simp: demo_baseline_def)
qed

theorem material_drift_supersedes_witness:
  "\<exists>a row' db'. assess_drift demo_env demo_baseline demo_incomplete 1 ''ns'' = Inr a \<and>
     record_drift demo_env ''t'' (drift_assessment_json demo_env a) ''op'' (empty_db\<lparr>db_runs := [demo_run]\<rparr>) =
       (Inr row', db') \<and> tw_status row' = ''superseded''"
proof -
  obtain a where a: "assess_drift demo_env demo_baseline demo_incomplete 1 ''ns'' = Inr a"
    "list_ex is_material_change (da_changes a)"
    using incomplete_capture_is_deletion by blast
  have found: "find_run ''t'' (empty_db\<lparr>db_runs := [demo_run]\<rparr>) = Some demo_run"
    by (simp add: find_run_def demo_run_def)
  obtain row' db' where r: "record_drift demo_env ''t'' (drift_assessment_json demo_env a) ''op''
      (empty_db\<lparr>db_runs := [demo_run]\<rparr>) = (Inr row', db')"
    using drift_recorded [OF found] by blast
  from material_drift_supersedes [OF a(1) found r] a r show ?thesis by auto
qed

end
