(* ===== verification/TwinRollback.thy ===== *)
theory TwinRollback
  imports TwinPolicy TwinGraph ApiEvidence
begin

text \<open>
  The rollback twin (\<open>namespace_twin/rollback_twin.py\<close>): which steps of a plan undo which others,
  what evidence a bundle has for it, and the confidence that follows. The reading of the clock for
  the n-th finding is a function of n. The share of linked steps is computed in floating point,
  which is written out with integers.
\<close>

section \<open>Constants\<close>

definition ROLLBACK_RULE_VERSION :: string where
  "ROLLBACK_RULE_VERSION = ''namespace-twin-rollback-1.0.0''"

definition FORWARD_TYPES :: "string list" where
  "FORWARD_TYPES = [''k8s_apply'', ''k8s_delete'', ''helm_install'', ''helm_upgrade'']"

definition ROLLBACK_WORDS :: "string list" where
  "ROLLBACK_WORDS = [''rollback'', ''revert'', ''restore'', ''uninstall'']"

definition DATA_DESTRUCTIVE_WORDS :: "string list" where
  "DATA_DESTRUCTIVE_WORDS =
     [''drop database'', ''drop table'', ''truncate'', ''delete database'', ''wipe data'', ''purge data'',
      ''persistentvolumeclaim --all'']"

section \<open>Percentages in floating point\<close>

text \<open>
  \<open>int((a / b) * 100)\<close> for \<open>0 < a\<close> and \<open>a \<le> b\<close>: the quotient is rounded to 53 bits, the product is
  rounded again, and the fraction is cut off. A double is \<open>m\<close> divided by a power of two.
\<close>

function scale_from :: "nat \<Rightarrow> nat \<Rightarrow> nat \<Rightarrow> nat" where
  "scale_from a b k = (if a = 0 \<or> b * 2 ^ 52 \<le> a * 2 ^ k then k else scale_from a b (Suc k))"
  by pat_completeness auto
termination
  by (relation "measure (\<lambda>(a, b, k). b * 2 ^ 52 - a * 2 ^ k)") (auto intro: diff_less_mono2)

declare scale_from.simps [simp del]

definition double_percent :: "nat \<Rightarrow> nat \<Rightarrow> nat" where
  "double_percent a b =
     (if a = 0 then 0
      else
        let k = scale_from a b 0; m = rounded b (a * 2 ^ k);
            j = (if m * 100 < 2 ^ 59 then 6 else 7) in
        (rounded (2 ^ j) (m * 100) * 2 ^ j) div 2 ^ k)"

section \<open>Data\<close>

record forward_step =
  fs_phase :: string
  fs_id :: string
  fs_title :: string
  fs_type :: string
  fs_manifest_refs :: "string list"
  fs_values_refs :: "string list"
  fs_metadata :: "json dict"

record undo_step =
  un_phase :: string
  un_id :: string
  un_title :: string
  un_type :: string
  un_depends_on :: "string list"
  un_manifest_refs :: "string list"
  un_values_refs :: "string list"
  un_metadata :: "json dict"
  un_commands :: "plan_command list"
  un_outcomes :: "string list"
  un_inputs :: "string list"

record undo_link =
  ul_id :: string
  ul_summary :: string
  ul_reversible :: bool
  ul_forward :: "string list"
  ul_mechanism :: string
  ul_has_command :: bool
  ul_dry_run :: bool
  ul_evidence :: "string list"

record previous_artifacts =
  pv_manifests :: "string list"
  pv_values :: "string list"
  pv_provenance :: string

record helm_history =
  hh_required :: bool
  hh_release :: "string option"
  hh_current :: "int option"
  hh_previous :: "int option"
  hh_available :: bool
  hh_provenance :: string
  hh_refs :: "string list"

record undo_finding =
  uf_id :: string
  uf_code :: string
  uf_title :: string
  uf_severity :: string
  uf_status :: string
  uf_summary :: string
  uf_evidence :: json

record undo_proof =
  up_status :: string
  up_job :: json
  up_steps :: "string list"
  up_refs :: "string list"
  up_summary :: string

record undo_gap =
  ug_code :: string
  ug_summary :: string
  ug_severity :: string

record undo_assessment =
  ua_evaluated_at :: instant
  ua_confidence :: string
  ua_score :: int
  ua_summary :: string
  ua_defined :: bool
  ua_proven :: bool
  ua_mutating :: nat
  ua_linked :: nat
  ua_coverage :: nat
  ua_unlinked :: "string list"
  ua_helm :: helm_history
  ua_previous :: previous_artifacts
  ua_links :: "undo_link list"
  ua_pvc :: string
  ua_non_reversible :: "undo_finding list"
  ua_proof :: undo_proof
  ua_gaps :: "undo_gap list"
  ua_manual :: "string list"
  ua_checks :: "string list"
  ua_evidence_refs :: "json list"

section \<open>Forward and rollback steps\<close>

definition mentions :: "string list \<Rightarrow> string \<Rightarrow> bool" where
  "mentions words s \<longleftrightarrow> list_ex (\<lambda>w. str_contains w s) words"

definition is_rollback :: "string list \<Rightarrow> bool" where
  "is_rollback values \<longleftrightarrow> mentions ROLLBACK_WORDS (str_lower (str_join '' '' values))"

definition step_texts :: "plan_phase \<Rightarrow> plan_step \<Rightarrow> string list" where
  "step_texts phase step = [pp_id phase, opt_or (pp_title phase) [], ps_id step, ps_title step, ps_type step]"

definition is_mutating_step :: "plan_step \<Rightarrow> bool" where
  "is_mutating_step step \<longleftrightarrow>
     ps_type step \<in> set FORWARD_TYPES \<or> list_ex (\<lambda>c. pcm_mutating c = Some True) (ps_commands step)"

definition is_forward :: "plan_phase \<Rightarrow> plan_step \<Rightarrow> bool" where
  "is_forward phase step \<longleftrightarrow> is_mutating_step step \<and> \<not> is_rollback (step_texts phase step)"

definition forward_step_of :: "plan_phase \<Rightarrow> plan_step \<Rightarrow> forward_step" where
  "forward_step_of phase step =
     \<lparr>fs_phase = pp_id phase, fs_id = ps_id step, fs_title = ps_title step, fs_type = ps_type step,
      fs_manifest_refs = ps_manifest_refs step, fs_values_refs = ps_values_refs step,
      fs_metadata = ps_metadata step\<rparr>"

definition forward_steps :: "artifact_bundle \<Rightarrow> forward_step list" where
  "forward_steps bundle =
     concat (map (\<lambda>phase. map (forward_step_of phase) (filter (is_forward phase) (pp_steps phase)))
       (mp_phases (ab_plan bundle)))"

definition is_undo :: "plan_phase \<Rightarrow> plan_step \<Rightarrow> bool" where
  "is_undo phase step \<longleftrightarrow>
     is_rollback (step_texts phase step @ [str_join [CHR 0x0A] (map pcm_text (ps_commands step))])"

definition undo_step_of :: "plan_phase \<Rightarrow> plan_step \<Rightarrow> undo_step" where
  "undo_step_of phase step =
     \<lparr>un_phase = pp_id phase, un_id = ps_id step, un_title = ps_title step, un_type = ps_type step,
      un_depends_on = ps_depends_on step, un_manifest_refs = ps_manifest_refs step,
      un_values_refs = ps_values_refs step, un_metadata = ps_metadata step, un_commands = ps_commands step,
      un_outcomes = ps_expected_outcomes step, un_inputs = ps_required_human_inputs step\<rparr>"

definition rollback_steps :: "artifact_bundle \<Rightarrow> undo_step list" where
  "rollback_steps bundle =
     concat (map (\<lambda>phase. map (undo_step_of phase) (filter (is_undo phase) (pp_steps phase)))
       (mp_phases (ab_plan bundle)))"

section \<open>Linking the steps\<close>

text \<open>The forward steps that a rollback step names: in its metadata and its dependencies.\<close>

definition named_steps :: "json \<Rightarrow> string list" where
  "named_steps v = (case v of JStr s \<Rightarrow> [s] | JArr xs \<Rightarrow> map py_str xs | _ \<Rightarrow> [])"

definition explicit_steps :: "undo_step \<Rightarrow> string list" where
  "explicit_steps step =
     concat (map (\<lambda>k. named_steps (get_or_null (un_metadata step) k))
       [''forward_step_id'', ''reverts_step_id'', ''rollback_for'', ''forward_step_ids'']) @ un_depends_on step"

definition undo_refs :: "undo_step \<Rightarrow> string list" where
  "undo_refs step = un_manifest_refs step @ un_values_refs step"

definition shares_artifact :: "undo_step \<Rightarrow> forward_step \<Rightarrow> bool" where
  "shares_artifact step forward \<longleftrightarrow>
     set (undo_refs step) \<inter> set (fs_manifest_refs forward @ fs_values_refs forward) \<noteq> {}"

definition shares_release :: "undo_step \<Rightarrow> forward_step \<Rightarrow> bool" where
  "shares_release step forward \<longleftrightarrow>
     (let release = get_or_null (un_metadata step) ''release_name'' in
      truthy release \<and> sort_keys release = sort_keys (get_or_null (fs_metadata forward) ''release_name''))"

definition linked_steps :: "forward_step list \<Rightarrow> nat \<Rightarrow> undo_step \<Rightarrow> string list" where
  "linked_steps forwards rollback_count step =
     (let named = filter (\<lambda>i. i \<in> fs_id ` set forwards) (explicit_steps step);
          found = (if named \<noteq> [] then named
            else map fs_id (filter (\<lambda>f. shares_artifact step f \<or> shares_release step f) forwards)) in
      sort (remdups
        (if found = [] \<and> length forwards = 1 \<and> rollback_count = 1 then [fs_id (hd forwards)] else found)))"

definition destructive_command :: "plan_command \<Rightarrow> bool" where
  "destructive_command c \<longleftrightarrow> mentions DATA_DESTRUCTIVE_WORDS (str_lower (pcm_text c))"

definition rollback_mechanism :: "undo_step \<Rightarrow> string" where
  "rollback_mechanism step =
     (let words = str_lower (str_join '' '' (un_type step # map pcm_text (un_commands step))) in
      if str_contains ''helm rollback'' words then ''helm_revision_rollback''
      else if str_contains ''uninstall'' words then ''helm_uninstall''
      else if str_contains ''apply'' words then ''previous_manifest_reapply''
      else if str_contains ''delete'' words then ''resource_delete''
      else ''manual_or_agent_rollback'')"

definition undo_link_of :: "forward_step list \<Rightarrow> nat \<Rightarrow> undo_step \<Rightarrow> undo_link" where
  "undo_link_of forwards rollback_count step =
     \<lparr>ul_id = un_id step, ul_summary = un_title step,
      ul_reversible = (\<not> list_ex destructive_command (un_commands step)),
      ul_forward = linked_steps forwards rollback_count step, ul_mechanism = rollback_mechanism step,
      ul_has_command = (un_commands step \<noteq> []),
      ul_dry_run = list_ex (\<lambda>c. pcm_dry_run c = Some True) (un_commands step),
      ul_evidence = sort (remdups (undo_refs step))\<rparr>"

definition link_rollback_steps :: "forward_step list \<Rightarrow> undo_step list \<Rightarrow> undo_link list" where
  "link_rollback_steps forwards undos = map (undo_link_of forwards (length undos)) undos"

section \<open>Evidence of the bundle\<close>

definition artifact_paths :: "artifact_bundle \<Rightarrow> py_error + string list" where
  "artifact_paths bundle =
     sbind (py_items (get_or_null (case ab_index bundle of None \<Rightarrow> [] | Some d \<Rightarrow> d) ''files'')) (\<lambda>files.
     Inr (sort (remdups (concat (map (\<lambda>item.
       case get_or_null (obj_items item) ''path'' of JStr path \<Rightarrow> [path] | _ \<Rightarrow> []) files)))))"

definition previous_artifacts_of :: "string list \<Rightarrow> previous_artifacts" where
  "previous_artifacts_of paths =
     (let previous = filter (\<lambda>path. mentions [''previous'', ''prior'', ''baseline''] (str_lower path) \<and>
            \<not> str_contains ''machine_execution_plan'' (str_lower path)) paths in
      \<lparr>pv_manifests = filter (\<lambda>path. str_lower (path_suffix path) \<in> {''.yaml'', ''.yml'', ''.json''}) previous,
       pv_values = filter (\<lambda>path. str_contains ''value'' (str_lower path)) previous,
       pv_provenance = (if previous \<noteq> [] then ''bundle_artifact_index'' else ''not_available'')\<rparr>)"

fun first_int :: "json list \<Rightarrow> int option" where
  "first_int [] = None"
| "first_int (v # vs) =
     (case py_int v of Inr n \<Rightarrow> if 0 < n then Some n else first_int vs | Inl _ \<Rightarrow> first_int vs)"

definition helm_history_of :: "artifact_bundle \<Rightarrow> string list \<Rightarrow> forward_step list \<Rightarrow> undo_step list \<Rightarrow> helm_history" where
  "helm_history_of bundle paths forwards undos =
     (let helm_steps = filter (\<lambda>f. starts_with (fs_type f) ''helm_'') forwards;
          metadata = map fs_metadata helm_steps @ map un_metadata undos;
          artifact = (case ab_artifact bundle of None \<Rightarrow> [] | Some d \<Rightarrow> d);
          previous = first_int (map (get_or_null artifact)
              [''previous_helm_revision'', ''helm_previous_revision'', ''previous_revision''] @
            map (\<lambda>d. get_or_null d ''previous_revision'') metadata @
            map (\<lambda>d. get_or_null d ''revision'') (filter (\<lambda>d. truthy (get_or_null d ''rollback_for'')) metadata));
          current = first_int (map (get_or_null artifact) [''helm_revision'', ''current_helm_revision''] @
            map (\<lambda>d. get_or_null d ''current_revision'') metadata);
          refs = filter (\<lambda>path. str_contains ''helm'' (str_lower path) \<and>
            mentions [''history'', ''revision'', ''provenance''] (str_lower path)) paths in
      \<lparr>hh_required = (helm_steps \<noteq> []),
       hh_release = map_option (\<lambda>d. py_str (get_or_null d ''release_name''))
         (find (\<lambda>d. truthy (get_or_null d ''release_name'')) metadata),
       hh_current = current, hh_previous = previous, hh_available = (previous \<noteq> None \<or> refs \<noteq> []),
       hh_provenance = (if previous \<noteq> None then ''bundle_metadata''
         else if refs \<noteq> [] then ''artifact_index'' else ''not_available''),
       hh_refs = refs\<rparr>)"

section \<open>Findings\<close>

definition undo_evidence :: "env \<Rightarrow> string \<Rightarrow> string \<Rightarrow> string \<Rightarrow> string \<Rightarrow> instant \<Rightarrow> json" where
  "undo_evidence e seed source_type source_id summary captured = JObj
     [(''evidence_id'', JStr (''rollback_'' @ take 24 (env_sha256 e seed))),
      (''source_type'', JStr source_type), (''source_id'', JStr source_id), (''summary'', JStr summary),
      (''captured_at'', JStr (env_isoformat e captured)), (''redacted'', JBool True), (''href'', JNull)]"

definition undo_finding_of ::
    "env \<Rightarrow> instant \<Rightarrow> string \<Rightarrow> string \<Rightarrow> string \<Rightarrow> string \<Rightarrow> string \<Rightarrow> string list \<Rightarrow> undo_finding" where
  "undo_finding_of e captured code title severity status summary refs =
     \<lparr>uf_id = ''rollbackfinding_'' @ take 24 (env_sha256 e (code @ summary)), uf_code = code, uf_title = title,
      uf_severity = severity, uf_status = status, uf_summary = summary,
      uf_evidence = JArr (map (\<lambda>r. undo_evidence e (''finding:'' @ code @ '':'' @ r) ''bundle'' r
        (''Rollback finding source: '' @ r) captured) refs)\<rparr>"

definition manifests_of_kind :: "string \<Rightarrow> artifact_bundle \<Rightarrow> loaded_manifest list" where
  "manifests_of_kind kind bundle = filter (\<lambda>m. lm_kind m = kind) (ab_manifests bundle)"

definition stateful_manifests :: "artifact_bundle \<Rightarrow> loaded_manifest list" where
  "stateful_manifests bundle =
     manifests_of_kind ''PersistentVolumeClaim'' bundle @ manifests_of_kind ''StatefulSet'' bundle"

definition deletes_pvc :: "undo_step list \<Rightarrow> bool" where
  "deletes_pvc undos \<longleftrightarrow>
     (let words = str_lower (str_join '' '' (map pcm_text (concat (map un_commands undos)))) in
      str_contains ''persistentvolumeclaim'' words \<and> str_contains ''delete'' words)"

definition pvc_status :: "artifact_bundle \<Rightarrow> undo_step list \<Rightarrow> string" where
  "pvc_status bundle undos =
     (if stateful_manifests bundle = [] then ''not_applicable''
      else if deletes_pvc undos then ''not_reversible'' else ''conditional'')"

definition pvc_reversibility :: "env \<Rightarrow> instant \<Rightarrow> artifact_bundle \<Rightarrow> undo_step list \<Rightarrow> undo_finding list" where
  "pvc_reversibility e captured bundle undos =
     (if stateful_manifests bundle = [] then []
      else
        let lost = deletes_pvc undos in
        [undo_finding_of e captured ''PVC_DATA_REVERSIBILITY'' ''PVC and data rollback requires operator review''
           (if lost then ''critical'' else ''high'') (if lost then ''denied'' else ''approval_required'')
           (if lost then ''Rollback deletes a PersistentVolumeClaim and can cause data loss.''
            else ''The bundle changes stateful/PVC-backed resources but contains '' @
              ''no proven data restore evidence.'')
           (map lm_path (stateful_manifests bundle))])"

definition destructive_undos :: "undo_step list \<Rightarrow> undo_step list" where
  "destructive_undos undos =
     concat (map (\<lambda>step. map (\<lambda>_. step) (filter destructive_command (un_commands step))) undos)"

definition non_reversible_changes :: "env \<Rightarrow> (nat \<Rightarrow> instant) \<Rightarrow> undo_step list \<Rightarrow> undo_finding list" where
  "non_reversible_changes e now undos =
     map (\<lambda>(n, step). undo_finding_of e (now n) ''DATA_DESTRUCTIVE_ROLLBACK'' ''Data-destructive rollback action''
         ''critical'' ''denied'' (''Rollback step '' @ un_id step @ '' contains a data-destructive action.'')
         (un_manifest_refs step))
       (enumerate 0 (destructive_undos undos))"

section \<open>Proof\<close>

text \<open>\<open>v in {...}\<close> for a set of texts: lists and mappings cannot be looked up.\<close>

definition in_texts :: "string list \<Rightarrow> json \<Rightarrow> py_error + bool" where
  "in_texts names v =
     (case v of
        JStr s \<Rightarrow> Inr (s \<in> set names)
      | JArr _ \<Rightarrow> Inl (TypeError ''unhashable type'')
      | JObj _ \<Rightarrow> Inl (TypeError ''unhashable type'')
      | _ \<Rightarrow> Inr False)"

definition concerns_rollback :: "string list \<Rightarrow> json \<Rightarrow> py_error + json dict list" where
  "concerns_rollback steps v =
     (case v of
        JObj item \<Rightarrow>
          sbind (in_texts steps (get_or_null item ''step'')) (\<lambda>known.
          Inr (if known \<or> is_rollback (map (\<lambda>k. text_or (get_or_null item k) [])
                [''phase'', ''step'', ''tool'', ''summary'']) then [item] else []))
      | _ \<Rightarrow> Inl (AttributeError ''get''))"

fun filter_items :: "('a \<Rightarrow> 'e + bool) \<Rightarrow> 'a list \<Rightarrow> 'e + 'a list" where
  "filter_items p [] = Inr []"
| "filter_items p (x # xs) =
     sbind (p x) (\<lambda>b. sbind (filter_items p xs) (\<lambda>ys. Inr (if b then x # ys else ys)))"

definition has_outcome :: "string list \<Rightarrow> json dict \<Rightarrow> py_error + bool" where
  "has_outcome outcomes item = in_texts outcomes (get_or_null item ''outcome'')"

definition proof_status :: "json dict list \<Rightarrow> json dict list \<Rightarrow> string" where
  "proof_status accepted rejected =
     (if accepted \<noteq> [] \<and> rejected = [] then ''passed'' else if rejected \<noteq> [] then ''failed'' else ''not_run'')"

definition proof_summary :: "string \<Rightarrow> string" where
  "proof_summary status =
     (if status = ''passed'' then ''Rollback-specific authoritative evidence passed.''
      else if status = ''failed'' then ''Rollback-specific authoritative evidence failed.''
      else ''No rollback-specific authoritative dry-run or execution evidence is attached.'')"

definition accepted_item :: "json dict \<Rightarrow> bool" where
  "accepted_item item \<longleftrightarrow> get_or_null item ''outcome'' = JStr ''accepted''"

definition rollback_proof :: "json dict \<Rightarrow> undo_link list \<Rightarrow> py_error + undo_proof" where
  "rollback_proof evidence linkage =
     sbind (gather (get_or_null evidence ''observations'') (concerns_rollback (map ul_id linkage))) (\<lambda>observations.
     sbind (filter_items (has_outcome [''rejected'', ''warning'', ''unknown'']) observations) (\<lambda>rejected.
     let accepted = filter accepted_item observations; status = proof_status accepted rejected in
     sbind (each_item (\<lambda>item. py_items (get_or_null item ''evidence_refs'')) observations) (\<lambda>refs.
     Inr \<lparr>up_status = status, up_job = get_or_null evidence ''dry_run_job_id'',
       up_steps = sort (remdups (map py_str (filter truthy
         (map (\<lambda>item. get_or_null item ''step'') accepted)))),
       up_refs = sort (remdups (map py_str (concat refs))), up_summary = proof_summary status\<rparr>)))"

section \<open>The assessment\<close>

definition gap :: "string \<Rightarrow> string \<Rightarrow> string \<Rightarrow> undo_gap" where
  "gap code summary severity = \<lparr>ug_code = code, ug_summary = summary, ug_severity = severity\<rparr>"

definition not_proven :: undo_gap where
  "not_proven = gap ''ROLLBACK_NOT_PROVEN''
     ''Rollback is not proven by authoritative rollback-specific dry-run or execution evidence.'' ''medium''"

definition undo_confidence :: "int \<Rightarrow> bool \<Rightarrow> bool \<Rightarrow> string" where
  "undo_confidence score has_steps destructive =
     (if destructive then ''low''
      else if \<not> has_steps then ''unavailable''
      else if 80 \<le> score then ''high''
      else if 55 \<le> score then ''medium''
      else ''low'')"

definition undo_summary :: "string \<Rightarrow> bool \<Rightarrow> bool \<Rightarrow> nat \<Rightarrow> string" where
  "undo_summary confidence is_defined proven coverage =
     ''Rollback confidence is '' @ confidence @ ''. Plan coverage is '' @ nat_str coverage @ ''%. '' @
     ''Rollback is '' @ (if is_defined then ''defined'' else ''not fully defined'') @ '' and '' @
     (if proven then ''proven by authoritative evidence'' else ''not proven at runtime'') @ ''.''"

text \<open>
  The score and the gaps: what is missing costs points, a rollback that destroys data costs all that
  are left at that moment.
\<close>

record undo_facts =
  fa_has_steps :: bool
  fa_mutating :: nat
  fa_linked :: nat
  fa_coverage :: nat
  fa_helm_missing :: bool
  fa_previous_missing :: bool
  fa_pvc :: string
  fa_destructive :: bool
  fa_unproven :: bool

definition minus_if :: "bool \<Rightarrow> int \<Rightarrow> int \<Rightarrow> int" where
  "minus_if c n score = (if c then score - n else score)"

definition base_score :: "undo_facts \<Rightarrow> int" where
  "base_score f =
     (let linked = minus_if (\<not> fa_has_steps f \<or> fa_coverage f < 100) 30 100;
          evidenced = minus_if (fa_previous_missing f) 15 (minus_if (fa_helm_missing f) 20 linked);
          reversible = (if fa_pvc f = ''conditional'' then evidenced - 20
            else if fa_pvc f = ''not_reversible'' then 0 else evidenced) in
      max 0 (min (minus_if (fa_unproven f) 10 (if fa_destructive f then 0 else reversible)) 100))"

definition undo_gaps :: "undo_facts \<Rightarrow> undo_gap list" where
  "undo_gaps f =
     (if \<not> fa_has_steps f
      then [gap ''ROLLBACK_STEP_MISSING'' ''No rollback step is defined in the machine plan.'' ''high'']
      else if fa_coverage f < 100
      then [gap ''ROLLBACK_LINK_INCOMPLETE'' (''Rollback links cover '' @ nat_str (fa_linked f) @ '' of '' @
        nat_str (fa_mutating f) @ '' forward operation(s).'') ''high'']
      else []) @
     (if fa_helm_missing f
      then [gap ''HELM_HISTORY_MISSING'' ''A previous Helm revision is not evidenced.'' ''medium''] else []) @
     (if fa_previous_missing f
      then [gap ''PREVIOUS_ARTIFACTS_MISSING''
        ''No previous manifests or previous Helm values are included in the bundle.'' ''medium''] else []) @
     (if fa_pvc f = ''conditional''
      then [gap ''PVC_ROLLBACK_CONDITIONAL'' ''PVC/data restoration needs operator review.'' ''high'']
      else if fa_pvc f = ''not_reversible''
      then [gap ''PVC_ROLLBACK_NOT_REVERSIBLE'' ''PVC/data rollback is not safely reversible.'' ''critical'']
      else []) @
     (if fa_destructive f
      then [gap ''DATA_DESTRUCTIVE_ROLLBACK'' ''A data-destructive rollback action is present.'' ''critical'']
      else []) @
     (if fa_unproven f then [not_proven] else [])"

definition undo_checks :: "artifact_bundle \<Rightarrow> undo_step list \<Rightarrow> string list" where
  "undo_checks bundle undos =
     (let named = concat (map un_outcomes undos);
          checks = (if named = []
            then [''Verify target resources return to the expected previous state.'',
                  ''Verify workload readiness and service endpoints after rollback.'']
            else named) in
      unique_first (checks @ (if manifests_of_kind ''PersistentVolumeClaim'' bundle \<noteq> []
        then [''Verify PVC binding and application data integrity after rollback.''] else [])))"

definition undo_manual_steps :: "undo_step list \<Rightarrow> undo_gap list \<Rightarrow> string list" where
  "undo_manual_steps undos gaps = unique_first
     (concat (map un_inputs undos) @
      (if gaps \<noteq> [] then [''Review and resolve every rollback evidence gap before autonomous execution.''] else []) @
      (if undos = [] then [''Define and link rollback steps for each mutating operation.''] else []))"

definition undo_evidence_refs ::
    "env \<Rightarrow> instant \<Rightarrow> previous_artifacts \<Rightarrow> helm_history \<Rightarrow> undo_proof \<Rightarrow> json list" where
  "undo_evidence_refs e captured previous helm pf =
     [undo_evidence e ''bundle:machine_execution_plan'' ''bundle'' ''machine_execution_plan.yaml''
        ''Machine plan rollback and forward operations were parsed.'' captured] @
     map (\<lambda>path. undo_evidence e (''bundle:'' @ path) ''bundle'' path (''Previous artifact: '' @ path) captured)
       (pv_manifests previous @ pv_values previous) @
     map (\<lambda>path. undo_evidence e (''helm:'' @ path) ''helm'' path (''Helm revision provenance: '' @ path) captured)
       (hh_refs helm) @
     map (\<lambda>r. undo_evidence e (''dry-run:'' @ r) ''dry_run'' r ''Rollback proof evidence.'' captured) (up_refs pf)"

definition linked_ids :: "undo_link list \<Rightarrow> string list" where
  "linked_ids linkage = remdups (concat (map ul_forward linkage))"

definition coverage_of :: "nat \<Rightarrow> nat \<Rightarrow> nat" where
  "coverage_of linked mutating = (if mutating = 0 then 100 else double_percent linked mutating)"

definition undo_facts_of :: "artifact_bundle \<Rightarrow> string list \<Rightarrow> undo_proof \<Rightarrow> undo_facts" where
  "undo_facts_of bundle paths pf =
     (let forwards = forward_steps bundle; undos = rollback_steps bundle;
          linked = length (linked_ids (link_rollback_steps forwards undos));
          helm = helm_history_of bundle paths forwards undos; previous = previous_artifacts_of paths in
      \<lparr>fa_has_steps = (undos \<noteq> []), fa_mutating = length forwards, fa_linked = linked,
       fa_coverage = coverage_of linked (length forwards),
       fa_helm_missing = (hh_required helm \<and> \<not> hh_available helm),
       fa_previous_missing = (pv_manifests previous = [] \<and> pv_values previous = []),
       fa_pvc = pvc_status bundle undos, fa_destructive = (destructive_undos undos \<noteq> []),
       fa_unproven = (up_status pf \<noteq> ''passed'')\<rparr>)"

definition is_defined_by :: "undo_facts \<Rightarrow> bool" where
  "is_defined_by f \<longleftrightarrow> fa_has_steps f \<and> (fa_mutating f = 0 \<or> fa_linked f = fa_mutating f)"

definition rated_confidence :: "undo_facts \<Rightarrow> string" where
  "rated_confidence f = undo_confidence (base_score f) (fa_has_steps f) (fa_destructive f)"

text \<open>A rollback that is defined but not proven is not trusted highly.\<close>

definition is_capped :: "undo_facts \<Rightarrow> bool" where
  "is_capped f \<longleftrightarrow> is_defined_by f \<and> fa_unproven f \<and> rated_confidence f = ''high''"

definition assess_rollback_twin ::
    "env \<Rightarrow> artifact_bundle \<Rightarrow> instant \<Rightarrow> (nat \<Rightarrow> instant) \<Rightarrow> json dict \<Rightarrow> py_error + undo_assessment" where
  "assess_rollback_twin e bundle captured now evidence =
     (let forwards = forward_steps bundle; undos = rollback_steps bundle;
          linkage = link_rollback_steps forwards undos in
      sbind (artifact_paths bundle) (\<lambda>paths.
      let previous = previous_artifacts_of paths;
          helm = helm_history_of bundle paths forwards undos;
          pvc_findings = pvc_reversibility e (now 0) bundle undos;
          destructive = non_reversible_changes e (\<lambda>n. now (length pvc_findings + n)) undos in
      sbind (rollback_proof evidence linkage) (\<lambda>pf.
      let facts = undo_facts_of bundle paths pf; gaps = undo_gaps facts;
          proven = (is_defined_by facts \<and> \<not> fa_unproven facts);
          confidence = (if is_capped facts then ''medium'' else rated_confidence facts) in
      Inr \<lparr>ua_evaluated_at = captured, ua_confidence = confidence,
        ua_score = (if is_capped facts then min (base_score facts) 79 else base_score facts),
        ua_summary = undo_summary confidence (is_defined_by facts) proven (fa_coverage facts),
        ua_defined = is_defined_by facts, ua_proven = proven, ua_mutating = length forwards,
        ua_linked = fa_linked facts, ua_coverage = fa_coverage facts,
        ua_unlinked = sort (filter (\<lambda>i. i \<notin> set (linked_ids linkage)) (map fs_id forwards)),
        ua_helm = helm, ua_previous = previous, ua_links = linkage, ua_pvc = pvc_status bundle undos,
        ua_non_reversible = pvc_findings @ destructive, ua_proof = pf, ua_gaps = gaps,
        ua_manual = undo_manual_steps undos gaps, ua_checks = undo_checks bundle undos,
        ua_evidence_refs = undo_evidence_refs e captured previous helm pf\<rparr>)))"

text \<open>Attaching the evidence of a later dry run to an assessment.\<close>

definition enrich_rollback_proof :: "undo_assessment \<Rightarrow> instant \<Rightarrow> json dict \<Rightarrow> py_error + undo_assessment" where
  "enrich_rollback_proof a now evidence =
     sbind (rollback_proof evidence (ua_links a)) (\<lambda>pf.
     let proven = (ua_defined a \<and> up_status pf = ''passed'');
         kept = filter (\<lambda>g. ug_code g \<noteq> ''ROLLBACK_NOT_PROVEN'') (ua_gaps a);
         score = (if proven then min 100 (ua_score a + 10) else ua_score a);
         confidence = undo_confidence score (ua_links a \<noteq> [])
           (list_ex (\<lambda>f. uf_severity f = ''critical'') (ua_non_reversible a)) in
     Inr (a\<lparr>ua_proof := pf, ua_proven := proven, ua_evaluated_at := now,
       ua_gaps := (if proven then kept else kept @ [not_proven]), ua_score := score,
       ua_confidence := confidence,
       ua_summary := undo_summary confidence (ua_defined a) proven (ua_coverage a)\<rparr>))"

text \<open>The assessment as it is stored.\<close>

definition undo_link_json :: "undo_link \<Rightarrow> json" where
  "undo_link_json l = JObj
     [(''step_id'', JStr (ul_id l)), (''summary'', JStr (ul_summary l)), (''reversible'', JBool (ul_reversible l)),
      (''forward_step_ids'', texts_json (ul_forward l)), (''mechanism'', JStr (ul_mechanism l)),
      (''command_available'', JBool (ul_has_command l)), (''dry_run_capable'', JBool (ul_dry_run l)),
      (''evidence_refs'', texts_json (ul_evidence l))]"

definition previous_artifacts_json :: "previous_artifacts \<Rightarrow> json" where
  "previous_artifacts_json p = JObj
     [(''manifests_available'', JBool (pv_manifests p \<noteq> [])), (''values_available'', JBool (pv_values p \<noteq> [])),
      (''manifest_paths'', texts_json (pv_manifests p)), (''values_paths'', texts_json (pv_values p)),
      (''provenance'', JStr (pv_provenance p))]"

definition revision_json :: "int option \<Rightarrow> json" where
  "revision_json n = (case n of None \<Rightarrow> JNull | Some i \<Rightarrow> JInt i)"

definition helm_history_json :: "helm_history \<Rightarrow> json" where
  "helm_history_json h = JObj
     [(''required'', JBool (hh_required h)),
      (''release_name'', case hh_release h of None \<Rightarrow> JNull | Some s \<Rightarrow> JStr s),
      (''current_revision'', revision_json (hh_current h)), (''previous_revision'', revision_json (hh_previous h)),
      (''history_available'', JBool (hh_available h)), (''provenance'', JStr (hh_provenance h)),
      (''evidence_refs'', texts_json (hh_refs h))]"

definition undo_finding_json :: "undo_finding \<Rightarrow> json" where
  "undo_finding_json f = JObj
     [(''finding_id'', JStr (uf_id f)), (''code'', JStr (uf_code f)), (''title'', JStr (uf_title f)),
      (''severity'', JStr (uf_severity f)), (''status'', JStr (uf_status f)), (''summary'', JStr (uf_summary f)),
      (''category'', JStr ''rollback''), (''policy_version'', JStr ROLLBACK_RULE_VERSION),
      (''resource_identity'', JNull), (''evidence_refs'', uf_evidence f)]"

definition undo_proof_json :: "undo_proof \<Rightarrow> json" where
  "undo_proof_json pf = JObj
     [(''status'', JStr (up_status pf)), (''dry_run_job_id'', up_job pf),
      (''validated_step_ids'', texts_json (up_steps pf)), (''evidence_refs'', texts_json (up_refs pf)),
      (''summary'', JStr (up_summary pf))]"

definition undo_gap_json :: "undo_gap \<Rightarrow> json" where
  "undo_gap_json g = JObj
     [(''code'', JStr (ug_code g)), (''summary'', JStr (ug_summary g)), (''severity'', JStr (ug_severity g))]"

definition undo_assessment_json :: "env \<Rightarrow> undo_assessment \<Rightarrow> json dict" where
  "undo_assessment_json e a =
     [(''rule_version'', JStr ROLLBACK_RULE_VERSION), (''evaluated_at'', JStr (env_isoformat e (ua_evaluated_at a))),
      (''confidence'', JStr (ua_confidence a)), (''confidence_score'', JInt (ua_score a)),
      (''summary'', JStr (ua_summary a)), (''rollback_defined'', JBool (ua_defined a)),
      (''rollback_proven'', JBool (ua_proven a)),
      (''coverage'', JObj
        [(''mutating_operations'', JInt (int (ua_mutating a))), (''linked_operations'', JInt (int (ua_linked a))),
         (''coverage_percent'', JInt (int (ua_coverage a))),
         (''unlinked_forward_step_ids'', texts_json (ua_unlinked a))]),
      (''helm'', helm_history_json (ua_helm a)),
      (''previous_helm_revision'', revision_json (hh_previous (ua_helm a))),
      (''previous_artifacts_available'',
        JBool (pv_manifests (ua_previous a) \<noteq> [] \<or> pv_values (ua_previous a) \<noteq> [])),
      (''previous_artifacts'', previous_artifacts_json (ua_previous a)),
      (''machine_plan_steps'', JArr (map undo_link_json (ua_links a))),
      (''pvc_data_reversibility'', JStr (ua_pvc a)),
      (''non_reversible_changes'', JArr (map undo_finding_json (ua_non_reversible a))),
      (''runtime_rollback_proven'', JBool (ua_proven a)), (''proof'', undo_proof_json (ua_proof a)),
      (''gaps'', JArr (map undo_gap_json (ua_gaps a))), (''manual_steps'', texts_json (ua_manual a)),
      (''validation_checks'', texts_json (ua_checks a)), (''evidence_refs'', JArr (ua_evidence_refs a)),
      (''artifacts'', JArr []), (''model_authority'', JBool False)]"

section \<open>What the percentage says\<close>

lemma rounded_bound: "0 < p \<Longrightarrow> 2 * p * rounded p n \<le> 2 * n + p"
proof -
  assume "0 < p"
  have n: "p * (n div p) + n mod p = n" by simp
  have "2 * p * (n div p + 1) = 2 * (p * (n div p)) + 2 * p" by (simp add: algebra_simps)
  also have "\<dots> \<le> 2 * n + p" if "p \<le> 2 * (n mod p)" using that n by linarith
  finally have "2 * p * (n div p + 1) \<le> 2 * n + p" if "p \<le> 2 * (n mod p)" using that .
  moreover have "2 * p * (n div p) \<le> 2 * n + p" using n by linarith
  ultimately show ?thesis by (auto simp: rounded_def Let_def)
qed

lemma scale_from_enough: "0 < a \<Longrightarrow> b * 2 ^ 52 \<le> a * 2 ^ scale_from a b k"
proof (induction a b k rule: scale_from.induct)
  case (1 a b k)
  then show ?case by (subst scale_from.simps) auto
qed

lemma scale_from_least:
  assumes "0 < a" and "b * 2 ^ 52 \<le> a * 2 ^ Suc n" and "a * 2 ^ n < b * 2 ^ 52"
  shows "k \<le> Suc n \<Longrightarrow> scale_from a b k = Suc n"
proof (induction "Suc n - k" arbitrary: k)
  case 0
  then show ?case using assms by (subst scale_from.simps) simp
next
  case (Suc d)
  then have "scale_from a b (Suc k) = Suc n" by simp
  moreover have "a * 2 ^ k \<le> a * 2 ^ n" using Suc(2) by (intro mult_le_mono2 power_increasing) auto
  from order.strict_trans1 [OF this assms(3)] have "\<not> b * 2 ^ 52 \<le> a * 2 ^ k" by (simp only: not_le)
  ultimately show ?case using assms(1) by (subst scale_from.simps) simp
qed

lemma scale_from_same: "0 < b \<Longrightarrow> scale_from b b 0 = 52"
  using scale_from_least [of b b 51 0] by simp

lemma percent_of_all: "0 < b \<Longrightarrow> double_percent b b = 100"
  by (simp add: double_percent_def scale_from_same rounded_def Let_def)

lemma percent_of_part:
  assumes "a < b" and "b < 2 ^ 51"
  shows "double_percent a b < 100"
proof (cases "a = 0")
  case False
  define k where "k = scale_from a b 0"
  define m where "m = rounded b (a * 2 ^ k)"
  define j :: nat where "j = (if m * 100 < 2 ^ 59 then 6 else 7)"
  define r where "r = rounded (2 ^ j) (m * 100)"
  have "b * 2 ^ 52 \<le> a * 2 ^ k" unfolding k_def using False by (intro scale_from_enough) simp
  also have "\<dots> \<le> b * 2 ^ k" using assms(1) by simp
  finally have "2 ^ 52 \<le> (2::nat) ^ k" using assms(1) by simp
  then have k: "2 * b < 2 ^ k" using assms(2) by simp
  have m: "2 * b * m \<le> 2 * (a * 2 ^ k) + b" unfolding m_def using assms(1) by (intro rounded_bound) simp
  have j: "(2::nat) ^ j \<le> 128" by (simp add: j_def)
  have "2 * 2 ^ j * r \<le> 2 * (m * 100) + 2 ^ j" unfolding r_def by (rule rounded_bound) simp
  also have "\<dots> \<le> 200 * m + 128" using j by simp
  finally have "b * (2 * 2 ^ j * r) \<le> b * (200 * m + 128)" by (rule mult_le_mono2)
  also have "\<dots> = 100 * (2 * b * m) + 128 * b" by (simp add: algebra_simps)
  also have "\<dots> \<le> 100 * (2 * (a * 2 ^ k) + b) + 128 * b" using m by simp
  also have "\<dots> \<le> 200 * ((b - 1) * 2 ^ k) + 228 * b"
    using mult_le_mono1 [of a "b - 1" "2 ^ k"] assms(1) by simp
  also have "\<dots> < 200 * ((b - 1) * 2 ^ k) + 200 * 2 ^ k" using k by simp
  also have "\<dots> = 200 * ((b - 1 + 1) * 2 ^ k)" by (simp only: add_mult_distrib add_mult_distrib2 mult_1)
  also have "\<dots> = b * (2 * (100 * 2 ^ k))" using assms(1) by simp
  finally have "r * 2 ^ j < 100 * 2 ^ k" by (simp add: mult.commute)
  then have "(r * 2 ^ j) div 2 ^ k < 100" by (rule less_mult_imp_div_less)
  with False show ?thesis by (simp add: double_percent_def Let_def k_def m_def j_def r_def)
next
  case True
  then show ?thesis by (simp add: double_percent_def)
qed

section \<open>When a rollback is defined\<close>

lemma linked_steps_known: "set (linked_steps forwards n step) \<subseteq> fs_id ` set forwards"
  by (cases forwards) (auto simp: linked_steps_def Let_def)

lemma linked_ids_known: "set (linked_ids (link_rollback_steps forwards undos)) \<subseteq> fs_id ` set forwards"
  using linked_steps_known by (fastforce simp: linked_ids_def link_rollback_steps_def undo_link_of_def)

lemma linked_count:
  fixes forwards undos
  defines "ids \<equiv> linked_ids (link_rollback_steps forwards undos)"
  shows "length ids \<le> length forwards"
    and "length ids = length forwards \<longleftrightarrow> distinct (map fs_id forwards) \<and> fs_id ` set forwards \<subseteq> set ids"
proof -
  have len: "length ids = card (set ids)"
    unfolding ids_def linked_ids_def by (subst distinct_card) simp_all
  have sub: "set ids \<subseteq> fs_id ` set forwards" unfolding ids_def by (rule linked_ids_known)
  have le: "card (set ids) \<le> card (fs_id ` set forwards)" using sub by (simp add: card_mono)
  have le': "card (fs_id ` set forwards) \<le> length forwards"
    using card_length [of "map fs_id forwards"] by simp
  from len le le' show "length ids \<le> length forwards" by simp
  show "length ids = length forwards \<longleftrightarrow> distinct (map fs_id forwards) \<and> fs_id ` set forwards \<subseteq> set ids"
  proof
    assume "length ids = length forwards"
    then have "card (set ids) = card (fs_id ` set forwards)" "card (set (map fs_id forwards)) = length (map fs_id forwards)"
      using len le le' by simp_all
    then show "distinct (map fs_id forwards) \<and> fs_id ` set forwards \<subseteq> set ids"
      using card_distinct [of "map fs_id forwards"] card_subset_eq [OF _ sub] by auto
  next
    assume all: "distinct (map fs_id forwards) \<and> fs_id ` set forwards \<subseteq> set ids"
    then have "set ids = set (map fs_id forwards)" using sub by auto
    then show "length ids = length forwards" using all len distinct_card [of "map fs_id forwards"] by simp
  qed
qed

definition all_linked :: "artifact_bundle \<Rightarrow> undo_link list \<Rightarrow> bool" where
  "all_linked bundle linkage \<longleftrightarrow>
     (\<forall>f \<in> set (forward_steps bundle). \<exists>l \<in> set linkage. fs_id f \<in> set (ul_forward l))"

lemma full_coverage:
  assumes "n < 2 ^ 51" and "m \<le> n"
  shows "\<not> coverage_of m n < 100 \<longleftrightarrow> m = n"
  using assms percent_of_part [of m n] percent_of_all [of n] by (cases "m = n") (auto simp: coverage_of_def)

lemma base_score_bounds: "0 \<le> base_score f" "base_score f \<le> 100"
  by (simp_all add: base_score_def Let_def)

lemma minus_if_le: "s \<le> t \<Longrightarrow> 0 \<le> n \<Longrightarrow> minus_if c n s \<le> t"
  by (simp add: minus_if_def)

lemma base_score_high:
  assumes "80 \<le> base_score f"
  shows "fa_has_steps f \<and> \<not> fa_coverage f < 100 \<and> \<not> fa_destructive f"
proof (rule ccontr)
  assume not: "\<not> ?thesis"
  let ?linked = "minus_if (\<not> fa_has_steps f \<or> fa_coverage f < 100) 30 100"
  let ?evidenced = "minus_if (fa_previous_missing f) 15 (minus_if (fa_helm_missing f) 20 ?linked)"
  let ?reversible = "if fa_pvc f = ''conditional'' then ?evidenced - 20
    else if fa_pvc f = ''not_reversible'' then 0 else ?evidenced"
  have "(if fa_destructive f then 0 else ?reversible) \<le> 70"
  proof (cases "fa_destructive f")
    case False
    with not have "?linked \<le> 70" by (auto simp: minus_if_def)
    then have "?evidenced \<le> 70" by (rule minus_if_le [OF minus_if_le]) simp_all
    then show ?thesis using False by simp
  qed simp
  then have "minus_if (fa_unproven f) 10 (if fa_destructive f then 0 else ?reversible) \<le> 70"
    by (rule minus_if_le) simp
  then have "base_score f \<le> 70" unfolding base_score_def Let_def by linarith
  with assms show False by simp
qed

lemma destructive_undos_iff:
  "destructive_undos undos = [] \<longleftrightarrow> \<not> list_ex (\<lambda>s. list_ex destructive_command (un_commands s)) undos"
  by (auto simp: destructive_undos_def list_ex_iff filter_empty_conv)

lemma assessed_undo:
  assumes "assess_rollback_twin e bundle captured now evidence = Inr a"
  obtains f where "ua_links a = link_rollback_steps (forward_steps bundle) (rollback_steps bundle)"
    and "ua_defined a = is_defined_by f"
    and "ua_proven a \<longleftrightarrow> ua_defined a \<and> up_status (ua_proof a) = ''passed''"
    and "fa_unproven f \<longleftrightarrow> up_status (ua_proof a) \<noteq> ''passed''"
    and "ua_confidence a = (if is_capped f then ''medium'' else rated_confidence f)"
    and "ua_score a = (if is_capped f then min (base_score f) 79 else base_score f)"
    and "fa_has_steps f \<longleftrightarrow> rollback_steps bundle \<noteq> []"
    and "fa_coverage f = coverage_of
      (length (linked_ids (link_rollback_steps (forward_steps bundle) (rollback_steps bundle))))
      (length (forward_steps bundle))"
    and "fa_destructive f \<longleftrightarrow> list_ex (\<lambda>s. list_ex destructive_command (un_commands s)) (rollback_steps bundle)"
    and "fa_mutating f = length (forward_steps bundle)"
    and "fa_linked f = length (linked_ids (link_rollback_steps (forward_steps bundle) (rollback_steps bundle)))"
proof -
  obtain paths pf where paths: "artifact_paths bundle = Inr paths"
    and pf: "rollback_proof evidence (link_rollback_steps (forward_steps bundle) (rollback_steps bundle)) = Inr pf"
    using assms unfolding assess_rollback_twin_def Let_def sbind_Inr by (elim exE conjE) (rule that)
  note run = assms [unfolded assess_rollback_twin_def Let_def paths pf sbind_simps sum.inject, symmetric]
  show thesis
    by (rule that [of "undo_facts_of bundle paths pf"])
      (simp_all add: run, simp_all add: undo_facts_of_def Let_def destructive_undos_iff)
qed

text \<open>
  C13. A rollback counts as defined exactly when the plan has a rollback step and every forward step,
  each with an identifier of its own, is linked by one; it counts as proven exactly when, besides,
  the evidence of the rollback steps passed. The confidence is high only for a proven rollback without a
  data-destructive command, it is low as soon as there is such a command, and unavailable exactly when
  there are no rollback steps; the score is between 0 and 100.
\<close>

theorem rollback_confidence_is_earned:
  assumes "assess_rollback_twin e bundle captured now evidence = Inr a"
    and "length (forward_steps bundle) < 2 ^ 51"
  shows "(ua_defined a \<longleftrightarrow> rollback_steps bundle \<noteq> [] \<and> distinct (map fs_id (forward_steps bundle)) \<and>
      all_linked bundle (ua_links a)) \<and>
    (ua_proven a \<longleftrightarrow> ua_defined a \<and> up_status (ua_proof a) = ''passed'') \<and>
    (ua_confidence a = ''high'' \<longrightarrow> ua_proven a) \<and>
    (list_ex (\<lambda>s. list_ex destructive_command (un_commands s)) (rollback_steps bundle) \<longrightarrow>
      ua_confidence a = ''low'') \<and>
    (ua_confidence a = ''unavailable'' \<longleftrightarrow> rollback_steps bundle = []) \<and>
    0 \<le> ua_score a \<and> ua_score a \<le> 100"
proof -
  let ?fs = "forward_steps bundle" and ?us = "rollback_steps bundle"
  let ?links = "link_rollback_steps ?fs ?us"
  let ?m = "length (linked_ids ?links)" and ?n = "length ?fs"
  let ?destructive = "list_ex (\<lambda>s. list_ex destructive_command (un_commands s)) ?us"
  obtain f where a: "ua_links a = ?links" "ua_defined a = is_defined_by f"
    "ua_proven a \<longleftrightarrow> ua_defined a \<and> up_status (ua_proof a) = ''passed''"
    "fa_unproven f \<longleftrightarrow> up_status (ua_proof a) \<noteq> ''passed''"
    "ua_confidence a = (if is_capped f then ''medium'' else rated_confidence f)"
    "ua_score a = (if is_capped f then min (base_score f) 79 else base_score f)"
    and f: "fa_has_steps f \<longleftrightarrow> ?us \<noteq> []" "fa_coverage f = coverage_of ?m ?n" "fa_destructive f \<longleftrightarrow> ?destructive"
    "fa_mutating f = ?n" "fa_linked f = ?m"
    by (rule assessed_undo [OF assms(1)])
  have counts: "?m \<le> ?n" "?m = ?n \<longleftrightarrow> distinct (map fs_id ?fs) \<and> fs_id ` set ?fs \<subseteq> set (linked_ids ?links)"
    by (rule linked_count)+
  have linked: "fs_id ` set ?fs \<subseteq> set (linked_ids ?links) \<longleftrightarrow> all_linked bundle ?links"
    by (auto simp: all_linked_def linked_ids_def)
  have "?n = 0 \<or> ?m = ?n \<longleftrightarrow> distinct (map fs_id ?fs) \<and> all_linked bundle ?links"
    using counts linked by auto
  then have is_defined: "ua_defined a \<longleftrightarrow> ?us \<noteq> [] \<and> distinct (map fs_id ?fs) \<and> all_linked bundle (ua_links a)"
    by (simp add: a is_defined_by_def f)
  have high: "ua_proven a" if "ua_confidence a = ''high''"
  proof -
    from that have high: "rated_confidence f = ''high''" and capped: "\<not> is_capped f"
      by (auto simp: a split: if_splits)
    from high have "80 \<le> base_score f"
      by (simp add: rated_confidence_def undo_confidence_def split: if_splits)
    then have "fa_has_steps f" "\<not> coverage_of ?m ?n < 100" using base_score_high [of f] f by auto
    then have "is_defined_by f"
      using full_coverage [OF assms(2) counts(1)] by (simp add: is_defined_by_def f)
    with capped high show ?thesis by (simp add: is_capped_def a)
  qed
  have rated: "rated_confidence f = undo_confidence (base_score f) (?us \<noteq> []) ?destructive"
    by (simp add: rated_confidence_def f)
  have low: "ua_confidence a = ''low''" if ?destructive
    using that by (simp add: a rated is_capped_def undo_confidence_def)
  have unavailable: "ua_confidence a = ''unavailable'' \<longleftrightarrow> ?us = []"
    by (cases "?us = []") (auto simp: a rated is_capped_def is_defined_by_def f undo_confidence_def)
  have "0 \<le> ua_score a \<and> ua_score a \<le> 100"
    using base_score_bounds [of f] by (auto simp: a)
  with is_defined a(3) high low unavailable show ?thesis by blast
qed

section \<open>Evidence that comes later\<close>

lemma assessed_facts:
  assumes "assess_rollback_twin e bundle captured now evidence = Inr a"
  obtains paths where "artifact_paths bundle = Inr paths"
    and "rollback_proof evidence (link_rollback_steps (forward_steps bundle) (rollback_steps bundle)) = Inr (ua_proof a)"
    and "ua_links a = link_rollback_steps (forward_steps bundle) (rollback_steps bundle)"
    and "ua_gaps a = undo_gaps (undo_facts_of bundle paths (ua_proof a))"
    and "ua_defined a = is_defined_by (undo_facts_of bundle paths (ua_proof a))"
    and "ua_proven a \<longleftrightarrow> ua_defined a \<and> up_status (ua_proof a) = ''passed''"
    and "ua_confidence a = (let f = undo_facts_of bundle paths (ua_proof a) in
      if is_capped f then ''medium'' else rated_confidence f)"
    and "ua_score a = (let f = undo_facts_of bundle paths (ua_proof a) in
      if is_capped f then min (base_score f) 79 else base_score f)"
    and "ua_non_reversible a = pvc_reversibility e (now 0) bundle (rollback_steps bundle) @
      non_reversible_changes e (\<lambda>n. now (length (pvc_reversibility e (now 0) bundle (rollback_steps bundle)) + n))
        (rollback_steps bundle)"
proof -
  obtain paths pf where paths: "artifact_paths bundle = Inr paths"
    and pf: "rollback_proof evidence (link_rollback_steps (forward_steps bundle) (rollback_steps bundle)) = Inr pf"
    using assms unfolding assess_rollback_twin_def Let_def sbind_Inr by (elim exE conjE) (rule that)
  note run = assms [unfolded assess_rollback_twin_def Let_def paths pf sbind_simps sum.inject, symmetric]
  have "fa_unproven (undo_facts_of bundle paths pf) \<longleftrightarrow> up_status pf \<noteq> ''passed''"
    by (simp add: undo_facts_of_def Let_def)
  with paths pf show thesis
    by (intro that) (simp_all add: run Let_def)
qed

text \<open>The facts of a bundle, apart from the proof.\<close>

lemma facts_of_proof:
  "undo_facts_of bundle paths pf = (undo_facts_of bundle paths pf')\<lparr>fa_unproven := (up_status pf \<noteq> ''passed'')\<rparr>"
  by (simp add: undo_facts_of_def Let_def)

lemma is_defined_by_proof [simp]: "is_defined_by (f\<lparr>fa_unproven := b\<rparr>) = is_defined_by f"
  by (simp add: is_defined_by_def)

lemma critical_findings:
  "list_ex (\<lambda>x. uf_severity x = ''critical'') (pvc_reversibility e t bundle undos @ non_reversible_changes e now undos) \<longleftrightarrow>
    pvc_status bundle undos = ''not_reversible'' \<or> destructive_undos undos \<noteq> []"
proof -
  have "list_ex (\<lambda>x. uf_severity x = ''critical'') (non_reversible_changes e now undos) \<longleftrightarrow> destructive_undos undos \<noteq> []"
    by (cases "destructive_undos undos") (auto simp: non_reversible_changes_def undo_finding_of_def)
  moreover have "list_ex (\<lambda>x. uf_severity x = ''critical'') (pvc_reversibility e t bundle undos) \<longleftrightarrow>
      pvc_status bundle undos = ''not_reversible''"
    by (simp add: pvc_reversibility_def pvc_status_def undo_finding_of_def Let_def)
  ultimately show ?thesis by simp
qed

text \<open>Before the proof is looked at: what is left of the score.\<close>

definition score_without_proof :: "undo_facts \<Rightarrow> int" where
  "score_without_proof f = (if fa_destructive f then 0 else
     (let linked = minus_if (\<not> fa_has_steps f \<or> fa_coverage f < 100) 30 100;
          evidenced = minus_if (fa_previous_missing f) 15 (minus_if (fa_helm_missing f) 20 linked) in
      if fa_pvc f = ''conditional'' then evidenced - 20
      else if fa_pvc f = ''not_reversible'' then 0 else evidenced))"

lemma base_score_parts: "base_score f = max 0 (min (minus_if (fa_unproven f) 10 (score_without_proof f)) 100)"
  by (simp add: base_score_def score_without_proof_def Let_def)

lemma score_without_proof_lost:
  "fa_destructive f \<or> fa_pvc f = ''not_reversible'' \<Longrightarrow> score_without_proof f = 0"
  by (auto simp: score_without_proof_def)

lemma score_without_proof_cong [simp]: "score_without_proof (f\<lparr>fa_unproven := b\<rparr>) = score_without_proof f"
  by (cases f) (simp add: score_without_proof_def Let_def del: if_split)

lemma no_commands_no_pvc: "deletes_pvc undos \<Longrightarrow> undos \<noteq> []"
  by (auto simp: deletes_pvc_def str_contains_def str_lower_def Let_def)

definition rated_score :: "undo_facts \<Rightarrow> int" where
  "rated_score f = (if is_capped f then min (base_score f) 79 else base_score f)"

lemma score_without_proof_le: "score_without_proof f \<le> 100"
proof -
  let ?linked = "minus_if (\<not> fa_has_steps f \<or> fa_coverage f < 100) 30 100"
  have "minus_if (fa_previous_missing f) 15 (minus_if (fa_helm_missing f) 20 ?linked) \<le> 100"
    by (rule minus_if_le [OF minus_if_le [OF minus_if_le]]) simp_all
  then show ?thesis by (simp add: score_without_proof_def Let_def)
qed

lemma confidence_levels:
  "undo_confidence s True False = (if 80 \<le> s then ''high'' else if 55 \<le> s then ''medium'' else ''low'')"
  by (simp add: undo_confidence_def)

text \<open>A proof that comes later gives back the ten points that its absence cost.\<close>

lemma proof_adds_ten:
  assumes "fa_unproven f" and "is_defined_by f"
    and critical: "critical \<longleftrightarrow> fa_pvc f = ''not_reversible'' \<or> fa_destructive f"
  shows "undo_confidence (min 100 (rated_score f + 10)) (fa_has_steps f) critical =
    rated_confidence (f\<lparr>fa_unproven := False\<rparr>)"
proof -
  let ?s = "score_without_proof f"
  have steps: "fa_has_steps f" using assms(2) by (simp add: is_defined_by_def)
  have base: "base_score f = max 0 (min (?s - 10) 100)"
    "base_score (f\<lparr>fa_unproven := False\<rparr>) = max 0 (min ?s 100)"
    using assms(1) by (simp_all add: base_score_parts minus_if_def)
  show ?thesis
  proof (cases critical)
    case True
    then have "?s = 0" using critical score_without_proof_lost by blast
    then show ?thesis using True steps base by (simp add: rated_confidence_def undo_confidence_def)
  next
    case False
    then have "\<not> fa_destructive f" using critical by simp
    then have rated: "rated_confidence f = undo_confidence (base_score f) True False"
      "rated_confidence (f\<lparr>fa_unproven := False\<rparr>) = undo_confidence (base_score (f\<lparr>fa_unproven := False\<rparr>)) True False"
      using steps by (simp_all add: rated_confidence_def)
    have "is_capped f \<longleftrightarrow> 90 \<le> ?s"
      using assms(1,2) by (auto simp: is_capped_def rated(1) base(1) confidence_levels)
    then show ?thesis
      using False steps score_without_proof_le [of f]
      by (auto simp: rated(2) base rated_score_def confidence_levels)
  qed
qed

lemma unproven_stays:
  assumes "fa_unproven f" and "fa_pvc f = ''not_reversible'' \<Longrightarrow> fa_has_steps f"
    and critical: "critical \<longleftrightarrow> fa_pvc f = ''not_reversible'' \<or> fa_destructive f"
  shows "undo_confidence (rated_score f) (fa_has_steps f) critical =
    (if is_capped f then ''medium'' else rated_confidence f)"
proof (cases critical)
  case True
  then have "score_without_proof f = 0" using critical score_without_proof_lost by blast
  then have "base_score f = 0" using assms(1) by (simp add: base_score_parts minus_if_def)
  then show ?thesis using True critical assms(2)
    by (auto simp: rated_confidence_def undo_confidence_def rated_score_def is_capped_def)
next
  case False
  then have "rated_confidence f = undo_confidence (base_score f) (fa_has_steps f) False"
    using critical by (simp add: rated_confidence_def)
  then show ?thesis using False
    by (auto simp: rated_score_def is_capped_def undo_confidence_def is_defined_by_def split: if_splits)
qed

lemma gaps_of_proof:
  "filter (\<lambda>g. ug_code g \<noteq> ''ROLLBACK_NOT_PROVEN'') (undo_gaps f) = undo_gaps (f\<lparr>fa_unproven := False\<rparr>)"
  "undo_gaps (f\<lparr>fa_unproven := True\<rparr>) = undo_gaps (f\<lparr>fa_unproven := False\<rparr>) @ [not_proven]"
  by (auto simp: undo_gaps_def gap_def not_proven_def)

lemma no_evidence: "rollback_proof [] linkage = Inr pf \<Longrightarrow> up_status pf = ''not_run''"
  by (auto simp: rollback_proof_def gather_def py_items_def get_or_null_def proof_status_def Let_def)

text \<open>
  C14. For a rollback that is defined, it does not matter whether the evidence of the dry run is there when
  the plan is assessed or is attached later: proof, gaps and confidence are the same.
\<close>

theorem later_proof_is_as_good:
  assumes "assess_rollback_twin e bundle captured now [] = Inr a"
    and "enrich_rollback_proof a later evidence = Inr b"
    and "assess_rollback_twin e bundle captured now evidence = Inr c"
    and "ua_defined a"
  shows "ua_confidence b = ua_confidence c \<and> ua_proven b = ua_proven c \<and> ua_proof b = ua_proof c \<and>
    ua_gaps b = ua_gaps c"
proof -
  let ?undos = "rollback_steps bundle" and ?links = "link_rollback_steps (forward_steps bundle) (rollback_steps bundle)"
  obtain paths where a: "artifact_paths bundle = Inr paths" "rollback_proof [] ?links = Inr (ua_proof a)"
    "ua_links a = ?links" "ua_gaps a = undo_gaps (undo_facts_of bundle paths (ua_proof a))"
    "ua_defined a = is_defined_by (undo_facts_of bundle paths (ua_proof a))"
    "ua_score a = rated_score (undo_facts_of bundle paths (ua_proof a))"
    and changes: "ua_non_reversible a = pvc_reversibility e (now 0) bundle ?undos @
      non_reversible_changes e (\<lambda>n. now (length (pvc_reversibility e (now 0) bundle ?undos) + n)) ?undos"
    by (rule assessed_facts [OF assms(1)]) (simp add: rated_score_def Let_def)
  have critical: "list_ex (\<lambda>x. uf_severity x = ''critical'') (ua_non_reversible a) \<longleftrightarrow>
      pvc_status bundle ?undos = ''not_reversible'' \<or> destructive_undos ?undos \<noteq> []"
    unfolding changes by (rule critical_findings)
  obtain paths' where c: "artifact_paths bundle = Inr paths'" "rollback_proof evidence ?links = Inr (ua_proof c)"
    "ua_gaps c = undo_gaps (undo_facts_of bundle paths' (ua_proof c))"
    "ua_proven c \<longleftrightarrow> ua_defined c \<and> up_status (ua_proof c) = ''passed''"
    "ua_defined c = is_defined_by (undo_facts_of bundle paths' (ua_proof c))"
    "ua_confidence c = (let f = undo_facts_of bundle paths' (ua_proof c) in
      if is_capped f then ''medium'' else rated_confidence f)"
    by (rule assessed_facts [OF assms(3)])
  have same: "paths' = paths" using a(1) c(1) by simp
  define f where "f = undo_facts_of bundle paths (ua_proof a)"
  have "up_status (ua_proof a) = ''not_run''"
    using a(2) by (rule no_evidence)
  then have unproven: "fa_unproven f" by (simp add: f_def undo_facts_of_def Let_def)
  have f: "fa_has_steps f \<longleftrightarrow> ?undos \<noteq> []" "fa_pvc f = pvc_status bundle ?undos"
    "fa_destructive f \<longleftrightarrow> destructive_undos ?undos \<noteq> []" "is_defined_by f"
    using assms(4) by (simp_all add: a(5) f_def undo_facts_of_def Let_def)
  have steps: "fa_has_steps f" using f(4) by (simp add: is_defined_by_def)
  have g: "undo_facts_of bundle paths (ua_proof c) = f\<lparr>fa_unproven := (up_status (ua_proof c) \<noteq> ''passed'')\<rparr>"
    unfolding f_def by (rule facts_of_proof)
  let ?proven = "up_status (ua_proof c) = ''passed''"
  let ?critical = "list_ex (\<lambda>x. uf_severity x = ''critical'') (ua_non_reversible a)"
  have b: "ua_proof b = ua_proof c" "ua_proven b = ?proven"
    "ua_gaps b = (if ?proven then undo_gaps (f\<lparr>fa_unproven := False\<rparr>)
      else undo_gaps (f\<lparr>fa_unproven := False\<rparr>) @ [not_proven])"
    "ua_confidence b = undo_confidence (if ?proven then min 100 (rated_score f + 10) else rated_score f)
      (?undos \<noteq> []) ?critical"
    using assms(2,4) c(2) gaps_of_proof(1) [of f]
    by (auto simp: enrich_rollback_proof_def a(3,4,6) sbind_Inr Let_def f_def [symmetric] link_rollback_steps_def)
  have crit: "?critical \<longleftrightarrow> fa_pvc f = ''not_reversible'' \<or> fa_destructive f" by (simp add: critical f)
  have "ua_confidence b = ua_confidence c"
  proof (cases ?proven)
    case True
    then have "\<not> is_capped (f\<lparr>fa_unproven := False\<rparr>)" by (simp add: is_capped_def)
    then show ?thesis using True proof_adds_ten [OF unproven f(4) crit] steps
      by (simp add: b(4) c(6) same g f(1))
  next
    case False
    then have "f\<lparr>fa_unproven := True\<rparr> = f" using unproven by (cases f) simp
    then show ?thesis using False unproven_stays [OF unproven steps crit] steps
      by (simp add: b(4) c(6) same g f(1) Let_def)
  qed
  moreover have "ua_gaps b = ua_gaps c"
    using gaps_of_proof(2) [of f] by (simp add: b(3) c(3) same g)
  moreover have "ua_proven b = ua_proven c" using f(4) by (simp add: b(2) c(4,5) same g)
  ultimately show ?thesis by (simp add: b(1))
qed

section \<open>A plan with its rollback\<close>

definition demo_undo_plan :: "plan_step list \<Rightarrow> artifact_bundle" where
  "demo_undo_plan plan_steps = demo_graph_bundle\<lparr>ab_plan := (ab_plan demo_graph_bundle)\<lparr>mp_phases :=
     [\<lparr>pp_id = ''p'', pp_title = None, pp_objective = ''o'', pp_depends_on = [], pp_steps = plan_steps\<rparr>]\<rparr>\<rparr>"

definition demo_undo_step :: "string \<Rightarrow> string \<Rightarrow> string \<Rightarrow> string list \<Rightarrow> plan_step" where
  "demo_undo_step ident step_type command refs =
     \<lparr>ps_id = ident, ps_title = ''t'', ps_type = step_type, ps_depends_on = [], ps_evidence_refs = [],
      ps_manifest_refs = refs, ps_values_refs = [],
      ps_commands = [\<lparr>pcm_kind = ''shell'', pcm_text = command, pcm_dry_run = None, pcm_mutating = Some True\<rparr>],
      ps_rollback_commands = [], ps_metadata = [], ps_expected_outcomes = [], ps_required_human_inputs = [],
      ps_inference = None\<rparr>"

definition demo_undo_bundle :: artifact_bundle where
  "demo_undo_bundle = demo_undo_plan
     [demo_undo_step ''s'' ''k8s_apply'' ''kubectl apply'' [''m.yaml''],
      demo_undo_step ''rollback'' ''k8s_delete'' ''rollback: kubectl delete'' [''m.yaml'']]"

definition demo_undo_evidence :: "json dict" where
  "demo_undo_evidence = [(''observations'', JArr [JObj [(''step'', JStr ''rollback''), (''outcome'', JStr ''accepted'')]])]"

lemma demo_undo_length: "length (forward_steps demo_undo_bundle) = 1"
  by code_simp

definition demo_undo_links :: "undo_link list" where
  "demo_undo_links = link_rollback_steps (forward_steps demo_undo_bundle) (rollback_steps demo_undo_bundle)"

definition demo_undo_facts :: "string \<Rightarrow> undo_facts" where
  "demo_undo_facts status =
     \<lparr>fa_has_steps = True, fa_mutating = 1, fa_linked = 1, fa_coverage = 100, fa_helm_missing = False,
      fa_previous_missing = True, fa_pvc = ''not_applicable'', fa_destructive = False,
      fa_unproven = (status \<noteq> ''passed'')\<rparr>"

lemma demo_undo_paths: "artifact_paths demo_undo_bundle = Inr []"
  by code_simp

lemma demo_undo_linked: "linked_ids demo_undo_links = [''s'']" "rollback_steps demo_undo_bundle \<noteq> []"
  "map ul_forward demo_undo_links = [[''s'']]"
  by code_simp+

lemma demo_undo_no_helm: "\<not> hh_required (helm_history_of demo_undo_bundle [] (forward_steps demo_undo_bundle)
    (rollback_steps demo_undo_bundle))"
  "pvc_status demo_undo_bundle (rollback_steps demo_undo_bundle) = ''not_applicable''"
  "destructive_undos (rollback_steps demo_undo_bundle) = []"
  "pvc_reversibility e t demo_undo_bundle (rollback_steps demo_undo_bundle) = []"
  by code_simp+

lemma demo_undo_proof:
  "\<exists>pf. rollback_proof demo_undo_evidence demo_undo_links = Inr pf \<and> up_status pf = ''passed''"
  "\<exists>pf. rollback_proof [] demo_undo_links = Inr pf \<and> up_status pf = ''not_run''"
proof -
  have "case rollback_proof demo_undo_evidence demo_undo_links of Inl err \<Rightarrow> False | Inr pf \<Rightarrow> up_status pf = ''passed''"
    by code_simp
  then show "\<exists>pf. rollback_proof demo_undo_evidence demo_undo_links = Inr pf \<and> up_status pf = ''passed''"
    by (auto split: sum.splits)
  have "case rollback_proof [] demo_undo_links of Inl err \<Rightarrow> False | Inr pf \<Rightarrow> up_status pf = ''not_run''"
    by code_simp
  then show "\<exists>pf. rollback_proof [] demo_undo_links = Inr pf \<and> up_status pf = ''not_run''"
    by (auto split: sum.splits)
qed

lemma demo_undo_facts: "undo_facts_of demo_undo_bundle [] pf = demo_undo_facts (up_status pf)"
  by (simp add: undo_facts_of_def demo_undo_facts_def Let_def demo_undo_linked demo_undo_no_helm
    demo_undo_length demo_undo_links_def [symmetric] coverage_of_def percent_of_all previous_artifacts_of_def)

lemma demo_undo_assessed:
  assumes "rollback_proof evidence demo_undo_links = Inr pf"
  obtains a where "assess_rollback_twin demo_env demo_undo_bundle 0 int evidence = Inr a"
    and "ua_defined a" and "ua_links a = demo_undo_links"
    and "ua_confidence a = (if up_status pf = ''passed'' then ''high'' else ''medium'')"
proof -
  have "\<exists>a. assess_rollback_twin demo_env demo_undo_bundle 0 int evidence = Inr a \<and> ua_defined a \<and>
      ua_links a = demo_undo_links \<and> ua_confidence a = (if up_status pf = ''passed'' then ''high'' else ''medium'')"
    unfolding assess_rollback_twin_def Let_def demo_undo_paths demo_undo_links_def [symmetric] sbind_simps
      assms demo_undo_facts
    by (simp add: demo_undo_facts_def is_defined_by_def is_capped_def rated_confidence_def base_score_def
      undo_confidence_def minus_if_def)
  with that show thesis by blast
qed

theorem rollback_confidence_is_earned_witness:
  "\<exists>a. assess_rollback_twin demo_env demo_undo_bundle 0 int demo_undo_evidence = Inr a \<and>
     ua_confidence a = ''high'' \<and> ua_proven a \<and> distinct (map fs_id (forward_steps demo_undo_bundle))"
proof -
  obtain pf where pf: "rollback_proof demo_undo_evidence demo_undo_links = Inr pf" "up_status pf = ''passed''"
    using demo_undo_proof(1) by blast
  obtain a where a: "assess_rollback_twin demo_env demo_undo_bundle 0 int demo_undo_evidence = Inr a"
    "ua_confidence a = ''high''"
    by (rule demo_undo_assessed [OF pf(1)]) (simp add: pf)
  have "length (forward_steps demo_undo_bundle) < 2 ^ 51" by (simp add: demo_undo_length)
  from rollback_confidence_is_earned [OF a(1) this] a show ?thesis by blast
qed

theorem later_proof_is_as_good_witness:
  "\<exists>a b c. assess_rollback_twin demo_env demo_undo_bundle 0 int [] = Inr a \<and> ua_confidence a = ''medium'' \<and>
     enrich_rollback_proof a 1 demo_undo_evidence = Inr b \<and>
     assess_rollback_twin demo_env demo_undo_bundle 0 int demo_undo_evidence = Inr c \<and>
     ua_confidence b = ''high'' \<and> ua_confidence c = ''high''"
proof -
  obtain pf where pf: "rollback_proof demo_undo_evidence demo_undo_links = Inr pf" "up_status pf = ''passed''"
    using demo_undo_proof(1) by blast
  obtain pf' where pf': "rollback_proof [] demo_undo_links = Inr pf'" "up_status pf' = ''not_run''"
    using demo_undo_proof(2) by blast
  obtain a where a: "assess_rollback_twin demo_env demo_undo_bundle 0 int [] = Inr a" "ua_defined a"
    "ua_links a = demo_undo_links" "ua_confidence a = ''medium''"
    by (rule demo_undo_assessed [OF pf'(1)]) (simp add: pf')
  obtain c where c: "assess_rollback_twin demo_env demo_undo_bundle 0 int demo_undo_evidence = Inr c"
    "ua_confidence c = ''high''"
    by (rule demo_undo_assessed [OF pf(1)]) (simp add: pf)
  obtain b where b: "enrich_rollback_proof a 1 demo_undo_evidence = Inr b"
    by (simp add: enrich_rollback_proof_def a pf Let_def)
  from later_proof_is_as_good [OF a(1) b c(1) a(2)] a b c show ?thesis by auto
qed

section \<open>What the assessment gets wrong\<close>

text \<open>
  A forward step whose command mentions a rollback counts as its own rollback step and is linked with
  itself: the plan is fully covered.
\<close>

lemma step_undoes_itself:
  "let bundle = demo_undo_plan
         [demo_undo_step ''s'' ''k8s_apply'' ''helm upgrade --rollback-on-failure'' [''m.yaml'']] in
     map (\<lambda>l. (ul_id l, ul_forward l)) (link_rollback_steps (forward_steps bundle) (rollback_steps bundle)) =
       [(''s'', [''s''])] \<and> map fs_id (forward_steps bundle) = [''s'']"
  by code_simp

text \<open>The two roundings lose a percent: of 100 steps, 29 linked ones are a coverage of 28.\<close>

lemma coverage_loses_a_percent: "coverage_of 29 100 = 28"
proof -
  have "scale_from 29 100 0 = 54" using scale_from_least [of 29 100 53 0] by simp
  then show ?thesis by (simp add: coverage_of_def double_percent_def rounded_def)
qed

text \<open>
  Evidence that passes for a rollback that is not fully defined costs no points when the plan is
  assessed with it, but ten, with a gap, when it is attached later.
\<close>

lemma undefined_rollback_differs:
  assumes "assess_rollback_twin e bundle captured now [] = Inr a"
    and "enrich_rollback_proof a later evidence = Inr b"
    and "assess_rollback_twin e bundle captured now evidence = Inr c"
    and "\<not> ua_defined a" and "up_status (ua_proof c) = ''passed''"
  shows "not_proven \<in> set (ua_gaps b)" and "not_proven \<notin> set (ua_gaps c)"
proof -
  obtain paths where c: "ua_gaps c = undo_gaps (undo_facts_of bundle paths (ua_proof c))"
    by (rule assessed_facts [OF assms(3)])
  have "not_proven \<notin> set (undo_gaps f)" if "\<not> fa_unproven f" for f
    using that by (auto simp: undo_gaps_def gap_def not_proven_def)
  then show "not_proven \<notin> set (ua_gaps c)" by (simp add: c undo_facts_of_def assms(5) Let_def)
  show "not_proven \<in> set (ua_gaps b)"
    using assms(2,4) by (auto simp: enrich_rollback_proof_def sbind_Inr Let_def)
qed

end
