(* ===== verification/TwinReplay.thy ===== *)
theory TwinReplay
  imports TwinStore ApiBundles
begin

text \<open>
  The validation of replay evidence (\<open>namespace_twin/mop_replay_twin.py\<close>): a rehearsal of the plan on
  infrastructure of its own may be attached to a twin when it is approved, isolated and cleaned up.
  A row of the payload is a mapping, as the routes require; \<open>dict\<close> would also take a list of pairs.
\<close>

section \<open>Constants\<close>

definition REPLAY_RULES_VERSION :: string where
  "REPLAY_RULES_VERSION = ''namespace-twin-mop-replay-1.0.0''"

definition REPLAY_MODES :: "string list" where
  "REPLAY_MODES = [''mimic_namespace'', ''ephemeral_cluster'']"

definition TIMELINE_STATUSES :: "string list" where
  "TIMELINE_STATUSES = [''pending'', ''running'', ''passed'', ''warning'', ''failed'', ''skipped'']"

definition CHECK_TYPES :: "string list" where
  "CHECK_TYPES = [''helm_hook'', ''readiness'', ''init_container'', ''pvc_binding'', ''service'', ''smoke_test'',
     ''log'', ''cleanup'']"

definition CHECK_STATUSES :: "string list" where
  "CHECK_STATUSES = [''passed'', ''warning'', ''failed'', ''skipped'', ''not_available'']"

definition REQUIRED_CHECKS :: "string list" where
  "REQUIRED_CHECKS = [''readiness'', ''smoke_test'', ''cleanup'']"

text \<open>\<open>^[a-z0-9](?:[-a-z0-9]{0,61}[a-z0-9])?$\<close> on the whole text.\<close>

definition dns_label :: "string \<Rightarrow> bool" where
  "dns_label s \<longleftrightarrow>
     s \<noteq> [] \<and> length s \<le> 63 \<and> hd s \<noteq> CHR ''-'' \<and> last s \<noteq> CHR ''-'' \<and>
     list_all (\<lambda>c. is_lower c \<or> is_digit c \<or> c = CHR ''-'') s"

section \<open>Data\<close>

text \<open>The evidence is refused for a reason, or a value of the payload cannot be read.\<close>

datatype replay_error = Refused string string | Unreadable py_error

record timeline_row =
  tl_sequence :: int
  tl_phase :: string
  tl_status :: string
  tl_summary :: string
  tl_created :: string

record replay_check =
  rk_type :: string
  rk_status :: string
  rk_summary :: string

record replay_evidence =
  rv_id :: string
  rv_source_type :: string
  rv_source_id :: "string option"
  rv_summary :: string
  rv_captured :: json
  rv_href :: "string option"

record replay_result =
  rp_id :: string
  rp_status :: string
  rp_mode :: string
  rp_target :: string
  rp_strategy :: string
  rp_retention :: int
  rp_timeline :: "timeline_row list"
  rp_checks :: "replay_check list"
  rp_cleanup :: string
  rp_evidence :: "replay_evidence list"
  rp_limitations :: "string list"
  rp_approval :: string
  rp_recorded :: instant

definition readable :: "py_error + 'a \<Rightarrow> replay_error + 'a" where
  "readable r = (case r of Inl err \<Rightarrow> Inl (Unreadable err) | Inr x \<Rightarrow> Inr x)"

definition require :: "bool \<Rightarrow> string \<Rightarrow> string \<Rightarrow> replay_error + unit" where
  "require ok code message = (if ok then Inr () else Inl (Refused code message))"

lemma require_Inr [simp]: "require ok code message = Inr u \<longleftrightarrow> ok"
  by (simp add: require_def)

lemma require_True [simp]: "require True code message = Inr ()"
  by (simp add: require_def)

text \<open>\<open>str(item.get(key) or "").strip()\<close>.\<close>

definition stripped :: "json dict \<Rightarrow> string \<Rightarrow> string" where
  "stripped item key = str_strip (text_or (get_or_null item key) [])"

definition row_dict :: "json \<Rightarrow> py_error + json dict" where
  "row_dict v =
     (case json_or v (JObj []) of JObj d \<Rightarrow> Inr d | _ \<Rightarrow> Inl (TypeError ''cannot convert to a dict''))"

section \<open>The rows of the evidence\<close>

definition timeline_row_of :: "nat \<Rightarrow> json \<Rightarrow> replay_error + timeline_row" where
  "timeline_row_of index raw =
     sbind (readable (row_dict raw)) (\<lambda>item.
     sbind (readable (py_int (json_or (get_or_null item ''sequence'') (JInt 0)))) (\<lambda>sequence.
     let status = stripped item ''status''; phase = stripped item ''phase'';
         summary = stripped item ''summary''; created = stripped item ''created_at'' in
     sbind (require (sequence = int index) ''invalid_replay_sequence''
       ''Replay timeline sequence must be contiguous from 1.'') (\<lambda>_.
     sbind (require (status \<in> set TIMELINE_STATUSES) ''invalid_replay_timeline_status''
       (''Invalid status: '' @ status @ ''.'')) (\<lambda>_.
     sbind (require (phase \<noteq> [] \<and> summary \<noteq> [] \<and> created \<noteq> []) ''invalid_replay_timeline_item''
       ''Replay timeline items need phase, summary, and time.'') (\<lambda>_.
     Inr \<lparr>tl_sequence = sequence, tl_phase = take 200 phase, tl_status = status,
       tl_summary = take 4000 summary, tl_created = created\<rparr>)))))"

definition replay_timeline :: "json \<Rightarrow> replay_error + timeline_row list" where
  "replay_timeline v =
     sbind (readable (py_items v)) (\<lambda>rows.
     sbind (require (rows \<noteq> []) ''replay_timeline_required'' ''Replay timeline evidence is required.'') (\<lambda>_.
     each_item (\<lambda>(index, raw). timeline_row_of index raw) (enumerate 1 (take 1000 rows))))"

definition replay_check_of :: "json \<Rightarrow> replay_error + replay_check" where
  "replay_check_of raw =
     sbind (readable (row_dict raw)) (\<lambda>item.
     let check_type = stripped item ''type''; status = stripped item ''status'';
         summary = stripped item ''summary'' in
     sbind (require (check_type \<in> set CHECK_TYPES \<and> status \<in> set CHECK_STATUSES \<and> summary \<noteq> [])
       ''invalid_replay_check'' ''Replay checks require a supported type, status, and summary.'') (\<lambda>_.
     Inr \<lparr>rk_type = check_type, rk_status = status, rk_summary = take 4000 summary\<rparr>))"

definition replay_checks :: "json \<Rightarrow> replay_error + replay_check list" where
  "replay_checks v =
     sbind (readable (py_items v)) (\<lambda>rows. each_item replay_check_of (take 1000 rows))"

text \<open>\<open>text or None\<close>.\<close>

definition nonempty_text :: "string \<Rightarrow> string option" where
  "nonempty_text s = (if s = [] then None else Some s)"

definition replay_evidence_of :: "json \<Rightarrow> replay_error + replay_evidence list" where
  "replay_evidence_of raw =
     sbind (readable (row_dict raw)) (\<lambda>item.
     let evidence_id = stripped item ''evidence_id''; summary = stripped item ''summary'' in
     Inr (if evidence_id = [] \<or> summary = [] then []
       else [\<lparr>rv_id = take 300 evidence_id,
         rv_source_type = take 80 (text_or (get_or_null item ''source_type'') ''report''),
         rv_source_id = nonempty_text (take 300 (stripped item ''source_id'')), rv_summary = take 4000 summary,
         rv_captured = get_or_null item ''captured_at'',
         rv_href = nonempty_text (take 2000 (stripped item ''href''))\<rparr>]))"

definition replay_evidence_refs :: "json \<Rightarrow> replay_error + replay_evidence list" where
  "replay_evidence_refs v =
     sbind (readable (py_items v)) (\<lambda>rows.
     sbind (each_item replay_evidence_of (take 200 rows)) (\<lambda>found. Inr (concat found)))"

section \<open>The result\<close>

definition isolation_ok :: "string \<Rightarrow> string \<Rightarrow> string option \<Rightarrow> string \<Rightarrow> string \<Rightarrow> replay_error + unit" where
  "isolation_ok mode isolation source_namespace target_namespace target_cluster =
     (if mode = ''mimic_namespace''
      then
        sbind (require (dns_label isolation \<and> starts_with isolation ''esda-twin-'') ''unsafe_replay_namespace''
          ''Mimic replay must use a DNS-safe namespace prefixed with esda-twin-.'') (\<lambda>_.
        require (isolation \<noteq> target_namespace \<and> isolation \<noteq> str_strip (opt_or source_namespace []))
          ''replay_target_not_isolated'' ''Mimic replay cannot use the source or intended target namespace.'')
      else
        require (isolation \<noteq> target_cluster) ''replay_cluster_not_isolated''
          (''Ephemeral replay cannot identify the configured target cluster as its '' @ ''isolation target.''))"

definition strategy_kind :: "string \<Rightarrow> string option" where
  "strategy_kind strategy =
     find (\<lambda>token. str_contains token (str_lower strategy)) [''synthetic'', ''placeholder'', ''redacted'']"

definition PRODUCTION_LIMIT :: string where
  "PRODUCTION_LIMIT =
     ''Isolated replay is additional evidence only and does not prove production success.''"

definition replay_limitations :: "json \<Rightarrow> replay_error + string list" where
  "replay_limitations v =
     sbind (readable (py_items v)) (\<lambda>items.
     let limitations = filter (\<lambda>s. s \<noteq> []) (map (\<lambda>i. take 2000 (str_strip (py_str i))) (take 50 items)) in
     Inr (if PRODUCTION_LIMIT \<in> set limitations then limitations else limitations @ [PRODUCTION_LIMIT]))"

definition missing_replay_checks :: "replay_check list \<Rightarrow> string list" where
  "missing_replay_checks checks = sort (filter (\<lambda>t. t \<notin> rk_type ` set checks) REQUIRED_CHECKS)"

definition has_failed :: "string \<Rightarrow> timeline_row list \<Rightarrow> replay_check list \<Rightarrow> bool" where
  "has_failed cleanup timeline checks \<longleftrightarrow>
     cleanup = ''failed'' \<or> list_ex (\<lambda>r. tl_status r = ''failed'') timeline \<or>
     list_ex (\<lambda>c. rk_status c = ''failed'') checks"

definition replay_id_of :: "env \<Rightarrow> json dict \<Rightarrow> string \<Rightarrow> string \<Rightarrow> string \<Rightarrow> string \<Rightarrow> string" where
  "replay_id_of e payload twin mode isolation approval =
     (let given = stripped payload ''replay_id'' in
      take 300 (if given \<noteq> [] then given
        else ''replay_'' @
          take 24 (env_sha256 e (twin @ '':'' @ mode @ '':'' @ isolation @ '':'' @ approval))))"

definition build_replay_result ::
    "env \<Rightarrow> string \<Rightarrow> string option \<Rightarrow> string \<Rightarrow> string \<Rightarrow> json dict \<Rightarrow> instant \<Rightarrow> replay_error + replay_result" where
  "build_replay_result e twin source_namespace target_namespace target_cluster payload recorded =
     (let approval = stripped payload ''approval_id''; mode = stripped payload ''mode'';
          isolation = stripped payload ''isolation_target'' in
      sbind (require (get_or_null payload ''infrastructure_approved'' = JBool True)
        ''replay_infrastructure_not_approved''
        ''Replay infrastructure must be explicitly approved before evidence is accepted.'') (\<lambda>_.
      sbind (require (approval \<noteq> []) ''replay_approval_id_required''
        ''An explicit replay infrastructure approval ID is required.'') (\<lambda>_.
      sbind (require (mode \<in> set REPLAY_MODES) ''invalid_replay_mode''
        ''Replay mode must be mimic_namespace or ephemeral_cluster.'') (\<lambda>_.
      sbind (require (isolation \<noteq> []) ''replay_isolation_target_required''
        ''An isolated replay target is required.'') (\<lambda>_.
      sbind (isolation_ok mode isolation source_namespace target_namespace target_cluster) (\<lambda>_.
      sbind (require (get_or_null payload ''production_secret_values_copied'' = JBool False)
        ''production_secret_copy_forbidden''
        ''Production Secret values must never be copied into replay infrastructure.'') (\<lambda>_.
      sbind (require (get_or_null payload ''production_data_copied'' = JBool False)
        ''production_data_copy_forbidden''
        ''Production data must never be copied into replay infrastructure.'') (\<lambda>_.
      case strategy_kind (stripped payload ''synthetic_secret_strategy'') of
        None \<Rightarrow> Inl (Refused ''synthetic_secret_strategy_required''
          ''Replay evidence must describe a synthetic, placeholder, or redacted Secret strategy.'')
      | Some kind \<Rightarrow>
          sbind (replay_timeline (get_or_null payload ''timeline'')) (\<lambda>timeline.
          sbind (replay_checks (get_or_null payload ''checks'')) (\<lambda>checks.
          sbind (require (missing_replay_checks checks = []) ''replay_checks_incomplete''
            (''Replay evidence is missing required checks: '' @
              str_join '', '' (missing_replay_checks checks) @ ''.'')) (\<lambda>_.
          let cleanup = stripped payload ''cleanup_status'' in
          sbind (require (cleanup \<in> {''completed'', ''failed''}) ''replay_cleanup_terminal_required''
            ''Replay evidence is accepted only after cleanup reaches completed or failed.'') (\<lambda>_.
          sbind (replay_evidence_refs (get_or_null payload ''evidence_refs'')) (\<lambda>evidence.
          sbind (replay_limitations (get_or_null payload ''limitations'')) (\<lambda>limitations.
          sbind (readable (py_int (json_or (get_or_null payload ''retention_seconds'') (JInt 0)))) (\<lambda>retention.
          Inr \<lparr>rp_id = replay_id_of e payload twin mode isolation approval,
            rp_status = (if has_failed cleanup timeline checks then ''failed'' else ''passed''),
            rp_mode = mode, rp_target = isolation, rp_strategy = kind, rp_retention = max 0 retention,
            rp_timeline = timeline, rp_checks = checks, rp_cleanup = cleanup, rp_evidence = evidence,
            rp_limitations = limitations, rp_approval = take 300 approval, rp_recorded = recorded\<rparr>)))))))))))))))"

text \<open>The result as it is stored: with its hash, taken over the rest.\<close>

definition timeline_json :: "timeline_row \<Rightarrow> json" where
  "timeline_json r = JObj
     [(''sequence'', JInt (tl_sequence r)), (''phase'', JStr (tl_phase r)), (''status'', JStr (tl_status r)),
      (''summary'', JStr (tl_summary r)), (''created_at'', JStr (tl_created r))]"

definition replay_check_json :: "replay_check \<Rightarrow> json" where
  "replay_check_json c = JObj
     [(''type'', JStr (rk_type c)), (''status'', JStr (rk_status c)), (''summary'', JStr (rk_summary c))]"

definition replay_evidence_json :: "replay_evidence \<Rightarrow> json" where
  "replay_evidence_json v = JObj
     [(''evidence_id'', JStr (rv_id v)), (''source_type'', JStr (rv_source_type v)),
      (''source_id'', optional JStr (rv_source_id v)), (''summary'', JStr (rv_summary v)),
      (''captured_at'', rv_captured v), (''redacted'', JBool True), (''href'', optional JStr (rv_href v))]"

definition replay_facts :: "env \<Rightarrow> replay_result \<Rightarrow> json dict" where
  "replay_facts e r =
     [(''replay_id'', JStr (rp_id r)), (''status'', JStr (rp_status r)),
      (''isolation'', JStr (rp_mode r @ '': '' @ rp_target r)),
      (''synthetic_secret_strategy'', JStr (rp_strategy r @ '' values only'')),
      (''retention_seconds'', JInt (rp_retention r)),
      (''timeline'', JArr (map timeline_json (rp_timeline r))),
      (''checks'', JArr (map replay_check_json (rp_checks r))), (''cleanup_status'', JStr (rp_cleanup r)),
      (''evidence_refs'', JArr (map replay_evidence_json (rp_evidence r))),
      (''limitations'', JArr (map JStr (rp_limitations r))), (''authoritative'', JBool True),
      (''additional_evidence_only'', JBool True), (''production_secret_values_copied'', JBool False),
      (''production_data_copied'', JBool False), (''model_authority'', JBool False),
      (''execution_eligibility_effect'', JStr ''none''), (''approval_id'', JStr (rp_approval r)),
      (''rules_version'', JStr REPLAY_RULES_VERSION), (''recorded_at'', JStr (env_isoformat e (rp_recorded r)))]"

definition replay_json :: "env \<Rightarrow> replay_result \<Rightarrow> json dict" where
  "replay_json e r =
     replay_facts e r @ [(''replay_hash'', JStr (plain_hash e (JObj (replay_facts e r))))]"

section \<open>What is accepted\<close>

definition isolated :: "string \<Rightarrow> string \<Rightarrow> string option \<Rightarrow> string \<Rightarrow> string \<Rightarrow> bool" where
  "isolated mode isolation source_namespace target_namespace target_cluster \<longleftrightarrow>
     (mode = ''mimic_namespace'' \<and> dns_label isolation \<and> starts_with isolation ''esda-twin-'' \<and>
        isolation \<noteq> target_namespace \<and> map_option str_strip source_namespace \<noteq> Some isolation) \<or>
     (mode = ''ephemeral_cluster'' \<and> isolation \<noteq> target_cluster)"

lemma readable_Inr [simp]: "readable r = Inr x \<longleftrightarrow> r = Inr x"
  by (cases r) (simp_all add: readable_def)

lemma each_item_Inr: "each_item f xs = Inr ys \<longleftrightarrow> list_all2 (\<lambda>x y. f x = Inr y) xs ys"
  by (induction xs arbitrary: ys) (auto simp: sbind_Inr list_all2_Cons1)

lemma isolation_ok_Inr:
  assumes "isolation_ok mode isolation source_namespace target_namespace target_cluster = Inr u"
    and "mode \<in> set REPLAY_MODES"
  shows "isolated mode isolation source_namespace target_namespace target_cluster"
  using assms
  by (cases source_namespace)
    (auto simp: isolation_ok_def isolated_def REPLAY_MODES_def opt_or_def sbind_Inr split: if_splits)

lemma timeline_row_sequence: "timeline_row_of index raw = Inr row \<Longrightarrow> tl_sequence row = int index"
  by (auto simp: timeline_row_of_def sbind_Inr Let_def)

lemma replay_timeline_sequence:
  assumes "replay_timeline v = Inr rows"
  shows "rows \<noteq> []" and "map tl_sequence rows = map int [1..<Suc (length rows)]"
proof -
  obtain xs where xs: "xs \<noteq> []"
    and rows: "list_all2 (\<lambda>x y. (case x of (i, raw) \<Rightarrow> timeline_row_of i raw) = Inr y)
      (enumerate 1 (take 1000 xs)) rows"
    using assms by (auto simp: replay_timeline_def sbind_Inr each_item_Inr)
  have len: "length rows = length (take 1000 xs)" using list_all2_lengthD [OF rows] by simp
  with xs show "rows \<noteq> []" by (cases xs) auto
  have "tl_sequence (rows ! n) = int (Suc n)" if "n < length rows" for n
    using list_all2_nthD2 [OF rows that] len that
    by (auto simp: nth_enumerate_eq dest: timeline_row_sequence)
  then show "map tl_sequence rows = map int [1..<Suc (length rows)]"
    by (intro nth_equalityI) (simp_all del: upt_Suc)
qed

lemma missing_replay_checks_none: "missing_replay_checks checks = [] \<longleftrightarrow> set REQUIRED_CHECKS \<subseteq> rk_type ` set checks"
proof -
  have "missing_replay_checks checks = [] \<longleftrightarrow> set (missing_replay_checks checks) = {}" by (simp only: set_empty)
  then show ?thesis by (auto simp: missing_replay_checks_def)
qed

lemma limitations_Inr: "replay_limitations v = Inr ls \<Longrightarrow> PRODUCTION_LIMIT \<in> set ls"
  by (auto simp: replay_limitations_def sbind_Inr Let_def)

lemma built_replay:
  assumes "build_replay_result e twin source_namespace target_namespace target_cluster payload recorded = Inr r"
  obtains "get_or_null payload ''infrastructure_approved'' = JBool True"
    and "get_or_null payload ''production_secret_values_copied'' = JBool False"
    and "get_or_null payload ''production_data_copied'' = JBool False"
    and "stripped payload ''approval_id'' \<noteq> []" and "rp_approval r = take 300 (stripped payload ''approval_id'')"
    and "isolated (rp_mode r) (rp_target r) source_namespace target_namespace target_cluster"
    and "replay_timeline (get_or_null payload ''timeline'') = Inr (rp_timeline r)"
    and "set REQUIRED_CHECKS \<subseteq> rk_type ` set (rp_checks r)"
    and "rp_cleanup r \<in> {''completed'', ''failed''}"
    and "rp_status r = (if has_failed (rp_cleanup r) (rp_timeline r) (rp_checks r) then ''failed'' else ''passed'')"
    and "PRODUCTION_LIMIT \<in> set (rp_limitations r)" and "0 \<le> rp_retention r"
proof -
  let ?kind = "strategy_kind (stripped payload ''synthetic_secret_strategy'')"
  obtain kind where kind: "?kind = Some kind"
    using assms unfolding build_replay_result_def Let_def sbind_Inr by (cases ?kind) auto
  show thesis
    using assms isolation_ok_Inr limitations_Inr
    unfolding build_replay_result_def Let_def kind option.case sbind_Inr
    by (elim exE conjE) (rule that; force simp: missing_replay_checks_none)
qed

text \<open>
  C15. Replay evidence is accepted only when its infrastructure was approved under a named approval, no
  production secrets or data were copied, it ran in a namespace of its own (a label with the prefix
  of the twins, other than source and target) or on another cluster, the steps of its timeline are
  numbered without gaps, every required check is reported, and the clean-up has ended; it counts as
  passed exactly when the clean-up completed and no step and no check failed.
\<close>

theorem replay_is_isolated:
  assumes "build_replay_result e twin source_namespace target_namespace target_cluster payload recorded = Inr r"
  shows "get_or_null payload ''infrastructure_approved'' = JBool True \<and> rp_approval r \<noteq> [] \<and>
    get_or_null payload ''production_secret_values_copied'' = JBool False \<and>
    get_or_null payload ''production_data_copied'' = JBool False \<and>
    isolated (rp_mode r) (rp_target r) source_namespace target_namespace target_cluster \<and>
    rp_timeline r \<noteq> [] \<and> map tl_sequence (rp_timeline r) = map int [1..<Suc (length (rp_timeline r))] \<and>
    set REQUIRED_CHECKS \<subseteq> rk_type ` set (rp_checks r) \<and> rp_cleanup r \<in> {''completed'', ''failed''} \<and>
    (rp_status r = ''passed'' \<longleftrightarrow> rp_cleanup r = ''completed'' \<and>
       (\<forall>row \<in> set (rp_timeline r). tl_status row \<noteq> ''failed'') \<and>
       (\<forall>check \<in> set (rp_checks r). rk_status check \<noteq> ''failed'')) \<and>
    PRODUCTION_LIMIT \<in> set (rp_limitations r)"
  using assms
proof (rule built_replay)
  assume r: "get_or_null payload ''infrastructure_approved'' = JBool True"
    "get_or_null payload ''production_secret_values_copied'' = JBool False"
    "get_or_null payload ''production_data_copied'' = JBool False"
    "stripped payload ''approval_id'' \<noteq> []" "rp_approval r = take 300 (stripped payload ''approval_id'')"
    "isolated (rp_mode r) (rp_target r) source_namespace target_namespace target_cluster"
    "set REQUIRED_CHECKS \<subseteq> rk_type ` set (rp_checks r)" "PRODUCTION_LIMIT \<in> set (rp_limitations r)"
    and cleanup: "rp_cleanup r \<in> {''completed'', ''failed''}"
    and status: "rp_status r = (if has_failed (rp_cleanup r) (rp_timeline r) (rp_checks r) then ''failed'' else ''passed'')"
    and timeline: "replay_timeline (get_or_null payload ''timeline'') = Inr (rp_timeline r)"
  have "rp_status r = ''passed'' \<longleftrightarrow> rp_cleanup r = ''completed'' \<and>
      (\<forall>row \<in> set (rp_timeline r). tl_status row \<noteq> ''failed'') \<and>
      (\<forall>check \<in> set (rp_checks r). rk_status check \<noteq> ''failed'')"
    using cleanup by (auto simp: status has_failed_def list_ex_iff)
  with r cleanup replay_timeline_sequence [OF timeline] show ?thesis by simp
qed

section \<open>A rehearsal\<close>

definition demo_replay_row :: "int \<Rightarrow> string \<Rightarrow> json" where
  "demo_replay_row n status = JObj
     [(''sequence'', JInt n), (''phase'', JStr ''p''), (''status'', JStr status), (''summary'', JStr ''s''),
      (''created_at'', JStr ''t'')]"

definition demo_replay_check :: "string \<Rightarrow> string \<Rightarrow> json" where
  "demo_replay_check check_type status = JObj
     [(''type'', JStr check_type), (''status'', JStr status), (''summary'', JStr ''s'')]"

definition demo_replay :: "string \<Rightarrow> string \<Rightarrow> json dict" where
  "demo_replay row_status check_status =
     [(''infrastructure_approved'', JBool True), (''approval_id'', JStr ''a1''), (''mode'', JStr ''mimic_namespace''),
      (''isolation_target'', JStr ''esda-twin-1''), (''production_secret_values_copied'', JBool False),
      (''production_data_copied'', JBool False), (''synthetic_secret_strategy'', JStr ''Synthetic''),
      (''timeline'', JArr [demo_replay_row 1 row_status]),
      (''checks'', JArr (map (\<lambda>t. demo_replay_check t check_status) REQUIRED_CHECKS)),
      (''cleanup_status'', JStr ''completed''), (''replay_id'', JStr ''r'')]"

text \<open>
  Nothing needs to have happened for a replay to pass: a timeline that is still pending and required
  checks that were skipped or not available are accepted, and the replay counts as passed.
\<close>

lemma unfinished_replay_passes:
  "case build_replay_result demo_env ''t'' (Some ''src'') ''ns'' ''c'' (demo_replay ''pending'' ''not_available'') 0 of
     Inl err \<Rightarrow> False | Inr r \<Rightarrow> rp_status r = ''passed'' \<and> rp_target r = ''esda-twin-1''"
  by code_simp

lemma target_is_not_a_replay_namespace:
  "build_replay_result demo_env ''t'' (Some ''src'') ''esda-twin-1'' ''c'' (demo_replay ''passed'' ''passed'') 0 =
     Inl (Refused ''replay_target_not_isolated'' ''Mimic replay cannot use the source or intended target namespace.'')"
  by code_simp

theorem replay_is_isolated_witness:
  "\<exists>r. build_replay_result demo_env ''t'' (Some ''src'') ''ns'' ''c'' (demo_replay ''pending'' ''not_available'') 0 = Inr r \<and>
     isolated (rp_mode r) ''esda-twin-1'' (Some ''src'') ''ns'' ''c'' \<and> rp_status r = ''passed''"
proof -
  obtain r where r: "build_replay_result demo_env ''t'' (Some ''src'') ''ns'' ''c''
      (demo_replay ''pending'' ''not_available'') 0 = Inr r" "rp_status r = ''passed''" "rp_target r = ''esda-twin-1''"
    using unfinished_replay_passes by (auto split: sum.splits)
  from replay_is_isolated [OF r(1)] r show ?thesis by auto
qed

end
