(* ===== verification/TwinService.thy ===== *)
theory TwinService
  imports TwinPolicy TwinDrift TwinRollback TwinReplay
begin

text \<open>
  The service of the twins (\<open>namespace_twin/service.py\<close>): how a twin gets its dry run, how the evidence
  of the dry run becomes a decision, and the records of drift, replay and execution. The service is
  given an execution service, which answers a call knowing the calls before it, and a collector of
  live snapshots. The policy twin, the rollback twin and the baseline that the facts of a twin hold are
  arguments, as the records whose stored form the facts hold. \<open>details\<close> of errors are left out, and an
  operation returns the row of the twin rather than its projection.
\<close>

section \<open>Errors and programs\<close>

datatype service_error =
    TwinError string string nat
  | StorageError store_error
  | Crash py_error
  | Unfinished

text \<open>Calls of the execution service.\<close>

datatype exec_call =
    GetJob string
  | RegisterBundle "json dict"
  | ValidateBundle string
  | CreateJob "json dict"
  | StartJob string
  | DryRunEvidence string

record service_state =
  sv_db :: twin_db
  sv_calls :: "exec_call list"

type_synonym 'a service = "(service_state, service_error, 'a) prog"

text \<open>
  \<open>ts_monotonic n\<close> is the monotonic clock, in microseconds, after \<open>n\<close> calls; \<open>ts_read_time\<close> is
  \<open>datetime.fromisoformat\<close>, with UTC where no zone is given.
\<close>

record twin_service =
  ts_execution :: "(exec_call list \<Rightarrow> exec_call \<Rightarrow> json dict) option"
  ts_monotonic :: "nat \<Rightarrow> int"
  ts_read_time :: "string \<Rightarrow> instant option"
  ts_max_age :: int
  ts_collect :: "string \<Rightarrow> live_snapshot"

definition stored :: "'a store \<Rightarrow> 'a service" where
  "stored m = (\<lambda>s. case m (sv_db s) of
     (Inl err, db) \<Rightarrow> (Inl (StorageError err), s\<lparr>sv_db := db\<rparr>)
   | (Inr x, db) \<Rightarrow> (Inr x, s\<lparr>sv_db := db\<rparr>))"

definition or_crash :: "py_error + 'a \<Rightarrow> 'a service" where
  "or_crash r = lift_result (case r of Inl err \<Rightarrow> Inl (Crash err) | Inr x \<Rightarrow> Inr x)"

definition refuse :: "string \<Rightarrow> string \<Rightarrow> nat \<Rightarrow> 'a service" where
  "refuse code message status = raise_err (TwinError code message status)"

definition demand :: "bool \<Rightarrow> string \<Rightarrow> string \<Rightarrow> nat \<Rightarrow> unit service" where
  "demand ok code message status = (if ok then ret () else refuse code message status)"

definition ask :: "(exec_call list \<Rightarrow> exec_call \<Rightarrow> json dict) \<Rightarrow> exec_call \<Rightarrow> json dict service" where
  "ask answers c = (\<lambda>s. (Inr (answers (sv_calls s) c), s\<lparr>sv_calls := sv_calls s @ [c]\<rparr>))"

definition answered :: "json dict \<Rightarrow> bool" where
  "answered response \<longleftrightarrow> truthy (get_or_null response ''ok'')"

text \<open>\<open>dict(d.get(key) or {})\<close>.\<close>

definition dict_field :: "json dict \<Rightarrow> string \<Rightarrow> py_error + json dict" where
  "dict_field d key = row_dict (get_or_null d key)"

section \<open>Waiting for the evidence\<close>

definition evidence_of :: "json dict \<Rightarrow> py_error + json dict" where
  "evidence_of response =
     sbind (py_dict (get_or_null response ''data'')) (\<lambda>data. dict_field data ''dry_run_evidence'')"

definition is_pending :: "string \<Rightarrow> bool" where
  "is_pending status \<longleftrightarrow> status \<in> {''pending'', ''running''}"

definition evidence_status :: "json dict \<Rightarrow> string" where
  "evidence_status evidence = text_or (get_or_null evidence ''status'') ''pending''"

text \<open>The loop asks until the evidence is final or the deadline has passed; the fuel bounds its rounds.\<close>

fun poll_evidence ::
    "twin_service \<Rightarrow> (exec_call list \<Rightarrow> exec_call \<Rightarrow> json dict) \<Rightarrow> string \<Rightarrow> int \<Rightarrow> nat \<Rightarrow> json dict service" where
  "poll_evidence svc answers job deadline 0 = raise_err Unfinished"
| "poll_evidence svc answers job deadline (Suc fuel) =
     bind (ask answers (DryRunEvidence job)) (\<lambda>response.
     seqp (demand (answered response) ''dry_run_job_not_found''
       ''The requested authoritative dry-run job was not found.'' 404)
     (bind (or_crash (evidence_of response)) (\<lambda>evidence.
      bind (gets (\<lambda>s. ts_monotonic svc (length (sv_calls s)))) (\<lambda>now.
      if \<not> is_pending (evidence_status evidence) \<or> deadline \<le> now then ret evidence
      else poll_evidence svc answers job deadline fuel))))"

text \<open>A wait of 30 seconds with pauses of at least a tenth of a second.\<close>

definition POLL_LIMIT :: nat where
  "POLL_LIMIT = 302"

definition wait_micros :: "json dict \<Rightarrow> py_error + int" where
  "wait_micros payload =
     sbind (py_int (json_or (get_or_null payload ''wait_seconds'') (JInt 0))) (\<lambda>n.
     Inr (seconds (max 0 (min n 30))))"

definition await_evidence ::
    "twin_service \<Rightarrow> (exec_call list \<Rightarrow> exec_call \<Rightarrow> json dict) \<Rightarrow> string \<Rightarrow> json dict \<Rightarrow> json dict service" where
  "await_evidence svc answers job payload =
     bind (or_crash (wait_micros payload)) (\<lambda>wait.
     bind (gets (\<lambda>s. ts_monotonic svc (length (sv_calls s)))) (\<lambda>start.
     poll_evidence svc answers job (start + wait) POLL_LIMIT))"

section \<open>Checking the evidence\<close>

definition shown :: "json \<Rightarrow> string" where
  "shown v = text_or v ''missing''"

definition observed_mismatch :: "json dict \<Rightarrow> string \<times> string \<Rightarrow> string list" where
  "observed_mismatch evidence = (\<lambda>(key, expected).
     let observed = get_or_null evidence key in
     if \<not> truthy observed \<or> py_str observed \<noteq> expected
     then [key @ '': expected '' @ str_or expected ''missing'' @ '', observed '' @ shown observed] else [])"

definition supplied_mismatch :: "json dict \<Rightarrow> string \<times> string \<Rightarrow> string list" where
  "supplied_mismatch payload = (\<lambda>(key, expected).
     let supplied = stripped payload key in
     if supplied \<noteq> [] \<and> supplied \<noteq> expected
     then [''request '' @ key @ '': expected '' @ str_or expected ''missing'' @ '', observed '' @ supplied]
     else [])"

definition evidence_mismatches :: "twin_run \<Rightarrow> json dict \<Rightarrow> json dict \<Rightarrow> string list" where
  "evidence_mismatches core payload evidence =
     concat (map (observed_mismatch evidence)
       [(''target_namespace'', tw_namespace core), (''bundle_hash'', tw_bundle_hash core),
        (''input_hash'', tw_input_hash core)]) @
     concat (map (supplied_mismatch payload)
       [(''bundle_hash'', str_strip (tw_bundle_hash core)), (''input_hash'', str_strip (tw_input_hash core)),
        (''command_fingerprint_hash'', stripped evidence ''command_fingerprint_hash'')])"

text \<open>\<open>int(delta.total_seconds())\<close>: cut off towards zero.\<close>

definition whole_seconds :: "int \<Rightarrow> int" where
  "whole_seconds d = (if d < 0 then - ((- d) div seconds 1) else d div seconds 1)"

definition evidence_age :: "twin_service \<Rightarrow> json dict \<Rightarrow> instant \<Rightarrow> int option" where
  "evidence_age svc evidence now =
     map_option (\<lambda>t. whole_seconds (now - t))
       (ts_read_time svc (str_replace ''Z'' ''+00:00''
         (py_str (json_or (get_or_null evidence ''completed_at'') (get_or_null evidence ''updated_at'')))))"

definition max_age :: "twin_service \<Rightarrow> int" where
  "max_age svc = max 60 (ts_max_age svc)"

text \<open>Evidence that passed without a fingerprint of its commands is partial.\<close>

definition partial_evidence :: "json dict \<Rightarrow> py_error + json dict" where
  "partial_evidence evidence =
     (let marked = dict_set ''status'' (JStr ''partial'') evidence in
      case get_or marked ''partial_steps'' (JArr []) of
        JArr xs \<Rightarrow> Inr (dict_set ''partial_steps'' (JArr (xs @ [JStr ''command_fingerprint_hash_missing''])) marked)
      | _ \<Rightarrow> Inl (AttributeError ''append''))"

definition qualified_evidence :: "json dict \<Rightarrow> py_error + string \<times> json dict" where
  "qualified_evidence evidence =
     (if evidence_status evidence = ''passed'' \<and> \<not> truthy (get_or_null evidence ''command_fingerprint_hash'')
      then sbind (partial_evidence evidence) (\<lambda>marked. Inr (''partial'', marked))
      else Inr (evidence_status evidence, evidence))"

section \<open>The decision\<close>

text \<open>The stored form of the policy twin.\<close>

definition policy_finding_json :: "policy_finding \<Rightarrow> json" where
  "policy_finding_json f = JObj
     [(''id'', JStr (pf_id f)), (''finding_id'', JStr (pf_id f)), (''code'', JStr (pf_code f)),
      (''category'', JStr (pf_category f)), (''severity'', JStr (pf_severity f)), (''effect'', JStr (pf_effect f)),
      (''status'', JStr (pf_status f)), (''title'', JStr (pf_title f)), (''detail'', JStr (pf_message f)),
      (''message'', JStr (pf_message f)), (''policy_version'', JStr (pf_policy_version f)),
      (''evidence_refs'', texts_json (pf_evidence_refs f))]"

definition final_decision_json :: "decision_projection \<Rightarrow> json" where
  "final_decision_json d = JObj
     (obj_items (decision_json d) @
      (case dp_axes_hash d of None \<Rightarrow> [] | Some h \<Rightarrow> [(''axes_hash'', JStr h)]))"

definition policy_twin_json :: "env \<Rightarrow> policy_twin \<Rightarrow> json dict" where
  "policy_twin_json e t =
     [(''schema_version'', JStr ''1.0.0''), (''evaluated_at'', JStr (pt_evaluated_at t)),
      (''input_hash'', JStr (pt_input_hash t)),
      (''policy_bundle'', JObj (obj_items POLICY_BUNDLE @ [(''hash'', JStr (POLICY_BUNDLE_HASH e))])),
      (''policy_axis'', policy_axis_json (pt_policy t)), (''evidence_axis'', evidence_axis_json (pt_evidence t)),
      (''risk_axis'', risk_axis_json (pt_risk t)), (''decision_projection'', final_decision_json (pt_decision t)),
      (''rule_contributions'', JArr (map contribution_json (pt_contributions t))),
      (''findings'', JArr (map policy_finding_json (pt_findings t))),
      (''passed_groups'', texts_json (pt_passed_groups t)), (''command_fingerprint_hash'', pt_fingerprint t),
      (''dry_run_job_id'', pt_dry_run_job_id t),
      (''feature_toggles'', JObj
        [(''rollback_required'', JBool (pt_rollback_required t)),
         (''auto_approval_enabled'', JBool (pt_auto_approval t))]),
      (''model_authority'', JBool False)]"

definition projected_decision :: "string \<Rightarrow> string" where
  "projected_decision level =
     (let decision = str_or level ''amber'' in
      if decision \<in> {''green'', ''amber'', ''red''} then decision else ''amber'')"

definition runtime_effect :: "json dict \<Rightarrow> string" where
  "runtime_effect assessment = text_or (get_or_null assessment ''execution_effect'') ''no_uplift''"

definition decision_of :: "string \<Rightarrow> string \<Rightarrow> string \<Rightarrow> string" where
  "decision_of status level effect =
     (let decision = (if status \<noteq> ''passed'' then ''red'' else projected_decision level) in
      if effect = ''force_red'' then ''red''
      else if effect \<in> {''force_amber'', ''require_review''} \<and> decision = ''green'' then ''amber''
      else decision)"

definition qualification :: "string \<Rightarrow> json dict \<Rightarrow> string \<Rightarrow> py_error + json" where
  "qualification status evidence precedence =
     sbind (py_items (get_or_null evidence ''failed_steps'')) (\<lambda>failed.
     sbind (py_items (get_or_null evidence ''partial_steps'')) (\<lambda>partials.
     Inr (JObj
       [(''status'', JStr status), (''qualifies'', JBool (status = ''passed'')), (''failed_steps'', JArr failed),
        (''partial_steps'', JArr partials),
        (''precedence'', JStr (if status \<noteq> ''passed'' then ''authoritative_dry_run_failed_or_partial''
          else precedence))])))"

definition runtime_qualification :: "json dict \<Rightarrow> py_error + json" where
  "runtime_qualification assessment =
     sbind (py_dict (get_or_null assessment ''current_health'')) (\<lambda>health.
     Inr (JObj
       [(''risk'', json_or (get_or_null assessment ''risk'') (JStr ''unknown'')),
        (''health'', json_or (get_or_null health ''status'') (JStr ''unknown'')),
        (''execution_effect'', JStr (runtime_effect assessment)),
        (''may_independently_approve'', JBool False),
        (''rules_version'', get_or_null assessment ''rules_version'')]))"

definition decision_facts :: "json dict \<Rightarrow> json \<Rightarrow> json \<Rightarrow> json dict" where
  "decision_facts merged qualified runtime = dict_update merged
     [(''dry_run_qualification'', qualified),
      (''decision_authority'', JStr ''deterministic_policy_and_authoritative_dry_run''),
      (''runtime_qualification'', runtime), (''provisional'', JBool False)]"

text \<open>What the twin learns from the evidence before it is decided.\<close>

definition rollback_applies :: "json dict \<Rightarrow> bool" where
  "rollback_applies rollback \<longleftrightarrow> get_or_null rollback ''applicability'' \<noteq> JStr ''not_applicable''"

definition rollback_facts ::
    "env \<Rightarrow> json dict \<Rightarrow> undo_assessment \<Rightarrow> json dict \<Rightarrow> json dict service" where
  "rollback_facts e rollback assessment evidence =
     (if rollback_applies rollback
      then
        bind (stored (clock e)) (\<lambda>now.
        bind (or_crash (enrich_rollback_proof assessment now evidence)) (\<lambda>a.
        ret (undo_assessment_json e a)))
      else ret rollback)"

definition attached_modes :: "json dict \<Rightarrow> bool \<Rightarrow> json dict" where
  "attached_modes modes applies = dict_update modes
     [(''dry-run'', JStr ''real_core''),
      (''rollback'', JStr (if applies then ''real_core'' else ''not_applicable''))]"

definition finished_simulation :: "env \<Rightarrow> json dict \<Rightarrow> string \<Rightarrow> json service" where
  "finished_simulation e simulation status =
     (if simulation = [] then ret (JObj [])
      else
        bind (stored (clock e)) (\<lambda>now.
        ret (JObj (dict_update simulation
          [(''state'', JStr (if status = ''passed'' then ''completed'' else ''completed_with_findings'')),
           (''evidence_status'', JStr status), (''completed_at'', JStr (env_isoformat e now)),
           (''mutation_performed'', JBool False)]))))"

definition attached_facts :: "env \<Rightarrow> json dict \<Rightarrow> undo_assessment \<Rightarrow> string \<Rightarrow> string \<Rightarrow> json dict \<Rightarrow> json dict service" where
  "attached_facts e facts assessment job status evidence =
     bind (or_crash (dict_field facts ''module_modes'')) (\<lambda>modes.
     bind (or_crash (dict_field facts ''rollback_twin'')) (\<lambda>rollback.
     bind (rollback_facts e rollback assessment evidence) (\<lambda>enriched.
     bind (or_crash (dict_field facts ''simulation'')) (\<lambda>simulation.
     bind (stored (clock e)) (\<lambda>now.
     bind (finished_simulation e simulation status) (\<lambda>finished.
     ret
       [(''module_modes'', JObj (attached_modes modes (rollback_applies rollback))),
        (''dry_run_job_id'', JStr job), (''dry_run_status'', JStr status),
        (''dry_run_evidence'', redact_value (JObj evidence)),
        (''command_fingerprint_hash'', get_or_null evidence ''command_fingerprint_hash''),
        (''dry_run_attached_at'', JStr (env_isoformat e now)), (''rollback_twin'', JObj enriched),
        (''simulation'', finished)]))))))"

definition decide_twin :: "env \<Rightarrow> string \<Rightarrow> json dict \<Rightarrow> policy_twin \<Rightarrow> string \<Rightarrow> json dict \<Rightarrow> twin_run service" where
  "decide_twin e twin learnt policy status evidence =
     bind (stored (clock e)) (\<lambda>now.
     let final = finalize_policy_twin e now policy evidence;
         merged = dict_set ''policy_twin'' (JObj (policy_twin_json e final)) learnt in
     bind (or_crash (py_dict (get_or_null merged ''runtime_behavior_twin''))) (\<lambda>runtime.
     bind (or_crash (qualification status evidence (dp_precedence_rule (pt_decision final)))) (\<lambda>qualified.
     bind (or_crash (runtime_qualification runtime)) (\<lambda>runtime_facts.
     let facts = decision_facts merged qualified runtime_facts in
     stored (persist_terminal_decision e twin
       (decision_of status (dp_level (pt_decision final)) (runtime_effect runtime))
       (plain_hash e (JObj facts)) facts)))))"

text \<open>The guards before the execution service is asked.\<close>

definition attach_existing :: "twin_run \<Rightarrow> string \<Rightarrow> (twin_run \<times> bool) service" where
  "attach_existing core job =
     bind (or_crash (py_dict (get_or_null (tw_facts core) ''dry_run_evidence''))) (\<lambda>existing.
     if get_or_null existing ''dry_run_job_id'' = JStr job then ret (core, True)
     else refuse ''terminal_twin_immutable'' ''A different dry-run cannot modify a terminal namespace twin.'' 409)"

definition CLOSED_STATES :: "string list" where
  "CLOSED_STATES = [''superseded'', ''expired'', ''cancelled'', ''failed'']"

definition verified_evidence ::
    "env \<Rightarrow> twin_service \<Rightarrow> twin_run \<Rightarrow> string \<Rightarrow> json dict \<Rightarrow> json dict \<Rightarrow> (string \<times> json dict \<times> int) service" where
  "verified_evidence e svc core job payload evidence =
     seqp (demand (evidence_mismatches core payload evidence = []) ''dry_run_evidence_mismatch''
       ''The dry-run evidence does not match this twin input boundary.'' 409)
     (bind (stored (clock e)) (\<lambda>now.
      case evidence_age svc evidence now of
        None \<Rightarrow> refuse ''invalid_dry_run_timestamp''
          ''Authoritative dry-run evidence has no valid completion timestamp.'' 409
      | Some age \<Rightarrow>
          seqp (demand (0 \<le> age \<and> age \<le> max_age svc) ''stale_dry_run_evidence''
            ''The dry-run evidence is outside the configured freshness window.'' 409)
          (seqp (demand (\<not> is_pending (evidence_status evidence)) ''dry_run_not_terminal''
            ''Only terminal authoritative dry-run evidence can be attached.'' 409)
          (bind (or_crash (qualified_evidence evidence)) (\<lambda>(status, qualified). ret (status, qualified, age))))))"

definition attach_verified ::
    "env \<Rightarrow> twin_run \<Rightarrow> policy_twin \<Rightarrow> undo_assessment \<Rightarrow> string \<Rightarrow> string \<Rightarrow> json dict \<Rightarrow> int \<Rightarrow> twin_run service" where
  "attach_verified e core policy assessment job status evidence age =
     bind (attached_facts e (tw_facts core) assessment job status evidence) (\<lambda>attached.
     bind (stored (merge_facts e (tw_id core) attached ''dry_run_evidence_verified''
       ''Authoritative dry-run evidence identity and freshness were verified.''
       [(''dry_run_job_id'', JStr job), (''status'', JStr status),
        (''command_fingerprint_hash'', get_or_null evidence ''command_fingerprint_hash''),
        (''age_seconds'', JInt age)])) (\<lambda>updated.
     bind (stored (TwinStore.transition e (tw_id core) ''dry_run_evidence_attached''
       ''Authoritative dry-run evidence attached to the namespace twin.''
       [(''dry_run_job_id'', JStr job), (''status'', JStr status), (''qualifies'', JBool (status = ''passed''))])) (\<lambda>_.
     bind (stored (TwinStore.transition e (tw_id core) ''decision_calculating''
       ''Deterministic decision axes are being combined with dry-run evidence.''
       [(''model_authority'', JBool False)])) (\<lambda>_.
     decide_twin e (tw_id core) (dict_update (tw_facts updated) attached) policy status evidence))))"

definition attach_dry_run_evidence ::
    "env \<Rightarrow> twin_service \<Rightarrow> policy_twin \<Rightarrow> undo_assessment \<Rightarrow> string \<Rightarrow> json dict \<Rightarrow> (twin_run \<times> bool) service" where
  "attach_dry_run_evidence e svc policy assessment twin payload =
     bind (stored (fetch twin)) (\<lambda>core.
     let job = stripped payload ''dry_run_job_id'' in
     seqp (demand (job \<noteq> []) ''dry_run_job_id_required''
       ''dry_run_job_id is required to attach authoritative evidence.'' 422)
     (if tw_final core then attach_existing core job
      else
        seqp (demand (tw_status core \<notin> set CLOSED_STATES) ''twin_not_attachable''
          ''Authoritative evidence cannot be attached to this twin lifecycle state.'' 409)
        (case ts_execution svc of
           None \<Rightarrow> refuse ''execution_service_unavailable'' ''The shared MoP Execution service is unavailable.'' 503
         | Some answers \<Rightarrow>
             bind (await_evidence svc answers job payload) (\<lambda>evidence.
             bind (verified_evidence e svc core job payload evidence) (\<lambda>(status, qualified, age).
             bind (attach_verified e core policy assessment job status qualified age) (\<lambda>row.
             ret (row, False)))))))"

section \<open>The dry run of a twin\<close>

definition job_of_twin :: "string \<Rightarrow> string" where
  "job_of_twin twin = ''twinjob_'' @ (if starts_with twin ''twin_'' then drop 5 twin else twin)"

definition bundle_of_twin :: "twin_run \<Rightarrow> string" where
  "bundle_of_twin core = ''twinbundle_'' @ take 24 (tw_bundle_hash core)"

definition bundle_request :: "twin_run \<Rightarrow> json \<Rightarrow> json dict" where
  "bundle_request core source =
     [(''bundle_id'', JStr (bundle_of_twin core)), (''source'', source),
      (''target_namespace'', JStr (tw_namespace core))]"

definition job_request :: "twin_run \<Rightarrow> json \<Rightarrow> json dict" where
  "job_request core snapshot_hash =
     [(''job_id'', JStr (job_of_twin (tw_id core))), (''bundle_id'', JStr (bundle_of_twin core)),
      (''target_namespace'', JStr (tw_namespace core)),
      (''source_namespace'', optional JStr (tw_source_namespace core)),
      (''execution_mode'', JStr ''dry_run_only''),
      (''job_name'', JStr (''Namespace Twin simulation '' @ tw_id core)),
      (''correlation_id'', JStr (''namespace-twin-'' @ tw_id core)),
      (''namespace_twin_input_hash'', JStr (tw_input_hash core)), (''bundle_hash'', JStr (tw_bundle_hash core)),
      (''snapshot_hash'', snapshot_hash)]"

definition create_simulation_job ::
    "(exec_call list \<Rightarrow> exec_call \<Rightarrow> json dict) \<Rightarrow> twin_run \<Rightarrow> json \<Rightarrow> unit service" where
  "create_simulation_job answers core source =
     bind (ask answers (RegisterBundle (bundle_request core source))) (\<lambda>registered.
     seqp (demand (answered registered) ''simulation_bundle_registration_failed''
       ''The authoritative simulation bundle could not be registered.'' 502)
     (bind (ask answers (ValidateBundle (bundle_of_twin core))) (\<lambda>validated.
      bind (or_crash (dict_field validated ''data'')) (\<lambda>validation.
      seqp (demand (answered validated \<and> get_or_null validation ''valid'' = JBool True)
        ''simulation_bundle_validation_failed''
        ''The authoritative simulation bundle did not pass execution validation.'' 409)
      (bind (or_crash (py_dict (get_or_null (tw_facts core) ''drift_baseline''))) (\<lambda>baseline.
       bind (ask answers (CreateJob (job_request core (get_or_null baseline ''hash'')))) (\<lambda>created.
       demand (answered created) ''simulation_job_creation_failed''
         ''The authoritative dry-run job could not be created.'' 502)))))))"

definition started_simulation :: "string \<Rightarrow> string \<Rightarrow> string \<Rightarrow> json dict" where
  "started_simulation job bundle_id started_at =
     [(''dry_run_job_id'', JStr job), (''dry_run_status'', JStr ''queued''),
      (''simulation'', JObj
        [(''mode'', JStr ''full_on_demand''), (''state'', JStr ''queued''), (''bundle_id'', JStr bundle_id),
         (''dry_run_job_id'', JStr job), (''started_at'', JStr started_at),
         (''mutation_performed'', JBool False)])]"

definition ensure_authoritative_dry_run ::
    "env \<Rightarrow> twin_service \<Rightarrow> twin_run \<Rightarrow> json \<Rightarrow> twin_run service" where
  "ensure_authoritative_dry_run e svc core source =
     (case ts_execution svc of
        None \<Rightarrow> refuse ''execution_service_unavailable'' ''The shared MoP Execution service is unavailable.'' 503
      | Some answers \<Rightarrow>
          if stripped (tw_facts core) ''dry_run_job_id'' \<noteq> [] then ret core
          else
            let job = job_of_twin (tw_id core); bundle_id = bundle_of_twin core in
            bind (ask answers (GetJob job)) (\<lambda>existing.
            seqp (if answered existing then ret () else create_simulation_job answers core source)
            (bind (ask answers (StartJob job)) (\<lambda>started.
             seqp (demand (answered started) ''simulation_job_start_failed''
               ''The authoritative dry-run job could not be started.'' 502)
             (bind (stored (clock e)) (\<lambda>now.
              stored (merge_facts e (tw_id core) (started_simulation job bundle_id (env_isoformat e now))
                ''authoritative_simulation_started''
                ''Authoritative namespace simulation dry-run was created and queued.''
                [(''dry_run_job_id'', JStr job), (''bundle_id'', JStr bundle_id),
                 (''execution_mode'', JStr ''dry_run_only''), (''mutation_performed'', JBool False)])))))))"

section \<open>Reconciliation\<close>

definition FINISHED_JOB_STATES :: "string list" where
  "FINISHED_JOB_STATES = [''completed'', ''failed'', ''cancelled'', ''decision_required'']"

definition observed_job_state :: "json dict \<Rightarrow> py_error + string" where
  "observed_job_state response =
     (if \<not> answered response then Inr ''unavailable''
      else
        sbind (py_dict (get_or_null response ''data'')) (\<lambda>data.
        sbind (dict_field data ''job'') (\<lambda>job.
        Inr (text_or (get_or_null job ''state'') ''unknown''))))"

definition note_progress ::
    "env \<Rightarrow> twin_run \<Rightarrow> string \<Rightarrow> string \<Rightarrow> json dict \<Rightarrow> twin_run service" where
  "note_progress e core job state simulation =
     (if state = text_or (get_or_null simulation ''state'') [] then ret core
      else
        bind (stored (clock e)) (\<lambda>now.
        stored (merge_facts e (tw_id core)
          [(''dry_run_status'', JStr state),
           (''simulation'', JObj (dict_update simulation
             [(''state'', JStr state), (''last_reconciled_at'', JStr (env_isoformat e now))]))]
          ''authoritative_simulation_progress''
          (''Authoritative simulation job state changed to '' @ state @ ''.'')
          [(''dry_run_job_id'', JStr job), (''job_state'', JStr state)])))"

definition reconcile_authoritative_dry_run ::
    "env \<Rightarrow> twin_service \<Rightarrow> policy_twin \<Rightarrow> undo_assessment \<Rightarrow> string \<Rightarrow> twin_run service" where
  "reconcile_authoritative_dry_run e svc policy assessment twin =
     bind (stored (fetch twin)) (\<lambda>core.
     if tw_final core \<or> tw_status core \<in> set CLOSED_STATES then ret core
     else
       let job = stripped (tw_facts core) ''dry_run_job_id'' in
       case ts_execution svc of
         None \<Rightarrow> ret core
       | Some answers \<Rightarrow>
           if job = [] then ret core
           else
             bind (ask answers (GetJob job)) (\<lambda>response.
             bind (or_crash (observed_job_state response)) (\<lambda>state.
             bind (or_crash (dict_field (tw_facts core) ''simulation'')) (\<lambda>simulation.
             if state \<notin> set FINISHED_JOB_STATES then note_progress e core job state simulation
             else
               bind (attach_dry_run_evidence e svc policy assessment twin [(''dry_run_job_id'', JStr job)])
                 (\<lambda>(row, _). ret row)))))"

section \<open>Later records\<close>

definition refresh_drift :: "env \<Rightarrow> twin_service \<Rightarrow> drift_capture option \<Rightarrow> string \<Rightarrow> string \<Rightarrow> twin_run service" where
  "refresh_drift e svc baseline twin actor =
     bind (stored (fetch twin)) (\<lambda>core.
     case baseline of
       None \<Rightarrow> refuse ''drift_baseline_unavailable''
         ''This twin has no deterministic drift baseline; regenerate it before refresh.'' 409
     | Some b \<Rightarrow>
         bind (stored (clock e)) (\<lambda>now.
         bind (or_crash (assess_drift e b (ts_collect svc (tw_namespace core)) now (tw_namespace core))) (\<lambda>a.
         stored (record_drift e twin (drift_assessment_json e a) actor))))"

definition replayed :: "replay_error + 'a \<Rightarrow> 'a service" where
  "replayed r = (case r of
     Inl (Refused code message) \<Rightarrow> refuse code message 409
   | Inl (Unreadable err) \<Rightarrow> raise_err (Crash err)
   | Inr x \<Rightarrow> ret x)"

definition record_replay :: "env \<Rightarrow> string \<Rightarrow> json dict \<Rightarrow> string \<Rightarrow> twin_run service" where
  "record_replay e twin payload actor =
     bind (stored (fetch twin)) (\<lambda>core.
     bind (stored (clock e)) (\<lambda>now.
     bind (replayed (build_replay_result e twin (tw_source_namespace core) (tw_namespace core)
       (str_or (tw_cluster core) ''configured-cluster'') payload now)) (\<lambda>replay.
     bind (stored (record_mop_replay e twin (replay_json e replay) actor)) (\<lambda>updated.
     seqp (demand (tw_decision updated = tw_decision core \<and> tw_version updated = tw_version core)
       ''replay_changed_decision_authority''
       ''Replay evidence must not rewrite the persisted baseline decision.'' 500)
     (ret updated)))))"

definition link_errors :: "twin_run \<Rightarrow> json dict \<Rightarrow> int \<Rightarrow> string list" where
  "link_errors core payload version =
     (let facts = tw_facts core; named = (\<lambda>d k. text_or (get_or_null d k) []);
          dry_run = named facts ''dry_run_job_id''; fingerprint = named facts ''command_fingerprint_hash'' in
      (if tw_final core then [] else [''Namespace Twin decision must be final before execution linkage.'']) @
      (if version = int (tw_version core) then []
       else [''Namespace Twin decision version changed before execution linkage.'']) @
      (if named payload ''bundle_hash'' = tw_bundle_hash core then []
       else [''Execution bundle hash does not match the Namespace Twin.'']) @
      (if truthy (get_or_null payload ''input_hash'') \<and>
          py_str (get_or_null payload ''input_hash'') \<noteq> tw_input_hash core
       then [''Execution input hash does not match the Namespace Twin.''] else []) @
      (if named payload ''target_namespace'' = tw_namespace core then []
       else [''Execution target namespace does not match the Namespace Twin.'']) @
      (if dry_run \<noteq> [] \<and> named payload ''authoritative_dry_run_job_id'' \<noteq> dry_run
       then [''Authoritative dry-run identity does not match the Namespace Twin.''] else []) @
      (if fingerprint \<noteq> [] \<and> truthy (get_or_null payload ''command_fingerprint_hash'') \<and>
          py_str (get_or_null payload ''command_fingerprint_hash'') \<noteq> fingerprint
       then [''Execution command fingerprint does not match the Namespace Twin.''] else []))"

definition execution_link_of :: "env \<Rightarrow> twin_run \<Rightarrow> json dict \<Rightarrow> instant \<Rightarrow> json dict" where
  "execution_link_of e core payload now = dict_update payload
     [(''twin_id'', JStr (tw_id core)), (''pre_execution_decision'', JStr (tw_decision core)),
      (''pre_execution_decision_version'', JInt (int (tw_version core))),
      (''linked_at'', JStr (env_isoformat e now))]"

definition link_execution :: "env \<Rightarrow> string \<Rightarrow> json dict \<Rightarrow> string \<Rightarrow> twin_run service" where
  "link_execution e twin payload actor =
     bind (stored (fetch twin)) (\<lambda>core.
     bind (or_crash (py_int (json_or (get_or_null payload ''decision_version'') (JInt 0)))) (\<lambda>version.
     seqp (demand (link_errors core payload version = []) ''execution_link_identity_mismatch''
       ''Execution outcome cannot be linked because canonical twin facts changed.'' 409)
     (bind (stored (clock e)) (\<lambda>now.
      stored (record_execution_link e twin (execution_link_of e core payload now) actor)))))"

section \<open>What the programs leave alone\<close>

lemma moves_fetched: "moves (store_next drift) (fetch twin)"
  by (simp add: moves_def fetch_def prog_defs stays split: option.split)

text \<open>The tables under the service move as the store moves.\<close>

definition db_next :: "bool \<Rightarrow> service_state \<Rightarrow> service_state \<Rightarrow> bool" where
  "db_next drift s t \<longleftrightarrow> store_next drift (sv_db s) (sv_db t)"

interpretation db_next: step_relation "db_next drift" for drift
  by unfold_locales (auto simp: db_next_def stays intro: store_next.trans)

text \<open>Nothing is written: only calls are made and clocks are read.\<close>

definition same_tables :: "service_state \<Rightarrow> service_state \<Rightarrow> bool" where
  "same_tables s t \<longleftrightarrow> (\<exists>n. sv_db t = (sv_db s)\<lparr>db_ticks := n\<rparr>)"

interpretation same_tables: step_relation same_tables
proof
  fix s t u
  show "same_tables s s" by (auto simp: same_tables_def intro: exI [of _ "db_ticks (sv_db s)"])
  assume "same_tables s t" "same_tables t u"
  then show "same_tables s u" by (auto simp: same_tables_def)
qed

lemma same_tables_clock: "moves same_tables (stored (clock e))"
  by (auto simp: moves_def stored_def clock_def same_tables_def)

text \<open>The calls that are made: old ones stay, new ones satisfy a predicate.\<close>

definition calls_grow :: "(exec_call \<Rightarrow> bool) \<Rightarrow> service_state \<Rightarrow> service_state \<Rightarrow> bool" where
  "calls_grow P s t \<longleftrightarrow> (\<exists>new. sv_calls t = sv_calls s @ new \<and> list_all P new)"

interpretation calls_grow: step_relation "calls_grow P" for P
  by unfold_locales (auto simp: calls_grow_def)

lemma stored_state: "sv_db (snd (stored m s)) = snd (m (sv_db s))" "sv_calls (snd (stored m s)) = sv_calls s"
  by (auto simp: stored_def split: prod.splits sum.splits)

lemma stored_Inr: "stored m s = (Inr x, t) \<longleftrightarrow> (\<exists>db. m (sv_db s) = (Inr x, db) \<and> t = s\<lparr>sv_db := db\<rparr>)"
  by (auto simp: stored_def split: prod.splits sum.splits)

lemma moves_stored: "moves (store_next drift) m \<Longrightarrow> moves (db_next drift) (stored m)"
  by (simp add: moves_def db_next_def stored_state)

text \<open>The calls of the service: the jobs it creates are dry runs.\<close>

fun simulation_call :: "exec_call \<Rightarrow> bool" where
  "simulation_call (CreateJob request) = (get_or_null request ''execution_mode'' = JStr ''dry_run_only'')"
| "simulation_call _ = True"

text \<open>
  The contract of a relation that every operation of the service keeps: it is kept by what keeps the
  tables sound and by the calls of a simulation.
\<close>

locale twin_relation = step_relation R for R :: "service_state \<Rightarrow> service_state \<Rightarrow> bool" +
  assumes stores: "store_next True (sv_db s) db \<Longrightarrow> R s (s\<lparr>sv_db := db\<rparr>)"
    and asks: "simulation_call c \<Longrightarrow> R s (s\<lparr>sv_calls := sv_calls s @ [c]\<rparr>)"
begin

lemma moves_stores: "moves (store_next True) m \<Longrightarrow> moves R (stored m)"
  unfolding moves_def
proof
  fix s assume "\<forall>s. store_next True s (snd (m s))"
  then have step: "R s (s\<lparr>sv_db := snd (m (sv_db s))\<rparr>)" by (intro stores) simp
  obtain r db where m: "m (sv_db s) = (r, db)" by force
  with step show "R s (snd (stored m s))" by (cases r) (simp_all add: stored_def)
qed

lemma moves_asks: "simulation_call c \<Longrightarrow> moves R (ask answers c)"
  using asks by (simp add: moves_def ask_def)

lemmas moves_tables =
  moves_stores [OF moves_transitioned] moves_stores [OF moves_cancel] moves_stores [OF moves_merge_facts]
  moves_stores [OF moves_decide] moves_stores [OF moves_drift] moves_stores [OF moves_replay]
  moves_stores [OF moves_link] moves_stores [OF moves_clock] moves_stores [OF moves_fetched]

lemma moves_demand: "moves R (demand ok code message status)"
  by (simp add: demand_def refuse_def moves_ret moves_raise)

lemma moves_refuse: "moves R (refuse code message status)"
  by (simp add: refuse_def moves_raise)

lemma moves_crash: "moves R (or_crash r)"
  by (simp add: or_crash_def moves_lift)

lemmas moves_service = step_intros moves_demand moves_refuse moves_crash moves_tables moves_asks

lemma moves_poll: "moves R (poll_evidence svc answers job deadline fuel)"
  by (induction fuel) (auto intro!: moves_service simp del: simulation_call.simps, simp_all)

lemma moves_attach: "moves R (attach_dry_run_evidence e svc policy assessment twin payload)"
  unfolding attach_dry_run_evidence_def attach_existing_def await_evidence_def verified_evidence_def
    attach_verified_def attached_facts_def rollback_facts_def finished_simulation_def decide_twin_def
  by (intro moves_service moves_poll)

lemma moves_ensure: "moves R (ensure_authoritative_dry_run e svc core source)"
  unfolding ensure_authoritative_dry_run_def create_simulation_job_def
  by (intro moves_service) (simp_all add: job_request_def get_or_null_def)

lemma moves_reconcile: "moves R (reconcile_authoritative_dry_run e svc policy assessment twin)"
  unfolding reconcile_authoritative_dry_run_def note_progress_def
  by (intro moves_service moves_attach) simp_all

lemma moves_refresh_drift: "moves R (refresh_drift e svc baseline twin actor)"
  unfolding refresh_drift_def by (intro moves_service) simp_all

lemma moves_record_replay: "moves R (record_replay e twin payload actor)"
  unfolding record_replay_def replayed_def
  by (intro moves_service) (auto simp: moves_refuse moves_raise split: replay_error.split)

lemma moves_link_execution: "moves R (link_execution e twin payload actor)"
  unfolding link_execution_def by (intro moves_service)

end

text \<open>The tables stay sound and grow, and the calls are those of simulations.\<close>

interpretation db_next: twin_relation "db_next True"
  by unfold_locales (simp_all add: db_next_def stays)

interpretation simulations: twin_relation "calls_grow simulation_call"
  by unfold_locales (simp_all add: calls_grow_def)

section \<open>Requests\<close>

datatype twin_request =
    AttachEvidence policy_twin undo_assessment string "json dict"
  | Reconcile policy_twin undo_assessment string
  | Simulate string json
  | RefreshDrift "drift_capture option" string string
  | RecordReplay string "json dict" string
  | LinkExecution string "json dict" string
  | CancelTwin string string

definition whatever :: "'a service \<Rightarrow> unit service" where
  "whatever m = (\<lambda>s. (Inr (), snd (m s)))"

fun serve :: "env \<Rightarrow> twin_service \<Rightarrow> twin_request \<Rightarrow> unit service" where
  "serve e svc (AttachEvidence policy assessment twin payload) =
     whatever (attach_dry_run_evidence e svc policy assessment twin payload)"
| "serve e svc (Reconcile policy assessment twin) =
     whatever (reconcile_authoritative_dry_run e svc policy assessment twin)"
| "serve e svc (Simulate twin source) =
     whatever (bind (stored (fetch twin)) (\<lambda>core. ensure_authoritative_dry_run e svc core source))"
| "serve e svc (RefreshDrift baseline twin actor) = whatever (refresh_drift e svc baseline twin actor)"
| "serve e svc (RecordReplay twin payload actor) = whatever (record_replay e twin payload actor)"
| "serve e svc (LinkExecution twin payload actor) = whatever (link_execution e twin payload actor)"
| "serve e svc (CancelTwin twin actor) = whatever (stored (cancel e twin actor))"

definition serve_all :: "env \<Rightarrow> twin_service \<Rightarrow> twin_request list \<Rightarrow> service_state \<Rightarrow> service_state" where
  "serve_all e svc requests s = fold (\<lambda>r s. snd (serve e svc r s)) requests s"

context twin_relation
begin

lemma moves_serve: "moves R (serve e svc r)"
proof -
  have whatever: "moves R m \<Longrightarrow> moves R (whatever m)" for m :: "'z service"
    by (simp add: moves_def whatever_def)
  show ?thesis
    by (cases r) (auto intro!: whatever moves_attach moves_reconcile moves_ensure moves_refresh_drift
      moves_record_replay moves_link_execution moves_service)
qed

lemma serve_all_moves: "R s (serve_all e svc requests s)"
proof (induction requests arbitrary: s)
  case (Cons r requests)
  have "R s (snd (serve e svc r s))" using moves_serve by (rule movesD)
  then have "R s (serve_all e svc requests (snd (serve e svc r s)))" using Cons by (rule trans)
  then show ?case by (simp add: serve_all_def)
qed (simp add: serve_all_def refl)

end

text \<open>
  C5. The requests to the service keep what was decided and only simulate: whatever is requested, in
  whatever order and with whatever answers of the execution service, a twin that is decided stays,
  with its decision, version and report hash, the tables stay sound, and every job that the service creates
  is a dry run.
\<close>

theorem requests_keep_decisions:
  assumes "store_ok (sv_db s)" and "r \<in> set (db_runs (sv_db s))" and "tw_final r"
  shows "store_ok (sv_db (serve_all e svc requests s)) \<and>
    (\<exists>r' \<in> set (db_runs (sv_db (serve_all e svc requests s))). tw_id r' = tw_id r \<and> tw_final r' \<and> tw_decision r' = tw_decision r \<and>
       tw_version r' = tw_version r \<and> tw_report_hash r' = tw_report_hash r) \<and>
    (\<exists>new. sv_calls (serve_all e svc requests s) = sv_calls s @ new \<and>
       (\<forall>request. CreateJob request \<in> set new \<longrightarrow> get_or_null request ''execution_mode'' = JStr ''dry_run_only''))"
proof -
  let ?t = "serve_all e svc requests s"
  have "db_next True s ?t" by (rule db_next.serve_all_moves)
  then have sound: "store_ok (sv_db ?t)" "evolves True (sv_db s) (sv_db ?t)"
    using assms(1) by (simp_all add: db_next_def store_next_def)
  obtain r' where r': "r' \<in> set (db_runs (sv_db ?t))" "row_next True r r'"
    using sound(2) assms(2) by (auto simp: evolves_def)
  have "calls_grow simulation_call s ?t" by (rule simulations.serve_all_moves)
  then obtain new where new: "sv_calls ?t = sv_calls s @ new" "list_all simulation_call new"
    by (auto simp: calls_grow_def)
  have "get_or_null request ''execution_mode'' = JStr ''dry_run_only''" if "CreateJob request \<in> set new" for request
    using new(2) that by (auto simp: list_all_iff)
  with sound(1) r' new(1) assms(3) show ?thesis by (auto simp: row_next_def intro!: bexI [of _ r'])
qed

section \<open>The wait ends\<close>

lemma poll_ends:
  assumes "\<And>n. length (sv_calls s) < n \<Longrightarrow> ts_monotonic svc n + 100000 \<le> ts_monotonic svc (Suc n)"
    and "deadline \<le> ts_monotonic svc (Suc (length (sv_calls s))) + 100000 * int fuel"
  shows "fst (poll_evidence svc answers job deadline (Suc fuel) s) \<noteq> Inl Unfinished \<and>
    length (sv_calls (snd (poll_evidence svc answers job deadline (Suc fuel) s))) \<le> length (sv_calls s) + Suc fuel"
  using assms
proof (induction fuel arbitrary: s)
  case 0
  then show ?case
    by (simp add: ask_def demand_def refuse_def or_crash_def prog_defs split: sum.split)
next
  case (Suc fuel)
  let ?c = "DryRunEvidence job" and ?n = "length (sv_calls s)"
  let ?s = "s\<lparr>sv_calls := sv_calls s @ [?c]\<rparr>"
  have IH: "fst (poll_evidence svc answers job deadline (Suc fuel) ?s) \<noteq> Inl Unfinished \<and>
      length (sv_calls (snd (poll_evidence svc answers job deadline (Suc fuel) ?s))) \<le> length (sv_calls ?s) + Suc fuel"
  proof (rule Suc.IH)
    show "length (sv_calls ?s) < n \<Longrightarrow> ts_monotonic svc n + 100000 \<le> ts_monotonic svc (Suc n)" for n
      using Suc.prems(1) by simp
    have "ts_monotonic svc (Suc ?n) + 100000 \<le> ts_monotonic svc (Suc (Suc ?n))" using Suc.prems(1) by simp
    then show "deadline \<le> ts_monotonic svc (Suc (length (sv_calls ?s))) + 100000 * int fuel"
      using Suc.prems(2) by simp
  qed
  show ?case
    unfolding poll_evidence.simps(2) [of svc answers job deadline "Suc fuel"]
    using IH by (simp add: ask_def demand_def refuse_def or_crash_def prog_defs del: poll_evidence.simps split: sum.split)
qed


section \<open>Where a decision comes from\<close>

lemma persisted_decision:
  assumes "persist_terminal_decision e twin decision report facts db = (Inr row, db')"
  shows "tw_decision row = decision \<and> tw_status row = decision \<and> tw_final row \<and> tw_report_hash row = Some report"
  using assms
  by (auto simp: persist_terminal_decision_def atomic_def fetch_def save_decision_def save_with_event_def
      insert_decision_def append_event_in_session_def bind_Inr seqp_Inr prog_defs with_decision_def
      clock_def fresh_id_def split: if_splits option.splits prod.splits sum.splits)

lemma demand_Inr: "demand ok code message status s = (Inr u, t) \<longleftrightarrow> ok \<and> t = s"
  by (auto simp: demand_def refuse_def prog_defs)

lemma or_crash_Inr: "or_crash r s = (Inr x, t) \<longleftrightarrow> r = Inr x \<and> t = s"
  by (cases r) (auto simp: or_crash_def prog_defs)

lemma gets_Inr: "gets f s = (Inr x, t) \<longleftrightarrow> x = f s \<and> t = s"
  by (auto simp: prog_defs)

lemma ret_Inr: "ret y s = (Inr x, t) \<longleftrightarrow> x = y \<and> t = s"
  by (auto simp: prog_defs)

lemma ask_Inr: "ask answers c s = (Inr x, t) \<longleftrightarrow> x = answers (sv_calls s) c \<and> t = s\<lparr>sv_calls := sv_calls s @ [c]\<rparr>"
  by (auto simp: ask_def)

lemma refuse_Inr: "\<not> refuse code message status s = (Inr x, t)"
  by (simp add: refuse_def prog_defs)

lemma stored_clock_Inr: "stored (clock e) s = (Inr now, t) \<longleftrightarrow>
    now = env_clock e (db_ticks (sv_db s)) \<and> t = s\<lparr>sv_db := (sv_db s)\<lparr>db_ticks := Suc (db_ticks (sv_db s))\<rparr>\<rparr>"
  by (auto simp: stored_def clock_def)

lemma stored_fetch_Inr: "stored (fetch twin) s = (Inr row, t) \<longleftrightarrow> find_run twin (sv_db s) = Some row \<and> t = s"
  by (cases "find_run twin (sv_db s)") (auto simp: stored_def fetch_def prog_defs)

lemmas service_Inr = bind_Inr seqp_Inr demand_Inr or_crash_Inr gets_Inr ret_Inr ask_Inr refuse_Inr stored_clock_Inr
  stored_fetch_Inr

lemma polled_evidence:
  "poll_evidence svc answers job deadline fuel s = (Inr evidence, t) \<Longrightarrow>
    (\<exists>calls. evidence_of (answers calls (DryRunEvidence job)) = Inr evidence) \<and> sv_db t = sv_db s"
proof (induction fuel arbitrary: s)
  case 0
  then show ?case by (simp add: prog_defs)
next
  case (Suc fuel)
  then obtain found where found: "evidence_of (answers (sv_calls s) (DryRunEvidence job)) = Inr found"
    and t: "evidence = found \<and> t = s\<lparr>sv_calls := sv_calls s @ [DryRunEvidence job]\<rparr> \<or>
      poll_evidence svc answers job deadline fuel (s\<lparr>sv_calls := sv_calls s @ [DryRunEvidence job]\<rparr>) = (Inr evidence, t)"
    by (auto simp: service_Inr split: if_splits)
  from t show ?case using Suc.IH found by auto
qed

lemma awaited_evidence:
  assumes "await_evidence svc answers job payload s = (Inr evidence, t)"
  shows "(\<exists>calls. evidence_of (answers calls (DryRunEvidence job)) = Inr evidence) \<and> sv_db t = sv_db s"
  using assms unfolding await_evidence_def service_Inr by (elim exE conjE) (auto dest: polled_evidence)

lemma verified_Inr:
  assumes "verified_evidence e svc core job payload evidence s = (Inr (status, qualified, age), t)"
  shows "evidence_mismatches core payload evidence = [] \<and> 0 \<le> age \<and> age \<le> max_age svc \<and>
    (\<exists>now. evidence_age svc evidence now = Some age) \<and> \<not> is_pending (evidence_status evidence) \<and>
    qualified_evidence evidence = Inr (status, qualified) \<and> same_tables s t"
proof -
  from assms obtain now u where start: "evidence_mismatches core payload evidence = []"
    "stored (clock e) s = (Inr now, u)"
    and rest: "(case evidence_age svc evidence now of
        None \<Rightarrow> refuse ''invalid_dry_run_timestamp''
          ''Authoritative dry-run evidence has no valid completion timestamp.'' 409
      | Some age \<Rightarrow>
          seqp (demand (0 \<le> age \<and> age \<le> max_age svc) ''stale_dry_run_evidence''
            ''The dry-run evidence is outside the configured freshness window.'' 409)
          (seqp (demand (\<not> is_pending (evidence_status evidence)) ''dry_run_not_terminal''
            ''Only terminal authoritative dry-run evidence can be attached.'' 409)
          (bind (or_crash (qualified_evidence evidence)) (\<lambda>(status, qualified). ret (status, qualified, age))))) u =
      (Inr (status, qualified, age), t)"
    unfolding verified_evidence_def seqp_Inr bind_Inr demand_Inr by blast
  have "same_tables s u" using start(2) by (auto simp: stored_clock_Inr same_tables_def)
  with start(1) rest show ?thesis
    by (cases "evidence_age svc evidence now") (auto simp: service_Inr)
qed

lemma qualified_status:
  assumes "qualified_evidence evidence = Inr (status, qualified)"
  shows "status = ''passed'' \<longleftrightarrow> evidence_status evidence = ''passed'' \<and>
      truthy (get_or_null evidence ''command_fingerprint_hash'')"
    and "status = ''passed'' \<Longrightarrow> qualified = evidence"
  using assms by (auto simp: qualified_evidence_def sbind_Inr split: if_splits)

lemma decision_of_cases:
  "decision_of status level effect = ''green'' \<longleftrightarrow>
     status = ''passed'' \<and> level = ''green'' \<and> effect \<notin> {''force_red'', ''force_amber'', ''require_review''}"
  "decision_of status level effect = ''red'' \<longleftrightarrow> status \<noteq> ''passed'' \<or> level = ''red'' \<or> effect = ''force_red''"
  by (auto simp: decision_of_def projected_decision_def str_or_def Let_def)

text \<open>The evidence adds nothing to the runtime assessment that the decision reads.\<close>

lemma attached_keys:
  assumes "attached_facts e facts assessment job status evidence s = (Inr attached, t)"
  shows "map fst attached = [''module_modes'', ''dry_run_job_id'', ''dry_run_status'', ''dry_run_evidence'',
      ''command_fingerprint_hash'', ''dry_run_attached_at'', ''rollback_twin'', ''simulation'']"
    and "same_tables s t"
proof -
  show "map fst attached = [''module_modes'', ''dry_run_job_id'', ''dry_run_status'', ''dry_run_evidence'',
      ''command_fingerprint_hash'', ''dry_run_attached_at'', ''rollback_twin'', ''simulation'']"
    using assms unfolding attached_facts_def bind_Inr ret_Inr by (elim exE conjE) simp
  have "moves same_tables (attached_facts e facts assessment job status evidence)"
    unfolding attached_facts_def rollback_facts_def finished_simulation_def or_crash_def
    by (intro step_intros same_tables_clock)
  from movesD [OF this, of s] assms show "same_tables s t" by simp
qed

lemma merged_facts:
  assumes "merge_facts e twin facts event_type message payload db = (Inr row, db')" and "find_run twin db = Some core"
  shows "tw_facts row = dict_update (tw_facts core) (redact_facts facts)"
  using assms
  by (auto simp: merge_facts_def atomic_def fetch_def save_with_event_def append_event_in_session_def bind_Inr
      seqp_Inr prog_defs with_facts_def clock_def fresh_id_def split: if_splits option.splits prod.splits sum.splits)

lemma update_other: "k \<notin> fst ` set d \<Longrightarrow> get_or_null (dict_update x d) k = get_or_null x k"
  by (simp add: get_or_null_def dict_get_update map_of_eq_None_iff [THEN iffD2])

lemma redacted_keys: "fst ` set (redact_facts d) = fst ` set d"
proof -
  have "map fst (redact_facts d) = map fst d" unfolding redact_facts_def redact_keys by simp
  then show ?thesis by (metis set_map)
qed

lemma decided_Inr:
  assumes "decide_twin e twin learnt policy status evidence s = (Inr row, t)"
  shows "\<exists>now runtime. py_dict (get_or_null learnt ''runtime_behavior_twin'') = Inr runtime \<and> tw_final row \<and>
    tw_status row = tw_decision row \<and>
    tw_decision row = decision_of status (dp_level (pt_decision (finalize_policy_twin e now policy evidence)))
      (runtime_effect runtime)"
proof -
  have other: "get_or_null (dict_set ''policy_twin'' v d) ''runtime_behavior_twin'' = get_or_null d ''runtime_behavior_twin''"
    for v d by (simp add: get_or_null_def dict_simps)
  from assms obtain now runtime report facts db db' where
    runtime: "py_dict (get_or_null learnt ''runtime_behavior_twin'') = Inr runtime"
    and saved: "persist_terminal_decision e twin
      (decision_of status (dp_level (pt_decision (finalize_policy_twin e now policy evidence))) (runtime_effect runtime))
      report facts db = (Inr row, db')"
    unfolding decide_twin_def Let_def other bind_Inr or_crash_Inr stored_Inr by (elim exE conjE) (rule that)
  from runtime persisted_decision [OF saved] show ?thesis by auto
qed

lemma attached_Inr:
  assumes "attach_verified e core policy assessment job status evidence age s = (Inr row, t)"
    and "find_run (tw_id core) (sv_db s) = Some core"
  shows "\<exists>now runtime. py_dict (get_or_null (tw_facts core) ''runtime_behavior_twin'') = Inr runtime \<and> tw_final row \<and>
    tw_status row = tw_decision row \<and>
    tw_decision row = decision_of status (dp_level (pt_decision (finalize_policy_twin e now policy evidence)))
      (runtime_effect runtime)"
proof -
  from assms(1) obtain attached u db updated db' v where
    attached: "attached_facts e (tw_facts core) assessment job status evidence s = (Inr attached, u)"
    and updated: "merge_facts e (tw_id core) attached ''dry_run_evidence_verified''
       ''Authoritative dry-run evidence identity and freshness were verified.''
       [(''dry_run_job_id'', JStr job), (''status'', JStr status),
        (''command_fingerprint_hash'', get_or_null evidence ''command_fingerprint_hash''),
        (''age_seconds'', JInt age)] (sv_db u) = (Inr updated, db')"
    and decided: "decide_twin e (tw_id core) (dict_update (tw_facts updated) attached) policy status evidence v = (Inr row, t)"
    unfolding attach_verified_def bind_Inr stored_Inr by (elim exE conjE) (rule that)
  note keys = attached_keys [OF attached]
  have "find_run (tw_id core) (sv_db u) = Some core"
    using keys(2) assms(2) by (auto simp: same_tables_def find_run_def)
  with merged_facts [OF updated] have "tw_facts updated = dict_update (tw_facts core) (redact_facts attached)" by simp
  moreover have "''runtime_behavior_twin'' \<notin> fst ` set attached"
    unfolding set_map [symmetric] keys(1) by simp
  ultimately have "get_or_null (dict_update (tw_facts updated) attached) ''runtime_behavior_twin'' =
      get_or_null (tw_facts core) ''runtime_behavior_twin''" by (simp add: update_other redacted_keys)
  with decided_Inr [OF decided] show ?thesis by simp
qed

text \<open>What the evidence must say about the twin.\<close>

definition names_twin :: "json dict \<Rightarrow> twin_run \<Rightarrow> bool" where
  "names_twin evidence core \<longleftrightarrow>
     py_str (get_or_null evidence ''target_namespace'') = tw_namespace core \<and>
     py_str (get_or_null evidence ''bundle_hash'') = tw_bundle_hash core \<and>
     py_str (get_or_null evidence ''input_hash'') = tw_input_hash core"

lemma no_mismatch: "evidence_mismatches core payload evidence = [] \<Longrightarrow> names_twin evidence core"
  by (auto simp: evidence_mismatches_def observed_mismatch_def names_twin_def Let_def split: if_splits)

definition green_evidence :: "env \<Rightarrow> instant \<Rightarrow> policy_twin \<Rightarrow> json dict \<Rightarrow> string \<Rightarrow> bool" where
  "green_evidence e now policy evidence effect \<longleftrightarrow>
     evidence_status evidence = ''passed'' \<and> truthy (get_or_null evidence ''command_fingerprint_hash'') \<and>
     dp_level (pt_decision (finalize_policy_twin e now policy evidence)) = ''green'' \<and>
     effect \<notin> {''force_red'', ''force_amber'', ''require_review''}"

definition red_evidence :: "env \<Rightarrow> instant \<Rightarrow> policy_twin \<Rightarrow> json dict \<Rightarrow> string \<Rightarrow> bool" where
  "red_evidence e now policy evidence effect \<longleftrightarrow>
     evidence_status evidence \<noteq> ''passed'' \<or> \<not> truthy (get_or_null evidence ''command_fingerprint_hash'') \<or>
     dp_level (pt_decision (finalize_policy_twin e now policy evidence)) = ''red'' \<or> effect = ''force_red''"


section \<open>A failed dry run\<close>

definition demo_waiting :: twin_run where
  "demo_waiting = demo_run\<lparr>tw_status := ''awaiting_dry_run'',
     tw_facts := [(''rollback_twin'', JObj [(''applicability'', JStr ''not_applicable'')])]\<rparr>"

definition demo_failed :: "json dict" where
  "demo_failed =
     [(''status'', JStr ''failed''), (''target_namespace'', JStr ''ns''), (''bundle_hash'', JStr ''h''),
      (''input_hash'', JStr ''i''), (''completed_at'', JStr ''now'')]"

definition demo_service :: twin_service where
  "demo_service =
     \<lparr>ts_execution = Some (\<lambda>calls c. [(''ok'', JBool True),
        (''data'', JObj [(''dry_run_evidence'', JObj demo_failed)])]),
      ts_monotonic = (\<lambda>n. 100000 * int n), ts_read_time = (\<lambda>t. Some 0), ts_max_age = 86400,
      ts_collect = (\<lambda>ns. demo_snapshot)\<rparr>"

definition demo_service_state :: service_state where
  "demo_service_state = \<lparr>sv_db = empty_db\<lparr>db_runs := [demo_waiting]\<rparr>, sv_calls = []\<rparr>"

definition demo_attachment :: "json dict" where
  "demo_attachment = [(''dry_run_job_id'', JStr ''j'')]"

lemma demo_evidence_checked:
  "stripped demo_attachment ''dry_run_job_id'' = ''j''" "wait_micros demo_attachment = Inr 0"
  "evidence_of [(''ok'', JBool True), (''data'', JObj [(''dry_run_evidence'', JObj demo_failed)])] = Inr demo_failed"
  "evidence_mismatches demo_waiting demo_attachment demo_failed = []"
  "evidence_age demo_service demo_failed 0 = Some 0" "evidence_status demo_failed = ''failed''"
  "qualified_evidence demo_failed = Inr (''failed'', demo_failed)" "max_age demo_service = 86400"
  "answered [(''ok'', JBool True), (''data'', JObj [(''dry_run_evidence'', JObj demo_failed)])]"
  by code_simp+

lemma demo_awaited:
  "await_evidence demo_service (the (ts_execution demo_service)) ''j'' demo_attachment demo_service_state =
     (Inr demo_failed, demo_service_state\<lparr>sv_calls := [DryRunEvidence ''j'']\<rparr>)"
  by (simp add: await_evidence_def demo_evidence_checked POLL_LIMIT_def numeral_eq_Suc or_crash_def prog_defs ask_def
      demand_def is_pending_def demo_service_def demo_service_state_def)

lemma demo_learnt:
  "\<exists>attached. attached_facts short_env (tw_facts demo_waiting) assessment ''j'' ''failed'' demo_failed s =
     (Inr attached, s\<lparr>sv_db := (sv_db s)\<lparr>db_ticks := Suc (db_ticks (sv_db s))\<rparr>\<rparr>)"
  by (simp add: attached_facts_def rollback_facts_def rollback_applies_def finished_simulation_def demo_waiting_def
    dict_field_def row_dict_def get_or_null_def json_or_def or_crash_def prog_defs stored_def clock_def)

lemma demo_qualified:
  "\<exists>q. qualification ''failed'' demo_failed precedence = Inr q" "\<exists>q. runtime_qualification [] = Inr q"
  by (simp_all add: qualification_def runtime_qualification_def demo_failed_def get_or_null_def py_items_def py_dict_def
    json_or_def)

lemma saved_row:
  assumes "find_run twin db = Some row" and "tw_id row' = twin"
  shows "\<exists>db'. save_with_event e row' event_type message payload db = (Inr row', db') \<and>
    find_run twin db' = Some row' \<and> db_decisions db' = db_decisions db"
proof -
  obtain ev m n where saved: "save_with_event e row' event_type message payload db =
      (Inr row', (save_run row' db)\<lparr>db_events := db_events db @ [ev], db_draws := m, db_ticks := n\<rparr>)"
    by (rule save_with_event_result)
  have "find (\<lambda>r. tw_id r = twin) (map (\<lambda>r. if tw_id r = tw_id row' then row' else r) rows) = Some row'"
    if "find (\<lambda>r. tw_id r = twin) rows = Some row" for rows
    using that assms(2) by (induction rows) (auto split: if_splits)
  with saved assms show ?thesis by (simp add: find_run_def save_run_def)
qed

lemma merged_row:
  assumes "find_run twin db = Some row" and "\<not> tw_final row" and "tw_status row \<notin> set TERMINAL_STATES"
  shows "\<exists>row' db'. merge_facts e twin facts event_type message payload db = (Inr row', db') \<and>
    find_run twin db' = Some row' \<and> \<not> tw_final row' \<and> tw_status row' = tw_status row \<and>
    tw_facts row' = dict_update (tw_facts row) (redact_facts facts) \<and> db_decisions db' = db_decisions db"
proof -
  let ?row' = "with_facts row (dict_update (tw_facts row) (redact_facts facts)) (env_clock e (db_ticks db))"
  let ?db = "db\<lparr>db_ticks := Suc (db_ticks db)\<rparr>"
  have found: "find_run twin ?db = Some row" "tw_id ?row' = twin"
    using assms(1) find_run_Some [OF assms(1)] by (simp_all add: find_run_def with_facts_def)
  obtain db' where "save_with_event e ?row' event_type message payload ?db = (Inr ?row', db')"
    "find_run twin db' = Some ?row'" "db_decisions db' = db_decisions ?db"
    using saved_row [OF found] by blast
  then show ?thesis
    using assms by (intro exI [of _ ?row'] exI [of _ db'])
      (simp add: merge_facts_def atomic_def fetch_def prog_defs clock_def with_facts_def)
qed

lemma transitioned_row:
  assumes "find_run twin db = Some row" and "\<not> tw_final row" and "tw_status row \<notin> set TERMINAL_STATES"
    and "allowed (tw_status row) target" and "tw_status row \<noteq> target"
  shows "\<exists>row' db'. TwinStore.transition e twin target message payload db = (Inr row', db') \<and>
    find_run twin db' = Some row' \<and> \<not> tw_final row' \<and> tw_status row' = target \<and>
    tw_facts row' = tw_facts row \<and> db_decisions db' = db_decisions db"
proof -
  let ?row' = "moved row target (env_clock e (db_ticks db))"
  let ?db = "db\<lparr>db_ticks := Suc (db_ticks db)\<rparr>"
  let ?payload = "dict_update [(''from_state'', JStr (tw_status row)), (''to_state'', JStr target)] payload"
  have found: "find_run twin ?db = Some row" "tw_id ?row' = twin"
    using assms(1) find_run_Some [OF assms(1)] by (simp_all add: find_run_def moved_def)
  obtain db' where "save_with_event e ?row' ''lifecycle_transitioned'' message ?payload ?db = (Inr ?row', db')"
    "find_run twin db' = Some ?row'" "db_decisions db' = db_decisions ?db"
    using saved_row [OF found] by blast
  then show ?thesis
    using assms by (intro exI [of _ ?row'] exI [of _ db'])
      (simp add: TwinStore.transition_def atomic_def fetch_def prog_defs clock_def moved_def)
qed

lemma decided_row:
  assumes "find_run twin db = Some row" and "\<not> tw_final row" and "tw_status row = ''decision_calculating''"
    and "db_decisions db = []" and "decision \<in> {''green'', ''amber'', ''red''}"
  shows "\<exists>row' db'. persist_terminal_decision e twin decision report facts db = (Inr row', db')"
proof -
  let ?row' = "with_decision row decision report facts (env_clock e (db_ticks db))"
  let ?d = "decision_row row decision report facts (''decision_'' @ env_uuid e (db_draws db)) (env_clock e (db_ticks db))"
  let ?db = "db\<lparr>db_ticks := Suc (db_ticks db), db_draws := Suc (db_draws db), db_decisions := [?d]\<rparr>"
  have found: "find_run twin ?db = Some row" "tw_id ?row' = twin"
    using assms(1) find_run_Some [OF assms(1)] by (simp_all add: find_run_def with_decision_def)
  obtain db' where "save_with_event e ?row' ''terminal_decision_persisted''
      ''Immutable namespace twin decision persisted.''
      [(''decision'', JStr decision), (''decision_version'', JInt (int (tw_version row))),
        (''report_hash'', JStr report)] ?db = (Inr ?row', db')"
    using saved_row [OF found] by blast
  then have "save_decision e row decision report facts db = (Inr ?row', db')"
    using insert_free [of ?d "db\<lparr>db_ticks := Suc (db_ticks db), db_draws := Suc (db_draws db)\<rparr>"] assms(4)
    by (simp add: save_decision_def clock_bind fresh_bind seqp_def bind_def [of "insert_decision d" for d])
  moreover have "decision \<notin> {''green'', ''amber'', ''red''} = False" using assms(5) by simp
  ultimately show ?thesis
    using assms(1-3) by (simp add: persist_terminal_decision_def atomic_def fetch_def prog_defs)
qed

lemma demo_decided_red:
  assumes "find_run ''t'' (sv_db s) = Some row" and "\<not> tw_final row" and "tw_status row = ''decision_calculating''"
    and "db_decisions (sv_db s) = []" and "get_or_null learnt ''runtime_behavior_twin'' = JNull"
  shows "\<exists>row' t. decide_twin e ''t'' learnt policy ''failed'' demo_failed s = (Inr row', t)"
proof -
  have other: "get_or_null (dict_set ''policy_twin'' v d) ''runtime_behavior_twin'' = get_or_null d ''runtime_behavior_twin''"
    for v d by (simp add: get_or_null_def dict_simps)
  have runtime: "py_dict JNull = Inr []" by (simp add: py_dict_def json_or_def)
  have red: "decision_of ''failed'' level effect \<in> {''green'', ''amber'', ''red''}" for level effect
    by (simp add: decision_of_def Let_def)
  let ?now = "env_clock e (db_ticks (sv_db s))"
  obtain q where q: "qualification ''failed'' demo_failed
      (dp_precedence_rule (pt_decision (finalize_policy_twin e ?now policy demo_failed))) = Inr q"
    using demo_qualified(1) by blast
  obtain r where r: "runtime_qualification [] = Inr r" using demo_qualified(2) by blast
  let ?db = "(sv_db s)\<lparr>db_ticks := Suc (db_ticks (sv_db s))\<rparr>"
  have found: "find_run ''t'' ?db = Some row" "db_decisions ?db = []" using assms by (simp_all add: find_run_def)
  show ?thesis
    unfolding decide_twin_def Let_def other assms(5) runtime service_Inr
    using decided_row [OF found(1) assms(2,3) found(2) red] by (simp add: q r stored_Inr)
qed

lemma demo_attach_verified:
  assumes "db_runs (sv_db s) = [demo_waiting]" and "db_decisions (sv_db s) = []"
  shows "\<exists>row t. attach_verified short_env demo_waiting policy assessment ''j'' ''failed'' demo_failed 0 s = (Inr row, t)"
proof -
  have fields: "\<not> tw_final demo_waiting" "tw_status demo_waiting = ''awaiting_dry_run''" "tw_id demo_waiting = ''t''"
    "get_or_null (tw_facts demo_waiting) ''runtime_behavior_twin'' = JNull"
    by (simp_all add: demo_waiting_def demo_run_def get_or_null_def)
  have table: "allowed ''awaiting_dry_run'' ''dry_run_evidence_attached''"
    "allowed ''dry_run_evidence_attached'' ''decision_calculating''"
    "''awaiting_dry_run'' \<notin> set TERMINAL_STATES" "''dry_run_evidence_attached'' \<notin> set TERMINAL_STATES"
    by code_simp+
  obtain attached where a: "attached_facts short_env (tw_facts demo_waiting) assessment ''j'' ''failed'' demo_failed s =
     (Inr attached, s\<lparr>sv_db := (sv_db s)\<lparr>db_ticks := Suc (db_ticks (sv_db s))\<rparr>\<rparr>)" (is "_ = (_, ?s)")
    using demo_learnt by blast
  have "find_run ''t'' (sv_db ?s) = Some demo_waiting" using assms(1) fields by (simp add: find_run_def)
  note merged = merged_row [OF this fields(1), unfolded fields, OF table(3)]
  let ?merge = "merge_facts short_env ''t'' attached ''dry_run_evidence_verified''
       ''Authoritative dry-run evidence identity and freshness were verified.''
       [(''dry_run_job_id'', JStr ''j''), (''status'', JStr ''failed''),
        (''command_fingerprint_hash'', get_or_null demo_failed ''command_fingerprint_hash''),
        (''age_seconds'', JInt 0)] (sv_db ?s)"
  obtain row1 db1 where row1: "?merge = (Inr row1, db1)" "find_run ''t'' db1 = Some row1" "\<not> tw_final row1"
    "tw_status row1 = ''awaiting_dry_run''" "tw_facts row1 = dict_update (tw_facts demo_waiting) (redact_facts attached)"
    "db_decisions db1 = []"
    using merged assms(2) by fastforce
  obtain row2 db2 where row2: "TwinStore.transition short_env ''t'' ''dry_run_evidence_attached''
       ''Authoritative dry-run evidence attached to the namespace twin.''
       [(''dry_run_job_id'', JStr ''j''), (''status'', JStr ''failed''), (''qualifies'', JBool False)] db1 = (Inr row2, db2)"
    "find_run ''t'' db2 = Some row2" "\<not> tw_final row2" "tw_status row2 = ''dry_run_evidence_attached''"
    "db_decisions db2 = []"
    using transitioned_row [OF row1(2,3), unfolded row1(4), OF table(3,1)] row1(6) by fastforce
  obtain row3 db3 where row3: "TwinStore.transition short_env ''t'' ''decision_calculating''
       ''Deterministic decision axes are being combined with dry-run evidence.''
       [(''model_authority'', JBool False)] db2 = (Inr row3, db3)"
    "find_run ''t'' db3 = Some row3" "\<not> tw_final row3" "tw_status row3 = ''decision_calculating''"
    "db_decisions db3 = []"
    using transitioned_row [OF row2(2,3), unfolded row2(4), OF table(4,2)] row2(5) by fastforce
  have "''runtime_behavior_twin'' \<notin> fst ` set attached"
    unfolding set_map [symmetric] attached_keys(1) [OF a] by simp
  then have "get_or_null (dict_update (tw_facts row1) attached) ''runtime_behavior_twin'' = JNull"
    by (simp add: row1(5) update_other fields redacted_keys)
  then obtain row4 t where "decide_twin short_env ''t'' (dict_update (tw_facts row1) attached) policy ''failed'' demo_failed
      (s\<lparr>sv_db := db3\<rparr>) = (Inr row4, t)"
    using demo_decided_red [of "s\<lparr>sv_db := db3\<rparr>" row3 "dict_update (tw_facts row1) attached" short_env policy] row3 by auto
  then show ?thesis
    using a row1(1) row2(1) row3(1) by (simp add: attach_verified_def fields bind_def stored_def)
qed

lemma demo_attached:
  "\<exists>row t. attach_dry_run_evidence short_env demo_service policy assessment ''t'' demo_attachment demo_service_state =
     (Inr (row, False), t)"
proof -
  let ?s = "demo_service_state\<lparr>sv_calls := [DryRunEvidence ''j'']\<rparr>"
  have found: "find_run ''t'' (sv_db demo_service_state) = Some demo_waiting"
    by (simp add: demo_service_state_def find_run_def demo_waiting_def demo_run_def)
  have fields: "\<not> tw_final demo_waiting" "tw_status demo_waiting = ''awaiting_dry_run''" "tw_id demo_waiting = ''t''"
    by (simp_all add: demo_waiting_def demo_run_def)
  have verified: "verified_evidence short_env demo_service demo_waiting ''j'' demo_attachment demo_failed ?s =
      (Inr (''failed'', demo_failed, 0), ?s\<lparr>sv_db := (sv_db ?s)\<lparr>db_ticks := 1\<rparr>\<rparr>)"
    by (simp add: verified_evidence_def demand_def demo_evidence_checked prog_defs stored_def clock_def short_env_def
      is_pending_def or_crash_def demo_service_state_def empty_db_def)
  have attached: "\<exists>row t. attach_verified short_env demo_waiting policy assessment ''j'' ''failed'' demo_failed 0
      (?s\<lparr>sv_db := (sv_db ?s)\<lparr>db_ticks := 1\<rparr>\<rparr>) = (Inr row, t)"
    by (rule demo_attach_verified) (simp_all add: demo_service_state_def empty_db_def)
  show ?thesis
    using found verified attached demo_awaited
    by (auto simp: attach_dry_run_evidence_def Let_def demo_evidence_checked fields CLOSED_STATES_def demand_def
      bind_def seqp_def ret_def stored_def fetch_def gets_def demo_service_def)
qed



definition demo_decided_state :: service_state where
  "demo_decided_state = \<lparr>sv_db = run_ops short_env demo_before empty_db, sv_calls = []\<rparr>"

lemma demo_decided_run:
  obtains r where "r \<in> set (db_runs (sv_db demo_decided_state))" "tw_status r = ''amber''" "tw_final r"
  using TwinStore.demo_decided by (auto simp: demo_decided_state_def)

theorem requests_keep_decisions_witness:
  "\<exists>r \<in> set (db_runs (sv_db demo_decided_state)). tw_decision r = ''amber'' \<and>
     (\<exists>r' \<in> set (db_runs (sv_db (serve_all short_env demo_service
         [RefreshDrift None ''t'' ''a'', CancelTwin ''t'' ''a''] demo_decided_state))).
        tw_id r' = tw_id r \<and> tw_decision r' = ''amber'')"
proof -
  obtain r where r: "r \<in> set (db_runs (sv_db demo_decided_state))" "tw_status r = ''amber''" "tw_final r"
    by (rule demo_decided_run)
  have ok: "store_ok (sv_db demo_decided_state)"
    unfolding demo_decided_state_def service_state.simps by (rule history_ok [OF demo_ops_ok(2)])
  then have "decision_ok (sv_db demo_decided_state) r" using r(1) by (simp add: store_ok_def list_all_iff)
  with r have "tw_decision r = ''amber''" by (auto simp: decision_ok_def TwinStore.decided_def)
  with requests_keep_decisions [OF ok r(1,3)] r(1) show ?thesis by metis
qed

section \<open>Reading a twin\<close>

text \<open>
  Reading a twin reconciles it first. When the job of its dry run has ended but the evidence is refused, for
  instance because nobody looked for more than a day, the error is what the reader gets: the twin cannot
  be read until it expires.
\<close>

definition stale_service :: twin_service where
  "stale_service = demo_service
     \<lparr>ts_execution := Some (\<lambda>calls c. [(''ok'', JBool True),
        (''data'', JObj [(''dry_run_evidence'', JObj demo_failed), (''job'', JObj [(''state'', JStr ''completed'')])])]),
      ts_read_time := (\<lambda>t. Some (- seconds 86401))\<rparr>"

definition stale_state :: service_state where
  "stale_state = \<lparr>sv_db = empty_db\<lparr>db_runs := [demo_waiting\<lparr>tw_facts := [(''dry_run_job_id'', JStr ''j'')]\<rparr>]\<rparr>, sv_calls = []\<rparr>"

lemma stale_twin_is_unreadable:
  "fst (reconcile_authoritative_dry_run short_env stale_service policy assessment ''t'' stale_state) =
     Inl (TwinError ''stale_dry_run_evidence'' ''The dry-run evidence is outside the configured freshness window.'' 409)"
proof -
  let ?core = "demo_waiting\<lparr>tw_facts := [(''dry_run_job_id'', JStr ''j'')]\<rparr>"
  let ?answer = "[(''ok'', JBool True),
        (''data'', JObj [(''dry_run_evidence'', JObj demo_failed), (''job'', JObj [(''state'', JStr ''completed'')])])]"
  have found: "find_run ''t'' (sv_db stale_state) = Some ?core"
    by (simp add: stale_state_def find_run_def demo_waiting_def demo_run_def)
  have fields: "\<not> tw_final ?core" "tw_status ?core \<notin> set CLOSED_STATES" "tw_id ?core = ''t''"
    by (simp_all add: demo_waiting_def demo_run_def CLOSED_STATES_def)
  have checked: "stripped (tw_facts ?core) ''dry_run_job_id'' = ''j''" "answered ?answer"
    "observed_job_state ?answer = Inr ''completed''" "dict_field (tw_facts ?core) ''simulation'' = Inr []"
    "''completed'' \<in> set FINISHED_JOB_STATES" "stripped [(''dry_run_job_id'', JStr ''j'')] ''dry_run_job_id'' = ''j''"
    "wait_micros [(''dry_run_job_id'', JStr ''j'')] = Inr 0" "evidence_of ?answer = Inr demo_failed"
    "evidence_mismatches ?core [(''dry_run_job_id'', JStr ''j'')] demo_failed = []"
    "evidence_age stale_service demo_failed 0 = Some 86401" "max_age stale_service = 86400"
    by code_simp+
  show ?thesis
    using found fields checked
    by (simp add: reconcile_authoritative_dry_run_def attach_dry_run_evidence_def await_evidence_def verified_evidence_def
      POLL_LIMIT_def numeral_eq_Suc demo_evidence_checked is_pending_def Let_def prog_defs ask_def demand_def
      refuse_def or_crash_def stored_def fetch_def clock_def short_env_def stale_service_def stale_state_def demo_service_def)
qed

text \<open>
  A job that is ready for its dry run and has the steps of its plan counts as partially dry-run, which is
  final for the service: attaching it before it has run makes the twin red for good.
\<close>

lemma waiting_job_counts_as_partial:
  assumes "job_st job = J_DRY_RUN_READY" and "\<not> job_dry_run_satisfied job" and "failed_dry_steps steps = []"
    and "st \<in> set steps" and "has_command st"
  shows "dry_run_status_of job steps = ''partial''" and "\<not> is_pending (dry_run_status_of job steps)"
proof -
  show partial: "dry_run_status_of job steps = ''partial''"
    using assms(2-5) by (auto simp: dry_run_status_of_def has_dry_run_steps_def list_ex_iff assms(1))
  show "\<not> is_pending (dry_run_status_of job steps)" unfolding partial by (simp add: is_pending_def)
qed

end
