(* ===== verification/Spec2Isabelle.thy ===== *)
theory Spec2Isabelle
  imports StateMachine Redaction Idempotency Policy Locks Repository Scheduler JobQueue PlanGraph
    PlanParser Agent ApiModels Api ApiBundles ApiQueries ApiEvidence ApiFrames ApiSafety
    ApiAuthority ApiRequests McpClients Artifacts Instructions Mcp DryRun Mutation Observations
    Rollback Validation Worker WorkerFrames WorkerSafety WorkerAuthority WorkerFairness
    JsonText TwinCanonical TwinDelta TwinPolicy TwinGraph TwinStore TwinDrift TwinRollback
    TwinReplay TwinService
begin

text \<open>
  Verification of the MoP execution agent
  (\<open>src/src/bosgenesis_mop_execution_agent\<close>; all paths below are relative to it).

  \<^bold>\<open>The program.\<close> The agent executes a machine plan (a method of procedure) against one namespace
  of a Kubernetes cluster. A job is created through the interface (\<open>api/service.py\<close>) from a bundle
  of artifacts, which is loaded and validated (\<open>artifacts/\<close>, \<open>plans/\<close>); the worker
  (\<open>runtime/worker.py\<close>) takes queued jobs, dry-runs their steps, waits for a human approval and
  for instructions of an external language model, and then mutates the cluster through MCP
  servers (\<open>mcp_clients/\<close>), one step at a time, under a namespace lock and an idempotency key.
  Everything that happens is observed, audited and remembered (\<open>persistence/\<close>, \<open>memory/\<close>).
  Beside it, the namespace twin (\<open>namespace_twin/\<close>) predicts what the plan would do to a namespace:
  it compares planned and live manifests, draws their dependency graph, and decides by fixed rules
  whether the plan is green, amber or red; twins and decisions are kept in tables of their own.

  \<^bold>\<open>Theories and sources.\<close> Definitions keep the names of the code; the order within a theory is
  that of the code.

  \<^item> \<open>Prelude\<close>, \<open>Json\<close>, \<open>PyRegex\<close>: Python's dictionaries, text operations, decoded JSON values
    with \<open>str\<close>, truth value and \<open>json.dumps\<close>, and the fragment of \<open>re\<close> that the agent uses; the
    programs \<open>('s, 'e, 'a) prog\<close> over an explicit state, whose errors keep the state reached so far.
  \<^item> \<open>Models\<close>: the enumerations and records of \<open>models/\<close>; \<open>StateMachine\<close>: \<open>state/machine.py\<close>.
  \<^item> \<open>Redaction\<close> (\<open>security/\<close>), \<open>Policy\<close> (\<open>policy/\<close>), \<open>Idempotency\<close>
    (\<open>persistence/idempotency.py\<close>), \<open>Locks\<close> (\<open>persistence/locks.py\<close>), \<open>Repository\<close>
    (\<open>persistence/repositories.py\<close>, \<open>persistence/audit.py\<close>, \<open>memory/store.py\<close>).
  \<^item> \<open>PlanGraph\<close>, \<open>PlanParser\<close> (\<open>plans/\<close>), \<open>Artifacts\<close> (\<open>artifacts/\<close>).
  \<^item> \<open>Scheduler\<close> (\<open>runtime/scheduler.py\<close>, \<open>runtime/waits.py\<close>), \<open>JobQueue\<close> (\<open>runtime/queue.py\<close>),
    \<open>Instructions\<close> (\<open>runtime/instructions.py\<close>), \<open>Observations\<close> (\<open>runtime/observations.py\<close>,
    \<open>runtime/decision_context.py\<close>), \<open>Mcp\<close>, \<open>DryRun\<close>, \<open>Mutation\<close>, \<open>Rollback\<close>, \<open>Validation\<close> (the
    executors of \<open>runtime/\<close>), \<open>McpClients\<close> (\<open>mcp_clients/\<close>).
  \<^item> \<open>Agent\<close>: the state that these parts share; \<open>Worker\<close>: every method of \<open>runtime/worker.py\<close>.
  \<^item> \<open>ApiModels\<close>, \<open>Api\<close>, \<open>ApiBundles\<close>, \<open>ApiQueries\<close>, \<open>ApiEvidence\<close>: every endpoint of
    \<open>api/service.py\<close>, over the world of its worker and the copies the service keeps.
  \<^item> \<open>JsonText\<close>: the layouts of \<open>json.dumps\<close> and \<open>json.loads\<close>. \<open>TwinCanonical\<close>
    (\<open>namespace_twin/canonicalization.py\<close>), \<open>TwinDelta\<close> (\<open>delta.py\<close>), \<open>TwinPolicy\<close>
    (\<open>policy_twin.py\<close>), \<open>TwinGraph\<close> (\<open>dependency_graph.py\<close>): from manifests to the decision;
    \<open>TwinStore\<close>: the tables of \<open>models.py\<close> and the transactions of \<open>persistence.py\<close>.
  \<^item> \<open>TwinDrift\<close> (\<open>namespace_twin/drift_twin.py\<close>): the namespace compared with its baseline;
    \<open>TwinRollback\<close> (\<open>rollback_twin.py\<close>): whether the plan can be undone, and how sure that is;
    \<open>TwinReplay\<close> (\<open>mop_replay_twin.py\<close>): evidence of a rehearsal elsewhere.
  \<^item> \<open>TwinService\<close> (\<open>service.py\<close>): the dry run of a twin, how its evidence becomes the decision, and
    the later records, as programs over the tables and the calls of the execution service.
  \<^item> \<open>WorkerFrames\<close>, \<open>WorkerSafety\<close>, \<open>WorkerAuthority\<close>, \<open>WorkerFairness\<close> and \<open>ApiFrames\<close>,
    \<open>ApiSafety\<close>, \<open>ApiAuthority\<close>, \<open>ApiRequests\<close>: what the worker and the whole service do over any
    sequence of operations.

  \<^bold>\<open>State.\<close> The repository is a snapshot of association lists (\<open>snapshot\<close>), as the JSON file has
  it; a \<open>world\<close> adds the counters of clock readings and fresh identifiers, the queue, the leases,
  the history of calls to the cluster and the memory of the worker process; an \<open>api\<close> adds the
  dictionaries of the service. A request or a tick of the worker is one step on this state;
  \<open>api_run\<close> and \<open>worker_run\<close> are sequences of them.

  \<^bold>\<open>What the lemmas show.\<close> Each component has the lemmas of its operations (what every branch
  returns and changes) in its own theory. Above them are:

  \<^item> invariants over sequences of operations: the audit log only grows and the repository stays well
    formed, jobs move only along the transition table, steps and phases of jobs stay apart;
  \<^item> safety: who may change the cluster, and for which namespace, for an executor alone, for the
    worker and for the whole service; dry runs never mutate; locks are exclusive until their lease
    ends; bundles are confined to their namespace; redaction clears sensitive keys;
  \<^item> exactness: transitions, policy decisions, instruction gate, scheduler choices, manifest
    application, validation and control requests do what their description says, on every input;
  \<^item> refinement and equivalence with plain descriptions (the queue, the dependency validation, the
    normalisation of plans), a round trip (restart), bounds (waits, tool calls), and the progress
    of queued jobs;
  \<^item> the namespace twin: canonical objects are stable and hide secrets, the delta has exactly the
    rows that plan and snapshot call for, the dependency graph is well formed and finds exactly the
    cycles, the decision is green only after a passed dry run, and the store keeps decisions,
    numbers events and moves twins along their own transition table, of which each can take only a
    few steps;
  \<^item> the later analyses of a twin: drift is reported exactly where a resource changed, and material
    drift supersedes the twin; trust in a rollback is high only when its proof has passed, and
    proof that comes later counts as much as proof that was there; a replay is accepted only from
    infrastructure of its own; a decision comes from recent evidence that names the twin, no request
    changes it later, and the wait for evidence ends.

  \<^bold>\<open>Interfaces.\<close> \<open>step_relation\<close> (\<open>Prelude\<close>) is the contract of a relation that programs keep: it
  is reflexive and transitive, so it passes through sequences, branches and loops.
  \<open>executor_relation\<close>, \<open>quiet_relation\<close>, \<open>queueless_relation\<close>, \<open>worker_relation\<close>, \<open>whole_relation\<close>
  (\<open>WorkerFrames\<close>) and \<open>record_relation\<close>, \<open>transition_relation\<close>, \<open>service_relation\<close>,
  \<open>whole_service_relation\<close> (\<open>ApiFrames\<close>) extend it by what groups of operations do; each is
  interpreted for the relations the theorems need (growth of the log, well-formed repository, calls
  that mutate, legal changes of jobs). \<open>keyed_store\<close> (the collections of the repository),
  \<open>lease_store\<close> (the redis double), \<open>unique_fifo\<close> (the queue) and \<open>mutation_gate\<close> (the gates of the
  policy) are contracts between a component and its clients.
  \<open>twin_relation\<close> (\<open>TwinService\<close>) is the contract of what the tables of a twin keep under the steps
  of the store and under the calls of the execution service; it is interpreted for both.

  \<^bold>\<open>Conventions.\<close> Text is ASCII. Instants are microseconds. Decoded values have text keys, no
  floating point numbers and no dates, and a boolean is never equal to an integer. A set that the
  code iterates over has the order of a list. Dumping and validating a model again changes nothing;
  the validation of incoming plans, instructions, approvals and policy inputs is a parameter, as
  are SHA-256, the decoders of YAML, the files of a bundle, the MCP servers and the transports,
  which answer a call knowing the calls before it. Readings of the clock and fresh identifiers
  are the values of functions at counters in the state. Base64 is decoded strictly. Decimal numbers
  have the 28 digits of Python's default context and no bound on their exponents; the order in
  which Python iterates over a set, where a result depends on it, is a parameter; a transaction
  whose operation fails leaves the tables as they were, and the widths of columns are not enforced.

  \<^bold>\<open>Bounds and fuel.\<close> Loops are structural recursions or functions with a measure: the loops over
  archives and directories descend into smaller entries, the search for a deployed release
  decreases the size of its work list, the cycle detection has ever more phases under way,
  the matcher of regular expressions carries fuel of the length of the remaining text for
  a repetition, which consumes at least a character in each round. The wait for a dry run carries
  302 rounds: it lasts at most 30 seconds, and its pauses are at least a tenth of a second.

  \<^bold>\<open>Not modelled.\<close> Log lines, metrics and tracing (\<open>observability/\<close>); routes and tools that
  forward requests (\<open>api/routes.py\<close>, \<open>mcp_server/\<close>); the REST adapters and the factory of
  executors (\<open>runtime/mcp_rest_adapters.py\<close>, \<open>runtime/factory.py\<close>); the text, HTML and PDF of
  reports (\<open>reports/generator.py\<close>, of which the record of an artifact is modelled); process
  start-up (\<open>entrypoints/\<close>). Races between threads are not modelled: a request is one step, and
  the worker ticks between requests. Failures of the file system, and the cache of unpacked
  archives, are left out. Of \<open>namespace_twin/\<close>, the creation
  of a twin from a bundle and the views of \<open>service.py\<close>, its routes (\<open>routes.py\<close>), the capture of
  live snapshots, the analyses of runtime behaviour and release notes, the audit report and the
  queries of \<open>persistence.py\<close> are not modelled.
\<close>

end
